(* ===== verification/Prelude.thy ===== *)
theory Prelude
  imports Main "HOL-Library.Sorting_Algorithms" "HOL-Library.AList"
    "HOL-Library.List_Lexorder" "HOL-Library.Char_ord"
begin

text \<open>
  Shared vocabulary of the development.

  \<^item> The errors the runtime throws, as values: one constructor per error class of the source, and
    the message each class builds (\<open>errorMessage\<close>).
  \<^item> Actions: a TypeScript method that may throw after it has already written to disk is a
    function from the state to a result and a new state, so the writes made before a throw
    survive it (\<open>act\<close>, \<open>ret\<close>, \<open>raise\<close>, \<open>bindA\<close>, \<open>catchA\<close>, \<open>finallyA\<close>, \<open>forA\<close>).
  \<^item> JavaScript helpers: decimal printing, \<open>padStart\<close>, insertion-ordered sets, the default
    string sort, the last element of an array.
  \<^item> The order lemma the journal rests on: twelve-digit zero-padded decimals are ordered as
    strings exactly as the numbers are.
\<close>

named_theorems act_simps \<open>unfolding rules of the action combinators\<close>

subsection \<open>Errors as values\<close>

datatype record_kind = Attempt_Kind | Attempt_Cleanup_Kind | Queue_Item_Kind

fun record_kind_name :: "record_kind \<Rightarrow> string" where
  "record_kind_name Attempt_Kind = ''attempt''"
| "record_kind_name Attempt_Cleanup_Kind = ''attempt-cleanup''"
| "record_kind_name Queue_Item_Kind = ''queue-item''"

text \<open>
  \<open>NodeError\<close> carries the code of a file system error (\<open>ENOENT\<close>, \<open>EEXIST\<close>); \<open>ZodError\<close> is
  the failure of a schema \<open>parse\<close> or of \<open>JSON.parse\<close>.
\<close>

datatype err =
    Error string
  | NodeError string
  | ZodError
  | TransitionConflictError record_kind string nat "nat option"
  | TransitionIntegrityError record_kind string nat string
  | IdempotencyConflictError string
  | ProposalLineageError string
  | ReconciliationConflictError string bool
  | LeaseReconciliationRequiredError string string
  | ResourceLimitError string
  | DispatchFailpointError string string
  | ReviewEvidenceError string string

definition digit_char :: "nat \<Rightarrow> char" where
  "digit_char n = ''0123456789'' ! n"

fun show_nat :: "nat \<Rightarrow> string" where
  "show_nat n = (if n < 10 then [digit_char n] else show_nat (n div 10) @ [digit_char (n mod 10)])"

declare show_nat.simps [simp del]

definition show_int :: "int \<Rightarrow> string" where
  "show_int i = (if i < 0 then CHR ''-'' # show_nat (nat (- i)) else show_nat (nat i))"

definition transitionConflictMessage :: "record_kind \<Rightarrow> string \<Rightarrow> nat \<Rightarrow> nat option \<Rightarrow> string" where
  "transitionConflictMessage recordKind recordId expectedRevision actualRevision =
     (case actualRevision of
        None \<Rightarrow> record_kind_name recordKind @ '' '' @ recordId @ '' revision ''
                 @ show_nat (expectedRevision + 1) @ '' was already claimed''
      | Some actual \<Rightarrow> record_kind_name recordKind @ '' '' @ recordId @ '' expected revision ''
                 @ show_nat expectedRevision @ '', found '' @ show_nat actual)"

definition transitionIntegrityMessage :: "record_kind \<Rightarrow> string \<Rightarrow> nat \<Rightarrow> string \<Rightarrow> string" where
  "transitionIntegrityMessage recordKind recordId revision message =
     record_kind_name recordKind @ '' '' @ recordId @ '' revision '' @ show_nat revision
     @ '' is incomplete: '' @ message"

fun errorMessage :: "err \<Rightarrow> string" where
  "errorMessage (Error m) = m"
| "errorMessage (NodeError code) = code"
| "errorMessage ZodError = ''invalid input''"
| "errorMessage (TransitionConflictError k i e a) = transitionConflictMessage k i e a"
| "errorMessage (TransitionIntegrityError k i r m) = transitionIntegrityMessage k i r m"
| "errorMessage (IdempotencyConflictError j) =
     ''Idempotency key for '' @ j @ '' was already used with a different request''"
| "errorMessage (ProposalLineageError m) = m"
| "errorMessage (ReconciliationConflictError m r) = m"
| "errorMessage (LeaseReconciliationRequiredError st d) =
     ''Dispatcher lease '' @ st @ '' requires reconciliation: '' @ d"
| "errorMessage (ResourceLimitError m) = ''Resource budget exceeded: '' @ m"
| "errorMessage (DispatchFailpointError p c) = ''Dispatch failpoint '' @ p @ '': '' @ c"
| "errorMessage (ReviewEvidenceError k m) = m"

subsection \<open>Actions: state passing with exceptions\<close>

type_synonym ('s, 'a) act = "'s \<Rightarrow> (err + 'a) \<times> 's"

definition ret :: "'a \<Rightarrow> ('s, 'a) act" where
  "ret x s = (Inr x, s)"

definition raise :: "err \<Rightarrow> ('s, 'a) act" where
  "raise e s = (Inl e, s)"

definition bindA :: "('s, 'a) act \<Rightarrow> ('a \<Rightarrow> ('s, 'b) act) \<Rightarrow> ('s, 'b) act" where
  "bindA m f s = (case m s of (Inl e, s') \<Rightarrow> (Inl e, s') | (Inr x, s') \<Rightarrow> f x s')"

text \<open>\<open>try { m } catch (e) { h e }\<close>.\<close>

definition catchA :: "('s, 'a) act \<Rightarrow> (err \<Rightarrow> ('s, 'a) act) \<Rightarrow> ('s, 'a) act" where
  "catchA m h s = (case m s of (Inl e, s') \<Rightarrow> h e s' | (Inr x, s') \<Rightarrow> (Inr x, s'))"

text \<open>\<open>try { m } finally { f }\<close>: an error of \<open>f\<close> replaces the outcome of \<open>m\<close>.\<close>

definition finallyA :: "('s, 'a) act \<Rightarrow> ('s, unit) act \<Rightarrow> ('s, 'a) act" where
  "finallyA m f s =
     (case m s of (r, s') \<Rightarrow> (case f s' of (Inl e, s'') \<Rightarrow> (Inl e, s'') | (Inr _, s'') \<Rightarrow> (r, s'')))"

text \<open>\<open>for (const x of xs) body x\<close>; a throw leaves the loop.\<close>

fun forA :: "('a \<Rightarrow> ('s, unit) act) \<Rightarrow> 'a list \<Rightarrow> ('s, unit) act" where
  "forA body [] = ret ()"
| "forA body (x # xs) = bindA (body x) (\<lambda>_. forA body xs)"

definition liftE :: "err + 'a \<Rightarrow> ('s, 'a) act" where
  "liftE r s = (r, s)"

definition bindE :: "err + 'a \<Rightarrow> ('a \<Rightarrow> err + 'b) \<Rightarrow> err + 'b" where
  "bindE r f = (case r of Inl e \<Rightarrow> Inl e | Inr x \<Rightarrow> f x)"

lemma bindE_eq_Inr: "bindE r f = Inr y \<longleftrightarrow> (\<exists>x. r = Inr x \<and> f x = Inr y)"
  by (simp add: bindE_def split: sum.split)

lemma bindE_simps [simp]: "bindE (Inl e) f = Inl e" "bindE (Inr x) f = f x"
  by (simp_all add: bindE_def)

definition getA :: "('s, 's) act" where
  "getA s = (Inr s, s)"

definition readsA :: "('s \<Rightarrow> err + 'a) \<Rightarrow> ('s, 'a) act" where
  "readsA f s = (f s, s)"

definition guardA :: "bool \<Rightarrow> err \<Rightarrow> ('s, unit) act" where
  "guardA b e = (if b then ret () else raise e)"

lemma ret_apply [simp, act_simps]: "ret x s = (Inr x, s)"
  by (simp add: ret_def)

lemma raise_apply [simp, act_simps]: "raise e s = (Inl e, s)"
  by (simp add: raise_def)

lemma liftE_apply [simp, act_simps]: "liftE r s = (r, s)"
  by (simp add: liftE_def)

lemma readsA_apply [simp, act_simps]: "readsA f s = (f s, s)"
  by (simp add: readsA_def)

lemma guardA_apply [simp, act_simps]: "guardA b e s = (if b then (Inr (), s) else (Inl e, s))"
  by (simp add: guardA_def)

lemma bindA_Inl: "m s = (Inl e, s') \<Longrightarrow> bindA m f s = (Inl e, s')"
  by (simp add: bindA_def)

lemma bindA_Inr: "m s = (Inr x, s') \<Longrightarrow> bindA m f s = f x s'"
  by (simp add: bindA_def)

lemma bindA_eq_Inr:
  "bindA m f s = (Inr y, t) \<longleftrightarrow> (\<exists>x s'. m s = (Inr x, s') \<and> f x s' = (Inr y, t))"
  by (auto simp: bindA_def split: prod.splits sum.splits)

lemma bindA_eq_Inl:
  "bindA m f s = (Inl e, t) \<longleftrightarrow>
     m s = (Inl e, t) \<or> (\<exists>x s'. m s = (Inr x, s') \<and> f x s' = (Inl e, t))"
  by (auto simp: bindA_def split: prod.splits sum.splits)

lemma bindA_ret [simp]: "bindA (ret x) f = f x"
  by (rule ext) (simp add: bindA_def)

lemma bindA_raise [simp]: "bindA (raise e) f = raise e"
  by (rule ext) (simp add: bindA_def)

lemma bindA_readsA: "bindA (readsA g) f s = (case g s of Inl e \<Rightarrow> (Inl e, s) | Inr x \<Rightarrow> f x s)"
  by (simp add: bindA_def)

text \<open>
  A property of the state that every step keeps, whatever the step returns: the rule by which the
  stores' invariants pass through loops and handlers.
\<close>

definition keeps :: "('s \<Rightarrow> bool) \<Rightarrow> ('s, 'a) act \<Rightarrow> bool" where
  "keeps P m \<longleftrightarrow> (\<forall>s. P s \<longrightarrow> P (snd (m s)))"

lemma keepsD: "keeps P m \<Longrightarrow> P s \<Longrightarrow> m s = (r, t) \<Longrightarrow> P t"
  by (metis keeps_def snd_conv)

lemma keepsI: "(\<And>s r t. P s \<Longrightarrow> m s = (r, t) \<Longrightarrow> P t) \<Longrightarrow> keeps P m"
  unfolding keeps_def by (metis surjective_pairing)

lemma keeps_ret [simp, intro]: "keeps P (ret x)"
  and keeps_raise [simp, intro]: "keeps P (raise e)"
  and keeps_liftE [simp, intro]: "keeps P (liftE r)"
  and keeps_readsA [simp, intro]: "keeps P (readsA f)"
  and keeps_guardA [simp, intro]: "keeps P (guardA b e)"
  by (auto simp: keeps_def)

lemma keeps_bindA [intro]:
  assumes "keeps P m" and "\<And>x. keeps P (f x)"
  shows "keeps P (bindA m f)"
  using assms unfolding keeps_def bindA_def
  by (fastforce split: prod.splits sum.splits)

lemma keeps_catchA [intro]:
  assumes "keeps P m" and "\<And>e. keeps P (h e)"
  shows "keeps P (catchA m h)"
  using assms unfolding keeps_def catchA_def
  by (fastforce split: prod.splits sum.splits)

lemma keeps_finallyA [intro]:
  assumes "keeps P m" and "keeps P f"
  shows "keeps P (finallyA m f)"
  using assms unfolding keeps_def finallyA_def
  by (fastforce split: prod.splits sum.splits)

lemma keeps_forA [intro]: "(\<And>x. x \<in> set xs \<Longrightarrow> keeps P (body x)) \<Longrightarrow> keeps P (forA body xs)"
  by (induction xs) auto

lemma keeps_if [intro]: "keeps P a \<Longrightarrow> keeps P b \<Longrightarrow> keeps P (if c then a else b)"
  by simp

lemma keeps_case_prod: "(\<And>a b. keeps P (f a b)) \<Longrightarrow> keeps P (case x of (a, b) \<Rightarrow> f a b)"
  by (cases x) simp

lemma keeps_case_option: "keeps P n \<Longrightarrow> (\<And>a. keeps P (f a)) \<Longrightarrow> keeps P (case x of None \<Rightarrow> n | Some a \<Rightarrow> f a)"
  by (cases x) simp_all

lemma keeps_Let: "(\<And>a. keeps P (f a)) \<Longrightarrow> keeps P (let a = x in f a)"
  by (simp add: Let_def)

named_theorems keeps_rules

lemmas keeps_control [keeps_rules] = keeps_bindA keeps_if keeps_case_prod keeps_case_option keeps_Let keeps_catchA
  keeps_forA keeps_ret keeps_raise keeps_liftE keeps_readsA keeps_guardA

text \<open>
  What a returned value and the state it is returned in satisfy, for runs from a state in which
  \<open>P\<close> holds.
\<close>

definition yields :: "('s \<Rightarrow> bool) \<Rightarrow> ('s, 'a) act \<Rightarrow> ('a \<Rightarrow> 's \<Rightarrow> bool) \<Rightarrow> bool" where
  "yields P m Q \<longleftrightarrow> (\<forall>s x t. P s \<longrightarrow> m s = (Inr x, t) \<longrightarrow> Q x t)"

lemma yieldsD: "yields P m Q \<Longrightarrow> P s \<Longrightarrow> m s = (Inr x, t) \<Longrightarrow> Q x t"
  by (simp add: yields_def)

lemma yieldsI: "(\<And>s x t. P s \<Longrightarrow> m s = (Inr x, t) \<Longrightarrow> Q x t) \<Longrightarrow> yields P m Q"
  by (simp add: yields_def)

lemma yields_bindA: "keeps P m \<Longrightarrow> (\<And>x. yields P (f x) Q) \<Longrightarrow> yields P (bindA m f) Q"
  unfolding yields_def bindA_eq_Inr by (meson keepsD)

text \<open>Where the value of the first action matters to the rest.\<close>

lemma yields_bindA_value:
  assumes "keeps P m" and "\<And>x s t. P s \<Longrightarrow> m s = (Inr x, t) \<Longrightarrow> R x" and "\<And>x. R x \<Longrightarrow> yields P (f x) Q"
  shows "yields P (bindA m f) Q"
  using assms unfolding yields_def bindA_eq_Inr by (meson keepsD)

lemma yields_ret: "(\<And>s. P s \<Longrightarrow> Q x s) \<Longrightarrow> yields P (ret x) Q"
  by (simp add: yields_def)

lemma yields_raise: "yields P (raise e) Q"
  by (simp add: yields_def)

lemma yields_if: "(c \<Longrightarrow> yields P a Q) \<Longrightarrow> (\<not> c \<Longrightarrow> yields P b Q) \<Longrightarrow> yields P (if c then a else b) Q"
  by simp

lemma yields_case_prod: "(\<And>a b. yields P (f a b) Q) \<Longrightarrow> yields P (case x of (a, b) \<Rightarrow> f a b) Q"
  by (cases x) simp

lemma yields_case_option:
  "yields P n Q \<Longrightarrow> (\<And>a. yields P (f a) Q) \<Longrightarrow> yields P (case x of None \<Rightarrow> n | Some a \<Rightarrow> f a) Q"
  by (cases x) simp_all

lemma yields_finallyA:
  assumes "yields P m Q" and "\<And>x. keeps (Q x) f"
  shows "yields P (finallyA m f) Q"
  using assms unfolding yields_def finallyA_def keeps_def
  by (fastforce split: prod.splits sum.splits)

lemma yields_Let: "(\<And>a. yields P (f a) Q) \<Longrightarrow> yields P (let a = x in f a) Q"
  by (simp add: Let_def)

lemmas yields_control = yields_bindA yields_ret yields_raise yields_if yields_case_prod yields_case_option yields_Let

subsection \<open>JavaScript helpers\<close>

text \<open>\<open>[...new Set(xs)]\<close>: the first occurrence of each element, in order.\<close>

definition js_unique :: "'a list \<Rightarrow> 'a list" where
  "js_unique xs = rev (remdups (rev xs))"

text \<open>\<open>xs.sort()\<close> on strings: by code units.\<close>

definition js_sort :: "string list \<Rightarrow> string list" where
  "js_sort xs = sort_key (\<lambda>x. x) xs"

text \<open>\<open>xs.at(-1)\<close>.\<close>

definition at_last :: "'a list \<Rightarrow> 'a option" where
  "at_last xs = (if xs = [] then None else Some (last xs))"

text \<open>A non-empty string is truthy; an optional string is truthy when it is present and not empty.\<close>

definition truthy :: "string option \<Rightarrow> bool" where
  "truthy x = (case x of None \<Rightarrow> False | Some s \<Rightarrow> s \<noteq> [])"

definition padStart :: "nat \<Rightarrow> char \<Rightarrow> string \<Rightarrow> string" where
  "padStart w c s = replicate (w - length s) c @ s"

definition is_digit :: "char \<Rightarrow> bool" where
  "is_digit c = (c \<in> set ''0123456789'')"

definition digit_val :: "char \<Rightarrow> nat" where
  "digit_val c = length (takeWhile (\<lambda>d. d \<noteq> c) ''0123456789'')"

text \<open>\<open>Number(s)\<close> on a string of digits.\<close>

definition parse_nat :: "string \<Rightarrow> nat" where
  "parse_nat s = foldl (\<lambda>a c. 10 * a + digit_val c) 0 s"

text \<open>The characters of \<open>/^[a-zA-Z0-9_.-]+$/\<close>.\<close>

text \<open>A digest: sixty-four lower case hexadecimal digits.\<close>

definition is_hex64 :: "string \<Rightarrow> bool" where
  "is_hex64 v \<longleftrightarrow> length v = 64 \<and> list_all (\<lambda>c. c \<in> set ''0123456789abcdef'') v"

definition safe_chars :: string where
  "safe_chars =
     ''abcdefghijklmnopqrstuvwxyzABCDEFGHIJKLMNOPQRSTUVWXYZ0123456789_.-''"

definition is_safe_segment :: "string \<Rightarrow> bool" where
  "is_safe_segment s = (s \<noteq> [] \<and> list_all (\<lambda>c. c \<in> set safe_chars) s)"

lemma set_js_unique [simp]: "set (js_unique xs) = set xs"
  by (simp add: js_unique_def)

lemma distinct_js_unique [simp]: "distinct (js_unique xs)"
  by (simp add: js_unique_def)

lemma js_unique_id: "distinct xs \<Longrightarrow> js_unique xs = xs"
  by (simp add: js_unique_def distinct_remdups_id)

lemma js_unique_Nil [simp]: "js_unique [] = []"
  by (simp add: js_unique_def)

lemma set_js_sort [simp]: "set (js_sort xs) = set xs"
  by (simp add: js_sort_def)

lemma distinct_js_sort [simp]: "distinct (js_sort xs) = distinct xs"
  by (simp add: js_sort_def)

lemma js_sort_eq_Nil [simp]: "js_sort xs = [] \<longleftrightarrow> xs = []"
  by (metis set_empty set_js_sort)

lemma sorted_js_sort: "sorted_wrt (\<le>) (js_sort xs)"
  unfolding js_sort_def using sorted_sort_key [of "\<lambda>x. x" xs] by simp

lemma js_sort_cong_set:
  assumes "set xs = set ys"
  shows "js_sort (js_unique xs) = js_sort (js_unique ys)"
  unfolding js_sort_def
  by (rule sorted_distinct_set_unique) (simp_all add: assms)

lemma at_last_js_sort:
  "at_last (js_sort xs) = Some m \<longleftrightarrow> m \<in> set xs \<and> (\<forall>x\<in>set xs. x \<le> m)"
proof (cases "xs = []")
  case False
  let ?ys = "js_sort xs"
  have ne: "?ys \<noteq> []" using False by simp
  have mem: "last ?ys \<in> set xs"
    using last_in_set [OF ne] by simp
  have le: "x \<le> last ?ys" if "x \<in> set xs" for x
  proof -
    have "x \<in> set ?ys" using that by simp
    then obtain i where i: "i < length ?ys" "x = ?ys ! i"
      by (metis in_set_conv_nth)
    show ?thesis
    proof (cases "i = length ?ys - 1")
      case True
      then show ?thesis using i ne by (simp add: last_conv_nth)
    next
      case False
      then have "i < length ?ys - 1" using i(1) by simp
      then have "?ys ! i \<le> ?ys ! (length ?ys - 1)"
        using sorted_wrt_nth_less [OF sorted_js_sort, of i "length ?ys - 1" xs] ne by simp
      then show ?thesis using i ne by (simp add: last_conv_nth)
    qed
  qed
  show ?thesis using ne mem le
    by (auto simp: at_last_def intro: antisym)
qed (simp add: at_last_def js_sort_def)

subsection \<open>Zero-padded decimals\<close>

lemma less_10_cases:
  "(n::nat) < 10 \<Longrightarrow> n = 0 \<or> n = 1 \<or> n = 2 \<or> n = 3 \<or> n = 4 \<or> n = 5 \<or> n = 6 \<or> n = 7 \<or> n = 8 \<or> n = 9"
  by arith

lemma digit_val_digit_char [simp]: "n < 10 \<Longrightarrow> digit_val (digit_char n) = n"
  by (drule less_10_cases) (auto simp: digit_val_def digit_char_def)

lemma is_digit_digit_char [simp]: "n < 10 \<Longrightarrow> is_digit (digit_char n)"
  by (drule less_10_cases) (auto simp: is_digit_def digit_char_def)

lemma digit_char_0 [simp]: "digit_char 0 = CHR ''0''"
  by (simp add: digit_char_def)

lemma digit_char_inj: "n < 10 \<Longrightarrow> m < 10 \<Longrightarrow> digit_char n = digit_char m \<longleftrightarrow> n = m"
  by (metis digit_val_digit_char)

fun dig_lt :: "nat \<Rightarrow> bool" where
  "dig_lt n = list_all (\<lambda>m. (digit_char n < digit_char m) = (n < m)) [0..<10]"

lemma digit_char_less:
  assumes "n < 10" "m < 10"
  shows "digit_char n < digit_char m \<longleftrightarrow> n < m"
proof -
  have "list_all dig_lt [0..<10]" by code_simp
  then have "dig_lt n" using assms(1) by (simp add: list_all_iff del: dig_lt.simps)
  then show ?thesis using assms(2) by (simp add: list_all_iff)
qed

fun digits_w :: "nat \<Rightarrow> nat \<Rightarrow> string" where
  "digits_w 0 n = []"
| "digits_w (Suc w) n = digits_w w (n div 10) @ [digit_char (n mod 10)]"

lemma length_digits_w [simp]: "length (digits_w w n) = w"
  by (induction w arbitrary: n) auto

lemma digits_w_digits: "list_all is_digit (digits_w w n)"
  by (induction w arbitrary: n) auto

lemma digits_w_0: "digits_w w 0 = replicate w (CHR ''0'')"
  by (induction w) (auto simp: replicate_append_same)

lemma length_show_nat: "n < 10 ^ w \<Longrightarrow> 0 < w \<Longrightarrow> length (show_nat n) \<le> w"
proof (induction w arbitrary: n)
  case (Suc w)
  show ?case
  proof (cases "n < 10")
    case True
    then show ?thesis by (simp add: show_nat.simps [of n])
  next
    case False
    with Suc.prems have w: "0 < w" by (cases w) auto
    from Suc.prems have "n div 10 < 10 ^ w" by auto
    from Suc.IH [OF this w] False show ?thesis by (simp add: show_nat.simps [of n])
  qed
qed simp

lemma padStart_show_nat: "n < 10 ^ w \<Longrightarrow> 0 < w \<Longrightarrow> padStart w (CHR ''0'') (show_nat n) = digits_w w n"
proof (induction w arbitrary: n)
  case (Suc w)
  show ?case
  proof (cases "n < 10")
    case True
    then show ?thesis
      by (simp add: show_nat.simps [of n] padStart_def digits_w_0)
  next
    case False
    with Suc.prems have w: "0 < w" by (cases w) auto
    from Suc.prems have d: "n div 10 < 10 ^ w" by auto
    from Suc.IH [OF d w] length_show_nat [OF d w] False show ?thesis
      by (simp add: show_nat.simps [of n] padStart_def)
  qed
qed simp

lemma parse_nat_snoc: "parse_nat (s @ [c]) = 10 * parse_nat s + digit_val c"
  by (simp add: parse_nat_def)

lemma parse_nat_digits_w: "n < 10 ^ w \<Longrightarrow> parse_nat (digits_w w n) = n"
proof (induction w arbitrary: n)
  case 0
  then show ?case by (simp add: parse_nat_def)
next
  case (Suc w)
  then have "n div 10 < 10 ^ w" by auto
  from Suc.IH [OF this] show ?case by (simp add: parse_nat_snoc)
qed

lemma list_less_snoc:
  fixes xs ys :: "'a::linorder list"
  assumes "length xs = length ys"
  shows "xs @ [a] < ys @ [b] \<longleftrightarrow> xs < ys \<or> xs = ys \<and> a < b"
  using assms by (induction xs ys rule: list_induct2) auto

lemma digits_w_less: "n < 10 ^ w \<Longrightarrow> m < 10 ^ w \<Longrightarrow> digits_w w n < digits_w w m \<longleftrightarrow> n < m"
proof (induction w arbitrary: n m)
  case (Suc w)
  have d: "n div 10 < 10 ^ w" "m div 10 < 10 ^ w" using Suc.prems by auto
  have inj: "digits_w w (n div 10) = digits_w w (m div 10) \<longleftrightarrow> n div 10 = m div 10"
    by (metis d parse_nat_digits_w)
  have "n < m \<longleftrightarrow> n div 10 < m div 10 \<or> n div 10 = m div 10 \<and> n mod 10 < m mod 10"
    using div_mult_mod_eq [of n 10] div_mult_mod_eq [of m 10] mod_less_divisor [of 10 n]
      mod_less_divisor [of 10 m] by linarith
  then show ?case
    using Suc.IH [OF d] inj by (simp add: list_less_snoc digit_char_less)
qed simp

end
