(* ===== verification/Contracts.thy ===== *)
theory Contracts
  imports Complex_Main Prelude
begin

text \<open>
  The data of the runtime: the schemas of \<open>src/src/contracts\<close> as records and datatypes, each with
  the bounds its schema checks.

  Conventions. A schema is a record whose fields carry a prefix of the schema's name
  (\<open>am_status\<close> is \<open>status\<close> of the attempt manifest); an enumeration is a datatype with a function
  giving its wire name; an optional field is an option. Time stamps are milliseconds since the
  epoch (\<open>timestamp\<close>), the value that the ISO strings of the source denote. A predicate
  \<open>..._valid\<close> holds the lengths, ranges and cross-field checks of the schema; the shapes of
  identifiers the runtime generates itself (UUIDs, hexadecimal digests, ISO dates) are not
  checked again. A document on disk is \<open>Parsed v\<close> when \<open>schema.parse(JSON.parse(text))\<close> yields
  \<open>v\<close>, and \<open>Unparsable\<close> when either step throws.
\<close>

type_synonym timestamp = int

datatype 'v doc = Parsed 'v | Unparsable

fun parse_doc :: "'v doc \<Rightarrow> err + 'v" where
  "parse_doc (Parsed v) = Inr v"
| "parse_doc Unparsable = Inl ZodError"

text \<open>Reading a file that may be absent.\<close>

fun read_doc :: "'v doc option \<Rightarrow> err + 'v" where
  "read_doc None = Inl (NodeError ''ENOENT'')"
| "read_doc (Some d) = parse_doc d"

definition opt_nonempty :: "string option \<Rightarrow> bool" where
  "opt_nonempty x = (case x of None \<Rightarrow> True | Some s \<Rightarrow> s \<noteq> [])"

subsection \<open>Resource budgets (contracts/resources.ts)\<close>

record resource_limits =
  rl_attemptTimeoutMs :: int
  rl_maxCommands :: int
  rl_maxAttemptsPerJob :: int
  rl_maxAutomaticRetries :: int
  rl_maxChangedPaths :: int
  rl_maxPatchBytes :: int
  rl_maxLogBytes :: int
  rl_maxArtifactBytes :: int
  rl_maxWorktreeBytes :: int
  rl_maxLineageContributions :: int
  rl_maxExternalResources :: int
  rl_gitTimeoutMs :: int
  rl_cleanupTimeoutMs :: int
  rl_minimumFreeDiskBytes :: int
  rl_terminalRetentionMs :: int
  rl_reviewedRetentionMs :: int
  rl_gcProposalTtlMs :: int

definition in_range :: "int \<Rightarrow> int \<Rightarrow> int \<Rightarrow> bool" where
  "in_range lo hi x \<longleftrightarrow> lo \<le> x \<and> x \<le> hi"

definition resourceLimits_valid :: "'a resource_limits_scheme \<Rightarrow> bool" where
  "resourceLimits_valid l \<longleftrightarrow>
     in_range 1000 86400000 (rl_attemptTimeoutMs l) \<and>
     in_range 1 256 (rl_maxCommands l) \<and>
     in_range 1 256 (rl_maxAttemptsPerJob l) \<and>
     in_range 0 16 (rl_maxAutomaticRetries l) \<and>
     in_range 1 10000 (rl_maxChangedPaths l) \<and>
     in_range 1024 1073741824 (rl_maxPatchBytes l) \<and>
     in_range 1024 1073741824 (rl_maxLogBytes l) \<and>
     in_range 1024 10737418240 (rl_maxArtifactBytes l) \<and>
     in_range 1024 1099511627776 (rl_maxWorktreeBytes l) \<and>
     in_range 1 256 (rl_maxLineageContributions l) \<and>
     in_range 0 256 (rl_maxExternalResources l) \<and>
     in_range 1000 600000 (rl_gitTimeoutMs l) \<and>
     in_range 1000 600000 (rl_cleanupTimeoutMs l) \<and>
     in_range 0 1099511627776 (rl_minimumFreeDiskBytes l) \<and>
     in_range 60000 31536000000 (rl_terminalRetentionMs l) \<and>
     in_range 60000 31536000000 (rl_reviewedRetentionMs l) \<and>
     in_range 60000 86400000 (rl_gcProposalTtlMs l)"

record owner_resource_profile =
  op_profileId :: string
  op_limits :: resource_limits

definition ownerResourceProfile_valid :: "owner_resource_profile \<Rightarrow> bool" where
  "ownerResourceProfile_valid p \<longleftrightarrow>
     is_safe_segment (op_profileId p) \<and> resourceLimits_valid (op_limits p)"

record resource_budget = resource_limits +
  rb_profileId :: string
  rb_profileFingerprint :: string

definition resourceBudget_valid :: "resource_budget \<Rightarrow> bool" where
  "resourceBudget_valid b \<longleftrightarrow> resourceLimits_valid b \<and> is_safe_segment (rb_profileId b)"

subsection \<open>Jobs (contracts/job.ts)\<close>

text \<open>Arbitrary JSON, for adapter options; a number is the token \<open>JSON.stringify\<close> prints.\<close>

datatype json =
    JNull
  | JBool bool
  | JNum string
  | JStr string
  | JArr "json list"
  | JObj "(string \<times> json) list"

record command_spec =
  cs_executable :: string
  cs_args :: "string list"
  cs_cwd :: "string option"
  cs_inheritEnv :: "string list"
  cs_timeoutMs :: "int option"

datatype boundary_request = HostWorktreeRequest | ExternalSandboxRequest string

record sandbox_binding =
  sb_profileId :: string
  sb_profileFingerprint :: string
  sb_driver :: string
  sb_dockerExecutable :: string
  sb_image :: string
  sb_minimumEngineVersion :: string
  sb_allowedExecutables :: "string list"
  sb_user :: string
  sb_workspaceMount :: string
  sb_memoryBytes :: int
  sb_cpus :: rat
  sb_pidsLimit :: int
  sb_tmpfsBytes :: int

datatype execution_boundary = HostWorktree | ExternalSandbox sandbox_binding

datatype task_class = Implementation | Test | Documentation | Analysis | Review

record path_scope =
  ps_allowedPaths :: "string list"
  ps_forbiddenPaths :: "string list"
  ps_protectedPaths :: "string list"

record job_request =
  jr_objective :: string
  jr_taskClass :: task_class
  jr_repositoryPath :: string
  jr_baseRef :: string
  jr_adapterId :: string
  jr_adapterOptions :: "(string \<times> json) list"
  jr_scope :: path_scope
  jr_contextRefs :: "string list"
  jr_constraints :: "string list"
  jr_escalateWhen :: "string list"
  jr_setupCommands :: "command_spec list"
  jr_acceptanceCommands :: "command_spec list"
  jr_timeoutMs :: int
  jr_retainWorkspace :: bool
  jr_executionBoundary :: boundary_request
  jr_idempotencyKey :: "string option"

record job_repository =
  re_root :: string
  re_requestedRef :: string
  re_baseRevision :: string

record job_execution =
  ex_timeoutMs :: int
  ex_retainWorkspace :: bool
  ex_boundary :: execution_boundary

record job_contract =
  jc_jobId :: string
  jc_requestFingerprint :: string
  jc_idempotencyKey :: string
  jc_createdAt :: timestamp
  jc_objective :: string
  jc_taskClass :: task_class
  jc_repository :: job_repository
  jc_adapterId :: string
  jc_adapterOptions :: "(string \<times> json) list"
  jc_scope :: path_scope
  jc_contextRefs :: "string list"
  jc_constraints :: "string list"
  jc_escalateWhen :: "string list"
  jc_setupCommands :: "command_spec list"
  jc_acceptanceCommands :: "command_spec list"
  jc_execution :: job_execution
  jc_resources :: resource_budget

subsection \<open>Attempts (contracts/attempt.ts)\<close>

datatype attempt_status =
    AReserved | AClaimed | APreparing | ARunning | AVerifying
  | ACompleted | AFailed | ANeedsInput | ACancelled

fun attempt_status_name :: "attempt_status \<Rightarrow> string" where
  "attempt_status_name AReserved = ''reserved''"
| "attempt_status_name AClaimed = ''claimed''"
| "attempt_status_name APreparing = ''preparing''"
| "attempt_status_name ARunning = ''running''"
| "attempt_status_name AVerifying = ''verifying''"
| "attempt_status_name ACompleted = ''completed''"
| "attempt_status_name AFailed = ''failed''"
| "attempt_status_name ANeedsInput = ''needs-input''"
| "attempt_status_name ACancelled = ''cancelled''"

record launch_owner =
  lo_instanceId :: string
  lo_processId :: nat
  lo_claimedAt :: timestamp

datatype containment_kind = Windows_Job | Posix_Process_Group

record process_containment =
  ct_kind :: containment_kind
  ct_ownerPid :: nat
  ct_kernelEnforced :: bool
  ct_killOnOwnerClose :: bool

record guardian_base =
  gb_nonce :: string
  gb_guardianPid :: nat
  gb_parentPid :: nat
  gb_createdAt :: timestamp
  gb_workerPid :: "nat option"

datatype process_guardian =
    GuardianV1 (guardian_base: guardian_base)
  | GuardianV2 (guardian_base: guardian_base) (guardian_containment: process_containment)

definition guardianPid :: "process_guardian \<Rightarrow> nat" where
  "guardianPid g = gb_guardianPid (guardian_base g)"

datatype evidence_status = EProven | EFailed | EUnknown

fun evidence_status_name :: "evidence_status \<Rightarrow> string" where
  "evidence_status_name EProven = ''proven''"
| "evidence_status_name EFailed = ''failed''"
| "evidence_status_name EUnknown = ''unknown''"

datatype termination_method =
    Not_Started | Windows_Job_Terminate_And_Empty | Windows_Job_Owner_Exit
  | Posix_Process_Group_Empty | Guardian_Exit_Unverified

record process_termination =
  pt_status :: evidence_status
  pt_termMethod :: termination_method
  pt_observedAt :: timestamp
  pt_detail :: "string option"

datatype output_stream = Stdout | Stderr

record output_limit =
  ol_stream :: output_stream
  ol_limitBytes :: nat
  ol_observedBytes :: nat

record process_execution_result =
  px_pid :: "nat option"
  px_exitCode :: "int option"
  px_signal :: "string option"
  px_timedOut :: bool
  px_cancelled :: bool
  px_outputLimit :: "output_limit option"
  px_durationMs :: nat
  px_containment :: "process_containment option"
  px_termination :: process_termination

record process_result = process_execution_result +
  pr_cleanup :: "process_execution_result option"

record proposal_contribution =
  pcn_jobId :: string
  pcn_attemptId :: string
  pcn_jobRequestFingerprint :: string
  pcn_sourceBaseRevision :: string
  pcn_patchBaseRevision :: string
  pcn_patchPath :: string
  pcn_patchSha256 :: string
  pcn_patchBytes :: nat
  pcn_verificationPath :: string
  pcn_verificationSha256 :: string

datatype lineage_status = Lineage_Pending | Lineage_Composed | Lineage_Rejected

record proposal_lineage =
  pl_sourceBaseRevision :: string
  pl_directParentAttemptIds :: "string list"
  pl_contributions :: "proposal_contribution list"
  pl_status :: lineage_status
  pl_derivedRevision :: "string option"
  pl_composedAt :: "timestamp option"
  pl_failure :: "string option"

datatype resource_status = Resource_Active | Resource_Released

record external_resource =
  er_resourceId :: string
  er_driver :: string
  er_profileId :: string
  er_profileFingerprint :: string
  er_image :: string
  er_status :: resource_status
  er_registeredAt :: timestamp
  er_releasedAt :: "timestamp option"
  er_cleanupExecutable :: string
  er_cleanupArgs :: "string list"
  er_cleanupCwd :: string

datatype profile_file_role = Role_Executable | Role_Harness | Role_Configuration

record worker_profile_file =
  wf_role :: profile_file_role
  wf_path :: string
  wf_size :: nat
  wf_sha256 :: string

datatype profile_status = Profile_Complete | Profile_Unresolved

datatype output_format = Output_Jsonl | Output_Text

datatype host_execution = File_Edit_Only | Command_Capable

datatype model_identity = Model_Required | Model_Not_Applicable

record profile_adapter =
  pa_id :: string
  pa_label :: string
  pa_executable :: string
  pa_outputFormat :: output_format
  pa_safetyMode :: string
  pa_hostExecution :: "host_execution option"
  pa_modelIdentity :: model_identity

record worker_execution_profile =
  wp_recordedAt :: timestamp
  wp_status :: profile_status
  wp_adapter :: profile_adapter
  wp_adapterOptionsFingerprint :: string
  wp_invocationFingerprint :: string
  wp_modelSelector :: "string option"
  wp_attributes :: "(string \<times> string) list"
  wp_files :: "worker_profile_file list"
  wp_unresolvedReasons :: "string list"
  wp_profileFingerprint :: string

datatype failure_kind =
    FK_Invalid_Job | FK_Adapter_Unavailable | FK_Workspace_Failed | FK_Setup_Failed
  | FK_Spawn_Failed | FK_Worker_Exit | FK_Proposal_Capture_Failed | FK_Timeout
  | FK_Resource_Limit | FK_Cancelled | FK_Orphaned | FK_Composition_Failed
  | FK_Orchestrator_Error

record attempt_failure =
  fl_kind :: failure_kind
  fl_message :: string

record attempt_workspace =
  ws_path :: string
  ws_baseRevision :: string
  ws_retained :: bool

record attempt_invocation =
  iv_executable :: string
  iv_args :: "string list"
  iv_cwd :: string
  iv_environmentKeys :: "string list"

record attempt_artifacts =
  ar_job :: string
  ar_manifest :: string
  ar_stdout :: string
  ar_stderr :: string
  ar_proposalPatch :: string
  ar_repositoryStatus :: string
  ar_changedPaths :: string
  ar_verification :: string
  ar_cleanup :: "string option"

datatype review_disposition =
    Not_Requested | Review_Pending | Review_Accepted | Review_Rejected | Review_Superseded

fun review_disposition_name :: "review_disposition \<Rightarrow> string" where
  "review_disposition_name Not_Requested = ''not-requested''"
| "review_disposition_name Review_Pending = ''pending''"
| "review_disposition_name Review_Accepted = ''accepted''"
| "review_disposition_name Review_Rejected = ''rejected''"
| "review_disposition_name Review_Superseded = ''superseded''"

datatype verification_status = V_NotRun | V_Running | V_Eligible | V_Ineligible

datatype schema_version = Schema_V1 | Schema_V2

record attempt_manifest =
  am_schema :: schema_version
  am_attemptId :: string
  am_jobId :: string
  am_ordinal :: nat
  am_adapterId :: string
  am_status :: attempt_status
  am_revision :: nat
  am_dispatchOperationId :: "string option"
  am_launchOwner :: "launch_owner option"
  am_createdAt :: timestamp
  am_startedAt :: "timestamp option"
  am_finishedAt :: "timestamp option"
  am_workspace :: "attempt_workspace option"
  am_guardian :: "process_guardian option"
  am_lineage :: "proposal_lineage option"
  am_externalResources :: "external_resource list"
  am_invocation :: "attempt_invocation option"
  am_workerProfile :: "worker_execution_profile option"
  am_process :: "process_result option"
  am_artifacts :: attempt_artifacts
  am_failure :: "attempt_failure option"
  am_cleanupError :: "string option"
  am_reviewDisposition :: review_disposition
  am_verificationStatus :: verification_status

definition artifacts_valid :: "attempt_artifacts \<Rightarrow> bool" where
  "artifacts_valid a \<longleftrightarrow>
     ar_job a \<noteq> [] \<and> ar_manifest a \<noteq> [] \<and> ar_stdout a \<noteq> [] \<and> ar_stderr a \<noteq> [] \<and>
     ar_proposalPatch a \<noteq> [] \<and> ar_repositoryStatus a \<noteq> [] \<and> ar_changedPaths a \<noteq> [] \<and>
     ar_verification a \<noteq> [] \<and> opt_nonempty (ar_cleanup a)"

definition contribution_valid :: "proposal_contribution \<Rightarrow> bool" where
  "contribution_valid c \<longleftrightarrow>
     pcn_jobId c \<noteq> [] \<and> pcn_attemptId c \<noteq> [] \<and> pcn_patchPath c \<noteq> [] \<and> pcn_verificationPath c \<noteq> []"

definition proposalLineage_valid :: "proposal_lineage \<Rightarrow> bool" where
  "proposalLineage_valid l \<longleftrightarrow>
     1 \<le> length (pl_directParentAttemptIds l) \<and> length (pl_directParentAttemptIds l) \<le> 256 \<and>
     list_all (\<lambda>p. p \<noteq> []) (pl_directParentAttemptIds l) \<and>
     1 \<le> length (pl_contributions l) \<and> length (pl_contributions l) \<le> 256 \<and>
     list_all contribution_valid (pl_contributions l) \<and> opt_nonempty (pl_failure l)"

definition externalResource_valid :: "external_resource \<Rightarrow> bool" where
  "externalResource_valid r \<longleftrightarrow>
     is_safe_segment (er_resourceId r) \<and> er_driver r = ''docker'' \<and> er_profileId r \<noteq> [] \<and>
     er_image r \<noteq> [] \<and> er_cleanupExecutable r \<noteq> [] \<and> er_cleanupCwd r \<noteq> []"

definition attemptManifest_valid :: "attempt_manifest \<Rightarrow> bool" where
  "attemptManifest_valid m \<longleftrightarrow>
     am_attemptId m \<noteq> [] \<and> am_jobId m \<noteq> [] \<and> 0 < am_ordinal m \<and> am_adapterId m \<noteq> [] \<and>
     (case am_workspace m of None \<Rightarrow> True | Some w \<Rightarrow> ws_path w \<noteq> [] \<and> ws_baseRevision w \<noteq> []) \<and>
     (case am_lineage m of None \<Rightarrow> True | Some l \<Rightarrow> proposalLineage_valid l) \<and>
     list_all externalResource_valid (am_externalResources m) \<and>
     (case am_invocation m of None \<Rightarrow> True | Some i \<Rightarrow> iv_executable i \<noteq> [] \<and> iv_cwd i \<noteq> []) \<and>
     artifacts_valid (am_artifacts m) \<and>
     (case am_failure m of None \<Rightarrow> True | Some f \<Rightarrow> fl_message f \<noteq> []) \<and>
     opt_nonempty (am_cleanupError m)"

definition createReservedAttempt ::
  "string \<Rightarrow> string \<Rightarrow> nat \<Rightarrow> string \<Rightarrow> timestamp \<Rightarrow> attempt_artifacts \<Rightarrow> proposal_lineage option \<Rightarrow>
   string option \<Rightarrow> err + attempt_manifest" where
  "createReservedAttempt jobId attemptId ordinal adapterId createdAt artifacts lineage dispatchOperationId =
     (let m = \<lparr>am_schema = Schema_V2, am_attemptId = attemptId, am_jobId = jobId, am_ordinal = ordinal,
        am_adapterId = adapterId, am_status = AReserved, am_revision = 0,
        am_dispatchOperationId = dispatchOperationId, am_launchOwner = None, am_createdAt = createdAt,
        am_startedAt = None, am_finishedAt = None, am_workspace = None, am_guardian = None,
        am_lineage = lineage, am_externalResources = [], am_invocation = None,
        am_workerProfile = None, am_process = None, am_artifacts = artifacts, am_failure = None,
        am_cleanupError = None, am_reviewDisposition = Not_Requested,
        am_verificationStatus = V_NotRun\<rparr>
      in if attemptManifest_valid m then Inr m else Inl ZodError)"

definition isAttemptTerminal :: "attempt_status \<Rightarrow> bool" where
  "isAttemptTerminal st = (st \<in> set [ACompleted, AFailed, ANeedsInput, ACancelled])"

subsection \<open>Cleanup evidence (contracts/cleanup.ts)\<close>

datatype subject_kind = Process_Tree | External_Resource_Subject | Workspace_Subject

fun subject_kind_name :: "subject_kind \<Rightarrow> string" where
  "subject_kind_name Process_Tree = ''process-tree''"
| "subject_kind_name External_Resource_Subject = ''external-resource''"
| "subject_kind_name Workspace_Subject = ''workspace''"

record cleanup_subject =
  su_kind :: subject_kind
  su_id :: string

record cleanup_requirement =
  rq_subject :: cleanup_subject
  rq_registeredAt :: timestamp
  rq_deadlineMs :: int
  rq_guardian :: "process_guardian option"

datatype cleanup_method =
    CM_Process_Runner | CM_Windows_Job_Owner_Exit | CM_External_Resource_Command
  | CM_Workspace_Remove | CM_Cleanup_Deadline | CM_Legacy_Unverified

record cleanup_evidence =
  ce_evidenceId :: string
  ce_subject :: cleanup_subject
  ce_status :: evidence_status
  ce_cleanupMethod :: cleanup_method
  ce_observedAt :: timestamp
  ce_detail :: "string option"
  ce_termination :: "process_termination option"

datatype cleanup_status = C_NotRequired | C_Pending | C_Proven | C_Failed | C_Unknown

fun cleanup_status_name :: "cleanup_status \<Rightarrow> string" where
  "cleanup_status_name C_NotRequired = ''not-required''"
| "cleanup_status_name C_Pending = ''pending''"
| "cleanup_status_name C_Proven = ''proven''"
| "cleanup_status_name C_Failed = ''failed''"
| "cleanup_status_name C_Unknown = ''unknown''"

record attempt_cleanup_record =
  cr_attemptId :: string
  cr_jobId :: string
  cr_revision :: nat
  cr_updatedAt :: timestamp
  cr_status :: cleanup_status
  cr_requirements :: "cleanup_requirement list"
  cr_evidence :: "cleanup_evidence list"

definition cleanupSubject_valid :: "cleanup_subject \<Rightarrow> bool" where
  "cleanupSubject_valid s \<longleftrightarrow> 1 \<le> length (su_id s) \<and> length (su_id s) \<le> 256"

definition cleanupRequirement_valid :: "cleanup_requirement \<Rightarrow> bool" where
  "cleanupRequirement_valid r \<longleftrightarrow> cleanupSubject_valid (rq_subject r) \<and> in_range 100 300000 (rq_deadlineMs r)"

definition cleanupEvidence_valid :: "cleanup_evidence \<Rightarrow> bool" where
  "cleanupEvidence_valid e \<longleftrightarrow> cleanupSubject_valid (ce_subject e) \<and>
     (case ce_detail e of None \<Rightarrow> True | Some d \<Rightarrow> 1 \<le> length d \<and> length d \<le> 4000) \<and>
     (case ce_termination e of None \<Rightarrow> True | Some t \<Rightarrow> opt_nonempty (pt_detail t))"

definition attemptCleanupRecord_valid :: "attempt_cleanup_record \<Rightarrow> bool" where
  "attemptCleanupRecord_valid c \<longleftrightarrow> cr_attemptId c \<noteq> [] \<and> cr_jobId c \<noteq> [] \<and>
     list_all cleanupRequirement_valid (cr_requirements c) \<and>
     list_all cleanupEvidence_valid (cr_evidence c)"

definition createAttemptCleanupRecord :: "string \<Rightarrow> string \<Rightarrow> timestamp \<Rightarrow> err + attempt_cleanup_record" where
  "createAttemptCleanupRecord attemptId jobId now =
     (let c = \<lparr>cr_attemptId = attemptId, cr_jobId = jobId, cr_revision = 0, cr_updatedAt = now,
               cr_status = C_NotRequired, cr_requirements = [], cr_evidence = []\<rparr>
      in if attemptCleanupRecord_valid c then Inr c else Inl ZodError)"

subsection \<open>Queue items (contracts/queue.ts)\<close>

record queue_options =
  qo_priority :: int
  qo_dependsOnJobIds :: "string list"

datatype queue_status =
    QQueued | QDispatching | QRunning | QCancelling | QCompleted | QFailed | QNeedsInput | QCancelled

fun queue_status_name :: "queue_status \<Rightarrow> string" where
  "queue_status_name QQueued = ''queued''"
| "queue_status_name QDispatching = ''dispatching''"
| "queue_status_name QRunning = ''running''"
| "queue_status_name QCancelling = ''cancelling''"
| "queue_status_name QCompleted = ''completed''"
| "queue_status_name QFailed = ''failed''"
| "queue_status_name QNeedsInput = ''needs-input''"
| "queue_status_name QCancelled = ''cancelled''"

record completion_artifacts =
  ca_manifest :: string
  ca_proposalPatch :: string
  ca_changedPaths :: string
  ca_verification :: string
  ca_cleanup :: "string option"

record queue_completion =
  qc_attemptId :: string
  qc_attemptStatus :: attempt_status
  qc_verificationStatus :: verification_status
  qc_cleanupStatus :: "cleanup_status option"
  qc_finishedAt :: timestamp
  qc_artifacts :: completion_artifacts

record queue_item =
  qi_schema :: schema_version
  qi_jobId :: string
  qi_status :: queue_status
  qi_revision :: nat
  qi_dispatchOperationId :: "string option"
  qi_priority :: int
  qi_dependsOnJobIds :: "string list"
  qi_createdAt :: timestamp
  qi_updatedAt :: timestamp
  qi_attemptId :: "string option"
  qi_automaticRetryCount :: nat
  qi_completion :: "queue_completion option"
  qi_message :: "string option"

definition queueCompletion_valid :: "queue_completion \<Rightarrow> bool" where
  "queueCompletion_valid c \<longleftrightarrow> qc_attemptId c \<noteq> [] \<and>
     (let a = qc_artifacts c in ca_manifest a \<noteq> [] \<and> ca_proposalPatch a \<noteq> [] \<and>
        ca_changedPaths a \<noteq> [] \<and> ca_verification a \<noteq> [] \<and> opt_nonempty (ca_cleanup a))"

definition queueItem_valid :: "queue_item \<Rightarrow> bool" where
  "queueItem_valid q \<longleftrightarrow> qi_jobId q \<noteq> [] \<and> in_range (- 100) 100 (qi_priority q) \<and>
     list_all (\<lambda>d. d \<noteq> []) (qi_dependsOnJobIds q) \<and> opt_nonempty (qi_attemptId q) \<and>
     (case qi_completion q of None \<Rightarrow> True | Some c \<Rightarrow> queueCompletion_valid c) \<and>
     opt_nonempty (qi_message q)"

record dispatcher_lease =
  dl_ownerId :: string
  dl_instanceId :: string
  dl_generation :: nat
  dl_hostname :: string
  dl_processId :: nat
  dl_processStartedAt :: timestamp
  dl_acquiredAt :: timestamp
  dl_heartbeatAt :: timestamp
  dl_expiresAt :: timestamp

definition dispatcherLease_valid :: "dispatcher_lease \<Rightarrow> bool" where
  "dispatcherLease_valid l \<longleftrightarrow> dl_ownerId l \<noteq> [] \<and> 0 < dl_generation l \<and> dl_hostname l \<noteq> [] \<and>
     0 < dl_processId l"

lemmas validity_defs =
  queueItem_valid_def queueCompletion_valid_def attemptManifest_valid_def artifacts_valid_def
  proposalLineage_valid_def contribution_valid_def externalResource_valid_def
  attemptCleanupRecord_valid_def cleanupRequirement_valid_def cleanupEvidence_valid_def
  cleanupSubject_valid_def dispatcherLease_valid_def opt_nonempty_def in_range_def

lemma isAttemptTerminal_simps [simp]:
  "isAttemptTerminal ACompleted" "isAttemptTerminal AFailed" "isAttemptTerminal ANeedsInput"
  "isAttemptTerminal ACancelled" "\<not> isAttemptTerminal AReserved" "\<not> isAttemptTerminal AClaimed"
  "\<not> isAttemptTerminal APreparing" "\<not> isAttemptTerminal ARunning" "\<not> isAttemptTerminal AVerifying"
  by (simp_all add: isAttemptTerminal_def)

end
