(* ===== verification/Transitions.thy ===== *)
theory Transitions
  imports Contracts "HOL-Library.Sublist"
begin

text \<open>
  The transition journal (\<open>src/src/storage/transitions.ts\<close>): every durable record (a queue item,
  an attempt manifest, a cleanup record) is a projection file and a directory of immutable
  snapshots, one sub-directory per revision named by its twelve-digit decimal.

  The first part translates \<open>commitTransition\<close> and \<open>readLatestTransition\<close>, failpoints included.
  The second part gives the journal's history and proves what a read returns. The third part is
  the same protocol cut into its file system steps, run by any number of writers that may crash
  between any two of them.
\<close>

subsection \<open>The journal on disk\<close>

text \<open>
  \<open>jl_transitions\<close> is the listing of the transitions root (absent before the first commit): each
  entry a directory with its snapshot file, if it has one.
\<close>

type_synonym 'v tdir = "(string \<times> 'v doc option) list"

record 'v journaled =
  jl_projection :: "'v doc option"
  jl_transitions :: "'v tdir option"

datatype failpoint_name = After_Reserve | After_Snapshot | After_Projection

text \<open>The test hook: the error it throws at a point, if any, given the revision.\<close>

type_synonym failpoint = "failpoint_name \<Rightarrow> nat \<Rightarrow> err option"

definition no_failpoint :: failpoint where
  "no_failpoint p r = None"

definition revision_name :: "nat \<Rightarrow> string" where
  "revision_name revision = padStart 12 (CHR ''0'') (show_nat revision)"

text \<open>The name test \<open>/^\d{12}$/\<close>.\<close>

definition is_revision_name :: "string \<Rightarrow> bool" where
  "is_revision_name s \<longleftrightarrow> length s = 12 \<and> list_all is_digit s"

definition tentries :: "'v journaled \<Rightarrow> 'v tdir" where
  "tentries j = (case jl_transitions j of None \<Rightarrow> [] | Some es \<Rightarrow> es)"

text \<open>
  The snapshot is complete inside its staging directory before the directory is renamed, so the
  rename either publishes a complete snapshot or finds the revision taken.
\<close>

definition commitTransition ::
  "failpoint \<Rightarrow> record_kind \<Rightarrow> string \<Rightarrow> nat \<Rightarrow> 'v \<Rightarrow> ('v journaled, unit) act" where
  "commitTransition fp recordKind recordId expectedRevision v j =
     (let revision = expectedRevision + 1;
          directory = revision_name revision;
          es = tentries j
      in if directory \<in> fst ` set es
         then (Inl (TransitionConflictError recordKind recordId expectedRevision None),
               j\<lparr>jl_transitions := Some es\<rparr>)
         else
           (let reserved = j\<lparr>jl_transitions := Some (es @ [(directory, Some (Parsed v))])\<rparr>;
                projected = reserved\<lparr>jl_projection := Some (Parsed v)\<rparr>
            in case fp After_Reserve revision of
                 Some e \<Rightarrow> (Inl e, reserved)
               | None \<Rightarrow> (case fp After_Snapshot revision of
                   Some e \<Rightarrow> (Inl e, reserved)
                 | None \<Rightarrow> (case fp After_Projection revision of
                     Some e \<Rightarrow> (Inl e, projected)
                   | None \<Rightarrow> (Inr (), projected)))))"

definition readLatestTransition ::
  "record_kind \<Rightarrow> string \<Rightarrow> ('v \<Rightarrow> nat) \<Rightarrow> 'v tdir option \<Rightarrow> err + 'v option" where
  "readLatestTransition recordKind recordId revisionOf dir =
     (case dir of
        None \<Rightarrow> Inr None
      | Some es \<Rightarrow>
          (case at_last (js_sort (filter is_revision_name (map fst es))) of
             None \<Rightarrow> Inr None
           | Some latest \<Rightarrow>
               (let revision = parse_nat latest in
                case read_doc (case map_of es latest of None \<Rightarrow> None | Some d \<Rightarrow> d) of
                  Inl e \<Rightarrow> Inl (TransitionIntegrityError recordKind recordId revision (errorMessage e))
                | Inr v \<Rightarrow>
                    if revisionOf v \<noteq> revision
                    then Inl (TransitionIntegrityError recordKind recordId revision
                           (''snapshot declares revision '' @ show_nat (revisionOf v)))
                    else Inr (Some v))))"

text \<open>
  What \<open>QueueStore.read\<close>, \<open>ArtifactStore.readAttempt\<close> and \<open>readAttemptCleanup\<close> share: parse the
  projection, prefer the journal's latest snapshot, refuse a projection ahead of the journal.
\<close>

definition read_journaled ::
  "record_kind \<Rightarrow> string \<Rightarrow> string \<Rightarrow> ('v \<Rightarrow> nat) \<Rightarrow> 'v journaled \<Rightarrow> err + 'v" where
  "read_journaled recordKind label recordId revisionOf j =
     (case read_doc (jl_projection j) of
        Inl e \<Rightarrow> Inl e
      | Inr projection \<Rightarrow>
          (case readLatestTransition recordKind recordId revisionOf (jl_transitions j) of
             Inl e \<Rightarrow> Inl e
           | Inr None \<Rightarrow> Inr projection
           | Inr (Some latest) \<Rightarrow>
               if revisionOf latest < revisionOf projection
               then Inl (Error (label @ '' '' @ recordId @ '' projection revision ''
                      @ show_nat (revisionOf projection) @ '' is ahead of its transition journal ''
                      @ show_nat (revisionOf latest)))
               else Inr latest))"

text \<open>A record just created: its projection file and no journal.\<close>

definition fresh_journaled :: "'v \<Rightarrow> 'v journaled" where
  "fresh_journaled v = \<lparr>jl_projection = Some (Parsed v), jl_transitions = None\<rparr>"

subsection \<open>Revision names\<close>

abbreviation revision_limit :: nat where
  "revision_limit \<equiv> 10 ^ 12"

lemma revision_name_digits: "n < revision_limit \<Longrightarrow> revision_name n = digits_w 12 n"
  unfolding revision_name_def by (rule padStart_show_nat) simp_all

lemma is_revision_name_revision_name [simp]: "n < revision_limit \<Longrightarrow> is_revision_name (revision_name n)"
  by (simp add: revision_name_digits is_revision_name_def digits_w_digits)

lemma parse_nat_revision_name: "n < revision_limit \<Longrightarrow> parse_nat (revision_name n) = n"
  by (simp add: revision_name_digits parse_nat_digits_w)

lemma revision_name_less:
  "n < revision_limit \<Longrightarrow> m < revision_limit \<Longrightarrow> revision_name n < revision_name m \<longleftrightarrow> n < m"
  by (simp only: revision_name_digits digits_w_less)

lemma revision_name_inj:
  "n < revision_limit \<Longrightarrow> m < revision_limit \<Longrightarrow> revision_name n = revision_name m \<longleftrightarrow> n = m"
  by (metis parse_nat_revision_name)

lemma revision_name_le:
  "n < revision_limit \<Longrightarrow> m < revision_limit \<Longrightarrow> revision_name n \<le> revision_name m \<longleftrightarrow> n \<le> m"
  by (metis linorder_not_less revision_name_less)

subsection \<open>The history of a record\<close>

text \<open>
  A record's history is the list of its published snapshots. \<open>jhist revisionOf b hist p j\<close>: on
  disk the projection holds \<open>p\<close>, the revision directories hold exactly \<open>hist\<close>, in order and
  with consecutive revisions from \<open>Suc b\<close> on, and the projection is at most as recent as the last.
  \<open>b\<close> is the revision the record was created with.
\<close>

definition snapshot_entry :: "('v \<Rightarrow> nat) \<Rightarrow> 'v \<Rightarrow> string \<times> 'v doc option" where
  "snapshot_entry revisionOf v = (revision_name (revisionOf v), Some (Parsed v))"

definition revision_entries :: "'v journaled \<Rightarrow> 'v tdir" where
  "revision_entries j = filter (is_revision_name \<circ> fst) (tentries j)"

definition jhist :: "('v \<Rightarrow> nat) \<Rightarrow> nat \<Rightarrow> 'v list \<Rightarrow> 'v \<Rightarrow> 'v journaled \<Rightarrow> bool" where
  "jhist revisionOf b hist p j \<longleftrightarrow>
     jl_projection j = Some (Parsed p) \<and>
     revision_entries j = map (snapshot_entry revisionOf) hist \<and>
     map revisionOf hist = [Suc b ..< Suc b + length hist] \<and>
     b + length hist < revision_limit \<and>
     revisionOf p \<le> b + length hist \<and> (hist = [] \<longrightarrow> revisionOf p = b)"

definition latest_value :: "'v list \<Rightarrow> 'v \<Rightarrow> 'v" where
  "latest_value hist p = (if hist = [] then p else last hist)"

lemma latest_value_simps [simp]: "latest_value [] p = p" "latest_value (hist @ [v]) p = v"
  by (simp_all add: latest_value_def)

lemma jhist_fresh: "revisionOf v < revision_limit \<Longrightarrow> jhist revisionOf (revisionOf v) [] v (fresh_journaled v)"
  by (simp add: jhist_def fresh_journaled_def revision_entries_def tentries_def)

lemma jhist_revision_nth:
  assumes "jhist revisionOf b hist p j" and "i < length hist"
  shows "revisionOf (hist ! i) = Suc b + i"
proof -
  have "map revisionOf hist ! i = [Suc b ..< Suc b + length hist] ! i"
    using assms(1) by (simp add: jhist_def)
  then show ?thesis using assms(2) by (simp del: upt_Suc)
qed

lemma jhist_current_revision:
  assumes "jhist revisionOf b hist p j"
  shows "revisionOf (latest_value hist p) = b + length hist"
proof (cases "hist = []")
  case True
  then show ?thesis using assms by (simp add: jhist_def latest_value_def)
next
  case False
  then have "revisionOf (last hist) = Suc b + (length hist - 1)"
    using jhist_revision_nth [OF assms, of "length hist - 1"] by (simp add: last_conv_nth)
  then show ?thesis using False by (simp add: latest_value_def)
qed

lemma jhist_member_revision:
  assumes "jhist revisionOf b hist p j" and "v \<in> set hist"
  shows "b < revisionOf v" "revisionOf v \<le> b + length hist" "revisionOf v < revision_limit"
proof -
  obtain i where "i < length hist" "v = hist ! i" using assms(2) by (metis in_set_conv_nth)
  moreover from assms(1) have "b + length hist < revision_limit" by (simp add: jhist_def)
  ultimately show "b < revisionOf v" "revisionOf v \<le> b + length hist" "revisionOf v < revision_limit"
    using jhist_revision_nth [OF assms(1), of i] by auto
qed

lemma jhist_names:
  assumes "jhist revisionOf b hist p j"
  shows "filter is_revision_name (map fst (tentries j)) = map (\<lambda>v. revision_name (revisionOf v)) hist"
proof -
  have "filter is_revision_name (map fst (tentries j)) = map fst (revision_entries j)"
    by (simp add: revision_entries_def filter_map)
  then show ?thesis using assms by (simp add: jhist_def snapshot_entry_def comp_def)
qed

lemma revision_taken_iff:
  assumes "jhist revisionOf b hist p j" and "b < r" "r < revision_limit"
  shows "revision_name r \<in> fst ` set (tentries j) \<longleftrightarrow> r \<le> b + length hist"
proof -
  have "revision_name r \<in> fst ` set (tentries j) \<longleftrightarrow>
        revision_name r \<in> set (filter is_revision_name (map fst (tentries j)))"
    using assms(3) by simp
  also have "\<dots> \<longleftrightarrow> (\<exists>v\<in>set hist. revision_name r = revision_name (revisionOf v))"
    by (auto simp: jhist_names [OF assms(1)])
  also have "\<dots> \<longleftrightarrow> (\<exists>v\<in>set hist. r = revisionOf v)"
    using jhist_member_revision(3) [OF assms(1)] assms(3) revision_name_inj by blast
  also have "\<dots> \<longleftrightarrow> r \<in> set (map revisionOf hist)" by auto
  also have "\<dots> \<longleftrightarrow> r \<le> b + length hist"
    using assms by (auto simp: jhist_def simp del: set_map upt_Suc)
  finally show ?thesis .
qed

text \<open>The lookup of a revision directory sees only revision directories.\<close>

lemma map_of_filter_key: "P k \<Longrightarrow> map_of (filter (P \<circ> fst) es) k = map_of es k"
  by (induction es) auto

lemma jhist_lookup:
  assumes "jhist revisionOf b hist p j" and "v \<in> set hist"
  shows "map_of (tentries j) (revision_name (revisionOf v)) = Some (Some (Parsed v))"
proof -
  let ?n = "revision_name (revisionOf v)"
  have rn: "is_revision_name ?n"
    using jhist_member_revision(3) [OF assms] by simp
  have "distinct (map revisionOf hist)"
    using assms(1) by (simp add: jhist_def del: upt_Suc)
  moreover have "inj_on revision_name (set (map revisionOf hist))"
    using jhist_member_revision(3) [OF assms(1)] by (auto intro!: inj_onI simp: revision_name_inj)
  ultimately have "distinct (map revision_name (map revisionOf hist))"
    by (simp only: distinct_map comp_inj_on)
  then have d: "distinct (map fst (map (snapshot_entry revisionOf) hist))"
    by (simp add: snapshot_entry_def comp_def)
  have "map_of (tentries j) ?n = map_of (revision_entries j) ?n"
    unfolding revision_entries_def by (rule map_of_filter_key [symmetric]) (rule rn)
  also have "\<dots> = map_of (map (snapshot_entry revisionOf) hist) ?n"
    using assms(1) by (simp add: jhist_def)
  also have "\<dots> = Some (Some (Parsed v))"
    by (rule map_of_is_SomeI [OF d]) (use assms(2) in \<open>auto simp: snapshot_entry_def\<close>)
  finally show ?thesis .
qed

text \<open>The directory the reader picks, by string order, is the newest revision.\<close>

lemma jhist_latest_name:
  assumes "jhist revisionOf b hist p j" and "hist \<noteq> []"
  shows "at_last (js_sort (filter is_revision_name (map fst (tentries j))))
         = Some (revision_name (revisionOf (last hist)))"
proof -
  have cur: "revisionOf (last hist) = b + length hist"
    using jhist_current_revision [OF assms(1)] assms(2) by (simp add: latest_value_def)
  have "revision_name (revisionOf x) \<le> revision_name (revisionOf (last hist))" if "x \<in> set hist" for x
  proof -
    have "revisionOf x \<le> revisionOf (last hist)"
      using jhist_member_revision(2) [OF assms(1) that] by (simp add: cur)
    then show ?thesis
      using jhist_member_revision(3) [OF assms(1)] that assms(2) by (simp add: revision_name_le)
  qed
  then show ?thesis
    unfolding at_last_js_sort jhist_names [OF assms(1)] using assms(2) by auto
qed

lemma readLatestTransition_jhist:
  assumes "jhist revisionOf b hist p j"
  shows "readLatestTransition k i revisionOf (jl_transitions j)
         = Inr (if hist = [] then None else Some (last hist))"
proof (cases "jl_transitions j")
  case None
  then have "hist = []" using assms by (simp add: jhist_def revision_entries_def tentries_def)
  then show ?thesis using None by (simp add: readLatestTransition_def)
next
  case (Some es)
  then have es: "tentries j = es" by (simp add: tentries_def)
  show ?thesis
  proof (cases "hist = []")
    case True
    then have "filter is_revision_name (map fst es) = []"
      using jhist_names [OF assms] es by simp
    then show ?thesis using True Some by (simp add: readLatestTransition_def at_last_def js_sort_def)
  next
    case False
    let ?v = "last hist"
    have mem: "?v \<in> set hist" using False by simp
    have "parse_nat (revision_name (revisionOf ?v)) = revisionOf ?v"
      by (rule parse_nat_revision_name) (rule jhist_member_revision(3) [OF assms mem])
    then show ?thesis
      using False Some jhist_latest_name [OF assms False] jhist_lookup [OF assms mem] es
      by (simp add: readLatestTransition_def)
  qed
qed

text \<open>A read returns the last published snapshot, however far the projection lags.\<close>

lemma read_journaled_jhist:
  assumes "jhist revisionOf b hist p j"
  shows "read_journaled k l i revisionOf j = Inr (latest_value hist p)"
proof (cases "hist = []")
  case True
  then show ?thesis
    using assms readLatestTransition_jhist [OF assms, of k i]
    by (simp add: read_journaled_def jhist_def)
next
  case False
  have "revisionOf (last hist) = b + length hist"
    using jhist_current_revision [OF assms] False by (simp add: latest_value_def)
  then show ?thesis
    using False assms readLatestTransition_jhist [OF assms, of k i]
    by (simp add: read_journaled_def jhist_def latest_value_def)
qed

subsection \<open>Commits on a record with a history\<close>

lemma jhist_publish:
  assumes "jhist revisionOf b hist p j" and "revisionOf v = Suc (b + length hist)"
    and "Suc (b + length hist) < revision_limit"
  shows "jhist revisionOf b (hist @ [v]) p
           (j\<lparr>jl_transitions := Some (tentries j @ [(revision_name (revisionOf v), Some (Parsed v))])\<rparr>)"
  using assms by (simp add: jhist_def revision_entries_def tentries_def snapshot_entry_def)

lemma jhist_project:
  assumes "jhist revisionOf b hist p j" and "revisionOf v \<le> b + length hist" and "hist \<noteq> []"
  shows "jhist revisionOf b hist v (j\<lparr>jl_projection := Some (Parsed v)\<rparr>)"
  using assms by (simp add: jhist_def revision_entries_def tentries_def)

lemma jhist_touch:
  assumes "jhist revisionOf b hist p j"
  shows "jhist revisionOf b hist p (j\<lparr>jl_transitions := Some (tentries j)\<rparr>)"
  using assms by (simp add: jhist_def revision_entries_def tentries_def)

lemma commitTransition_fresh:
  assumes h: "jhist revisionOf b hist p j" and e: "e = b + length hist" and v: "revisionOf v = Suc e"
    and lim: "Suc e < revision_limit"
  shows "commitTransition no_failpoint k i e v j =
           (Inr (), j\<lparr>jl_transitions := Some (tentries j @ [(revision_name (Suc e), Some (Parsed v))]),
                      jl_projection := Some (Parsed v)\<rparr>)"
    and "jhist revisionOf b (hist @ [v]) v (snd (commitTransition no_failpoint k i e v j))"
proof -
  have free: "revision_name (Suc e) \<notin> fst ` set (tentries j)"
    using revision_taken_iff [OF h, of "Suc e"] e lim by simp
  then show c: "commitTransition no_failpoint k i e v j =
           (Inr (), j\<lparr>jl_transitions := Some (tentries j @ [(revision_name (Suc e), Some (Parsed v))]),
                      jl_projection := Some (Parsed v)\<rparr>)"
    by (simp add: commitTransition_def no_failpoint_def Let_def)
  have "jhist revisionOf b (hist @ [v]) p
          (j\<lparr>jl_transitions := Some (tentries j @ [(revision_name (revisionOf v), Some (Parsed v))])\<rparr>)"
    by (rule jhist_publish [OF h]) (use e v lim in simp_all)
  from jhist_project [OF this, of v]
  show "jhist revisionOf b (hist @ [v]) v (snd (commitTransition no_failpoint k i e v j))"
    using c v e by simp
qed

lemma commitTransition_stale:
  assumes h: "jhist revisionOf b hist p j" and e: "b \<le> e" "e < b + length hist"
  shows "commitTransition fp k i e v j =
           (Inl (TransitionConflictError k i e None), j\<lparr>jl_transitions := Some (tentries j)\<rparr>)"
proof -
  have "Suc e < revision_limit" using h e by (simp add: jhist_def)
  then have "revision_name (Suc e) \<in> fst ` set (tentries j)"
    using revision_taken_iff [OF h, of "Suc e"] e by simp
  then show ?thesis by (simp add: commitTransition_def Let_def)
qed

text \<open>Whatever the failpoints do, the record keeps a history that extends the old one.\<close>

lemma commitTransition_jhist:
  assumes h: "jhist revisionOf b hist p j" and e: "b \<le> e" "e \<le> b + length hist"
    and v: "revisionOf v = Suc e" and lim: "Suc e < revision_limit"
  shows "\<exists>hist' p'. jhist revisionOf b hist' p' (snd (commitTransition fp k i e v j)) \<and>
           (hist' = hist \<or> e = b + length hist \<and> hist' = hist @ [v])"
proof (cases "e = b + length hist")
  case True
  let ?r = "j\<lparr>jl_transitions := Some (tentries j @ [(revision_name (Suc e), Some (Parsed v))])\<rparr>"
  have free: "revision_name (Suc e) \<notin> fst ` set (tentries j)"
    using revision_taken_iff [OF h, of "Suc e"] True lim by simp
  have r: "jhist revisionOf b (hist @ [v]) p ?r"
    using jhist_publish [OF h, of v] True v lim by simp
  have q: "jhist revisionOf b (hist @ [v]) v (?r\<lparr>jl_projection := Some (Parsed v)\<rparr>)"
    by (rule jhist_project [OF r]) (use True v in simp_all)
  have "snd (commitTransition fp k i e v j) \<in> {?r, ?r\<lparr>jl_projection := Some (Parsed v)\<rparr>}"
    using free by (auto simp: commitTransition_def Let_def split: option.splits)
  then show ?thesis using r q True by (metis insertE singletonD)
next
  case False
  then have "e < b + length hist" using e by simp
  then show ?thesis
    using commitTransition_stale [OF h e(1)] jhist_touch [OF h] by fastforce
qed

end
