(* ===== verification/Journal_Protocol.thy ===== *)
theory Journal_Protocol
  imports Transitions
begin

text \<open>
  The transition journal under concurrency and crashes. \<open>commitTransition\<close> and the read before it
  are cut at every \<open>await\<close>: load, write the staging directory, rename it into place (or lose the
  race), rewrite the projection. Any number of writers take these steps in any order, and any
  writer may stop for ever after any step, which leaves its staging directory or a lagging
  projection behind.

  The invariant says that the revision directories always spell one history with consecutive
  revisions. From it: a read always succeeds and returns the last published snapshot, a published
  snapshot is never lost or replaced, and a writer publishes only on top of the revision it read.
\<close>

datatype 'v writer =
    Idle
  | Loaded 'v
  | Staged nat 'v string
  | Published nat 'v

record 'v jsys =
  js_disk :: "'v journaled"
  js_writers :: "nat \<Rightarrow> 'v writer"

definition staging_entry :: "nat \<Rightarrow> string \<Rightarrow> string" where
  "staging_entry revision token = CHR ''.'' # revision_name revision @ ''.reserve-'' @ token"

definition set_writer :: "nat \<Rightarrow> 'v writer \<Rightarrow> 'v jsys \<Rightarrow> 'v jsys" where
  "set_writer i w s = s\<lparr>js_writers := (js_writers s)(i := w)\<rparr>"

definition set_entries :: "'v tdir \<Rightarrow> 'v jsys \<Rightarrow> 'v jsys" where
  "set_entries es s = s\<lparr>js_disk := (js_disk s)\<lparr>jl_transitions := Some es\<rparr>\<rparr>"

definition drop_entry :: "string \<Rightarrow> 'v tdir \<Rightarrow> 'v tdir" where
  "drop_entry n es = filter (\<lambda>e. fst e \<noteq> n) es"

text \<open>
  One rule per step of \<open>commitTransition\<close>. The bound in \<open>stage\<close> keeps the protocol inside the
  twelve-digit names, beyond which the reader no longer sees a revision.
\<close>

inductive jstep :: "('v \<Rightarrow> nat) \<Rightarrow> 'v jsys \<Rightarrow> 'v jsys \<Rightarrow> bool" for revisionOf where
  load: "js_writers s i = Idle \<Longrightarrow> read_journaled k l n revisionOf (js_disk s) = Inr v \<Longrightarrow>
     jstep revisionOf s (set_writer i (Loaded v) s)"
| stage: "js_writers s i = Loaded v \<Longrightarrow> revisionOf v' = Suc (revisionOf v) \<Longrightarrow>
     revisionOf v' < revision_limit \<Longrightarrow>
     staging_entry (revisionOf v') tok \<notin> fst ` set (tentries (js_disk s)) \<Longrightarrow>
     jstep revisionOf s
       (set_writer i (Staged (revisionOf v) v' tok)
         (set_entries (tentries (js_disk s) @ [(staging_entry (revisionOf v') tok, Some (Parsed v'))]) s))"
| publish: "js_writers s i = Staged e v tok \<Longrightarrow>
     revision_name (Suc e) \<notin> fst ` set (tentries (js_disk s)) \<Longrightarrow>
     jstep revisionOf s
       (set_writer i (Published e v)
         (set_entries (drop_entry (staging_entry (Suc e) tok) (tentries (js_disk s))
                       @ [(revision_name (Suc e), Some (Parsed v))]) s))"
| lose: "js_writers s i = Staged e v tok \<Longrightarrow>
     revision_name (Suc e) \<in> fst ` set (tentries (js_disk s)) \<Longrightarrow>
     jstep revisionOf s
       (set_writer i Idle
         (set_entries (drop_entry (staging_entry (Suc e) tok) (tentries (js_disk s))) s))"
| project: "js_writers s i = Published e v \<Longrightarrow>
     jstep revisionOf s
       (set_writer i Idle (s\<lparr>js_disk := (js_disk s)\<lparr>jl_projection := Some (Parsed v)\<rparr>\<rparr>))"
| crash: "jstep revisionOf s (set_writer i Idle s)"

inductive jreach :: "('v \<Rightarrow> nat) \<Rightarrow> 'v \<Rightarrow> 'v jsys \<Rightarrow> bool" for revisionOf v0 where
  start: "jreach revisionOf v0 \<lparr>js_disk = fresh_journaled v0, js_writers = (\<lambda>_. Idle)\<rparr>"
| move: "jreach revisionOf v0 s \<Longrightarrow> jstep revisionOf s t \<Longrightarrow> jreach revisionOf v0 t"

text \<open>The snapshots readers can see, oldest first.\<close>

definition published :: "'v jsys \<Rightarrow> 'v list" where
  "published s = concat (map (\<lambda>(n, d). case d of Some (Parsed v) \<Rightarrow> [v] | _ \<Rightarrow> [])
                             (revision_entries (js_disk s)))"

fun writer_ok :: "('v \<Rightarrow> nat) \<Rightarrow> nat \<Rightarrow> 'v list \<Rightarrow> 'v writer \<Rightarrow> bool" where
  "writer_ok revisionOf b hist Idle = True"
| "writer_ok revisionOf b hist (Loaded v) = (b \<le> revisionOf v \<and> revisionOf v \<le> b + length hist)"
| "writer_ok revisionOf b hist (Staged e v tok) =
     (b \<le> e \<and> e \<le> b + length hist \<and> revisionOf v = Suc e \<and> Suc e < revision_limit)"
| "writer_ok revisionOf b hist (Published e v) = (v \<in> set hist)"

definition jinv :: "('v \<Rightarrow> nat) \<Rightarrow> 'v \<Rightarrow> 'v list \<Rightarrow> 'v \<Rightarrow> 'v jsys \<Rightarrow> bool" where
  "jinv revisionOf v0 hist p s \<longleftrightarrow>
     jhist revisionOf (revisionOf v0) hist p (js_disk s) \<and> (hist = [] \<longrightarrow> p = v0) \<and>
     (\<forall>i. writer_ok revisionOf (revisionOf v0) hist (js_writers s i))"

subsection \<open>Staging directories are invisible\<close>

lemma not_revision_name_staging [simp]: "\<not> is_revision_name (staging_entry r tok)"
  by (simp add: is_revision_name_def staging_entry_def is_digit_def)

lemma set_entries_simps [simp]:
  "tentries (js_disk (set_entries es s)) = es"
  "jl_projection (js_disk (set_entries es s)) = jl_projection (js_disk s)"
  "js_writers (set_entries es s) = js_writers s"
  by (simp_all add: set_entries_def tentries_def)

lemma set_writer_simps [simp]:
  "js_disk (set_writer i w s) = js_disk s"
  "js_writers (set_writer i w s) = (js_writers s)(i := w)"
  by (simp_all add: set_writer_def)

lemma filter_drop_staging [simp]:
  "filter (is_revision_name \<circ> fst) (drop_entry (staging_entry r tok) es) = filter (is_revision_name \<circ> fst) es"
  unfolding drop_entry_def filter_filter by (rule filter_cong) auto

lemma jhist_same_revisions:
  assumes "jhist revisionOf b hist p j" and "jl_projection j' = jl_projection j"
    and "revision_entries j' = revision_entries j"
  shows "jhist revisionOf b hist p j'"
  using assms by (simp add: jhist_def)

lemma jinv_same_revisions:
  assumes "jinv revisionOf v0 hist p s" and "jl_projection (js_disk t) = jl_projection (js_disk s)"
    and "revision_entries (js_disk t) = revision_entries (js_disk s)"
    and "\<And>k. writer_ok revisionOf (revisionOf v0) hist (js_writers t k)"
  shows "jinv revisionOf v0 hist p t"
  using assms jhist_same_revisions unfolding jinv_def by metis

lemma jinv_writer: "jinv revisionOf v0 hist p s \<Longrightarrow> writer_ok revisionOf (revisionOf v0) hist (js_writers s i)"
  by (simp add: jinv_def)

lemma jinv_published:
  assumes "jinv revisionOf v0 hist p s"
  shows "published s = hist"
proof -
  have "revision_entries (js_disk s) = map (snapshot_entry revisionOf) hist"
    using assms by (simp add: jinv_def jhist_def)
  then show ?thesis by (simp add: published_def snapshot_entry_def comp_def)
qed

lemma jinv_current:
  assumes "jinv revisionOf v0 hist p s"
  shows "latest_value hist p = last (v0 # hist)"
  using assms by (auto simp: jinv_def latest_value_def)

lemma writer_ok_mono: "writer_ok revisionOf b hist w \<Longrightarrow> writer_ok revisionOf b (hist @ [v]) w"
  by (cases w) auto

subsection \<open>Every step keeps the history\<close>

lemma jinv_start:
  assumes "revisionOf v0 < revision_limit"
  shows "jinv revisionOf v0 [] v0 \<lparr>js_disk = fresh_journaled v0, js_writers = (\<lambda>_. Idle)\<rparr>"
  using jhist_fresh [of revisionOf v0] assms by (simp add: jinv_def)

lemma jinv_load:
  assumes "jinv revisionOf v0 hist p s" and "read_journaled k l n revisionOf (js_disk s) = Inr v"
  shows "jinv revisionOf v0 hist p (set_writer i (Loaded v) s)"
proof -
  have h: "jhist revisionOf (revisionOf v0) hist p (js_disk s)"
    using assms(1) by (simp add: jinv_def)
  have "v = latest_value hist p" using read_journaled_jhist [OF h, of k l n] assms(2) by simp
  then show ?thesis
    using assms(1) jhist_current_revision [OF h] by (simp add: jinv_def)
qed

lemma jinv_stage:
  assumes "jinv revisionOf v0 hist p s" and "js_writers s i = Loaded v"
    and "revisionOf v' = Suc (revisionOf v)" "revisionOf v' < revision_limit"
  shows "jinv revisionOf v0 hist p
           (set_writer i (Staged (revisionOf v) v' tok)
             (set_entries (tentries (js_disk s) @ [(staging_entry (revisionOf v') tok, Some (Parsed v'))]) s))"
proof (rule jinv_same_revisions [OF assms(1)])
  fix k
  show "writer_ok revisionOf (revisionOf v0) hist (js_writers (set_writer i (Staged (revisionOf v) v' tok)
          (set_entries (tentries (js_disk s) @ [(staging_entry (revisionOf v') tok, Some (Parsed v'))]) s)) k)"
    using jinv_writer [OF assms(1), of i] jinv_writer [OF assms(1), of k] assms(2-) by simp
qed (simp_all add: revision_entries_def)

lemma jinv_publish:
  assumes inv: "jinv revisionOf v0 hist p s" and w: "js_writers s i = Staged e v tok"
    and free: "revision_name (Suc e) \<notin> fst ` set (tentries (js_disk s))"
  shows "e = revisionOf v0 + length hist"
    and "jinv revisionOf v0 (hist @ [v]) p
           (set_writer i (Published e v)
             (set_entries (drop_entry (staging_entry (Suc e) tok) (tentries (js_disk s))
                           @ [(revision_name (Suc e), Some (Parsed v))]) s))"
proof -
  have h: "jhist revisionOf (revisionOf v0) hist p (js_disk s)" using inv by (simp add: jinv_def)
  have ok: "revisionOf v0 \<le> e" "e \<le> revisionOf v0 + length hist" "revisionOf v = Suc e"
    "Suc e < revision_limit"
    using inv w unfolding jinv_def by (metis writer_ok.simps(3))+
  show e: "e = revisionOf v0 + length hist"
    using revision_taken_iff [OF h, of "Suc e"] ok free by simp
  have "jhist revisionOf (revisionOf v0) (hist @ [v]) p
          (js_disk s\<lparr>jl_transitions := Some (tentries (js_disk s) @ [(revision_name (Suc e), Some (Parsed v))])\<rparr>)"
    using jhist_publish [OF h, of v] e ok by simp
  then have "jhist revisionOf (revisionOf v0) (hist @ [v]) p
          (js_disk (set_entries (drop_entry (staging_entry (Suc e) tok) (tentries (js_disk s))
                           @ [(revision_name (Suc e), Some (Parsed v))]) s))"
    by (rule jhist_same_revisions) (simp_all add: revision_entries_def tentries_def set_entries_def)
  moreover have "writer_ok revisionOf (revisionOf v0) (hist @ [v]) (js_writers s k)" for k
    using inv writer_ok_mono by (metis jinv_def)
  ultimately show "jinv revisionOf v0 (hist @ [v]) p
           (set_writer i (Published e v)
             (set_entries (drop_entry (staging_entry (Suc e) tok) (tentries (js_disk s))
                           @ [(revision_name (Suc e), Some (Parsed v))]) s))"
    by (simp add: jinv_def)
qed

lemma jinv_lose:
  assumes "jinv revisionOf v0 hist p s"
  shows "jinv revisionOf v0 hist p
           (set_writer i Idle (set_entries (drop_entry (staging_entry r tok) (tentries (js_disk s))) s))"
  by (rule jinv_same_revisions [OF assms]) (simp_all add: revision_entries_def jinv_writer [OF assms])

lemma jinv_project:
  assumes "jinv revisionOf v0 hist p s" and "js_writers s i = Published e v"
  shows "jinv revisionOf v0 hist v
           (set_writer i Idle (s\<lparr>js_disk := (js_disk s)\<lparr>jl_projection := Some (Parsed v)\<rparr>\<rparr>))"
proof -
  have h: "jhist revisionOf (revisionOf v0) hist p (js_disk s)" using assms(1) by (simp add: jinv_def)
  have v: "v \<in> set hist" using assms unfolding jinv_def by (metis writer_ok.simps(4))
  have "jhist revisionOf (revisionOf v0) hist v (js_disk s\<lparr>jl_projection := Some (Parsed v)\<rparr>)"
    by (rule jhist_project [OF h jhist_member_revision(2) [OF h v]]) (use v in auto)
  then show ?thesis using assms(1) v by (auto simp: jinv_def)
qed

lemma jinv_crash: "jinv revisionOf v0 hist p s \<Longrightarrow> jinv revisionOf v0 hist p (set_writer i Idle s)"
  by (simp add: jinv_def)

text \<open>One step either leaves the history alone or appends one snapshot to it.\<close>

lemma jstep_jinv:
  assumes "jstep revisionOf s t" and "jinv revisionOf v0 hist p s"
  shows "(\<exists>p'. jinv revisionOf v0 hist p' t) \<or>
         (\<exists>v p'. jinv revisionOf v0 (hist @ [v]) p' t \<and> revisionOf v = Suc (revisionOf v0 + length hist))"
  using assms
proof (induction rule: jstep.induct)
  case (load s i k l n v)
  then show ?case by (blast intro: jinv_load)
next
  case (stage s i v v' tok)
  then show ?case by (blast intro: jinv_stage)
next
  case (publish s i e v tok)
  have "revisionOf v = Suc e" using publish.prems publish.hyps(1) unfolding jinv_def by (metis writer_ok.simps(3))
  then show ?case using jinv_publish [OF publish.prems publish.hyps] by auto
next
  case (lose s i e v tok)
  then show ?case by (blast intro: jinv_lose)
next
  case (project s i e v)
  then show ?case by (blast intro: jinv_project)
next
  case (crash s i)
  then show ?case by (blast intro: jinv_crash)
qed

lemma jreach_jinv:
  assumes "jreach revisionOf v0 s" and "revisionOf v0 < revision_limit"
  shows "\<exists>p. jinv revisionOf v0 (published s) p s"
  using assms
proof (induction rule: jreach.induct)
  case start
  then show ?case using jinv_start jinv_published by metis
next
  case (move s t)
  then obtain p where "jinv revisionOf v0 (published s) p s" by blast
  from jstep_jinv [OF move.hyps(2) this] show ?case using jinv_published by metis
qed

lemma jreach_steps:
  assumes "(jstep revisionOf)\<^sup>*\<^sup>* s t" and "jreach revisionOf v0 s"
  shows "jreach revisionOf v0 t"
  using assms by (induction rule: rtranclp_induct) (auto intro: jreach.move)

lemma jstep_published:
  assumes "jreach revisionOf v0 s" and "revisionOf v0 < revision_limit" and "jstep revisionOf s t"
  shows "published t = published s \<or>
         (\<exists>v. published t = published s @ [v] \<and> revisionOf v = Suc (revisionOf (last (v0 # published s))))"
proof -
  obtain p where inv: "jinv revisionOf v0 (published s) p s"
    using jreach_jinv [OF assms(1,2)] by blast
  then have "jhist revisionOf (revisionOf v0) (published s) p (js_disk s)" by (simp add: jinv_def)
  from jhist_current_revision [OF this]
  have "revisionOf (last (v0 # published s)) = revisionOf v0 + length (published s)"
    by (simp only: jinv_current [OF inv])
  then show ?thesis using jstep_jinv [OF assms(3) inv] jinv_published by metis
qed

subsection \<open>The guarantees\<close>

text \<open>
  C1. Whatever writers did and wherever they crashed, a read of a record succeeds, and returns the
  newest published snapshot (the record's initial value when none was published): the journal is
  authoritative, a lagging or half-finished projection never shows and never blocks a reader.
\<close>

theorem journal_read_is_latest:
  assumes "jreach revisionOf v0 s" and "revisionOf v0 < revision_limit"
  shows "read_journaled k l n revisionOf (js_disk s) = Inr (last (v0 # published s))"
proof -
  obtain p where inv: "jinv revisionOf v0 (published s) p s"
    using jreach_jinv [OF assms] by blast
  then have "jhist revisionOf (revisionOf v0) (published s) p (js_disk s)" by (simp add: jinv_def)
  from read_journaled_jhist [OF this] show ?thesis by (simp only: jinv_current [OF inv])
qed

text \<open>
  C2. Revision fencing and durability: through any sequence of steps, crashes included, the
  published history only grows at its end, and every published snapshot carries the revision after
  the one before it. So no published snapshot is lost or rewritten, and of two writers that read
  the same revision at most one publishes.
\<close>

theorem journal_history_linear:
  assumes "jreach revisionOf v0 s" and "revisionOf v0 < revision_limit" and "(jstep revisionOf)\<^sup>*\<^sup>* s t"
  shows "prefix (published s) (published t) \<and>
         map revisionOf (published t) = [Suc (revisionOf v0) ..< Suc (revisionOf v0) + length (published t)]"
proof -
  have "prefix (published s) (published t)"
    using assms(3)
  proof (induction rule: rtranclp_induct)
    case (step t u)
    have "jreach revisionOf v0 t" using jreach_steps [OF step.hyps(1) assms(1)] .
    from jstep_published [OF this assms(2) step.hyps(2)] step.IH show ?case
      by (auto intro: prefix_order.order_trans)
  qed simp
  moreover obtain p where "jinv revisionOf v0 (published t) p t"
    using jreach_jinv [OF jreach_steps [OF assms(3,1)] assms(2)] by blast
  ultimately show ?thesis by (simp add: jinv_def jhist_def)
qed

text \<open>
  Two writers race from the same revision: the first publishes and dies before it rewrites the
  projection, the second loses.
\<close>

definition race_0 :: "nat jsys" where
  "race_0 = \<lparr>js_disk = fresh_journaled 0, js_writers = (\<lambda>_. Idle)\<rparr>"

definition race_1 :: "nat jsys" where
  "race_1 = set_writer 1 (Loaded 0) race_0"

definition race_2 :: "nat jsys" where
  "race_2 = set_writer 1 (Staged 0 1 ''a'') (set_entries [(staging_entry 1 ''a'', Some (Parsed 1))] race_1)"

definition race_3 :: "nat jsys" where
  "race_3 = set_writer 1 (Published 0 1) (set_entries [(revision_name 1, Some (Parsed 1))] race_2)"

lemma race_reach_1: "jreach id 0 race_1"
proof -
  have "jstep id race_0 race_1"
    unfolding race_1_def
    by (rule jstep.load [where k = Queue_Item_Kind and l = "[]" and n = "[]"])
      (simp_all add: race_0_def read_journaled_def fresh_journaled_def readLatestTransition_def)
  then show ?thesis
    using jreach.move [OF jreach.start] by (simp add: race_0_def)
qed

lemma race_reach_2: "jreach id 0 race_2"
proof -
  have es: "tentries (js_disk race_1) = []"
    by (simp add: race_1_def race_0_def fresh_journaled_def tentries_def)
  have "jstep id race_1 race_2"
    unfolding race_2_def
    using jstep.stage [of race_1 1 0 id 1 "''a''"] es by (simp add: race_1_def)
  then show ?thesis by (rule jreach.move [OF race_reach_1])
qed

lemma race_step_3: "jstep id race_2 race_3"
proof -
  have es: "tentries (js_disk race_2) = [(staging_entry 1 ''a'', Some (Parsed 1))]"
    by (simp add: race_2_def)
  have "revision_name (Suc 0) \<noteq> staging_entry 1 ''a''"
    by (metis One_nat_def is_revision_name_revision_name not_revision_name_staging one_less_power
        one_less_numeral_iff pos2 semiring_norm(76) zero_less_numeral)
  then show ?thesis
    unfolding race_3_def
    using jstep.publish [of race_2 1 0 1 "''a''" id] es
    by (simp add: race_2_def drop_entry_def)
qed

lemma published_race:
  "published race_2 = []" "published race_3 = [1]"
  by (simp_all add: published_def race_3_def race_2_def revision_entries_def)

theorem journal_read_is_latest_witness:
  "jreach id 0 race_3 \<and> read_journaled Queue_Item_Kind ''Queue item'' ''job'' id (js_disk race_3) = Inr 1"
proof -
  have r: "jreach id 0 race_3" by (rule jreach.move [OF race_reach_2 race_step_3])
  show ?thesis using r journal_read_is_latest [OF r] by (simp add: published_race)
qed

theorem journal_history_linear_witness:
  "jreach id 0 race_2 \<and> (jstep id)\<^sup>*\<^sup>* race_2 race_3 \<and> prefix (published race_2) (published race_3) \<and>
   map id (published race_3) = [Suc (id 0) ..< Suc (id 0) + length (published race_3)]"
proof -
  have st: "(jstep id)\<^sup>*\<^sup>* race_2 race_3" using race_step_3 by blast
  show ?thesis
    using journal_history_linear [OF race_reach_2 _ st] race_reach_2 st by (simp add: published_race)
qed

end
