(* ===== verification/Record_Store.thy ===== *)
theory Record_Store
  imports Transitions
begin

text \<open>
  The contract of a store of revisioned records. The queue store, the attempt store and the
  cleanup store all offer a read and an update that is refused unless the caller holds the current
  record. \<open>revisioned_store\<close> states what clients rely on, and proves once what follows: a stale
  writer never wins, revisions only grow, and the store implements a map with compare and swap.
  \<open>status_store\<close> adds a table of allowed status changes.
\<close>

subsection \<open>Records whose journal has a history\<close>

definition record_ok :: "('v \<Rightarrow> nat) \<Rightarrow> 'v journaled \<Rightarrow> bool" where
  "record_ok revisionOf j \<longleftrightarrow> (\<exists>b hist p. jhist revisionOf b hist p j)"

lemma record_ok_fresh: "revisionOf v < revision_limit \<Longrightarrow> record_ok revisionOf (fresh_journaled v)"
  using jhist_fresh [of revisionOf v] by (auto simp: record_ok_def)

lemma record_ok_read: "record_ok revisionOf j \<Longrightarrow> \<exists>v. read_journaled k l i revisionOf j = Inr v"
  unfolding record_ok_def by (metis read_journaled_jhist)

lemma read_fresh [simp]: "read_journaled k l i revisionOf (fresh_journaled v) = Inr v"
  by (simp add: read_journaled_def fresh_journaled_def readLatestTransition_def)

text \<open>Reads with different labels agree on a record with a history.\<close>

lemma record_ok_read_label:
  assumes "record_ok revisionOf j" and "read_journaled k l i revisionOf j = Inr v"
  shows "read_journaled k' l' i' revisionOf j = Inr v"
  using assms read_journaled_jhist unfolding record_ok_def by (metis sum.inject(2))

text \<open>Committing on top of what was just read succeeds and is what the next read returns.\<close>

lemma commit_current:
  assumes ok: "record_ok revisionOf j" and rd: "read_journaled k l i revisionOf j = Inr cur"
    and v: "revisionOf v = Suc (revisionOf cur)" and lim: "Suc (revisionOf cur) < revision_limit"
    and c: "commitTransition no_failpoint k' i' (revisionOf cur) v j = (r, j')"
  shows "r = Inr ()" and "record_ok revisionOf j'" and "read_journaled k l i revisionOf j' = Inr v"
proof -
  obtain b hist p where h: "jhist revisionOf b hist p j" using ok by (auto simp: record_ok_def)
  have "cur = latest_value hist p" using read_journaled_jhist [OF h, of k l i] rd by simp
  then have e: "revisionOf cur = b + length hist" using jhist_current_revision [OF h] by simp
  note f = commitTransition_fresh [OF h e v lim, of k' i']
  show "r = Inr ()" using f(1) c by simp
  have h': "jhist revisionOf b (hist @ [v]) v j'" using f(2) c by simp
  then show "record_ok revisionOf j'" by (auto simp: record_ok_def)
  show "read_journaled k l i revisionOf j' = Inr v" using read_journaled_jhist [OF h', of k l i] by simp
qed

text \<open>A commit with failpoints loses nothing: the next read is the old record or the new one.\<close>

lemma commit_any_failpoint:
  assumes ok: "record_ok revisionOf j" and rd: "read_journaled k l i revisionOf j = Inr cur"
    and v: "revisionOf v = Suc (revisionOf cur)" and lim: "Suc (revisionOf cur) < revision_limit"
    and c: "commitTransition fp k' i' (revisionOf cur) v j = (r, j')"
  shows "record_ok revisionOf j'" and "read_journaled k l i revisionOf j' \<in> {Inr cur, Inr v}"
proof -
  obtain b hist p where h: "jhist revisionOf b hist p j" using ok by (auto simp: record_ok_def)
  have cur: "cur = latest_value hist p" using read_journaled_jhist [OF h, of k l i] rd by simp
  then have e: "revisionOf cur = b + length hist" using jhist_current_revision [OF h] by simp
  have "b \<le> revisionOf cur" "revisionOf cur \<le> b + length hist" using e by simp_all
  from commitTransition_jhist [OF h this v lim, of fp k' i'] c
  obtain hist' p' where h': "jhist revisionOf b hist' p' j'" and alt: "hist' = hist \<or> hist' = hist @ [v]"
    by auto
  from h' show "record_ok revisionOf j'" by (auto simp: record_ok_def)
  have rd': "read_journaled k l i revisionOf j' = Inr (latest_value hist' p')"
    using read_journaled_jhist [OF h'] .
  show "read_journaled k l i revisionOf j' \<in> {Inr cur, Inr v}"
  proof (cases "hist' = hist @ [v]")
    case True
    then show ?thesis using rd' by simp
  next
    case False
    then have eq: "hist' = hist" using alt by simp
    have "jl_projection j' = jl_projection j \<or> hist \<noteq> []"
    proof (rule disjCI)
      assume "\<not> hist \<noteq> []"
      then have "revision_name (Suc (revisionOf cur)) \<notin> fst ` set (tentries j)"
        using revision_taken_iff [OF h, of "Suc (revisionOf cur)"] e lim by simp
      then have "revision_entries j' \<noteq> []"
        using c lim
        by (auto simp: commitTransition_def Let_def revision_entries_def tentries_def
            split: option.splits if_splits)
      then show "jl_projection j' = jl_projection j"
        using h' eq \<open>\<not> hist \<noteq> []\<close> by (simp add: jhist_def)
    qed
    then have "latest_value hist' p' = cur"
      using h h' eq cur by (auto simp: latest_value_def jhist_def)
    then show ?thesis using rd' by simp
  qed
qed

subsection \<open>The interface of a revisioned store\<close>

locale revisioned_store =
  fixes read :: "'s \<Rightarrow> 'k \<Rightarrow> err + 'v"
    and upd :: "'v \<Rightarrow> 'p \<Rightarrow> ('s, 'v) act"
    and key :: "'v \<Rightarrow> 'k"
    and revision :: "'v \<Rightarrow> nat"
    and invar :: "'s \<Rightarrow> bool"
  assumes upd_ok: "\<lbrakk>invar s; Suc (revision v) < revision_limit; upd v p s = (Inr v', s')\<rbrakk>
      \<Longrightarrow> read s (key v) = Inr v \<and> read s' (key v) = Inr v' \<and> revision v' = Suc (revision v) \<and> key v' = key v"
    and upd_error: "\<lbrakk>invar s; Suc (revision v) < revision_limit; upd v p s = (Inl e, s')\<rbrakk>
      \<Longrightarrow> read s' (key v) = read s (key v)"
    and upd_frame: "\<lbrakk>invar s; Suc (revision v) < revision_limit; upd v p s = (r, s'); k \<noteq> key v\<rbrakk>
      \<Longrightarrow> read s' k = read s k"
    and upd_invar: "\<lbrakk>invar s; Suc (revision v) < revision_limit; upd v p s = (r, s')\<rbrakk> \<Longrightarrow> invar s'"
begin

definition lookup :: "'s \<Rightarrow> 'k \<Rightarrow> 'v option" where
  "lookup s k = (case read s k of Inl e \<Rightarrow> None | Inr v \<Rightarrow> Some v)"

lemma stale_writer_fails:
  assumes "invar s" and "Suc (revision v) < revision_limit" and "read s (key v) \<noteq> Inr v"
  shows "\<exists>e. fst (upd v p s) = Inl e"
proof (cases "upd v p s")
  case (Pair r s')
  show ?thesis
  proof (cases r)
    case (Inr v')
    then show ?thesis using upd_ok [OF assms(1,2)] Pair assms(3) by blast
  qed (simp add: Pair)
qed

lemma one_writer_per_revision:
  assumes "invar s" and "Suc (revision v) < revision_limit" and "upd v p s = (Inr v', s')"
  shows "\<exists>e. fst (upd v q s') = Inl e"
proof -
  note ok = upd_ok [OF assms]
  have "read s' (key v) \<noteq> Inr v" using ok by auto
  then show ?thesis
    using stale_writer_fails [OF upd_invar [OF assms] assms(2)] by blast
qed

text \<open>The store implements a map with compare and swap.\<close>

lemma compare_and_swap:
  assumes "invar s" and "Suc (revision v) < revision_limit" and "upd v p s = (r, s')"
  shows "lookup s' = (case r of Inl e \<Rightarrow> lookup s | Inr v' \<Rightarrow> (lookup s)(key v \<mapsto> v'))"
    and "r = Inr v' \<Longrightarrow> lookup s (key v) = Some v"
proof -
  show "lookup s' = (case r of Inl e \<Rightarrow> lookup s | Inr v' \<Rightarrow> (lookup s)(key v \<mapsto> v'))"
  proof (rule ext)
    fix k
    show "lookup s' k = (case r of Inl e \<Rightarrow> lookup s | Inr v' \<Rightarrow> (lookup s)(key v \<mapsto> v')) k"
    proof (cases "k = key v")
      case True
      then show ?thesis
        using upd_ok [OF assms(1,2)] upd_error [OF assms(1,2)] assms(3)
        by (cases r) (auto simp: lookup_def)
    next
      case False
      then show ?thesis
        using upd_frame [OF assms(1-3)] by (cases r) (auto simp: lookup_def)
    qed
  qed
  show "r = Inr v' \<Longrightarrow> lookup s (key v) = Some v"
    using upd_ok [OF assms(1,2)] assms(3) by (simp add: lookup_def)
qed

text \<open>A sequence of updates by any callers, successful or not.\<close>

inductive updates :: "'s \<Rightarrow> 's \<Rightarrow> bool" where
  stop: "updates s s"
| go: "updates s t \<Longrightarrow> Suc (revision v) < revision_limit \<Longrightarrow> upd v p t = (r, u) \<Longrightarrow> updates s u"

lemma updates_invar: "updates s t \<Longrightarrow> invar s \<Longrightarrow> invar t"
  by (induction rule: updates.induct) (auto dest: upd_invar)

lemma updates_monotone:
  assumes "updates s t" and "invar s" and "lookup s k = Some v"
  shows "\<exists>v'. lookup t k = Some v' \<and> revision v \<le> revision v' \<and> (revision v' = revision v \<longrightarrow> v' = v)"
  using assms
proof (induction rule: updates.induct)
  case (go s t w p r u)
  then obtain v' where v': "lookup t k = Some v'" "revision v \<le> revision v'"
      "revision v' = revision v \<longrightarrow> v' = v" by blast
  have inv: "invar t" using updates_invar go by blast
  note cas = compare_and_swap [OF inv go.hyps(2,3)]
  show ?case
  proof (cases r)
    case (Inl e)
    then show ?thesis using cas(1) v' by simp
  next
    case (Inr w')
    then have "lookup t (key w) = Some w" using cas(2) by simp
    moreover have "revision w' = Suc (revision w)"
      using upd_ok [OF inv go.hyps(2)] go.hyps(3) Inr by blast
    ultimately show ?thesis using cas(1) Inr v' by (cases "k = key w") auto
  qed
qed auto

end

locale status_store = revisioned_store read upd key revision invar
  for read :: "'s \<Rightarrow> 'k \<Rightarrow> err + 'v" and upd :: "'v \<Rightarrow> 'p \<Rightarrow> ('s, 'v) act"
    and key :: "'v \<Rightarrow> 'k" and revision :: "'v \<Rightarrow> nat" and invar :: "'s \<Rightarrow> bool" +
  fixes status :: "'v \<Rightarrow> 'st"
    and allowed :: "'st \<Rightarrow> 'st list"
  assumes upd_allowed: "\<lbrakk>invar s; Suc (revision v) < revision_limit; upd v p s = (Inr v', s')\<rbrakk>
      \<Longrightarrow> status v' \<in> set (allowed (status v))"
begin

lemma updates_allowed_path:
  assumes "updates s t" and "invar s" and "lookup s k = Some v"
  shows "\<exists>v'. lookup t k = Some v' \<and> (\<lambda>a b. b \<in> set (allowed a))\<^sup>*\<^sup>* (status v) (status v')"
  using assms
proof (induction rule: updates.induct)
  case (go s t w p r u)
  then obtain v' where v': "lookup t k = Some v'" "(\<lambda>a b. b \<in> set (allowed a))\<^sup>*\<^sup>* (status v) (status v')"
    by blast
  have inv: "invar t" using updates_invar go by blast
  note cas = compare_and_swap [OF inv go.hyps(2,3)]
  show ?case
  proof (cases r)
    case (Inl e)
    then show ?thesis using cas(1) v' by simp
  next
    case (Inr w')
    then have "lookup t (key w) = Some w" using cas(2) by simp
    moreover have "status w' \<in> set (allowed (status w))"
      using upd_allowed [OF inv go.hyps(2)] go.hyps(3) Inr by blast
    ultimately show ?thesis
      using cas(1) Inr v' by (cases "k = key w") (auto intro: rtranclp.rtrancl_into_rtrancl)
  qed
qed auto

text \<open>A status with no allowed successor is final: no caller changes such a record again.\<close>

lemma final_status_immutable:
  assumes "updates s t" and "invar s" and "lookup s k = Some v" and "allowed (status v) = []"
  shows "lookup t k = Some v"
  using assms
proof (induction rule: updates.induct)
  case (go s t w p r u)
  then have lk: "lookup t k = Some v" by blast
  have inv: "invar t" using updates_invar go by blast
  note cas = compare_and_swap [OF inv go.hyps(2,3)]
  show ?case
  proof (cases r)
    case (Inl e)
    then show ?thesis using cas(1) lk by simp
  next
    case (Inr w')
    then have "lookup t (key w) = Some w" using cas(2) by simp
    moreover have "status w' \<in> set (allowed (status w))"
      using upd_allowed [OF inv go.hyps(2)] go.hyps(3) Inr by blast
    ultimately have "k \<noteq> key w" using lk go.prems(3) by auto
    then show ?thesis using cas(1) Inr lk by simp
  qed
qed simp

end

end
