(* ===== verification/Cleanup.thy ===== *)
theory Cleanup
  imports Contracts
begin

text \<open>
  Cleanup evidence (\<open>src/src/contracts/cleanup.ts\<close>): what has to be cleaned up after an attempt,
  what was observed, and the status derived from both. The source reads the latest observation of
  a subject in two ways: \<open>deriveCleanupStatus\<close> builds a map front to back, and
  \<open>latestCleanupEvidence\<close> scans back to front. Both are translated and shown to agree.
\<close>

definition subjectKey :: "cleanup_subject \<Rightarrow> string" where
  "subjectKey s = subject_kind_name (su_kind s) @ [CHR 0x00] @ su_id s"

definition sameCleanupSubject :: "cleanup_subject \<Rightarrow> cleanup_subject \<Rightarrow> bool" where
  "sameCleanupSubject left right \<longleftrightarrow> subjectKey left = subjectKey right"

fun latest_map :: "cleanup_evidence list \<Rightarrow> (string \<rightharpoonup> cleanup_evidence) \<Rightarrow> (string \<rightharpoonup> cleanup_evidence)" where
  "latest_map [] m = m"
| "latest_map (observation # rest) m = latest_map rest (m(subjectKey (ce_subject observation) \<mapsto> observation))"

definition deriveCleanupStatus :: "cleanup_requirement list \<Rightarrow> cleanup_evidence list \<Rightarrow> cleanup_status" where
  "deriveCleanupStatus requirements evidence =
     (if requirements = [] then C_NotRequired
      else
        let latest = latest_map evidence Map.empty;
            states = map (\<lambda>r. map_option ce_status (latest (subjectKey (rq_subject r)))) requirements
        in if Some EFailed \<in> set states then C_Failed
           else if Some EUnknown \<in> set states then C_Unknown
           else if None \<in> set states then C_Pending
           else C_Proven)"

text \<open>The loop \<open>for (index = length - 1; index >= 0; index -= 1)\<close>; \<open>n\<close> is \<open>index + 1\<close>.\<close>

fun scan_back :: "cleanup_evidence list \<Rightarrow> cleanup_subject \<Rightarrow> nat \<Rightarrow> cleanup_evidence option" where
  "scan_back evidence subject 0 = None"
| "scan_back evidence subject (Suc n) =
     (let entry = evidence ! n in
      if sameCleanupSubject (ce_subject entry) subject then Some entry
      else scan_back evidence subject n)"

definition latestCleanupEvidence :: "attempt_cleanup_record \<Rightarrow> cleanup_subject \<Rightarrow> cleanup_evidence option" where
  "latestCleanupEvidence c subject = scan_back (cr_evidence c) subject (length (cr_evidence c))"

definition cleanupSafe :: "cleanup_status \<Rightarrow> bool" where
  "cleanupSafe st = (st \<in> set [C_NotRequired, C_Proven])"

subsection \<open>Subject keys\<close>

text \<open>The separator keeps the kinds apart, so a key determines its subject.\<close>

lemma sameCleanupSubject_iff [simp]: "sameCleanupSubject a b \<longleftrightarrow> a = b"
proof
  assume "sameCleanupSubject a b"
  then have k: "subject_kind_name (su_kind a) @ [CHR 0x00] @ su_id a =
                subject_kind_name (su_kind b) @ [CHR 0x00] @ su_id b"
    by (simp add: sameCleanupSubject_def subjectKey_def)
  have "su_kind a = su_kind b"
    using k by (cases "su_kind a"; cases "su_kind b") simp_all
  with k show "a = b" by simp
qed (simp add: sameCleanupSubject_def)

lemma subjectKey_inject [simp]: "subjectKey a = subjectKey b \<longleftrightarrow> a = b"
  using sameCleanupSubject_iff [of a b] unfolding sameCleanupSubject_def .

subsection \<open>The two readings agree\<close>

definition observed :: "cleanup_evidence list \<Rightarrow> cleanup_subject \<Rightarrow> cleanup_evidence option" where
  "observed evidence subject = List.find (\<lambda>e. ce_subject e = subject) (rev evidence)"

lemma scan_back_take: "n \<le> length es \<Longrightarrow> scan_back es s n = observed (take n es) s"
proof (induction n)
  case (Suc n)
  then have "take (Suc n) es = take n es @ [es ! n]" by (simp add: take_Suc_conv_app_nth)
  with Suc show ?case by (simp add: observed_def Let_def)
qed (simp add: observed_def)

lemma find_append: "List.find P (xs @ ys) = (case List.find P xs of None \<Rightarrow> List.find P ys | Some x \<Rightarrow> Some x)"
  by (induction xs) auto

lemma latest_map_observed:
  "latest_map es m (subjectKey s) = (case observed es s of None \<Rightarrow> m (subjectKey s) | Some e \<Rightarrow> Some e)"
proof (induction es arbitrary: m)
  case Nil
  then show ?case by (simp add: observed_def)
next
  case (Cons e es)
  then show ?case by (auto simp: observed_def find_append split: option.splits)
qed

lemma latestCleanupEvidence_observed: "latestCleanupEvidence c s = observed (cr_evidence c) s"
  by (simp add: latestCleanupEvidence_def scan_back_take)

lemma observed_snoc: "observed (es @ [e]) s = (if ce_subject e = s then Some e else observed es s)"
  by (simp add: observed_def)

lemma observed_SomeD: "observed es s = Some e \<Longrightarrow> e \<in> set es \<and> ce_subject e = s"
  by (auto simp: observed_def find_Some_iff in_set_conv_nth)
    (metis length_rev nth_mem set_rev in_set_conv_nth)

subsection \<open>What the derived status means\<close>

definition subject_status :: "cleanup_evidence list \<Rightarrow> cleanup_requirement \<Rightarrow> evidence_status option" where
  "subject_status evidence r = map_option ce_status (observed evidence (rq_subject r))"

lemma deriveCleanupStatus_states:
  "deriveCleanupStatus rs es =
     (if rs = [] then C_NotRequired
      else if Some EFailed \<in> subject_status es ` set rs then C_Failed
      else if Some EUnknown \<in> subject_status es ` set rs then C_Unknown
      else if None \<in> subject_status es ` set rs then C_Pending
      else C_Proven)"
proof -
  have "latest_map es Map.empty (subjectKey s) = observed es s" for s
    by (simp add: latest_map_observed split: option.split)
  then show ?thesis
    by (simp add: deriveCleanupStatus_def subject_status_def image_image)
qed

lemma deriveCleanupStatus_Proven_iff:
  "deriveCleanupStatus rs es = C_Proven \<longleftrightarrow>
     rs \<noteq> [] \<and> (\<forall>r\<in>set rs. subject_status es r = Some EProven)"
proof -
  have "subject_status es r = Some EProven \<longleftrightarrow>
        subject_status es r \<noteq> Some EFailed \<and> subject_status es r \<noteq> Some EUnknown \<and> subject_status es r \<noteq> None" for r
    by (cases "subject_status es r"; cases "the (subject_status es r)") auto
  then show ?thesis by (simp add: deriveCleanupStatus_states image_iff) (metis option.exhaust)
qed

lemma cleanupSafe_derive_iff:
  "cleanupSafe (deriveCleanupStatus rs es) \<longleftrightarrow> (\<forall>r\<in>set rs. subject_status es r = Some EProven)"
proof (cases "rs = []")
  case True
  then show ?thesis by (simp add: deriveCleanupStatus_def cleanupSafe_def)
next
  case False
  then have "deriveCleanupStatus rs es \<noteq> C_NotRequired" by (simp add: deriveCleanupStatus_states)
  then show ?thesis using deriveCleanupStatus_Proven_iff [of rs es] False by (auto simp: cleanupSafe_def)
qed

text \<open>
  Cleanup counts as safe exactly when every registered requirement's latest observation is a
  proof: an empty list of requirements is safe, and one missing, failed or unknown observation
  makes the derived status unsafe, whatever was observed before or for other subjects. The latest
  observation is the one \<open>latestCleanupEvidence\<close> returns.
\<close>

theorem cleanup_safe_iff_all_latest_proven:
  "cleanupSafe (deriveCleanupStatus (cr_requirements c) (cr_evidence c)) \<longleftrightarrow>
     (\<forall>r\<in>set (cr_requirements c).
        map_option ce_status (latestCleanupEvidence c (rq_subject r)) = Some EProven)"
  by (simp add: cleanupSafe_derive_iff latestCleanupEvidence_observed subject_status_def)

definition sample_subject :: cleanup_subject where
  "sample_subject = \<lparr>su_kind = Process_Tree, su_id = ''worker''\<rparr>"

definition sample_evidence :: "string \<Rightarrow> evidence_status \<Rightarrow> cleanup_evidence" where
  "sample_evidence i st = \<lparr>ce_evidenceId = i, ce_subject = sample_subject, ce_status = st,
     ce_cleanupMethod = CM_Process_Runner, ce_observedAt = 5, ce_detail = None, ce_termination = None\<rparr>"

definition sample_cleanup :: attempt_cleanup_record where
  "sample_cleanup = \<lparr>cr_attemptId = ''job_a_a0001'', cr_jobId = ''job_a'', cr_revision = 3, cr_updatedAt = 9,
     cr_status = C_Proven,
     cr_requirements = [\<lparr>rq_subject = sample_subject, rq_registeredAt = 1, rq_deadlineMs = 5000, rq_guardian = None\<rparr>],
     cr_evidence = [sample_evidence ''e1'' EUnknown, sample_evidence ''e2'' EProven]\<rparr>"

theorem cleanup_safe_iff_all_latest_proven_witness:
  "cleanupSafe (deriveCleanupStatus (cr_requirements sample_cleanup) (cr_evidence sample_cleanup))"
  using cleanup_safe_iff_all_latest_proven [of sample_cleanup]
  by (simp add: sample_cleanup_def sample_evidence_def latestCleanupEvidence_def numeral_2_eq_2)

end
