(* ===== verification/Jobs.thy ===== *)
theory Jobs
  imports Contracts "HOL-Library.Sublist"
begin

text \<open>
  Freezing a job (\<open>src/src/contracts/job.ts\<close> and \<open>src/src/contracts/resources.ts\<close>): canonical JSON
  and fingerprints, the safe relative path check, the owner's resource budget, and the step that
  turns a request into the contract every later component reads.

  Parameters: \<open>sha256\<close> is the hexadecimal digest of Node's crypto module, \<open>lc\<close> the comparison of
  \<open>String.prototype.localeCompare\<close>, whose collation the host decides.
\<close>

subsection \<open>Canonical JSON\<close>

fun join :: "string \<Rightarrow> string list \<Rightarrow> string" where
  "join sep [] = []"
| "join sep [x] = x"
| "join sep (x # y # zs) = x @ sep @ join sep (y # zs)"

definition hex_digit :: "nat \<Rightarrow> char" where
  "hex_digit n = ''0123456789abcdef'' ! n"

definition json_escape :: "char \<Rightarrow> string" where
  "json_escape c =
     (if c = CHR 0x22 then [CHR 0x5C, CHR 0x22]
      else if c = CHR 0x5C then [CHR 0x5C, CHR 0x5C]
      else if c = CHR 0x08 then [CHR 0x5C, CHR ''b'']
      else if c = CHR 0x09 then [CHR 0x5C, CHR ''t'']
      else if c = CHR 0x0A then [CHR 0x5C, CHR ''n'']
      else if c = CHR 0x0C then [CHR 0x5C, CHR ''f'']
      else if c = CHR 0x0D then [CHR 0x5C, CHR ''r'']
      else let n = of_char c :: nat in
        if n < 32 then [CHR 0x5C, CHR ''u'', CHR ''0'', CHR ''0'', hex_digit (n div 16), hex_digit (n mod 16)]
        else [c])"

definition json_quote :: "string \<Rightarrow> string" where
  "json_quote s = [CHR 0x22] @ concat (map json_escape s) @ [CHR 0x22]"

text \<open>
  The entries of an object are rendered and then sorted by key, which gives the list the source
  gets by sorting first, since the comparison only reads the keys.
\<close>

fun canonicalJson :: "string comparator \<Rightarrow> json \<Rightarrow> string" where
  "canonicalJson lc JNull = ''null''"
| "canonicalJson lc (JBool b) = (if b then ''true'' else ''false'')"
| "canonicalJson lc (JNum t) = t"
| "canonicalJson lc (JStr s) = json_quote s"
| "canonicalJson lc (JArr xs) = ''['' @ join '','' (map (canonicalJson lc) xs) @ '']''"
| "canonicalJson lc (JObj kvs) =
     ''{'' @ join '','' (map (\<lambda>(k, r). json_quote k @ '':'' @ r)
       (Sorting_Algorithms.sort (key fst lc) (map (\<lambda>(k, v). (k, canonicalJson lc v)) kvs))) @ ''}''"

definition fingerprint :: "(string \<Rightarrow> string) \<Rightarrow> string comparator \<Rightarrow> json \<Rightarrow> string" where
  "fingerprint sha256 lc v = sha256 (canonicalJson lc v)"

definition shortHash :: "(string \<Rightarrow> string) \<Rightarrow> string \<Rightarrow> string" where
  "shortHash sha256 v = take 20 (sha256 v)"

text \<open>An object's canonical form does not depend on the order its properties were written in.\<close>

lemma filter_eq_singleton: "distinct zs \<Longrightarrow> x \<in> set zs \<Longrightarrow> filter (\<lambda>y. y = x) zs = [x]"
  by (induction zs) (auto simp: filter_empty_conv)

text \<open>A comparison that tells the given keys apart.\<close>

definition separates :: "string comparator \<Rightarrow> string list \<Rightarrow> bool" where
  "separates lc ks \<longleftrightarrow> list_all (\<lambda>a. list_all (\<lambda>b. compare lc a b = Equiv \<longrightarrow> a = b) ks) ks"

lemma segment_unique_key:
  assumes d: "distinct (map fst zs)" and x: "x \<in> set zs" and lc: "separates lc (map fst zs)"
  shows "filter (\<lambda>y. compare (key fst lc) x y = Equiv) zs = [x]"
proof -
  have "(compare (key fst lc) x y = Equiv) = (y = x)" if "y \<in> set zs" for y
    using that d x lc by (auto simp: distinct_map inj_on_def separates_def list_all_iff)
  then have "filter (\<lambda>y. compare (key fst lc) x y = Equiv) zs = filter (\<lambda>y. y = x) zs"
    by (rule filter_cong [OF refl])
  also have "\<dots> = [x]" using d x by (simp add: filter_eq_singleton distinct_map)
  finally show ?thesis .
qed

lemma separates_cong_set: "set xs = set ys \<Longrightarrow> separates lc xs = separates lc ys"
  by (simp add: separates_def list_all_iff)

lemma sort_unique_keys:
  assumes perm: "mset xs = mset ys" and d: "distinct (map fst xs)" and lc: "separates lc (map fst xs)"
  shows "Sorting_Algorithms.sort (key fst lc) xs = Sorting_Algorithms.sort (key fst lc) ys"
proof (rule sort_eqI)
  let ?s = "Sorting_Algorithms.sort (key fst lc) ys"
  show m: "mset xs = mset ?s" using perm by simp
  show "Sorting_Algorithms.sorted (key fst lc) ?s" by simp
  fix x
  assume x: "x \<in> set xs"
  have ms: "mset (map fst ?s) = mset (map fst xs)" using m by simp
  then have "distinct (map fst ?s)" using d mset_eq_imp_distinct_iff by blast
  moreover have "x \<in> set ?s" using x m mset_eq_setD by metis
  moreover have "separates lc (map fst ?s)"
    using lc separates_cong_set [OF mset_eq_setD [OF ms]] by simp
  ultimately show "filter (\<lambda>y. compare (key fst lc) x y = Equiv) xs = filter (\<lambda>y. compare (key fst lc) x y = Equiv) ?s"
    using segment_unique_key [OF d x lc] segment_unique_key [of ?s x lc] by simp
qed

lemma canonicalJson_key_order:
  assumes "mset kvs = mset kvs'" and "distinct (map fst kvs)" and "separates lc (map fst kvs)"
  shows "canonicalJson lc (JObj kvs) = canonicalJson lc (JObj kvs')"
proof -
  let ?f = "\<lambda>(k, v). (k, canonicalJson lc v)"
  have f: "map fst (map ?f kvs) = map fst kvs" by (simp add: comp_def case_prod_unfold)
  have "mset (map ?f kvs) = mset (map ?f kvs')" using assms(1) by simp
  then have "Sorting_Algorithms.sort (key fst lc) (map ?f kvs) = Sorting_Algorithms.sort (key fst lc) (map ?f kvs')"
    by (rule sort_unique_keys) (simp_all only: f assms(2,3))
  then show ?thesis by simp
qed

subsection \<open>Safe relative paths\<close>

fun split_on :: "char \<Rightarrow> string \<Rightarrow> string list" where
  "split_on sep [] = [[]]"
| "split_on sep (c # cs) =
     (if c = sep then [] # split_on sep cs
      else case split_on sep cs of [] \<Rightarrow> [[c]] | seg # segs \<Rightarrow> (c # seg) # segs)"

definition is_letter :: "char \<Rightarrow> bool" where
  "is_letter c = (c \<in> set ''abcdefghijklmnopqrstuvwxyzABCDEFGHIJKLMNOPQRSTUVWXYZ'')"

definition to_portable :: "string \<Rightarrow> string" where
  "to_portable v = map (\<lambda>c. if c = CHR 0x5C then CHR ''/'' else c) v"

definition posix_isAbsolute :: "string \<Rightarrow> bool" where
  "posix_isAbsolute v = prefix ''/'' v"

definition has_drive :: "string \<Rightarrow> bool" where
  "has_drive v = (case v of c # d # _ \<Rightarrow> is_letter c \<and> d = CHR '':'' | _ \<Rightarrow> False)"

definition win32_isAbsolute :: "string \<Rightarrow> bool" where
  "win32_isAbsolute v \<longleftrightarrow> prefix ''/'' (to_portable v) \<or> (has_drive v \<and> prefix ''/'' (drop 2 (to_portable v)))"

definition isSafeRelativePath :: "string \<Rightarrow> bool" where
  "isSafeRelativePath v =
     (let p = to_portable v in
      if posix_isAbsolute p \<or> win32_isAbsolute v \<or> has_drive v \<or> list_ex (\<lambda>c. c \<in> set ''*?[]'') p
      then False
      else let segments = filter (\<lambda>s. s \<noteq> []) (split_on (CHR ''/'') p) in
        0 < length segments \<and> list_all (\<lambda>s. s \<noteq> ''.'' \<and> s \<noteq> ''..'') segments)"

text \<open>\<open>path.resolve\<close> of a relative path against a root given by its segments.\<close>

fun resolve_from :: "string list \<Rightarrow> string list \<Rightarrow> string list" where
  "resolve_from here [] = here"
| "resolve_from here (s # ss) =
     (if s = [] \<or> s = ''.'' then resolve_from here ss
      else if s = ''..'' then resolve_from (butlast here) ss
      else resolve_from (here @ [s]) ss)"

definition path_resolve :: "string list \<Rightarrow> string \<Rightarrow> string list" where
  "path_resolve base v = resolve_from base (split_on (CHR ''/'') (to_portable v))"

lemma resolve_from_plain:
  "list_all (\<lambda>s. s \<noteq> ''.'' \<and> s \<noteq> ''..'') (filter (\<lambda>s. s \<noteq> []) segs) \<Longrightarrow>
   resolve_from here segs = here @ filter (\<lambda>s. s \<noteq> []) segs"
  by (induction segs arbitrary: here) auto



subsection \<open>Resource budgets\<close>

definition DEFAULT_OWNER_RESOURCE_PROFILE :: owner_resource_profile where
  "DEFAULT_OWNER_RESOURCE_PROFILE = \<lparr>op_profileId = ''overnight-local-v1'', op_limits = \<lparr>
     rl_attemptTimeoutMs = 45 * 60 * 1000, rl_maxCommands = 32, rl_maxAttemptsPerJob = 16,
     rl_maxAutomaticRetries = 1, rl_maxChangedPaths = 20, rl_maxPatchBytes = 5 * 1024 * 1024,
     rl_maxLogBytes = 10 * 1024 * 1024, rl_maxArtifactBytes = 50 * 1024 * 1024,
     rl_maxWorktreeBytes = 2 * 1024 * 1024 * 1024, rl_maxLineageContributions = 32,
     rl_maxExternalResources = 32, rl_gitTimeoutMs = 60000, rl_cleanupTimeoutMs = 30000,
     rl_minimumFreeDiskBytes = 1024 * 1024 * 1024, rl_terminalRetentionMs = 7 * 24 * 60 * 60 * 1000,
     rl_reviewedRetentionMs = 30 * 24 * 60 * 60 * 1000, rl_gcProposalTtlMs = 15 * 60 * 1000\<rparr>\<rparr>"

definition jint :: "int \<Rightarrow> json" where
  "jint i = JNum (show_int i)"

definition limit_entries :: "'a resource_limits_scheme \<Rightarrow> (string \<times> json) list" where
  "limit_entries l =
     [(''attemptTimeoutMs'', jint (rl_attemptTimeoutMs l)), (''maxCommands'', jint (rl_maxCommands l)),
      (''maxAttemptsPerJob'', jint (rl_maxAttemptsPerJob l)),
      (''maxAutomaticRetries'', jint (rl_maxAutomaticRetries l)),
      (''maxChangedPaths'', jint (rl_maxChangedPaths l)), (''maxPatchBytes'', jint (rl_maxPatchBytes l)),
      (''maxLogBytes'', jint (rl_maxLogBytes l)), (''maxArtifactBytes'', jint (rl_maxArtifactBytes l)),
      (''maxWorktreeBytes'', jint (rl_maxWorktreeBytes l)),
      (''maxLineageContributions'', jint (rl_maxLineageContributions l)),
      (''maxExternalResources'', jint (rl_maxExternalResources l)),
      (''gitTimeoutMs'', jint (rl_gitTimeoutMs l)), (''cleanupTimeoutMs'', jint (rl_cleanupTimeoutMs l)),
      (''minimumFreeDiskBytes'', jint (rl_minimumFreeDiskBytes l)),
      (''terminalRetentionMs'', jint (rl_terminalRetentionMs l)),
      (''reviewedRetentionMs'', jint (rl_reviewedRetentionMs l)),
      (''gcProposalTtlMs'', jint (rl_gcProposalTtlMs l))]"

definition budget_heading :: "string \<Rightarrow> (string \<times> json) list" where
  "budget_heading profileId = [(''schema'', JStr ''conductor.resource-budget/v1''), (''profileId'', JStr profileId)]"

text \<open>The second copy of the canonical printer, in \<open>resources.ts\<close>.\<close>

fun canonicalProfileJson :: "string comparator \<Rightarrow> json \<Rightarrow> string" where
  "canonicalProfileJson lc JNull = ''null''"
| "canonicalProfileJson lc (JBool b) = (if b then ''true'' else ''false'')"
| "canonicalProfileJson lc (JNum t) = t"
| "canonicalProfileJson lc (JStr s) = json_quote s"
| "canonicalProfileJson lc (JArr xs) = ''['' @ join '','' (map (canonicalProfileJson lc) xs) @ '']''"
| "canonicalProfileJson lc (JObj kvs) =
     ''{'' @ join '','' (map (\<lambda>(k, r). json_quote k @ '':'' @ r)
       (Sorting_Algorithms.sort (key fst lc) (map (\<lambda>(k, v). (k, canonicalProfileJson lc v)) kvs))) @ ''}''"

text \<open>
  The frozen body lists the schema and the profile first; the body that is checked later comes out
  of the schema parse, which lists the limits first. Only the sorted form is hashed.
\<close>

definition freezeResourceBudget ::
  "(string \<Rightarrow> string) \<Rightarrow> string comparator \<Rightarrow> owner_resource_profile \<Rightarrow> int option \<Rightarrow> err + resource_budget" where
  "freezeResourceBudget sha256 lc profile requested =
     (if \<not> ownerResourceProfile_valid profile then Inl ZodError
      else
        let limits = op_limits profile;
            t = min (rl_attemptTimeoutMs limits) (case requested of None \<Rightarrow> rl_attemptTimeoutMs limits | Some r \<Rightarrow> r);
            body = limits\<lparr>rl_attemptTimeoutMs := t\<rparr>;
            budget = resource_limits.extend body (resource_budget.fields (op_profileId profile)
                       (sha256 (canonicalProfileJson lc (JObj (budget_heading (op_profileId profile) @ limit_entries body)))))
        in if resourceBudget_valid budget then Inr budget else Inl ZodError)"

definition assertResourceBudgetIntegrity ::
  "(string \<Rightarrow> string) \<Rightarrow> string comparator \<Rightarrow> resource_budget \<Rightarrow> err + unit" where
  "assertResourceBudgetIntegrity sha256 lc budget =
     (if \<not> resourceBudget_valid budget then Inl ZodError
      else if sha256 (canonicalProfileJson lc (JObj (limit_entries budget @ budget_heading (rb_profileId budget)))) \<noteq> rb_profileFingerprint budget
      then Inl (Error (''Frozen resource budget fingerprint is invalid: '' @ rb_profileId budget))
      else Inr ())"

subsection \<open>Requests and contracts\<close>

definition is_environment_name :: "string \<Rightarrow> bool" where
  "is_environment_name s = (case s of [] \<Rightarrow> False
     | c # cs \<Rightarrow> (is_letter c \<or> c = CHR ''_'') \<and> list_all (\<lambda>d. is_letter d \<or> is_digit d \<or> d = CHR ''_'') cs)"

definition relativePath_valid :: "string \<Rightarrow> bool" where
  "relativePath_valid p \<longleftrightarrow> p \<noteq> [] \<and> isSafeRelativePath p"

definition commandSpec_valid :: "command_spec \<Rightarrow> bool" where
  "commandSpec_valid c \<longleftrightarrow> cs_executable c \<noteq> [] \<and>
     (case cs_cwd c of None \<Rightarrow> True | Some d \<Rightarrow> relativePath_valid d) \<and>
     list_all is_environment_name (cs_inheritEnv c) \<and>
     (case cs_timeoutMs c of None \<Rightarrow> True | Some t \<Rightarrow> in_range 1 86400000 t)"

definition pathScope_valid :: "path_scope \<Rightarrow> bool" where
  "pathScope_valid s \<longleftrightarrow> list_all relativePath_valid (ps_allowedPaths s) \<and>
     list_all relativePath_valid (ps_forbiddenPaths s) \<and> list_all relativePath_valid (ps_protectedPaths s)"

definition jobRequest_valid :: "job_request \<Rightarrow> bool" where
  "jobRequest_valid r \<longleftrightarrow> jr_objective r \<noteq> [] \<and> jr_repositoryPath r \<noteq> [] \<and> jr_baseRef r \<noteq> [] \<and>
     jr_adapterId r \<noteq> [] \<and> pathScope_valid (jr_scope r) \<and>
     list_all (\<lambda>s. s \<noteq> []) (jr_contextRefs r) \<and> list_all (\<lambda>s. s \<noteq> []) (jr_constraints r) \<and>
     list_all (\<lambda>s. s \<noteq> []) (jr_escalateWhen r) \<and>
     list_all commandSpec_valid (jr_setupCommands r) \<and> list_all commandSpec_valid (jr_acceptanceCommands r) \<and>
     in_range 1 86400000 (jr_timeoutMs r) \<and>
     (case jr_executionBoundary r of HostWorktreeRequest \<Rightarrow> True | ExternalSandboxRequest p \<Rightarrow> is_safe_segment p) \<and>
     (case jr_idempotencyKey r of None \<Rightarrow> True | Some k \<Rightarrow> 1 \<le> length k \<and> length k \<le> 200)"

text \<open>The revision \<open>/^[a-f0-9]{40,64}$/i\<close> that git resolved.\<close>

definition is_git_revision :: "string \<Rightarrow> bool" where
  "is_git_revision s \<longleftrightarrow> 40 \<le> length s \<and> length s \<le> 64 \<and> list_all (\<lambda>c. c \<in> set ''0123456789abcdefABCDEF'') s"

definition sandboxBinding_valid :: "sandbox_binding \<Rightarrow> bool" where
  "sandboxBinding_valid b \<longleftrightarrow> is_safe_segment (sb_profileId b) \<and> sb_driver b = ''docker'' \<and>
     sb_dockerExecutable b \<noteq> [] \<and> sb_image b \<noteq> [] \<and>
     1 \<le> length (sb_allowedExecutables b) \<and> length (sb_allowedExecutables b) \<le> 64 \<and>
     list_all (prefix ''/'') (sb_allowedExecutables b) \<and> sb_workspaceMount b = ''/workspace'' \<and>
     in_range 67108864 68719476736 (sb_memoryBytes b) \<and> 1 / 10 \<le> sb_cpus b \<and> sb_cpus b \<le> 64 \<and>
     in_range 16 4096 (sb_pidsLimit b) \<and> in_range 1048576 8589934592 (sb_tmpfsBytes b)"

definition boundary_valid :: "execution_boundary \<Rightarrow> bool" where
  "boundary_valid b = (case b of HostWorktree \<Rightarrow> True | ExternalSandbox x \<Rightarrow> sandboxBinding_valid x)"

definition jobContract_valid :: "job_contract \<Rightarrow> bool" where
  "jobContract_valid c \<longleftrightarrow> jc_jobId c \<noteq> [] \<and> jc_idempotencyKey c \<noteq> [] \<and> jc_objective c \<noteq> [] \<and>
     re_root (jc_repository c) \<noteq> [] \<and> re_requestedRef (jc_repository c) \<noteq> [] \<and>
     is_git_revision (re_baseRevision (jc_repository c)) \<and> jc_adapterId c \<noteq> [] \<and>
     pathScope_valid (jc_scope c) \<and>
     list_all (\<lambda>s. s \<noteq> []) (jc_escalateWhen c) \<and> 1 \<le> length (jc_escalateWhen c) \<and>
     list_all commandSpec_valid (jc_setupCommands c) \<and> list_all commandSpec_valid (jc_acceptanceCommands c) \<and>
     0 < ex_timeoutMs (jc_execution c) \<and> boundary_valid (ex_boundary (jc_execution c)) \<and>
     resourceBudget_valid (jc_resources c)"

fun task_class_name :: "task_class \<Rightarrow> string" where
  "task_class_name Implementation = ''implementation''"
| "task_class_name Test = ''test''"
| "task_class_name Documentation = ''documentation''"
| "task_class_name Analysis = ''analysis''"
| "task_class_name Review = ''review''"

definition jstrs :: "string list \<Rightarrow> json" where
  "jstrs xs = JArr (map JStr xs)"

definition opt_entry :: "string \<Rightarrow> json option \<Rightarrow> (string \<times> json) list" where
  "opt_entry k v = (case v of None \<Rightarrow> [] | Some j \<Rightarrow> [(k, j)])"

definition commandSpec_json :: "command_spec \<Rightarrow> json" where
  "commandSpec_json c = JObj ([(''executable'', JStr (cs_executable c)), (''args'', jstrs (cs_args c))]
     @ opt_entry ''cwd'' (map_option JStr (cs_cwd c)) @ [(''inheritEnv'', jstrs (cs_inheritEnv c))]
     @ opt_entry ''timeoutMs'' (map_option jint (cs_timeoutMs c)))"

definition boundaryRequest_json :: "boundary_request \<Rightarrow> json" where
  "boundaryRequest_json b = (case b of
       HostWorktreeRequest \<Rightarrow> JObj [(''kind'', JStr ''host-worktree'')]
     | ExternalSandboxRequest p \<Rightarrow> JObj [(''kind'', JStr ''external-sandbox''), (''profileId'', JStr p)])"

text \<open>The parsed request as the object \<open>fingerprint\<close> prints.\<close>

definition jobRequest_json :: "job_request \<Rightarrow> json" where
  "jobRequest_json r = JObj ([(''objective'', JStr (jr_objective r)),
     (''taskClass'', JStr (task_class_name (jr_taskClass r))), (''repositoryPath'', JStr (jr_repositoryPath r)),
     (''baseRef'', JStr (jr_baseRef r)), (''adapterId'', JStr (jr_adapterId r)),
     (''adapterOptions'', JObj (jr_adapterOptions r)),
     (''scope'', JObj [(''allowedPaths'', jstrs (ps_allowedPaths (jr_scope r))),
        (''forbiddenPaths'', jstrs (ps_forbiddenPaths (jr_scope r))),
        (''protectedPaths'', jstrs (ps_protectedPaths (jr_scope r)))]),
     (''contextRefs'', jstrs (jr_contextRefs r)), (''constraints'', jstrs (jr_constraints r)),
     (''escalateWhen'', jstrs (jr_escalateWhen r)),
     (''setupCommands'', JArr (map commandSpec_json (jr_setupCommands r))),
     (''acceptanceCommands'', JArr (map commandSpec_json (jr_acceptanceCommands r))),
     (''timeoutMs'', jint (jr_timeoutMs r)), (''retainWorkspace'', JBool (jr_retainWorkspace r)),
     (''executionBoundary'', boundaryRequest_json (jr_executionBoundary r))]
     @ opt_entry ''idempotencyKey'' (map_option JStr (jr_idempotencyKey r)))"

definition freezeJobRequest ::
  "(string \<Rightarrow> string) \<Rightarrow> string comparator \<Rightarrow> job_request \<Rightarrow> string \<Rightarrow> string \<Rightarrow> timestamp \<Rightarrow> string \<Rightarrow>
   sandbox_binding option \<Rightarrow> owner_resource_profile \<Rightarrow> err + job_contract" where
  "freezeJobRequest sha256 lc request repositoryRoot baseRevision now generatedId sandboxBinding resourceProfile =
     (if \<not> jobRequest_valid request then Inl ZodError
      else
        let requestFingerprint = fingerprint sha256 lc (jobRequest_json request);
            idempotencyKey = (case jr_idempotencyKey request of None \<Rightarrow> generatedId | Some k \<Rightarrow> k);
            jobId = ''job_'' @ shortHash sha256 idempotencyKey;
            boundary = (case jr_executionBoundary request of
                HostWorktreeRequest \<Rightarrow> Inr HostWorktree
              | ExternalSandboxRequest p \<Rightarrow>
                  (case sandboxBinding of
                     None \<Rightarrow> Inl (Error (''External sandbox profile was not resolved: '' @ p))
                   | Some b \<Rightarrow> if sb_profileId b \<noteq> p
                       then Inl (Error (''External sandbox profile was not resolved: '' @ p))
                       else Inr (ExternalSandbox b)))
        in case boundary of
             Inl e \<Rightarrow> Inl e
           | Inr bnd \<Rightarrow>
               (case freezeResourceBudget sha256 lc resourceProfile (Some (jr_timeoutMs request)) of
                  Inl e \<Rightarrow> Inl e
                | Inr resources \<Rightarrow>
                    let c = \<lparr>jc_jobId = jobId, jc_requestFingerprint = requestFingerprint,
                      jc_idempotencyKey = idempotencyKey, jc_createdAt = now,
                      jc_objective = jr_objective request, jc_taskClass = jr_taskClass request,
                      jc_repository = \<lparr>re_root = repositoryRoot, re_requestedRef = jr_baseRef request,
                                       re_baseRevision = baseRevision\<rparr>,
                      jc_adapterId = jr_adapterId request, jc_adapterOptions = jr_adapterOptions request,
                      jc_scope = jr_scope request, jc_contextRefs = jr_contextRefs request,
                      jc_constraints = jr_constraints request, jc_escalateWhen = jr_escalateWhen request,
                      jc_setupCommands = jr_setupCommands request,
                      jc_acceptanceCommands = jr_acceptanceCommands request,
                      jc_execution = \<lparr>ex_timeoutMs = min (jr_timeoutMs request) (rl_attemptTimeoutMs (op_limits resourceProfile)),
                                      ex_retainWorkspace = jr_retainWorkspace request, ex_boundary = bnd\<rparr>,
                      jc_resources = resources\<rparr>
                    in if jobContract_valid c then Inr c else Inl ZodError))"

subsection \<open>What freezing guarantees\<close>

lemma canonicalProfileJson_eq: "canonicalProfileJson lc v = canonicalJson lc v"
proof (induction lc v rule: canonicalProfileJson.induct)
  case (6 lc kvs)
  then have "map (\<lambda>(k, v). (k, canonicalProfileJson lc v)) kvs = map (\<lambda>(k, v). (k, canonicalJson lc v)) kvs"
    by (auto intro!: map_cong)
  then show ?case by (simp only: canonicalProfileJson.simps canonicalJson.simps)
qed (auto cong: map_cong)

definition budget_keys :: "string list" where
  "budget_keys = map fst (budget_heading [] @ limit_entries (op_limits DEFAULT_OWNER_RESOURCE_PROFILE))"

lemma budget_keys_of: "map fst (budget_heading p @ limit_entries l) = budget_keys"
  by (simp add: budget_keys_def budget_heading_def limit_entries_def)

lemma distinct_budget_keys: "distinct budget_keys"
  by (simp add: budget_keys_def budget_heading_def limit_entries_def)

lemma budget_body_order:
  assumes "separates lc budget_keys"
  shows "canonicalProfileJson lc (JObj (limit_entries l @ budget_heading p)) =
         canonicalProfileJson lc (JObj (budget_heading p @ limit_entries l))"
  unfolding canonicalProfileJson_eq
  by (rule canonicalJson_key_order [symmetric])
    (use assms in \<open>simp_all only: budget_keys_of distinct_budget_keys mset_append add.commute\<close>)

lemma freezeResourceBudget_cases:
  assumes "freezeResourceBudget sha256 lc profile req = Inr b"
  shows "ownerResourceProfile_valid profile" and "resourceBudget_valid b"
    and "resource_limits.truncate b = (op_limits profile)
           \<lparr>rl_attemptTimeoutMs := min (rl_attemptTimeoutMs (op_limits profile))
              (case req of None \<Rightarrow> rl_attemptTimeoutMs (op_limits profile) | Some r \<Rightarrow> r)\<rparr>"
    and "rb_profileId b = op_profileId profile"
    and "rb_profileFingerprint b =
           sha256 (canonicalProfileJson lc (JObj (budget_heading (op_profileId profile) @ limit_entries b)))"
  using assms
  by (auto simp: freezeResourceBudget_def Let_def resource_limits.defs resource_budget.defs
      limit_entries_def split: if_splits)

lemma freeze_passes_integrity:
  assumes "freezeResourceBudget sha256 lc profile req = Inr b" and "separates lc budget_keys"
  shows "assertResourceBudgetIntegrity sha256 lc b = Inr ()"
  using freezeResourceBudget_cases [OF assms(1)] budget_body_order [OF assms(2), of b]
  by (simp add: assertResourceBudgetIntegrity_def del: canonicalProfileJson.simps)

definition boundary_granted :: "boundary_request \<Rightarrow> execution_boundary \<Rightarrow> bool" where
  "boundary_granted r b = (case r of
       HostWorktreeRequest \<Rightarrow> b = HostWorktree
     | ExternalSandboxRequest p \<Rightarrow> (case b of HostWorktree \<Rightarrow> False | ExternalSandbox x \<Rightarrow> sb_profileId x = p))"

lemma freezeJobRequest_Inr:
  assumes "freezeJobRequest sha256 lc r rroot brev now gid sb prof = Inr c"
  shows "jobRequest_valid r" and "jobContract_valid c"
    and "boundary_granted (jr_executionBoundary r) (ex_boundary (jc_execution c))"
    and "freezeResourceBudget sha256 lc prof (Some (jr_timeoutMs r)) = Inr (jc_resources c)"
    and "ex_timeoutMs (jc_execution c) = min (jr_timeoutMs r) (rl_attemptTimeoutMs (op_limits prof))"
    and "jc_scope c = jr_scope r"
  using assms
  by (auto simp: freezeJobRequest_def Let_def boundary_granted_def
      split: if_splits sum.splits option.splits boundary_request.splits)

text \<open>
  C7. A frozen contract never grants more than its request and its owner's profile: the execution
  timeout is within the request and the owner's limit and equals the budget's, every other limit of
  the budget is the owner's, the boundary is the requested one (a host work tree never replaces a
  requested sandbox, nor a sandbox another one), the scope is the requested one, and the frozen
  budget passes the integrity check that every later read of the job makes.
\<close>

theorem frozen_contract_within_authority:
  assumes "freezeJobRequest sha256 lc r rroot brev now gid sb prof = Inr c" and "separates lc budget_keys"
  shows "ex_timeoutMs (jc_execution c) \<le> jr_timeoutMs r \<and>
         ex_timeoutMs (jc_execution c) \<le> rl_attemptTimeoutMs (op_limits prof) \<and>
         resource_limits.truncate (jc_resources c) =
           (op_limits prof)\<lparr>rl_attemptTimeoutMs := ex_timeoutMs (jc_execution c)\<rparr> \<and>
         boundary_granted (jr_executionBoundary r) (ex_boundary (jc_execution c)) \<and>
         jc_scope c = jr_scope r \<and>
         assertResourceBudgetIntegrity sha256 lc (jc_resources c) = Inr ()"
  using freezeJobRequest_Inr [OF assms(1)]
    freezeResourceBudget_cases(3) [OF freezeJobRequest_Inr(4) [OF assms(1)]]
    freeze_passes_integrity [OF freezeJobRequest_Inr(4) [OF assms(1)] assms(2)]
  by (simp add: min.commute)

lemma separates_default: "separates default ks"
  by (auto simp: separates_def list_all_iff)

lemmas request_validity_defs =
  jobRequest_valid_def pathScope_valid_def relativePath_valid_def isSafeRelativePath_def to_portable_def
  posix_isAbsolute_def win32_isAbsolute_def has_drive_def is_letter_def in_range_def is_safe_segment_def
  ownerResourceProfile_valid_def resourceBudget_valid_def resourceLimits_valid_def
  jobContract_valid_def is_git_revision_def boundary_valid_def

definition sample_request :: job_request where
  "sample_request = \<lparr>jr_objective = ''add a test'', jr_taskClass = Test, jr_repositoryPath = ''repo'',
     jr_baseRef = ''HEAD'', jr_adapterId = ''local'', jr_adapterOptions = [], jr_scope =
     \<lparr>ps_allowedPaths = [''src''], ps_forbiddenPaths = [], ps_protectedPaths = []\<rparr>,
     jr_contextRefs = [], jr_constraints = [], jr_escalateWhen = [''scope''], jr_setupCommands = [],
     jr_acceptanceCommands = [], jr_timeoutMs = 3600000, jr_retainWorkspace = True,
     jr_executionBoundary = HostWorktreeRequest, jr_idempotencyKey = Some ''k1''\<rparr>"

definition sample_sha256 :: "string \<Rightarrow> string" where
  "sample_sha256 s = replicate 63 (CHR ''0'') @ [hex_digit (length s mod 16)]"

lemma sample_hex [simp]: "is_hex64 (sample_sha256 s)"
proof -
  have "hex_digit n \<in> set ''0123456789abcdef''" if "n < 16" for n
    unfolding hex_digit_def by (rule nth_mem) (use that in simp)
  then have "hex_digit (length s mod 16) \<in> set ''0123456789abcdef''" by simp
  moreover have "CHR ''0'' \<in> set ''0123456789abcdef''" by simp
  ultimately show ?thesis unfolding is_hex64_def sample_sha256_def by (simp add: list_all_iff)
qed

definition sample_contract :: job_contract where
  "sample_contract = projr (freezeJobRequest sample_sha256 default sample_request ''/repo''
     (replicate 40 (CHR ''a'')) 7 ''g'' None DEFAULT_OWNER_RESOURCE_PROFILE)"

lemma sample_freeze:
  "freezeJobRequest sample_sha256 default sample_request ''/repo'' (replicate 40 (CHR ''a'')) 7 ''g'' None
     DEFAULT_OWNER_RESOURCE_PROFILE = Inr sample_contract"
  by (simp add: sample_contract_def freezeJobRequest_def freezeResourceBudget_def Let_def sample_request_def
      DEFAULT_OWNER_RESOURCE_PROFILE_def request_validity_defs resource_limits.defs resource_budget.defs
      numeral_eq_Suc safe_chars_def del: canonicalProfileJson.simps canonicalJson.simps)

theorem frozen_contract_within_authority_witness:
  "ex_timeoutMs (jc_execution sample_contract) \<le> 2700000 \<and>
   assertResourceBudgetIntegrity sample_sha256 default (jc_resources sample_contract) = Inr ()"
proof -
  from frozen_contract_within_authority [OF sample_freeze separates_default] show ?thesis
    by (simp add: DEFAULT_OWNER_RESOURCE_PROFILE_def)
qed

end
