(* ===== verification/Artifact_Store.thy ===== *)
theory Artifact_Store
  imports Record_Store Cleanup Jobs
begin

text \<open>
  The artifact store (\<open>src/src/storage/artifact-store.ts\<close>): job directories with their frozen
  contract and, below them, attempt directories with two journaled records, the attempt manifest
  and the cleanup record.

  A directory is an association list from entry names, so reservation staging directories
  (\<open>*.reserve-*\<close>) that a crash leaves behind are entries like any other. A directory is published
  by renaming it, which fails when the target exists and is not empty. Clock readings, the
  \<open>pid-uuid\<close> suffix of a staging directory and the transition failpoint are arguments. A
  \<open>Partial\<close> patch is the function that overwrites the patched fields.
\<close>

subsection \<open>State\<close>

record attempt_dir =
  ad_manifest :: "attempt_manifest journaled"
  ad_cleanup :: "attempt_cleanup_record journaled"

record job_dir =
  jd_contract :: "job_contract doc option"
  jd_attempts :: "(string \<times> attempt_dir) list option"

record artifact_store =
  as_root :: string
  as_jobs :: "(string \<times> job_dir) list"

definition absent_journal :: "'v journaled" where
  "absent_journal = \<lparr>jl_projection = None, jl_transitions = None\<rparr>"

definition empty_attempt_dir :: attempt_dir where
  "empty_attempt_dir = \<lparr>ad_manifest = absent_journal, ad_cleanup = absent_journal\<rparr>"

definition empty_job_dir :: job_dir where
  "empty_job_dir = \<lparr>jd_contract = None, jd_attempts = None\<rparr>"

definition get_job :: "artifact_store \<Rightarrow> string \<Rightarrow> job_dir" where
  "get_job s jobId = (case map_of (as_jobs s) jobId of None \<Rightarrow> empty_job_dir | Some d \<Rightarrow> d)"

definition put_job :: "string \<Rightarrow> job_dir \<Rightarrow> artifact_store \<Rightarrow> artifact_store" where
  "put_job jobId d s = s\<lparr>as_jobs := AList.update jobId d (as_jobs s)\<rparr>"

definition attempt_entries :: "artifact_store \<Rightarrow> string \<Rightarrow> (string \<times> attempt_dir) list" where
  "attempt_entries s jobId = (case jd_attempts (get_job s jobId) of None \<Rightarrow> [] | Some es \<Rightarrow> es)"

definition get_attempt :: "artifact_store \<Rightarrow> string \<Rightarrow> string \<Rightarrow> attempt_dir option" where
  "get_attempt s jobId name = map_of (attempt_entries s jobId) name"

definition put_attempt :: "string \<Rightarrow> string \<Rightarrow> attempt_dir \<Rightarrow> artifact_store \<Rightarrow> artifact_store" where
  "put_attempt jobId name d s =
     put_job jobId ((get_job s jobId)\<lparr>jd_attempts := Some (AList.update name d (attempt_entries s jobId))\<rparr>) s"

subsection \<open>Paths\<close>

definition safeSegment :: "string \<Rightarrow> err + string" where
  "safeSegment v = (if is_safe_segment v then Inr v else Inl (Error (''Unsafe artifact path segment: '' @ v)))"

definition path_join :: "string \<Rightarrow> string \<Rightarrow> string" where
  "path_join a b = a @ ''/'' @ b"

definition jobsRoot :: "artifact_store \<Rightarrow> string" where
  "jobsRoot s = path_join (as_root s) ''jobs''"

definition jobDirectory :: "artifact_store \<Rightarrow> string \<Rightarrow> string" where
  "jobDirectory s jobId = path_join (jobsRoot s) jobId"

definition jobPath :: "artifact_store \<Rightarrow> string \<Rightarrow> string" where
  "jobPath s jobId = path_join (jobDirectory s jobId) ''job.json''"

definition attemptsRoot :: "artifact_store \<Rightarrow> string \<Rightarrow> string" where
  "attemptsRoot s jobId = path_join (jobDirectory s jobId) ''attempts''"

definition attemptDirectory :: "artifact_store \<Rightarrow> string \<Rightarrow> string \<Rightarrow> string" where
  "attemptDirectory s jobId attemptId = path_join (attemptsRoot s jobId) attemptId"

definition attemptManifestPath :: "artifact_store \<Rightarrow> string \<Rightarrow> string \<Rightarrow> string" where
  "attemptManifestPath s jobId attemptId = path_join (attemptDirectory s jobId attemptId) ''attempt.json''"

definition workspaceRoot :: "artifact_store \<Rightarrow> string" where
  "workspaceRoot s = path_join (as_root s) ''workspaces''"

definition workspacePath :: "artifact_store \<Rightarrow> string \<Rightarrow> err + string" where
  "workspacePath s attemptId =
     (case safeSegment attemptId of Inl e \<Rightarrow> Inl e | Inr seg \<Rightarrow> Inr (path_join (workspaceRoot s) seg))"

subsection \<open>Jobs\<close>

definition readJob ::
  "(string \<Rightarrow> string) \<Rightarrow> string comparator \<Rightarrow> artifact_store \<Rightarrow> string \<Rightarrow> err + job_contract" where
  "readJob sha256 lc s jobId =
     (case safeSegment jobId of
        Inl e \<Rightarrow> Inl e
      | Inr seg \<Rightarrow>
          (case read_doc (jd_contract (get_job s seg)) of
             Inl e \<Rightarrow> Inl e
           | Inr contract \<Rightarrow>
               (case assertResourceBudgetIntegrity sha256 lc (jc_resources contract) of
                  Inl e \<Rightarrow> Inl e
                | Inr _ \<Rightarrow> Inr contract)))"

definition reserveJob ::
  "(string \<Rightarrow> string) \<Rightarrow> string comparator \<Rightarrow> job_contract \<Rightarrow> (artifact_store, job_contract \<times> bool) act" where
  "reserveJob sha256 lc contract s =
     (if \<not> jobContract_valid contract then (Inl ZodError, s)
      else case safeSegment (jc_jobId contract) of
        Inl e \<Rightarrow> (Inl e, s)
      | Inr jobId \<Rightarrow>
          if get_job s jobId = empty_job_dir
          then (Inr (contract, True), put_job jobId \<lparr>jd_contract = Some (Parsed contract), jd_attempts = None\<rparr> s)
          else
            (case readJob sha256 lc s jobId of
               Inl _ \<Rightarrow> (Inl (NodeError ''ENOTEMPTY''), s)
             | Inr existing \<Rightarrow>
                 if jc_requestFingerprint existing \<noteq> jc_requestFingerprint contract
                 then (Inl (IdempotencyConflictError jobId), s)
                 else (Inr (existing, False), s)))"

subsection \<open>Reading attempts\<close>

definition attempt_path :: "artifact_store \<Rightarrow> string \<Rightarrow> string \<Rightarrow> err + attempt_dir" where
  "attempt_path s jobId attemptId =
     (case safeSegment jobId of
        Inl e \<Rightarrow> Inl e
      | Inr j \<Rightarrow>
          (case safeSegment attemptId of
             Inl e \<Rightarrow> Inl e
           | Inr a \<Rightarrow> Inr (case get_attempt s j a of None \<Rightarrow> empty_attempt_dir | Some d \<Rightarrow> d)))"

definition readAttempt :: "artifact_store \<Rightarrow> string \<Rightarrow> string \<Rightarrow> err + attempt_manifest" where
  "readAttempt s jobId attemptId =
     (case attempt_path s jobId attemptId of
        Inl e \<Rightarrow> Inl e
      | Inr d \<Rightarrow> read_journaled Attempt_Kind ''Attempt'' attemptId am_revision (ad_manifest d))"

definition readAttemptCleanup :: "artifact_store \<Rightarrow> string \<Rightarrow> string \<Rightarrow> err + attempt_cleanup_record" where
  "readAttemptCleanup s jobId attemptId =
     (case attempt_path s jobId attemptId of
        Inl e \<Rightarrow> Inl e
      | Inr d \<Rightarrow> read_journaled Attempt_Cleanup_Kind ''Attempt cleanup'' attemptId cr_revision (ad_cleanup d))"

text \<open>\<open>s.lastIndexOf(pat)\<close>: the start of the last occurrence.\<close>

fun last_index_of :: "string \<Rightarrow> string \<Rightarrow> nat option" where
  "last_index_of pat [] = (if pat = [] then Some 0 else None)"
| "last_index_of pat (c # cs) =
     (case last_index_of pat cs of
        Some i \<Rightarrow> Some (Suc i)
      | None \<Rightarrow> if prefix pat (c # cs) then Some 0 else None)"

definition findAttempt :: "artifact_store \<Rightarrow> string \<Rightarrow> err + attempt_manifest" where
  "findAttempt s attemptId =
     (case last_index_of ''_a'' attemptId of
        None \<Rightarrow> Inl (Error (''Invalid attempt id: '' @ attemptId))
      | Some separator \<Rightarrow>
          if separator < 1 then Inl (Error (''Invalid attempt id: '' @ attemptId))
          else readAttempt s (take separator attemptId) attemptId)"

definition latestAttempt :: "artifact_store \<Rightarrow> string \<Rightarrow> err + attempt_manifest option" where
  "latestAttempt s jobId =
     (case safeSegment jobId of
        Inl e \<Rightarrow> Inl e
      | Inr j \<Rightarrow>
          (case at_last (js_sort (filter (prefix (jobId @ ''_a'')) (map fst (attempt_entries s j)))) of
             None \<Rightarrow> Inr None
           | Some latest \<Rightarrow> map_sum id Some (readAttempt s jobId latest)))"

definition is_staging :: "string \<Rightarrow> bool" where
  "is_staging name = sublist ''.reserve-'' name"

fun read_all :: "('a \<Rightarrow> err + 'b) \<Rightarrow> 'a list \<Rightarrow> err + 'b list" where
  "read_all f [] = Inr []"
| "read_all f (x # xs) =
     (case f x of Inl e \<Rightarrow> Inl e
      | Inr y \<Rightarrow> (case read_all f xs of Inl e \<Rightarrow> Inl e | Inr ys \<Rightarrow> Inr (y # ys)))"

text \<open>
  Sorted by creation time and then identifier: the two comparisons of the source, as two stable
  sorts. ISO time stamps collate as the times they denote.
\<close>

definition listAttempts :: "string comparator \<Rightarrow> artifact_store \<Rightarrow> err + attempt_manifest list" where
  "listAttempts lc s =
     (case read_all (\<lambda>job. case safeSegment job of
              Inl e \<Rightarrow> Inl e
            | Inr _ \<Rightarrow> read_all (readAttempt s job)
                (filter (\<lambda>a. \<not> is_staging a) (map fst (attempt_entries s job))))
          (filter (\<lambda>job. \<not> is_staging job) (map fst (as_jobs s))) of
        Inl e \<Rightarrow> Inl e
      | Inr attempts \<Rightarrow>
          Inr (Sorting_Algorithms.sort (key am_createdAt default)
                (Sorting_Algorithms.sort (key am_attemptId lc) (concat attempts))))"

subsection \<open>Reserving attempts\<close>

record attempt_reservation =
  rv_manifest :: attempt_manifest
  rv_directory :: string
  rv_created :: bool

definition attempt_id :: "string \<Rightarrow> nat \<Rightarrow> string" where
  "attempt_id jobId ordinal = jobId @ ''_a'' @ padStart 4 (CHR ''0'') (show_nat ordinal)"

definition staging_name :: "string \<Rightarrow> string \<Rightarrow> string" where
  "staging_name attemptId stg = attemptId @ ''.reserve-'' @ stg"

definition attempt_artifacts_of :: "artifact_store \<Rightarrow> string \<Rightarrow> string \<Rightarrow> attempt_artifacts" where
  "attempt_artifacts_of s jobId attemptId =
     (let directory = attemptDirectory s jobId attemptId in
      \<lparr>ar_job = jobPath s jobId, ar_manifest = attemptManifestPath s jobId attemptId,
       ar_stdout = path_join directory ''stdout.log'', ar_stderr = path_join directory ''stderr.log'',
       ar_proposalPatch = path_join directory ''proposal.patch'',
       ar_repositoryStatus = path_join directory ''repository-status.txt'',
       ar_changedPaths = path_join directory ''changed-paths.json'',
       ar_verification = path_join directory ''verification.json'',
       ar_cleanup = Some (path_join directory ''cleanup.json'')\<rparr>)"

text \<open>
  The staging directory is created first, so a manifest that does not satisfy its schema leaves it
  behind; every later failure removes it.
\<close>

definition reserveAttemptAt ::
  "timestamp \<Rightarrow> string \<Rightarrow> job_contract \<Rightarrow> nat \<Rightarrow> proposal_lineage option \<Rightarrow> string option \<Rightarrow>
   (artifact_store, attempt_reservation) act" where
  "reserveAttemptAt now stg contract ordinal lineage dispatchOperationId s =
     (let jobId = jc_jobId contract; attemptId = attempt_id jobId ordinal in
      case safeSegment jobId of
        Inl e \<Rightarrow> (Inl e, s)
      | Inr _ \<Rightarrow>
      (case safeSegment attemptId of
        Inl e \<Rightarrow> (Inl e, s)
      | Inr _ \<Rightarrow>
      if get_attempt s jobId (staging_name attemptId stg) \<noteq> None then (Inl (NodeError ''EEXIST''), s)
      else
      (case createReservedAttempt jobId attemptId ordinal (jc_adapterId contract) now
              (attempt_artifacts_of s jobId attemptId) lineage dispatchOperationId of
        Inl e \<Rightarrow> (Inl e, put_attempt jobId (staging_name attemptId stg) empty_attempt_dir s)
      | Inr manifest \<Rightarrow>
          let directory = attemptDirectory s jobId attemptId;
              published = (case createAttemptCleanupRecord attemptId jobId now of
                  Inl e \<Rightarrow> Inl e
                | Inr cleanup \<Rightarrow>
                    if get_attempt s jobId attemptId \<noteq> None then Inl (NodeError ''ENOTEMPTY'')
                    else Inr \<lparr>ad_manifest = fresh_journaled manifest, ad_cleanup = fresh_journaled cleanup\<rparr>)
          in case published of
               Inr d \<Rightarrow> (Inr \<lparr>rv_manifest = manifest, rv_directory = directory, rv_created = True\<rparr>,
                        put_attempt jobId attemptId d s)
             | Inl e \<Rightarrow>
                 if get_attempt s jobId attemptId = None then (Inl e, s)
                 else (map_sum id (\<lambda>m. \<lparr>rv_manifest = m, rv_directory = directory, rv_created = False\<rparr>)
                         (readAttempt s jobId attemptId), s))))"

text \<open>\<open>mkdir(attemptsRoot, { recursive: true })\<close>.\<close>

definition make_attempts_root :: "string \<Rightarrow> (artifact_store, unit) act" where
  "make_attempts_root jobId s =
     (case safeSegment jobId of
        Inl e \<Rightarrow> (Inl e, s)
      | Inr _ \<Rightarrow> (Inr (), put_job jobId ((get_job s jobId)\<lparr>jd_attempts := Some (attempt_entries s jobId)\<rparr>) s))"

fun reserve_from ::
  "timestamp \<Rightarrow> string \<Rightarrow> job_contract \<Rightarrow> proposal_lineage option \<Rightarrow> string option \<Rightarrow> nat \<Rightarrow> nat \<Rightarrow>
   (artifact_store, attempt_reservation) act" where
  "reserve_from now stg contract lineage opId ordinal 0 =
     raise (Error (''Attempt budget exhausted for '' @ jc_jobId contract @ '': maximum ''
       @ show_int (rl_maxAttemptsPerJob (jc_resources contract))))"
| "reserve_from now stg contract lineage opId ordinal (Suc left) =
     bindA (reserveAttemptAt now stg contract ordinal lineage opId)
       (\<lambda>reservation. if rv_created reservation then ret reservation
                       else reserve_from now stg contract lineage opId (Suc ordinal) left)"

definition reserveAttempt ::
  "timestamp \<Rightarrow> string \<Rightarrow> job_contract \<Rightarrow> proposal_lineage option \<Rightarrow> string option \<Rightarrow>
   (artifact_store, attempt_reservation) act" where
  "reserveAttempt now stg contract lineage opId =
     bindA (make_attempts_root (jc_jobId contract))
       (\<lambda>_. reserve_from now stg contract lineage opId 1 (nat (rl_maxAttemptsPerJob (jc_resources contract))))"

definition reserveInitialAttempt ::
  "timestamp \<Rightarrow> string \<Rightarrow> job_contract \<Rightarrow> string option \<Rightarrow> (artifact_store, attempt_reservation) act" where
  "reserveInitialAttempt now stg contract opId =
     bindA (make_attempts_root (jc_jobId contract))
       (\<lambda>_. reserveAttemptAt now stg contract 1 None opId)"

subsection \<open>Transitions\<close>

fun allowedAttemptTransitions :: "attempt_status \<Rightarrow> attempt_status list" where
  "allowedAttemptTransitions AReserved = [AReserved, AClaimed, ACancelled]"
| "allowedAttemptTransitions AClaimed = [AClaimed, APreparing, ACancelled, AFailed]"
| "allowedAttemptTransitions APreparing = [APreparing, ARunning, ANeedsInput, AFailed, ACancelled]"
| "allowedAttemptTransitions ARunning = [ARunning, AVerifying, AFailed, ACancelled]"
| "allowedAttemptTransitions AVerifying = [AVerifying, ACompleted, AFailed, ACancelled]"
| "allowedAttemptTransitions ACompleted = []"
| "allowedAttemptTransitions AFailed = []"
| "allowedAttemptTransitions ANeedsInput = []"
| "allowedAttemptTransitions ACancelled = []"

definition assertAttemptTransition :: "attempt_status \<Rightarrow> attempt_status \<Rightarrow> err + unit" where
  "assertAttemptTransition cur nxt =
     (if nxt \<notin> set (allowedAttemptTransitions cur)
      then Inl (Error (''Illegal attempt transition: '' @ attempt_status_name cur @ '' -> '' @ attempt_status_name nxt))
      else Inr ())"

definition on_manifest :: "string \<Rightarrow> string \<Rightarrow> (attempt_manifest journaled, unit) act \<Rightarrow> (artifact_store, unit) act" where
  "on_manifest jobId attemptId m s =
     (let d = (case get_attempt s jobId attemptId of None \<Rightarrow> empty_attempt_dir | Some d \<Rightarrow> d) in
      case m (ad_manifest d) of (r, j) \<Rightarrow> (r, put_attempt jobId attemptId (d\<lparr>ad_manifest := j\<rparr>) s))"

definition on_cleanup :: "string \<Rightarrow> string \<Rightarrow> (attempt_cleanup_record journaled, unit) act \<Rightarrow> (artifact_store, unit) act" where
  "on_cleanup jobId attemptId m s =
     (let d = (case get_attempt s jobId attemptId of None \<Rightarrow> empty_attempt_dir | Some d \<Rightarrow> d) in
      case m (ad_cleanup d) of (r, j) \<Rightarrow> (r, put_attempt jobId attemptId (d\<lparr>ad_cleanup := j\<rparr>) s))"

text \<open>The spread \<open>{ ...current, ...patch, ... }\<close>: the identity and the revision are not the patch's to set.\<close>

definition patched :: "attempt_manifest \<Rightarrow> (attempt_manifest \<Rightarrow> attempt_manifest) \<Rightarrow> attempt_manifest" where
  "patched v patch = (patch v)\<lparr>am_schema := Schema_V2, am_attemptId := am_attemptId v,
     am_jobId := am_jobId v, am_revision := am_revision v + 1\<rparr>"

definition transitionAttempt ::
  "failpoint \<Rightarrow> attempt_manifest \<Rightarrow> (attempt_manifest \<Rightarrow> attempt_manifest) \<Rightarrow> (artifact_store, attempt_manifest) act" where
  "transitionAttempt fp expected patch s =
     (case readAttempt s (am_jobId expected) (am_attemptId expected) of
        Inl e \<Rightarrow> (Inl e, s)
      | Inr current \<Rightarrow>
          if am_revision current \<noteq> am_revision expected \<or> current \<noteq> expected
          then (Inl (TransitionConflictError Attempt_Kind (am_attemptId expected) (am_revision expected)
                       (Some (am_revision current))), s)
          else
            let updated = patched current patch
            in if \<not> attemptManifest_valid updated then (Inl ZodError, s)
               else case assertAttemptTransition (am_status current) (am_status updated) of
                 Inl e \<Rightarrow> (Inl e, s)
               | Inr _ \<Rightarrow>
                   bindA (on_manifest (am_jobId current) (am_attemptId current)
                       (commitTransition fp Attempt_Kind (am_attemptId current) (am_revision current) updated))
                     (\<lambda>_. ret updated) s)"

definition patched_cleanup ::
  "timestamp \<Rightarrow> cleanup_requirement list option \<Rightarrow> cleanup_evidence list option \<Rightarrow> attempt_cleanup_record \<Rightarrow>
   attempt_cleanup_record" where
  "patched_cleanup now patchRequirements patchEvidence current =
     (let requirements = (case patchRequirements of None \<Rightarrow> cr_requirements current | Some rs \<Rightarrow> rs);
          evidence = (case patchEvidence of None \<Rightarrow> cr_evidence current | Some es \<Rightarrow> es)
      in current\<lparr>cr_revision := cr_revision current + 1, cr_updatedAt := now,
           cr_status := deriveCleanupStatus requirements evidence,
           cr_requirements := requirements, cr_evidence := evidence\<rparr>)"

definition transitionAttemptCleanup ::
  "failpoint \<Rightarrow> timestamp \<Rightarrow> attempt_cleanup_record \<Rightarrow> cleanup_requirement list option \<Rightarrow>
   cleanup_evidence list option \<Rightarrow> (artifact_store, attempt_cleanup_record) act" where
  "transitionAttemptCleanup fp now expected patchRequirements patchEvidence s =
     (case readAttemptCleanup s (cr_jobId expected) (cr_attemptId expected) of
        Inl e \<Rightarrow> (Inl e, s)
      | Inr current \<Rightarrow>
          if cr_revision current \<noteq> cr_revision expected \<or> current \<noteq> expected
          then (Inl (TransitionConflictError Attempt_Cleanup_Kind (cr_attemptId expected) (cr_revision expected)
                       (Some (cr_revision current))), s)
          else
            let updated = patched_cleanup now patchRequirements patchEvidence current
            in if \<not> attemptCleanupRecord_valid updated then (Inl ZodError, s)
               else
                 bindA (on_cleanup (cr_jobId current) (cr_attemptId current)
                     (commitTransition fp Attempt_Cleanup_Kind (cr_attemptId current) (cr_revision current) updated))
                   (\<lambda>_. ret updated) s)"

definition merge_requirement :: "cleanup_requirement \<Rightarrow> cleanup_requirement list \<Rightarrow> cleanup_requirement list" where
  "merge_requirement requirement rs =
     (if list_ex (\<lambda>candidate. sameCleanupSubject (rq_subject candidate) (rq_subject requirement)) rs
      then map (\<lambda>candidate.
             if sameCleanupSubject (rq_subject candidate) (rq_subject requirement)
             then candidate\<lparr>rq_deadlineMs := rq_deadlineMs requirement,
                    rq_guardian := (case rq_guardian requirement of None \<Rightarrow> rq_guardian candidate | Some g \<Rightarrow> Some g)\<rparr>
             else candidate) rs
      else rs @ [requirement])"

definition registerAttemptCleanupRequirement ::
  "failpoint \<Rightarrow> timestamp \<Rightarrow> string \<Rightarrow> string \<Rightarrow> cleanup_requirement \<Rightarrow> (artifact_store, attempt_cleanup_record) act" where
  "registerAttemptCleanupRequirement fp now jobId attemptId requirement s =
     (if \<not> cleanupRequirement_valid requirement then (Inl ZodError, s)
      else case readAttemptCleanup s jobId attemptId of
        Inl e \<Rightarrow> (Inl e, s)
      | Inr current \<Rightarrow>
          let requirements = merge_requirement requirement (cr_requirements current)
          in if requirements = cr_requirements current then (Inr current, s)
             else transitionAttemptCleanup fp now current (Some requirements) None s)"

definition appendAttemptCleanupEvidence ::
  "failpoint \<Rightarrow> timestamp \<Rightarrow> string \<Rightarrow> string \<Rightarrow> cleanup_evidence \<Rightarrow> (artifact_store, attempt_cleanup_record) act" where
  "appendAttemptCleanupEvidence fp now jobId attemptId evidence s =
     (if \<not> cleanupEvidence_valid evidence then (Inl ZodError, s)
      else case readAttemptCleanup s jobId attemptId of
        Inl e \<Rightarrow> (Inl e, s)
      | Inr current \<Rightarrow>
          if \<not> list_ex (\<lambda>r. sameCleanupSubject (rq_subject r) (ce_subject evidence)) (cr_requirements current)
          then (Inl (Error (''Cleanup evidence for unregistered subject ''
                  @ subject_kind_name (su_kind (ce_subject evidence)) @ '':'' @ su_id (ce_subject evidence))), s)
          else if list_ex (\<lambda>e. ce_evidenceId e = ce_evidenceId evidence) (cr_evidence current)
          then (Inr current, s)
          else transitionAttemptCleanup fp now current None (Some (cr_evidence current @ [evidence])) s)"

subsection \<open>Directories\<close>

lemma get_job_put_job [simp]: "get_job (put_job j d s) j' = (if j' = j then d else get_job s j')"
  by (simp add: get_job_def put_job_def update_conv')

lemma attempt_entries_put_job:
  "attempt_entries (put_job j d s) j' =
     (if j' = j then (case jd_attempts d of None \<Rightarrow> [] | Some es \<Rightarrow> es) else attempt_entries s j')"
  by (simp add: attempt_entries_def)

lemma get_attempt_put_attempt [simp]:
  "get_attempt (put_attempt j a d s) j' a' = (if j' = j \<and> a' = a then Some d else get_attempt s j' a')"
  by (auto simp: get_attempt_def put_attempt_def attempt_entries_put_job update_conv')

lemma get_attempt_put_job:
  "get_attempt (put_job j d s) j' a' =
     (if j' = j then map_of (case jd_attempts d of None \<Rightarrow> [] | Some es \<Rightarrow> es) a' else get_attempt s j' a')"
  by (simp add: get_attempt_def attempt_entries_put_job)

lemma get_attempt_empty_job: "get_job s j = empty_job_dir \<Longrightarrow> get_attempt s j a = None"
  by (simp add: get_attempt_def attempt_entries_def empty_job_dir_def)

lemma make_attempts_root_frame:
  "make_attempts_root j s = (r, t) \<Longrightarrow> get_attempt t j' a' = get_attempt s j' a'"
  by (auto simp: make_attempts_root_def attempt_entries_put_job get_attempt_def split: sum.splits)

lemma read_absent_journal [simp]: "read_journaled k l i revisionOf absent_journal = Inl (NodeError ''ENOENT'')"
  by (simp add: read_journaled_def absent_journal_def)

lemma readAttempt_conv:
  "readAttempt s j a = Inr v \<longleftrightarrow>
     is_safe_segment j \<and> is_safe_segment a \<and>
     (\<exists>d. get_attempt s j a = Some d \<and> read_journaled Attempt_Kind ''Attempt'' a am_revision (ad_manifest d) = Inr v)"
  by (auto simp: readAttempt_def attempt_path_def safeSegment_def empty_attempt_dir_def split: option.splits)

lemma readAttemptCleanup_conv:
  "readAttemptCleanup s j a = Inr v \<longleftrightarrow>
     is_safe_segment j \<and> is_safe_segment a \<and>
     (\<exists>d. get_attempt s j a = Some d \<and>
        read_journaled Attempt_Cleanup_Kind ''Attempt cleanup'' a cr_revision (ad_cleanup d) = Inr v)"
  by (auto simp: readAttemptCleanup_def attempt_path_def safeSegment_def empty_attempt_dir_def split: option.splits)

lemma readAttempt_cong: "get_attempt s j a = get_attempt t j a \<Longrightarrow> readAttempt s j a = readAttempt t j a"
  by (simp add: readAttempt_def attempt_path_def safeSegment_def)

lemma readAttemptCleanup_cong:
  "get_attempt s j a = get_attempt t j a \<Longrightarrow> readAttemptCleanup s j a = readAttemptCleanup t j a"
  by (simp add: readAttemptCleanup_def attempt_path_def safeSegment_def)

subsection \<open>Well-formed stores\<close>

definition journal_ok :: "('v \<Rightarrow> nat) \<Rightarrow> 'v journaled \<Rightarrow> bool" where
  "journal_ok revisionOf j \<longleftrightarrow> record_ok revisionOf j \<or> jl_projection j = None"

definition dir_ok :: "string \<Rightarrow> attempt_dir \<Rightarrow> bool" where
  "dir_ok a d \<longleftrightarrow> journal_ok am_revision (ad_manifest d) \<and> journal_ok cr_revision (ad_cleanup d) \<and>
     (\<not> is_staging a \<longrightarrow> record_ok am_revision (ad_manifest d) \<and> record_ok cr_revision (ad_cleanup d))"

definition store_ok :: "artifact_store \<Rightarrow> bool" where
  "store_ok s \<longleftrightarrow> (\<forall>j a d. get_attempt s j a = Some d \<longrightarrow> dir_ok a d)"

lemma journal_ok_read:
  "journal_ok revisionOf j \<Longrightarrow> read_journaled k l i revisionOf j = Inr v \<Longrightarrow> record_ok revisionOf j"
  by (auto simp: journal_ok_def read_journaled_def)

lemma journal_ok_absent: "journal_ok revisionOf absent_journal"
  by (simp add: journal_ok_def absent_journal_def)

lemma store_okD:
  assumes "store_ok s" and "get_attempt s j a = Some d"
  shows "journal_ok am_revision (ad_manifest d)" and "journal_ok cr_revision (ad_cleanup d)" and "dir_ok a d"
  using assms by (auto simp: store_ok_def dir_ok_def)

lemma dir_ok_update:
  "dir_ok a d \<Longrightarrow> record_ok am_revision j \<Longrightarrow> dir_ok a (d\<lparr>ad_manifest := j\<rparr>)"
  "dir_ok a d \<Longrightarrow> record_ok cr_revision k \<Longrightarrow> dir_ok a (d\<lparr>ad_cleanup := k\<rparr>)"
  by (simp_all add: dir_ok_def journal_ok_def)

lemma store_ok_put_attempt: "store_ok s \<Longrightarrow> dir_ok a d \<Longrightarrow> store_ok (put_attempt j a d s)"
  by (auto simp: store_ok_def)

lemma is_staging_staging_name [simp]: "is_staging (staging_name a stg)"
  unfolding is_staging_def sublist_def staging_name_def by blast

lemma store_ok_same_attempts:
  "store_ok s \<Longrightarrow> (\<And>j a. get_attempt t j a = get_attempt s j a) \<Longrightarrow> store_ok t"
  by (simp add: store_ok_def)

subsection \<open>What each operation does to the directories\<close>

lemma patched_simps [simp]:
  "am_revision (patched v patch) = Suc (am_revision v)"
  "am_attemptId (patched v patch) = am_attemptId v" "am_jobId (patched v patch) = am_jobId v"
  by (simp_all add: patched_def)

lemma transitionAttempt_cases:
  assumes "transitionAttempt fp x patch s = (r, t)"
  obtains (refused) e where "r = Inl e" "t = s"
  | (committed) d r0 j where
      "readAttempt s (am_jobId x) (am_attemptId x) = Inr x"
      "get_attempt s (am_jobId x) (am_attemptId x) = Some d"
      "am_status (patched x patch) \<in> set (allowedAttemptTransitions (am_status x))"
      "commitTransition fp Attempt_Kind (am_attemptId x) (am_revision x) (patched x patch) (ad_manifest d) = (r0, j)"
      "t = put_attempt (am_jobId x) (am_attemptId x) (d\<lparr>ad_manifest := j\<rparr>) s"
      "r = map_sum id (\<lambda>_. patched x patch) r0"
proof (cases "readAttempt s (am_jobId x) (am_attemptId x) = Inr x \<and> attemptManifest_valid (patched x patch) \<and>
    am_status (patched x patch) \<in> set (allowedAttemptTransitions (am_status x))")
  case True
  then obtain d where d: "get_attempt s (am_jobId x) (am_attemptId x) = Some d"
    by (auto simp: readAttempt_conv)
  obtain r0 j where c: "commitTransition fp Attempt_Kind (am_attemptId x) (am_revision x) (patched x patch) (ad_manifest d) = (r0, j)"
    by fastforce
  show ?thesis
    by (rule committed [OF _ d _ c]) (use assms True d c in
      \<open>auto simp: transitionAttempt_def Let_def assertAttemptTransition_def
         on_manifest_def bindA_def split: sum.splits\<close>)
next
  case False
  then have "(\<exists>e. fst (transitionAttempt fp x patch s) = Inl e) \<and> snd (transitionAttempt fp x patch s) = s"
    by (cases "readAttempt s (am_jobId x) (am_attemptId x)")
      (auto simp: transitionAttempt_def Let_def assertAttemptTransition_def)
  then show ?thesis using refused assms by auto
qed

lemma patched_cleanup_simps [simp]:
  "cr_revision (patched_cleanup now rs es c) = Suc (cr_revision c)"
  "cr_attemptId (patched_cleanup now rs es c) = cr_attemptId c"
  "cr_jobId (patched_cleanup now rs es c) = cr_jobId c"
  by (simp_all add: patched_cleanup_def Let_def)

lemma transitionAttemptCleanup_cases:
  assumes "transitionAttemptCleanup fp now x rs es s = (r, t)"
  obtains (refused) e where "r = Inl e" "t = s"
  | (committed) d r0 j where
      "readAttemptCleanup s (cr_jobId x) (cr_attemptId x) = Inr x"
      "get_attempt s (cr_jobId x) (cr_attemptId x) = Some d"
      "commitTransition fp Attempt_Cleanup_Kind (cr_attemptId x) (cr_revision x) (patched_cleanup now rs es x) (ad_cleanup d) = (r0, j)"
      "t = put_attempt (cr_jobId x) (cr_attemptId x) (d\<lparr>ad_cleanup := j\<rparr>) s"
      "r = map_sum id (\<lambda>_. patched_cleanup now rs es x) r0"
proof (cases "readAttemptCleanup s (cr_jobId x) (cr_attemptId x) = Inr x \<and>
    attemptCleanupRecord_valid (patched_cleanup now rs es x)")
  case True
  then obtain d where d: "get_attempt s (cr_jobId x) (cr_attemptId x) = Some d"
    by (auto simp: readAttemptCleanup_conv)
  obtain r0 j where c: "commitTransition fp Attempt_Cleanup_Kind (cr_attemptId x) (cr_revision x)
      (patched_cleanup now rs es x) (ad_cleanup d) = (r0, j)"
    by fastforce
  show ?thesis
    by (rule committed [OF _ d c]) (use assms True d c in
      \<open>auto simp: transitionAttemptCleanup_def Let_def on_cleanup_def bindA_def split: sum.splits\<close>)
next
  case False
  then have "(\<exists>e. fst (transitionAttemptCleanup fp now x rs es s) = Inl e) \<and>
      snd (transitionAttemptCleanup fp now x rs es s) = s"
    by (cases "readAttemptCleanup s (cr_jobId x) (cr_attemptId x)")
      (auto simp: transitionAttemptCleanup_def Let_def)
  then show ?thesis using refused assms by auto
qed

text \<open>
  A transition, whatever its failpoints do, keeps the store well formed, touches no other attempt,
  and leaves the record as it was or at the patched value, the latter only when the caller held the
  current record.
\<close>

lemma transitionAttempt_effect:
  assumes ok: "store_ok s" and lim: "Suc (am_revision x) < revision_limit"
    and tr: "transitionAttempt fp x patch s = (r, t)"
  shows "store_ok t"
    and "readAttemptCleanup t j' a' = readAttemptCleanup s j' a'"
    and "(j', a') \<noteq> (am_jobId x, am_attemptId x) \<Longrightarrow> readAttempt t j' a' = readAttempt s j' a'"
    and "readAttempt t (am_jobId x) (am_attemptId x) = readAttempt s (am_jobId x) (am_attemptId x) \<or>
         readAttempt s (am_jobId x) (am_attemptId x) = Inr x \<and>
         readAttempt t (am_jobId x) (am_attemptId x) = Inr (patched x patch) \<and>
         am_status (patched x patch) \<in> set (allowedAttemptTransitions (am_status x))"
proof -
  have "store_ok t \<and> readAttemptCleanup t j' a' = readAttemptCleanup s j' a' \<and>
    ((j', a') \<noteq> (am_jobId x, am_attemptId x) \<longrightarrow> readAttempt t j' a' = readAttempt s j' a') \<and>
    (readAttempt t (am_jobId x) (am_attemptId x) = readAttempt s (am_jobId x) (am_attemptId x) \<or>
         readAttempt s (am_jobId x) (am_attemptId x) = Inr x \<and>
         readAttempt t (am_jobId x) (am_attemptId x) = Inr (patched x patch) \<and>
         am_status (patched x patch) \<in> set (allowedAttemptTransitions (am_status x)))"
    using tr
  proof (cases rule: transitionAttempt_cases)
    case (refused e)
    then show ?thesis using ok by simp
  next
    case (committed d r0 j)
    note jok = store_okD [OF ok committed(2)]
    have rd: "read_journaled Attempt_Kind ''Attempt'' (am_attemptId x) am_revision (ad_manifest d) = Inr x"
      and safe: "is_safe_segment (am_jobId x)" "is_safe_segment (am_attemptId x)"
      using committed(1,2) by (simp_all add: readAttempt_conv)
    note eff = commit_any_failpoint [OF journal_ok_read [OF jok(1) rd] rd _ lim committed(4)]
    have "store_ok t"
      using store_ok_put_attempt [OF ok dir_ok_update(1) [OF jok(3) eff(1)]] by (simp add: committed(5))
    moreover have "readAttemptCleanup t j' a' = readAttemptCleanup s j' a'"
      using committed(2) by (auto simp: committed(5) readAttemptCleanup_def attempt_path_def safeSegment_def)
    moreover have "(j', a') \<noteq> (am_jobId x, am_attemptId x) \<longrightarrow> readAttempt t j' a' = readAttempt s j' a'"
      by (auto simp: committed(5) intro!: readAttempt_cong)
    moreover have "readAttempt t (am_jobId x) (am_attemptId x) \<in> {Inr x, Inr (patched x patch)}"
      using eff(2) safe by (simp add: committed(5) readAttempt_def attempt_path_def safeSegment_def)
    ultimately show ?thesis using committed(1,3) by auto
  qed
  then show "store_ok t"
    and "readAttemptCleanup t j' a' = readAttemptCleanup s j' a'"
    and "(j', a') \<noteq> (am_jobId x, am_attemptId x) \<Longrightarrow> readAttempt t j' a' = readAttempt s j' a'"
    and "readAttempt t (am_jobId x) (am_attemptId x) = readAttempt s (am_jobId x) (am_attemptId x) \<or>
         readAttempt s (am_jobId x) (am_attemptId x) = Inr x \<and>
         readAttempt t (am_jobId x) (am_attemptId x) = Inr (patched x patch) \<and>
         am_status (patched x patch) \<in> set (allowedAttemptTransitions (am_status x))"
    by blast+
qed

lemma transitionAttempt_Inr:
  assumes ok: "store_ok s" and lim: "Suc (am_revision x) < revision_limit"
    and tr: "transitionAttempt no_failpoint x patch s = (r, t)"
  shows "(\<exists>e. r = Inl e \<and> t = s) \<or>
         readAttempt s (am_jobId x) (am_attemptId x) = Inr x \<and> r = Inr (patched x patch) \<and>
         readAttempt t (am_jobId x) (am_attemptId x) = Inr (patched x patch) \<and>
         am_status (patched x patch) \<in> set (allowedAttemptTransitions (am_status x))"
  using tr
proof (cases rule: transitionAttempt_cases)
  case (committed d r0 j)
  have rd: "read_journaled Attempt_Kind ''Attempt'' (am_attemptId x) am_revision (ad_manifest d) = Inr x"
    and safe: "is_safe_segment (am_jobId x)" "is_safe_segment (am_attemptId x)"
    using committed(1,2) by (simp_all add: readAttempt_conv)
  note eff = commit_current [OF journal_ok_read [OF store_okD(1) [OF ok committed(2)] rd] rd _ lim committed(4)]
  have "readAttempt t (am_jobId x) (am_attemptId x) = Inr (patched x patch)"
    using eff(3) safe by (simp add: committed(5) readAttempt_def attempt_path_def safeSegment_def)
  then show ?thesis using committed eff(1) by simp
qed simp

text \<open>The attempt store is a revisioned store with a status machine.\<close>

interpretation attempts: status_store
  "\<lambda>s (j, a). readAttempt s j a" "transitionAttempt no_failpoint" "\<lambda>v. (am_jobId v, am_attemptId v)"
  am_revision store_ok am_status allowedAttemptTransitions
proof unfold_locales
  fix s :: artifact_store and v :: attempt_manifest and p v' s'
  assume a: "store_ok s" "Suc (am_revision v) < revision_limit" "transitionAttempt no_failpoint v p s = (Inr v', s')"
  show "(case (am_jobId v, am_attemptId v) of (j, a) \<Rightarrow> readAttempt s j a) = Inr v \<and>
        (case (am_jobId v, am_attemptId v) of (j, a) \<Rightarrow> readAttempt s' j a) = Inr v' \<and>
        am_revision v' = Suc (am_revision v) \<and> (am_jobId v', am_attemptId v') = (am_jobId v, am_attemptId v)"
    using transitionAttempt_Inr [OF a] by auto
  show "am_status v' \<in> set (allowedAttemptTransitions (am_status v))"
    using transitionAttempt_Inr [OF a] by auto
next
  fix s :: artifact_store and v :: attempt_manifest and p e s'
  assume a: "store_ok s" "Suc (am_revision v) < revision_limit" "transitionAttempt no_failpoint v p s = (Inl e, s')"
  show "(case (am_jobId v, am_attemptId v) of (j, a) \<Rightarrow> readAttempt s' j a) =
        (case (am_jobId v, am_attemptId v) of (j, a) \<Rightarrow> readAttempt s j a)"
    using transitionAttempt_Inr [OF a] by auto
next
  fix s :: artifact_store and v :: attempt_manifest and p r s'
  assume a: "store_ok s" "Suc (am_revision v) < revision_limit" "transitionAttempt no_failpoint v p s = (r, s')"
  show "store_ok s'" using transitionAttempt_effect(1) [OF a] .
  fix k :: "string \<times> string"
  assume "k \<noteq> (am_jobId v, am_attemptId v)"
  then show "(case k of (j, a) \<Rightarrow> readAttempt s' j a) = (case k of (j, a) \<Rightarrow> readAttempt s j a)"
    using transitionAttempt_effect(3) [OF a] by (cases k) simp
qed

lemma transitionAttemptCleanup_effect:
  assumes ok: "store_ok s" and lim: "Suc (cr_revision x) < revision_limit"
    and tr: "transitionAttemptCleanup fp now x rs es s = (r, t)"
  shows "store_ok t \<and> readAttempt t j' a' = readAttempt s j' a' \<and>
    ((j', a') \<noteq> (cr_jobId x, cr_attemptId x) \<longrightarrow> readAttemptCleanup t j' a' = readAttemptCleanup s j' a') \<and>
    (readAttemptCleanup t (cr_jobId x) (cr_attemptId x) = readAttemptCleanup s (cr_jobId x) (cr_attemptId x) \<or>
     readAttemptCleanup s (cr_jobId x) (cr_attemptId x) = Inr x \<and>
     readAttemptCleanup t (cr_jobId x) (cr_attemptId x) = Inr (patched_cleanup now rs es x))"
  using tr
proof (cases rule: transitionAttemptCleanup_cases)
  case (refused e)
  then show ?thesis using ok by simp
next
  case (committed d r0 j)
  note jok = store_okD [OF ok committed(2)]
  have rd: "read_journaled Attempt_Cleanup_Kind ''Attempt cleanup'' (cr_attemptId x) cr_revision (ad_cleanup d) = Inr x"
    and safe: "is_safe_segment (cr_jobId x)" "is_safe_segment (cr_attemptId x)"
    using committed(1,2) by (simp_all add: readAttemptCleanup_conv)
  note eff = commit_any_failpoint [OF journal_ok_read [OF jok(2) rd] rd _ lim committed(3)]
  have "store_ok t"
    using store_ok_put_attempt [OF ok dir_ok_update(2) [OF jok(3) eff(1)]] by (simp add: committed(4))
  moreover have "readAttempt t j' a' = readAttempt s j' a'"
    using committed(2) by (auto simp: committed(4) readAttempt_def attempt_path_def safeSegment_def)
  moreover have "(j', a') \<noteq> (cr_jobId x, cr_attemptId x) \<longrightarrow> readAttemptCleanup t j' a' = readAttemptCleanup s j' a'"
    by (auto simp: committed(4) intro!: readAttemptCleanup_cong)
  moreover have "readAttemptCleanup t (cr_jobId x) (cr_attemptId x) \<in> {Inr x, Inr (patched_cleanup now rs es x)}"
    using eff(2) safe by (simp add: committed(4) readAttemptCleanup_def attempt_path_def safeSegment_def)
  ultimately show ?thesis using committed(1) by auto
qed

lemma transitionAttemptCleanup_Inr:
  assumes ok: "store_ok s" and lim: "Suc (cr_revision x) < revision_limit"
    and tr: "transitionAttemptCleanup no_failpoint now x rs es s = (r, t)"
  shows "(\<exists>e. r = Inl e \<and> t = s) \<or>
         readAttemptCleanup s (cr_jobId x) (cr_attemptId x) = Inr x \<and> r = Inr (patched_cleanup now rs es x) \<and>
         readAttemptCleanup t (cr_jobId x) (cr_attemptId x) = Inr (patched_cleanup now rs es x)"
  using tr
proof (cases rule: transitionAttemptCleanup_cases)
  case (committed d r0 j)
  have rd: "read_journaled Attempt_Cleanup_Kind ''Attempt cleanup'' (cr_attemptId x) cr_revision (ad_cleanup d) = Inr x"
    and safe: "is_safe_segment (cr_jobId x)" "is_safe_segment (cr_attemptId x)"
    using committed(1,2) by (simp_all add: readAttemptCleanup_conv)
  note eff = commit_current [OF journal_ok_read [OF store_okD(2) [OF ok committed(2)] rd] rd _ lim committed(3)]
  have "readAttemptCleanup t (cr_jobId x) (cr_attemptId x) = Inr (patched_cleanup now rs es x)"
    using eff(3) safe by (simp add: committed(4) readAttemptCleanup_def attempt_path_def safeSegment_def)
  then show ?thesis using committed eff(1) by simp
qed simp

interpretation cleanups: revisioned_store
  "\<lambda>s (j, a). readAttemptCleanup s j a"
  "\<lambda>v (now, rs, es). transitionAttemptCleanup no_failpoint now v rs es"
  "\<lambda>v. (cr_jobId v, cr_attemptId v)" cr_revision store_ok
proof (unfold_locales, goal_cases)
  case (1 s v p v' s')
  then show ?case using transitionAttemptCleanup_Inr [OF 1(1,2)] by (cases p) fastforce
next
  case (2 s v p e s')
  then show ?case using transitionAttemptCleanup_Inr [OF 2(1,2)] by (cases p) fastforce
next
  case (3 s v p r s' k)
  then show ?case using transitionAttemptCleanup_effect [OF 3(1,2)] by (cases p; cases k) fastforce
next
  case (4 s v p r s')
  then show ?case using transitionAttemptCleanup_effect [OF 4(1,2)] by (cases p) fastforce
qed

subsection \<open>Reservations\<close>

lemma fresh_dir_ok:
  assumes "createReservedAttempt j a n ad now arts lin op = Inr m" and "createAttemptCleanupRecord a j now = Inr c"
  shows "am_revision m = 0" "am_status m = AReserved" "am_jobId m = j" "am_attemptId m = a" "am_ordinal m = n"
    and "am_lineage m = lin" "am_dispatchOperationId m = op" "attemptManifest_valid m"
    and "c = \<lparr>cr_attemptId = a, cr_jobId = j, cr_revision = 0, cr_updatedAt = now,
               cr_status = C_NotRequired, cr_requirements = [], cr_evidence = []\<rparr>"
  using assms by (auto simp: createReservedAttempt_def createAttemptCleanupRecord_def Let_def split: if_splits)

lemma reserveAttemptAt_cases:
  assumes "reserveAttemptAt now stg contract n lin op s = (r, t)"
  obtains (refused) e where "r = Inl e" "t = s"
  | (leftover) e where "r = Inl e"
      "get_attempt s (jc_jobId contract) (staging_name (attempt_id (jc_jobId contract) n) stg) = None"
      "t = put_attempt (jc_jobId contract) (staging_name (attempt_id (jc_jobId contract) n) stg) empty_attempt_dir s"
  | (taken) m where "get_attempt s (jc_jobId contract) (attempt_id (jc_jobId contract) n) \<noteq> None" "t = s"
      "readAttempt s (jc_jobId contract) (attempt_id (jc_jobId contract) n) = Inr m"
      "r = Inr \<lparr>rv_manifest = m,
         rv_directory = attemptDirectory s (jc_jobId contract) (attempt_id (jc_jobId contract) n), rv_created = False\<rparr>"
  | (created) m c where "get_attempt s (jc_jobId contract) (attempt_id (jc_jobId contract) n) = None"
      "is_safe_segment (jc_jobId contract)" "is_safe_segment (attempt_id (jc_jobId contract) n)"
      "createReservedAttempt (jc_jobId contract) (attempt_id (jc_jobId contract) n) n (jc_adapterId contract) now
         (attempt_artifacts_of s (jc_jobId contract) (attempt_id (jc_jobId contract) n)) lin op = Inr m"
      "createAttemptCleanupRecord (attempt_id (jc_jobId contract) n) (jc_jobId contract) now = Inr c"
      "t = put_attempt (jc_jobId contract) (attempt_id (jc_jobId contract) n)
             \<lparr>ad_manifest = fresh_journaled m, ad_cleanup = fresh_journaled c\<rparr> s"
      "r = Inr \<lparr>rv_manifest = m,
         rv_directory = attemptDirectory s (jc_jobId contract) (attempt_id (jc_jobId contract) n), rv_created = True\<rparr>"
proof -
  note D = reserveAttemptAt_def Let_def safeSegment_def
  show ?thesis
  proof (cases "is_safe_segment (jc_jobId contract) \<and> is_safe_segment (attempt_id (jc_jobId contract) n) \<and>
      get_attempt s (jc_jobId contract) (staging_name (attempt_id (jc_jobId contract) n) stg) = None")
    case False
    then have "(\<exists>e. fst (reserveAttemptAt now stg contract n lin op s) = Inl e) \<and>
        snd (reserveAttemptAt now stg contract n lin op s) = s"
      by (auto simp: D)
    then show ?thesis using refused assms by auto
  next
    case safe: True
    show ?thesis
    proof (cases "createReservedAttempt (jc_jobId contract) (attempt_id (jc_jobId contract) n) n (jc_adapterId contract) now
         (attempt_artifacts_of s (jc_jobId contract) (attempt_id (jc_jobId contract) n)) lin op")
      case (Inl e)
      show ?thesis by (rule leftover) (use assms safe Inl in \<open>auto simp: D\<close>)
    next
      case m: (Inr m)
      show ?thesis
      proof (cases "get_attempt s (jc_jobId contract) (attempt_id (jc_jobId contract) n)")
        case None
        show ?thesis
        proof (cases "createAttemptCleanupRecord (attempt_id (jc_jobId contract) n) (jc_jobId contract) now")
          case (Inl e)
          show ?thesis by (rule refused) (use assms safe m None Inl in \<open>auto simp: D\<close>)
        next
          case (Inr c)
          show ?thesis by (rule created [OF None _ _ m Inr]) (use assms safe m None Inr in \<open>auto simp: D\<close>)
        qed
      next
        case (Some d)
        have "r = map_sum id (\<lambda>m. \<lparr>rv_manifest = m,
            rv_directory = attemptDirectory s (jc_jobId contract) (attempt_id (jc_jobId contract) n), rv_created = False\<rparr>)
            (readAttempt s (jc_jobId contract) (attempt_id (jc_jobId contract) n)) \<and> t = s"
          using assms safe m Some by (auto simp: D split: sum.splits)
        then show ?thesis using refused taken Some
          by (cases "readAttempt s (jc_jobId contract) (attempt_id (jc_jobId contract) n)") auto
      qed
    qed
  qed
qed

lemma fresh_journal_ok: "revisionOf v = 0 \<Longrightarrow> journal_ok revisionOf (fresh_journaled v)"
  by (simp add: journal_ok_def record_ok_fresh)

text \<open>
  A new directory, published or left over, leaves every existing record alone, and a directory
  published by a reservation reads back as reserved.
\<close>

lemma reserveAttemptAt_effect:
  assumes ok: "store_ok s" and r: "reserveAttemptAt now stg contract n lin op s = (r, t)"
  shows "store_ok t" and "get_attempt s j a = Some d \<Longrightarrow> get_attempt t j a = Some d"
    and "get_attempt s j a = None \<Longrightarrow> get_attempt t j a = Some d \<Longrightarrow>
         d = empty_attempt_dir \<and> is_staging a \<or>
         (\<exists>m. j = jc_jobId contract \<and> a = attempt_id j n \<and>
            ad_manifest d = fresh_journaled m \<and> am_jobId m = j \<and> am_attemptId m = a \<and> am_ordinal m = n \<and>
            am_status m = AReserved \<and> am_revision m = 0 \<and>
            ad_cleanup d = fresh_journaled \<lparr>cr_attemptId = a, cr_jobId = j, cr_revision = 0, cr_updatedAt = now,
               cr_status = C_NotRequired, cr_requirements = [], cr_evidence = []\<rparr>)"
proof -
  have "store_ok t \<and> (get_attempt s j a = Some d \<longrightarrow> get_attempt t j a = Some d) \<and>
     (get_attempt s j a = None \<longrightarrow> get_attempt t j a = Some d \<longrightarrow>
         d = empty_attempt_dir \<and> is_staging a \<or>
         (\<exists>m. j = jc_jobId contract \<and> a = attempt_id j n \<and>
            ad_manifest d = fresh_journaled m \<and> am_jobId m = j \<and> am_attemptId m = a \<and> am_ordinal m = n \<and>
            am_status m = AReserved \<and> am_revision m = 0 \<and>
            ad_cleanup d = fresh_journaled \<lparr>cr_attemptId = a, cr_jobId = j, cr_revision = 0, cr_updatedAt = now,
               cr_status = C_NotRequired, cr_requirements = [], cr_evidence = []\<rparr>))"
    using r
  proof (cases rule: reserveAttemptAt_cases)
    case (leftover e)
    then show ?thesis using ok
      by (auto intro!: store_ok_put_attempt simp: dir_ok_def empty_attempt_dir_def journal_ok_absent)
  next
    case (created m c)
    note f = fresh_dir_ok [OF created(4,5)]
    have "store_ok t"
      using ok f by (auto simp: created(6) dir_ok_def record_ok_fresh intro!: store_ok_put_attempt fresh_journal_ok)
    then show ?thesis using created(1,6) f by auto
  qed (use ok in auto)
  then show "store_ok t" and "get_attempt s j a = Some d \<Longrightarrow> get_attempt t j a = Some d"
    and "get_attempt s j a = None \<Longrightarrow> get_attempt t j a = Some d \<Longrightarrow>
         d = empty_attempt_dir \<and> is_staging a \<or>
         (\<exists>m. j = jc_jobId contract \<and> a = attempt_id j n \<and>
            ad_manifest d = fresh_journaled m \<and> am_jobId m = j \<and> am_attemptId m = a \<and> am_ordinal m = n \<and>
            am_status m = AReserved \<and> am_revision m = 0 \<and>
            ad_cleanup d = fresh_journaled \<lparr>cr_attemptId = a, cr_jobId = j, cr_revision = 0, cr_updatedAt = now,
               cr_status = C_NotRequired, cr_requirements = [], cr_evidence = []\<rparr>)"
    by blast+
qed

subsection \<open>Every operation, in any order\<close>

text \<open>
  The store is shared by every process of the runtime. A step is one call of one of its mutating
  operations, with any arguments and any failpoint; the revision bound is the one of the journal's
  twelve-digit names.
\<close>

inductive artifact_step :: "artifact_store \<Rightarrow> artifact_store \<Rightarrow> bool" where
  reserve_job: "reserveJob sha256 lc contract s = (r, t) \<Longrightarrow> artifact_step s t"
| make_root: "make_attempts_root jobId s = (r, t) \<Longrightarrow> artifact_step s t"
| reserve_attempt: "reserveAttemptAt now stg contract n lin op s = (r, t) \<Longrightarrow> artifact_step s t"
| transition: "Suc (am_revision x) < revision_limit \<Longrightarrow> transitionAttempt fp x patch s = (r, t) \<Longrightarrow> artifact_step s t"
| register: "(\<And>c. readAttemptCleanup s j a = Inr c \<Longrightarrow> Suc (cr_revision c) < revision_limit) \<Longrightarrow>
    registerAttemptCleanupRequirement fp now j a requirement s = (r, t) \<Longrightarrow> artifact_step s t"
| evidence: "(\<And>c. readAttemptCleanup s j a = Inr c \<Longrightarrow> Suc (cr_revision c) < revision_limit) \<Longrightarrow>
    appendAttemptCleanupEvidence fp now j a e s = (r, t) \<Longrightarrow> artifact_step s t"

definition empty_store :: "string \<Rightarrow> artifact_store" where
  "empty_store d = \<lparr>as_root = d, as_jobs = []\<rparr>"

definition artifact_reachable :: "artifact_store \<Rightarrow> bool" where
  "artifact_reachable s \<longleftrightarrow> (\<exists>d. artifact_step\<^sup>*\<^sup>* (empty_store d) s)"

text \<open>\<open>reserveAttempt\<close> and \<open>reserveInitialAttempt\<close> are sequences of these steps.\<close>

lemma reserve_from_steps:
  "reserve_from now stg contract lin op n k s = (r, t) \<Longrightarrow> artifact_step\<^sup>*\<^sup>* s t"
proof (induction k arbitrary: n s)
  case (Suc k)
  obtain r1 s1 where one: "reserveAttemptAt now stg contract n lin op s = (r1, s1)" by fastforce
  have st: "artifact_step s s1" using artifact_step.reserve_attempt [OF one] .
  show ?case
  proof (cases "\<exists>rv. r1 = Inr rv \<and> \<not> rv_created rv")
    case True
    then have "reserve_from now stg contract lin op (Suc n) k s1 = (r, t)"
      using Suc.prems one by (auto simp: bindA_def)
    then show ?thesis using Suc.IH st by (meson converse_rtranclp_into_rtranclp)
  next
    case False
    then have "t = s1" using Suc.prems one by (cases r1) (auto simp: bindA_def)
    then show ?thesis using st by blast
  qed
qed simp

lemma reserveAttempt_steps:
  assumes "reserveAttempt now stg contract lin op s = (r, t)"
  shows "artifact_step\<^sup>*\<^sup>* s t"
proof -
  obtain r1 s1 where one: "make_attempts_root (jc_jobId contract) s = (r1, s1)" by fastforce
  have st: "artifact_step s s1" using artifact_step.make_root [OF one] .
  show ?thesis
  proof (cases r1)
    case (Inl e)
    then show ?thesis using assms one st by (auto simp: reserveAttempt_def bindA_def)
  next
    case (Inr u)
    then have "artifact_step\<^sup>*\<^sup>* s1 t"
      using assms one by (auto simp: reserveAttempt_def bindA_def intro: reserve_from_steps)
    then show ?thesis using st by (meson converse_rtranclp_into_rtranclp)
  qed
qed

subsection \<open>The invariant of the store\<close>

definition cleanup_ok :: "attempt_cleanup_record \<Rightarrow> bool" where
  "cleanup_ok c \<longleftrightarrow>
     cr_status c = deriveCleanupStatus (cr_requirements c) (cr_evidence c) \<and>
     distinct (map rq_subject (cr_requirements c)) \<and>
     ce_subject ` set (cr_evidence c) \<subseteq> rq_subject ` set (cr_requirements c) \<and>
     distinct (map ce_evidenceId (cr_evidence c))"

definition cleanup_grows :: "attempt_cleanup_record \<Rightarrow> attempt_cleanup_record \<Rightarrow> bool" where
  "cleanup_grows c c' \<longleftrightarrow> cr_revision c \<le> cr_revision c' \<and> (cr_revision c' = cr_revision c \<longrightarrow> c' = c) \<and>
     prefix (map rq_subject (cr_requirements c)) (map rq_subject (cr_requirements c')) \<and>
     prefix (cr_evidence c) (cr_evidence c')"

definition store_inv :: "artifact_store \<Rightarrow> bool" where
  "store_inv s \<longleftrightarrow> store_ok s \<and>
     (\<forall>j a v. readAttempt s j a = Inr v \<longrightarrow> am_jobId v = j \<and> am_attemptId v = a) \<and>
     (\<forall>j a c. readAttemptCleanup s j a = Inr c \<longrightarrow> cr_jobId c = j \<and> cr_attemptId c = a \<and> cleanup_ok c)"

lemma cleanup_grows_refl [simp]: "cleanup_grows c c"
  by (simp add: cleanup_grows_def)

lemma cleanup_grows_trans: "cleanup_grows a b \<Longrightarrow> cleanup_grows b c \<Longrightarrow> cleanup_grows a c"
  unfolding cleanup_grows_def by (metis order.trans order.antisym prefix_order.trans)

text \<open>What one step may do to the two records of an attempt.\<close>

definition attempt_moves :: "attempt_manifest \<Rightarrow> attempt_manifest \<Rightarrow> bool" where
  "attempt_moves v v' \<longleftrightarrow> v' = v \<or>
     am_revision v' = Suc (am_revision v) \<and> am_jobId v' = am_jobId v \<and> am_attemptId v' = am_attemptId v \<and>
     am_status v' \<in> set (allowedAttemptTransitions (am_status v))"

definition step_effect :: "artifact_store \<Rightarrow> artifact_store \<Rightarrow> bool" where
  "step_effect s t \<longleftrightarrow>
     (\<forall>j a v. readAttempt s j a = Inr v \<longrightarrow> (\<exists>v'. readAttempt t j a = Inr v' \<and> attempt_moves v v')) \<and>
     (\<forall>j a c. readAttemptCleanup s j a = Inr c \<longrightarrow>
        (\<exists>c'. readAttemptCleanup t j a = Inr c' \<and> cleanup_grows c c'))"

lemma list_ex_eq_image: "list_ex (\<lambda>x. f x = y) xs \<longleftrightarrow> y \<in> f ` set xs"
  unfolding list_ex_iff image_iff by metis

lemma merge_requirement_subjects:
  "map rq_subject (merge_requirement r rs) =
     (if rq_subject r \<in> rq_subject ` set rs then map rq_subject rs else map rq_subject rs @ [rq_subject r])"
proof -
  have "list_ex (\<lambda>c. sameCleanupSubject (rq_subject c) (rq_subject r)) rs \<longleftrightarrow> rq_subject r \<in> rq_subject ` set rs"
    by (simp add: list_ex_eq_image)
  then show ?thesis by (simp add: merge_requirement_def)
qed

lemma cleanup_ok_merge:
  assumes "cleanup_ok c"
  shows "cleanup_ok (patched_cleanup now (Some (merge_requirement r (cr_requirements c))) None c) \<and>
     cleanup_grows c (patched_cleanup now (Some (merge_requirement r (cr_requirements c))) None c)"
proof -
  let ?m = "merge_requirement r (cr_requirements c)"
  note subj = merge_requirement_subjects [of r "cr_requirements c"]
  have "distinct (map rq_subject ?m)" using assms by (simp add: subj cleanup_ok_def)
  moreover have pre: "prefix (map rq_subject (cr_requirements c)) (map rq_subject ?m)" by (simp add: subj)
  moreover have "ce_subject ` set (cr_evidence c) \<subseteq> rq_subject ` set ?m"
    using set_mono_prefix [OF pre] assms unfolding cleanup_ok_def set_map by blast
  ultimately show ?thesis
    using assms by (simp add: cleanup_ok_def cleanup_grows_def patched_cleanup_def Let_def)
qed

lemma cleanup_ok_append:
  assumes "cleanup_ok c" and "ce_subject e \<in> rq_subject ` set (cr_requirements c)"
    and "ce_evidenceId e \<notin> ce_evidenceId ` set (cr_evidence c)"
  shows "cleanup_ok (patched_cleanup now None (Some (cr_evidence c @ [e])) c) \<and>
     cleanup_grows c (patched_cleanup now None (Some (cr_evidence c @ [e])) c)"
  using assms by (auto simp: cleanup_ok_def cleanup_grows_def patched_cleanup_def Let_def)

lemma store_inv_new_dirs:
  assumes inv: "store_inv s" and ok: "store_ok t"
    and old: "\<And>j a d. get_attempt s j a = Some d \<Longrightarrow> get_attempt t j a = Some d"
    and new: "\<And>j a d. get_attempt s j a = None \<Longrightarrow> get_attempt t j a = Some d \<Longrightarrow> d = empty_attempt_dir \<or>
      (\<exists>m now. ad_manifest d = fresh_journaled m \<and> am_jobId m = j \<and> am_attemptId m = a \<and>
         ad_cleanup d = fresh_journaled \<lparr>cr_attemptId = a, cr_jobId = j, cr_revision = 0, cr_updatedAt = now,
           cr_status = C_NotRequired, cr_requirements = [], cr_evidence = []\<rparr>)"
  shows "store_inv t \<and> step_effect s t"
proof -
  have rd: "readAttempt t j a = readAttempt s j a" "readAttemptCleanup t j a = readAttemptCleanup s j a"
    if "get_attempt s j a \<noteq> None" for j a
    using that old by (auto intro!: readAttempt_cong readAttemptCleanup_cong)
  have none: "readAttempt s j a \<noteq> Inr v" "readAttemptCleanup s j a \<noteq> Inr c" if "get_attempt s j a = None" for j a v c
    using that by (auto simp: readAttempt_conv readAttemptCleanup_conv)
  have e: "step_effect s t"
    unfolding step_effect_def using rd none by (metis attempt_moves_def cleanup_grows_refl)
  have "am_jobId v = j \<and> am_attemptId v = a" if "readAttempt t j a = Inr v" for j a v
  proof (cases "get_attempt s j a")
    case None
    obtain d where "get_attempt t j a = Some d"
        "read_journaled Attempt_Kind ''Attempt'' a am_revision (ad_manifest d) = Inr v"
      using \<open>readAttempt t j a = Inr v\<close> by (auto simp: readAttempt_conv)
    then show ?thesis using new [OF None] by (auto simp: empty_attempt_dir_def)
  next
    case (Some d)
    then show ?thesis using that rd inv by (metis option.distinct(1) store_inv_def)
  qed
  moreover have "cr_jobId c = j \<and> cr_attemptId c = a \<and> cleanup_ok c" if "readAttemptCleanup t j a = Inr c" for j a c
  proof (cases "get_attempt s j a")
    case None
    obtain d where "get_attempt t j a = Some d"
        "read_journaled Attempt_Cleanup_Kind ''Attempt cleanup'' a cr_revision (ad_cleanup d) = Inr c"
      using \<open>readAttemptCleanup t j a = Inr c\<close> by (auto simp: readAttemptCleanup_conv)
    then show ?thesis using new [OF None]
      by (auto simp: empty_attempt_dir_def cleanup_ok_def deriveCleanupStatus_def)
  next
    case (Some d)
    then show ?thesis using that rd inv by (metis option.distinct(1) store_inv_def)
  qed
  ultimately show ?thesis using ok e by (simp add: store_inv_def)
qed

lemma store_inv_transition:
  assumes inv: "store_inv s" and lim: "Suc (am_revision x) < revision_limit"
    and tr: "transitionAttempt fp x patch s = (r, t)"
  shows "store_inv t \<and> step_effect s t"
proof -
  have ok: "store_ok s" using inv by (simp add: store_inv_def)
  note eff = transitionAttempt_effect [OF ok lim tr]
  have at: "readAttempt t j a = readAttempt s j a \<or>
      readAttempt s j a = Inr x \<and> readAttempt t j a = Inr (patched x patch) \<and> attempt_moves x (patched x patch)" for j a
    using eff(3) [of j a] eff(4)
    by (cases "(j, a) = (am_jobId x, am_attemptId x)") (auto simp: attempt_moves_def)
  have "am_jobId v = j \<and> am_attemptId v = a" if "readAttempt t j a = Inr v" for j a v
    using at [of j a] that inv by (auto simp: store_inv_def)
  moreover have "step_effect s t"
    unfolding step_effect_def using at eff(2) by (metis Inr_inject attempt_moves_def cleanup_grows_refl)
  ultimately show ?thesis using eff(1,2) inv by (simp add: store_inv_def)
qed

lemma store_inv_cleanup:
  assumes inv: "store_inv s" and lim: "Suc (cr_revision x) < revision_limit"
    and tr: "transitionAttemptCleanup fp now x rs es s = (r, t)"
    and good: "cleanup_ok (patched_cleanup now rs es x) \<and> cleanup_grows x (patched_cleanup now rs es x)"
  shows "store_inv t \<and> step_effect s t"
proof -
  have ok: "store_ok s" using inv by (simp add: store_inv_def)
  note eff = transitionAttemptCleanup_effect [OF ok lim tr]
  have other: "store_ok t" "readAttempt t j a = readAttempt s j a" for j a
    using eff [of j a] by blast+
  have at: "readAttemptCleanup t j a = readAttemptCleanup s j a \<or>
      readAttemptCleanup s j a = Inr x \<and> readAttemptCleanup t j a = Inr (patched_cleanup now rs es x)" for j a
    using eff [of j a] by (cases "(j, a) = (cr_jobId x, cr_attemptId x)") auto
  have "cr_jobId c = j \<and> cr_attemptId c = a \<and> cleanup_ok c" if "readAttemptCleanup t j a = Inr c" for j a c
    using at [of j a] that inv good by (auto simp: store_inv_def)
  moreover have "\<exists>c'. readAttemptCleanup t j a = Inr c' \<and> cleanup_grows c c'" if "readAttemptCleanup s j a = Inr c" for j a c
    using at [of j a] that good by auto
  ultimately show ?thesis using other inv by (simp add: store_inv_def step_effect_def attempt_moves_def)
qed

lemma step_effect_refl [simp]: "step_effect s s"
  by (auto simp: step_effect_def attempt_moves_def)

lemma store_inv_register:
  assumes inv: "store_inv s" and lim: "\<And>c. readAttemptCleanup s j a = Inr c \<Longrightarrow> Suc (cr_revision c) < revision_limit"
    and tr: "registerAttemptCleanupRequirement fp now j a requirement s = (r, t)"
  shows "store_inv t \<and> step_effect s t"
proof (cases "\<exists>c. readAttemptCleanup s j a = Inr c \<and> cleanupRequirement_valid requirement \<and>
    merge_requirement requirement (cr_requirements c) \<noteq> cr_requirements c")
  case True
  then obtain c where c: "readAttemptCleanup s j a = Inr c" "cleanup_ok c"
    and tc: "transitionAttemptCleanup fp now c (Some (merge_requirement requirement (cr_requirements c))) None s = (r, t)"
    using tr inv by (auto simp: registerAttemptCleanupRequirement_def store_inv_def)
  show ?thesis using store_inv_cleanup [OF inv lim [OF c(1)] tc cleanup_ok_merge [OF c(2)]] .
next
  case False
  then have "snd (registerAttemptCleanupRequirement fp now j a requirement s) = s"
    by (auto simp: registerAttemptCleanupRequirement_def Let_def split: sum.splits)
  then show ?thesis using tr inv by simp
qed

lemma store_inv_evidence:
  assumes inv: "store_inv s" and lim: "\<And>c. readAttemptCleanup s j a = Inr c \<Longrightarrow> Suc (cr_revision c) < revision_limit"
    and tr: "appendAttemptCleanupEvidence fp now j a e s = (r, t)"
  shows "store_inv t \<and> step_effect s t"
proof (cases "\<exists>c. readAttemptCleanup s j a = Inr c \<and> cleanupEvidence_valid e \<and>
    ce_subject e \<in> rq_subject ` set (cr_requirements c) \<and> ce_evidenceId e \<notin> ce_evidenceId ` set (cr_evidence c)")
  case True
  then obtain c where c: "readAttemptCleanup s j a = Inr c" "cleanup_ok c"
    and e: "ce_subject e \<in> rq_subject ` set (cr_requirements c)" "ce_evidenceId e \<notin> ce_evidenceId ` set (cr_evidence c)"
      "cleanupEvidence_valid e"
    using inv by (auto simp: store_inv_def)
  have tc: "transitionAttemptCleanup fp now c None (Some (cr_evidence c @ [e])) s = (r, t)"
    using tr c(1) e by (simp add: appendAttemptCleanupEvidence_def list_ex_eq_image)
  show ?thesis using store_inv_cleanup [OF inv lim [OF c(1)] tc cleanup_ok_append [OF c(2) e(1,2)]] .
next
  case False
  then have "snd (appendAttemptCleanupEvidence fp now j a e s) = s"
    by (auto simp: appendAttemptCleanupEvidence_def Let_def list_ex_eq_image split: sum.splits)
  then show ?thesis using tr inv by simp
qed

lemma artifact_step_inv: "artifact_step s t \<Longrightarrow> store_inv s \<Longrightarrow> store_inv t \<and> step_effect s t"
proof (induction rule: artifact_step.induct)
  case (reserve_job sha256 lc contract s r t)
  have same: "get_attempt t j a = get_attempt s j a" for j a
    using reserve_job.hyps
    by (auto simp: reserveJob_def get_attempt_put_job safeSegment_def get_attempt_empty_job
        split: if_splits sum.splits)
  show ?case
    by (rule store_inv_new_dirs [OF reserve_job.prems])
      (use same reserve_job.prems store_ok_same_attempts in \<open>auto simp: store_inv_def\<close>)
next
  case (make_root jobId s r t)
  note same = make_attempts_root_frame [OF make_root.hyps]
  show ?case
    by (rule store_inv_new_dirs [OF make_root.prems])
      (use same make_root.prems store_ok_same_attempts in \<open>auto simp: store_inv_def\<close>)
next
  case (reserve_attempt now stg contract n lin op s r t)
  have ok: "store_ok s" using reserve_attempt.prems by (simp add: store_inv_def)
  note eff = reserveAttemptAt_effect [OF ok reserve_attempt.hyps]
  show ?case
    by (rule store_inv_new_dirs [OF reserve_attempt.prems eff(1) eff(2)]) (use eff(3) in blast)+
next
  case (transition x fp patch s r t)
  show ?case using store_inv_transition [OF transition.prems transition.hyps] .
next
  case (register s j a fp now requirement r t)
  show ?case using store_inv_register [OF register.prems register.hyps] .
next
  case (evidence s j a fp now e r t)
  show ?case using store_inv_evidence [OF evidence.prems evidence.hyps] .
qed

lemma artifact_steps_inv: "artifact_step\<^sup>*\<^sup>* s t \<Longrightarrow> store_inv s \<Longrightarrow> store_inv t"
  by (induction rule: rtranclp_induct) (use artifact_step_inv in blast)+

lemma store_inv_empty: "store_inv (empty_store d)"
  by (simp add: store_inv_def store_ok_def empty_store_def get_attempt_def attempt_entries_def get_job_def
      empty_job_dir_def readAttempt_conv readAttemptCleanup_conv)

lemma reachable_inv: "artifact_reachable s \<Longrightarrow> store_inv s"
  unfolding artifact_reachable_def using artifact_steps_inv store_inv_empty by blast

lemma attempt_steps:
  assumes "artifact_step\<^sup>*\<^sup>* s t" and "store_inv s" and "readAttempt s j a = Inr v"
  shows "\<exists>v'. readAttempt t j a = Inr v' \<and> attempt_moves\<^sup>*\<^sup>* v v'"
  using assms
proof (induction rule: rtranclp_induct)
  case (step t u)
  then obtain v' where v': "readAttempt t j a = Inr v'" "attempt_moves\<^sup>*\<^sup>* v v'" by blast
  have "step_effect t u" using artifact_step_inv [OF step.hyps(2) artifact_steps_inv [OF step.hyps(1) step.prems(1)]] by blast
  then obtain v'' where "readAttempt u j a = Inr v''" "attempt_moves v' v''"
    using v'(1) unfolding step_effect_def by blast
  then show ?case using v'(2) by (meson rtranclp.rtrancl_into_rtrancl)
qed blast

lemma attempt_moves_terminal:
  assumes "attempt_moves\<^sup>*\<^sup>* v v'" and "isAttemptTerminal (am_status v)"
  shows "v' = v"
  using assms
proof (induction rule: rtranclp_induct)
  case (step a b)
  then show ?case by (cases "am_status v") (auto simp: attempt_moves_def)
qed simp

lemma cleanup_steps:
  assumes "artifact_step\<^sup>*\<^sup>* s t" and "store_inv s" and "readAttemptCleanup s j a = Inr c"
  shows "\<exists>c'. readAttemptCleanup t j a = Inr c' \<and> cleanup_grows c c'"
  using assms
proof (induction rule: rtranclp_induct)
  case (step t u)
  then obtain c' where c': "readAttemptCleanup t j a = Inr c'" "cleanup_grows c c'" by blast
  have "step_effect t u" using artifact_step_inv [OF step.hyps(2) artifact_steps_inv [OF step.hyps(1) step.prems(1)]] by blast
  then obtain c'' where "readAttemptCleanup u j a = Inr c''" "cleanup_grows c' c''"
    using c'(1) unfolding step_effect_def by blast
  then show ?case using c'(2) cleanup_grows_trans by blast
qed auto

subsection \<open>Attempt identifiers\<close>

lemma is_digit_not_sep: "is_digit c \<Longrightarrow> c \<noteq> CHR ''_'' \<and> c \<noteq> CHR ''a''"
  by (auto simp: is_digit_def)

lemma show_nat_digits: "list_all is_digit (show_nat n)"
proof (induction n rule: show_nat.induct)
  case (1 n)
  show ?case
  proof (cases "n < 10")
    case True
    then show ?thesis by (subst show_nat.simps) simp
  next
    case False
    then show ?thesis using 1 by (subst show_nat.simps) simp
  qed
qed

lemma ordinal_digits: "list_all is_digit (padStart 4 (CHR ''0'') (show_nat n))"
proof -
  have "is_digit (CHR ''0'')" by (simp add: is_digit_def)
  then show ?thesis using show_nat_digits [of n] by (auto simp: padStart_def list_all_iff)
qed

lemma last_index_of_digits: "list_all is_digit ds \<Longrightarrow> last_index_of ''_a'' ds = None"
  by (induction ds) (auto dest: is_digit_not_sep)

lemma last_index_of_suffix:
  assumes "list_all is_digit ds"
  shows "last_index_of ''_a'' (xs @ ''_a'' @ ds) = Some (length xs)"
proof (induction xs)
  case Nil
  have "last_index_of ''_a'' (CHR ''a'' # ds) = None"
    using last_index_of_digits [OF assms] by simp
  then show ?case by simp
qed simp

text \<open>\<open>findAttempt\<close> recovers the job of every identifier the store hands out.\<close>

lemma findAttempt_attempt_id:
  assumes "j \<noteq> []"
  shows "findAttempt s (attempt_id j n) = readAttempt s j (attempt_id j n)"
  using last_index_of_suffix [OF ordinal_digits, of j n] assms
  by (simp add: findAttempt_def attempt_id_def)

subsection \<open>Bounded reservation\<close>

lemma get_attempt_taken_after:
  assumes "reserve_from now stg contract lin op n k s = (Inr rv, t)"
  shows "\<exists>i. n \<le> i \<and> i < n + k \<and> rv_created rv \<and>
     (\<forall>i'. n \<le> i' \<and> i' < i \<longrightarrow> get_attempt s (jc_jobId contract) (attempt_id (jc_jobId contract) i') \<noteq> None) \<and>
     get_attempt s (jc_jobId contract) (attempt_id (jc_jobId contract) i) = None \<and>
     readAttempt t (jc_jobId contract) (attempt_id (jc_jobId contract) i) = Inr (rv_manifest rv) \<and>
     am_ordinal (rv_manifest rv) = i \<and> am_status (rv_manifest rv) = AReserved \<and>
     (\<forall>j a d. get_attempt s j a = Some d \<longrightarrow> get_attempt t j a = Some d)"
  using assms
proof (induction k arbitrary: n s)
  case (Suc k)
  obtain r1 s1 where one: "reserveAttemptAt now stg contract n lin op s = (r1, s1)" by fastforce
  from one show ?case
  proof (cases rule: reserveAttemptAt_cases)
    case (taken m)
    then have rest: "reserve_from now stg contract lin op (Suc n) k s = (Inr rv, t)"
      using Suc.prems one by (simp add: bindA_def)
    obtain i where i: "Suc n \<le> i \<and> i < Suc n + k \<and> rv_created rv \<and>
     (\<forall>i'. Suc n \<le> i' \<and> i' < i \<longrightarrow> get_attempt s (jc_jobId contract) (attempt_id (jc_jobId contract) i') \<noteq> None) \<and>
     get_attempt s (jc_jobId contract) (attempt_id (jc_jobId contract) i) = None \<and>
     readAttempt t (jc_jobId contract) (attempt_id (jc_jobId contract) i) = Inr (rv_manifest rv) \<and>
     am_ordinal (rv_manifest rv) = i \<and> am_status (rv_manifest rv) = AReserved \<and>
     (\<forall>j a d. get_attempt s j a = Some d \<longrightarrow> get_attempt t j a = Some d)"
      using Suc.IH [OF rest] by blast
    have "get_attempt s (jc_jobId contract) (attempt_id (jc_jobId contract) i') \<noteq> None" if "n \<le> i'" "i' < i" for i'
      using that i taken(1) by (cases "i' = n") auto
    then show ?thesis using i by (intro exI [of _ i]) simp
  next
    case (created m c)
    note f = fresh_dir_ok [OF created(4,5)]
    have "rv = \<lparr>rv_manifest = m, rv_directory = attemptDirectory s (jc_jobId contract) (attempt_id (jc_jobId contract) n),
        rv_created = True\<rparr>" "t = s1"
      using Suc.prems one created(7) by (simp_all add: bindA_def)
    then show ?thesis using created f by (intro exI [of _ n]) (auto simp: readAttempt_conv)
  qed (use Suc.prems one in \<open>simp_all add: bindA_def\<close>)
qed simp

end
