(* ===== verification/Queue_Store.thy ===== *)
theory Queue_Store
  imports Artifact_Store
begin

text \<open>
  The durable queue (\<open>src/src/queue/queue-store.ts\<close>, items; the dispatcher lease of the same file
  is in theory \<open>Lease\<close>) and the projection of an attempt's outcome on its queue item
  (\<open>src/src/queue/completion.ts\<close>).

  The queue is a directory of items, each a journaled record. \<open>update\<close> and \<open>reconcile\<close> share
  \<open>commitQueueUpdate\<close> and differ in the transition check. The random suffix of a staging directory
  is taken to be fresh, so staging never collides.
\<close>

subsection \<open>State and reads\<close>

record queue_store =
  qs_items :: "(string \<times> queue_item journaled) list"

definition queueSafeSegment :: "string \<Rightarrow> err + string" where
  "queueSafeSegment v = (if is_safe_segment v then Inr v else Inl (Error (''Unsafe queue path segment: '' @ v)))"

definition read_item :: "queue_store \<Rightarrow> string \<Rightarrow> err + queue_item" where
  "read_item s jobId =
     (case queueSafeSegment jobId of
        Inl e \<Rightarrow> Inl e
      | Inr j \<Rightarrow> read_journaled Queue_Item_Kind ''Queue item'' jobId qi_revision
          (case map_of (qs_items s) j of None \<Rightarrow> absent_journal | Some r \<Rightarrow> r))"

text \<open>
  The three comparisons of the source (descending priority, creation time, identifier) as three
  stable sorts.
\<close>

definition sort_queue :: "string comparator \<Rightarrow> queue_item list \<Rightarrow> queue_item list" where
  "sort_queue lc items =
     Sorting_Algorithms.sort (key (\<lambda>i. - qi_priority i) default)
       (Sorting_Algorithms.sort (key qi_createdAt default)
         (Sorting_Algorithms.sort (key qi_jobId lc) items))"

definition list_items :: "string comparator \<Rightarrow> queue_store \<Rightarrow> err + queue_item list" where
  "list_items lc s =
     (case read_all (read_item s) (filter (\<lambda>n. \<not> is_staging n) (map fst (qs_items s))) of
        Inl e \<Rightarrow> Inl e
      | Inr items \<Rightarrow> Inr (sort_queue lc items))"

subsection \<open>Adding items\<close>

definition queue_conflict :: "string \<Rightarrow> err" where
  "queue_conflict jobId = Error (''Queue options conflict with existing item '' @ jobId)"

definition enqueue ::
  "timestamp \<Rightarrow> job_contract \<Rightarrow> queue_options \<Rightarrow> (queue_store, queue_item \<times> bool) act" where
  "enqueue now contract options s =
     (case queueSafeSegment (jc_jobId contract) of
        Inl e \<Rightarrow> (Inl e, s)
      | Inr jobId \<Rightarrow>
          let item = \<lparr>qi_schema = Schema_V2, qi_jobId = jobId, qi_status = QQueued, qi_revision = 0,
                qi_dispatchOperationId = None, qi_priority = qo_priority options,
                qi_dependsOnJobIds = js_sort (js_unique (qo_dependsOnJobIds options)),
                qi_createdAt = now, qi_updatedAt = now, qi_attemptId = None,
                qi_automaticRetryCount = 0, qi_completion = None, qi_message = None\<rparr>
          in if \<not> queueItem_valid item then (Inl ZodError, s)
             else if map_of (qs_items s) jobId = None
             then (Inr (item, True), s\<lparr>qs_items := AList.update jobId (fresh_journaled item) (qs_items s)\<rparr>)
             else case read_item s jobId of
               Inl _ \<Rightarrow> (Inl (NodeError ''ENOTEMPTY''), s)
             | Inr existing \<Rightarrow>
                 if qi_priority existing \<noteq> qi_priority item \<or> qi_dependsOnJobIds existing \<noteq> qi_dependsOnJobIds item
                 then (Inl (queue_conflict jobId), s)
                 else (Inr (existing, False), s))"

subsection \<open>Updates\<close>

fun allowedQueueTransitions :: "queue_status \<Rightarrow> queue_status list" where
  "allowedQueueTransitions QQueued = [QQueued, QDispatching, QCancelled, QNeedsInput]"
| "allowedQueueTransitions QDispatching = [QDispatching, QQueued, QRunning, QCancelled, QNeedsInput]"
| "allowedQueueTransitions QRunning = [QRunning, QQueued, QCancelling, QCompleted, QFailed, QNeedsInput, QCancelled]"
| "allowedQueueTransitions QCancelling = [QCancelling, QCompleted, QFailed, QNeedsInput, QCancelled]"
| "allowedQueueTransitions QCompleted = [QCompleted, QQueued]"
| "allowedQueueTransitions QFailed = [QFailed, QQueued]"
| "allowedQueueTransitions QNeedsInput = [QNeedsInput, QQueued]"
| "allowedQueueTransitions QCancelled = [QCancelled, QQueued]"

definition assertQueueTransition :: "queue_status \<Rightarrow> queue_status \<Rightarrow> err + unit" where
  "assertQueueTransition cur nxt =
     (if nxt \<notin> set (allowedQueueTransitions cur)
      then Inl (Error (''Illegal queue transition: '' @ queue_status_name cur @ '' -> '' @ queue_status_name nxt))
      else Inr ())"

datatype queue_action = Reset_Abandoned | Quarantine_Item | Bind_To_Attempt | Synchronize_Terminal

fun queue_action_name :: "queue_action \<Rightarrow> string" where
  "queue_action_name Reset_Abandoned = ''reset-abandoned-queue-item''"
| "queue_action_name Quarantine_Item = ''quarantine-queue-item''"
| "queue_action_name Bind_To_Attempt = ''bind-queue-to-attempt''"
| "queue_action_name Synchronize_Terminal = ''synchronize-queue-from-terminal-attempt''"

fun reconciliation_allowed :: "queue_action \<Rightarrow> queue_item \<Rightarrow> queue_item \<Rightarrow> bool" where
  "reconciliation_allowed Reset_Abandoned cur nxt =
     (qi_status cur \<in> {QQueued, QDispatching} \<and> qi_status nxt = QQueued \<and>
      \<not> truthy (qi_dispatchOperationId nxt) \<and> \<not> truthy (qi_attemptId nxt) \<and> qi_completion nxt = None)"
| "reconciliation_allowed Quarantine_Item cur nxt =
     (qi_status nxt = QNeedsInput \<and>
      \<not> truthy (qi_dispatchOperationId nxt) \<and> \<not> truthy (qi_attemptId nxt) \<and> qi_completion nxt = None)"
| "reconciliation_allowed Bind_To_Attempt cur nxt =
     (qi_status cur = QDispatching \<and> qi_status nxt = QRunning \<and>
      truthy (qi_dispatchOperationId nxt) \<and> truthy (qi_attemptId nxt) \<and> qi_completion nxt = None)"
| "reconciliation_allowed Synchronize_Terminal cur nxt =
     (qi_status nxt \<in> {QCompleted, QFailed, QNeedsInput, QCancelled} \<and> truthy (qi_attemptId nxt) \<and>
      map_option qc_attemptId (qi_completion nxt) = qi_attemptId nxt)"

definition assertQueueReconciliationTransition :: "queue_action \<Rightarrow> queue_item \<Rightarrow> queue_item \<Rightarrow> err + unit" where
  "assertQueueReconciliationTransition action cur nxt =
     (if \<not> reconciliation_allowed action cur nxt
      then Inl (Error (''Illegal '' @ queue_action_name action @ '' queue reconciliation transition: ''
             @ queue_status_name (qi_status cur) @ '' -> '' @ queue_status_name (qi_status nxt)))
      else Inr ())"

definition patched_item :: "timestamp \<Rightarrow> queue_item \<Rightarrow> (queue_item \<Rightarrow> queue_item) \<Rightarrow> queue_item" where
  "patched_item now v patch = (patch v)\<lparr>qi_schema := Schema_V2, qi_jobId := qi_jobId v,
     qi_revision := qi_revision v + 1, qi_updatedAt := now\<rparr>"

definition on_item :: "string \<Rightarrow> (queue_item journaled, unit) act \<Rightarrow> (queue_store, unit) act" where
  "on_item jobId m s =
     (case m (case map_of (qs_items s) jobId of None \<Rightarrow> absent_journal | Some r \<Rightarrow> r) of
        (r, j) \<Rightarrow> (r, s\<lparr>qs_items := AList.update jobId j (qs_items s)\<rparr>))"

definition commitQueueUpdate ::
  "failpoint \<Rightarrow> timestamp \<Rightarrow> queue_item \<Rightarrow> (queue_item \<Rightarrow> queue_item) \<Rightarrow>
   (queue_item \<Rightarrow> queue_item \<Rightarrow> err + unit) \<Rightarrow> (queue_store, queue_item) act" where
  "commitQueueUpdate fp now item patch validateTransition s =
     (case read_item s (qi_jobId item) of
        Inl e \<Rightarrow> (Inl e, s)
      | Inr current \<Rightarrow>
          if qi_revision current \<noteq> qi_revision item \<or> current \<noteq> item
          then (Inl (TransitionConflictError Queue_Item_Kind (qi_jobId item) (qi_revision item)
                       (Some (qi_revision current))), s)
          else
            let updated = patched_item now current patch
            in if \<not> queueItem_valid updated then (Inl ZodError, s)
               else case validateTransition current updated of
                 Inl e \<Rightarrow> (Inl e, s)
               | Inr _ \<Rightarrow>
                   bindA (on_item (qi_jobId current)
                       (commitTransition fp Queue_Item_Kind (qi_jobId current) (qi_revision current) updated))
                     (\<lambda>_. ret updated) s)"

definition update_item ::
  "failpoint \<Rightarrow> timestamp \<Rightarrow> queue_item \<Rightarrow> (queue_item \<Rightarrow> queue_item) \<Rightarrow> (queue_store, queue_item) act" where
  "update_item fp now item patch =
     commitQueueUpdate fp now item patch (\<lambda>cur upd. assertQueueTransition (qi_status cur) (qi_status upd))"

definition reconcile_item ::
  "failpoint \<Rightarrow> timestamp \<Rightarrow> queue_item \<Rightarrow> (queue_item \<Rightarrow> queue_item) \<Rightarrow> queue_action \<Rightarrow> (queue_store, queue_item) act" where
  "reconcile_item fp now item patch action =
     commitQueueUpdate fp now item patch (assertQueueReconciliationTransition action)"

subsection \<open>Projecting an outcome (completion.ts)\<close>

record attempt_completion_evidence =
  ac_attemptId :: string
  ac_status :: attempt_status
  ac_verificationStatus :: verification_status
  ac_cleanupStatus :: cleanup_status
  ac_artifacts :: attempt_artifacts
  ac_failure :: "attempt_failure option"

record queue_completion_projection =
  qp_status :: queue_status
  qp_attemptId :: string
  qp_completion :: queue_completion
  qp_message :: "string option"

definition projectQueueCompletion :: "attempt_completion_evidence \<Rightarrow> timestamp \<Rightarrow> queue_completion_projection" where
  "projectQueueCompletion result finishedAt =
     (let safe = ac_cleanupStatus result \<in> set [C_NotRequired, C_Proven];
          eligible = (ac_status result = ACompleted \<and> ac_verificationStatus result = V_Eligible \<and> safe);
          needsInput = (\<not> safe \<or> ac_status result = ANeedsInput \<or> (ac_status result = ACompleted \<and> \<not> eligible));
          status = (if \<not> safe then QNeedsInput
                    else if ac_status result = ACancelled then QCancelled
                    else if eligible then QCompleted
                    else if needsInput then QNeedsInput else QFailed);
          a = ac_artifacts result
      in \<lparr>qp_status = status, qp_attemptId = ac_attemptId result,
          qp_completion = \<lparr>qc_attemptId = ac_attemptId result, qc_attemptStatus = ac_status result,
            qc_verificationStatus = ac_verificationStatus result,
            qc_cleanupStatus = Some (ac_cleanupStatus result), qc_finishedAt = finishedAt,
            qc_artifacts = \<lparr>ca_manifest = ar_manifest a, ca_proposalPatch = ar_proposalPatch a,
              ca_changedPaths = ar_changedPaths a, ca_verification = ar_verification a,
              ca_cleanup = ar_cleanup a\<rparr>\<rparr>,
          qp_message = (case ac_failure result of
              Some f \<Rightarrow> Some (fl_message f)
            | None \<Rightarrow>
                if \<not> safe then Some (''Attempt cleanup is '' @ cleanup_status_name (ac_cleanupStatus result)
                                       @ ''; retry and evidence removal are prohibited'')
                else if needsInput then Some ''Deterministic verification marked proposal ineligible''
                else None)\<rparr>)"

subsection \<open>Well-formed queues\<close>

definition queue_ok :: "queue_store \<Rightarrow> bool" where
  "queue_ok s \<longleftrightarrow> (\<forall>n r. map_of (qs_items s) n = Some r \<longrightarrow>
     journal_ok qi_revision r \<and> (\<not> is_staging n \<longrightarrow> record_ok qi_revision r))"

lemma read_item_conv:
  "read_item s j = Inr v \<longleftrightarrow> is_safe_segment j \<and>
     (\<exists>r. map_of (qs_items s) j = Some r \<and> read_journaled Queue_Item_Kind ''Queue item'' j qi_revision r = Inr v)"
  by (auto simp: read_item_def queueSafeSegment_def split: option.splits)

lemma read_item_cong: "map_of (qs_items s) j = map_of (qs_items t) j \<Longrightarrow> read_item s j = read_item t j"
  by (simp add: read_item_def queueSafeSegment_def)

lemma patched_item_simps [simp]:
  "qi_revision (patched_item now v patch) = Suc (qi_revision v)" "qi_jobId (patched_item now v patch) = qi_jobId v"
  by (simp_all add: patched_item_def)

lemma commitQueueUpdate_cases:
  assumes "commitQueueUpdate fp now x patch chk s = (r, t)"
  obtains (refused) e where "r = Inl e" "t = s"
  | (committed) d r0 j where
      "read_item s (qi_jobId x) = Inr x" "map_of (qs_items s) (qi_jobId x) = Some d"
      "chk x (patched_item now x patch) = Inr ()" "queueItem_valid (patched_item now x patch)"
      "commitTransition fp Queue_Item_Kind (qi_jobId x) (qi_revision x) (patched_item now x patch) d = (r0, j)"
      "t = s\<lparr>qs_items := AList.update (qi_jobId x) j (qs_items s)\<rparr>"
      "r = map_sum id (\<lambda>_. patched_item now x patch) r0"
proof (cases "read_item s (qi_jobId x) = Inr x \<and> queueItem_valid (patched_item now x patch) \<and>
    chk x (patched_item now x patch) = Inr ()")
  case True
  then obtain d where d: "map_of (qs_items s) (qi_jobId x) = Some d" by (auto simp: read_item_conv)
  obtain r0 j where c: "commitTransition fp Queue_Item_Kind (qi_jobId x) (qi_revision x) (patched_item now x patch) d = (r0, j)"
    by fastforce
  show ?thesis
    by (rule committed [OF _ d _ _ c])
      (use assms True d c in \<open>auto simp: commitQueueUpdate_def Let_def on_item_def bindA_def split: sum.splits\<close>)
next
  case False
  then have "(\<exists>e. fst (commitQueueUpdate fp now x patch chk s) = Inl e) \<and> snd (commitQueueUpdate fp now x patch chk s) = s"
    by (cases "read_item s (qi_jobId x)"; cases "chk x (patched_item now x patch)")
      (auto simp: commitQueueUpdate_def Let_def)
  then show ?thesis using refused assms by auto
qed

text \<open>Any failpoint: the item keeps its value or takes the patched one; the rest of the queue is untouched.\<close>

lemma commitQueueUpdate_effect:
  assumes ok: "queue_ok s" and lim: "Suc (qi_revision x) < revision_limit"
    and tr: "commitQueueUpdate fp now x patch chk s = (r, t)"
  shows "queue_ok t \<and> (\<forall>j'. j' \<noteq> qi_jobId x \<longrightarrow> read_item t j' = read_item s j') \<and>
    (read_item t (qi_jobId x) = read_item s (qi_jobId x) \<or>
     read_item s (qi_jobId x) = Inr x \<and> read_item t (qi_jobId x) = Inr (patched_item now x patch) \<and>
     chk x (patched_item now x patch) = Inr () \<and> queueItem_valid (patched_item now x patch))"
  using tr
proof (cases rule: commitQueueUpdate_cases)
  case (refused e)
  then show ?thesis using ok by simp
next
  case (committed d r0 j)
  have dok: "journal_ok qi_revision d" using ok committed(2) by (auto simp: queue_ok_def)
  have rd: "read_journaled Queue_Item_Kind ''Queue item'' (qi_jobId x) qi_revision d = Inr x"
    and safe: "is_safe_segment (qi_jobId x)"
    using committed(1,2) by (auto simp: read_item_conv)
  note eff = commit_any_failpoint [OF journal_ok_read [OF dok rd] rd _ lim committed(5)]
  have "queue_ok t"
    using ok eff(1) by (auto simp: queue_ok_def committed(6) update_conv' journal_ok_def split: if_splits)
  moreover have "\<forall>j'. j' \<noteq> qi_jobId x \<longrightarrow> read_item t j' = read_item s j'"
    by (auto simp: committed(6) update_conv' intro!: read_item_cong)
  moreover have "read_item t (qi_jobId x) \<in> {Inr x, Inr (patched_item now x patch)}"
    using eff(2) safe by (simp add: read_item_def queueSafeSegment_def committed(6) update_conv')
  ultimately show ?thesis using committed(1,3,4) by auto
qed

lemma commitQueueUpdate_Inr:
  assumes ok: "queue_ok s" and lim: "Suc (qi_revision x) < revision_limit"
    and tr: "commitQueueUpdate no_failpoint now x patch chk s = (r, t)"
  shows "(\<exists>e. r = Inl e \<and> t = s) \<or>
     read_item s (qi_jobId x) = Inr x \<and> r = Inr (patched_item now x patch) \<and>
     read_item t (qi_jobId x) = Inr (patched_item now x patch) \<and> chk x (patched_item now x patch) = Inr ()"
  using tr
proof (cases rule: commitQueueUpdate_cases)
  case (committed d r0 j)
  have dok: "journal_ok qi_revision d" using ok committed(2) by (auto simp: queue_ok_def)
  have rd: "read_journaled Queue_Item_Kind ''Queue item'' (qi_jobId x) qi_revision d = Inr x"
    and safe: "is_safe_segment (qi_jobId x)"
    using committed(1,2) by (auto simp: read_item_conv)
  note eff = commit_current [OF journal_ok_read [OF dok rd] rd _ lim committed(5)]
  have "read_item t (qi_jobId x) = Inr (patched_item now x patch)"
    using eff(3) safe by (simp add: read_item_def queueSafeSegment_def committed(6) update_conv')
  then show ?thesis using committed eff(1) by simp
qed simp

interpretation queue_items: status_store
  read_item "\<lambda>v (now, patch). update_item no_failpoint now v patch" qi_jobId qi_revision queue_ok qi_status
  allowedQueueTransitions
proof (unfold_locales, goal_cases)
  case (1 s v p v' s')
  then show ?case using commitQueueUpdate_Inr [OF 1(1,2)] by (cases p) (fastforce simp: update_item_def)
next
  case (2 s v p e s')
  then show ?case using commitQueueUpdate_Inr [OF 2(1,2)] by (cases p) (fastforce simp: update_item_def)
next
  case (3 s v p r s' k)
  then show ?case using commitQueueUpdate_effect [OF 3(1,2)] by (cases p) (fastforce simp: update_item_def)
next
  case (4 s v p r s')
  then show ?case using commitQueueUpdate_effect [OF 4(1,2)] by (cases p) (fastforce simp: update_item_def)
next
  case (5 s v p v' s')
  then show ?case using commitQueueUpdate_Inr [OF 5(1,2)]
    by (cases p) (fastforce simp: update_item_def assertQueueTransition_def split: if_splits)
qed

text \<open>Reconciliation is a revisioned store over the same items, for each of its actions.\<close>

interpretation reconciled_items: revisioned_store
  read_item "\<lambda>v (now, patch, action). reconcile_item no_failpoint now v patch action" qi_jobId qi_revision queue_ok
proof (unfold_locales, goal_cases)
  case (1 s v p v' s')
  then show ?case using commitQueueUpdate_Inr [OF 1(1,2)] by (cases p) (fastforce simp: reconcile_item_def)
next
  case (2 s v p e s')
  then show ?case using commitQueueUpdate_Inr [OF 2(1,2)] by (cases p) (fastforce simp: reconcile_item_def)
next
  case (3 s v p r s' k)
  then show ?case using commitQueueUpdate_effect [OF 3(1,2)] by (cases p) (fastforce simp: reconcile_item_def)
next
  case (4 s v p r s')
  then show ?case using commitQueueUpdate_effect [OF 4(1,2)] by (cases p) (fastforce simp: reconcile_item_def)
qed

subsection \<open>The order of the queue\<close>

lemma sorted_wrt_sorted:
  "Sorting_Algorithms.sorted cmp xs \<Longrightarrow> sorted_wrt (\<lambda>a b. compare cmp a b \<noteq> Greater) xs"
proof (induction xs)
  case (Cons x xs)
  then show ?case
    using sorted_Cons_imp_not_less [of cmp x xs] sorted_Cons_imp_sorted [of cmp x xs] by auto
qed simp

text \<open>A stable sort by a key refines the order the list already had.\<close>

lemma sorted_wrt_stable_sort:
  fixes f :: "'a \<Rightarrow> 'b::linorder"
  assumes "sorted_wrt R xs"
  shows "sorted_wrt (\<lambda>a b. f a < f b \<or> f a = f b \<and> R a b) (Sorting_Algorithms.sort (key f default) xs)"
proof -
  let ?ys = "Sorting_Algorithms.sort (key f default) xs"
  have s: "sorted_wrt (\<lambda>a b. compare (key f default) a b \<noteq> Greater) ?ys" by (rule sorted_wrt_sorted) simp
  show ?thesis
    unfolding sorted_wrt_iff_nth_less
  proof (intro allI impI)
    fix i j
    assume ij: "i < j" "j < length ?ys"
    let ?a = "?ys ! i" and ?b = "?ys ! j"
    have le: "f ?a \<le> f ?b"
      using sorted_wrt_nth_less [OF s ij] by simp
    show "f ?a < f ?b \<or> f ?a = f ?b \<and> R ?a ?b"
    proof (cases "f ?a = f ?b")
      case True
      let ?r = "drop (Suc i) ?ys"
      have "?ys = take i ?ys @ ?a # ?r" using ij by (intro id_take_nth_drop) simp
      moreover have "?r = take (j - Suc i) ?r @ ?r ! (j - Suc i) # drop (Suc (j - Suc i)) ?r"
        using ij by (intro id_take_nth_drop) simp
      moreover have "?r ! (j - Suc i) = ?b" using ij by simp
      ultimately obtain us vs ws where d: "?ys = us @ ?a # vs @ ?b # ws" by metis
      have "filter (\<lambda>y. compare (key f default) ?a y = Equiv) ?ys = filter (\<lambda>y. compare (key f default) ?a y = Equiv) xs"
        by (rule stable_sort)
      then have "sorted_wrt R (filter (\<lambda>y. f ?a = f y) ?ys)"
        using assms by (simp add: sorted_wrt_filter)
      then have "R ?a ?b" by (subst (asm) d) (simp add: True sorted_wrt_append)
      with True show ?thesis by simp
    qed (use le in simp)
  qed
qed

definition queue_before :: "string comparator \<Rightarrow> queue_item \<Rightarrow> queue_item \<Rightarrow> bool" where
  "queue_before lc a b \<longleftrightarrow>
     qi_priority a > qi_priority b \<or> qi_priority a = qi_priority b \<and>
       (qi_createdAt a < qi_createdAt b \<or> qi_createdAt a = qi_createdAt b \<and>
          compare lc (qi_jobId a) (qi_jobId b) \<noteq> Greater)"

lemma sort_queue_sorted: "sorted_wrt (queue_before lc) (sort_queue lc items)"
proof -
  have "sorted_wrt (\<lambda>a b. compare (key qi_jobId lc) a b \<noteq> Greater) (Sorting_Algorithms.sort (key qi_jobId lc) items)"
    by (rule sorted_wrt_sorted) simp
  from sorted_wrt_stable_sort [OF sorted_wrt_stable_sort [OF this, of qi_createdAt], of "\<lambda>i. - qi_priority i"]
  show ?thesis
    unfolding sort_queue_def by (rule sorted_wrt_mono_rel [rotated]) (auto simp: queue_before_def)
qed

lemma mset_sort_queue [simp]: "mset (sort_queue lc items) = mset items"
  by (simp add: sort_queue_def)

lemma read_all_Inr: "read_all f xs = Inr ys \<longleftrightarrow> map f xs = map Inr ys"
proof (induction xs arbitrary: ys)
  case (Cons x xs)
  show ?case
  proof (cases ys)
    case Nil
    then show ?thesis by (auto split: sum.splits)
  next
    case (Cons y zs)
    then show ?thesis using Cons.IH [of zs] by (auto split: sum.splits)
  qed
qed auto

lemma list_items_Inr:
  assumes "list_items lc s = Inr items"
  shows "mset (map Inr items) = mset (map (read_item s) (filter (\<lambda>n. \<not> is_staging n) (map fst (qs_items s))))"
    and "sorted_wrt (queue_before lc) items"
proof -
  obtain xs where xs: "read_all (read_item s) (filter (\<lambda>n. \<not> is_staging n) (map fst (qs_items s))) = Inr xs"
    and i: "items = sort_queue lc xs"
    using assms by (auto simp: list_items_def split: sum.splits)
  show "sorted_wrt (queue_before lc) items" by (simp add: i sort_queue_sorted)
  have "map (read_item s) (filter (\<lambda>n. \<not> is_staging n) (map fst (qs_items s))) = map Inr xs"
    using xs unfolding read_all_Inr .
  then show "mset (map Inr items) = mset (map (read_item s) (filter (\<lambda>n. \<not> is_staging n) (map fst (qs_items s))))"
    by (simp add: i)
qed

subsection \<open>Every operation, in any order\<close>

inductive queue_step :: "queue_store \<Rightarrow> queue_store \<Rightarrow> bool" where
  enqueue: "enqueue now contract options s = (r, t) \<Longrightarrow> queue_step s t"
| update: "Suc (qi_revision x) < revision_limit \<Longrightarrow> update_item fp now x patch s = (r, t) \<Longrightarrow> queue_step s t"
| reconcile: "Suc (qi_revision x) < revision_limit \<Longrightarrow> reconcile_item fp now x patch action s = (r, t) \<Longrightarrow> queue_step s t"

definition empty_queue :: queue_store where
  "empty_queue = \<lparr>qs_items = []\<rparr>"

definition queue_reachable :: "queue_store \<Rightarrow> bool" where
  "queue_reachable s \<longleftrightarrow> queue_step\<^sup>*\<^sup>* empty_queue s"

definition item_moves :: "queue_item \<Rightarrow> queue_item \<Rightarrow> bool" where
  "item_moves v v' \<longleftrightarrow> v' = v \<or>
     qi_revision v' = Suc (qi_revision v) \<and> qi_jobId v' = qi_jobId v \<and> queueItem_valid v' \<and>
     (qi_status v' \<in> set (allowedQueueTransitions (qi_status v)) \<or> (\<exists>action. reconciliation_allowed action v v'))"

definition queue_inv :: "queue_store \<Rightarrow> bool" where
  "queue_inv s \<longleftrightarrow> queue_ok s \<and> (\<forall>j v. read_item s j = Inr v \<longrightarrow> qi_jobId v = j \<and> queueItem_valid v)"

lemma queue_inv_commit:
  assumes inv: "queue_inv s" and lim: "Suc (qi_revision x) < revision_limit"
    and tr: "commitQueueUpdate fp now x patch chk s = (r, t)"
    and chk: "chk x (patched_item now x patch) = Inr () \<Longrightarrow> queueItem_valid (patched_item now x patch) \<Longrightarrow>
      item_moves x (patched_item now x patch)"
  shows "queue_inv t \<and> (\<forall>j v. read_item s j = Inr v \<longrightarrow> (\<exists>v'. read_item t j = Inr v' \<and> item_moves v v'))"
proof -
  have ok: "queue_ok s" using inv by (simp add: queue_inv_def)
  note eff = commitQueueUpdate_effect [OF ok lim tr]
  have at: "read_item t j = read_item s j \<or> read_item s j = Inr x \<and> read_item t j = Inr (patched_item now x patch) \<and>
      item_moves x (patched_item now x patch) \<and> queueItem_valid (patched_item now x patch) \<and> j = qi_jobId x" for j
  proof (cases "j = qi_jobId x")
    case True
    then show ?thesis using eff chk by blast
  next
    case False
    then show ?thesis using eff by blast
  qed
  have "\<exists>v'. read_item t j = Inr v' \<and> item_moves v v'" if "read_item s j = Inr v" for j v
    using at [of j] that by (auto simp: item_moves_def)
  moreover have "qi_jobId v = j \<and> queueItem_valid v" if "read_item t j = Inr v" for j v
  proof (cases "read_item t j = read_item s j")
    case True
    then have "read_item s j = Inr v" using that by simp
    then show ?thesis using inv unfolding queue_inv_def by blast
  next
    case False
    then show ?thesis using at [of j] that by auto
  qed
  ultimately show ?thesis using eff by (simp add: queue_inv_def)
qed

lemma enqueue_effect:
  assumes inv: "queue_inv s" and e: "enqueue now contract options s = (r, t)"
  shows "queue_inv t \<and> (\<forall>j v. read_item s j = Inr v \<longrightarrow> read_item t j = Inr v)"
proof (cases "t = s")
  case False
  then obtain item where i: "map_of (qs_items s) (jc_jobId contract) = None" "queueItem_valid item"
      "qi_jobId item = jc_jobId contract" "qi_revision item = 0"
    and t: "t = s\<lparr>qs_items := AList.update (jc_jobId contract) (fresh_journaled item) (qs_items s)\<rparr>"
    using e by (auto simp: enqueue_def Let_def queueSafeSegment_def split: if_splits sum.splits)
  have other: "read_item t j = read_item s j" if "j \<noteq> jc_jobId contract" for j
    using that by (auto simp: t update_conv' intro!: read_item_cong)
  have "record_ok qi_revision (fresh_journaled item)" using record_ok_fresh [of qi_revision item] i(4) by simp
  then have "queue_ok t"
    using inv by (auto simp: queue_inv_def queue_ok_def t update_conv' journal_ok_def split: if_splits)
  moreover have "qi_jobId v = j \<and> queueItem_valid v" if "read_item t j = Inr v" for j v
  proof (cases "j = jc_jobId contract")
    case True
    then show ?thesis using that i(2,3) by (auto simp: read_item_conv t update_conv')
  next
    case False
    then show ?thesis using that other inv by (simp add: queue_inv_def)
  qed
  moreover have "read_item t j = Inr v" if "read_item s j = Inr v" for j v
    using that other [of j] i(1) by (cases "j = jc_jobId contract") (auto simp: read_item_conv)
  ultimately show ?thesis by (simp add: queue_inv_def)
qed (use inv in simp)

lemma queue_step_inv:
  "queue_step s t \<Longrightarrow> queue_inv s \<Longrightarrow>
     queue_inv t \<and> (\<forall>j v. read_item s j = Inr v \<longrightarrow> (\<exists>v'. read_item t j = Inr v' \<and> item_moves v v'))"
proof (induction rule: queue_step.induct)
  case (enqueue now contract options s r t)
  then show ?case using enqueue_effect by (metis item_moves_def)
next
  case (update x fp now patch s r t)
  show ?case
    by (rule queue_inv_commit [OF update.prems update.hyps(1) update.hyps(2) [unfolded update_item_def]])
      (auto simp: item_moves_def assertQueueTransition_def split: if_splits)
next
  case (reconcile x fp now patch action s r t)
  show ?case
    by (rule queue_inv_commit [OF reconcile.prems reconcile.hyps(1) reconcile.hyps(2) [unfolded reconcile_item_def]])
      (auto simp: item_moves_def assertQueueReconciliationTransition_def split: if_splits)
qed

lemma queue_steps_inv: "queue_step\<^sup>*\<^sup>* s t \<Longrightarrow> queue_inv s \<Longrightarrow> queue_inv t"
  by (induction rule: rtranclp_induct) (use queue_step_inv in blast)+

lemma queue_reachable_inv: "queue_reachable s \<Longrightarrow> queue_inv s"
  unfolding queue_reachable_def
  by (rule queue_steps_inv) (auto simp: queue_inv_def queue_ok_def empty_queue_def read_item_conv)

lemma item_steps:
  assumes "queue_step\<^sup>*\<^sup>* s t" and "queue_inv s" and "read_item s j = Inr v"
  shows "\<exists>v'. read_item t j = Inr v' \<and> item_moves\<^sup>*\<^sup>* v v'"
  using assms
proof (induction rule: rtranclp_induct)
  case (step t u)
  then obtain v' where v': "read_item t j = Inr v'" "item_moves\<^sup>*\<^sup>* v v'" by blast
  obtain v'' where "read_item u j = Inr v''" "item_moves v' v''"
    using queue_step_inv [OF step.hyps(2) queue_steps_inv [OF step.hyps(1) step.prems(1)]] v'(1) by blast
  then show ?case using v'(2) by (meson rtranclp.rtrancl_into_rtrancl)
qed blast

end
