(* ===== verification/Verification.thy ===== *)
theory Verification
  imports Contracts "HOL-Library.Sublist"
begin

text \<open>
  Deterministic verification (\<open>src/src/verification\<close>): the verification record, the outcome of a
  command phase and the path scope check that decides whether a proposal stayed inside the paths
  the job allows.
\<close>

subsection \<open>The verification record (verification/types.ts)\<close>

datatype command_phase = Phase_Setup | Phase_Acceptance

datatype command_status = Cmd_Passed | Cmd_Failed | Cmd_TimedOut | Cmd_Cancelled | Cmd_PolicyDenied

record sandbox_evidence =
  se_profileId :: string
  se_profileFingerprint :: string
  se_image :: string
  se_containerName :: string

datatype boundary_evidence = Evidence_HostWorktree | Evidence_Sandbox sandbox_evidence

record command_evidence =
  ev_phase :: command_phase
  ev_index :: nat
  ev_command :: command_spec
  ev_resolvedCwd :: string
  ev_executionBoundary :: boundary_evidence
  ev_status :: command_status
  ev_process :: "process_result option"
  ev_stdout :: "string option"
  ev_stderr :: "string option"
  ev_error :: "string option"

datatype phase_status =
    P_NotRun | P_NotConfigured | P_Pending | P_Passed | P_Failed | P_Cancelled | P_PolicyDenied

fun phase_status_name :: "phase_status \<Rightarrow> string" where
  "phase_status_name P_NotRun = ''not-run''"
| "phase_status_name P_NotConfigured = ''not-configured''"
| "phase_status_name P_Pending = ''pending''"
| "phase_status_name P_Passed = ''passed''"
| "phase_status_name P_Failed = ''failed''"
| "phase_status_name P_Cancelled = ''cancelled''"
| "phase_status_name P_PolicyDenied = ''policy-denied''"

record setup_record =
  sr_status :: phase_status
  sr_commands :: "command_evidence list"
  sr_repositoryClean :: "bool option"

datatype scope_status = Scope_NotRun | Scope_NotConfigured | Scope_Passed | Scope_Failed

datatype violation_kind = Outside_Allowed | Forbidden | Protected

record scope_violation =
  vi_path :: string
  vi_kind :: violation_kind
  vi_rule :: string

record scope_record =
  sc_status :: scope_status
  sc_changedPaths :: "string list"
  sc_violations :: "scope_violation list"

record acceptance_record =
  ap_status :: phase_status
  ap_commands :: "command_evidence list"
  ap_proposalStable :: "bool option"

record verification_record =
  vr_jobId :: string
  vr_attemptId :: string
  vr_updatedAt :: timestamp
  vr_setup :: setup_record
  vr_scope :: scope_record
  vr_acceptance :: acceptance_record
  vr_eligibleForReview :: bool

definition createVerificationRecord ::
  "string \<Rightarrow> string \<Rightarrow> bool \<Rightarrow> bool \<Rightarrow> timestamp \<Rightarrow> verification_record" where
  "createVerificationRecord jobId attemptId hasSetup hasAcceptance now =
     \<lparr>vr_jobId = jobId, vr_attemptId = attemptId, vr_updatedAt = now,
      vr_setup = \<lparr>sr_status = (if hasSetup then P_Pending else P_NotConfigured), sr_commands = [],
                  sr_repositoryClean = (if hasSetup then None else Some True)\<rparr>,
      vr_scope = \<lparr>sc_status = Scope_NotRun, sc_changedPaths = [], sc_violations = []\<rparr>,
      vr_acceptance = \<lparr>ap_status = (if hasAcceptance then P_Pending else P_NotConfigured), ap_commands = [],
                       ap_proposalStable = (if hasAcceptance then None else Some True)\<rparr>,
      vr_eligibleForReview = False\<rparr>"

subsection \<open>The outcome of a phase (orchestrator/conductor.ts)\<close>

definition phaseStatus :: "command_evidence list \<Rightarrow> phase_status" where
  "phaseStatus commands =
     (if list_ex (\<lambda>c. ev_status c = Cmd_Cancelled) commands then P_Cancelled
      else if list_ex (\<lambda>c. ev_status c = Cmd_PolicyDenied) commands then P_PolicyDenied
      else if list_all (\<lambda>c. ev_status c = Cmd_Passed) commands then P_Passed
      else P_Failed)"

lemma phaseStatus_Passed_iff: "phaseStatus cs = P_Passed \<longleftrightarrow> (\<forall>c\<in>set cs. ev_status c = Cmd_Passed)"
  by (auto simp: phaseStatus_def list_ex_iff list_all_iff)

subsection \<open>Path scope (verification/scope.ts)\<close>

definition portable :: "string \<Rightarrow> string" where
  "portable v = map (\<lambda>c. if c = CHR 0x5C then CHR ''/'' else c) v"

definition strip_dot_slash :: "string \<Rightarrow> string" where
  "strip_dot_slash v = (if prefix ''./'' v then drop 2 v else v)"

definition strip_trailing_slashes :: "string \<Rightarrow> string" where
  "strip_trailing_slashes v = rev (dropWhile (\<lambda>c. c = CHR ''/'') (rev v))"

definition normalizePath :: "string \<Rightarrow> string" where
  "normalizePath v = strip_trailing_slashes (strip_dot_slash (portable v))"

definition normalizeRule :: "string \<Rightarrow> string" where
  "normalizeRule v = normalizePath v"

definition matchesRule :: "string \<Rightarrow> string \<Rightarrow> bool" where
  "matchesRule candidate rule \<longleftrightarrow> candidate = rule \<or> prefix (rule @ ''/'') candidate"

fun path_violations :: "string list \<Rightarrow> string list \<Rightarrow> string list \<Rightarrow> string \<Rightarrow> scope_violation list" where
  "path_violations allowed forbidden protectedPaths changedPath =
     (if allowed \<noteq> [] \<and> \<not> list_ex (matchesRule changedPath) allowed
      then [\<lparr>vi_path = changedPath, vi_kind = Outside_Allowed, vi_rule = ''<allowedPaths>''\<rparr>] else [])
     @ map (\<lambda>rule. \<lparr>vi_path = changedPath, vi_kind = Forbidden, vi_rule = rule\<rparr>)
         (filter (matchesRule changedPath) forbidden)
     @ map (\<lambda>rule. \<lparr>vi_path = changedPath, vi_kind = Protected, vi_rule = rule\<rparr>)
         (filter (matchesRule changedPath) protectedPaths)"

definition evaluatePathScope :: "string list \<Rightarrow> path_scope \<Rightarrow> scope_record" where
  "evaluatePathScope changedPaths scope =
     (let normalized = js_sort (js_unique (map normalizePath changedPaths));
          allowed = map normalizeRule (ps_allowedPaths scope);
          forbidden = map normalizeRule (ps_forbiddenPaths scope);
          protectedPaths = map normalizeRule (ps_protectedPaths scope);
          violations = concat (map (path_violations allowed forbidden protectedPaths) normalized);
          configured = 0 < length allowed + length forbidden + length protectedPaths
      in \<lparr>sc_status = (if violations \<noteq> [] then Scope_Failed
                      else if configured then Scope_Passed else Scope_NotConfigured),
          sc_changedPaths = normalized, sc_violations = violations\<rparr>)"

text \<open>What the check is for, stated without the loop: a path the scope admits.\<close>

definition under_rule :: "string \<Rightarrow> string \<Rightarrow> bool" where
  "under_rule path rule \<longleftrightarrow>
     (\<exists>rest. normalizePath path = normalizePath rule @ rest \<and> (rest = [] \<or> hd rest = CHR ''/''))"

definition path_admitted :: "path_scope \<Rightarrow> string \<Rightarrow> bool" where
  "path_admitted scope path \<longleftrightarrow>
     (ps_allowedPaths scope = [] \<or> (\<exists>rule\<in>set (ps_allowedPaths scope). under_rule path rule)) \<and>
     (\<forall>rule\<in>set (ps_forbiddenPaths scope). \<not> under_rule path rule) \<and>
     (\<forall>rule\<in>set (ps_protectedPaths scope). \<not> under_rule path rule)"

lemma matchesRule_iff_under: "matchesRule (normalizePath p) (normalizeRule r) \<longleftrightarrow> under_rule p r"
proof
  assume "matchesRule (normalizePath p) (normalizeRule r)"
  then show "under_rule p r"
    by (auto simp: matchesRule_def under_rule_def normalizeRule_def prefix_def)
next
  assume "under_rule p r"
  then obtain rest where e: "normalizePath p = normalizePath r @ rest"
    and rest: "rest = [] \<or> hd rest = CHR ''/''" by (auto simp: under_rule_def)
  show "matchesRule (normalizePath p) (normalizeRule r)"
  proof (cases rest)
    case (Cons c cs)
    then show ?thesis using e rest by (auto simp: matchesRule_def normalizeRule_def prefix_def)
  qed (simp add: e matchesRule_def normalizeRule_def)
qed

lemma path_violations_empty_iff:
  "path_violations (map normalizeRule (ps_allowedPaths sc)) (map normalizeRule (ps_forbiddenPaths sc))
     (map normalizeRule (ps_protectedPaths sc)) (normalizePath p) = [] \<longleftrightarrow> path_admitted sc p"
  by (auto simp: path_admitted_def filter_empty_conv list_ex_iff matchesRule_iff_under)

lemma scope_violations_empty_iff:
  "sc_violations (evaluatePathScope ps sc) = [] \<longleftrightarrow> (\<forall>p\<in>set ps. path_admitted sc p)"
proof -
  have "sc_violations (evaluatePathScope ps sc) = [] \<longleftrightarrow>
    (\<forall>p\<in>set ps. path_violations (map normalizeRule (ps_allowedPaths sc)) (map normalizeRule (ps_forbiddenPaths sc))
       (map normalizeRule (ps_protectedPaths sc)) (normalizePath p) = [])"
    by (auto simp: evaluatePathScope_def Let_def simp del: path_violations.simps)
  then show ?thesis by (simp only: path_violations_empty_iff)
qed

text \<open>
  C5. The scope check fails exactly when some changed path is not admitted: outside every allowed
  path when allowed paths are given, or at or below a forbidden or a protected path. Otherwise it
  passes, or is not configured when the job gives no rule at all.
\<close>

theorem scope_status_correct:
  "sc_status (evaluatePathScope paths scope) =
     (if \<forall>p\<in>set paths. path_admitted scope p
      then if ps_allowedPaths scope = [] \<and> ps_forbiddenPaths scope = [] \<and> ps_protectedPaths scope = []
           then Scope_NotConfigured else Scope_Passed
      else Scope_Failed)"
proof -
  have "sc_status (evaluatePathScope paths scope) =
    (if sc_violations (evaluatePathScope paths scope) \<noteq> [] then Scope_Failed
     else if 0 < length (ps_allowedPaths scope) + length (ps_forbiddenPaths scope) + length (ps_protectedPaths scope)
     then Scope_Passed else Scope_NotConfigured)"
    by (simp add: evaluatePathScope_def Let_def)
  then show ?thesis by (simp add: scope_violations_empty_iff)
qed

theorem scope_status_correct_witness:
  "sc_status (evaluatePathScope [''src/a.ts'', ''srcx/b.ts'']
     \<lparr>ps_allowedPaths = [''src''], ps_forbiddenPaths = [], ps_protectedPaths = []\<rparr>) = Scope_Failed"
proof -
  let ?sc = "\<lparr>ps_allowedPaths = [''src''], ps_forbiddenPaths = [], ps_protectedPaths = []\<rparr>"
  have "\<not> path_admitted ?sc ''srcx/b.ts''"
    by (simp add: path_admitted_def matchesRule_iff_under [symmetric] matchesRule_def normalizeRule_def
        normalizePath_def portable_def strip_dot_slash_def strip_trailing_slashes_def)
  then show ?thesis using scope_status_correct [of "[''src/a.ts'', ''srcx/b.ts'']" ?sc] by simp
qed

end
