(* ===== verification/Sandbox.thy ===== *)
theory Sandbox
  imports Jobs
begin

text \<open>
  What a command may see and do: the environment it inherits (\<open>src/src/runtime/environment.ts\<close>) and
  the container it runs in when the job's boundary is an external sandbox
  (\<open>src/src/sandbox/docker.ts\<close>).

  Parameters: \<open>sha256\<close> of Node's crypto module; \<open>showNumber\<close>, the text of a JavaScript number that need
  not be an integer; \<open>penv\<close>, the entries of \<open>process.env\<close>; \<open>win32\<close>, whether the host is Windows; the
  answers of the Docker command line. Paths inside the container are POSIX paths.
\<close>

text \<open>\<open>path.isAbsolute\<close> on the host.\<close>

definition host_isAbsolute :: "bool \<Rightarrow> string \<Rightarrow> bool" where
  "host_isAbsolute win32 p = (if win32 then win32_isAbsolute p else posix_isAbsolute p)"

subsection \<open>The environment (runtime/environment.ts)\<close>

definition upper_char :: "char \<Rightarrow> char" where
  "upper_char c = (let n = of_char c :: nat in if 97 \<le> n \<and> n \<le> 122 then char_of (n - 32) else c)"

definition env_name :: "bool \<Rightarrow> string \<Rightarrow> string" where
  "env_name win32 v = (if win32 then map upper_char v else v)"

definition BASE_ENVIRONMENT_KEYS :: "bool \<Rightarrow> string list" where
  "BASE_ENVIRONMENT_KEYS win32 =
     (if win32
      then [''APPDATA'', ''COMSPEC'', ''HOMEDRIVE'', ''HOMEPATH'', ''LOCALAPPDATA'', ''PATH'', ''PATHEXT'', ''PROGRAMDATA'',
            ''SYSTEMDRIVE'', ''SYSTEMROOT'', ''TEMP'', ''TMP'', ''USERPROFILE'', ''WINDIR'']
      else [''HOME'', ''LANG'', ''LC_ALL'', ''PATH'', ''SHELL'', ''TMPDIR'', ''USER''])"

definition findEnvironmentEntry :: "bool \<Rightarrow> (string \<times> string) list \<Rightarrow> string \<Rightarrow> (string \<times> string) option" where
  "findEnvironmentEntry win32 penv requested = List.find (\<lambda>(k, v). env_name win32 k = env_name win32 requested) penv"

definition select_entry ::
  "bool \<Rightarrow> (string \<times> string) list \<Rightarrow> (string \<times> string) list \<Rightarrow> string \<Rightarrow> (string \<times> string) list" where
  "select_entry win32 penv selected requested =
     (case findEnvironmentEntry win32 penv requested of None \<Rightarrow> selected | Some (k, v) \<Rightarrow> AList.update k v selected)"

definition selectRequestedEnvironment :: "bool \<Rightarrow> (string \<times> string) list \<Rightarrow> string list \<Rightarrow> (string \<times> string) list" where
  "selectRequestedEnvironment win32 penv keys = foldl (select_entry win32 penv) [] (js_unique keys)"

definition selectParentEnvironment :: "bool \<Rightarrow> (string \<times> string) list \<Rightarrow> string list \<Rightarrow> (string \<times> string) list" where
  "selectParentEnvironment win32 penv extraKeys = selectRequestedEnvironment win32 penv (BASE_ENVIRONMENT_KEYS win32 @ extraKeys)"

definition is_space :: "char \<Rightarrow> bool" where
  "is_space c = (c \<in> {CHR 0x20, CHR 0x09, CHR 0x0A, CHR 0x0B, CHR 0x0C, CHR 0x0D, CHR 0xA0})"

definition trim :: "string \<Rightarrow> string" where
  "trim s = rev (dropWhile is_space (rev (dropWhile is_space s)))"

definition parseEnvironmentList :: "string option \<Rightarrow> string list" where
  "parseEnvironmentList v =
     (case v of
        None \<Rightarrow> []
      | Some s \<Rightarrow> if s = [] then [] else js_unique (filter (\<lambda>e. e \<noteq> []) (map trim (split_on (CHR '','') s))))"

subsection \<open>Sandbox profiles (sandbox/docker.ts)\<close>

record docker_profile =
  dk_image :: string
  dk_minimumEngineVersion :: string
  dk_allowedExecutables :: "string list"
  dk_user :: string
  dk_memoryBytes :: int
  dk_cpus :: rat
  dk_pidsLimit :: int
  dk_tmpfsBytes :: int

record sandbox_profile_file =
  pf_dockerExecutable :: string
  pf_profiles :: "(string \<times> docker_profile) list"

definition is_digits :: "string \<Rightarrow> bool" where
  "is_digits s \<longleftrightarrow> s \<noteq> [] \<and> list_all is_digit s"

text \<open>\<open>/^.+@sha256:[a-f0-9]{64}$/\<close>.\<close>

definition is_pinned_image :: "string \<Rightarrow> bool" where
  "is_pinned_image v \<longleftrightarrow> 72 < length v \<and>
     list_all (\<lambda>c. c \<in> set ''0123456789abcdef'') (drop (length v - 64) v) \<and>
     take 8 (drop (length v - 72) v) = ''@sha256:'' \<and> CHR 0x0A \<notin> set v"

definition is_version :: "string \<Rightarrow> bool" where
  "is_version v \<longleftrightarrow> length (split_on (CHR ''.'') v) = 3 \<and> list_all is_digits (split_on (CHR ''.'') v)"

definition is_user :: "string \<Rightarrow> bool" where
  "is_user v \<longleftrightarrow> length (split_on (CHR '':'') v) = 2 \<and> list_all is_digits (split_on (CHR '':'') v)"

definition dockerProfile_valid :: "docker_profile \<Rightarrow> bool" where
  "dockerProfile_valid p \<longleftrightarrow> is_pinned_image (dk_image p) \<and> is_version (dk_minimumEngineVersion p) \<and>
     list_all (prefix ''/'') (dk_allowedExecutables p) \<and> 1 \<le> length (dk_allowedExecutables p) \<and>
     length (dk_allowedExecutables p) \<le> 64 \<and> is_user (dk_user p) \<and>
     in_range 67108864 68719476736 (dk_memoryBytes p) \<and> 1 / 10 \<le> dk_cpus p \<and> dk_cpus p \<le> 64 \<and>
     in_range 16 4096 (dk_pidsLimit p) \<and> in_range 1048576 8589934592 (dk_tmpfsBytes p)"

definition sandboxProfileFile_valid :: "sandbox_profile_file \<Rightarrow> bool" where
  "sandboxProfileFile_valid f \<longleftrightarrow> pf_dockerExecutable f \<noteq> [] \<and>
     list_all (\<lambda>(k, p). is_safe_segment k \<and> dockerProfile_valid p) (pf_profiles f)"

definition policy_json :: "(rat \<Rightarrow> string) \<Rightarrow> string \<Rightarrow> docker_profile \<Rightarrow> json" where
  "policy_json showNumber dockerExecutable p = JObj [(''driver'', JStr ''docker''), (''dockerExecutable'', JStr dockerExecutable),
     (''image'', JStr (dk_image p)), (''minimumEngineVersion'', JStr (dk_minimumEngineVersion p)),
     (''allowedExecutables'', jstrs (dk_allowedExecutables p)), (''user'', JStr (dk_user p)),
     (''memoryBytes'', jint (dk_memoryBytes p)), (''cpus'', JNum (showNumber (dk_cpus p))), (''pidsLimit'', jint (dk_pidsLimit p)),
     (''tmpfsBytes'', jint (dk_tmpfsBytes p)), (''workspaceMount'', JStr ''/workspace''), (''network'', JStr ''none''),
     (''readOnlyRoot'', JBool True), (''capDropAll'', JBool True), (''noNewPrivileges'', JBool True)]"

definition bind_profile ::
  "(string \<Rightarrow> string) \<Rightarrow> string comparator \<Rightarrow> (rat \<Rightarrow> string) \<Rightarrow> string \<Rightarrow> string \<Rightarrow> docker_profile \<Rightarrow> sandbox_binding" where
  "bind_profile sha256 lc showNumber dockerExecutable profileId p =
     \<lparr>sb_profileId = profileId, sb_profileFingerprint = fingerprint sha256 lc (policy_json showNumber dockerExecutable p),
      sb_driver = ''docker'', sb_dockerExecutable = dockerExecutable, sb_image = dk_image p,
      sb_minimumEngineVersion = dk_minimumEngineVersion p, sb_allowedExecutables = dk_allowedExecutables p, sb_user = dk_user p,
      sb_workspaceMount = ''/workspace'', sb_memoryBytes = dk_memoryBytes p, sb_cpus = dk_cpus p, sb_pidsLimit = dk_pidsLimit p,
      sb_tmpfsBytes = dk_tmpfsBytes p\<rparr>"

fun bind_profiles ::
  "(string \<Rightarrow> string) \<Rightarrow> string comparator \<Rightarrow> (rat \<Rightarrow> string) \<Rightarrow> string \<Rightarrow> (string \<times> docker_profile) list \<Rightarrow>
   (string \<times> sandbox_binding) list \<Rightarrow> err + (string \<times> sandbox_binding) list" where
  "bind_profiles sha256 lc showNumber exe [] bindings = Inr bindings"
| "bind_profiles sha256 lc showNumber exe ((k, p) # rest) bindings =
     (let b = bind_profile sha256 lc showNumber exe k p in
      if sandboxBinding_valid b then bind_profiles sha256 lc showNumber exe rest (AList.update k b bindings) else Inl ZodError)"

text \<open>The constructor; \<open>resolve\<close> is \<open>resolveExecutablePath\<close> on this host.\<close>

definition new_SandboxProfiles ::
  "(string \<Rightarrow> string) \<Rightarrow> string comparator \<Rightarrow> (rat \<Rightarrow> string) \<Rightarrow> (string \<Rightarrow> string option) \<Rightarrow> bool \<Rightarrow>
   sandbox_profile_file option \<Rightarrow> err + (string \<times> sandbox_binding) list" where
  "new_SandboxProfiles sha256 lc showNumber resolve win32 input =
     (case input of
        None \<Rightarrow> Inr []
      | Some f \<Rightarrow>
          if \<not> sandboxProfileFile_valid f then Inl ZodError
          else (case resolve (pf_dockerExecutable f) of
             None \<Rightarrow> Inl (Error (''Docker executable is unavailable: '' @ pf_dockerExecutable f))
           | Some exe \<Rightarrow>
               if exe = [] \<or> \<not> host_isAbsolute win32 exe
               then Inl (Error (''Docker executable is unavailable: '' @ pf_dockerExecutable f))
               else bind_profiles sha256 lc showNumber exe (pf_profiles f) []))"

definition resolve_profile :: "(string \<times> sandbox_binding) list \<Rightarrow> string \<Rightarrow> err + sandbox_binding" where
  "resolve_profile bindings profileId =
     (case map_of bindings profileId of
        None \<Rightarrow> Inl (Error (''Unknown external sandbox profile: '' @ profileId)) | Some b \<Rightarrow> Inr b)"

subsection \<open>The engine check\<close>

definition parse_version :: "string \<Rightarrow> int list" where
  "parse_version v = map (\<lambda>part. int (parse_nat (takeWhile is_digit part))) (split_on (CHR ''.'') v)"

definition component :: "int list \<Rightarrow> nat \<Rightarrow> int" where
  "component v i = (if i < length v then v ! i else 0)"

fun compare_from :: "int list \<Rightarrow> int list \<Rightarrow> nat \<Rightarrow> nat \<Rightarrow> int" where
  "compare_from a b index 0 = 0"
| "compare_from a b index (Suc left) =
     (if component a index \<noteq> component b index then component a index - component b index
      else compare_from a b (Suc index) left)"

definition compareVersions :: "string \<Rightarrow> string \<Rightarrow> int" where
  "compareVersions l r = compare_from (parse_version l) (parse_version r) 0 3"

text \<open>\<open>capture\<close> is the Docker command line: its trimmed output, or the error of the probe.\<close>

definition verifyDockerBinding :: "(string \<Rightarrow> string list \<Rightarrow> err + string) \<Rightarrow> sandbox_binding \<Rightarrow> err + unit" where
  "verifyDockerBinding capture b =
     (case capture (sb_dockerExecutable b) [''version'', ''--format'', ''{{.Server.Version}}''] of
        Inl e \<Rightarrow> Inl e
      | Inr version \<Rightarrow>
          if compareVersions version (sb_minimumEngineVersion b) < 0
          then Inl (Error (''Docker Engine '' @ version @ '' is below required '' @ sb_minimumEngineVersion b))
          else (case capture (sb_dockerExecutable b) [''image'', ''inspect'', sb_image b] of Inl e \<Rightarrow> Inl e | Inr _ \<Rightarrow> Inr ()))"

subsection \<open>The container of one command\<close>

definition validateSandboxCommand :: "sandbox_binding \<Rightarrow> command_spec \<Rightarrow> err + unit" where
  "validateSandboxCommand boundary command =
     (if cs_inheritEnv command \<noteq> []
      then Inl (Error ''External sandbox commands cannot inherit host environment values'')
      else if \<not> prefix ''/'' (cs_executable command) \<or> cs_executable command \<notin> set (sb_allowedExecutables boundary)
      then Inl (Error (''Container executable is not allowed by sandbox profile: '' @ cs_executable command))
      else Inr ())"

text \<open>\<open>path.posix.resolve(base, p)\<close> for an absolute base.\<close>

definition posix_resolve :: "string \<Rightarrow> string \<Rightarrow> string" where
  "posix_resolve base p =
     ''/'' @ join ''/'' (resolve_from (if prefix ''/'' p then [] else resolve_from [] (split_on (CHR ''/'') base))
       (split_on (CHR ''/'') p))"

record cleanup_invocation =
  cl_executable :: string
  cl_args :: "string list"
  cl_cwd :: string
  cl_allowMissingMessage :: string
  cl_timeoutMs :: int
  cl_maxOutputBytes :: "int option"

record process_invocation =
  pi_executable :: string
  pi_args :: "string list"
  pi_cwd :: string
  pi_env :: "(string \<times> string) list"
  pi_cleanup :: "cleanup_invocation option"

record sandboxed_invocation =
  si_invocation :: process_invocation
  si_containerName :: string
  si_resource :: external_resource

definition docker_args :: "(rat \<Rightarrow> string) \<Rightarrow> sandbox_binding \<Rightarrow> string \<Rightarrow> string \<Rightarrow> string \<Rightarrow> command_spec \<Rightarrow> string list" where
  "docker_args showNumber b containerName containerCwd workspacePath command =
     [''run'', ''--name'', containerName, ''--pull'', ''never'', ''--network'', ''none'', ''--read-only'', ''--cap-drop'', ''ALL'',
      ''--security-opt'', ''no-new-privileges=true'', ''--pids-limit'', show_int (sb_pidsLimit b),
      ''--memory'', show_int (sb_memoryBytes b) @ ''b'', ''--cpus'', showNumber (sb_cpus b), ''--user'', sb_user b,
      ''--ipc'', ''none'', ''--workdir'', containerCwd,
      ''--mount'', ''type=bind,source='' @ workspacePath @ '',target='' @ sb_workspaceMount b,
      ''--tmpfs'', ''/tmp:rw,noexec,nosuid,nodev,size='' @ show_int (sb_tmpfsBytes b),
      sb_image b, cs_executable command] @ cs_args command"

definition buildSandboxedCommand ::
  "(string \<Rightarrow> string) \<Rightarrow> (rat \<Rightarrow> string) \<Rightarrow> bool \<Rightarrow> timestamp \<Rightarrow> sandbox_binding \<Rightarrow> command_spec \<Rightarrow> string \<Rightarrow> string \<Rightarrow>
   string option \<Rightarrow> string \<Rightarrow> err + sandboxed_invocation" where
  "buildSandboxedCommand sha256 showNumber win32 now b command workspacePath cleanupCwd relativeCwd identity =
     (case validateSandboxCommand b command of
        Inl e \<Rightarrow> Inl e
      | Inr _ \<Rightarrow>
          if \<not> host_isAbsolute win32 cleanupCwd
          then Inl (Error ''Sandbox cleanup cwd must be an absolute durable path'')
          else if list_ex (\<lambda>c. c \<in> {CHR '','', CHR 0x0D, CHR 0x0A}) workspacePath
          then Inl (Error ''Workspace path cannot be represented as a Docker bind mount'')
          else
            let rel = to_portable (case relativeCwd of None \<Rightarrow> ''.'' | Some r \<Rightarrow> r);
                containerCwd = posix_resolve (sb_workspaceMount b) rel in
            if containerCwd \<noteq> sb_workspaceMount b \<and> \<not> prefix (sb_workspaceMount b @ ''/'') containerCwd
            then Inl (Error ''Sandbox command cwd leaves the workspace mount'')
            else
              let containerName = ''conductor-'' @ take 24 (sha256 identity);
                  removal = [''rm'', ''--force'', containerName] in
              Inr \<lparr>si_invocation = \<lparr>pi_executable = sb_dockerExecutable b,
                     pi_args = docker_args showNumber b containerName containerCwd workspacePath command,
                     pi_cwd = workspacePath, pi_env = [],
                     pi_cleanup = Some \<lparr>cl_executable = sb_dockerExecutable b, cl_args = removal, cl_cwd = cleanupCwd,
                       cl_allowMissingMessage = ''No such container'', cl_timeoutMs = 24000, cl_maxOutputBytes = None\<rparr>\<rparr>,
                   si_containerName = containerName,
                   si_resource = \<lparr>er_resourceId = containerName, er_driver = ''docker'', er_profileId = sb_profileId b,
                     er_profileFingerprint = sb_profileFingerprint b, er_image = sb_image b, er_status = Resource_Active,
                     er_registeredAt = now, er_releasedAt = None, er_cleanupExecutable = sb_dockerExecutable b,
                     er_cleanupArgs = removal, er_cleanupCwd = cleanupCwd\<rparr>\<rparr>)"

end
