(* ===== verification/Conductor.thy ===== *)
theory Conductor
  imports Queue_Store Verification Sandbox
begin

text \<open>
  The conductor's handlers that move attempts (\<open>src/src/orchestrator/conductor.ts\<close>): preparing a
  job, reserving, claiming and launching an attempt, cancelling it, binding and checking the
  proposals it builds on, recovering an interrupted attempt, releasing its external resources and
  removing its work tree.

  State: the artifact store, the abort controllers and executions of this process, the work trees it
  asked git to remove so far, and a counter of the random identifiers drawn so far. Everything outside the process is in \<open>conductor_env\<close>: the
  clock, process liveness before and after the grace period, the adapters, the sandbox check, git
  and disk probes, file sizes and digests, and what a cleanup command did when it was run.
\<close>

subsection \<open>State and environment\<close>

record adapter_description =
  dc_available :: bool
  dc_hostExecution :: "host_execution option"

text \<open>
  One run of a cleanup command by the process runner: the guardian it reported before the command
  started (if any), its result or the error it threw, and the text of its error log.
\<close>

record run_outcome =
  ro_guardian :: "process_guardian option"
  ro_result :: "err + process_result"
  ro_stderr :: "err + string"

record conductor_env =
  cv_now :: timestamp
  cv_instanceId :: string
  cv_pid :: nat
  cv_alive :: "nat \<Rightarrow> bool"
  cv_aliveAfterGrace :: "nat \<Rightarrow> bool"
  cv_sha256 :: "string \<Rightarrow> string"
  cv_lc :: "string comparator"
  cv_fp :: failpoint
  cv_uuid :: "nat \<Rightarrow> string"
  cv_adapter :: "string \<Rightarrow> err + adapter_description"
  cv_resolveSandbox :: "string \<Rightarrow> err + sandbox_binding"
  cv_verifySandbox :: "sandbox_binding \<Rightarrow> err + unit"
  cv_inspectRepository :: "string \<Rightarrow> string \<Rightarrow> err + (string \<times> string)"
  cv_freeDisk :: "string \<Rightarrow> err + int"
  cv_profile :: owner_resource_profile
  cv_readVerification :: "string \<Rightarrow> err + verification_record"
  cv_fileSize :: "string \<Rightarrow> err + nat"
  cv_hashFile :: "string \<Rightarrow> err + string"
  cv_samePath :: "string \<Rightarrow> string \<Rightarrow> bool"
  cv_run :: "external_resource \<Rightarrow> run_outcome"
  cv_removeWorkspace :: "string \<Rightarrow> err + unit"

record conductor_state =
  cd_store :: artifact_store
  cd_active :: "string list"
  cd_aborted :: "string list"
  cd_executions :: "string list"
  cd_removals :: "string list"
  cd_drawn :: nat

definition on_store :: "(artifact_store, 'a) act \<Rightarrow> (conductor_state, 'a) act" where
  "on_store m s = (case m (cd_store s) of (r, st) \<Rightarrow> (r, s\<lparr>cd_store := st\<rparr>))"

definition draw :: "conductor_env \<Rightarrow> (conductor_state, string) act" where
  "draw env s = (Inr (cv_uuid env (cd_drawn s)), s\<lparr>cd_drawn := Suc (cd_drawn s)\<rparr>)"

record run_job_result =
  rj_jobId :: string
  rj_attemptId :: string
  rj_status :: attempt_status
  rj_idempotentReplay :: bool
  rj_workspacePath :: "string option"
  rj_workspaceRetained :: "bool option"
  rj_artifacts :: attempt_artifacts
  rj_failure :: "attempt_failure option"
  rj_verificationStatus :: verification_status
  rj_cleanupStatus :: cleanup_status

subsection \<open>Reads and small helpers\<close>

definition getAttempt :: "string \<Rightarrow> (conductor_state, attempt_manifest) act" where
  "getAttempt attemptId = readsA (\<lambda>s. findAttempt (cd_store s) attemptId)"

definition getAttemptCleanup :: "string \<Rightarrow> (conductor_state, attempt_cleanup_record) act" where
  "getAttemptCleanup attemptId =
     bindA (getAttempt attemptId)
       (\<lambda>manifest. readsA (\<lambda>s. readAttemptCleanup (cd_store s) (am_jobId manifest) (am_attemptId manifest)))"

definition readJobA :: "conductor_env \<Rightarrow> string \<Rightarrow> (conductor_state, job_contract) act" where
  "readJobA env jobId = readsA (\<lambda>s. readJob (cv_sha256 env) (cv_lc env) (cd_store s) jobId)"

definition getVerification :: "conductor_env \<Rightarrow> string \<Rightarrow> (conductor_state, verification_record) act" where
  "getVerification env attemptId =
     bindA (getAttempt attemptId) (\<lambda>manifest. liftE (cv_readVerification env (ar_verification (am_artifacts manifest))))"

definition worktree_subject :: cleanup_subject where
  "worktree_subject = \<lparr>su_kind = Workspace_Subject, su_id = ''worktree''\<rparr>"

definition evidence_proven :: "attempt_cleanup_record \<Rightarrow> cleanup_subject \<Rightarrow> bool" where
  "evidence_proven c subject = (map_option ce_status (latestCleanupEvidence c subject) = Some EProven)"

definition summarize :: "attempt_manifest \<Rightarrow> bool \<Rightarrow> (conductor_state, run_job_result) act" where
  "summarize manifest idempotentReplay s =
     (let cleanup = (case readAttemptCleanup (cd_store s) (am_jobId manifest) (am_attemptId manifest) of
            Inl _ \<Rightarrow> None | Inr c \<Rightarrow> Some c);
          workspaceRemoved = (case cleanup of None \<Rightarrow> False | Some c \<Rightarrow> evidence_proven c worktree_subject)
      in (Inr \<lparr>rj_jobId = am_jobId manifest, rj_attemptId = am_attemptId manifest, rj_status = am_status manifest,
            rj_idempotentReplay = idempotentReplay, rj_workspacePath = map_option ws_path (am_workspace manifest),
            rj_workspaceRetained = (if workspaceRemoved then Some False else map_option ws_retained (am_workspace manifest)),
            rj_artifacts = am_artifacts manifest, rj_failure = am_failure manifest,
            rj_verificationStatus = am_verificationStatus manifest,
            rj_cleanupStatus = (case cleanup of None \<Rightarrow> C_Unknown | Some c \<Rightarrow> cr_status c)\<rparr>, s))"

definition update_attempt ::
  "conductor_env \<Rightarrow> attempt_manifest \<Rightarrow> (attempt_manifest \<Rightarrow> attempt_manifest) \<Rightarrow> (conductor_state, attempt_manifest) act" where
  "update_attempt env manifest patch = on_store (transitionAttempt (cv_fp env) manifest patch)"

subsection \<open>Preparing and reserving\<close>

text \<open>The byte count of the request is an argument: \<open>Buffer.byteLength(JSON.stringify(request))\<close>.\<close>

definition prepareJob ::
  "conductor_env \<Rightarrow> nat \<Rightarrow> job_request \<Rightarrow> (conductor_state, job_contract) act" where
  "prepareJob env requestBytes request =
     bindA (guardA (jobRequest_valid request) ZodError) (\<lambda>_.
     let limits = op_limits (cv_profile env);
         commands = jr_setupCommands request @ jr_acceptanceCommands request;
         commandCount = int (length commands) in
     bindA (guardA (commandCount \<le> rl_maxCommands limits)
       (Error (''Job declares '' @ show_int commandCount @ '' commands; owner profile allows '' @ show_int (rl_maxCommands limits)))) (\<lambda>_.
     bindA (guardA (int requestBytes \<le> rl_maxArtifactBytes limits)
       (Error (''Job request is '' @ show_nat requestBytes @ '' bytes; owner profile allows ''
         @ show_int (rl_maxArtifactBytes limits) @ '' artifact bytes''))) (\<lambda>_.
     bindA (liftE (cv_adapter env (jr_adapterId request))) (\<lambda>adapter.
     bindA (guardA (dc_available adapter) (Error (''Worker adapter is not available: '' @ jr_adapterId request))) (\<lambda>_.
     bindA (case jr_executionBoundary request of
         HostWorktreeRequest \<Rightarrow> ret None
       | ExternalSandboxRequest p \<Rightarrow>
           bindA (liftE (cv_resolveSandbox env p)) (\<lambda>binding.
           bindA (liftE (cv_verifySandbox env binding)) (\<lambda>_.
           bindA (guardA (dc_hostExecution adapter = Some File_Edit_Only)
             (Error (''External sandbox jobs require a file-edit-only host adapter: '' @ jr_adapterId request))) (\<lambda>_.
           bindA (forA (\<lambda>c. liftE (validateSandboxCommand binding c)) commands) (\<lambda>_. ret (Some binding)))))) (\<lambda>sandboxBinding.
     bindA (liftE (cv_inspectRepository env (jr_repositoryPath request) (jr_baseRef request))) (\<lambda>(rootDir, revision).
     bindA (draw env) (\<lambda>generatedId.
     bindA (liftE (freezeJobRequest (cv_sha256 env) (cv_lc env) request rootDir revision (cv_now env) generatedId
                     sandboxBinding (cv_profile env))) (\<lambda>candidate.
     bindA (readsA (\<lambda>s. cv_freeDisk env (as_root (cd_store s)))) (\<lambda>freeBytes.
     bindA (guardA (rl_minimumFreeDiskBytes (jc_resources candidate) \<le> freeBytes)
       (Error (''Insufficient free disk for a new attempt: '' @ show_int freeBytes @ '' bytes available, ''
         @ show_int (rl_minimumFreeDiskBytes (jc_resources candidate)) @ '' required by owner profile''))) (\<lambda>_.
     bindA (on_store (reserveJob (cv_sha256 env) (cv_lc env) candidate)) (\<lambda>(contract, created).
     ret contract))))))))))))"

definition bindProposalContribution ::
  "conductor_env \<Rightarrow> job_contract \<Rightarrow> attempt_manifest \<Rightarrow> (conductor_state, proposal_contribution) act" where
  "bindProposalContribution env childContract parent =
     bindA (readJobA env (am_jobId parent)) (\<lambda>parentContract.
     bindA (guardA (cv_samePath env (re_root (jc_repository parentContract)) (re_root (jc_repository childContract)))
       (Error (''Proposal '' @ am_attemptId parent @ '' belongs to a different repository''))) (\<lambda>_.
     bindA (guardA (re_baseRevision (jc_repository parentContract) = re_baseRevision (jc_repository childContract))
       (Error (''Proposal '' @ am_attemptId parent @ '' starts from '' @ re_baseRevision (jc_repository parentContract)
         @ '', not '' @ re_baseRevision (jc_repository childContract)))) (\<lambda>_.
     case am_workspace parent of
       None \<Rightarrow> raise (Error (''Proposal '' @ am_attemptId parent @ '' is not a completed eligible workspace attempt''))
     | Some w \<Rightarrow>
     bindA (guardA (am_status parent = ACompleted \<and> am_verificationStatus parent = V_Eligible)
       (Error (''Proposal '' @ am_attemptId parent @ '' is not a completed eligible workspace attempt''))) (\<lambda>_.
     bindA (guardA (am_reviewDisposition parent \<notin> {Review_Rejected, Review_Superseded})
       (Error (''Proposal '' @ am_attemptId parent @ '' was '' @ review_disposition_name (am_reviewDisposition parent)
         @ '' by its review authority''))) (\<lambda>_.
     bindA (getVerification env (am_attemptId parent)) (\<lambda>verification.
     bindA (guardA (vr_eligibleForReview verification)
       (Error (''Proposal '' @ am_attemptId parent @ '' lacks eligible deterministic evidence''))) (\<lambda>_.
     bindA (liftE (cv_fileSize env (ar_proposalPatch (am_artifacts parent)))) (\<lambda>patchSize.
     bindA (liftE (cv_hashFile env (ar_proposalPatch (am_artifacts parent)))) (\<lambda>patchHash.
     bindA (liftE (cv_hashFile env (ar_verification (am_artifacts parent)))) (\<lambda>verificationHash.
     ret \<lparr>pcn_jobId = am_jobId parent, pcn_attemptId = am_attemptId parent,
          pcn_jobRequestFingerprint = jc_requestFingerprint parentContract,
          pcn_sourceBaseRevision = re_baseRevision (jc_repository parentContract),
          pcn_patchBaseRevision = ws_baseRevision w, pcn_patchPath = ar_proposalPatch (am_artifacts parent),
          pcn_patchSha256 = patchHash, pcn_patchBytes = patchSize,
          pcn_verificationPath = ar_verification (am_artifacts parent), pcn_verificationSha256 = verificationHash\<rparr>))))))))))"

text \<open>The fingerprints of two contributions are compared; they agree exactly when the records do.\<close>

definition validateProposalLineage ::
  "conductor_env \<Rightarrow> job_contract \<Rightarrow> proposal_lineage \<Rightarrow> (conductor_state, unit) act" where
  "validateProposalLineage env contract lineage =
     bindA (guardA (pl_sourceBaseRevision lineage = re_baseRevision (jc_repository contract))
       (Error ''Proposal lineage source revision changed'')) (\<lambda>_.
     forA (\<lambda>expected.
       bindA (getAttempt (pcn_attemptId expected)) (\<lambda>parent.
       bindA (bindProposalContribution env contract parent) (\<lambda>actual.
       guardA (actual = expected) (Error (''Proposal evidence binding changed for '' @ pcn_attemptId expected)))))
     (pl_contributions lineage))"

text \<open>The insertion-ordered map of contributions, as a list without duplicate attempts.\<close>

definition add_contribution ::
  "proposal_contribution \<Rightarrow> proposal_contribution list \<Rightarrow> err + proposal_contribution list" where
  "add_contribution candidate cs =
     (case List.find (\<lambda>c. pcn_attemptId c = pcn_attemptId candidate) cs of
        None \<Rightarrow> Inr (cs @ [candidate])
      | Some existing \<Rightarrow>
          if existing \<noteq> candidate
          then Inl (Error (''Proposal lineage contains conflicting bindings for '' @ pcn_attemptId candidate))
          else Inr cs)"

fun add_contributions ::
  "proposal_contribution list \<Rightarrow> proposal_contribution list \<Rightarrow> err + proposal_contribution list" where
  "add_contributions [] cs = Inr cs"
| "add_contributions (x # xs) cs =
     (case add_contribution x cs of Inl e \<Rightarrow> Inl e | Inr cs' \<Rightarrow> add_contributions xs cs')"

definition inherited_contributions ::
  "string \<Rightarrow> attempt_manifest \<Rightarrow> proposal_contribution list \<Rightarrow> err + proposal_contribution list" where
  "inherited_contributions attemptId parent cs =
     (case am_lineage parent of
        None \<Rightarrow> Inr cs
      | Some l \<Rightarrow>
          if pl_status l \<noteq> Lineage_Composed
          then Inl (Error (''Parent attempt '' @ attemptId @ '' has unresolved proposal lineage''))
          else add_contributions (pl_contributions l) cs)"

fun collect_contributions ::
  "conductor_env \<Rightarrow> job_contract \<Rightarrow> string list \<Rightarrow> proposal_contribution list \<Rightarrow>
   (conductor_state, proposal_contribution list) act" where
  "collect_contributions env contract [] cs = ret cs"
| "collect_contributions env contract (attemptId # rest) cs =
     bindA (getAttempt attemptId) (\<lambda>parent.
     bindA (liftE (inherited_contributions attemptId parent cs)) (\<lambda>cs1.
     bindA (bindProposalContribution env contract parent) (\<lambda>own.
     bindA (liftE (add_contribution own cs1)) (\<lambda>cs2.
     collect_contributions env contract rest cs2))))"

definition buildProposalLineage ::
  "conductor_env \<Rightarrow> job_contract \<Rightarrow> string list \<Rightarrow> (conductor_state, proposal_lineage) act" where
  "buildProposalLineage env contract parentAttemptIds =
     (let direct = js_unique parentAttemptIds; limits = jc_resources contract in
      bindA (collect_contributions env contract direct []) (\<lambda>cs.
      bindA (guardA (int (length cs) \<le> rl_maxLineageContributions limits)
        (Error (''Proposal lineage has '' @ show_nat (length cs) @ '' contributions; budget allows ''
          @ show_int (rl_maxLineageContributions limits)))) (\<lambda>_.
      let lineageBytes = sum_list (map pcn_patchBytes cs) in
      bindA (guardA (int lineageBytes \<le> rl_maxArtifactBytes limits)
        (Error (''Proposal lineage binds '' @ show_nat lineageBytes @ '' patch bytes; budget allows ''
          @ show_int (rl_maxArtifactBytes limits)))) (\<lambda>_.
      let lineage = \<lparr>pl_sourceBaseRevision = re_baseRevision (jc_repository contract),
            pl_directParentAttemptIds = direct, pl_contributions = cs, pl_status = Lineage_Pending,
            pl_derivedRevision = None, pl_composedAt = None, pl_failure = None\<rparr> in
      bindA (guardA (proposalLineage_valid lineage) ZodError) (\<lambda>_.
      bindA (validateProposalLineage env contract lineage) (\<lambda>_. ret lineage))))))"

definition reservePreparedAttempt ::
  "conductor_env \<Rightarrow> string \<Rightarrow> string list \<Rightarrow> string option \<Rightarrow> (conductor_state, run_job_result) act" where
  "reservePreparedAttempt env jobId parentAttemptIds dispatchOperationId =
     bindA (readJobA env jobId) (\<lambda>contract.
     bindA (guardA (int (length parentAttemptIds) \<le> rl_maxLineageContributions (jc_resources contract))
       (ProposalLineageError (''Direct proposal lineage has '' @ show_nat (length parentAttemptIds)
         @ '' parents; budget allows '' @ show_int (rl_maxLineageContributions (jc_resources contract))))) (\<lambda>_.
     bindA (liftE (cv_adapter env (jc_adapterId contract))) (\<lambda>adapter.
     bindA (guardA (dc_available adapter) (Error (''Worker adapter is not available: '' @ jc_adapterId contract))) (\<lambda>_.
     bindA (if parentAttemptIds = [] then ret None
            else catchA (bindA (buildProposalLineage env contract parentAttemptIds) (\<lambda>l. ret (Some l)))
              (\<lambda>e. raise (ProposalLineageError (errorMessage e)))) (\<lambda>lineage.
     bindA (draw env) (\<lambda>stg.
     bindA (on_store (reserveAttempt (cv_now env) stg contract lineage dispatchOperationId)) (\<lambda>reservation.
     summarize (rv_manifest reservation) False)))))))"

subsection \<open>Claiming, launching, cancelling\<close>

definition claimReservedAttempt ::
  "conductor_env \<Rightarrow> string \<Rightarrow> string \<Rightarrow> (conductor_state, run_job_result) act" where
  "claimReservedAttempt env attemptId dispatchOperationId =
     bindA (getAttempt attemptId) (\<lambda>manifest.
     bindA (guardA (am_status manifest = AReserved)
       (Error (''Attempt '' @ attemptId @ '' cannot start from status '' @ attempt_status_name (am_status manifest)))) (\<lambda>_.
     bindA (guardA (\<not> truthy (am_dispatchOperationId manifest) \<or> am_dispatchOperationId manifest = Some dispatchOperationId)
       (Error (''Attempt '' @ attemptId @ '' belongs to dispatch operation ''
         @ (case am_dispatchOperationId manifest of None \<Rightarrow> [] | Some op \<Rightarrow> op)))) (\<lambda>_.
     bindA (readJobA env (am_jobId manifest)) (\<lambda>contract.
     bindA (case ex_boundary (jc_execution contract) of
         HostWorktree \<Rightarrow> ret () | ExternalSandbox b \<Rightarrow> liftE (cv_verifySandbox env b)) (\<lambda>_.
     bindA (liftE (cv_adapter env (jc_adapterId contract))) (\<lambda>adapter.
     bindA (guardA (dc_available adapter) (Error (''Worker adapter is not available: '' @ jc_adapterId contract))) (\<lambda>_.
     bindA (update_attempt env manifest (\<lambda>m. m\<lparr>am_status := AClaimed, am_dispatchOperationId := Some dispatchOperationId,
         am_launchOwner := Some \<lparr>lo_instanceId = cv_instanceId env, lo_processId = cv_pid env, lo_claimedAt = cv_now env\<rparr>\<rparr>)) (\<lambda>claimed.
     summarize claimed False))))))))"

text \<open>\<open>launchAttempt\<close>: the controller and the execution are registered; the execution then runs on its own.\<close>

definition launchAttempt :: "attempt_manifest \<Rightarrow> (conductor_state, unit) act" where
  "launchAttempt manifest s =
     (Inr (), s\<lparr>cd_active := cd_active s @ [am_attemptId manifest], cd_executions := cd_executions s @ [am_attemptId manifest]\<rparr>)"

definition launchClaimedAttempt ::
  "conductor_env \<Rightarrow> string \<Rightarrow> string \<Rightarrow> (conductor_state, run_job_result) act" where
  "launchClaimedAttempt env attemptId dispatchOperationId =
     bindA (getAttempt attemptId) (\<lambda>manifest.
     bindA (guardA (am_status manifest = AClaimed \<and> am_dispatchOperationId manifest = Some dispatchOperationId)
       (Error (''Attempt '' @ attemptId @ '' is not claimed by dispatch operation '' @ dispatchOperationId))) (\<lambda>_.
     bindA (guardA (map_option lo_instanceId (am_launchOwner manifest) = Some (cv_instanceId env))
       (Error (''Attempt '' @ attemptId @ '' belongs to another launcher instance''))) (\<lambda>_.
     bindA getA (\<lambda>s.
     bindA (guardA (attemptId \<notin> set (cd_executions s)) (Error (''Attempt '' @ attemptId @ '' is already executing''))) (\<lambda>_.
     bindA (readJobA env (am_jobId manifest)) (\<lambda>contract.
     bindA (launchAttempt manifest) (\<lambda>_.
     summarize manifest False)))))))"

definition startReservedAttempt ::
  "conductor_env \<Rightarrow> string \<Rightarrow> string \<Rightarrow> (conductor_state, run_job_result) act" where
  "startReservedAttempt env attemptId dispatchOperationId =
     bindA (claimReservedAttempt env attemptId dispatchOperationId) (\<lambda>claimed.
     bindA (launchClaimedAttempt env attemptId dispatchOperationId) (\<lambda>_. ret claimed))"

definition cancelAttempt :: "string \<Rightarrow> (conductor_state, bool) act" where
  "cancelAttempt attemptId s =
     (if attemptId \<notin> set (cd_active s) then (Inr False, s)
      else (Inr True, s\<lparr>cd_aborted := attemptId # cd_aborted s\<rparr>))"

definition cancelReservedAttempt :: "conductor_env \<Rightarrow> string \<Rightarrow> (conductor_state, attempt_manifest) act" where
  "cancelReservedAttempt env attemptId =
     bindA (getAttempt attemptId) (\<lambda>manifest.
     if am_status manifest \<notin> {AReserved, AClaimed} then ret manifest
     else update_attempt env manifest (\<lambda>m. m\<lparr>am_status := ACancelled, am_finishedAt := Some (cv_now env),
            am_verificationStatus := V_Ineligible,
            am_failure := Some \<lparr>fl_kind = FK_Cancelled, fl_message = ''Attempt cancelled before worker execution''\<rparr>\<rparr>))"

subsection \<open>Cleanup evidence\<close>

definition registerCleanupRequirement ::
  "conductor_env \<Rightarrow> attempt_manifest \<Rightarrow> cleanup_subject \<Rightarrow> process_guardian option \<Rightarrow>
   (conductor_state, attempt_cleanup_record) act" where
  "registerCleanupRequirement env manifest subject guardian =
     on_store (registerAttemptCleanupRequirement (cv_fp env) (cv_now env) (am_jobId manifest) (am_attemptId manifest)
       \<lparr>rq_subject = subject, rq_registeredAt = cv_now env,
        rq_deadlineMs = (if su_kind subject = Process_Tree then 5000 else 30000), rq_guardian = guardian\<rparr>)"

definition registerProcessCleanup ::
  "conductor_env \<Rightarrow> attempt_manifest \<Rightarrow> string \<Rightarrow> process_guardian \<Rightarrow> (conductor_state, unit) act" where
  "registerProcessCleanup env manifest operationId guardian =
     bindA (registerCleanupRequirement env manifest \<lparr>su_kind = Process_Tree, su_id = operationId\<rparr> (Some guardian))
       (\<lambda>_. ret ())"

definition appendCleanupEvidence ::
  "conductor_env \<Rightarrow> attempt_manifest \<Rightarrow> cleanup_subject \<Rightarrow> evidence_status \<Rightarrow> cleanup_method \<Rightarrow> string option \<Rightarrow>
   process_termination option \<Rightarrow> (conductor_state, attempt_cleanup_record) act" where
  "appendCleanupEvidence env manifest subject status cmethod detail termination =
     bindA (draw env) (\<lambda>evidenceId.
     on_store (appendAttemptCleanupEvidence (cv_fp env) (cv_now env) (am_jobId manifest) (am_attemptId manifest)
       \<lparr>ce_evidenceId = evidenceId, ce_subject = subject, ce_status = status, ce_cleanupMethod = cmethod,
        ce_observedAt = cv_now env, ce_detail = map_option (take 4000) detail, ce_termination = termination\<rparr>))"

definition recordProcessCleanup ::
  "conductor_env \<Rightarrow> attempt_manifest \<Rightarrow> string \<Rightarrow> process_result \<Rightarrow> (conductor_state, unit) act" where
  "recordProcessCleanup env manifest operationId result =
     (let t = px_termination result in
      bindA (appendCleanupEvidence env manifest \<lparr>su_kind = Process_Tree, su_id = operationId\<rparr> (pt_status t) CM_Process_Runner
        (Some (case pt_detail t of Some d \<Rightarrow> d
               | None \<Rightarrow> ''Process cleanup reported '' @ evidence_status_name (pt_status t))) (Some t)) (\<lambda>_. ret ()))"

definition resource_subject :: "string \<Rightarrow> cleanup_subject" where
  "resource_subject i = \<lparr>su_kind = External_Resource_Subject, su_id = i\<rparr>"

definition show_exit :: "int option \<Rightarrow> string" where
  "show_exit c = (case c of None \<Rightarrow> ''null'' | Some i \<Rightarrow> show_int i)"

definition registerExternalResource ::
  "conductor_env \<Rightarrow> attempt_manifest \<Rightarrow> external_resource \<Rightarrow> int \<Rightarrow> (conductor_state, attempt_manifest) act" where
  "registerExternalResource env manifest resource maximum =
     (let knownIds = js_unique (map er_resourceId (am_externalResources manifest)) in
      bindA (guardA (er_resourceId resource \<in> set knownIds \<or> int (length knownIds) < maximum)
        (ResourceLimitError (''external resources exceed the frozen maximum of '' @ show_int maximum))) (\<lambda>_.
      bindA (registerCleanupRequirement env manifest (resource_subject (er_resourceId resource)) None) (\<lambda>_.
      update_attempt env manifest (\<lambda>m. m\<lparr>am_externalResources :=
        filter (\<lambda>e. er_resourceId e \<noteq> er_resourceId resource) (am_externalResources manifest) @ [resource]\<rparr>))))"

definition releaseExternalResource ::
  "conductor_env \<Rightarrow> attempt_manifest \<Rightarrow> string \<Rightarrow> 'r process_execution_result_scheme \<Rightarrow> (conductor_state, attempt_manifest) act" where
  "releaseExternalResource env manifest resourceId cleanup =
     bindA (appendCleanupEvidence env manifest (resource_subject resourceId) (pt_status (px_termination cleanup))
       CM_External_Resource_Command (Some (''External resource cleanup exited '' @ show_exit (px_exitCode cleanup)))
       (Some (px_termination cleanup))) (\<lambda>_.
     if isAttemptTerminal (am_status manifest) then ret manifest
     else update_attempt env manifest (\<lambda>m. m\<lparr>am_externalResources :=
       map (\<lambda>e. if er_resourceId e = resourceId then e\<lparr>er_status := Resource_Released, er_releasedAt := Some (cv_now env)\<rparr> else e)
         (am_externalResources manifest)\<rparr>))"

definition reconstructExternalCleanup ::
  "job_contract \<Rightarrow> attempt_manifest \<Rightarrow> external_resource \<Rightarrow> err + (string \<times> string list)" where
  "reconstructExternalCleanup contract manifest resource =
     (case ex_boundary (jc_execution contract) of
        HostWorktree \<Rightarrow> Inl (Error (''External resource '' @ er_resourceId resource @ '' has no frozen sandbox owner profile''))
      | ExternalSandbox b \<Rightarrow>
          if er_driver resource \<noteq> sb_driver b \<or> er_profileId resource \<noteq> sb_profileId b \<or>
             er_profileFingerprint resource \<noteq> sb_profileFingerprint b \<or> er_image resource \<noteq> sb_image b
          then Inl (Error (''External resource '' @ er_resourceId resource @ '' does not match its frozen owner profile''))
          else Inr (sb_dockerExecutable b, [''rm'', ''--force'', er_resourceId resource]))"

text \<open>\<open>/No such container/i\<close>.\<close>

definition lower_char :: "char \<Rightarrow> char" where
  "lower_char c = (let n = of_char c :: nat in if 65 \<le> n \<and> n \<le> 90 then char_of (n + 32) else c)"

definition no_such_container :: "string \<Rightarrow> bool" where
  "no_such_container stderr = sublist ''no such container'' (map lower_char stderr)"

definition release_one ::
  "conductor_env \<Rightarrow> job_contract \<Rightarrow> attempt_manifest \<Rightarrow> external_resource \<Rightarrow>
   (conductor_state, attempt_manifest \<times> bool) act" where
  "release_one env contract manifest resource =
     catchA
       (bindA (liftE (reconstructExternalCleanup contract manifest resource)) (\<lambda>invocation.
        let outcome = cv_run env resource;
            operationId = ''external-resource-cleanup:'' @ er_resourceId resource in
        bindA (case ro_guardian outcome of None \<Rightarrow> ret () | Some g \<Rightarrow> registerProcessCleanup env manifest operationId g) (\<lambda>_.
        bindA (liftE (ro_result outcome)) (\<lambda>result.
        bindA (recordProcessCleanup env manifest operationId result) (\<lambda>_.
        bindA (liftE (ro_stderr outcome)) (\<lambda>stderr.
        if px_outputLimit result \<noteq> None \<or> pt_status (px_termination result) \<noteq> EProven \<or>
           (px_exitCode result \<noteq> Some 0 \<and> \<not> no_such_container stderr)
        then bindA (appendCleanupEvidence env manifest (resource_subject (er_resourceId resource))
               (if pt_status (px_termination result) = EProven then EFailed else EUnknown) CM_External_Resource_Command
               (Some (''External resource cleanup exited '' @ show_exit (px_exitCode result))) (Some (px_termination result)))
             (\<lambda>_. ret (manifest, False))
        else bindA (releaseExternalResource env manifest (er_resourceId resource) result) (\<lambda>m. ret (m, True))))))))
       (\<lambda>e. bindA (appendCleanupEvidence env manifest (resource_subject (er_resourceId resource)) EFailed
               CM_External_Resource_Command (Some (errorMessage e)) None) (\<lambda>_. ret (manifest, False)))"

fun cleanup_resources ::
  "conductor_env \<Rightarrow> job_contract \<Rightarrow> external_resource list \<Rightarrow> attempt_manifest \<Rightarrow>
   (conductor_state, attempt_manifest \<times> bool) act" where
  "cleanup_resources env contract [] manifest = ret (manifest, True)"
| "cleanup_resources env contract (resource # rest) manifest =
     (if er_status resource \<noteq> Resource_Active then cleanup_resources env contract rest manifest
      else
        bindA (getAttemptCleanup (am_attemptId manifest)) (\<lambda>existing.
        if evidence_proven existing (resource_subject (er_resourceId resource))
        then cleanup_resources env contract rest manifest
        else
          bindA (registerCleanupRequirement env manifest (resource_subject (er_resourceId resource)) None) (\<lambda>_.
          bindA (release_one env contract manifest resource) (\<lambda>(m, safe).
          if safe then cleanup_resources env contract rest m else ret (m, False)))))"

definition cleanupExternalResources ::
  "conductor_env \<Rightarrow> attempt_manifest \<Rightarrow> (conductor_state, attempt_manifest \<times> bool) act" where
  "cleanupExternalResources env initialManifest =
     bindA (readJobA env (am_jobId initialManifest)) (\<lambda>contract.
     cleanup_resources env contract (am_externalResources initialManifest) initialManifest)"

definition releaseAttemptExternalResources :: "conductor_env \<Rightarrow> string \<Rightarrow> (conductor_state, attempt_manifest) act" where
  "releaseAttemptExternalResources env attemptId =
     bindA (getAttempt attemptId) (\<lambda>manifest.
     bindA (guardA (isAttemptTerminal (am_status manifest))
       (Error (''Attempt '' @ attemptId @ '' is still '' @ attempt_status_name (am_status manifest)
         @ ''; its external resources may still be in use''))) (\<lambda>_.
     bindA (cleanupExternalResources env manifest) (\<lambda>(m, safe).
     bindA (guardA safe (Error (''Attempt '' @ attemptId
         @ '' still owns an external resource; retry or workspace removal is prohibited''))) (\<lambda>_.
     bindA (getAttemptCleanup attemptId) (\<lambda>evidence.
     bindA (guardA (cr_status evidence \<in> {C_NotRequired, C_Proven})
       (Error (''Attempt '' @ attemptId @ '' cleanup is '' @ cleanup_status_name (cr_status evidence)
         @ ''; retry or workspace removal is prohibited''))) (\<lambda>_.
     ret m))))))"

definition unresolved_subjects :: "attempt_cleanup_record \<Rightarrow> cleanup_requirement list" where
  "unresolved_subjects c = filter (\<lambda>r. su_kind (rq_subject r) \<noteq> Workspace_Subject \<and> \<not> evidence_proven c (rq_subject r))
     (cr_requirements c)"

definition assertWorkspaceRemovalSafe :: "attempt_manifest \<Rightarrow> (conductor_state, unit) act" where
  "assertWorkspaceRemovalSafe manifest =
     bindA (getAttemptCleanup (am_attemptId manifest)) (\<lambda>c.
     guardA (unresolved_subjects c = [])
       (Error (''Attempt '' @ am_attemptId manifest @ '' has unresolved cleanup for ''
         @ join '', '' (map (\<lambda>r. subject_kind_name (su_kind (rq_subject r)) @ '':'' @ su_id (rq_subject r)) (unresolved_subjects c))
         @ ''; workspace removal is prohibited'')))"

definition workspaces_remove :: "conductor_env \<Rightarrow> string \<Rightarrow> (conductor_state, unit) act" where
  "workspaces_remove env p s = (cv_removeWorkspace env p, s\<lparr>cd_removals := p # cd_removals s\<rparr>)"

definition remove_worktree ::
  "conductor_env \<Rightarrow> string \<Rightarrow> attempt_manifest \<Rightarrow> string \<Rightarrow> (conductor_state, attempt_manifest \<times> attempt_cleanup_record) act" where
  "remove_worktree env attemptId manifest p =
     bindA (getAttemptCleanup attemptId) (\<lambda>priorCleanup.
     if evidence_proven priorCleanup worktree_subject then ret (manifest, priorCleanup)
     else
       bindA (registerCleanupRequirement env manifest worktree_subject None) (\<lambda>_.
       bindA (readJobA env (am_jobId manifest)) (\<lambda>contract.
       catchA
         (bindA (workspaces_remove env p) (\<lambda>_.
          bindA (appendCleanupEvidence env manifest worktree_subject EProven CM_Workspace_Remove
            (Some ''Recorded attempt worktree removed by owner request'') None) (\<lambda>c. ret (manifest, c))))
         (\<lambda>e. bindA (appendCleanupEvidence env manifest worktree_subject EFailed CM_Workspace_Remove
            (Some (errorMessage e)) None) (\<lambda>_. raise e)))))"

definition removeAttemptWorkspace ::
  "conductor_env \<Rightarrow> string \<Rightarrow> (conductor_state, attempt_manifest \<times> attempt_cleanup_record) act" where
  "removeAttemptWorkspace env attemptId =
     bindA (getAttempt attemptId) (\<lambda>manifest0.
     bindA (guardA (am_status manifest0 \<notin> {AReserved, AClaimed, APreparing, ARunning, AVerifying})
       (Error (''Cannot remove workspace for active attempt '' @ attemptId))) (\<lambda>_.
     bindA (cleanupExternalResources env manifest0) (\<lambda>(manifest, safe).
     bindA (guardA safe (Error (''Attempt '' @ attemptId @ '' still owns an external resource; workspace removal is prohibited''))) (\<lambda>_.
     case am_workspace manifest of
       None \<Rightarrow> bindA (getAttemptCleanup attemptId) (\<lambda>c. ret (manifest, c))
     | Some w \<Rightarrow>
         if \<not> ws_retained w then bindA (getAttemptCleanup attemptId) (\<lambda>c. ret (manifest, c))
         else
           bindA (assertWorkspaceRemovalSafe manifest) (\<lambda>_.
           remove_worktree env attemptId manifest (ws_path w))))))"

subsection \<open>Recovering an interrupted attempt\<close>

datatype disposition = D_Terminal | D_Safe_To_Retry | D_Still_Running | D_Unknown

definition process_requirements :: "attempt_cleanup_record \<Rightarrow> cleanup_requirement list" where
  "process_requirements c = filter (\<lambda>r. su_kind (rq_subject r) = Process_Tree) (cr_requirements c)"

definition unproven_processes :: "attempt_cleanup_record \<Rightarrow> cleanup_requirement list" where
  "unproven_processes c = filter (\<lambda>r. \<not> evidence_proven c (rq_subject r)) (process_requirements c)"

definition guardian_alive :: "(nat \<Rightarrow> bool) \<Rightarrow> cleanup_requirement \<Rightarrow> bool" where
  "guardian_alive alive r = (case rq_guardian r of None \<Rightarrow> False | Some g \<Rightarrow> alive (guardianPid g))"

text \<open>
  Only a kernel-enforced Windows job that kills its members when its owner closes, with that owner
  gone, proves that no descendant survived.
\<close>

definition kernelClosure :: "(nat \<Rightarrow> bool) \<Rightarrow> process_guardian option \<Rightarrow> bool" where
  "kernelClosure alive guardian =
     (case guardian of
        Some (GuardianV2 b c) \<Rightarrow> ct_kind c = Windows_Job \<and> ct_kernelEnforced c \<and> ct_killOnOwnerClose c \<and>
          \<not> alive (gb_guardianPid b)
      | _ \<Rightarrow> False)"

definition append_closure_evidence ::
  "conductor_env \<Rightarrow> attempt_manifest \<Rightarrow> cleanup_requirement \<Rightarrow> (conductor_state, unit) act" where
  "append_closure_evidence env manifest requirement =
     (let closed = kernelClosure (cv_aliveAfterGrace env) (rq_guardian requirement) in
      bindA (appendCleanupEvidence env manifest (rq_subject requirement)
        (if closed then EProven else EUnknown)
        (if closed then CM_Windows_Job_Owner_Exit else CM_Legacy_Unverified)
        (Some (if closed
           then ''Verified Windows Job owner is absent; kill-on-close enforces descendant termination''
           else ''Guardian disappearance does not prove descendant absence on this containment record''))
        (Some \<lparr>pt_status = (if closed then EProven else EUnknown),
               pt_termMethod = (if closed then Windows_Job_Owner_Exit else Guardian_Exit_Unverified),
               pt_observedAt = cv_now env, pt_detail = None\<rparr>))
        (\<lambda>_. ret ()))"

text \<open>The part after every recorded process tree is proven gone: containers, status, work tree.\<close>

definition finish_recovery ::
  "conductor_env \<Rightarrow> string \<Rightarrow> attempt_manifest \<Rightarrow> (conductor_state, disposition \<times> attempt_manifest) act" where
  "finish_recovery env attemptId manifest0 =
     bindA (cleanupExternalResources env manifest0) (\<lambda>(manifest1, safe).
     if \<not> safe then ret (D_Unknown, manifest1)
     else
       bindA (update_attempt env manifest1 (\<lambda>m. m\<lparr>am_status := AFailed, am_finishedAt := Some (cv_now env),
         am_verificationStatus := V_Ineligible,
         am_failure := Some \<lparr>fl_kind = FK_Orphaned,
           fl_message = ''Recorded process guardian is no longer alive; its ownership pipe closed before retry''\<rparr>\<rparr>)) (\<lambda>manifest.
       bindA (readJobA env (am_jobId manifest)) (\<lambda>contract.
       bindA (if am_workspace manifest \<noteq> None \<and> \<not> ex_retainWorkspace (jc_execution contract)
              then catchA (bindA (removeAttemptWorkspace env (am_attemptId manifest)) (\<lambda>_. ret True)) (\<lambda>_. ret False)
              else ret True) (\<lambda>removed.
       if \<not> removed then ret (D_Unknown, manifest)
       else
         bindA (getAttemptCleanup attemptId) (\<lambda>cleanup.
         if cr_status cleanup \<notin> {C_NotRequired, C_Proven} then ret (D_Unknown, manifest)
         else ret (D_Safe_To_Retry, manifest))))))"

definition recover_processes ::
  "conductor_env \<Rightarrow> string \<Rightarrow> attempt_manifest \<Rightarrow> attempt_cleanup_record \<Rightarrow>
   (conductor_state, disposition \<times> attempt_manifest) act" where
  "recover_processes env attemptId manifest0 cleanup =
     (if process_requirements cleanup = [] then ret (D_Unknown, manifest0)
      else
        let unresolved = unproven_processes cleanup;
            waits = list_ex (guardian_alive (cv_alive env)) unresolved in
        bindA (if waits then getAttempt attemptId else ret manifest0) (\<lambda>manifest.
        if waits \<and> list_ex (guardian_alive (cv_aliveAfterGrace env)) unresolved then ret (D_Still_Running, manifest)
        else
          bindA (forA (append_closure_evidence env manifest) unresolved) (\<lambda>_.
          bindA (getAttemptCleanup attemptId) (\<lambda>cleanup'.
          if unproven_processes cleanup' \<noteq> [] then ret (D_Unknown, manifest)
          else finish_recovery env attemptId manifest))))"

definition recover_launched ::
  "conductor_env \<Rightarrow> string \<Rightarrow> attempt_manifest \<Rightarrow> (conductor_state, disposition \<times> attempt_manifest) act" where
  "recover_launched env attemptId manifest =
     bindA (catchA (bindA (getAttemptCleanup attemptId) (\<lambda>c. ret (Some c))) (\<lambda>_. ret None)) (\<lambda>readable.
     case readable of
       None \<Rightarrow> ret (D_Unknown, manifest)
     | Some cleanup0 \<Rightarrow>
         bindA (case am_guardian manifest of
             None \<Rightarrow> ret cleanup0
           | Some g \<Rightarrow>
               if process_requirements cleanup0 = []
               then bindA (registerProcessCleanup env manifest ''legacy-interrupted-process'' g) (\<lambda>_. getAttemptCleanup attemptId)
               else ret cleanup0) (\<lambda>cleanup.
         recover_processes env attemptId manifest cleanup))"

definition recoverInterruptedAttempt ::
  "conductor_env \<Rightarrow> string \<Rightarrow> (conductor_state, disposition \<times> attempt_manifest) act" where
  "recoverInterruptedAttempt env attemptId =
     bindA (getAttempt attemptId) (\<lambda>manifest.
     if isAttemptTerminal (am_status manifest) then ret (D_Terminal, manifest)
     else if am_status manifest \<in> {AReserved, AClaimed} then
       bindA (update_attempt env manifest (\<lambda>m. m\<lparr>am_status := ACancelled, am_finishedAt := Some (cv_now env),
         am_verificationStatus := V_Ineligible,
         am_failure := Some \<lparr>fl_kind = FK_Orphaned,
           fl_message = (if am_status manifest = AClaimed then ''Claimed'' else ''Reserved'')
             @ '' attempt lost dispatcher ownership before execution''\<rparr>\<rparr>)) (\<lambda>cancelled.
       ret (D_Safe_To_Retry, cancelled))
     else recover_launched env attemptId manifest)"

subsection \<open>Failures, deadlines, process cleanup\<close>

definition classifyFailure :: "err \<Rightarrow> attempt_status \<Rightarrow> bool \<Rightarrow> attempt_failure" where
  "classifyFailure e status cancelled =
     (case e of
        ResourceLimitError m \<Rightarrow> \<lparr>fl_kind = FK_Resource_Limit, fl_message = errorMessage e\<rparr>
      | _ \<Rightarrow>
          if cancelled then \<lparr>fl_kind = FK_Cancelled, fl_message = ''Attempt cancelled by Conductor''\<rparr>
          else if status = APreparing then \<lparr>fl_kind = FK_Workspace_Failed, fl_message = errorMessage e\<rparr>
          else if status = ARunning then \<lparr>fl_kind = FK_Spawn_Failed, fl_message = errorMessage e\<rparr>
          else \<lparr>fl_kind = FK_Orchestrator_Error, fl_message = errorMessage e\<rparr>)"

definition remainingTimeout :: "int \<Rightarrow> int \<Rightarrow> err + int" where
  "remainingTimeout deadlineAt now =
     (if deadlineAt - now \<le> 0 then Inl (Error ''Total attempt deadline expired'') else Inr (deadlineAt - now))"

definition assertProcessCleanupProven :: "string \<Rightarrow> process_result \<Rightarrow> err + unit" where
  "assertProcessCleanupProven operationId result =
     (if pt_status (px_termination result) \<noteq> EProven
      then Inl (Error (''Process cleanup for '' @ operationId @ '' is ''
        @ evidence_status_name (pt_status (px_termination result)) @ ''; continuing could race a surviving descendant''))
      else Inr ())"

end
