(* ===== verification/Lease.thy ===== *)
theory Lease
  imports Queue_Store
begin

text \<open>
  The dispatcher lease (\<open>src/src/queue/queue-store.ts\<close>): one lock directory with the owner's
  \<open>lease.json\<close>, a generation counter, a recovery mutex, and the evidence directory where a lock
  that is taken away from its owner is preserved.

  Each operation is one atomic action on this state. What the process knows about its host is an
  argument (\<open>lease_env\<close>: host name, process id, which processes are alive, and the random
  identifiers the call draws); \<open>sha256\<close> and \<open>encode\<close> (the text \<open>JSON.stringify\<close> gives for a lease)
  are arguments of the evidence token. The recursions of \<open>acquireLease\<close> and
  \<open>acquireReconciliationMutex\<close> carry a bound, which is shown to be never reached.
\<close>

subsection \<open>State\<close>

record lease_file =
  lf_raw :: string
  lf_doc :: "dispatcher_lease doc"

record lock_dir =
  ld_birthtimeMs :: int
  ld_mtimeMs :: int
  ld_file :: "lease_file option"

record reconciliation_mutex =
  mx_instanceId :: string
  mx_hostname :: string
  mx_processId :: nat
  mx_acquiredAt :: timestamp

datatype lease_state =
    L_Absent | L_Initializing | L_ActiveLocal | L_ExpiredLiveLocal | L_ActiveRemote
  | L_RecoverableDeadLocal | L_Incomplete | L_Corrupt

fun lease_state_name :: "lease_state \<Rightarrow> string" where
  "lease_state_name L_Absent = ''absent''"
| "lease_state_name L_Initializing = ''initializing''"
| "lease_state_name L_ActiveLocal = ''active-local''"
| "lease_state_name L_ExpiredLiveLocal = ''expired-live-local''"
| "lease_state_name L_ActiveRemote = ''active-remote''"
| "lease_state_name L_RecoverableDeadLocal = ''recoverable-dead-local''"
| "lease_state_name L_Incomplete = ''incomplete''"
| "lease_state_name L_Corrupt = ''corrupt''"

record lease_action_proposal =
  lap_observedState :: lease_state
  lap_evidenceToken :: string
  lap_description :: string

datatype automatic_action = Act_Create | Act_Wait | Act_RecoverDeadOwner | Act_None

record lease_inspection =
  li_state :: lease_state
  li_observedAt :: timestamp
  li_ageMs :: "int option"
  li_evidenceToken :: "string option"
  li_lease :: "dispatcher_lease option"
  li_automaticAction :: automatic_action
  li_detail :: string
  li_ownerAction :: "lease_action_proposal option"

datatype lease_disposition = Recovered_Dead_Owner | Owner_Quarantined_Unreadable

record lease_evidence_record =
  lev_evidenceId :: string
  lev_disposition :: lease_disposition
  lev_recordedAt :: timestamp
  lev_originalState :: lease_state
  lev_evidenceToken :: string
  lev_ownerReason :: "string option"
  lev_ownerApprovedBy :: "string option"
  lev_ownerApprovedAt :: "timestamp option"
  lev_lease :: "dispatcher_lease option"

record lease_approval =
  lp_approvedBy :: string
  lp_approvedAt :: timestamp
  lp_reason :: string

record lease_store =
  ls_lock :: "lock_dir option"
  ls_generation :: "int option doc option"
  ls_mutex :: "reconciliation_mutex doc option"
  ls_evidence :: "(string \<times> (lock_dir \<times> lease_evidence_record)) list"
  ls_mutexEvidence :: "(string \<times> reconciliation_mutex) list"

record lease_env =
  le_hostname :: string
  le_pid :: nat
  le_alive :: "nat \<Rightarrow> bool"
  le_startedAt :: timestamp
  le_leaseId :: string
  le_mutexId :: string
  le_evidenceId :: string
  le_encode :: "dispatcher_lease \<Rightarrow> string"
  le_sha256 :: "string \<Rightarrow> string"

subsection \<open>Helpers\<close>

definition sameLease :: "dispatcher_lease \<Rightarrow> dispatcher_lease \<Rightarrow> bool" where
  "sameLease left right \<longleftrightarrow> dl_ownerId left = dl_ownerId right \<and>
     dl_instanceId left = dl_instanceId right \<and> dl_generation left = dl_generation right"

definition createLease :: "lease_env \<Rightarrow> string \<Rightarrow> nat \<Rightarrow> int \<Rightarrow> timestamp \<Rightarrow> err + dispatcher_lease" where
  "createLease env ownerId generation leaseMs now =
     (let l = \<lparr>dl_ownerId = ownerId, dl_instanceId = le_leaseId env, dl_generation = generation,
        dl_hostname = le_hostname env, dl_processId = le_pid env, dl_processStartedAt = le_startedAt env,
        dl_acquiredAt = now, dl_heartbeatAt = now, dl_expiresAt = now + leaseMs\<rparr>
      in if dispatcherLease_valid l then Inr l else Inl ZodError)"

definition leaseEvidenceToken :: "(string \<Rightarrow> string) \<Rightarrow> string option \<Rightarrow> int \<Rightarrow> int \<Rightarrow> string" where
  "leaseEvidenceToken sha256 raw birthtimeMs mtimeMs =
     sha256 (''{'' @ join '','' [
       json_quote ''raw'' @ '':'' @ (case raw of None \<Rightarrow> ''null'' | Some r \<Rightarrow> json_quote r),
       json_quote ''birthtimeMs'' @ '':'' @ show_int birthtimeMs,
       json_quote ''mtimeMs'' @ '':'' @ show_int mtimeMs] @ ''}'')"

definition createLeaseQuarantineAction :: "lease_state \<Rightarrow> string \<Rightarrow> string \<Rightarrow> lease_action_proposal" where
  "createLeaseQuarantineAction observedState evidenceToken description =
     \<lparr>lap_observedState = observedState, lap_evidenceToken = evidenceToken, lap_description = description\<rparr>"

definition readLease :: "lease_store \<Rightarrow> err + dispatcher_lease" where
  "readLease s = (case ls_lock s of
      None \<Rightarrow> Inl (NodeError ''ENOENT'')
    | Some d \<Rightarrow> (case ld_file d of None \<Rightarrow> Inl (NodeError ''ENOENT'') | Some f \<Rightarrow> parse_doc (lf_doc f)))"

text \<open>\<open>writeJsonAtomic(leasePath, lease)\<close>: creates the lock directory when it is missing.\<close>

definition write_lease :: "lease_env \<Rightarrow> timestamp \<Rightarrow> dispatcher_lease \<Rightarrow> lease_store \<Rightarrow> lease_store" where
  "write_lease env now l s =
     s\<lparr>ls_lock := Some (case ls_lock s of
         None \<Rightarrow> \<lparr>ld_birthtimeMs = now, ld_mtimeMs = now, ld_file = Some \<lparr>lf_raw = le_encode env l, lf_doc = Parsed l\<rparr>\<rparr>
       | Some d \<Rightarrow> d\<lparr>ld_mtimeMs := now, ld_file := Some \<lparr>lf_raw = le_encode env l, lf_doc = Parsed l\<rparr>\<rparr>)\<rparr>"

definition safe_integer_limit :: int where
  "safe_integer_limit = 2 ^ 53"

definition nextLeaseGeneration :: "(lease_store, nat) act" where
  "nextLeaseGeneration s =
     (let generation = (case ls_generation s of
           None \<Rightarrow> Inr 0
         | Some Unparsable \<Rightarrow> Inl ZodError
         | Some (Parsed None) \<Rightarrow> Inl (Error ''Invalid lease generation record'')
         | Some (Parsed (Some g)) \<Rightarrow>
             if \<not> (- safe_integer_limit < g \<and> g < safe_integer_limit) \<or> g < 1
             then Inl (Error ''Invalid lease generation record'') else Inr g)
      in case generation of
           Inl e \<Rightarrow> (Inl e, s)
         | Inr g \<Rightarrow> (Inr (nat (g + 1)), s\<lparr>ls_generation := Some (Parsed (Some (g + 1)))\<rparr>))"

subsection \<open>Inspection\<close>

definition lease_age :: "timestamp \<Rightarrow> lock_dir \<Rightarrow> int" where
  "lease_age now d = max 0 (now - ld_mtimeMs d)"

definition inspectLease :: "lease_env \<Rightarrow> int \<Rightarrow> timestamp \<Rightarrow> lease_store \<Rightarrow> lease_inspection" where
  "inspectLease env leaseMs now s =
     (case ls_lock s of
        None \<Rightarrow> \<lparr>li_state = L_Absent, li_observedAt = now, li_ageMs = None, li_evidenceToken = None, li_lease = None,
                 li_automaticAction = Act_Create, li_detail = ''No dispatcher lease directory exists'', li_ownerAction = None\<rparr>
      | Some d \<Rightarrow>
          let age = lease_age now d in
          (case ld_file d of
             None \<Rightarrow>
               let token = leaseEvidenceToken (le_sha256 env) None (ld_birthtimeMs d) (ld_mtimeMs d) in
               if age \<le> leaseMs
               then \<lparr>li_state = L_Initializing, li_observedAt = now, li_ageMs = Some age, li_evidenceToken = Some token,
                     li_lease = None, li_automaticAction = Act_Wait,
                     li_detail = ''Lease directory is still within its initialization grace period'', li_ownerAction = None\<rparr>
               else \<lparr>li_state = L_Incomplete, li_observedAt = now, li_ageMs = Some age, li_evidenceToken = Some token,
                     li_lease = None, li_automaticAction = Act_None,
                     li_detail = ''Lease directory outlived its grace period without lease.json'',
                     li_ownerAction = Some (createLeaseQuarantineAction L_Incomplete token
                       ''Quarantine the incomplete dispatcher lease after the owner verifies that no active dispatcher is initializing it'')\<rparr>
           | Some f \<Rightarrow>
               let token = leaseEvidenceToken (le_sha256 env) (Some (lf_raw f)) (ld_birthtimeMs d) (ld_mtimeMs d);
                   view = (\<lambda>st lease act detail owner.
                     \<lparr>li_state = st, li_observedAt = now, li_ageMs = Some age, li_evidenceToken = Some token,
                      li_lease = lease, li_automaticAction = act, li_detail = detail, li_ownerAction = owner\<rparr>) in
               (case lf_doc f of
                  Unparsable \<Rightarrow>
                    view L_Corrupt None Act_None
                      (''lease.json is not a valid dispatcher lease: '' @ errorMessage ZodError)
                      (if age > leaseMs
                       then Some (createLeaseQuarantineAction L_Corrupt token
                         ''Quarantine the unreadable dispatcher lease after the owner verifies that it does not represent an active dispatcher'')
                       else None)
                | Parsed lease \<Rightarrow>
                    if dl_hostname lease \<noteq> le_hostname env
                    then view L_ActiveRemote (Some lease) Act_Wait
                      ''Lease belongs to another host; local PID evidence cannot authorize recovery'' None
                    else if le_alive env (dl_processId lease)
                    then if dl_expiresAt lease \<le> now
                      then view L_ExpiredLiveLocal (Some lease) Act_Wait
                        ''Lease heartbeat expired but its same-host owner process is alive; suspend-safe recovery refuses to steal it'' None
                      else view L_ActiveLocal (Some lease) Act_Wait ''Lease has a live same-host owner'' None
                    else view L_RecoverableDeadLocal (Some lease) Act_RecoverDeadOwner
                      ''Lease owner process is absent on this host; expiry time cannot override direct absence evidence'' None)))"

subsection \<open>The recovery mutex\<close>

definition readReconciliationMutex :: "lease_store \<Rightarrow> err + reconciliation_mutex" where
  "readReconciliationMutex s = (case ls_mutex s of
      None \<Rightarrow> Inl (ReconciliationConflictError ''Reconciliation ownership changed before it could be read'' True)
    | Some (Parsed m) \<Rightarrow> Inr m
    | Some Unparsable \<Rightarrow> Inl (ReconciliationConflictError
        (''Reconciliation ownership evidence is unreadable and requires owner review: '' @ errorMessage ZodError) False))"

definition preserveDeadReconciliationMutex :: "reconciliation_mutex \<Rightarrow> (lease_store, unit) act" where
  "preserveDeadReconciliationMutex m s =
     (if ls_mutex s = None
      then (Inl (ReconciliationConflictError ''Reconciliation ownership changed while recovering its dead owner'' True), s)
      else if mx_instanceId m \<in> fst ` set (ls_mutexEvidence s) then (Inl (NodeError ''ENOTEMPTY''), s)
      else (Inr (), s\<lparr>ls_mutex := None, ls_mutexEvidence := (mx_instanceId m, m) # ls_mutexEvidence s\<rparr>))"

fun acquireReconciliationMutex :: "nat \<Rightarrow> lease_env \<Rightarrow> timestamp \<Rightarrow> (lease_store, reconciliation_mutex) act" where
  "acquireReconciliationMutex 0 env now s = (Inl (Error ''recursion bound''), s)"
| "acquireReconciliationMutex (Suc n) env now s =
     (let mutex = \<lparr>mx_instanceId = le_mutexId env, mx_hostname = le_hostname env, mx_processId = le_pid env, mx_acquiredAt = now\<rparr>
      in if le_hostname env = [] \<or> le_pid env = 0 then (Inl ZodError, s)
         else if ls_mutex s = None then (Inr mutex, s\<lparr>ls_mutex := Some (Parsed mutex)\<rparr>)
         else case readReconciliationMutex s of
           Inl e \<Rightarrow> (Inl e, s)
         | Inr existing \<Rightarrow>
             if mx_hostname existing = le_hostname env \<and> \<not> le_alive env (mx_processId existing)
             then bindA (preserveDeadReconciliationMutex existing) (\<lambda>_. acquireReconciliationMutex n env now) s
             else (Inl (ReconciliationConflictError
                 (if mx_hostname existing = le_hostname env
                  then ''Another live lease reconciliation operation is in progress''
                  else ''A lease reconciliation operation belongs to another host and requires owner review'')
                 (mx_hostname existing = le_hostname env)), s))"

definition releaseReconciliationMutex :: "reconciliation_mutex \<Rightarrow> (lease_store, unit) act" where
  "releaseReconciliationMutex mutex s =
     (case readReconciliationMutex s of
        Inl e \<Rightarrow> (case e of ReconciliationConflictError msg retryable \<Rightarrow> if retryable then (Inr (), s) else (Inl e, s)
                  | _ \<Rightarrow> (Inl e, s))
      | Inr current \<Rightarrow>
          if mx_instanceId current \<noteq> mx_instanceId mutex then (Inr (), s)
          else (Inr (), s\<lparr>ls_mutex := None\<rparr>))"

definition withLeaseRecoveryLock :: "lease_env \<Rightarrow> timestamp \<Rightarrow> (lease_store, 'a) act \<Rightarrow> (lease_store, 'a) act" where
  "withLeaseRecoveryLock env now operation =
     bindA (acquireReconciliationMutex 2 env now)
       (\<lambda>mutex. finallyA operation (releaseReconciliationMutex mutex))"

subsection \<open>Taking and giving back the lease\<close>

definition preserveLeaseDirectory ::
  "lease_env \<Rightarrow> lease_inspection \<Rightarrow> lease_disposition \<Rightarrow> timestamp \<Rightarrow> lease_approval option \<Rightarrow>
   (lease_store, lease_evidence_record) act" where
  "preserveLeaseDirectory env inspection disposition recordedAt approval s =
     (case li_evidenceToken inspection of
        None \<Rightarrow> (Inl (ReconciliationConflictError ''Lease inspection lacks an evidence token'' False), s)
      | Some token \<Rightarrow>
          (case ls_lock s of
             None \<Rightarrow> (Inl (ReconciliationConflictError ''Dispatcher lease changed before it could be preserved'' False), s)
           | Some d \<Rightarrow>
               if token \<in> fst ` set (ls_evidence s) then (Inl (NodeError ''ENOTEMPTY''), s)
               else
                 let r = \<lparr>lev_evidenceId = le_evidenceId env, lev_disposition = disposition, lev_recordedAt = recordedAt,
                   lev_originalState = li_state inspection, lev_evidenceToken = token,
                   lev_ownerReason = map_option lp_reason approval,
                   lev_ownerApprovedBy = map_option lp_approvedBy approval,
                   lev_ownerApprovedAt = map_option lp_approvedAt approval, lev_lease = li_lease inspection\<rparr>
                 in (Inr r, s\<lparr>ls_lock := None, ls_evidence := (token, (d, r)) # ls_evidence s\<rparr>)))"

definition recover_dead :: "lease_env \<Rightarrow> lease_inspection \<Rightarrow> int \<Rightarrow> timestamp \<Rightarrow> (lease_store, bool) act" where
  "recover_dead env expected leaseMs now s =
     (let current = inspectLease env leaseMs now s in
      if li_state current \<noteq> L_RecoverableDeadLocal \<or> li_evidenceToken current \<noteq> li_evidenceToken expected
      then (Inr False, s)
      else bindA (preserveLeaseDirectory env current Recovered_Dead_Owner now None) (\<lambda>_. ret True) s)"

definition create_lease :: "lease_env \<Rightarrow> string \<Rightarrow> int \<Rightarrow> timestamp \<Rightarrow> (lease_store, dispatcher_lease) act" where
  "create_lease env ownerId leaseMs now =
     bindA nextLeaseGeneration
       (\<lambda>generation. bindA (liftE (createLease env ownerId generation leaseMs now))
         (\<lambda>lease s. (Inr lease, write_lease env now lease s)))"

fun acquireLease ::
  "nat \<Rightarrow> lease_env \<Rightarrow> string \<Rightarrow> int \<Rightarrow> timestamp \<Rightarrow> (lease_store, dispatcher_lease option) act" where
  "acquireLease 0 env ownerId leaseMs now s = (Inl (Error ''recursion bound''), s)"
| "acquireLease (Suc n) env ownerId leaseMs now s =
     (if ls_lock s = None
      then
        catchA (bindA (create_lease env ownerId leaseMs now) (\<lambda>lease. ret (Some lease)))
          (\<lambda>e t. (Inl e, t\<lparr>ls_lock := None\<rparr>))
          (s\<lparr>ls_lock := Some \<lparr>ld_birthtimeMs = now, ld_mtimeMs = now, ld_file = None\<rparr>\<rparr>)
      else
        let inspection = inspectLease env leaseMs now s in
        if li_state inspection = L_RecoverableDeadLocal
        then (case withLeaseRecoveryLock env now (recover_dead env inspection leaseMs now) s of
            (Inl e, t) \<Rightarrow>
              (case e of ReconciliationConflictError msg retryable \<Rightarrow> if retryable then (Inr None, t) else (Inl e, t)
               | _ \<Rightarrow> (Inl e, t))
          | (Inr recovered, t) \<Rightarrow>
              if \<not> recovered then (Inr None, t) else acquireLease n env ownerId leaseMs now t)
        else if li_state inspection \<in> {L_Corrupt, L_Incomplete}
        then (Inl (LeaseReconciliationRequiredError (lease_state_name (li_state inspection)) (li_detail inspection)), s)
        else (Inr None, s))"

definition renewLease :: "lease_env \<Rightarrow> dispatcher_lease \<Rightarrow> int \<Rightarrow> timestamp \<Rightarrow> (lease_store, dispatcher_lease) act" where
  "renewLease env lease leaseMs now s =
     (case readLease s of
        Inl e \<Rightarrow> (Inl e, s)
      | Inr current \<Rightarrow>
          if \<not> sameLease current lease
          then (Inl (Error (''Dispatcher lease generation '' @ show_nat (dl_generation lease) @ '' is no longer current'')), s)
          else if dl_hostname current \<noteq> le_hostname env \<or> dl_processId current \<noteq> le_pid env
          then (Inl (Error ''Dispatcher lease cannot be renewed by another process''), s)
          else
            let renewed = current\<lparr>dl_heartbeatAt := now, dl_expiresAt := now + leaseMs\<rparr>
            in if \<not> dispatcherLease_valid renewed then (Inl ZodError, s)
               else (Inr renewed, write_lease env now renewed s))"

definition releaseLease :: "dispatcher_lease \<Rightarrow> (lease_store, unit) act" where
  "releaseLease lease s =
     (case readLease s of
        Inl _ \<Rightarrow> (Inr (), s)
      | Inr current \<Rightarrow> if \<not> sameLease current lease then (Inr (), s) else (Inr (), s\<lparr>ls_lock := None\<rparr>))"

definition quarantineUnreadableLease ::
  "lease_env \<Rightarrow> lease_action_proposal \<Rightarrow> lease_approval \<Rightarrow> int \<Rightarrow> timestamp \<Rightarrow> (lease_store, lease_evidence_record) act" where
  "quarantineUnreadableLease env proposal approval leaseMs now =
     withLeaseRecoveryLock env now (\<lambda>s.
       let current = inspectLease env leaseMs now s in
       if li_state current \<noteq> lap_observedState proposal \<or>
          li_evidenceToken current \<noteq> Some (lap_evidenceToken proposal) \<or> li_ownerAction current = None
       then (Inl (ReconciliationConflictError
              ''Dispatcher lease evidence changed or is not old enough for the requested quarantine'' False), s)
       else preserveLeaseDirectory env current Owner_Quarantined_Unreadable now (Some approval) s)"

subsection \<open>What inspection tells\<close>

lemma inspect_recoverable_iff:
  "li_state (inspectLease env leaseMs now s) = L_RecoverableDeadLocal \<longleftrightarrow>
     (\<exists>l. readLease s = Inr l \<and> dl_hostname l = le_hostname env \<and> \<not> le_alive env (dl_processId l))"
  by (auto simp: inspectLease_def readLease_def Let_def split: option.splits doc.splits if_splits)

lemma inspect_owner_action:
  "li_ownerAction (inspectLease env leaseMs now s) \<noteq> None \<Longrightarrow> \<nexists>l. readLease s = Inr l"
  by (auto simp: inspectLease_def readLease_def Let_def split: option.splits doc.splits if_splits)

lemma inspect_unreadable:
  "li_state (inspectLease env leaseMs now s) \<in> {L_Corrupt, L_Incomplete} \<Longrightarrow> \<nexists>l. readLease s = Inr l"
  by (auto simp: inspectLease_def readLease_def Let_def split: option.splits doc.splits if_splits)

lemma inspect_frame:
  "ls_lock t = ls_lock s \<Longrightarrow> inspectLease env leaseMs now t = inspectLease env leaseMs now s"
  by (simp add: inspectLease_def)

lemma inspect_lease:
  "readLease s = Inr l \<Longrightarrow> li_lease (inspectLease env leaseMs now s) = Some l \<and>
     li_evidenceToken (inspectLease env leaseMs now s) \<noteq> None"
  by (auto simp: inspectLease_def readLease_def Let_def split: option.splits doc.splits if_splits)

lemma readLease_frame: "ls_lock t = ls_lock s \<Longrightarrow> readLease t = readLease s"
  by (simp add: readLease_def)

subsection \<open>Frames\<close>

text \<open>The mutex operations touch neither the lock nor the generation nor the lease evidence.\<close>

definition mutex_frame :: "lease_store \<Rightarrow> lease_store \<Rightarrow> bool" where
  "mutex_frame s t \<longleftrightarrow> ls_lock t = ls_lock s \<and> ls_generation t = ls_generation s \<and> ls_evidence t = ls_evidence s"

lemma mutex_frame_refl [simp]: "mutex_frame s s"
  and mutex_frame_upd [simp]: "mutex_frame s (s\<lparr>ls_mutex := m\<rparr>)" "mutex_frame s (s\<lparr>ls_mutex := m, ls_mutexEvidence := ev\<rparr>)"
  by (simp_all add: mutex_frame_def)

lemma mutex_frame_trans: "mutex_frame s t \<Longrightarrow> mutex_frame t u \<Longrightarrow> mutex_frame s u"
  by (simp add: mutex_frame_def)

lemma preserveDead_frame: "preserveDeadReconciliationMutex m s = (r, t) \<Longrightarrow> mutex_frame s t"
  by (auto simp: preserveDeadReconciliationMutex_def split: if_splits)

lemma acquireMutex_frame: "acquireReconciliationMutex n env now s = (r, t) \<Longrightarrow> mutex_frame s t"
proof (induction n arbitrary: s)
  case (Suc n)
  show ?case
  proof (cases "\<exists>m r1 s1. preserveDeadReconciliationMutex m s = (Inr r1, s1) \<and>
      acquireReconciliationMutex n env now s1 = (r, t)")
    case True
    then show ?thesis using Suc.IH preserveDead_frame mutex_frame_trans by blast
  next
    case False
    then show ?thesis using Suc.prems preserveDead_frame
      by (auto simp: Let_def bindA_def split: if_splits sum.splits prod.splits)
  qed
qed simp

lemma releaseMutex_frame: "releaseReconciliationMutex m s = (r, t) \<Longrightarrow> mutex_frame s t"
  by (auto simp: releaseReconciliationMutex_def split: if_splits sum.splits err.splits)

lemma withLeaseRecoveryLock_cases:
  assumes "withLeaseRecoveryLock env now operation s = (r, t)"
  obtains (blocked) e where "r = Inl e" "mutex_frame s t"
  | (ran) s1 r1 s2 where "mutex_frame s s1" "operation s1 = (r1, s2)" "mutex_frame s2 t" "r = r1 \<or> (\<exists>e. r = Inl e)"
proof -
  obtain rm s1 where m: "acquireReconciliationMutex 2 env now s = (rm, s1)" by fastforce
  show ?thesis
  proof (cases rm)
    case (Inl e)
    show ?thesis
      by (rule blocked) (use assms m Inl acquireMutex_frame [OF m] in \<open>auto simp: withLeaseRecoveryLock_def bindA_def\<close>)
  next
    case (Inr mutex)
    obtain r1 s2 where o: "operation s1 = (r1, s2)" by fastforce
    obtain rr s3 where rel: "releaseReconciliationMutex mutex s2 = (rr, s3)" by fastforce
    show ?thesis
      by (rule ran [OF acquireMutex_frame [OF m] o])
        (use assms m Inr o rel releaseMutex_frame [OF rel] in
          \<open>auto simp: withLeaseRecoveryLock_def bindA_def finallyA_def split: sum.splits\<close>)
  qed
qed

lemma recover_dead_cases:
  assumes "recover_dead env expected leaseMs now s = (r, t)"
  obtains (kept) "t = s" "r \<noteq> Inr True"
  | (preserved) l where "readLease s = Inr l" "dl_hostname l = le_hostname env" "\<not> le_alive env (dl_processId l)"
      "ls_lock t = None" "ls_generation t = ls_generation s" "r = Inr True"
proof (cases "r = Inr True")
  case True
  then have "li_state (inspectLease env leaseMs now s) = L_RecoverableDeadLocal"
    using assms by (auto simp: recover_dead_def Let_def split: if_splits)
  then obtain l where l: "readLease s = Inr l" "dl_hostname l = le_hostname env" "\<not> le_alive env (dl_processId l)"
    by (auto simp: inspect_recoverable_iff)
  show ?thesis
    by (rule preserved [OF l])
      (use assms True in \<open>auto simp: recover_dead_def Let_def bindA_def preserveLeaseDirectory_def
         split: if_splits option.splits\<close>)
next
  case False
  show ?thesis
    by (rule kept)
      (use assms False in \<open>auto simp: recover_dead_def Let_def bindA_def preserveLeaseDirectory_def
         split: if_splits option.splits\<close>)
qed

subsection \<open>Generations\<close>

definition issued :: "lease_store \<Rightarrow> int" where
  "issued s = (case ls_generation s of Some (Parsed (Some g)) \<Rightarrow> max 0 g | _ \<Rightarrow> 0)"

lemma issued_frame: "ls_generation t = ls_generation s \<Longrightarrow> issued t = issued s"
  by (simp add: issued_def)

lemma nextLeaseGeneration_cases:
  assumes "nextLeaseGeneration s = (r, t)"
  obtains (invalid) e where "r = Inl e" "t = s"
  | (counted) g where "r = Inr g" "int g = issued s + 1" "issued t = int g" "ls_lock t = ls_lock s"
      "ls_evidence t = ls_evidence s" "ls_mutex t = ls_mutex s"
proof (cases r)
  case (Inl e)
  then show ?thesis using assms invalid
    by (auto simp: nextLeaseGeneration_def Let_def split: option.splits doc.splits if_splits)
next
  case (Inr g)
  show ?thesis
    by (rule counted [OF Inr])
      (use assms Inr in \<open>auto simp: nextLeaseGeneration_def Let_def issued_def split: option.splits doc.splits if_splits\<close>)
qed

lemma readLease_write [simp]: "readLease (write_lease env now l s) = Inr l"
  by (simp add: readLease_def write_lease_def split: option.split)

lemma write_lease_frame [simp]: "issued (write_lease env now l s) = issued s"
    "ls_evidence (write_lease env now l s) = ls_evidence s" "ls_mutex (write_lease env now l s) = ls_mutex s"
    "ls_generation (write_lease env now l s) = ls_generation s"
  by (simp_all add: write_lease_def issued_def)

lemma createLease_Inr:
  assumes "createLease env ownerId g leaseMs now = Inr l"
  shows "dl_generation l = g" "dl_ownerId l = ownerId" "dl_instanceId l = le_leaseId env"
    "dl_hostname l = le_hostname env" "dl_processId l = le_pid env" "dispatcherLease_valid l"
  using assms by (auto simp: createLease_def Let_def split: if_splits)

lemma create_lease_cases:
  assumes "create_lease env ownerId leaseMs now s = (r, t)"
  obtains (failed) e where "r = Inl e" "issued s \<le> issued t"
  | (created) l where "r = Inr l" "readLease t = Inr l" "int (dl_generation l) = issued s + 1"
      "issued t = int (dl_generation l)" "dl_hostname l = le_hostname env" "dl_processId l = le_pid env"
      "dl_ownerId l = ownerId" "ls_evidence t = ls_evidence s" "ls_mutex t = ls_mutex s"
proof -
  obtain rg s1 where g: "nextLeaseGeneration s = (rg, s1)" by fastforce
  from g show ?thesis
  proof (cases rule: nextLeaseGeneration_cases)
    case (invalid e)
    show ?thesis by (rule failed) (use assms g invalid in \<open>auto simp: create_lease_def bindA_def\<close>)
  next
    case (counted n)
    show ?thesis
    proof (cases "createLease env ownerId n leaseMs now")
      case (Inl e)
      show ?thesis
        by (rule failed [of e]) (use assms g counted Inl in \<open>force simp: create_lease_def bindA_def\<close>)+
    next
      case (Inr l)
      have t: "r = Inr l" "t = write_lease env now l s1"
        using assms g counted Inr by (auto simp: create_lease_def bindA_def)
      show ?thesis
        by (rule created [OF t(1)])
          (use t counted createLease_Inr [OF Inr] in auto)
    qed
  qed
qed

text \<open>
  What an acquisition does: it takes the lease and a generation above every issued one, or leaves
  the lock as it was, or (having preserved a dead owner's lock and failed to create the next) leaves
  no lock. It touches a readable lease only when its owner is dead on this host.
\<close>

definition stealable :: "lease_env \<Rightarrow> lease_store \<Rightarrow> bool" where
  "stealable env s \<longleftrightarrow> (\<forall>l. readLease s = Inr l \<longrightarrow> dl_hostname l = le_hostname env \<and> \<not> le_alive env (dl_processId l))"

lemma acquire_new:
  assumes "ls_lock s = None" and "acquireLease (Suc n) env ownerId leaseMs now s = (r, t)"
  shows "issued s \<le> issued t" and "(\<exists>l. r = Inr (Some l) \<and> readLease t = Inr l \<and> issued t = int (dl_generation l) \<and>
      issued s < int (dl_generation l) \<and> dl_hostname l = le_hostname env \<and> dl_processId l = le_pid env \<and>
      dl_ownerId l = ownerId \<and> ls_evidence t = ls_evidence s) \<or>
    (\<exists>e. r = Inl e) \<and> ls_lock t = None"
proof -
  let ?s = "s\<lparr>ls_lock := Some \<lparr>ld_birthtimeMs = now, ld_mtimeMs = now, ld_file = None\<rparr>\<rparr>"
  obtain r1 t1 where c: "create_lease env ownerId leaseMs now ?s = (r1, t1)" by fastforce
  have i: "issued ?s = issued s" by (simp add: issued_def)
  from c have "issued s \<le> issued t \<and> ((\<exists>l. r = Inr (Some l) \<and> readLease t = Inr l \<and> issued t = int (dl_generation l) \<and>
      issued s < int (dl_generation l) \<and> dl_hostname l = le_hostname env \<and> dl_processId l = le_pid env \<and>
      dl_ownerId l = ownerId \<and> ls_evidence t = ls_evidence s) \<or>
    (\<exists>e. r = Inl e) \<and> ls_lock t = None)"
  proof (cases rule: create_lease_cases)
    case (failed e)
    then show ?thesis using assms c i by (auto simp: catchA_def bindA_def issued_def)
  next
    case (created l)
    then show ?thesis using assms c i by (auto simp: catchA_def bindA_def)
  qed
  then show "issued s \<le> issued t" and "(\<exists>l. r = Inr (Some l) \<and> readLease t = Inr l \<and> issued t = int (dl_generation l) \<and>
      issued s < int (dl_generation l) \<and> dl_hostname l = le_hostname env \<and> dl_processId l = le_pid env \<and>
      dl_ownerId l = ownerId \<and> ls_evidence t = ls_evidence s) \<or>
    (\<exists>e. r = Inl e) \<and> ls_lock t = None" by blast+
qed

lemma acquireLease_cases:
  assumes "acquireLease (Suc n) env ownerId leaseMs now s = (r, t)"
  obtains (waited) "ls_lock t = ls_lock s" "issued t = issued s" "\<forall>l. r \<noteq> Inr (Some l)"
  | (fresh) "ls_lock s = None"
  | (recovered) u where "\<exists>l. readLease s = Inr l" "stealable env s" "ls_lock u = None" "ls_generation u = ls_generation s"
      "acquireLease n env ownerId leaseMs now u = (r, t)"
  | (stuck) "\<exists>l. readLease s = Inr l" "stealable env s" "ls_lock t = None" "issued t = issued s" "\<exists>e. r = Inl e"
  | (gave_way) "\<exists>l. readLease s = Inr l" "stealable env s" "ls_lock t = None" "issued t = issued s" "r = Inr None"
proof (cases "ls_lock s = None")
  case False
  let ?i = "inspectLease env leaseMs now s"
  show ?thesis
  proof (cases "li_state ?i = L_RecoverableDeadLocal")
    case dead: True
    obtain rw u where w: "withLeaseRecoveryLock env now (recover_dead env ?i leaseMs now) s = (rw, u)" by fastforce
    have st: "stealable env s" and ex: "\<exists>l. readLease s = Inr l"
      using dead unfolding inspect_recoverable_iff stealable_def by auto
    have res: "rw = Inr True \<longrightarrow> acquireLease n env ownerId leaseMs now u = (r, t)"
        "rw \<noteq> Inr True \<longrightarrow> t = u \<and> (r = Inr None \<or> (\<exists>e. r = Inl e))"
      using assms False dead w by (auto simp: Let_def split: sum.splits if_splits err.splits)
    from w show ?thesis
    proof (cases rule: withLeaseRecoveryLock_cases)
      case (blocked e)
      then show ?thesis using res waited by (auto simp: mutex_frame_def issued_def)
    next
      case (ran s1 r1 s2)
      from ran(2) show ?thesis
      proof (cases rule: recover_dead_cases)
        case kept
        then have "rw \<noteq> Inr True" using ran(4) by auto
        then show ?thesis using res waited kept ran(1,3) by (auto simp: mutex_frame_def issued_def)
      next
        case (preserved l)
        have u: "ls_lock u = None" "ls_generation u = ls_generation s"
          using preserved ran(1,3) by (auto simp: mutex_frame_def)
        show ?thesis
        proof (cases "rw = Inr True")
          case True
          then show ?thesis using recovered [OF ex st u] res(1) by blast
        next
          case False
          then have "t = u" "r = Inr None \<or> (\<exists>e. r = Inl e)" using res(2) by auto
          then show ?thesis using stuck [OF ex st] gave_way [OF ex st] u issued_frame [OF u(2)] by auto
        qed
      qed
    qed
  next
    case alive: False
    then show ?thesis
      by (intro waited) (use assms False in \<open>auto simp: Let_def split: if_splits\<close>)
  qed
qed

text \<open>Two rounds are enough: after a recovery the lock is free, so the second call creates it.\<close>

lemma acquireLease_effect:
  assumes "acquireLease 2 env ownerId leaseMs now s = (r, t)"
  shows "issued s \<le> issued t"
    and "r = Inr (Some l) \<Longrightarrow> readLease t = Inr l \<and> issued t = int (dl_generation l) \<and> issued s < int (dl_generation l) \<and>
           dl_hostname l = le_hostname env \<and> dl_processId l = le_pid env \<and> stealable env s"
    and "\<not> stealable env s \<Longrightarrow> ls_lock t = ls_lock s \<and> (\<forall>l. r \<noteq> Inr (Some l))"
    and "(\<nexists>l. r = Inr (Some l)) \<Longrightarrow> ls_lock t = ls_lock s \<or> ls_lock t = None \<and> stealable env s"
proof -
  have a: "acquireLease (Suc (Suc 0)) env ownerId leaseMs now s = (r, t)"
    using assms by (simp add: numeral_2_eq_2)
  have none: "ls_lock s = None \<Longrightarrow> stealable env s" by (simp add: stealable_def readLease_def)
  have "issued s \<le> issued t \<and>
    (\<forall>l. r = Inr (Some l) \<longrightarrow> readLease t = Inr l \<and> issued t = int (dl_generation l) \<and> issued s < int (dl_generation l) \<and>
           dl_hostname l = le_hostname env \<and> dl_processId l = le_pid env \<and> stealable env s) \<and>
    (\<not> stealable env s \<longrightarrow> ls_lock t = ls_lock s \<and> (\<forall>l. r \<noteq> Inr (Some l))) \<and>
    ((\<nexists>l. r = Inr (Some l)) \<longrightarrow> ls_lock t = ls_lock s \<or> ls_lock t = None \<and> stealable env s)"
    using a
  proof (cases rule: acquireLease_cases)
    case fresh
    then show ?thesis using acquire_new [OF fresh a] none by auto
  next
    case (recovered u)
    then show ?thesis using acquire_new [OF recovered(3,5)] issued_frame [OF recovered(4)] by auto
  qed auto
  then show "issued s \<le> issued t"
    and "r = Inr (Some l) \<Longrightarrow> readLease t = Inr l \<and> issued t = int (dl_generation l) \<and> issued s < int (dl_generation l) \<and>
           dl_hostname l = le_hostname env \<and> dl_processId l = le_pid env \<and> stealable env s"
    and "\<not> stealable env s \<Longrightarrow> ls_lock t = ls_lock s \<and> (\<forall>l. r \<noteq> Inr (Some l))"
    and "(\<nexists>l. r = Inr (Some l)) \<Longrightarrow> ls_lock t = ls_lock s \<or> ls_lock t = None \<and> stealable env s"
    by blast+
qed

end
