(* ===== verification/Dispatcher.thy ===== *)
theory Dispatcher
  imports Conductor Lease
begin

text \<open>
  The durable dispatcher (\<open>src/src/queue/dispatcher.ts\<close>): it owns the queue through the dispatcher
  lease, moves queued items whose dependencies completed to reserved and launched attempts, projects
  outcomes back, and recovers what an earlier dispatcher left behind.

  State: the conductor, the queue, the lease directory, the lease held, and the set of jobs being
  executed by this process (\<open>active\<close>, in insertion order). \<open>withStateLock\<close> runs one handler at a
  time, so each handler is one action. An execution runs on its own between the handlers: its
  locked parts are \<open>executeItem_start\<close>, \<open>executeItem_finish\<close> and \<open>executeItem_error\<close>, and
  \<open>executeItem_done\<close> is the removal from \<open>active\<close> when its promise settles.
\<close>

subsection \<open>State and environment\<close>

datatype dispatch_point = After_Queue_Dispatching | After_Attempt_Reserved | After_Queue_Bound | After_Attempt_Claimed

fun dispatch_point_name :: "dispatch_point \<Rightarrow> string" where
  "dispatch_point_name After_Queue_Dispatching = ''after-queue-dispatching''"
| "dispatch_point_name After_Attempt_Reserved = ''after-attempt-reserved''"
| "dispatch_point_name After_Queue_Bound = ''after-queue-bound''"
| "dispatch_point_name After_Attempt_Claimed = ''after-attempt-claimed''"

record dispatcher_options =
  do_maxConcurrent :: int
  do_pollIntervalMs :: int
  do_leaseMs :: int
  do_ownerId :: string

record dispatcher_env =
  dv_cond :: conductor_env
  dv_lease :: lease_env
  dv_queueFp :: failpoint
  dv_failpoint :: "dispatch_point \<Rightarrow> string \<Rightarrow> err option"
  dv_options :: dispatcher_options
  dv_lc :: "string comparator"

record dispatcher_state =
  ds_cond :: conductor_state
  ds_queue :: queue_store
  ds_leases :: lease_store
  ds_lease :: "dispatcher_lease option"
  ds_active :: "string list"

definition on_cond :: "(conductor_state, 'a) act \<Rightarrow> (dispatcher_state, 'a) act" where
  "on_cond m s = (case m (ds_cond s) of (r, c) \<Rightarrow> (r, s\<lparr>ds_cond := c\<rparr>))"

definition on_queue :: "(queue_store, 'a) act \<Rightarrow> (dispatcher_state, 'a) act" where
  "on_queue m s = (case m (ds_queue s) of (r, q) \<Rightarrow> (r, s\<lparr>ds_queue := q\<rparr>))"

definition on_leases :: "(lease_store, 'a) act \<Rightarrow> (dispatcher_state, 'a) act" where
  "on_leases m s = (case m (ds_leases s) of (r, l) \<Rightarrow> (r, s\<lparr>ds_leases := l\<rparr>))"

definition dnow :: "dispatcher_env \<Rightarrow> timestamp" where
  "dnow env = cv_now (dv_cond env)"

definition queue_read :: "string \<Rightarrow> (dispatcher_state, queue_item) act" where
  "queue_read jobId = readsA (\<lambda>s. read_item (ds_queue s) jobId)"

definition queue_list :: "dispatcher_env \<Rightarrow> (dispatcher_state, queue_item list) act" where
  "queue_list env = readsA (\<lambda>s. list_items (dv_lc env) (ds_queue s))"

definition queue_update ::
  "dispatcher_env \<Rightarrow> queue_item \<Rightarrow> (queue_item \<Rightarrow> queue_item) \<Rightarrow> (dispatcher_state, queue_item) act" where
  "queue_update env item patch = on_queue (update_item (dv_queueFp env) (dnow env) item patch)"

subsection \<open>Options and small helpers\<close>

text \<open>The argument is an integer; \<open>Number.isSafeInteger\<close> is implied by the bounds.\<close>

definition boundedInteger :: "int \<Rightarrow> int \<Rightarrow> int \<Rightarrow> err + int" where
  "boundedInteger v minimum maximum =
     (if v < minimum \<or> maximum < v
      then Inl (Error (''Expected integer between '' @ show_int minimum @ '' and '' @ show_int maximum))
      else Inr v)"

definition defaulted :: "int \<Rightarrow> int option \<Rightarrow> int" where
  "defaulted d x = (case x of None \<Rightarrow> d | Some v \<Rightarrow> v)"

definition new_dispatcher ::
  "int option \<Rightarrow> int option \<Rightarrow> int option \<Rightarrow> string option \<Rightarrow> string \<Rightarrow> err + dispatcher_options" where
  "new_dispatcher maxConcurrent pollIntervalMs leaseMs ownerId uuid =
     (case boundedInteger (defaulted 1 maxConcurrent) 1 32 of
        Inl e \<Rightarrow> Inl e
      | Inr m \<Rightarrow>
     (case boundedInteger (defaulted 2000 pollIntervalMs) 25 60000 of
        Inl e \<Rightarrow> Inl e
      | Inr p \<Rightarrow>
     (case boundedInteger (defaulted 30000 leaseMs) 1000 300000 of
        Inl e \<Rightarrow> Inl e
      | Inr l \<Rightarrow>
          if l < p * 3 then Inl (Error ''Dispatcher lease must span at least three poll intervals'')
          else Inr \<lparr>do_maxConcurrent = m, do_pollIntervalMs = p, do_leaseMs = l,
                    do_ownerId = (case ownerId of None \<Rightarrow> ''dispatcher_'' @ uuid | Some i \<Rightarrow> i)\<rparr>)))"

definition isTerminal :: "queue_item \<Rightarrow> bool" where
  "isTerminal item = (qi_status item \<in> set [QCompleted, QFailed, QNeedsInput, QCancelled])"

definition dispatchKey :: "string \<Rightarrow> string \<Rightarrow> string" where
  "dispatchKey jobId dispatchOperationId = jobId @ [CHR 0x00] @ dispatchOperationId"

definition reachFailpoint :: "dispatcher_env \<Rightarrow> dispatch_point \<Rightarrow> string \<Rightarrow> (dispatcher_state, unit) act" where
  "reachFailpoint env point jobId =
     (case dv_failpoint env point jobId of
        None \<Rightarrow> ret ()
      | Some e \<Rightarrow> raise (DispatchFailpointError (dispatch_point_name point) (errorMessage e)))"

subsection \<open>The lease\<close>

definition dispatcher_acquireLease :: "dispatcher_env \<Rightarrow> nat \<Rightarrow> (dispatcher_state, unit) act" where
  "dispatcher_acquireLease env fuel =
     bindA (on_leases (acquireLease fuel (dv_lease env) (do_ownerId (dv_options env)) (do_leaseMs (dv_options env)) (dnow env))) (\<lambda>lease.
     case lease of
       None \<Rightarrow> raise (Error ''Another Conductor dispatcher owns the queue'')
     | Some l \<Rightarrow> (\<lambda>s. (Inr (), s\<lparr>ds_lease := Some l\<rparr>)))"

definition dispatcher_releaseLease :: "(dispatcher_state, unit) act" where
  "dispatcher_releaseLease =
     bindA getA (\<lambda>s.
     case ds_lease s of
       None \<Rightarrow> ret ()
     | Some l \<Rightarrow> bindA (\<lambda>s. (Inr (), s\<lparr>ds_lease := None\<rparr>)) (\<lambda>_. on_leases (releaseLease l)))"

subsection \<open>Submission\<close>

definition dispatcher_enqueue ::
  "dispatcher_env \<Rightarrow> nat \<Rightarrow> job_request \<Rightarrow> queue_options \<Rightarrow> (dispatcher_state, queue_item \<times> bool) act" where
  "dispatcher_enqueue env requestBytes request options =
     bindA (guardA (-100 \<le> qo_priority options \<and> qo_priority options \<le> 100 \<and> list_all (\<lambda>j. j \<noteq> []) (qo_dependsOnJobIds options))
       ZodError) (\<lambda>_.
     bindA (on_cond (prepareJob (dv_cond env) requestBytes request)) (\<lambda>contract.
     bindA (guardA (jc_jobId contract \<notin> set (qo_dependsOnJobIds options))
       (Error (''Queue item '' @ jc_jobId contract @ '' cannot depend on itself''))) (\<lambda>_.
     bindA (on_queue (enqueue (dnow env) contract options)) (\<lambda>(item, created).
     ret (item, \<not> created)))))"

subsection \<open>Dispatching\<close>

datatype loop_outcome = Continue | Break | Dispatched

definition by_id :: "queue_item list \<Rightarrow> string \<Rightarrow> queue_item option" where
  "by_id items jobId = List.find (\<lambda>i. qi_jobId i = jobId) (rev items)"

definition failed_dependency :: "queue_item option list \<Rightarrow> queue_item option" where
  "failed_dependency deps =
     (case List.find (\<lambda>d. case d of None \<Rightarrow> False | Some i \<Rightarrow> isTerminal i \<and> qi_status i \<noteq> QCompleted) deps of
        None \<Rightarrow> None | Some d \<Rightarrow> d)"

definition dependency_ready :: "queue_item option \<Rightarrow> bool" where
  "dependency_ready d = (case d of None \<Rightarrow> False | Some i \<Rightarrow> qi_status i = QCompleted)"

definition parent_attempt :: "queue_item option \<Rightarrow> err + string" where
  "parent_attempt d =
     (case d of
        None \<Rightarrow> Inl (Error ''Completed dependency unknown lacks attempt evidence'')
      | Some i \<Rightarrow>
          (case qi_completion i of
             None \<Rightarrow> Inl (Error (''Completed dependency '' @ qi_jobId i @ '' lacks attempt evidence''))
           | Some c \<Rightarrow>
               if qc_attemptId c = [] then Inl (Error (''Completed dependency '' @ qi_jobId i @ '' lacks attempt evidence''))
               else Inr (qc_attemptId c)))"

text \<open>From the \<open>dispatching\<close> intent to the registered execution.\<close>

definition activate :: "string \<Rightarrow> (dispatcher_state, unit) act" where
  "activate jobId s = (Inr (), s\<lparr>ds_active := ds_active s @ [jobId]\<rparr>)"

definition start_item :: "dispatcher_env \<Rightarrow> queue_item \<Rightarrow> string list \<Rightarrow> (dispatcher_state, loop_outcome) act" where
  "start_item env item parentAttemptIds =
     bindA (on_cond (draw (dv_cond env))) (\<lambda>operationId.
     bindA (queue_update env item (\<lambda>i. i\<lparr>qi_status := QDispatching, qi_dispatchOperationId := Some operationId,
         qi_attemptId := None, qi_message := None\<rparr>)) (\<lambda>dispatching.
     bindA (reachFailpoint env After_Queue_Dispatching (qi_jobId item)) (\<lambda>_.
     bindA (catchA
         (bindA (on_cond (reservePreparedAttempt (dv_cond env) (qi_jobId item) parentAttemptIds (Some operationId)))
           (\<lambda>r. ret (Some r)))
         (\<lambda>e. case e of
            ProposalLineageError m \<Rightarrow>
              bindA (queue_update env dispatching (\<lambda>i. i\<lparr>qi_status := QNeedsInput,
                qi_message := Some (''Proposal lineage rejected before reservation: '' @ errorMessage e)\<rparr>)) (\<lambda>_. ret None)
          | _ \<Rightarrow> raise e)) (\<lambda>reserved.
     case reserved of
       None \<Rightarrow> ret Continue
     | Some r \<Rightarrow>
         bindA (reachFailpoint env After_Attempt_Reserved (qi_jobId item)) (\<lambda>_.
         bindA (queue_update env dispatching (\<lambda>i. i\<lparr>qi_status := QRunning, qi_attemptId := Some (rj_attemptId r)\<rparr>)) (\<lambda>running.
         bindA (reachFailpoint env After_Queue_Bound (qi_jobId item)) (\<lambda>_.
         bindA (activate (qi_jobId item)) (\<lambda>_.
         ret Dispatched))))))))"

definition dispatch_item ::
  "dispatcher_env \<Rightarrow> queue_item list \<Rightarrow> queue_item \<Rightarrow> (dispatcher_state, loop_outcome) act" where
  "dispatch_item env items item =
     bindA getA (\<lambda>s.
     if qi_status item \<noteq> QQueued \<or> qi_jobId item \<in> set (ds_active s) then ret Continue
     else
       let dependencies = map (by_id items) (qi_dependsOnJobIds item) in
       case failed_dependency dependencies of
         Some f \<Rightarrow>
           bindA (queue_update env item (\<lambda>i. i\<lparr>qi_status := QNeedsInput,
             qi_message := Some (''Dependency '' @ qi_jobId f @ '' ended '' @ queue_status_name (qi_status f))\<rparr>)) (\<lambda>_. ret Continue)
       | None \<Rightarrow>
           if \<not> list_all dependency_ready dependencies then ret Continue
           else if do_maxConcurrent (dv_options env) \<le> int (length (ds_active s)) then ret Break
           else
             bindA (liftE (read_all parent_attempt dependencies)) (\<lambda>parentAttemptIds.
             start_item env item parentAttemptIds))"

fun dispatch_items ::
  "dispatcher_env \<Rightarrow> queue_item list \<Rightarrow> queue_item list \<Rightarrow> nat \<Rightarrow> (dispatcher_state, nat) act" where
  "dispatch_items env items [] dispatched = ret dispatched"
| "dispatch_items env items (item # rest) dispatched =
     bindA (dispatch_item env items item) (\<lambda>outcome.
     case outcome of
       Continue \<Rightarrow> dispatch_items env items rest dispatched
     | Break \<Rightarrow> ret dispatched
     | Dispatched \<Rightarrow> dispatch_items env items rest (Suc dispatched))"

definition dispatchAvailable :: "dispatcher_env \<Rightarrow> (dispatcher_state, nat) act" where
  "dispatchAvailable env =
     bindA getA (\<lambda>s.
     bindA (guardA (ds_lease s \<noteq> None) (Error ''Dispatcher lease is unavailable'')) (\<lambda>_.
     bindA (queue_list env) (\<lambda>items.
     dispatch_items env items items 0)))"

text \<open>One turn of \<open>runLoop\<close> up to the wait.\<close>

definition loop_turn :: "dispatcher_env \<Rightarrow> (dispatcher_state, nat) act" where
  "loop_turn env =
     bindA getA (\<lambda>s.
     case ds_lease s of
       None \<Rightarrow> raise (Error ''Dispatcher lease is unavailable'')
     | Some lease \<Rightarrow>
         bindA (on_leases (renewLease (dv_lease env) lease (do_leaseMs (dv_options env)) (dnow env))) (\<lambda>renewed.
         bindA (\<lambda>s. (Inr (), s\<lparr>ds_lease := Some renewed\<rparr>)) (\<lambda>_.
         dispatchAvailable env)))"

subsection \<open>Executing an item\<close>

definition executeItem_start :: "dispatcher_env \<Rightarrow> queue_item \<Rightarrow> (dispatcher_state, queue_item option) act" where
  "executeItem_start env item =
     bindA (queue_read (qi_jobId item)) (\<lambda>current.
     case (qi_status current, qi_attemptId current, qi_dispatchOperationId current) of
       (QRunning, Some attemptId, Some operationId) \<Rightarrow>
         if attemptId = [] \<or> operationId = [] then ret None
         else
           bindA (on_cond (claimReservedAttempt (dv_cond env) attemptId operationId)) (\<lambda>_.
           bindA (reachFailpoint env After_Attempt_Claimed (qi_jobId current)) (\<lambda>_.
           bindA (on_cond (launchClaimedAttempt (dv_cond env) attemptId operationId)) (\<lambda>_.
           ret (Some current))))
     | _ \<Rightarrow> ret None)"

text \<open>\<open>conductor.waitForAttempt\<close>: what the awaited execution delivered, or the stored manifest when none runs here.\<close>

definition waitForAttempt :: "string \<Rightarrow> attempt_manifest option \<Rightarrow> (conductor_state, run_job_result) act" where
  "waitForAttempt attemptId execution =
     bindA (case execution of Some m \<Rightarrow> ret m | None \<Rightarrow> getAttempt attemptId) (\<lambda>manifest. summarize manifest False)"

definition completion_evidence :: "run_job_result \<Rightarrow> attempt_completion_evidence" where
  "completion_evidence r = \<lparr>ac_attemptId = rj_attemptId r, ac_status = rj_status r,
     ac_verificationStatus = rj_verificationStatus r, ac_cleanupStatus = rj_cleanupStatus r,
     ac_artifacts = rj_artifacts r, ac_failure = rj_failure r\<rparr>"

definition finishItem :: "dispatcher_env \<Rightarrow> queue_item \<Rightarrow> run_job_result \<Rightarrow> (dispatcher_state, unit) act" where
  "finishItem env item result =
     bindA (queue_read (qi_jobId item)) (\<lambda>current.
     let p = projectQueueCompletion (completion_evidence result) (dnow env) in
     bindA (queue_update env current (\<lambda>i. i\<lparr>qi_status := qp_status p, qi_attemptId := Some (qp_attemptId p),
       qi_completion := Some (qp_completion p), qi_message := qp_message p\<rparr>)) (\<lambda>_. ret ()))"

definition executeItem_finish ::
  "dispatcher_env \<Rightarrow> queue_item \<Rightarrow> string \<Rightarrow> attempt_manifest option \<Rightarrow> (dispatcher_state, unit) act" where
  "executeItem_finish env started attemptId execution =
     bindA (on_cond (waitForAttempt attemptId execution)) (\<lambda>result. finishItem env started result)"

definition executeItem_error :: "dispatcher_env \<Rightarrow> queue_item \<Rightarrow> err \<Rightarrow> (dispatcher_state, unit) act" where
  "executeItem_error env item e =
     (case e of
        DispatchFailpointError p c \<Rightarrow> raise e
      | _ \<Rightarrow>
          bindA (queue_read (qi_jobId item)) (\<lambda>current.
          if qi_status current = QCancelled then ret ()
          else bindA (queue_update env current (\<lambda>i. i\<lparr>qi_status := QFailed, qi_message := Some (errorMessage e)\<rparr>)) (\<lambda>_. ret ())))"

definition executeItem_done :: "string \<Rightarrow> (dispatcher_state, unit) act" where
  "executeItem_done jobId s = (Inr (), s\<lparr>ds_active := filter (\<lambda>j. j \<noteq> jobId) (ds_active s)\<rparr>)"

subsection \<open>Cancelling and retrying\<close>

definition dispatcher_cancel :: "dispatcher_env \<Rightarrow> string \<Rightarrow> (dispatcher_state, queue_item) act" where
  "dispatcher_cancel env jobId =
     bindA (queue_read jobId) (\<lambda>item.
     if isTerminal item then ret item
     else if qi_status item = QRunning \<and> truthy (qi_attemptId item) then
       bindA (queue_update env item (\<lambda>i. i\<lparr>qi_status := QCancelling,
         qi_message := Some ''Cancellation requested; awaiting terminal attempt evidence''\<rparr>)) (\<lambda>cancelling.
       bindA (on_cond (cancelAttempt (the (qi_attemptId item)))) (\<lambda>requested.
       if requested then ret cancelling
       else
         bindA (on_cond (cancelReservedAttempt (dv_cond env) (the (qi_attemptId item)))) (\<lambda>attempt.
         if isAttemptTerminal (am_status attempt)
         then queue_update env cancelling (\<lambda>i. i\<lparr>qi_status := QCancelled, qi_message := Some ''Cancelled before worker execution''\<rparr>)
         else ret cancelling)))
     else if qi_status item = QCancelling then ret item
     else
       bindA (if qi_status item = QDispatching \<and> truthy (qi_attemptId item)
              then bindA (on_cond (cancelReservedAttempt (dv_cond env) (the (qi_attemptId item)))) (\<lambda>_. ret ())
              else ret ()) (\<lambda>_.
       queue_update env item (\<lambda>i. i\<lparr>qi_status := QCancelled, qi_message := Some ''Cancellation requested''\<rparr>)))"

definition dispatcher_retry :: "dispatcher_env \<Rightarrow> string \<Rightarrow> (dispatcher_state, queue_item) act" where
  "dispatcher_retry env jobId =
     bindA (queue_read jobId) (\<lambda>item.
     bindA (guardA (isTerminal item) (Error (''Queue item '' @ jobId @ '' is not terminal''))) (\<lambda>_.
     bindA (if truthy (qi_attemptId item)
            then
              bindA (on_cond (getAttempt (the (qi_attemptId item)))) (\<lambda>attempt.
              bindA (guardA (isAttemptTerminal (am_status attempt))
                (Error (''Attempt '' @ the (qi_attemptId item) @ '' is still '' @ attempt_status_name (am_status attempt)
                  @ ''; retry would duplicate active work''))) (\<lambda>_.
              bindA (on_cond (releaseAttemptExternalResources (dv_cond env) (the (qi_attemptId item)))) (\<lambda>_. ret ())))
            else ret ()) (\<lambda>_.
     queue_update env item (\<lambda>i. i\<lparr>qi_status := QQueued, qi_dispatchOperationId := None, qi_attemptId := None,
       qi_completion := None, qi_message := None\<rparr>))))"

fun cancel_active :: "queue_item list \<Rightarrow> (dispatcher_state, unit) act" where
  "cancel_active [] = ret ()"
| "cancel_active (item # rest) =
     bindA (if qi_status item \<in> {QRunning, QCancelling} \<and> truthy (qi_attemptId item)
            then bindA (on_cond (cancelAttempt (the (qi_attemptId item)))) (\<lambda>_. ret ()) else ret ()) (\<lambda>_.
     cancel_active rest)"

definition cancelActiveAttempts :: "dispatcher_env \<Rightarrow> (dispatcher_state, unit) act" where
  "cancelActiveAttempts env = bindA (queue_list env) cancel_active"

subsection \<open>Recovery at start\<close>

definition matching_attempts :: "attempt_manifest list \<Rightarrow> string \<Rightarrow> string \<Rightarrow> attempt_manifest list" where
  "matching_attempts attempts jobId operationId =
     filter (\<lambda>a. truthy (am_dispatchOperationId a) \<and>
       dispatchKey (am_jobId a) (the (am_dispatchOperationId a)) = dispatchKey jobId operationId) attempts"

definition recover_dispatching :: "dispatcher_env \<Rightarrow> attempt_manifest list \<Rightarrow> queue_item \<Rightarrow> (dispatcher_state, unit) act" where
  "recover_dispatching env attempts item =
     (if qi_status item \<noteq> QDispatching then ret ()
      else if \<not> truthy (qi_dispatchOperationId item) then
        bindA (queue_update env item (\<lambda>i. i\<lparr>qi_status := QNeedsInput,
          qi_message := Some ''Dispatching item lacks a durable operation identity''\<rparr>)) (\<lambda>_. ret ())
      else
        let operationId = the (qi_dispatchOperationId item) in
        case matching_attempts attempts (qi_jobId item) operationId of
          [] \<Rightarrow>
            bindA (queue_update env item (\<lambda>i. i\<lparr>qi_status := QQueued, qi_dispatchOperationId := None, qi_attemptId := None,
              qi_message := Some ''Recovered dispatch intent written before attempt reservation''\<rparr>)) (\<lambda>_. ret ())
        | [a] \<Rightarrow>
            bindA (queue_update env item (\<lambda>i. i\<lparr>qi_status := QRunning, qi_attemptId := Some (am_attemptId a),
              qi_message := Some ''Recovered queue-to-attempt binding from dispatch operation''\<rparr>)) (\<lambda>_. ret ())
        | a # b # rest \<Rightarrow>
            bindA (queue_update env item (\<lambda>i. i\<lparr>qi_status := QNeedsInput,
              qi_message := Some (''Dispatch operation '' @ operationId @ '' owns '' @ show_nat (length (a # b # rest))
                @ '' attempts; automatic launch is prohibited'')\<rparr>)) (\<lambda>_. ret ()))"

definition requeue_orphan ::
  "dispatcher_env \<Rightarrow> queue_item \<Rightarrow> string \<Rightarrow> (dispatcher_state, unit) act" where
  "requeue_orphan env item attemptId =
     bindA (on_cond (readJobA (dv_cond env) (qi_jobId item))) (\<lambda>contract.
     if qi_status item \<noteq> QCancelling \<and> rl_maxAutomaticRetries (jc_resources contract) \<le> int (qi_automaticRetryCount item)
     then bindA (queue_update env item (\<lambda>i. i\<lparr>qi_status := QNeedsInput,
            qi_message := Some (''Automatic retry budget exhausted after '' @ show_nat (qi_automaticRetryCount item)
              @ '' retries; owner review is required'')\<rparr>)) (\<lambda>_. ret ())
     else if qi_status item = QCancelling
     then bindA (queue_update env item (\<lambda>i. i\<lparr>qi_status := QCancelled, qi_dispatchOperationId := None,
            qi_attemptId := Some attemptId, qi_completion := None,
            qi_message := Some (''Recovered and cancelled orphan '' @ attemptId)\<rparr>)) (\<lambda>_. ret ())
     else bindA (queue_update env item (\<lambda>i. i\<lparr>qi_status := QQueued, qi_dispatchOperationId := None,
            qi_attemptId := None, qi_completion := None, qi_automaticRetryCount := qi_automaticRetryCount item + 1,
            qi_message := Some (''Recovered orphan '' @ attemptId @ ''; a new attempt is safe'')\<rparr>)) (\<lambda>_. ret ()))"

definition hold_orphan ::
  "dispatcher_env \<Rightarrow> queue_item \<Rightarrow> string \<Rightarrow> disposition \<Rightarrow> attempt_manifest \<Rightarrow> (dispatcher_state, unit) act" where
  "hold_orphan env item attemptId d manifest =
     bindA (catchA (bindA (on_cond (getAttemptCleanup attemptId)) (\<lambda>c. ret (cr_status c))) (\<lambda>_. ret C_Unknown)) (\<lambda>cleanupStatus.
     bindA (queue_update env item (\<lambda>i. i\<lparr>qi_status := QNeedsInput,
       qi_message := Some
         (if d = D_Still_Running
          then ''Guardian '' @ (case am_guardian manifest of None \<Rightarrow> ''undefined'' | Some g \<Rightarrow> show_nat (guardianPid g))
            @ '' for '' @ attemptId @ '' is still alive; automatic duplication is prohibited''
          else ''Attempt '' @ attemptId @ '' cleanup is '' @ cleanup_status_name cleanupStatus
            @ ''; automatic duplication is prohibited'')\<rparr>)) (\<lambda>_. ret ()))"

definition recover_running :: "dispatcher_env \<Rightarrow> queue_item \<Rightarrow> (dispatcher_state, unit) act" where
  "recover_running env item =
     (if qi_status item \<notin> {QRunning, QCancelling} then ret ()
      else if \<not> truthy (qi_attemptId item) then
        bindA (queue_update env item (\<lambda>i. i\<lparr>qi_status := QNeedsInput,
          qi_message := Some (queue_status_name (qi_status item) @ '' item lacks an attempt identity'')\<rparr>)) (\<lambda>_. ret ())
      else
        let attemptId = the (qi_attemptId item) in
        bindA (on_cond (getAttempt attemptId)) (\<lambda>manifest.
        if isAttemptTerminal (am_status manifest) then
          bindA (on_cond (waitForAttempt attemptId None)) (\<lambda>result. finishItem env item result)
        else
          bindA (on_cond (recoverInterruptedAttempt (dv_cond env) attemptId)) (\<lambda>(d, m).
          if d = D_Safe_To_Retry then requeue_orphan env item attemptId
          else hold_orphan env item attemptId d m)))"

definition recover_unreferenced :: "dispatcher_env \<Rightarrow> string list \<Rightarrow> attempt_manifest \<Rightarrow> (dispatcher_state, unit) act" where
  "recover_unreferenced env referenced attempt =
     (if isAttemptTerminal (am_status attempt) \<or> am_attemptId attempt \<in> set referenced then ret ()
      else bindA (on_cond (recoverInterruptedAttempt (dv_cond env) (am_attemptId attempt))) (\<lambda>_. ret ()))"

definition recoverInterruptedItems :: "dispatcher_env \<Rightarrow> (dispatcher_state, unit) act" where
  "recoverInterruptedItems env =
     bindA (readsA (\<lambda>s. listAttempts (cv_lc (dv_cond env)) (cd_store (ds_cond s)))) (\<lambda>attempts.
     bindA (queue_list env) (\<lambda>items.
     bindA (forA (recover_dispatching env attempts) items) (\<lambda>_.
     bindA (queue_list env) (\<lambda>bound.
     bindA (forA (recover_running env) bound) (\<lambda>_.
     bindA (queue_list env) (\<lambda>final.
     forA (recover_unreferenced env (map the (filter truthy (map qi_attemptId final)))) attempts))))))"

text \<open>
  \<open>start\<close> up to the loop: the lease, then recovery; a failed recovery gives the lease back. The bound
  on the recursion of \<open>acquireLease\<close> is an argument.
\<close>

definition dispatcher_start :: "dispatcher_env \<Rightarrow> nat \<Rightarrow> (dispatcher_state, unit) act" where
  "dispatcher_start env fuel =
     bindA (dispatcher_acquireLease env fuel) (\<lambda>_.
     catchA (recoverInterruptedItems env)
       (\<lambda>e. bindA dispatcher_releaseLease (\<lambda>_. raise e)))"

end
