(* ===== verification/Reconcile.thy ===== *)
theory Reconcile
  imports Dispatcher
begin

text \<open>
  Reconciliation (\<open>src/src/reconcile/runtime-reconciler.ts\<close> and the schemas of
  \<open>src/src/contracts/reconcile.ts\<close>): a read-only inspection that compares the queue, the attempts and
  their cleanup records and offers repairs, and the application of a repair the owner approved, under
  the dispatcher's lease and only on the evidence it was proposed for.

  The reads of the stores never fail on what they enumerate for a reason that depends on an issue's
  own schema, so the parses of issues and reports, which only check that identifiers are non-empty,
  are left out. \<open>rx_stateJson\<close> and \<open>rx_actionJson\<close> are the texts \<open>JSON.stringify\<close> gives for the state
  behind an evidence token and for an action. The reads under one \<open>Promise.all\<close> are taken in order;
  they change nothing, so only which of several errors is reported depends on it. Between the steps of \<open>applyRuntimeAction\<close> other processes
  may act: \<open>rx_others\<close>.
\<close>

subsection \<open>Issues and actions (contracts/reconcile.ts)\<close>

datatype issue_kind =
    Lease_Reconciliation_Required | Queue_State_Unreadable | Attempt_State_Unreadable | Attempt_Cleanup_Unreadable
  | Attempt_Cleanup_Unresolved | Active_Queue_Missing_Attempt | Queue_References_Missing_Attempt | Dispatch_Operation_Mismatch
  | Terminal_Queue_Nonterminal_Attempt | Unreferenced_Nonterminal_Attempt | Queue_Shape_Invalid | Queue_Attempt_Job_Mismatch
  | Queue_Completion_Mismatch | Active_Queue_Terminal_Attempt | Ambiguous_Dispatch_Attempts | Inactive_Owner_Nonterminal_Attempt

fun issue_kind_name :: "issue_kind \<Rightarrow> string" where
  "issue_kind_name Lease_Reconciliation_Required = ''lease-reconciliation-required''"
| "issue_kind_name Queue_State_Unreadable = ''queue-state-unreadable''"
| "issue_kind_name Attempt_State_Unreadable = ''attempt-state-unreadable''"
| "issue_kind_name Attempt_Cleanup_Unreadable = ''attempt-cleanup-unreadable''"
| "issue_kind_name Attempt_Cleanup_Unresolved = ''attempt-cleanup-unresolved''"
| "issue_kind_name Active_Queue_Missing_Attempt = ''active-queue-missing-attempt''"
| "issue_kind_name Queue_References_Missing_Attempt = ''queue-references-missing-attempt''"
| "issue_kind_name Dispatch_Operation_Mismatch = ''dispatch-operation-mismatch''"
| "issue_kind_name Terminal_Queue_Nonterminal_Attempt = ''terminal-queue-nonterminal-attempt''"
| "issue_kind_name Unreferenced_Nonterminal_Attempt = ''unreferenced-nonterminal-attempt''"
| "issue_kind_name Queue_Shape_Invalid = ''queue-shape-invalid''"
| "issue_kind_name Queue_Attempt_Job_Mismatch = ''queue-attempt-job-mismatch''"
| "issue_kind_name Queue_Completion_Mismatch = ''queue-completion-mismatch''"
| "issue_kind_name Active_Queue_Terminal_Attempt = ''active-queue-terminal-attempt''"
| "issue_kind_name Ambiguous_Dispatch_Attempts = ''ambiguous-dispatch-attempts''"
| "issue_kind_name Inactive_Owner_Nonterminal_Attempt = ''inactive-owner-nonterminal-attempt''"

datatype severity = Sev_Warning | Sev_Blocked

fun severity_name :: "severity \<Rightarrow> string" where
  "severity_name Sev_Warning = ''warning''" | "severity_name Sev_Blocked = ''blocked''"

datatype authority = Auth_None | Auth_Wait_For_Owner | Auth_Owner_Action | Auth_Runtime_Restart

fun authority_name :: "authority \<Rightarrow> string" where
  "authority_name Auth_None = ''none''" | "authority_name Auth_Wait_For_Owner = ''wait-for-owner''"
| "authority_name Auth_Owner_Action = ''owner-action''" | "authority_name Auth_Runtime_Restart = ''runtime-restart''"

record issue_input =
  ii_kind :: issue_kind
  ii_severity :: severity
  ii_summary :: string
  ii_jobId :: "string option"
  ii_attemptId :: "string option"
  ii_requiredAuthority :: authority
  ii_actionEvidenceToken :: "string option"

record reconciliation_issue = issue_input +
  ri_issueId :: string

datatype runtime_action_kind = RK_Reset | RK_Quarantine | RK_Bind | RK_Synchronize | RK_Recover

fun runtime_action_kind_name :: "runtime_action_kind \<Rightarrow> string" where
  "runtime_action_kind_name RK_Reset = ''reset-abandoned-queue-item''"
| "runtime_action_kind_name RK_Quarantine = ''quarantine-queue-item''"
| "runtime_action_kind_name RK_Bind = ''bind-queue-to-attempt''"
| "runtime_action_kind_name RK_Synchronize = ''synchronize-queue-from-terminal-attempt''"
| "runtime_action_kind_name RK_Recover = ''recover-interrupted-attempt''"

record proposal_base =
  pb_jobId :: string
  pb_evidenceToken :: string
  pb_description :: string

text \<open>Queue revision, status and attempt as observed; attempt and its revision; cleanup revision.\<close>

datatype runtime_proposal =
    Reset_Proposal proposal_base nat queue_status
  | Quarantine_Proposal proposal_base nat queue_status "string option"
  | Bind_Proposal proposal_base nat string nat string
  | Synchronize_Proposal proposal_base nat string nat nat
  | Recover_Proposal proposal_base string nat nat

fun rp_kind :: "runtime_proposal \<Rightarrow> runtime_action_kind" where
  "rp_kind (Reset_Proposal b r st) = RK_Reset"
| "rp_kind (Quarantine_Proposal b r st a) = RK_Quarantine"
| "rp_kind (Bind_Proposal b r a ar d) = RK_Bind"
| "rp_kind (Synchronize_Proposal b r a ar cr) = RK_Synchronize"
| "rp_kind (Recover_Proposal b a ar cr) = RK_Recover"

fun rp_base :: "runtime_proposal \<Rightarrow> proposal_base" where
  "rp_base (Reset_Proposal b r st) = b"
| "rp_base (Quarantine_Proposal b r st a) = b"
| "rp_base (Bind_Proposal b r a ar d) = b"
| "rp_base (Synchronize_Proposal b r a ar cr) = b"
| "rp_base (Recover_Proposal b a ar cr) = b"

abbreviation rp_evidenceToken :: "runtime_proposal \<Rightarrow> string" where
  "rp_evidenceToken p \<equiv> pb_evidenceToken (rp_base p)"

definition is_description :: "string \<Rightarrow> bool" where
  "is_description v \<longleftrightarrow> 1 \<le> length v \<and> length v \<le> 1000"

definition proposalBase_valid :: "proposal_base \<Rightarrow> bool" where
  "proposalBase_valid b \<longleftrightarrow> pb_jobId b \<noteq> [] \<and> is_hex64 (pb_evidenceToken b) \<and> is_description (pb_description b)"

text \<open>The shape of a UUID is not checked again.\<close>

fun runtimeProposal_valid :: "runtime_proposal \<Rightarrow> bool" where
  "runtimeProposal_valid (Reset_Proposal b r st) = (proposalBase_valid b \<and> st \<in> {QQueued, QDispatching})"
| "runtimeProposal_valid (Quarantine_Proposal b r st a) = (proposalBase_valid b \<and> opt_nonempty a)"
| "runtimeProposal_valid (Bind_Proposal b r a ar d) = (proposalBase_valid b \<and> a \<noteq> [] \<and> d \<noteq> [])"
| "runtimeProposal_valid (Synchronize_Proposal b r a ar cr) = (proposalBase_valid b \<and> a \<noteq> [])"
| "runtimeProposal_valid (Recover_Proposal b a ar cr) = (proposalBase_valid b \<and> a \<noteq> [])"

definition leaseProposal_valid :: "lease_action_proposal \<Rightarrow> bool" where
  "leaseProposal_valid p \<longleftrightarrow> lap_observedState p \<in> {L_Incomplete, L_Corrupt} \<and> is_hex64 (lap_evidenceToken p) \<and>
     is_description (lap_description p)"

datatype action_proposal = Lease_Action lease_action_proposal | Runtime_Action runtime_proposal

record reconciliation_action =
  ra_proposal :: action_proposal
  ra_approval :: lease_approval

definition reconciliationAction_valid :: "reconciliation_action \<Rightarrow> bool" where
  "reconciliationAction_valid a \<longleftrightarrow>
     (case ra_proposal a of Lease_Action p \<Rightarrow> leaseProposal_valid p | Runtime_Action p \<Rightarrow> runtimeProposal_valid p) \<and>
     1 \<le> length (lp_approvedBy (ra_approval a)) \<and> length (lp_approvedBy (ra_approval a)) \<le> 200 \<and>
     is_description (lp_reason (ra_approval a))"

datatype evidence_disposition = Disposition_Applied | Disposition_Blocked

record runtime_evidence =
  ve_evidenceId :: string
  ve_operationId :: string
  ve_actionKind :: runtime_action_kind
  ve_disposition :: evidence_disposition
  ve_recordedAt :: timestamp
  ve_beforeEvidenceToken :: string
  ve_detail :: string
  ve_actionPath :: string
  ve_resultPath :: string
  ve_queueRevision :: "nat option"
  ve_attemptRevision :: "nat option"
  ve_cleanupRevision :: "nat option"

record action_intent =
  ai_operationId :: string
  ai_recordedAt :: timestamp
  ai_action :: reconciliation_action

record runtime_report =
  rr_generatedAt :: timestamp
  rr_lease :: lease_inspection
  rr_issues :: "reconciliation_issue list"
  rr_availableActions :: "action_proposal list"

subsection \<open>State and environment\<close>

record action_dir =
  xd_intent :: "action_intent doc option"
  xd_result :: "runtime_evidence doc option"

record reconcile_state =
  rc_disp :: dispatcher_state
  rc_actions :: "(string \<times> action_dir) list"

record reconcile_env =
  rx_disp :: dispatcher_env
  rx_leaseMs :: int
  rx_root :: string
  rx_evidenceId :: string
  rx_stateJson :: "runtime_action_kind \<Rightarrow> queue_item option \<Rightarrow> attempt_manifest option \<Rightarrow> attempt_cleanup_record option \<Rightarrow> string"
  rx_actionJson :: "reconciliation_action \<Rightarrow> string"
  rx_actionFailpoint :: "runtime_proposal \<Rightarrow> err option"
  rx_others :: "nat \<Rightarrow> reconcile_state \<Rightarrow> reconcile_state"

definition rsha :: "reconcile_env \<Rightarrow> string \<Rightarrow> string" where
  "rsha env = cv_sha256 (dv_cond (rx_disp env))"

definition on_disp :: "(dispatcher_state, 'a) act \<Rightarrow> (reconcile_state, 'a) act" where
  "on_disp m s = (case m (rc_disp s) of (r, d) \<Rightarrow> (r, s\<lparr>rc_disp := d\<rparr>))"

definition others_act :: "reconcile_env \<Rightarrow> nat \<Rightarrow> (reconcile_state, unit) act" where
  "others_act env n s = (Inr (), rx_others env n s)"

text \<open>\<open>JSON.stringify\<close> of an issue: its fields in order, without those that are undefined.\<close>

definition json_field :: "string \<Rightarrow> string option \<Rightarrow> string list" where
  "json_field k v = (case v of None \<Rightarrow> [] | Some t \<Rightarrow> [json_quote k @ '':'' @ json_quote t])"

definition issue_json :: "issue_input \<Rightarrow> string" where
  "issue_json i = ''{'' @ join '','' (json_field ''kind'' (Some (issue_kind_name (ii_kind i)))
     @ json_field ''severity'' (Some (severity_name (ii_severity i))) @ json_field ''summary'' (Some (ii_summary i))
     @ json_field ''jobId'' (ii_jobId i) @ json_field ''attemptId'' (ii_attemptId i)
     @ json_field ''requiredAuthority'' (Some (authority_name (ii_requiredAuthority i)))
     @ json_field ''actionEvidenceToken'' (ii_actionEvidenceToken i)) @ ''}''"

definition make_issue :: "reconcile_env \<Rightarrow> issue_input \<Rightarrow> reconciliation_issue" where
  "make_issue env i = issue_input.extend i \<lparr>ri_issueId = take 16 (rsha env (issue_json i))\<rparr>"

subsection \<open>Proposed actions\<close>

definition stateEvidenceToken ::
  "reconcile_env \<Rightarrow> runtime_action_kind \<Rightarrow> queue_item option \<Rightarrow> attempt_manifest option \<Rightarrow> attempt_cleanup_record option \<Rightarrow> string" where
  "stateEvidenceToken env kind item attempt cleanup = rsha env (rx_stateJson env kind item attempt cleanup)"

definition resetQueueAction :: "reconcile_env \<Rightarrow> queue_item \<Rightarrow> runtime_proposal" where
  "resetQueueAction env item = Reset_Proposal
     \<lparr>pb_jobId = qi_jobId item, pb_evidenceToken = stateEvidenceToken env RK_Reset (Some item) None None,
      pb_description = ''Clear stale dispatch evidence and return queue item '' @ qi_jobId item @ '' to queued''\<rparr>
     (qi_revision item) (if qi_status item = QQueued then QQueued else QDispatching)"

definition quarantineQueueAction :: "reconcile_env \<Rightarrow> queue_item \<Rightarrow> runtime_proposal" where
  "quarantineQueueAction env item = Quarantine_Proposal
     \<lparr>pb_jobId = qi_jobId item, pb_evidenceToken = stateEvidenceToken env RK_Quarantine (Some item) None None,
      pb_description = ''Move queue item '' @ qi_jobId item @ '' to needs-input and clear its untrusted attempt binding''\<rparr>
     (qi_revision item) (qi_status item) (qi_attemptId item)"

definition bindQueueAction :: "reconcile_env \<Rightarrow> queue_item \<Rightarrow> attempt_manifest \<Rightarrow> runtime_proposal" where
  "bindQueueAction env item attempt = Bind_Proposal
     \<lparr>pb_jobId = qi_jobId item, pb_evidenceToken = stateEvidenceToken env RK_Bind (Some item) (Some attempt) None,
      pb_description = ''Bind queue item '' @ qi_jobId item @ '' to attempt '' @ am_attemptId attempt
        @ '' using their exact dispatch identity''\<rparr>
     (qi_revision item) (am_attemptId attempt) (am_revision attempt)
     (case qi_dispatchOperationId item of None \<Rightarrow> [] | Some d \<Rightarrow> d)"

definition synchronizeQueueAction ::
  "reconcile_env \<Rightarrow> queue_item \<Rightarrow> attempt_manifest \<Rightarrow> attempt_cleanup_record \<Rightarrow> runtime_proposal" where
  "synchronizeQueueAction env item attempt cleanup = Synchronize_Proposal
     \<lparr>pb_jobId = qi_jobId item, pb_evidenceToken = stateEvidenceToken env RK_Synchronize (Some item) (Some attempt) (Some cleanup),
      pb_description = ''Derive queue completion for '' @ qi_jobId item @ '' from immutable attempt '' @ am_attemptId attempt
        @ '' and cleanup evidence''\<rparr>
     (qi_revision item) (am_attemptId attempt) (am_revision attempt) (cr_revision cleanup)"

definition recoverAttemptAction :: "reconcile_env \<Rightarrow> attempt_manifest \<Rightarrow> attempt_cleanup_record \<Rightarrow> runtime_proposal" where
  "recoverAttemptAction env attempt cleanup = Recover_Proposal
     \<lparr>pb_jobId = am_jobId attempt, pb_evidenceToken = stateEvidenceToken env RK_Recover None (Some attempt) (Some cleanup),
      pb_description = ''Run evidence-gated orphan recovery for attempt '' @ am_attemptId attempt
        @ ''; unresolved process or resource ownership remains quarantined''\<rparr>
     (am_attemptId attempt) (am_revision attempt) (cr_revision cleanup)"

subsection \<open>Queue items against attempts\<close>

definition isLeaseActive :: "lease_state \<Rightarrow> bool" where
  "isLeaseActive st = (st \<in> set [L_ActiveLocal, L_ExpiredLiveLocal, L_ActiveRemote])"

definition isQueueTerminal :: "queue_status \<Rightarrow> bool" where
  "isQueueTerminal st = (st \<in> set [QCompleted, QFailed, QNeedsInput, QCancelled])"

definition ownerCanAct :: "lease_state \<Rightarrow> bool" where
  "ownerCanAct st = (st \<in> set [L_Absent, L_RecoverableDeadLocal])"

definition inactiveAuthority :: "lease_state \<Rightarrow> authority" where
  "inactiveAuthority st = (if isLeaseActive st \<or> st = L_Initializing then Auth_Wait_For_Owner else Auth_Owner_Action)"

definition attempt_evidence :: "attempt_manifest \<Rightarrow> attempt_cleanup_record \<Rightarrow> attempt_completion_evidence" where
  "attempt_evidence attempt cleanup = \<lparr>ac_attemptId = am_attemptId attempt, ac_status = am_status attempt,
     ac_verificationStatus = am_verificationStatus attempt, ac_cleanupStatus = cr_status cleanup,
     ac_artifacts = am_artifacts attempt, ac_failure = am_failure attempt\<rparr>"

definition queueMatchesAttempt :: "queue_item \<Rightarrow> attempt_manifest \<Rightarrow> attempt_cleanup_record \<Rightarrow> bool" where
  "queueMatchesAttempt item attempt cleanup =
     (let expected = projectQueueCompletion (attempt_evidence attempt cleanup)
            (case qi_completion item of Some c \<Rightarrow> qc_finishedAt c
             | None \<Rightarrow> (case am_finishedAt attempt of Some t \<Rightarrow> t | None \<Rightarrow> am_createdAt attempt));
          e = qp_completion expected in
      qi_status item = qp_status expected \<and> qi_attemptId item = Some (qp_attemptId expected) \<and>
      (case qi_completion item of
         None \<Rightarrow> False
       | Some c \<Rightarrow> qc_attemptId c = qc_attemptId e \<and> qc_attemptStatus c = qc_attemptStatus e \<and>
           qc_verificationStatus c = qc_verificationStatus e \<and> qc_cleanupStatus c = qc_cleanupStatus e \<and>
           qc_artifacts c = qc_artifacts e))"

text \<open>What the inspection of the items works on: the attempts, their cleanup records as far as readable, the lease.\<close>

record inspection_context =
  ic_attempts :: "attempt_manifest list"
  ic_cleanup :: "(string \<times> attempt_cleanup_record) list"
  ic_lease :: lease_state

definition attempt_by_id :: "inspection_context \<Rightarrow> string \<Rightarrow> attempt_manifest option" where
  "attempt_by_id ctx attemptId = map_of (rev (map (\<lambda>a. (am_attemptId a, a)) (ic_attempts ctx))) attemptId"

definition attempts_by_operation :: "inspection_context \<Rightarrow> string \<Rightarrow> string option \<Rightarrow> attempt_manifest list" where
  "attempts_by_operation ctx jobId operation =
     (case operation of
        None \<Rightarrow> []
      | Some d \<Rightarrow> filter (\<lambda>a. case am_dispatchOperationId a of
            None \<Rightarrow> False
          | Some d' \<Rightarrow> d' \<noteq> [] \<and> dispatchKey (am_jobId a) d' = dispatchKey jobId d) (ic_attempts ctx))"

definition cleanup_of :: "inspection_context \<Rightarrow> attempt_manifest \<Rightarrow> attempt_cleanup_record option" where
  "cleanup_of ctx attempt = map_of (ic_cleanup ctx) (am_attemptId attempt)"

text \<open>
  The calls of \<open>report\<close> in one turn of the loop over the items, and the attempts it adds to
  \<open>referenced\<close>. No branch depends on what was reported before.
\<close>

type_synonym finding = "issue_input \<times> runtime_proposal option"

definition opt_text :: "string option \<Rightarrow> string" where
  "opt_text x = (case x of None \<Rightarrow> ''undefined'' | Some s \<Rightarrow> s)"

definition item_issue :: "inspection_context \<Rightarrow> queue_item \<Rightarrow> issue_kind \<Rightarrow> string \<Rightarrow> string option \<Rightarrow> issue_input" where
  "item_issue ctx item kind summary attemptId = \<lparr>ii_kind = kind, ii_severity = Sev_Blocked, ii_summary = summary,
     ii_jobId = Some (qi_jobId item), ii_attemptId = attemptId, ii_requiredAuthority = inactiveAuthority (ic_lease ctx),
     ii_actionEvidenceToken = None\<rparr>"

definition rebind_action :: "reconcile_env \<Rightarrow> inspection_context \<Rightarrow> queue_item \<Rightarrow> attempt_manifest \<Rightarrow> runtime_proposal option" where
  "rebind_action env ctx item attempt =
     (if isAttemptTerminal (am_status attempt) then map_option (synchronizeQueueAction env item attempt) (cleanup_of ctx attempt)
      else Some (bindQueueAction env item attempt))"

text \<open>Items with a status that asks for an attempt but no attempt identity, and their neighbours.\<close>

definition inspect_dispatching :: "reconcile_env \<Rightarrow> inspection_context \<Rightarrow> queue_item \<Rightarrow> finding list \<times> string list" where
  "inspect_dispatching env ctx item =
     (let operation = opt_text (qi_dispatchOperationId item);
          matching = attempts_by_operation ctx (qi_jobId item) (qi_dispatchOperationId item) in
      case matching of
        [] \<Rightarrow> ([(item_issue ctx item Queue_References_Missing_Attempt
            (''Dispatch intent '' @ operation @ '' for '' @ qi_jobId item @ '' has no reserved attempt'') None,
            Some (resetQueueAction env item))], [])
      | [attempt] \<Rightarrow> ([(item_issue ctx item Queue_Shape_Invalid
            (''Dispatching item '' @ qi_jobId item @ '' can be rebound to '' @ am_attemptId attempt @ '' from its exact operation identity'')
            (Some (am_attemptId attempt)),
            rebind_action env ctx item attempt)], [am_attemptId attempt])
      | _ \<Rightarrow> ([(item_issue ctx item Ambiguous_Dispatch_Attempts
            (''Dispatch operation '' @ operation @ '' for '' @ qi_jobId item @ '' owns '' @ show_nat (length matching) @ '' attempts'') None,
            Some (quarantineQueueAction env item))], []))"

definition nonterminal_under_terminal :: "reconcile_env \<Rightarrow> inspection_context \<Rightarrow> queue_item \<Rightarrow> attempt_manifest \<Rightarrow> finding" where
  "nonterminal_under_terminal env ctx item attempt =
     (item_issue ctx item Terminal_Queue_Nonterminal_Attempt
        (''Terminal queue item '' @ qi_jobId item @ '' references nonterminal attempt '' @ am_attemptId attempt @ '' (''
          @ attempt_status_name (am_status attempt) @ '')'') (Some (am_attemptId attempt)),
      map_option (recoverAttemptAction env attempt) (cleanup_of ctx attempt))"

text \<open>Items whose attempt was found: job, operation, then status against status.\<close>

definition inspect_bound :: "reconcile_env \<Rightarrow> inspection_context \<Rightarrow> queue_item \<Rightarrow> attempt_manifest \<Rightarrow> finding list \<times> string list" where
  "inspect_bound env ctx item attempt =
     (let st = qi_status item; a = am_attemptId attempt; terminal = isAttemptTerminal (am_status attempt);
          input = (\<lambda>kind summary. item_issue ctx item kind summary (Some a));
          running = (am_status attempt) in
      if am_jobId attempt \<noteq> qi_jobId item then
        ([(input Queue_Attempt_Job_Mismatch (''Queue item '' @ qi_jobId item @ '' references attempt '' @ a @ '' owned by '' @ am_jobId attempt),
           Some (quarantineQueueAction env item))], [])
      else if qi_dispatchOperationId item \<noteq> am_dispatchOperationId attempt \<and>
          (truthy (qi_dispatchOperationId item) \<or> truthy (am_dispatchOperationId attempt)) then
        ((input Dispatch_Operation_Mismatch (''Queue item '' @ qi_jobId item @ '' and attempt '' @ a
              @ '' have different dispatch operation identities''), Some (quarantineQueueAction env item))
           # (if isQueueTerminal st \<and> \<not> terminal then [nonterminal_under_terminal env ctx item attempt] else []), [])
      else if st = QDispatching then
        ([(input Queue_Shape_Invalid (''Dispatching item '' @ qi_jobId item @ '' already names attempt '' @ a @ '' but has not advanced''),
           rebind_action env ctx item attempt)], [a])
      else if st \<in> {QRunning, QCancelling} then
        (if terminal then
           [(input Active_Queue_Terminal_Attempt (''Active queue item '' @ qi_jobId item @ '' references terminal attempt '' @ a @ '' (''
               @ attempt_status_name (am_status attempt) @ '')''),
             map_option (synchronizeQueueAction env item attempt) (cleanup_of ctx attempt))]
         else if \<not> isLeaseActive (ic_lease ctx) then
           [(input Inactive_Owner_Nonterminal_Attempt (''Queue item '' @ qi_jobId item @ '' references nonterminal attempt '' @ a
               @ '' without an active dispatcher owner''),
             map_option (recoverAttemptAction env attempt) (cleanup_of ctx attempt))]
         else [], [a])
      else if isQueueTerminal st \<and> \<not> terminal then ([nonterminal_under_terminal env ctx item attempt], [a])
      else
        (case cleanup_of ctx attempt of
           None \<Rightarrow> []
         | Some cleanup \<Rightarrow>
             if isQueueTerminal st \<and> terminal \<and> \<not> queueMatchesAttempt item attempt cleanup then
               [(input Queue_Completion_Mismatch (''Queue completion for '' @ qi_jobId item @ '' does not match terminal attempt '' @ a
                   @ '' and cleanup revision '' @ show_nat (cr_revision cleanup)),
                 Some (synchronizeQueueAction env item attempt cleanup))]
             else [], [a]))"

definition inspect_item :: "reconcile_env \<Rightarrow> inspection_context \<Rightarrow> queue_item \<Rightarrow> finding list \<times> string list" where
  "inspect_item env ctx item =
     (let st = qi_status item in
      if st = QQueued \<and> (truthy (qi_dispatchOperationId item) \<or> truthy (qi_attemptId item) \<or> qi_completion item \<noteq> None) then
        ([(item_issue ctx item Queue_Shape_Invalid
             (''Queued item '' @ qi_jobId item @ '' retains dispatch, attempt, or completion state'') (qi_attemptId item),
           Some (resetQueueAction env item))], [])
      else if st = QDispatching \<and> \<not> truthy (qi_dispatchOperationId item) then
        ([(item_issue ctx item Queue_Shape_Invalid
             (''Dispatching item '' @ qi_jobId item @ '' lacks a durable operation identity'') (qi_attemptId item),
           Some (quarantineQueueAction env item))], [])
      else if st \<in> {QRunning, QCancelling} \<and> \<not> truthy (qi_attemptId item) then
        ([(item_issue ctx item Queue_References_Missing_Attempt
             (''Queue item '' @ qi_jobId item @ '' is '' @ queue_status_name st @ '' without an attempt identity'') None,
           Some (quarantineQueueAction env item))], [])
      else if st = QDispatching \<and> \<not> truthy (qi_attemptId item) then inspect_dispatching env ctx item
      else
        (case (if truthy (qi_attemptId item) then qi_attemptId item else None) of
           None \<Rightarrow>
             (if st = QCompleted \<or> qi_completion item \<noteq> None then
                [(item_issue ctx item Queue_Completion_Mismatch
                    (''Terminal queue item '' @ qi_jobId item @ '' has completion state without an attempt identity'') None,
                  Some (quarantineQueueAction env item))]
              else [], [])
         | Some a \<Rightarrow>
             (case attempt_by_id ctx a of
                None \<Rightarrow> ([(item_issue ctx item Active_Queue_Missing_Attempt
                    (''Queue item '' @ qi_jobId item @ '' references missing attempt '' @ a) (Some a),
                    Some (quarantineQueueAction env item))], [])
              | Some attempt \<Rightarrow> inspect_bound env ctx item attempt)))"

definition inspect_unreferenced :: "reconcile_env \<Rightarrow> inspection_context \<Rightarrow> string list \<Rightarrow> attempt_manifest \<Rightarrow> finding list" where
  "inspect_unreferenced env ctx referenced attempt =
     (if isAttemptTerminal (am_status attempt) \<or> am_attemptId attempt \<in> set referenced then []
      else
        let activeOwner = isLeaseActive (ic_lease ctx) in
        [(\<lparr>ii_kind = Unreferenced_Nonterminal_Attempt, ii_severity = (if activeOwner then Sev_Warning else Sev_Blocked),
           ii_summary = ''Nonterminal attempt '' @ am_attemptId attempt @ '' ('' @ attempt_status_name (am_status attempt)
             @ '') is not referenced by a queue item'', ii_jobId = Some (am_jobId attempt), ii_attemptId = Some (am_attemptId attempt),
           ii_requiredAuthority = (if activeOwner then Auth_Wait_For_Owner else Auth_Owner_Action), ii_actionEvidenceToken = None\<rparr>,
          map_option (recoverAttemptAction env attempt) (cleanup_of ctx attempt))])"

text \<open>\<open>report\<close>: an action is offered only when the owner can act, once per evidence token.\<close>

definition offered :: "lease_state \<Rightarrow> finding \<Rightarrow> runtime_proposal option" where
  "offered lease f = (if ownerCanAct lease then snd f else None)"

definition report_issue :: "reconcile_env \<Rightarrow> lease_state \<Rightarrow> finding \<Rightarrow> reconciliation_issue" where
  "report_issue env lease f =
     (case offered lease f of
        None \<Rightarrow> make_issue env (fst f)
      | Some p \<Rightarrow> make_issue env ((fst f)\<lparr>ii_requiredAuthority := Auth_Owner_Action, ii_actionEvidenceToken := Some (rp_evidenceToken p)\<rparr>))"

definition offer :: "lease_state \<Rightarrow> (string \<times> runtime_proposal) list \<Rightarrow> finding \<Rightarrow> (string \<times> runtime_proposal) list" where
  "offer lease actions f =
     (case offered lease f of None \<Rightarrow> actions | Some p \<Rightarrow> AList.update (rp_evidenceToken p) p actions)"

definition relationship_findings :: "reconcile_env \<Rightarrow> inspection_context \<Rightarrow> queue_item list \<Rightarrow> finding list" where
  "relationship_findings env ctx items =
     concat (map (\<lambda>i. fst (inspect_item env ctx i)) items)
     @ concat (map (inspect_unreferenced env ctx (concat (map (\<lambda>i. snd (inspect_item env ctx i)) items))) (ic_attempts ctx))"

definition inspectQueueAttemptRelationships ::
  "reconcile_env \<Rightarrow> inspection_context \<Rightarrow> queue_item list \<Rightarrow> reconciliation_issue list \<times> runtime_proposal list" where
  "inspectQueueAttemptRelationships env ctx items =
     (let findings = relationship_findings env ctx items; lease = ic_lease ctx in
      (map (report_issue env lease) findings,
       Sorting_Algorithms.sort (key rp_evidenceToken (dv_lc (rx_disp env))) (map snd (foldl (offer lease) [] findings))))"

subsection \<open>The inspection\<close>

definition plain_issue :: "issue_kind \<Rightarrow> severity \<Rightarrow> string \<Rightarrow> attempt_manifest option \<Rightarrow> authority \<Rightarrow> issue_input" where
  "plain_issue kind severity summary attempt authority = \<lparr>ii_kind = kind, ii_severity = severity, ii_summary = summary,
     ii_jobId = map_option am_jobId attempt, ii_attemptId = map_option am_attemptId attempt, ii_requiredAuthority = authority,
     ii_actionEvidenceToken = None\<rparr>"

definition lease_issues :: "lease_inspection \<Rightarrow> issue_input list" where
  "lease_issues lease =
     (if li_state lease \<in> {L_Corrupt, L_Incomplete}
      then [plain_issue Lease_Reconciliation_Required Sev_Blocked (li_detail lease) None
             (if li_ownerAction lease = None then Auth_Wait_For_Owner else Auth_Owner_Action)]
      else [])"

definition read_cleanup :: "dispatcher_state \<Rightarrow> attempt_manifest \<Rightarrow> err + attempt_cleanup_record" where
  "read_cleanup s attempt = fst (getAttemptCleanup (am_attemptId attempt) (ds_cond s))"

definition cleanup_issue :: "dispatcher_state \<Rightarrow> attempt_manifest \<Rightarrow> issue_input list" where
  "cleanup_issue s attempt =
     (case read_cleanup s attempt of
        Inr c \<Rightarrow> []
      | Inl e \<Rightarrow> [plain_issue Attempt_Cleanup_Unreadable Sev_Blocked
          (''Cleanup evidence for '' @ am_attemptId attempt @ '' could not be read: '' @ errorMessage e) (Some attempt) Auth_Owner_Action])"

definition cleanup_map :: "dispatcher_state \<Rightarrow> attempt_manifest list \<Rightarrow> (string \<times> attempt_cleanup_record) list" where
  "cleanup_map s attempts =
     rev (concat (map (\<lambda>a. case read_cleanup s a of Inl _ \<Rightarrow> [] | Inr c \<Rightarrow> [(am_attemptId a, c)]) attempts))"

definition unresolved_issue :: "inspection_context \<Rightarrow> attempt_manifest \<Rightarrow> issue_input list" where
  "unresolved_issue ctx attempt =
     (case cleanup_of ctx attempt of
        None \<Rightarrow> []
      | Some cleanup \<Rightarrow>
          if cr_status cleanup \<in> {C_NotRequired, C_Proven} then []
          else
            let activeOwner = (\<not> isAttemptTerminal (am_status attempt) \<and> isLeaseActive (ic_lease ctx)) in
            [plain_issue Attempt_Cleanup_Unresolved (if activeOwner then Sev_Warning else Sev_Blocked)
              (''Attempt '' @ am_attemptId attempt @ '' cleanup is '' @ cleanup_status_name (cr_status cleanup)
                @ ''; retry and evidence removal remain prohibited'') (Some attempt)
              (if activeOwner then Auth_Wait_For_Owner else Auth_Owner_Action)])"

definition inspect_runtime :: "reconcile_env \<Rightarrow> timestamp \<Rightarrow> dispatcher_state \<Rightarrow> runtime_report" where
  "inspect_runtime env now s =
     (let d = rx_disp env;
          lease = inspectLease (dv_lease d) (rx_leaseMs env) now (ds_leases s);
          items = list_items (dv_lc d) (ds_queue s);
          attempts = listAttempts (dv_lc d) (cd_store (ds_cond s));
          known = (case attempts of Inl _ \<Rightarrow> [] | Inr as \<Rightarrow> as);
          ctx = \<lparr>ic_attempts = known, ic_cleanup = cleanup_map s known, ic_lease = li_state lease\<rparr>;
          early = lease_issues lease
            @ (case items of Inr _ \<Rightarrow> [] | Inl e \<Rightarrow> [plain_issue Queue_State_Unreadable Sev_Blocked
                (''Queue state could not be enumerated: '' @ errorMessage e) None Auth_Owner_Action])
            @ (case attempts of Inr _ \<Rightarrow> [] | Inl e \<Rightarrow> [plain_issue Attempt_State_Unreadable Sev_Blocked
                (''Attempt state could not be enumerated: '' @ errorMessage e) None Auth_Owner_Action])
            @ concat (map (cleanup_issue s) known);
          (related, unresolved, actions) =
            (case (items, attempts) of
               (Inr is, Inr as) \<Rightarrow>
                 (case inspectQueueAttemptRelationships env ctx is of
                    (rs, acts) \<Rightarrow> (rs, concat (map (unresolved_issue ctx) as), acts))
             | _ \<Rightarrow> ([], [], [])) in
      \<lparr>rr_generatedAt = now, rr_lease = lease,
       rr_issues = map (make_issue env) early @ related @ map (make_issue env) unresolved,
       rr_availableActions = (case li_ownerAction lease of None \<Rightarrow> [] | Some a \<Rightarrow> [Lease_Action a]) @ map Runtime_Action actions\<rparr>)"

subsection \<open>Applying an approved action\<close>

record runtime_action_state =
  ras_item :: "queue_item option"
  ras_attempt :: "attempt_manifest option"
  ras_cleanup :: "attempt_cleanup_record option"
  ras_evidenceToken :: string

definition action_state ::
  "reconcile_env \<Rightarrow> runtime_action_kind \<Rightarrow> queue_item option \<Rightarrow> attempt_manifest option \<Rightarrow> attempt_cleanup_record option \<Rightarrow>
   runtime_action_state" where
  "action_state env kind item attempt cleanup = \<lparr>ras_item = item, ras_attempt = attempt, ras_cleanup = cleanup,
     ras_evidenceToken = stateEvidenceToken env kind item attempt cleanup\<rparr>"

definition q_read :: "string \<Rightarrow> (reconcile_state, queue_item) act" where
  "q_read jobId = on_disp (queue_read jobId)"

definition a_read :: "string \<Rightarrow> (reconcile_state, attempt_manifest) act" where
  "a_read attemptId = on_disp (on_cond (getAttempt attemptId))"

definition c_read :: "string \<Rightarrow> (reconcile_state, attempt_cleanup_record) act" where
  "c_read attemptId = on_disp (on_cond (getAttemptCleanup attemptId))"

fun readRuntimeActionState :: "reconcile_env \<Rightarrow> runtime_proposal \<Rightarrow> (reconcile_state, runtime_action_state) act" where
  "readRuntimeActionState env (Reset_Proposal b r st) =
     bindA (q_read (pb_jobId b)) (\<lambda>item. ret (action_state env RK_Reset (Some item) None None))"
| "readRuntimeActionState env (Quarantine_Proposal b r st a) =
     bindA (q_read (pb_jobId b)) (\<lambda>item. ret (action_state env RK_Quarantine (Some item) None None))"
| "readRuntimeActionState env (Bind_Proposal b r a ar d) =
     bindA (q_read (pb_jobId b)) (\<lambda>item.
     bindA (a_read a) (\<lambda>attempt. ret (action_state env RK_Bind (Some item) (Some attempt) None)))"
| "readRuntimeActionState env (Synchronize_Proposal b r a ar cr) =
     bindA (q_read (pb_jobId b)) (\<lambda>item.
     bindA (a_read a) (\<lambda>attempt.
     bindA (c_read a) (\<lambda>cleanup. ret (action_state env RK_Synchronize (Some item) (Some attempt) (Some cleanup)))))"
| "readRuntimeActionState env (Recover_Proposal b a ar cr) =
     bindA (a_read a) (\<lambda>attempt.
     bindA (c_read a) (\<lambda>cleanup. ret (action_state env RK_Recover None (Some attempt) (Some cleanup))))"

definition requiredItem :: "runtime_action_state \<Rightarrow> err + queue_item" where
  "requiredItem st = (case ras_item st of None \<Rightarrow> Inl (Error ''Reconciliation queue evidence is missing'') | Some i \<Rightarrow> Inr i)"

definition requiredAttempt :: "runtime_action_state \<Rightarrow> err + attempt_manifest" where
  "requiredAttempt st = (case ras_attempt st of None \<Rightarrow> Inl (Error ''Reconciliation attempt evidence is missing'') | Some a \<Rightarrow> Inr a)"

definition requiredCleanup :: "runtime_action_state \<Rightarrow> err + attempt_cleanup_record" where
  "requiredCleanup st = (case ras_cleanup st of None \<Rightarrow> Inl (Error ''Reconciliation cleanup evidence is missing'') | Some c \<Rightarrow> Inr c)"

definition q_reconcile ::
  "reconcile_env \<Rightarrow> queue_item \<Rightarrow> (queue_item \<Rightarrow> queue_item) \<Rightarrow> queue_action \<Rightarrow> (reconcile_state, queue_item) act" where
  "q_reconcile env item patch action =
     on_disp (on_queue (reconcile_item (dv_queueFp (rx_disp env)) (dnow (rx_disp env)) item patch action))"

definition reset_patch :: "queue_item \<Rightarrow> queue_item" where
  "reset_patch i = i\<lparr>qi_status := QQueued, qi_dispatchOperationId := None, qi_attemptId := None, qi_completion := None,
     qi_message := Some ''Owner-approved reconciliation cleared abandoned dispatch evidence''\<rparr>"

definition quarantine_patch :: "queue_item \<Rightarrow> queue_item" where
  "quarantine_patch i = i\<lparr>qi_status := QNeedsInput, qi_dispatchOperationId := None, qi_attemptId := None, qi_completion := None,
     qi_message := Some ''Owner-approved reconciliation quarantined an untrusted queue-to-attempt relationship''\<rparr>"

definition bind_patch :: "string \<Rightarrow> string \<Rightarrow> queue_item \<Rightarrow> queue_item" where
  "bind_patch operation attemptId i = i\<lparr>qi_status := QRunning, qi_dispatchOperationId := Some operation, qi_attemptId := Some attemptId,
     qi_completion := None, qi_message := Some ''Owner-approved reconciliation restored the exact dispatch binding''\<rparr>"

definition completion_patch :: "queue_completion_projection \<Rightarrow> queue_item \<Rightarrow> queue_item" where
  "completion_patch p i = i\<lparr>qi_status := qp_status p, qi_attemptId := Some (qp_attemptId p), qi_completion := Some (qp_completion p),
     qi_message := qp_message p\<rparr>"

definition recovery_outcome :: "string \<Rightarrow> disposition \<times> attempt_manifest \<Rightarrow> attempt_cleanup_record \<Rightarrow> evidence_disposition \<times> string" where
  "recovery_outcome attemptId recovery cleanup =
     (case recovery of (disposition, manifest) \<Rightarrow>
      if disposition \<in> {D_Terminal, D_Safe_To_Retry} \<and> isAttemptTerminal (am_status manifest) \<and>
         cr_status cleanup \<in> {C_NotRequired, C_Proven}
      then (Disposition_Applied, ''Attempt '' @ attemptId @ '' is terminal with '' @ cleanup_status_name (cr_status cleanup) @ '' cleanup'')
      else (Disposition_Blocked,
        if disposition = D_Still_Running
        then ''Attempt '' @ attemptId @ '' still has a live process owner; retry remains prohibited''
        else ''Attempt '' @ attemptId @ '' cleanup is '' @ cleanup_status_name (cr_status cleanup)
          @ ''; additional process or resource absence evidence is required''))"

fun executeRuntimeAction ::
  "reconcile_env \<Rightarrow> runtime_proposal \<Rightarrow> runtime_action_state \<Rightarrow> (reconcile_state, evidence_disposition \<times> string) act" where
  "executeRuntimeAction env (Reset_Proposal b r os) st =
     bindA (liftE (requiredItem st)) (\<lambda>item.
     bindA (q_reconcile env item reset_patch Reset_Abandoned) (\<lambda>_.
     ret (Disposition_Applied, ''Queue item '' @ pb_jobId b @ '' returned to queued without inventing an attempt'')))"
| "executeRuntimeAction env (Quarantine_Proposal b r os a) st =
     bindA (liftE (requiredItem st)) (\<lambda>item.
     bindA (q_reconcile env item quarantine_patch Quarantine_Item) (\<lambda>_.
     ret (Disposition_Applied, ''Queue item '' @ pb_jobId b @ '' quarantined; prior relationship remains in its revision journal'')))"
| "executeRuntimeAction env (Bind_Proposal b r a ar d) st =
     bindA (liftE (requiredItem st)) (\<lambda>item.
     bindA (q_reconcile env item (bind_patch d a) Bind_To_Attempt) (\<lambda>_.
     ret (Disposition_Applied, ''Queue item '' @ pb_jobId b @ '' rebound to '' @ a)))"
| "executeRuntimeAction env (Synchronize_Proposal b r a ar cr) st =
     bindA (liftE (requiredItem st)) (\<lambda>item.
     bindA (liftE (requiredAttempt st)) (\<lambda>attempt.
     bindA (liftE (requiredCleanup st)) (\<lambda>cleanup.
     bindA (guardA (isAttemptTerminal (am_status attempt))
       (ReconciliationConflictError (''Attempt '' @ am_attemptId attempt @ '' is no longer terminal'') False)) (\<lambda>_.
     bindA (q_reconcile env item (completion_patch (projectQueueCompletion (attempt_evidence attempt cleanup) (dnow (rx_disp env))))
       Synchronize_Terminal) (\<lambda>_.
     ret (Disposition_Applied, ''Queue item '' @ pb_jobId b @ '' synchronized from immutable attempt and cleanup evidence''))))))"
| "executeRuntimeAction env (Recover_Proposal b a ar cr) st =
     bindA (on_disp (on_cond (recoverInterruptedAttempt (dv_cond (rx_disp env)) a))) (\<lambda>recovery.
     bindA (c_read a) (\<lambda>cleanup. ret (recovery_outcome a recovery cleanup)))"

text \<open>What is taken as proof that an earlier application got through, when the evidence has moved on.\<close>

definition cleared :: "queue_status \<Rightarrow> queue_item \<Rightarrow> bool" where
  "cleared st item = (qi_status item = st \<and> \<not> truthy (qi_dispatchOperationId item) \<and> \<not> truthy (qi_attemptId item) \<and>
     qi_completion item = None)"

definition recovered_attempt ::
  "nat \<Rightarrow> attempt_manifest \<Rightarrow> attempt_cleanup_record \<Rightarrow> (evidence_disposition \<times> string) option" where
  "recovered_attempt expectedCleanupRevision attempt cleanup =
     (let a = am_attemptId attempt; st = cleanup_status_name (cr_status cleanup) in
      if isAttemptTerminal (am_status attempt) then
        Some (if cr_status cleanup \<in> {C_NotRequired, C_Proven}
          then (Disposition_Applied, ''Recovered terminal orphan repair for '' @ a)
          else (Disposition_Blocked, ''Attempt '' @ a @ '' is terminal but cleanup is '' @ st))
      else if cr_revision cleanup \<noteq> expectedCleanupRevision then
        Some (Disposition_Blocked, ''Attempt '' @ a @ '' remains nonterminal and cleanup is '' @ st)
      else None)"

fun runtimeActionPostcondition ::
  "runtime_proposal \<Rightarrow> runtime_action_state \<Rightarrow> err + (evidence_disposition \<times> string) option" where
  "runtimeActionPostcondition (Reset_Proposal b r os) st =
     (case requiredItem st of
        Inl e \<Rightarrow> Inl e
      | Inr item \<Rightarrow> Inr (if cleared QQueued item
          then Some (Disposition_Applied, ''Recovered completed reset of queue item '' @ qi_jobId item) else None))"
| "runtimeActionPostcondition (Quarantine_Proposal b r os a) st =
     (case requiredItem st of
        Inl e \<Rightarrow> Inl e
      | Inr item \<Rightarrow> Inr (if cleared QNeedsInput item
          then Some (Disposition_Applied, ''Recovered completed quarantine of queue item '' @ qi_jobId item) else None))"
| "runtimeActionPostcondition (Bind_Proposal b r a ar d) st =
     (case requiredItem st of
        Inl e \<Rightarrow> Inl e
      | Inr item \<Rightarrow> Inr (if qi_status item = QRunning \<and> qi_attemptId item = Some a \<and> qi_dispatchOperationId item = Some d
          then Some (Disposition_Applied, ''Recovered completed binding of '' @ qi_jobId item @ '' to '' @ a) else None))"
| "runtimeActionPostcondition (Synchronize_Proposal b r a ar cr) st =
     (case (requiredItem st, requiredAttempt st, requiredCleanup st) of
        (Inr item, Inr attempt, Inr cleanup) \<Rightarrow>
          Inr (if isAttemptTerminal (am_status attempt) \<and> queueMatchesAttempt item attempt cleanup
            then Some (Disposition_Applied, ''Recovered completed queue synchronization for '' @ qi_jobId item) else None)
      | (Inl e, _, _) \<Rightarrow> Inl e
      | (_, Inl e, _) \<Rightarrow> Inl e
      | (_, _, Inl e) \<Rightarrow> Inl e)"
| "runtimeActionPostcondition (Recover_Proposal b a ar cr) st =
     (case (requiredAttempt st, requiredCleanup st) of
        (Inr attempt, Inr cleanup) \<Rightarrow> Inr (recovered_attempt cr attempt cleanup)
      | (Inl e, _) \<Rightarrow> Inl e
      | (_, Inl e) \<Rightarrow> Inl e)"

text \<open>The rename of the staging directory fails exactly when the operation's directory exists.\<close>

definition persistActionIntent :: "string \<Rightarrow> reconciliation_action \<Rightarrow> timestamp \<Rightarrow> (reconcile_state, unit) act" where
  "persistActionIntent operationId action now s =
     (case map_of (rc_actions s) operationId of
        None \<Rightarrow> (Inr (), s\<lparr>rc_actions := (operationId,
          \<lparr>xd_intent = Some (Parsed \<lparr>ai_operationId = operationId, ai_recordedAt = now, ai_action = action\<rparr>), xd_result = None\<rparr>)
            # rc_actions s\<rparr>)
      | Some d \<Rightarrow>
          (case xd_intent d of
             None \<Rightarrow> (Inl (NodeError ''ENOTEMPTY''), s)
           | Some Unparsable \<Rightarrow> (Inl ZodError, s)
           | Some (Parsed existing) \<Rightarrow>
               if ai_operationId existing \<noteq> operationId \<or> ai_action existing \<noteq> action
               then (Inl (ReconciliationConflictError
                 (''Reconciliation operation identity '' @ operationId @ '' belongs to different evidence'') False), s)
               else (Inr (), s)))"

definition read_result :: "string \<Rightarrow> reconcile_state \<Rightarrow> err + runtime_evidence option" where
  "read_result operationId s =
     (case map_of (rc_actions s) operationId of
        None \<Rightarrow> Inr None
      | Some d \<Rightarrow> (case xd_result d of None \<Rightarrow> Inr None | Some Unparsable \<Rightarrow> Inl ZodError | Some (Parsed e) \<Rightarrow> Inr (Some e)))"

definition write_result :: "string \<Rightarrow> runtime_evidence \<Rightarrow> (reconcile_state, unit) act" where
  "write_result operationId evidence s =
     (let d = (case map_of (rc_actions s) operationId of None \<Rightarrow> \<lparr>xd_intent = None, xd_result = None\<rparr> | Some d \<Rightarrow> d) in
      (Inr (), s\<lparr>rc_actions := AList.update operationId (d\<lparr>xd_result := Some (Parsed evidence)\<rparr>) (rc_actions s)\<rparr>))"

definition operation_path :: "reconcile_env \<Rightarrow> string \<Rightarrow> string \<Rightarrow> string" where
  "operation_path env operationId name =
     path_join (path_join (path_join (rx_root env) ''reconciliation-actions'') operationId) name"

definition not_offered :: "reconcile_env \<Rightarrow> runtime_proposal \<Rightarrow> (reconcile_state, unit) act" where
  "not_offered env proposal =
     bindA (readRuntimeActionState env proposal) (\<lambda>current.
     bindA (liftE (runtimeActionPostcondition proposal current)) (\<lambda>post.
     guardA (post \<noteq> None) (ReconciliationConflictError (''Runtime reconciliation action '' @ runtime_action_kind_name (rp_kind proposal)
       @ '' is not offered for the current evidence'') False)))"

definition take_lease :: "reconcile_env \<Rightarrow> string \<Rightarrow> timestamp \<Rightarrow> (reconcile_state, dispatcher_lease) act" where
  "take_lease env operationId now =
     bindA getA (\<lambda>s.
     let st = li_state (inspectLease (dv_lease (rx_disp env)) (rx_leaseMs env) now (ds_leases (rc_disp s))) in
     bindA (guardA (st \<in> {L_Absent, L_RecoverableDeadLocal}) (ReconciliationConflictError
       (''Runtime state reconciliation requires an unowned queue; lease is '' @ lease_state_name st) True)) (\<lambda>_.
     bindA (on_disp (on_leases (acquireLease 2 (dv_lease (rx_disp env)) (''reconciliation-'' @ take 16 operationId) (rx_leaseMs env) now)))
       (\<lambda>lease.
     case lease of
       None \<Rightarrow> raise (ReconciliationConflictError ''A dispatcher acquired authority before the reconciliation action'' True)
     | Some l \<Rightarrow> ret l)))"

text \<open>The mutation, or the proof that it happened before.\<close>

definition perform_action ::
  "reconcile_env \<Rightarrow> runtime_proposal \<Rightarrow> (reconcile_state, evidence_disposition \<times> string) act" where
  "perform_action env proposal =
     bindA (readRuntimeActionState env proposal) (\<lambda>current.
     if ras_evidenceToken current \<noteq> rp_evidenceToken proposal then
       bindA (liftE (runtimeActionPostcondition proposal current)) (\<lambda>recovered.
       case recovered of
         None \<Rightarrow> raise (ReconciliationConflictError (''Runtime state changed after '' @ runtime_action_kind_name (rp_kind proposal)
           @ '' was proposed'') False)
       | Some r \<Rightarrow> ret r)
     else
       bindA (others_act env 3) (\<lambda>_.
       bindA (executeRuntimeAction env proposal current) (\<lambda>applied.
       bindA (case rx_actionFailpoint env proposal of None \<Rightarrow> ret () | Some e \<Rightarrow> raise e) (\<lambda>_.
       ret applied))))"

definition record_action ::
  "reconcile_env \<Rightarrow> string \<Rightarrow> runtime_proposal \<Rightarrow> evidence_disposition \<times> string \<Rightarrow> (reconcile_state, runtime_evidence) act" where
  "record_action env operationId proposal applied =
     bindA (readRuntimeActionState env proposal) (\<lambda>after.
     let evidence = \<lparr>ve_evidenceId = rx_evidenceId env, ve_operationId = operationId, ve_actionKind = rp_kind proposal,
           ve_disposition = fst applied, ve_recordedAt = dnow (rx_disp env), ve_beforeEvidenceToken = rp_evidenceToken proposal,
           ve_detail = snd applied, ve_actionPath = operation_path env operationId ''action.json'',
           ve_resultPath = operation_path env operationId ''result.json'',
           ve_queueRevision = map_option qi_revision (ras_item after), ve_attemptRevision = map_option am_revision (ras_attempt after),
           ve_cleanupRevision = map_option cr_revision (ras_cleanup after)\<rparr> in
     bindA (write_result operationId evidence) (\<lambda>_. ret evidence))"

definition applyRuntimeAction ::
  "reconcile_env \<Rightarrow> reconciliation_action \<Rightarrow> runtime_proposal \<Rightarrow> timestamp \<Rightarrow> (reconcile_state, runtime_evidence) act" where
  "applyRuntimeAction env action proposal now =
     (let operationId = rsha env (rx_actionJson env action) in
      bindA (persistActionIntent operationId action now) (\<lambda>_.
      bindA (readsA (read_result operationId)) (\<lambda>replay.
      case replay of
        Some evidence \<Rightarrow> ret evidence
      | None \<Rightarrow>
          bindA (others_act env 0) (\<lambda>_.
          bindA getA (\<lambda>s.
          bindA (if Runtime_Action proposal \<in> set (rr_availableActions (inspect_runtime env now (rc_disp s))) then ret ()
                 else not_offered env proposal) (\<lambda>_.
          bindA (others_act env 1) (\<lambda>_.
          bindA (take_lease env operationId now) (\<lambda>lease.
          finallyA
            (bindA (others_act env 2) (\<lambda>_.
             bindA (perform_action env proposal) (\<lambda>applied.
             record_action env operationId proposal applied)))
            (on_disp (on_leases (releaseLease lease)))))))))))"

datatype applied_evidence = Lease_Evidence lease_evidence_record | Runtime_Evidence runtime_evidence

record apply_result =
  apr_action :: reconciliation_action
  apr_evidence :: applied_evidence
  apr_report :: runtime_report

definition apply_action :: "reconcile_env \<Rightarrow> reconciliation_action \<Rightarrow> timestamp \<Rightarrow> (reconcile_state, apply_result) act" where
  "apply_action env action now =
     bindA (guardA (reconciliationAction_valid action) ZodError) (\<lambda>_.
     bindA (case ra_proposal action of
         Lease_Action p \<Rightarrow>
           bindA (on_disp (on_leases (quarantineUnreadableLease (dv_lease (rx_disp env)) p (ra_approval action) (rx_leaseMs env) now)))
             (\<lambda>e. ret (Lease_Evidence e))
       | Runtime_Action p \<Rightarrow> bindA (applyRuntimeAction env action p now) (\<lambda>e. ret (Runtime_Evidence e))) (\<lambda>evidence.
     bindA getA (\<lambda>s.
     ret \<lparr>apr_action = action, apr_evidence = evidence, apr_report = inspect_runtime env now (rc_disp s)\<rparr>)))"

end
