(* ===== verification/Sandbox_Properties.thy ===== *)
theory Sandbox_Properties
  imports Sandbox
begin

text \<open>
  What confines a command: the container of a sandboxed one, and the environment a command on the
  host inherits.
\<close>

subsection \<open>Confinement\<close>

lemma split_on_none: "sep \<notin> set a \<Longrightarrow> split_on sep a = [a]"
  by (induction a) auto

lemma split_on_append: "sep \<notin> set a \<Longrightarrow> split_on sep (a @ sep # b) = a # split_on sep b"
  by (induction a) auto

lemma split_on_segments: "seg \<in> set (split_on sep s) \<Longrightarrow> sep \<notin> set seg"
  by (induction s arbitrary: seg) (auto split: if_splits list.splits)

lemma split_on_join:
  "xs \<noteq> [] \<Longrightarrow> (\<And>x. x \<in> set xs \<Longrightarrow> sep \<notin> set x) \<Longrightarrow> split_on sep (join [sep] xs) = xs"
proof (induction xs)
  case (Cons x xs)
  then show ?case by (cases xs) (simp_all add: split_on_append split_on_none)
qed simp

lemma resolve_from_segments:
  assumes "\<And>x. x \<in> set here \<Longrightarrow> P x" and "\<And>x. x \<in> set segs \<Longrightarrow> x \<noteq> [] \<Longrightarrow> x \<noteq> ''.'' \<Longrightarrow> x \<noteq> ''..'' \<Longrightarrow> P x"
    and "y \<in> set (resolve_from here segs)"
  shows "P y"
  using assms
proof (induction here segs rule: resolve_from.induct)
  case (2 here s ss)
  consider (skip) "s = [] \<or> s = ''.''" | (up) "s = ''..''" | (down) "s \<noteq> []" "s \<noteq> ''.''" "s \<noteq> ''..''" by blast
  then show ?case
  proof cases
    case skip
    then show ?thesis using 2 by auto
  next
    case up
    then have "y \<in> set (resolve_from (butlast here) ss)" using 2(6) by simp
    moreover have "P x" if "x \<in> set (butlast here)" for x using that 2(4) by (blast dest: in_set_butlastD)
    ultimately show ?thesis using 2(2) up 2(5) by simp
  next
    case down
    then show ?thesis using 2 by (auto split: if_splits)
  qed
qed auto

lemma posix_resolve_no_parent: "''..'' \<notin> set (split_on (CHR ''/'') (posix_resolve base p))"
proof -
  let ?here = "if prefix ''/'' p then [] else resolve_from [] (split_on (CHR ''/'') base)"
  let ?segs = "resolve_from ?here (split_on (CHR ''/'') p)"
  let ?P = "\<lambda>x. x \<noteq> ''..'' \<and> CHR ''/'' \<notin> set x"
  have seg: "?P x" if "x \<in> set (split_on (CHR ''/'') v)" "x \<noteq> ''..''" for x v
    using that split_on_segments by blast
  have "?P x" if "x \<in> set ?here" for x
    using that resolve_from_segments [of "[]" ?P "split_on (CHR ''/'') base" x] seg by (auto split: if_splits)
  then have P: "?P x" if "x \<in> set ?segs" for x
    using that resolve_from_segments [of ?here ?P "split_on (CHR ''/'') p" x] seg by blast
  have sp: "split_on (CHR ''/'') (CHR ''/'' # v) = [] # split_on (CHR ''/'') v" for v by simp
  show ?thesis
  proof (cases "?segs = []")
    case True
    then show ?thesis by (simp add: posix_resolve_def Let_def split del: if_split)
  next
    case False
    have "split_on (CHR ''/'') (join [CHR ''/''] ?segs) = ?segs"
      by (rule split_on_join [OF False]) (use P in blast)
    then show ?thesis using P by (auto simp: posix_resolve_def sp split del: if_split)
  qed
qed

text \<open>
  C39. A sandboxed command is confined: it is built only for an executable of the profile's list and
  with no inherited environment; it runs without network, on a read-only root, without
  capabilities and privilege escalation; its working directory lies in the workspace mount and
  names no parent directory; the single bind mount shares exactly the work tree, since its path
  cannot smuggle in further mount options.
\<close>

theorem sandbox_command_confined:
  assumes valid: "sandboxBinding_valid b"
    and built: "buildSandboxedCommand sha256 showNumber win32 now b command workspacePath cleanupCwd relativeCwd identity = Inr si"
  shows "cs_executable command \<in> set (sb_allowedExecutables b) \<and> pi_env (si_invocation si) = [] \<and> cs_inheritEnv command = [] \<and>
    (\<exists>cwd mount opts.
       pi_args (si_invocation si) = [''run'', ''--name'', si_containerName si, ''--pull'', ''never'', ''--network'', ''none'', ''--read-only'',
         ''--cap-drop'', ''ALL'', ''--security-opt'', ''no-new-privileges=true''] @ opts @ [''--workdir'', cwd, ''--mount'', mount,
         ''--tmpfs'', ''/tmp:rw,noexec,nosuid,nodev,size='' @ show_int (sb_tmpfsBytes b), sb_image b, cs_executable command] @ cs_args command \<and>
       length opts = 10 \<and> ''--mount'' \<notin> {opts ! 0, opts ! 2, opts ! 4, opts ! 6, opts ! 8} \<and>
       split_on (CHR '','') mount = [''type=bind'', ''source='' @ workspacePath, ''target=/workspace''] \<and>
       (cwd = ''/workspace'' \<or> prefix ''/workspace/'' cwd) \<and> ''..'' \<notin> set (split_on (CHR ''/'') cwd))"
proof -
  have m: "sb_workspaceMount b = ''/workspace''" using valid by (simp add: sandboxBinding_valid_def)
  let ?cwd = "posix_resolve (sb_workspaceMount b) (to_portable (case relativeCwd of None \<Rightarrow> ''.'' | Some r \<Rightarrow> r))"
  note D = buildSandboxedCommand_def [of sha256 showNumber win32 now b command workspacePath cleanupCwd relativeCwd identity]
  have cmd: "validateSandboxCommand b command = Inr ()"
    using built by (cases "validateSandboxCommand b command") (simp_all add: D)
  have ws: "CHR '','' \<notin> set workspacePath"
    using built cmd by (auto simp: D list_ex_iff split: if_splits)
  have guards: "host_isAbsolute win32 cleanupCwd"
    "\<not> list_ex (\<lambda>c. c \<in> {CHR '','', CHR 0x0D, CHR 0x0A}) workspacePath"
    "?cwd = sb_workspaceMount b \<or> prefix (sb_workspaceMount b @ ''/'') ?cwd"
    using built cmd by (auto simp: D Let_def split: if_splits)
  then have cwd: "?cwd = ''/workspace'' \<or> prefix ''/workspace/'' ?cwd" by (simp add: m)
  have inv: "pi_args (si_invocation si) = docker_args showNumber b (si_containerName si) ?cwd workspacePath command"
      "pi_env (si_invocation si) = []"
    using built cmd guards by (auto simp: D Let_def)
  have "split_on (CHR '','') (''type=bind,source='' @ workspacePath @ '',target=/workspace'') =
      [''type=bind'', ''source='' @ workspacePath, ''target=/workspace'']"
    using ws split_on_append [of "CHR '',''" "''source='' @ workspacePath" "''target=/workspace''"] by simp
  moreover have "cs_executable command \<in> set (sb_allowedExecutables b)" "cs_inheritEnv command = []"
    using cmd by (auto simp: validateSandboxCommand_def split: if_splits)
  ultimately show ?thesis
    using inv cwd posix_resolve_no_parent
    by (intro conjI exI [of _ ?cwd] exI [of _ "''type=bind,source='' @ workspacePath @ '',target=/workspace''"]
        exI [of _ "[''--pids-limit'', show_int (sb_pidsLimit b), ''--memory'', show_int (sb_memoryBytes b) @ ''b'',
          ''--cpus'', showNumber (sb_cpus b), ''--user'', sb_user b, ''--ipc'', ''none'']"])
      (simp_all add: docker_args_def m)
qed

definition sample_binding :: sandbox_binding where
  "sample_binding = \<lparr>sb_profileId = ''p'', sb_profileFingerprint = ''f'', sb_driver = ''docker'', sb_dockerExecutable = ''/usr/bin/docker'',
     sb_image = ''img@sha256:0'', sb_minimumEngineVersion = ''20.10.0'', sb_allowedExecutables = [''/bin/make''], sb_user = ''1000:1000'',
     sb_workspaceMount = ''/workspace'', sb_memoryBytes = 134217728, sb_cpus = 1, sb_pidsLimit = 64, sb_tmpfsBytes = 1048576\<rparr>"

definition sample_command :: command_spec where
  "sample_command = \<lparr>cs_executable = ''/bin/make'', cs_args = [''test''], cs_cwd = Some ''pkg'', cs_inheritEnv = [], cs_timeoutMs = None\<rparr>"

theorem sandbox_command_confined_witness:
  "\<exists>si mount. buildSandboxedCommand (\<lambda>x. x) (\<lambda>_. ''1'') False 3 sample_binding sample_command ''/w'' ''/r'' (Some ''pkg'') ''id'' = Inr si \<and>
     pi_env (si_invocation si) = [] \<and> split_on (CHR '','') mount = [''type=bind'', ''source=/w'', ''target=/workspace'']"
proof -
  have v: "sandboxBinding_valid sample_binding"
    by (simp add: sandboxBinding_valid_def sample_binding_def is_safe_segment_def safe_chars_def in_range_def)
  obtain si where b: "buildSandboxedCommand (\<lambda>x. x) (\<lambda>_. ''1'') False 3 sample_binding sample_command ''/w'' ''/r'' (Some ''pkg'') ''id'' = Inr si"
    by (simp add: buildSandboxedCommand_def validateSandboxCommand_def sample_binding_def sample_command_def Let_def
        host_isAbsolute_def posix_isAbsolute_def posix_resolve_def to_portable_def)
  have "pi_env (si_invocation si) = [] \<and> (\<exists>mount. split_on (CHR '','') mount = [''type=bind'', ''source='' @ ''/w'', ''target=/workspace''])"
    using sandbox_command_confined [OF v b] by blast
  then show ?thesis using b by auto
qed

subsection \<open>The inherited environment\<close>

lemma set_update_same: "(\<And>v'. (k, v') \<in> set xs \<Longrightarrow> v' = v) \<Longrightarrow> set (AList.update k v xs) = insert (k, v) (set xs)"
  by (induction xs) auto

lemma js_unique_set [simp]: "set (js_unique xs) = set xs"
  by (simp add: js_unique_def)

lemma foldl_select:
  assumes "distinct (map fst penv)" and "set sel \<subseteq> set penv"
  shows "set (foldl (select_entry win32 penv) sel ks) = set sel \<union> {e. \<exists>r\<in>set ks. findEnvironmentEntry win32 penv r = Some e}"
  using assms(2)
proof (induction ks arbitrary: sel)
  case (Cons r ks)
  show ?case
  proof (cases "findEnvironmentEntry win32 penv r")
    case None
    then show ?thesis using Cons by (auto simp: select_entry_def)
  next
    case (Some e)
    obtain k v where e: "e = (k, v)" by fastforce
    have "e \<in> set penv" using Some by (metis findEnvironmentEntry_def find_Some_iff nth_mem)
    then have "set (AList.update k v sel) = insert e (set sel)"
      unfolding e using Cons.prems assms(1) by (intro set_update_same) (auto dest: eq_key_imp_eq_value)
    then show ?thesis using Cons.IH [of "AList.update k v sel"] Cons.prems \<open>e \<in> set penv\<close> Some e
      by (auto simp: select_entry_def)
  qed
qed simp

text \<open>
  A command on the host sees exactly the variables it asked for and the host has, each with the
  host's value.
\<close>

lemma environment_exactly_requested:
  assumes "distinct (map fst penv)"
  shows "set (selectRequestedEnvironment win32 penv keys) = {e. \<exists>r\<in>set keys. findEnvironmentEntry win32 penv r = Some e}"
  unfolding selectRequestedEnvironment_def using foldl_select [OF assms, of "[]" win32 "js_unique keys"] by simp

lemma environment_names:
  assumes "distinct (map fst penv)" and "(k, v) \<in> set (selectRequestedEnvironment win32 penv keys)"
  shows "(k, v) \<in> set penv \<and> env_name win32 k \<in> env_name win32 ` set keys"
  using assms unfolding environment_exactly_requested [OF assms(1)] findEnvironmentEntry_def
  by (auto simp: find_Some_iff) (metis nth_mem)

end
