(* ===== verification/Commands.thy ===== *)
theory Commands
  imports Conductor Sandbox_Properties
begin

text \<open>
  Running the commands of a job (\<open>src/src/verification/command-executor.ts\<close> and the command sequence of
  \<open>src/src/orchestrator/conductor.ts\<close>): the owner's policy on executables and environment names, the
  check that a working directory stays inside the work tree, one command on the host or in its
  container, and a phase of commands that stops at the first one that does not pass.

  The state is the caller's. What the command reaches outside the process is a \<open>command_host\<close>: the
  clock, the file system's \<open>realpath\<close>, whether the attempt is aborted by now, and the process runner,
  which first reports the guardian of the process and then its result or its error. The callbacks
  are the conductor's. Host paths follow POSIX rules.
\<close>

subsection \<open>The execution policy\<close>

record execution_policy =
  xp_executables :: "string list"
  xp_environmentNames :: "string list"

definition normalizePolicyValue :: "bool \<Rightarrow> string \<Rightarrow> string" where
  "normalizePolicyValue win32 v = (if win32 then map lower_char v else v)"

definition normalizeEnvironmentName :: "bool \<Rightarrow> string \<Rightarrow> string" where
  "normalizeEnvironmentName win32 v = (if win32 then map upper_char v else v)"

definition new_ExecutionPolicy :: "bool \<Rightarrow> string list \<Rightarrow> string list \<Rightarrow> err + execution_policy" where
  "new_ExecutionPolicy win32 allowedExecutables allowedEnvironmentNames =
     (case List.find (\<lambda>e. \<not> host_isAbsolute win32 e) allowedExecutables of
        Some e \<Rightarrow> Inl (Error (''Allowed command executable must be absolute: '' @ e))
      | None \<Rightarrow> Inr \<lparr>xp_executables = js_unique (map (normalizePolicyValue win32) allowedExecutables),
                      xp_environmentNames = js_unique (map (normalizeEnvironmentName win32) allowedEnvironmentNames)\<rparr>)"

definition policy_validate :: "bool \<Rightarrow> execution_policy \<Rightarrow> command_spec \<Rightarrow> err + unit" where
  "policy_validate win32 policy command =
     (if \<not> host_isAbsolute win32 (cs_executable command)
      then Inl (Error (''Command executable must be absolute: '' @ cs_executable command))
      else if normalizePolicyValue win32 (cs_executable command) \<notin> set (xp_executables policy)
      then Inl (Error (''Executable is not allowed by runtime policy: '' @ cs_executable command))
      else case List.find (\<lambda>n. normalizeEnvironmentName win32 n \<notin> set (xp_environmentNames policy)) (cs_inheritEnv command) of
          Some n \<Rightarrow> Inl (Error (''Environment name is not allowed by runtime policy: '' @ n))
        | None \<Rightarrow> Inr ())"

subsection \<open>The host\<close>

record 's command_host =
  ch_win32 :: bool
  ch_cwd :: string
  ch_penv :: "(string \<times> string) list"
  ch_policy :: execution_policy
  ch_sha256 :: "string \<Rightarrow> string"
  ch_showNumber :: "rat \<Rightarrow> string"
  ch_now :: "'s \<Rightarrow> timestamp"
  ch_realpath :: "string \<Rightarrow> ('s, string) act"
  ch_aborted :: "'s \<Rightarrow> bool"
  ch_run :: "process_invocation \<Rightarrow> int \<Rightarrow> ('s, run_outcome) act"

record 's command_callbacks =
  cc_guardian :: "string \<Rightarrow> process_guardian \<Rightarrow> ('s, unit) act"
  cc_result :: "string \<Rightarrow> process_result \<Rightarrow> ('s, unit) act"
  cc_resource :: "external_resource \<Rightarrow> ('s, unit) act"
  cc_released :: "string \<Rightarrow> process_execution_result \<Rightarrow> ('s, unit) act"

record command_phase_input =
  ph_phase :: command_phase
  ph_workspacePath :: string
  ph_artifactDirectory :: string
  ph_defaultTimeoutMs :: int
  ph_deadlineAt :: int
  ph_maxLogBytes :: int
  ph_cleanupTimeoutMs :: int
  ph_boundary :: execution_boundary
  ph_attemptId :: string

fun command_phase_name :: "command_phase \<Rightarrow> string" where
  "command_phase_name Phase_Setup = ''setup''"
| "command_phase_name Phase_Acceptance = ''acceptance''"

text \<open>\<open>path.relative\<close> of two absolute paths.\<close>

definition path_segments :: "string \<Rightarrow> string list" where
  "path_segments p = filter (\<lambda>s. s \<noteq> []) (split_on (CHR ''/'') p)"

definition posix_relative :: "string \<Rightarrow> string \<Rightarrow> string" where
  "posix_relative a b =
     (let c = length (longest_common_prefix (path_segments a) (path_segments b)) in
      join ''/'' (replicate (length (path_segments a) - c) ''..'' @ drop c (path_segments b)))"

definition resolveInsideWorkspace :: "'s command_host \<Rightarrow> string \<Rightarrow> string option \<Rightarrow> ('s, string) act" where
  "resolveInsideWorkspace h wsPath relativeCwd =
     bindA (ch_realpath h (posix_resolve (ch_cwd h) wsPath)) (\<lambda>wsRoot.
     bindA (ch_realpath h (posix_resolve wsRoot (case relativeCwd of None \<Rightarrow> ''.'' | Some r \<Rightarrow> r))) (\<lambda>candidate.
     let rel = posix_relative wsRoot candidate in
     bindA (guardA (\<not> (prefix ''..'' rel \<or> posix_isAbsolute rel))
       (Error (''Command cwd leaves the assigned worktree: '' @ (case relativeCwd of None \<Rightarrow> ''undefined'' | Some r \<Rightarrow> r)))) (\<lambda>_.
     ret candidate)))"

subsection \<open>One command\<close>

definition sandboxEvidenceWithoutContainer :: "sandbox_binding \<Rightarrow> boundary_evidence" where
  "sandboxEvidenceWithoutContainer b = Evidence_Sandbox \<lparr>se_profileId = sb_profileId b,
     se_profileFingerprint = sb_profileFingerprint b, se_image = sb_image b, se_containerName = ''not-started''\<rparr>"

definition boundary_of :: "execution_boundary \<Rightarrow> boundary_evidence" where
  "boundary_of b = (case b of HostWorktree \<Rightarrow> Evidence_HostWorktree | ExternalSandbox x \<Rightarrow> sandboxEvidenceWithoutContainer x)"

definition command_prefix :: "command_phase \<Rightarrow> nat \<Rightarrow> string" where
  "command_prefix phase index = command_phase_name phase @ ''-'' @ padStart 2 (CHR ''0'') (show_nat (index + 1))"

text \<open>The invocation and its boundary evidence, or the refusal.\<close>

definition command_invocation ::
  "'s command_host \<Rightarrow> 's command_callbacks \<Rightarrow> command_phase_input \<Rightarrow> nat \<Rightarrow> command_spec \<Rightarrow> string \<Rightarrow>
   ('s, process_invocation \<times> boundary_evidence) act" where
  "command_invocation h cb p index command resolvedCwd =
     (case ph_boundary p of
        ExternalSandbox b \<Rightarrow>
          bindA getA (\<lambda>s.
          bindA (liftE (buildSandboxedCommand (ch_sha256 h) (ch_showNumber h) (ch_win32 h) (ch_now h s) b command (ph_workspacePath p)
              (ph_artifactDirectory p) (cs_cwd command)
              (ph_attemptId p @ ''-'' @ command_phase_name (ph_phase p) @ ''-'' @ show_nat index))) (\<lambda>si.
          let invocation = (si_invocation si)\<lparr>pi_cleanup := map_option (\<lambda>c. c\<lparr>cl_timeoutMs := ph_cleanupTimeoutMs p,
                cl_maxOutputBytes := Some (ph_maxLogBytes p)\<rparr>) (pi_cleanup (si_invocation si))\<rparr> in
          bindA (cc_resource cb (si_resource si)) (\<lambda>_.
          ret (invocation, Evidence_Sandbox \<lparr>se_profileId = sb_profileId b, se_profileFingerprint = sb_profileFingerprint b,
            se_image = sb_image b, se_containerName = si_containerName si\<rparr>))))
      | HostWorktree \<Rightarrow>
          bindA (liftE (policy_validate (ch_win32 h) (ch_policy h) command)) (\<lambda>_.
          ret (\<lparr>pi_executable = cs_executable command, pi_args = cs_args command, pi_cwd = resolvedCwd,
                pi_env = selectRequestedEnvironment (ch_win32 h) (ch_penv h) (cs_inheritEnv command), pi_cleanup = None\<rparr>,
               Evidence_HostWorktree)))"

definition process_status :: "'r process_execution_result_scheme \<Rightarrow> command_status" where
  "process_status pr =
     (if px_cancelled pr then Cmd_Cancelled else if px_timedOut pr then Cmd_TimedOut
      else if px_exitCode pr = Some 0 then Cmd_Passed else Cmd_Failed)"

text \<open>\<open>runProcess\<close> with the callback of the command: the guardian is registered before the process runs.\<close>

definition run_command ::
  "'s command_host \<Rightarrow> 's command_callbacks \<Rightarrow> command_phase_input \<Rightarrow> string \<Rightarrow> process_invocation \<Rightarrow> boundary_evidence \<Rightarrow> int \<Rightarrow>
   ('s, process_result) act" where
  "run_command h cb p operationId invocation boundaryEvidence timeoutMs =
     bindA (ch_run h invocation timeoutMs) (\<lambda>outcome.
     bindA (case ro_guardian outcome of None \<Rightarrow> ret () | Some g \<Rightarrow> cc_guardian cb operationId g) (\<lambda>_.
     bindA (liftE (ro_result outcome)) (\<lambda>pr.
     bindA (cc_result cb operationId pr) (\<lambda>_.
     case boundaryEvidence of
       Evidence_HostWorktree \<Rightarrow> ret pr
     | Evidence_Sandbox se \<Rightarrow>
         (case pr_cleanup pr of
            None \<Rightarrow> raise (Error ''External sandbox cleanup returned no process evidence'')
          | Some c \<Rightarrow> bindA (cc_released cb (se_containerName se) c) (\<lambda>_. ret pr))))))"

text \<open>\<open>try { m } catch (error)\<close> with both outcomes as a value.\<close>

definition tryA :: "('s, 'a) act \<Rightarrow> ('s, err + 'a) act" where
  "tryA m s = (case m s of (r, t) \<Rightarrow> (Inr r, t))"

definition executeCommand ::
  "'s command_host \<Rightarrow> 's command_callbacks \<Rightarrow> command_phase_input \<Rightarrow> nat \<Rightarrow> command_spec \<Rightarrow> int \<Rightarrow> ('s, command_evidence) act" where
  "executeCommand h cb p index command maximumTimeoutMs =
     (let prefixName = command_prefix (ph_phase p) index;
          stdout = path_join (ph_artifactDirectory p) (prefixName @ ''.stdout.log'');
          stderr = path_join (ph_artifactDirectory p) (prefixName @ ''.stderr.log'');
          base = (\<lambda>cwd boundary status. \<lparr>ev_phase = ph_phase p, ev_index = index, ev_command = command, ev_resolvedCwd = cwd,
            ev_executionBoundary = boundary, ev_status = status, ev_process = None, ev_stdout = None, ev_stderr = None, ev_error = None\<rparr>);
          denied = (\<lambda>cwd e. (base cwd (boundary_of (ph_boundary p)) Cmd_PolicyDenied)\<lparr>ev_error := Some (errorMessage e)\<rparr>);
          lexicalCwd = posix_resolve (posix_resolve (ch_cwd h) (ph_workspacePath p)) (case cs_cwd command of None \<Rightarrow> ''.'' | Some r \<Rightarrow> r)
      in
      bindA (tryA (resolveInsideWorkspace h (ph_workspacePath p) (cs_cwd command))) (\<lambda>cwd.
      case cwd of
        Inl e \<Rightarrow> ret (denied lexicalCwd e)
      | Inr resolvedCwd \<Rightarrow>
          bindA (tryA (command_invocation h cb p index command resolvedCwd)) (\<lambda>built.
          case built of
            Inl e \<Rightarrow> ret (denied resolvedCwd e)
          | Inr (invocation, boundaryEvidence) \<Rightarrow>
              bindA getA (\<lambda>s.
              if ch_aborted h s then ret (base resolvedCwd boundaryEvidence Cmd_Cancelled)
              else
                bindA (tryA (run_command h cb p prefixName invocation boundaryEvidence
                  (min (case cs_timeoutMs command of None \<Rightarrow> ph_defaultTimeoutMs p | Some t \<Rightarrow> t) maximumTimeoutMs))) (\<lambda>outcome.
                case outcome of
                  Inr pr \<Rightarrow> ret ((base resolvedCwd boundaryEvidence (process_status pr))\<lparr>ev_process := Some pr,
                    ev_stdout := Some stdout, ev_stderr := Some stderr\<rparr>)
                | Inl e \<Rightarrow> ret ((base resolvedCwd boundaryEvidence Cmd_Failed)\<lparr>ev_stdout := Some stdout, ev_stderr := Some stderr,
                    ev_error := Some (errorMessage e)\<rparr>))))))"

subsection \<open>A phase of commands\<close>

definition stream_name :: "output_stream \<Rightarrow> string" where
  "stream_name st = (case st of Stdout \<Rightarrow> ''stdout'' | Stderr \<Rightarrow> ''stderr'')"

definition output_limit_of :: "command_evidence \<Rightarrow> output_limit option" where
  "output_limit_of ev = (case ev_process ev of None \<Rightarrow> None | Some pr \<Rightarrow> px_outputLimit pr)"

fun run_commands ::
  "'s command_host \<Rightarrow> 's command_callbacks \<Rightarrow> command_phase_input \<Rightarrow> nat \<Rightarrow> command_spec list \<Rightarrow> command_evidence list \<Rightarrow>
   ('s, command_evidence list) act" where
  "run_commands h cb p index [] evidence = ret evidence"
| "run_commands h cb p index (command # rest) evidence =
     bindA getA (\<lambda>s.
     bindA (liftE (remainingTimeout (ph_deadlineAt p) (ch_now h s))) (\<lambda>maximumTimeoutMs.
     bindA (executeCommand h cb p index command maximumTimeoutMs) (\<lambda>result.
     bindA (case output_limit_of result of
         None \<Rightarrow> ret ()
       | Some l \<Rightarrow> raise (ResourceLimitError (command_prefix (ph_phase p) index @ '' '' @ stream_name (ol_stream l) @ '' exceeded ''
           @ show_nat (ol_limitBytes l) @ '' bytes''))) (\<lambda>_.
     if ev_status result \<noteq> Cmd_Passed then ret (evidence @ [result])
     else run_commands h cb p (Suc index) rest (evidence @ [result])))))"

definition runCommandSequence ::
  "'s command_host \<Rightarrow> 's command_callbacks \<Rightarrow> command_phase_input \<Rightarrow> command_spec list \<Rightarrow> ('s, command_evidence list) act" where
  "runCommandSequence h cb p commands = run_commands h cb p 0 commands []"

end
