(* ===== verification/Workspaces.thy ===== *)
theory Workspaces
  imports Commands
begin

text \<open>
  Git work trees of attempts (\<open>src/src/workspaces/git-workspace.ts\<close>): the tree of an attempt is
  created at the frozen revision and nowhere else, removed only below the managed root, and a
  proposal baseline is composed only from patches whose size and digest are the recorded ones.

  What the manager reaches is a \<open>git_host\<close>: the bounded git command (directory, arguments, input,
  environment), the guarded git command used for removal, \<open>stat\<close>, and reading a file. Strings are the
  bytes of a file, so \<open>byteLength\<close> is the length. Host paths follow POSIX rules.
\<close>

record git_workspace =
  gw_path :: string
  gw_repositoryRoot :: string
  gw_baseRevision :: string
  gw_maxPatchBytes :: "int option"

record 's git_host =
  gh_git :: "string \<Rightarrow> string list \<Rightarrow> string option \<Rightarrow> (string \<times> string) list \<Rightarrow> ('s, string) act"
  gh_cleanupGit :: "string \<Rightarrow> string list \<Rightarrow> ('s, unit) act"
  gh_exists :: "string \<Rightarrow> ('s, bool) act"
  gh_mkdir :: "string \<Rightarrow> ('s, unit) act"
  gh_size :: "string \<Rightarrow> ('s, nat) act"
  gh_read :: "string \<Rightarrow> ('s, string) act"
  gh_realpath :: "string \<Rightarrow> ('s, string) act"
  gh_sha256 :: "string \<Rightarrow> string"
  gh_win32 :: bool

definition gsamePath :: "bool \<Rightarrow> string \<Rightarrow> string \<Rightarrow> bool" where
  "gsamePath win32 a b = (if win32 then map lower_char a = map lower_char b else a = b)"

definition inspectRepository :: "'s git_host \<Rightarrow> string \<Rightarrow> string \<Rightarrow> string \<Rightarrow> ('s, string \<times> string) act" where
  "inspectRepository g cwd repositoryPath baseRef =
     bindA (gh_realpath g (posix_resolve cwd repositoryPath)) (\<lambda>requested.
     bindA (gh_git g requested [''rev-parse'', ''--show-toplevel''] None []) (\<lambda>top.
     let topDir = posix_resolve cwd top in
     bindA (guardA (gsamePath (gh_win32 g) requested topDir)
       (Error (''Repository path must be its Git root: expected '' @ topDir @ '', received '' @ requested))) (\<lambda>_.
     bindA (gh_git g topDir [''rev-parse'', ''--verify'', baseRef @ ''^{commit}''] None []) (\<lambda>revision.
     ret (topDir, revision)))))"

definition targetPath :: "string \<Rightarrow> string \<Rightarrow> err + string" where
  "targetPath wsRoot attemptId =
     (if \<not> is_safe_segment attemptId then Inl (Error (''Unsafe workspace id: '' @ attemptId))
      else Inr (posix_resolve wsRoot attemptId))"

definition createWorkspace :: "'s git_host \<Rightarrow> string \<Rightarrow> string \<Rightarrow> string \<Rightarrow> string \<Rightarrow> int option \<Rightarrow> ('s, git_workspace) act" where
  "createWorkspace g wsRoot repositoryRoot baseRevision attemptId maxPatchBytes =
     bindA (liftE (targetPath wsRoot attemptId)) (\<lambda>target.
     bindA (gh_mkdir g wsRoot) (\<lambda>_.
     bindA (gh_exists g target) (\<lambda>present.
     bindA (guardA (\<not> present) (Error (''Workspace already exists: '' @ target))) (\<lambda>_.
     bindA (gh_git g repositoryRoot [''worktree'', ''add'', ''--detach'', target, baseRevision] None []) (\<lambda>_.
     bindA (gh_git g target [''rev-parse'', ''HEAD''] None []) (\<lambda>actualRevision.
     bindA (guardA (actualRevision = baseRevision)
       (Error (''Worktree revision mismatch: expected '' @ baseRevision @ '', received '' @ actualRevision))) (\<lambda>_.
     ret \<lparr>gw_path = target, gw_repositoryRoot = repositoryRoot, gw_baseRevision = actualRevision,
          gw_maxPatchBytes = maxPatchBytes\<rparr>)))))))"

definition assertManagedPath :: "string \<Rightarrow> string \<Rightarrow> string \<Rightarrow> err + string" where
  "assertManagedPath wsRoot cwd candidate =
     (let resolved = posix_resolve cwd candidate;
          rel = posix_relative wsRoot resolved in
      if rel = [] \<or> prefix ''..'' rel \<or> posix_isAbsolute rel
      then Inl (Error (''Refusing unmanaged workspace path: '' @ candidate))
      else Inr resolved)"

definition removeWorkspace :: "'s git_host \<Rightarrow> string \<Rightarrow> string \<Rightarrow> git_workspace \<Rightarrow> ('s, unit) act" where
  "removeWorkspace g wsRoot cwd w =
     bindA (liftE (assertManagedPath wsRoot cwd (gw_path w))) (\<lambda>expected.
     bindA (gh_exists g expected) (\<lambda>present.
     bindA (if present then gh_cleanupGit g (gw_repositoryRoot w) [''worktree'', ''remove'', ''--force'', expected] else ret ()) (\<lambda>_.
     gh_cleanupGit g (gw_repositoryRoot w) [''worktree'', ''prune''])))"

subsection \<open>Composing a baseline\<close>

definition apply_contribution :: "'s git_host \<Rightarrow> git_workspace \<Rightarrow> proposal_contribution \<Rightarrow> ('s, unit) act" where
  "apply_contribution g w c =
     bindA (gh_size g (pcn_patchPath c)) (\<lambda>recordedSize.
     bindA (guardA (case gw_maxPatchBytes w of None \<Rightarrow> True | Some m \<Rightarrow> int recordedSize \<le> m)
       (Error (''Proposal patch for '' @ pcn_attemptId c @ '' exceeds the child budget''))) (\<lambda>_.
     bindA (gh_read g (pcn_patchPath c)) (\<lambda>patch.
     bindA (guardA (length patch = pcn_patchBytes c) (Error (''Proposal patch size changed for '' @ pcn_attemptId c))) (\<lambda>_.
     bindA (guardA (gh_sha256 g patch = pcn_patchSha256 c) (Error (''Proposal patch hash changed for '' @ pcn_attemptId c))) (\<lambda>_.
     if patch = [] then ret ()
     else bindA (gh_git g (gw_path w) [''apply'', ''--index'', ''--3way'', ''--binary'', ''--whitespace=nowarn'', ''-''] (Some patch) [])
       (\<lambda>_. ret ()))))))"

definition composition_message :: "proposal_contribution list \<Rightarrow> string" where
  "composition_message cs = join [CHR 0x0A] ([''Conductor proposal-only composition'', []]
     @ map (\<lambda>e. pcn_attemptId e @ '' '' @ pcn_patchSha256 e @ '' from '' @ pcn_patchBaseRevision e) cs @ [[]])"

definition composition_env :: "(string \<times> string) list" where
  "composition_env = [(''GIT_AUTHOR_NAME'', ''Conductor''), (''GIT_AUTHOR_EMAIL'', ''conductor@example.invalid''),
     (''GIT_AUTHOR_DATE'', ''2000-01-01T00:00:00 +0000''), (''GIT_COMMITTER_NAME'', ''Conductor''),
     (''GIT_COMMITTER_EMAIL'', ''conductor@example.invalid''), (''GIT_COMMITTER_DATE'', ''2000-01-01T00:00:00 +0000'')]"

definition compose_body :: "'s git_host \<Rightarrow> git_workspace \<Rightarrow> proposal_contribution list \<Rightarrow> ('s, git_workspace) act" where
  "compose_body g w cs =
     bindA (forA (apply_contribution g w) cs) (\<lambda>_.
     bindA (gh_git g (gw_path w) [''write-tree''] None []) (\<lambda>tree.
     bindA (gh_git g (gw_path w) [''commit-tree'', tree, ''-p'', gw_baseRevision w] (Some (composition_message cs)) composition_env)
       (\<lambda>derivedRevision.
     bindA (gh_git g (gw_path w) [''reset'', ''--hard'', derivedRevision] None []) (\<lambda>_.
     ret (w\<lparr>gw_baseRevision := derivedRevision\<rparr>)))))"

definition composeProposalBaseline :: "'s git_host \<Rightarrow> git_workspace \<Rightarrow> proposal_contribution list \<Rightarrow> ('s, git_workspace) act" where
  "composeProposalBaseline g w cs =
     (if cs = [] then ret w
      else
        bindA (gh_git g (gw_path w) [''rev-parse'', ''HEAD''] None []) (\<lambda>actualRevision.
        bindA (guardA (actualRevision = gw_baseRevision w)
          (Error (''Composition workspace moved from '' @ gw_baseRevision w @ '' to '' @ actualRevision))) (\<lambda>_.
        catchA (compose_body g w cs) (\<lambda>e.
          bindA (gh_git g (gw_path w) [''reset'', ''--hard'', gw_baseRevision w] None []) (\<lambda>_.
          raise (Error (''Proposal composition failed: '' @ errorMessage e)))))))"

end
