(* ===== verification/Budget.thy ===== *)
theory Budget
  imports Conductor
begin

text \<open>
  The resource budget of a running attempt (\<open>ResourceBudgetMonitor\<close> and \<open>boundedDirectorySize\<close> of
  \<open>src/src/orchestrator/conductor.ts\<close>): the sizes of the work tree and of the attempt's artifacts and
  the free disk are sampled, and the first excess, or the first probe that fails, stops the attempt.

  A directory is what \<open>readdir\<close> answers when it is visited: its entries, or an error; a file carries
  what \<open>stat\<close> answers. Symbolic links and other entries are neither directories nor files here, as
  for \<open>Dirent\<close>.
\<close>

datatype dir_entry = File_Entry "err + nat" | Dir_Entry "err + dir_entry list" | Other_Entry

type_synonym listing = "err + dir_entry list"

definition vanished :: "err \<Rightarrow> bool" where
  "vanished e = (e = NodeError ''ENOENT'')"

subsection \<open>The bounded walk\<close>

text \<open>
  The inner loop over the entries of one directory: subdirectories are pushed, sizes added; the last
  component tells that the walk returned because the total passed the maximum.
\<close>

fun scan_entries :: "int \<Rightarrow> dir_entry list \<Rightarrow> int \<Rightarrow> listing list \<Rightarrow> err + (int \<times> listing list \<times> bool)" where
  "scan_entries maximum [] tot pending = Inr (tot, pending, False)"
| "scan_entries maximum (entry # entries) tot pending =
     (case entry of
        Dir_Entry d \<Rightarrow> if maximum < tot then Inr (tot, d # pending, True) else scan_entries maximum entries tot (d # pending)
      | File_Entry (Inl e) \<Rightarrow>
          if \<not> vanished e then Inl e
          else if maximum < tot then Inr (tot, pending, True) else scan_entries maximum entries tot pending
      | File_Entry (Inr n) \<Rightarrow>
          if maximum < tot + int n then Inr (tot + int n, pending, True) else scan_entries maximum entries (tot + int n) pending
      | Other_Entry \<Rightarrow> if maximum < tot then Inr (tot, pending, True) else scan_entries maximum entries tot pending)"

primrec weight :: "dir_entry \<Rightarrow> nat" where
  "weight (File_Entry r) = 0"
| "weight (Dir_Entry d) = Suc (case map_sum id (map weight) d of Inl _ \<Rightarrow> 0 | Inr ws \<Rightarrow> sum_list ws)"
| "weight Other_Entry = 0"

definition pending_weight :: "listing list \<Rightarrow> nat" where
  "pending_weight pending = sum_list (map (\<lambda>d. weight (Dir_Entry d)) pending)"

lemma scan_entries_weight:
  "scan_entries maximum entries tot pending = Inr (t, p, b) \<Longrightarrow>
   pending_weight p \<le> pending_weight pending + sum_list (map weight entries)"
  by (induction maximum entries tot pending rule: scan_entries.induct)
    (fastforce simp: pending_weight_def split: dir_entry.splits sum.splits if_splits)+

text \<open>The outer loop; \<open>pending\<close> has the top of the stack first.\<close>

function walk :: "int \<Rightarrow> listing list \<Rightarrow> int \<Rightarrow> err + int" where
  "walk maximum [] tot = Inr tot"
| "walk maximum (current # pending) tot =
     (if maximum < tot then Inr tot
      else case current of
          Inl e \<Rightarrow> if vanished e then walk maximum pending tot else Inl e
        | Inr entries \<Rightarrow>
            (case scan_entries maximum entries tot pending of
               Inl e \<Rightarrow> Inl e
             | Inr (tot', pending', returned) \<Rightarrow> if returned then Inr tot' else walk maximum pending' tot'))"
  by pat_completeness auto
termination
proof (relation "measure (\<lambda>(m, pending, t). pending_weight pending)", goal_cases)
  case (3 maximum current pending tot entries p tot' q pending' returned)
  then show ?case using scan_entries_weight [of maximum entries tot pending tot' pending' returned]
    by (simp add: pending_weight_def)
qed (auto simp: pending_weight_def)

definition boundedDirectorySize :: "listing \<Rightarrow> int \<Rightarrow> err + int" where
  "boundedDirectorySize d maximum = walk maximum [d] 0"

subsection \<open>The monitor\<close>

record budget_sample =
  bs_worktree :: listing
  bs_artifacts :: listing
  bs_freeBytes :: "err + int"

definition over_budget :: "resource_budget \<Rightarrow> budget_sample \<Rightarrow> err + unit" where
  "over_budget r smp =
     (case boundedDirectorySize (bs_worktree smp) (rl_maxWorktreeBytes r) of
        Inl e \<Rightarrow> Inl e
      | Inr worktreeBytes \<Rightarrow>
     (case boundedDirectorySize (bs_artifacts smp) (rl_maxArtifactBytes r) of
        Inl e \<Rightarrow> Inl e
      | Inr artifactBytes \<Rightarrow>
     (case bs_freeBytes smp of
        Inl e \<Rightarrow> Inl e
      | Inr freeBytes \<Rightarrow>
          if rl_maxWorktreeBytes r < worktreeBytes
          then Inl (ResourceLimitError (''worktree exceeded '' @ show_int (rl_maxWorktreeBytes r) @ '' bytes''))
          else if rl_maxArtifactBytes r < artifactBytes
          then Inl (ResourceLimitError (''attempt artifacts exceeded '' @ show_int (rl_maxArtifactBytes r) @ '' bytes''))
          else if freeBytes < rl_minimumFreeDiskBytes r
          then Inl (ResourceLimitError (''free disk fell below '' @ show_int (rl_minimumFreeDiskBytes r) @ '' bytes''))
          else Inr ())))"

text \<open>One \<open>sample\<close>: the failure recorded so far, and afterwards.\<close>

definition monitor_sample :: "resource_budget \<Rightarrow> err option \<Rightarrow> budget_sample \<Rightarrow> err option" where
  "monitor_sample r failure smp =
     (case failure of
        Some e \<Rightarrow> Some e
      | None \<Rightarrow>
          (case over_budget r smp of
             Inr _ \<Rightarrow> None
           | Inl (ResourceLimitError m) \<Rightarrow> Some (ResourceLimitError m)
           | Inl e \<Rightarrow> Some (ResourceLimitError (''resource monitor failed: '' @ errorMessage e))))"

subsection \<open>The walk against the exact size\<close>

primrec entry_size :: "dir_entry \<Rightarrow> nat" where
  "entry_size (File_Entry r) = (case r of Inl _ \<Rightarrow> 0 | Inr n \<Rightarrow> n)"
| "entry_size (Dir_Entry d) = (case map_sum id (map entry_size) d of Inl _ \<Rightarrow> 0 | Inr ns \<Rightarrow> sum_list ns)"
| "entry_size Other_Entry = 0"

primrec readable :: "dir_entry \<Rightarrow> bool" where
  "readable (File_Entry r) = (case r of Inl e \<Rightarrow> vanished e | Inr _ \<Rightarrow> True)"
| "readable (Dir_Entry d) = (case map_sum id (map readable) d of Inl e \<Rightarrow> vanished e | Inr bs \<Rightarrow> list_all id bs)"
| "readable Other_Entry = True"

definition listing_size :: "listing \<Rightarrow> nat" where
  "listing_size d = entry_size (Dir_Entry d)"

definition pending_size :: "listing list \<Rightarrow> nat" where
  "pending_size pending = sum_list (map listing_size pending)"

text \<open>Early or not, the walk reports an excess exactly when there is one, and otherwise the exact size.\<close>

definition bounded_sum :: "int \<Rightarrow> int \<Rightarrow> int \<Rightarrow> bool" where
  "bounded_sum maximum exact r \<longleftrightarrow> r \<le> exact \<and> (maximum < r \<or> r = exact)"

definition all_readable :: "listing list \<Rightarrow> bool" where
  "all_readable pending = list_all (\<lambda>d. readable (Dir_Entry d)) pending"

definition scan_post :: "int \<Rightarrow> int \<Rightarrow> listing list \<Rightarrow> nat \<Rightarrow> err + (int \<times> listing list \<times> bool) \<Rightarrow> bool" where
  "scan_post maximum tot pending n r \<longleftrightarrow>
     (\<exists>t p. r = Inr (t, p, True) \<and> maximum < t \<and> t \<le> tot + int n) \<or>
     (\<exists>t p. r = Inr (t, p, False) \<and> t \<le> maximum \<and> t + int (pending_size p) = tot + int (pending_size pending) + int n \<and>
        (all_readable pending \<longrightarrow> all_readable p))"

lemma scan_post_push:
  "scan_post maximum tot (d # pending) n r \<Longrightarrow> readable (Dir_Entry d) \<Longrightarrow> scan_post maximum tot pending (listing_size d + n) r"
  by (auto simp: scan_post_def pending_size_def all_readable_def)

lemma scan_post_add: "scan_post maximum (tot + int k) pending n r \<Longrightarrow> scan_post maximum tot pending (k + n) r"
  by (auto simp: scan_post_def)

lemma scan_entries_exact:
  "list_all readable entries \<Longrightarrow> tot \<le> maximum \<Longrightarrow>
   scan_post maximum tot pending (sum_list (map entry_size entries)) (scan_entries maximum entries tot pending)"
proof (induction maximum entries tot pending rule: scan_entries.induct)
  case (1 maximum tot pending)
  then show ?case by (simp add: scan_post_def)
next
  case (2 maximum entry entries tot pending)
  show ?case
  proof (cases entry)
    case (File_Entry r)
    show ?thesis
    proof (cases r)
      case (Inl e)
      then show ?thesis using 2 File_Entry by simp
    next
      case (Inr n)
      show ?thesis
      proof (cases "maximum < tot + int n")
        case True
        then show ?thesis using File_Entry Inr by (simp add: scan_post_def)
      next
        case False
        then have "scan_post maximum (tot + int n) pending (sum_list (map entry_size entries)) (scan_entries maximum entries (tot + int n) pending)"
          using 2 File_Entry Inr by simp
        from scan_post_add [OF this] show ?thesis using File_Entry Inr False by simp
      qed
    qed
  next
    case (Dir_Entry d)
    then have "scan_post maximum tot (d # pending) (sum_list (map entry_size entries)) (scan_entries maximum entries tot (d # pending))"
      and "readable (Dir_Entry d)" using 2 by simp_all
    from scan_post_push [OF this] show ?thesis using Dir_Entry 2(6) by (simp add: listing_size_def)
  next
    case Other_Entry
    then show ?thesis using 2 by simp
  qed
qed

lemma walk_exact:
  "all_readable pending \<Longrightarrow> \<exists>r. walk maximum pending tot = Inr r \<and> bounded_sum maximum (tot + int (pending_size pending)) r"
proof (induction maximum pending tot rule: walk.induct)
  case (1 maximum tot)
  then show ?case by (simp add: bounded_sum_def pending_size_def)
next
  case (2 maximum current pending tot)
  show ?case
  proof (cases "maximum < tot")
    case True
    then show ?thesis by (simp add: bounded_sum_def)
  next
    case False
    show ?thesis
    proof (cases current)
      case (Inl e)
      then have "vanished e" using 2(3) by (simp add: all_readable_def)
      then show ?thesis using 2(1) [OF False Inl] 2(3) False Inl by (simp add: pending_size_def listing_size_def all_readable_def)
    next
      case (Inr entries)
      have rd: "list_all readable entries" "all_readable pending" using 2(3) Inr by (auto simp: all_readable_def list_all_iff)
      have sz: "pending_size (current # pending) = pending_size pending + sum_list (map entry_size entries)"
        by (simp add: pending_size_def listing_size_def Inr)
      have "scan_post maximum tot pending (sum_list (map entry_size entries)) (scan_entries maximum entries tot pending)"
        by (rule scan_entries_exact [OF rd(1)]) (use False in simp)
      then consider (stop) t p where "scan_entries maximum entries tot pending = Inr (t, p, True)" "maximum < t" "t \<le> tot + int (sum_list (map entry_size entries))"
        | (go) t p where "scan_entries maximum entries tot pending = Inr (t, p, False)"
            "t + int (pending_size p) = tot + int (pending_size pending) + int (sum_list (map entry_size entries))" "all_readable p"
        using rd(2) by (auto simp: scan_post_def)
      then show ?thesis
      proof cases
        case stop
        then show ?thesis using False Inr sz by (simp add: bounded_sum_def)
      next
        case go
        then show ?thesis using 2(2) [OF False Inr go(1)] False Inr sz by (simp add: algebra_simps)
      qed
    qed
  qed
qed

text \<open>
  C40. The early exit of the size probe is exact: over any readable tree, however files vanish while it
  is walked, the probe returns, reports an excess exactly when the tree exceeds the budget, and
  otherwise returns the exact number of bytes. So one sample of the monitor finds no failure exactly
  when the work tree and the artifacts are within their budgets and enough disk is free.
\<close>

theorem budget_sample_exact:
  assumes "readable (Dir_Entry (bs_worktree smp))" and "readable (Dir_Entry (bs_artifacts smp))" and "bs_freeBytes smp = Inr free"
  shows "(\<exists>n. boundedDirectorySize (bs_worktree smp) maximum = Inr n \<and> (maximum < n \<longleftrightarrow> maximum < int (listing_size (bs_worktree smp))) \<and>
      (n \<le> maximum \<longrightarrow> n = int (listing_size (bs_worktree smp)))) \<and>
    (monitor_sample r None smp = None \<longleftrightarrow>
       int (listing_size (bs_worktree smp)) \<le> rl_maxWorktreeBytes r \<and> int (listing_size (bs_artifacts smp)) \<le> rl_maxArtifactBytes r \<and>
       rl_minimumFreeDiskBytes r \<le> free)"
proof -
  have probe: "\<exists>n. boundedDirectorySize d m = Inr n \<and> (m < n \<longleftrightarrow> m < int (listing_size d)) \<and> (n \<le> m \<longrightarrow> n = int (listing_size d))"
    if "readable (Dir_Entry d)" for d m
    using walk_exact [of "[d]" m 0] that
    by (auto simp: boundedDirectorySize_def bounded_sum_def pending_size_def all_readable_def simp del: readable.simps)
  obtain w a where "boundedDirectorySize (bs_worktree smp) (rl_maxWorktreeBytes r) = Inr w"
      "rl_maxWorktreeBytes r < w \<longleftrightarrow> rl_maxWorktreeBytes r < int (listing_size (bs_worktree smp))"
      "boundedDirectorySize (bs_artifacts smp) (rl_maxArtifactBytes r) = Inr a"
      "rl_maxArtifactBytes r < a \<longleftrightarrow> rl_maxArtifactBytes r < int (listing_size (bs_artifacts smp))"
    using probe [OF assms(1)] probe [OF assms(2)] by metis
  then have "monitor_sample r None smp = None \<longleftrightarrow>
       int (listing_size (bs_worktree smp)) \<le> rl_maxWorktreeBytes r \<and> int (listing_size (bs_artifacts smp)) \<le> rl_maxArtifactBytes r \<and>
       rl_minimumFreeDiskBytes r \<le> free"
    using assms(3) by (auto simp: monitor_sample_def over_budget_def split: if_splits)
  then show ?thesis using probe [OF assms(1)] by blast
qed

definition sample_tree :: listing where
  "sample_tree = Inr [File_Entry (Inr 5), Dir_Entry (Inr [File_Entry (Inr 7), File_Entry (Inl (NodeError ''ENOENT''))]), Other_Entry]"

theorem budget_sample_exact_witness:
  "\<exists>n. boundedDirectorySize sample_tree 10 = Inr n \<and> 10 < n"
proof -
  define smp where "smp = \<lparr>bs_worktree = sample_tree, bs_artifacts = sample_tree, bs_freeBytes = Inr 100\<rparr>"
  have "readable (Dir_Entry (bs_worktree smp))" "readable (Dir_Entry (bs_artifacts smp))" "bs_freeBytes smp = Inr 100"
    by (simp_all add: smp_def sample_tree_def vanished_def)
  from budget_sample_exact [OF this, of 10] show ?thesis by (simp add: smp_def sample_tree_def listing_size_def) blast
qed

end
