(* ===== verification/Execution.thy ===== *)
theory Execution
  imports Workspaces Budget
begin

text \<open>
  The execution of an attempt (\<open>executeAttempt\<close> of \<open>src/src/orchestrator/conductor.ts\<close>): prepare the work
  tree, compose the proposals it builds on, run the setup commands, run the worker, capture its
  proposal, check scope and acceptance, record the outcome, and clean up.

  The local variables of the function are the fields of \<open>exec_state\<close>. Between any two steps other
  handlers and other processes act: every step first passes a tick, at which \<open>xv_others\<close> changes the
  conductor's state and the budget timer takes the samples \<open>xv_timer\<close>. Everything outside the process
  is answered per tick by \<open>exec_env\<close>. A \<open>throw new TerminalAttempt(manifest)\<close> is the outcome \<open>Stop\<close>, which
  only the outermost handler of the function sees. Strings are bytes.
\<close>

subsection \<open>State and environment\<close>

record worker_outcome = run_outcome +
  wo_spawn :: "nat option"

record exec_state =
  xs_cond :: conductor_state
  xs_tick :: nat
  xs_manifest :: attempt_manifest
  xs_verification :: verification_record
  xs_workspace :: "git_workspace option"
  xs_monitoring :: bool
  xs_failure :: "err option"
  xs_written :: "verification_record option"

record exec_env =
  xv_cond :: conductor_env
  xv_others :: "nat \<Rightarrow> conductor_state \<Rightarrow> conductor_state"
  xv_clock :: "nat \<Rightarrow> timestamp"
  xv_deadline :: "nat \<Rightarrow> bool"
  xv_timer :: "nat \<Rightarrow> budget_sample list"
  xv_sample :: "nat \<Rightarrow> budget_sample"
  xv_workspaceRoot :: string
  xv_hostCwd :: string
  xv_win32 :: bool
  xv_penv :: "(string \<times> string) list"
  xv_policy :: execution_policy
  xv_showNumber :: "rat \<Rightarrow> string"
  xv_git :: "nat \<Rightarrow> string \<Rightarrow> string list \<Rightarrow> err + string"
  xv_cleanupGit :: "nat \<Rightarrow> string \<Rightarrow> string list \<Rightarrow> err + unit"
  xv_exists :: "nat \<Rightarrow> string \<Rightarrow> err + bool"
  xv_mkdir :: "nat \<Rightarrow> string \<Rightarrow> err + unit"
  xv_size :: "nat \<Rightarrow> string \<Rightarrow> err + nat"
  xv_read :: "nat \<Rightarrow> string \<Rightarrow> err + string"
  xv_realpath :: "nat \<Rightarrow> string \<Rightarrow> err + string"
  xv_write :: "nat \<Rightarrow> string \<Rightarrow> string \<Rightarrow> err + unit"
  xv_writeJson :: "nat \<Rightarrow> string \<Rightarrow> err + unit"
  xv_command :: "nat \<Rightarrow> process_invocation \<Rightarrow> int \<Rightarrow> run_outcome"
  xv_build :: "job_contract \<Rightarrow> git_workspace \<Rightarrow> attempt_manifest \<Rightarrow> err + process_invocation"
  xv_profile :: "nat \<Rightarrow> job_contract \<Rightarrow> process_invocation \<Rightarrow> err + worker_execution_profile"
  xv_validateProfile :: "nat \<Rightarrow> worker_execution_profile \<Rightarrow> err + unit"
  xv_worker :: "nat \<Rightarrow> process_invocation \<Rightarrow> worker_outcome"

datatype outcome = Go | Stop attempt_manifest

definition pass :: "exec_env \<Rightarrow> job_contract \<Rightarrow> (exec_state, nat) act" where
  "pass x contract s =
     (let n = xs_tick s in
      (Inr n, s\<lparr>xs_tick := Suc n, xs_cond := xv_others x n (xs_cond s),
        xs_failure := (if xs_monitoring s then foldl (monitor_sample (jc_resources contract)) (xs_failure s) (xv_timer x n)
                       else xs_failure s)\<rparr>))"

definition cond_env :: "exec_env \<Rightarrow> nat \<Rightarrow> conductor_env" where
  "cond_env x n = (xv_cond x)\<lparr>cv_now := xv_clock x n\<rparr>"

definition on_conductor ::
  "exec_env \<Rightarrow> job_contract \<Rightarrow> (conductor_env \<Rightarrow> (conductor_state, 'a) act) \<Rightarrow> (exec_state, 'a) act" where
  "on_conductor x contract m =
     bindA (pass x contract) (\<lambda>n s. case m (cond_env x n) (xs_cond s) of (r, c) \<Rightarrow> (r, s\<lparr>xs_cond := c\<rparr>))"

definition ask :: "exec_env \<Rightarrow> job_contract \<Rightarrow> (nat \<Rightarrow> err + 'a) \<Rightarrow> (exec_state, 'a) act" where
  "ask x contract f = bindA (pass x contract) (\<lambda>n. liftE (f n))"

definition set_manifest :: "attempt_manifest \<Rightarrow> (exec_state, unit) act" where
  "set_manifest m s = (Inr (), s\<lparr>xs_manifest := m\<rparr>)"

definition set_verification :: "(verification_record \<Rightarrow> verification_record) \<Rightarrow> (exec_state, unit) act" where
  "set_verification f s = (Inr (), s\<lparr>xs_verification := f (xs_verification s)\<rparr>)"

definition set_workspace :: "git_workspace \<Rightarrow> (exec_state, unit) act" where
  "set_workspace w s = (Inr (), s\<lparr>xs_workspace := Some w\<rparr>)"

definition set_monitoring :: "bool \<Rightarrow> (exec_state, unit) act" where
  "set_monitoring b s = (Inr (), s\<lparr>xs_monitoring := b\<rparr>)"

text \<open>\<open>manifest = await this.update(manifest, patch)\<close>; the patch may use the current time.\<close>

definition x_update ::
  "exec_env \<Rightarrow> job_contract \<Rightarrow> (timestamp \<Rightarrow> attempt_manifest \<Rightarrow> attempt_manifest) \<Rightarrow> (exec_state, unit) act" where
  "x_update x contract patch =
     bindA getA (\<lambda>s.
     bindA (on_conductor x contract (\<lambda>env. update_attempt env (xs_manifest s) (patch (cv_now env)))) set_manifest)"

definition writeVerification :: "exec_env \<Rightarrow> job_contract \<Rightarrow> (exec_state, unit) act" where
  "writeVerification x contract =
     bindA (pass x contract) (\<lambda>n.
     bindA getA (\<lambda>s.
     bindA (liftE (xv_writeJson x n (ar_verification (am_artifacts (xs_manifest s))))) (\<lambda>_.
     (\<lambda>s. (Inr (), s\<lparr>xs_written := Some ((xs_verification s)\<lparr>vr_updatedAt := xv_clock x n\<rparr>)\<rparr>)))))"

definition assertWithinBudget :: "exec_env \<Rightarrow> job_contract \<Rightarrow> (exec_state, unit) act" where
  "assertWithinBudget x contract =
     bindA (pass x contract) (\<lambda>n s.
       let failure = monitor_sample (jc_resources contract) (xs_failure s) (xv_sample x n) in
       (case failure of Some e \<Rightarrow> Inl e | None \<Rightarrow> Inr (), s\<lparr>xs_failure := failure\<rparr>))"

definition attempt_aborted :: "exec_state \<Rightarrow> bool" where
  "attempt_aborted s = (am_attemptId (xs_manifest s) \<in> set (cd_aborted (xs_cond s)))"

definition deadline_aborted :: "exec_env \<Rightarrow> exec_state \<Rightarrow> bool" where
  "deadline_aborted x s = xv_deadline x (xs_tick s)"

text \<open>\<open>attemptSignal\<close>: cancelled, past the deadline, or over budget.\<close>

definition signal_aborted :: "exec_env \<Rightarrow> exec_state \<Rightarrow> bool" where
  "signal_aborted x s = (attempt_aborted s \<or> deadline_aborted x s \<or> xs_failure s \<noteq> None)"

subsection \<open>The interfaces it uses\<close>

definition exec_git_host :: "exec_env \<Rightarrow> job_contract \<Rightarrow> exec_state git_host" where
  "exec_git_host x contract = \<lparr>gh_git = (\<lambda>cwd args input env. ask x contract (\<lambda>n. xv_git x n cwd args)),
     gh_cleanupGit = (\<lambda>cwd args. ask x contract (\<lambda>n. xv_cleanupGit x n cwd args)),
     gh_exists = (\<lambda>p. ask x contract (\<lambda>n. xv_exists x n p)), gh_mkdir = (\<lambda>p. ask x contract (\<lambda>n. xv_mkdir x n p)),
     gh_size = (\<lambda>p. ask x contract (\<lambda>n. xv_size x n p)), gh_read = (\<lambda>p. ask x contract (\<lambda>n. xv_read x n p)),
     gh_realpath = (\<lambda>p. ask x contract (\<lambda>n. xv_realpath x n p)), gh_sha256 = cv_sha256 (xv_cond x), gh_win32 = xv_win32 x\<rparr>"

definition exec_command_host :: "exec_env \<Rightarrow> job_contract \<Rightarrow> exec_state command_host" where
  "exec_command_host x contract = \<lparr>ch_win32 = xv_win32 x, ch_cwd = xv_hostCwd x, ch_penv = xv_penv x, ch_policy = xv_policy x,
     ch_sha256 = cv_sha256 (xv_cond x), ch_showNumber = xv_showNumber x, ch_now = (\<lambda>s. xv_clock x (xs_tick s)),
     ch_realpath = (\<lambda>p. ask x contract (\<lambda>n. xv_realpath x n p)), ch_aborted = signal_aborted x,
     ch_run = (\<lambda>invocation timeoutMs. ask x contract (\<lambda>n. Inr (xv_command x n invocation timeoutMs)))\<rparr>"

definition exec_callbacks :: "exec_env \<Rightarrow> job_contract \<Rightarrow> exec_state command_callbacks" where
  "exec_callbacks x contract = \<lparr>
     cc_guardian = (\<lambda>operationId g.
       bindA getA (\<lambda>s.
       bindA (on_conductor x contract (\<lambda>env. registerProcessCleanup env (xs_manifest s) operationId g)) (\<lambda>_.
       x_update x contract (\<lambda>_ m. m\<lparr>am_guardian := Some g\<rparr>)))),
     cc_result = (\<lambda>operationId r.
       bindA getA (\<lambda>s.
       bindA (on_conductor x contract (\<lambda>env. recordProcessCleanup env (xs_manifest s) operationId r)) (\<lambda>_.
       liftE (assertProcessCleanupProven operationId r)))),
     cc_resource = (\<lambda>resource.
       bindA getA (\<lambda>s.
       bindA (on_conductor x contract (\<lambda>env. registerExternalResource env (xs_manifest s) resource
         (rl_maxExternalResources (jc_resources contract)))) set_manifest)),
     cc_released = (\<lambda>resourceId cleanup.
       bindA getA (\<lambda>s.
       bindA (on_conductor x contract (\<lambda>env. releaseExternalResource env (xs_manifest s) resourceId cleanup)) set_manifest))\<rparr>"

text \<open>\<open>path.dirname\<close>.\<close>

definition dirname :: "string \<Rightarrow> string" where
  "dirname p =
     (let d = drop 1 (dropWhile (\<lambda>c. c \<noteq> CHR ''/'') (rev p)) in
      if CHR ''/'' \<notin> set p then ''.'' else if d = [] then ''/'' else rev d)"

definition phase_input :: "job_contract \<Rightarrow> attempt_manifest \<Rightarrow> git_workspace \<Rightarrow> int \<Rightarrow> command_phase \<Rightarrow> command_phase_input" where
  "phase_input contract manifest w deadlineAt phase = \<lparr>ph_phase = phase, ph_workspacePath = gw_path w,
     ph_artifactDirectory = dirname (ar_manifest (am_artifacts manifest)),
     ph_defaultTimeoutMs = ex_timeoutMs (jc_execution contract), ph_deadlineAt = deadlineAt,
     ph_maxLogBytes = rl_maxLogBytes (jc_resources contract), ph_cleanupTimeoutMs = rl_cleanupTimeoutMs (jc_resources contract),
     ph_boundary = ex_boundary (jc_execution contract), ph_attemptId = am_attemptId manifest\<rparr>"

subsection \<open>Preparing\<close>

definition workspace_entry :: "git_workspace \<Rightarrow> attempt_workspace option" where
  "workspace_entry w = Some \<lparr>ws_path = gw_path w, ws_baseRevision = gw_baseRevision w, ws_retained = True\<rparr>"

definition prepare_phase :: "exec_env \<Rightarrow> job_contract \<Rightarrow> (exec_state, git_workspace) act" where
  "prepare_phase x contract =
     bindA (x_update x contract (\<lambda>_ m. m\<lparr>am_status := APreparing\<rparr>)) (\<lambda>_.
     bindA getA (\<lambda>s.
     bindA (if ex_retainWorkspace (jc_execution contract) then ret ()
            else bindA (on_conductor x contract (\<lambda>env. registerCleanupRequirement env (xs_manifest s) worktree_subject None))
              (\<lambda>_. ret ())) (\<lambda>_.
     bindA (createWorkspace (exec_git_host x contract) (xv_workspaceRoot x) (re_root (jc_repository contract))
       (re_baseRevision (jc_repository contract)) (am_attemptId (xs_manifest s)) (Some (rl_maxPatchBytes (jc_resources contract)))) (\<lambda>w.
     bindA (set_workspace w) (\<lambda>_.
     bindA (set_monitoring True) (\<lambda>_.
     bindA (assertWithinBudget x contract) (\<lambda>_.
     bindA (x_update x contract (\<lambda>now m. m\<lparr>am_workspace := workspace_entry w, am_startedAt := Some now,
       am_verificationStatus := V_Running\<rparr>)) (\<lambda>_.
     bindA (writeVerification x contract) (\<lambda>_.
     ret w)))))))))"

subsection \<open>The proposal baseline\<close>

definition compose_lineage :: "exec_env \<Rightarrow> job_contract \<Rightarrow> git_workspace \<Rightarrow> proposal_lineage \<Rightarrow> (exec_state, git_workspace) act" where
  "compose_lineage x contract w lineage =
     bindA (on_conductor x contract (\<lambda>env. validateProposalLineage env contract lineage)) (\<lambda>_.
     bindA (composeProposalBaseline (exec_git_host x contract) w (pl_contributions lineage)) (\<lambda>w'.
     bindA (set_workspace w') (\<lambda>_.
     bindA (x_update x contract (\<lambda>now m. m\<lparr>am_workspace := workspace_entry w', am_lineage := Some (lineage\<lparr>pl_status := Lineage_Composed,
       pl_derivedRevision := Some (gw_baseRevision w'), pl_composedAt := Some now, pl_failure := None\<rparr>)\<rparr>)) (\<lambda>_.
     ret w'))))"

definition reject_lineage :: "exec_env \<Rightarrow> job_contract \<Rightarrow> proposal_lineage \<Rightarrow> err \<Rightarrow> (exec_state, outcome) act" where
  "reject_lineage x contract lineage e =
     bindA (set_verification (\<lambda>v. v\<lparr>vr_eligibleForReview := False\<rparr>)) (\<lambda>_.
     bindA (writeVerification x contract) (\<lambda>_.
     bindA (x_update x contract (\<lambda>now m. m\<lparr>am_status := ANeedsInput, am_finishedAt := Some now, am_verificationStatus := V_Ineligible,
       am_lineage := Some (lineage\<lparr>pl_status := Lineage_Rejected, pl_failure := Some (errorMessage e)\<rparr>),
       am_failure := Some \<lparr>fl_kind = FK_Composition_Failed, fl_message = errorMessage e\<rparr>\<rparr>)) (\<lambda>_.
     bindA getA (\<lambda>s. ret (Stop (xs_manifest s))))))"

definition lineage_phase :: "exec_env \<Rightarrow> job_contract \<Rightarrow> git_workspace \<Rightarrow> (exec_state, outcome \<times> git_workspace) act" where
  "lineage_phase x contract w =
     bindA getA (\<lambda>s.
     case am_lineage (xs_manifest s) of
       None \<Rightarrow> ret (Go, w)
     | Some lineage \<Rightarrow>
         bindA (tryA (compose_lineage x contract w lineage)) (\<lambda>r.
         case r of
           Inr w' \<Rightarrow> ret (Go, w')
         | Inl e \<Rightarrow> bindA (reject_lineage x contract lineage e) (\<lambda>out. ret (out, w))))"

subsection \<open>Setup\<close>

definition captureGit :: "exec_env \<Rightarrow> job_contract \<Rightarrow> git_workspace \<Rightarrow> string list \<Rightarrow> (exec_state, string) act" where
  "captureGit x contract w args =
     catchA (ask x contract (\<lambda>n. xv_git x n (gw_path w) args))
       (\<lambda>e. if sublist ''output exceeded'' (errorMessage e) then raise (ResourceLimitError (errorMessage e)) else raise e)"

definition not_run :: "verification_record \<Rightarrow> verification_record" where
  "not_run v = v\<lparr>vr_acceptance := (vr_acceptance v)\<lparr>ap_status := P_NotRun, ap_proposalStable := None\<rparr>, vr_eligibleForReview := False\<rparr>"

definition setup_failed ::
  "exec_env \<Rightarrow> job_contract \<Rightarrow> phase_status \<Rightarrow> bool \<Rightarrow> (exec_state, outcome) act" where
  "setup_failed x contract status repositoryClean =
     bindA getA (\<lambda>s.
     let cancelled = (status = P_Cancelled \<and> \<not> deadline_aborted x s) in
     bindA (set_verification not_run) (\<lambda>_.
     bindA (writeVerification x contract) (\<lambda>_.
     bindA getA (\<lambda>s'.
     let late = deadline_aborted x s' in
     bindA (x_update x contract (\<lambda>now m. m\<lparr>am_status := (if cancelled then ACancelled else AFailed), am_finishedAt := Some now,
       am_verificationStatus := V_Ineligible,
       am_failure := Some \<lparr>fl_kind = (if late then FK_Timeout else if cancelled then FK_Cancelled else FK_Setup_Failed),
         fl_message = (if late then ''Total attempt deadline expired during setup''
           else if repositoryClean then ''Setup phase ended with '' @ phase_status_name status
           else ''Setup commands changed tracked or untracked repository state'')\<rparr>\<rparr>)) (\<lambda>_.
     bindA getA (\<lambda>s''. ret (Stop (xs_manifest s''))))))))"

definition setup_phase :: "exec_env \<Rightarrow> job_contract \<Rightarrow> git_workspace \<Rightarrow> int \<Rightarrow> (exec_state, outcome) act" where
  "setup_phase x contract w deadlineAt =
     (if jc_setupCommands contract = [] then ret Go
      else
        bindA getA (\<lambda>s.
        bindA (runCommandSequence (exec_command_host x contract) (exec_callbacks x contract)
          (phase_input contract (xs_manifest s) w deadlineAt Phase_Setup) (jc_setupCommands contract)) (\<lambda>commands.
        bindA (assertWithinBudget x contract) (\<lambda>_.
        bindA (captureGit x contract w [''status'', ''--porcelain=v2'', ''--untracked-files=all'']) (\<lambda>out.
        let repositoryClean = (out = []);
            status = (if repositoryClean then phaseStatus commands else P_Failed) in
        bindA (set_verification (\<lambda>v. v\<lparr>vr_setup := \<lparr>sr_status = status, sr_commands = commands,
          sr_repositoryClean = Some repositoryClean\<rparr>\<rparr>)) (\<lambda>_.
        bindA (writeVerification x contract) (\<lambda>_.
        if status = P_Passed then ret Go else setup_failed x contract status repositoryClean)))))))"

subsection \<open>The worker\<close>

definition with_workerPid :: "process_guardian \<Rightarrow> nat \<Rightarrow> process_guardian" where
  "with_workerPid g pid =
     (case g of GuardianV1 b \<Rightarrow> GuardianV1 (b\<lparr>gb_workerPid := Some pid\<rparr>) | GuardianV2 b c \<Rightarrow> GuardianV2 (b\<lparr>gb_workerPid := Some pid\<rparr>) c)"

text \<open>\<open>runProcess\<close> of the worker: the guardian is recorded first, then the process identifier, then it runs.\<close>

definition run_worker :: "exec_env \<Rightarrow> job_contract \<Rightarrow> process_invocation \<Rightarrow> (exec_state, process_result) act" where
  "run_worker x contract invocation =
     bindA (ask x contract (\<lambda>n. Inr (xv_worker x n invocation))) (\<lambda>out.
     bindA (case ro_guardian out of None \<Rightarrow> ret () | Some g \<Rightarrow> cc_guardian (exec_callbacks x contract) ''worker'' g) (\<lambda>_.
     bindA (case wo_spawn out of
         None \<Rightarrow> ret ()
       | Some pid \<Rightarrow>
           bindA getA (\<lambda>s.
           case am_guardian (xs_manifest s) of
             None \<Rightarrow> ret ()
           | Some g \<Rightarrow> x_update x contract (\<lambda>_ m. m\<lparr>am_guardian := Some (with_workerPid g pid)\<rparr>))) (\<lambda>_.
     liftE (ro_result out))))"

definition worker_phase ::
  "exec_env \<Rightarrow> job_contract \<Rightarrow> git_workspace \<Rightarrow> int \<Rightarrow> (exec_state, worker_execution_profile \<times> process_result) act" where
  "worker_phase x contract w deadlineAt =
     bindA (liftE (cv_adapter (xv_cond x) (jc_adapterId contract))) (\<lambda>_.
     bindA getA (\<lambda>s.
     bindA (liftE (xv_build x contract w (xs_manifest s))) (\<lambda>invocation.
     bindA (ask x contract (\<lambda>n. xv_profile x n contract invocation)) (\<lambda>workerProfile.
     bindA (x_update x contract (\<lambda>_ m. m\<lparr>am_status := ARunning,
       am_invocation := Some \<lparr>iv_executable = pi_executable invocation, iv_args = pi_args invocation, iv_cwd = pi_cwd invocation,
         iv_environmentKeys = js_sort (map fst (pi_env invocation))\<rparr>, am_workerProfile := Some workerProfile\<rparr>)) (\<lambda>_.
     bindA (if wp_status workerProfile = Profile_Complete then ask x contract (\<lambda>n. xv_validateProfile x n workerProfile) else ret ()) (\<lambda>_.
     bindA getA (\<lambda>s'.
     bindA (liftE (remainingTimeout deadlineAt (xv_clock x (xs_tick s')))) (\<lambda>_.
     bindA (run_worker x contract invocation) (\<lambda>processResult.
     bindA (assertWithinBudget x contract) (\<lambda>_.
     bindA getA (\<lambda>s''.
     bindA (on_conductor x contract (\<lambda>env. recordProcessCleanup env (xs_manifest s'') ''worker'' processResult)) (\<lambda>_.
     bindA (liftE (assertProcessCleanupProven ''worker'' processResult)) (\<lambda>_.
     bindA (case px_outputLimit processResult of
         None \<Rightarrow> ret ()
       | Some l \<Rightarrow> raise (ResourceLimitError (stream_name (ol_stream l) @ '' exceeded '' @ show_nat (ol_limitBytes l) @ '' bytes''))) (\<lambda>_.
     ret (workerProfile, processResult)))))))))))))))"

subsection \<open>The proposal\<close>

record proposal_capture =
  pc_patch :: string
  pc_changedPaths :: "string list"

definition diff_args :: "git_workspace \<Rightarrow> string list" where
  "diff_args w = [''diff'', ''--binary'', ''--full-index'', gw_baseRevision w, ''--'']"

text \<open>\<open>JSON.stringify(changedPaths, null, 2)\<close> and a newline.\<close>

definition changed_paths_text :: "string list \<Rightarrow> string" where
  "changed_paths_text ps =
     (if ps = [] then ''[]''
      else ''['' @ [CHR 0x0A] @ join ('','' @ [CHR 0x0A]) (map (\<lambda>p. ''  '' @ json_quote p) ps) @ [CHR 0x0A] @ '']'') @ [CHR 0x0A]"

definition captureProposal :: "exec_env \<Rightarrow> job_contract \<Rightarrow> git_workspace \<Rightarrow> (exec_state, proposal_capture) act" where
  "captureProposal x contract w =
     (let r = jc_resources contract in
      bindA (captureGit x contract w [''add'', ''--intent-to-add'', ''--all'']) (\<lambda>_.
      bindA (captureGit x contract w (diff_args w)) (\<lambda>patch.
      bindA (captureGit x contract w [''status'', ''--porcelain=v2'', ''--untracked-files=all'']) (\<lambda>status.
      bindA (captureGit x contract w [''diff'', ''--name-only'', ''-z'', gw_baseRevision w, ''--'']) (\<lambda>names.
      let changedPaths = js_sort (filter (\<lambda>p. p \<noteq> []) (split_on (CHR 0x00) names)) in
      bindA (guardA (int (length patch) \<le> rl_maxPatchBytes r)
        (ResourceLimitError (''proposal patch is '' @ show_nat (length patch) @ '' bytes; maximum is '' @ show_int (rl_maxPatchBytes r)))) (\<lambda>_.
      bindA (guardA (int (length changedPaths) \<le> rl_maxChangedPaths r)
        (ResourceLimitError (''proposal changes '' @ show_nat (length changedPaths) @ '' paths; maximum is '' @ show_int (rl_maxChangedPaths r)))) (\<lambda>_.
      bindA getA (\<lambda>s.
      let a = am_artifacts (xs_manifest s) in
      bindA (ask x contract (\<lambda>n. xv_write x n (ar_proposalPatch a) patch)) (\<lambda>_.
      bindA (ask x contract (\<lambda>n. xv_write x n (ar_repositoryStatus a) status)) (\<lambda>_.
      bindA (ask x contract (\<lambda>n. xv_write x n (ar_changedPaths a) (changed_paths_text changedPaths))) (\<lambda>_.
      ret \<lparr>pc_patch = patch, pc_changedPaths = changedPaths\<rparr>)))))))))))"

definition captureCurrentPatch :: "exec_env \<Rightarrow> job_contract \<Rightarrow> git_workspace \<Rightarrow> (exec_state, string) act" where
  "captureCurrentPatch x contract w =
     bindA (captureGit x contract w [''add'', ''--intent-to-add'', ''--all'']) (\<lambda>_.
     bindA (captureGit x contract w (diff_args w)) (\<lambda>patch.
     bindA (guardA (int (length patch) \<le> rl_maxPatchBytes (jc_resources contract))
       (ResourceLimitError (''verified patch is '' @ show_nat (length patch) @ '' bytes; maximum is ''
         @ show_int (rl_maxPatchBytes (jc_resources contract))))) (\<lambda>_.
     ret patch)))"

definition capture_failed :: "exec_env \<Rightarrow> job_contract \<Rightarrow> process_result \<Rightarrow> err \<Rightarrow> (exec_state, outcome) act" where
  "capture_failed x contract processResult e =
     bindA (catchA (bindA (assertWithinBudget x contract) (\<lambda>_. ret e)) (\<lambda>budgetError. ret budgetError)) (\<lambda>captureError.
     bindA (set_verification not_run) (\<lambda>_.
     bindA (writeVerification x contract) (\<lambda>_.
     bindA (x_update x contract (\<lambda>now m. m\<lparr>am_status := AFailed, am_finishedAt := Some now, am_process := Some processResult,
       am_verificationStatus := V_Ineligible,
       am_failure := Some \<lparr>fl_kind = (case captureError of ResourceLimitError _ \<Rightarrow> FK_Resource_Limit | _ \<Rightarrow> FK_Proposal_Capture_Failed),
         fl_message = errorMessage captureError\<rparr>\<rparr>)) (\<lambda>_.
     bindA getA (\<lambda>s. ret (Stop (xs_manifest s)))))))"

subsection \<open>Verification\<close>

definition acceptance_phase ::
  "exec_env \<Rightarrow> job_contract \<Rightarrow> git_workspace \<Rightarrow> int \<Rightarrow> worker_execution_profile \<Rightarrow> proposal_capture \<Rightarrow> (exec_state, unit) act" where
  "acceptance_phase x contract w deadlineAt workerProfile proposal =
     bindA getA (\<lambda>s.
     if sc_status (vr_scope (xs_verification s)) = Scope_Failed then set_verification not_run
     else if jc_acceptanceCommands contract \<noteq> [] then
       bindA (runCommandSequence (exec_command_host x contract) (exec_callbacks x contract)
         (phase_input contract (xs_manifest s) w deadlineAt Phase_Acceptance) (jc_acceptanceCommands contract)) (\<lambda>commands.
       bindA (assertWithinBudget x contract) (\<lambda>_.
       bindA (captureCurrentPatch x contract w) (\<lambda>finalPatch.
       bindA (assertWithinBudget x contract) (\<lambda>_.
       let proposalStable = (finalPatch = pc_patch proposal) in
       set_verification (\<lambda>v. v\<lparr>vr_acceptance := \<lparr>ap_status = phaseStatus commands, ap_commands = commands,
           ap_proposalStable = Some proposalStable\<rparr>,
         vr_eligibleForReview := (phaseStatus commands = P_Passed \<and> proposalStable \<and> wp_status workerProfile = Profile_Complete)\<rparr>)))))
     else
       set_verification (\<lambda>v. v\<lparr>vr_acceptance := \<lparr>ap_status = P_NotConfigured, ap_commands = [], ap_proposalStable = Some True\<rparr>,
         vr_eligibleForReview := (wp_status workerProfile = Profile_Complete)\<rparr>))"

definition verify_phase ::
  "exec_env \<Rightarrow> job_contract \<Rightarrow> git_workspace \<Rightarrow> int \<Rightarrow> worker_execution_profile \<Rightarrow> process_result \<Rightarrow> proposal_capture \<Rightarrow>
   (exec_state, unit) act" where
  "verify_phase x contract w deadlineAt workerProfile processResult proposal =
     bindA (x_update x contract (\<lambda>_ m. m\<lparr>am_status := AVerifying, am_process := Some processResult\<rparr>)) (\<lambda>_.
     bindA (acceptance_phase x contract w deadlineAt workerProfile proposal) (\<lambda>_.
     bindA (writeVerification x contract) (\<lambda>_.
     bindA getA (\<lambda>s.
     let cancelled = (ap_status (vr_acceptance (xs_verification s)) = P_Cancelled);
         late = (cancelled \<and> deadline_aborted x s);
         eligible = vr_eligibleForReview (xs_verification s) in
     x_update x contract (\<lambda>now m. m\<lparr>am_status := (if late then AFailed else if cancelled then ACancelled else ACompleted),
       am_finishedAt := Some now, am_process := Some processResult,
       am_verificationStatus := (if eligible then V_Eligible else V_Ineligible),
       am_failure := (if late then Some \<lparr>fl_kind = FK_Timeout,
             fl_message = ''Total attempt deadline expired during deterministic verification''\<rparr>
           else if cancelled then Some \<lparr>fl_kind = FK_Cancelled,
             fl_message = ''Attempt cancelled during deterministic verification''\<rparr>
           else None)\<rparr>)))))"

definition worker_failed :: "exec_env \<Rightarrow> job_contract \<Rightarrow> process_result \<Rightarrow> (exec_state, unit) act" where
  "worker_failed x contract processResult =
     bindA getA (\<lambda>s.
     let late = deadline_aborted x s;
         finish = (\<lambda>status failure. x_update x contract (\<lambda>now m. m\<lparr>am_status := status, am_finishedAt := Some now,
           am_process := Some processResult, am_verificationStatus := V_Ineligible, am_failure := Some failure\<rparr>)) in
     if px_cancelled processResult then
       finish (if late then AFailed else ACancelled) \<lparr>fl_kind = (if late then FK_Timeout else FK_Cancelled),
         fl_message = (if late then ''Total attempt deadline expired during worker execution'' else ''Attempt cancelled by Conductor'')\<rparr>
     else if px_timedOut processResult then
       finish AFailed \<lparr>fl_kind = FK_Timeout, fl_message = ''Worker exceeded its job timeout''\<rparr>
     else
       finish AFailed \<lparr>fl_kind = FK_Worker_Exit, fl_message = ''Worker exited with code '' @ show_exit (px_exitCode processResult)\<rparr>)"

definition result_phase ::
  "exec_env \<Rightarrow> job_contract \<Rightarrow> git_workspace \<Rightarrow> int \<Rightarrow> worker_execution_profile \<Rightarrow> process_result \<Rightarrow> proposal_capture \<Rightarrow>
   (exec_state, unit) act" where
  "result_phase x contract w deadlineAt workerProfile processResult proposal =
     bindA (set_verification (\<lambda>v. v\<lparr>vr_scope := evaluatePathScope (pc_changedPaths proposal) (jc_scope contract)\<rparr>)) (\<lambda>_.
     if px_cancelled processResult \<or> px_timedOut processResult \<or> px_exitCode processResult \<noteq> Some 0 then
       bindA (set_verification not_run) (\<lambda>_.
       bindA (writeVerification x contract) (\<lambda>_.
       worker_failed x contract processResult))
     else verify_phase x contract w deadlineAt workerProfile processResult proposal)"

subsection \<open>The whole execution\<close>

definition attempt_body :: "exec_env \<Rightarrow> job_contract \<Rightarrow> int \<Rightarrow> (exec_state, outcome) act" where
  "attempt_body x contract deadlineAt =
     bindA (prepare_phase x contract) (\<lambda>w0.
     bindA (lineage_phase x contract w0) (\<lambda>(out, w).
     case out of
       Stop m \<Rightarrow> ret (Stop m)
     | Go \<Rightarrow>
         bindA (setup_phase x contract w deadlineAt) (\<lambda>out'.
         case out' of
           Stop m \<Rightarrow> ret (Stop m)
         | Go \<Rightarrow>
             bindA (worker_phase x contract w deadlineAt) (\<lambda>(workerProfile, processResult).
             bindA (tryA (bindA (captureProposal x contract w) (\<lambda>p. bindA (assertWithinBudget x contract) (\<lambda>_. ret p)))) (\<lambda>captured.
             case captured of
               Inl e \<Rightarrow> capture_failed x contract processResult e
             | Inr proposal \<Rightarrow>
                 bindA (result_phase x contract w deadlineAt workerProfile processResult proposal) (\<lambda>_. ret Go))))))"

text \<open>The \<open>catch\<close> of the function.\<close>

definition attempt_failed :: "exec_env \<Rightarrow> job_contract \<Rightarrow> err \<Rightarrow> (exec_state, unit) act" where
  "attempt_failed x contract e =
     bindA getA (\<lambda>s.
     let cancelled = (attempt_aborted s \<and> \<not> deadline_aborted x s) in
     x_update x contract (\<lambda>now m. m\<lparr>am_status := (if cancelled then ACancelled else AFailed), am_finishedAt := Some now,
       am_failure := Some (classifyFailure e (am_status (xs_manifest s)) cancelled), am_verificationStatus := V_Ineligible\<rparr>))"

text \<open>The \<open>finally\<close> of the function.\<close>

definition remove_after_cleanup :: "exec_env \<Rightarrow> job_contract \<Rightarrow> git_workspace \<Rightarrow> attempt_manifest \<Rightarrow> bool \<Rightarrow> (exec_state, unit) act" where
  "remove_after_cleanup x contract w m safe =
     bindA (guardA safe (Error ''External resource cleanup failed; its worktree must remain available'')) (\<lambda>_.
     bindA (on_conductor x contract (\<lambda>env. assertWorkspaceRemovalSafe m)) (\<lambda>_.
     bindA (on_conductor x contract (\<lambda>env s. (Inr (), s\<lparr>cd_removals := gw_path w # cd_removals s\<rparr>))) (\<lambda>_.
     bindA (removeWorkspace (exec_git_host x contract) (xv_workspaceRoot x) (xv_hostCwd x) w) (\<lambda>_.
     bindA (on_conductor x contract (\<lambda>env. appendCleanupEvidence env m worktree_subject EProven CM_Workspace_Remove
       (Some ''Recorded attempt worktree removed'') None)) (\<lambda>_.
     ret ())))))"

definition remove_finished_worktree :: "exec_env \<Rightarrow> job_contract \<Rightarrow> git_workspace \<Rightarrow> (exec_state, unit) act" where
  "remove_finished_worktree x contract w =
     bindA getA (\<lambda>s.
     bindA (on_conductor x contract (\<lambda>env. cleanupExternalResources env (xs_manifest s))) (\<lambda>(m, safe).
     bindA (set_manifest m) (\<lambda>_.
     remove_after_cleanup x contract w m safe)))"

definition attempt_finally :: "exec_env \<Rightarrow> job_contract \<Rightarrow> (exec_state, unit) act" where
  "attempt_finally x contract =
     bindA (set_monitoring False) (\<lambda>_.
     bindA getA (\<lambda>s.
     case xs_workspace s of
       None \<Rightarrow> ret ()
     | Some w \<Rightarrow>
         if ex_retainWorkspace (jc_execution contract) then ret ()
         else catchA (remove_finished_worktree x contract w) (\<lambda>e.
           bindA getA (\<lambda>s'.
           bindA (on_conductor x contract (\<lambda>env. appendCleanupEvidence env (xs_manifest s') worktree_subject EFailed CM_Workspace_Remove
             (Some (''Workspace cleanup failed: '' @ errorMessage e)) None)) (\<lambda>_. ret ())))))"

definition executeAttempt :: "exec_env \<Rightarrow> job_contract \<Rightarrow> (exec_state, attempt_manifest) act" where
  "executeAttempt x contract =
     bindA getA (\<lambda>s0.
     let deadlineAt = xv_clock x (xs_tick s0) + rl_attemptTimeoutMs (jc_resources contract) in
     bindA (finallyA
       (catchA
         (bindA (attempt_body x contract deadlineAt) (\<lambda>out. case out of Go \<Rightarrow> ret () | Stop m \<Rightarrow> set_manifest m))
         (attempt_failed x contract))
       (attempt_finally x contract)) (\<lambda>_.
     bindA getA (\<lambda>s. ret (xs_manifest s))))"

definition initial_exec_state :: "exec_env \<Rightarrow> job_contract \<Rightarrow> conductor_state \<Rightarrow> attempt_manifest \<Rightarrow> nat \<Rightarrow> exec_state" where
  "initial_exec_state x contract c manifest n =
     \<lparr>xs_cond = c, xs_tick = n, xs_manifest = manifest,
      xs_verification = createVerificationRecord (jc_jobId contract) (am_attemptId manifest) (jc_setupCommands contract \<noteq> [])
        (jc_acceptanceCommands contract \<noteq> []) (xv_clock x n),
      xs_workspace = None, xs_monitoring = False, xs_failure = None, xs_written = None\<rparr>"

end
