(* ===== verification/Review.thy ===== *)
theory Review
  imports Reconcile Execution
begin

text \<open>
  Review packets (\<open>src/src/review/packet.ts\<close>, \<open>worker-profile.ts\<close>, and the handlers of
  \<open>orchestrator/conductor.ts\<close> that create and serve them): the profile of the worker is captured when it
  is launched, and the whole evidence of an eligible attempt is sealed under one digest, which every later
  read of the packet checks against the evidence on disk.

  \<open>evidence_files\<close> is what the operating system answers for a path: \<open>ef_stat\<close> whether it is a regular file
  and its size, \<open>ef_sha256\<close> the digest of its bytes, \<open>ef_json\<close> its text as parsed JSON, \<open>ef_head\<close> its first
  bytes, \<open>ef_tree\<close> the directory tree below it. The JSON of the four stored records (\<open>rv_contractJson\<close>
  and the next three) is a parameter; every other JSON value is written out. Paths are POSIX paths and the
  names in a directory contain no separator.
\<close>

definition checkE :: "bool \<Rightarrow> err \<Rightarrow> err + unit" where
  "checkE b e = (if b then Inr () else Inl e)"

lemma checkE_Inr [simp]: "checkE b e = Inr u \<longleftrightarrow> b"
  by (simp add: checkE_def)

datatype tree_entry =
    Tree_Dir string "tree_entry list"
  | Tree_Broken_Dir string err
  | Tree_File string
  | Tree_Link string
  | Tree_Other string

fun tree_name :: "tree_entry \<Rightarrow> string" where
  "tree_name (Tree_Dir n _) = n"
| "tree_name (Tree_Broken_Dir n _) = n"
| "tree_name (Tree_File n) = n"
| "tree_name (Tree_Link n) = n"
| "tree_name (Tree_Other n) = n"

record evidence_files =
  ef_stat :: "string \<Rightarrow> err + (bool \<times> nat)"
  ef_sha256 :: "string \<Rightarrow> err + string"
  ef_json :: "string \<Rightarrow> err + json"
  ef_head :: "string \<Rightarrow> nat \<Rightarrow> err + string"
  ef_tree :: "string \<Rightarrow> err + tree_entry list"

record review_env =
  rv_cond :: conductor_env
  rv_cwd :: string
  rv_iso :: "timestamp \<Rightarrow> string"
  rv_contractJson :: "job_contract \<Rightarrow> json"
  rv_attemptJson :: "attempt_manifest \<Rightarrow> json"
  rv_cleanupJson :: "attempt_cleanup_record \<Rightarrow> json"
  rv_verificationJson :: "verification_record \<Rightarrow> json"
  rv_writePacket :: "err + unit"

abbreviation canonical :: "review_env \<Rightarrow> json \<Rightarrow> string" where
  "canonical env \<equiv> canonicalJson (cv_lc (rv_cond env))"

abbreviation fingerprint_of :: "review_env \<Rightarrow> json \<Rightarrow> string" where
  "fingerprint_of env \<equiv> fingerprint (cv_sha256 (rv_cond env)) (cv_lc (rv_cond env))"

abbreviation resolve_path :: "review_env \<Rightarrow> string \<Rightarrow> string" where
  "resolve_path env \<equiv> posix_resolve (rv_cwd env)"

definition jnat :: "nat \<Rightarrow> json" where
  "jnat n = JNum (show_nat n)"

definition optional :: "string \<Rightarrow> string option \<Rightarrow> (string \<times> json) list" where
  "optional k v = (case v of None \<Rightarrow> [] | Some x \<Rightarrow> [(k, JStr x)])"

subsection \<open>The profile of a worker\<close>

fun role_name :: "profile_file_role \<Rightarrow> string" where
  "role_name Role_Executable = ''executable''"
| "role_name Role_Harness = ''harness''"
| "role_name Role_Configuration = ''configuration''"

fun profile_status_name :: "profile_status \<Rightarrow> string" where
  "profile_status_name Profile_Complete = ''complete''"
| "profile_status_name Profile_Unresolved = ''unresolved''"

fun output_format_name :: "output_format \<Rightarrow> string" where
  "output_format_name Output_Jsonl = ''jsonl''"
| "output_format_name Output_Text = ''text''"

fun host_execution_name :: "host_execution \<Rightarrow> string" where
  "host_execution_name File_Edit_Only = ''file-edit-only''"
| "host_execution_name Command_Capable = ''command-capable''"

fun model_identity_name :: "model_identity \<Rightarrow> string" where
  "model_identity_name Model_Required = ''required''"
| "model_identity_name Model_Not_Applicable = ''not-applicable''"

definition adapter_json :: "profile_adapter \<Rightarrow> json" where
  "adapter_json a = JObj ([(''id'', JStr (pa_id a)), (''label'', JStr (pa_label a)), (''executable'', JStr (pa_executable a)),
     (''mutationMode'', JStr ''worktree''), (''outputFormat'', JStr (output_format_name (pa_outputFormat a))),
     (''safetyMode'', JStr (pa_safetyMode a))]
     @ optional ''hostExecution'' (map_option host_execution_name (pa_hostExecution a))
     @ [(''modelIdentity'', JStr (model_identity_name (pa_modelIdentity a)))])"

definition profile_file_json :: "worker_profile_file \<Rightarrow> json" where
  "profile_file_json f = JObj [(''role'', JStr (role_name (wf_role f))), (''path'', JStr (wf_path f)),
     (''size'', jnat (wf_size f)), (''sha256'', JStr (wf_sha256 f))]"

definition invocation_json :: "attempt_invocation \<Rightarrow> json" where
  "invocation_json i = JObj [(''executable'', JStr (iv_executable i)), (''args'', jstrs (iv_args i)), (''cwd'', JStr (iv_cwd i)),
     (''environmentKeys'', jstrs (iv_environmentKeys i))]"

definition options_json :: "job_contract \<Rightarrow> json" where
  "options_json contract = JObj (jc_adapterOptions contract)"

text \<open>What the fingerprint of a profile covers: everything but the schema name and itself.\<close>

definition profile_json :: "review_env \<Rightarrow> worker_execution_profile \<Rightarrow> json" where
  "profile_json env p = JObj ([(''recordedAt'', JStr (rv_iso env (wp_recordedAt p))), (''status'', JStr (profile_status_name (wp_status p))),
     (''adapter'', adapter_json (wp_adapter p)), (''adapterOptionsFingerprint'', JStr (wp_adapterOptionsFingerprint p)),
     (''invocationFingerprint'', JStr (wp_invocationFingerprint p))]
     @ optional ''modelSelector'' (wp_modelSelector p)
     @ [(''attributes'', JObj (map (\<lambda>(k, v). (k, JStr v)) (wp_attributes p))), (''files'', JArr (map profile_file_json (wp_files p))),
        (''unresolvedReasons'', jstrs (wp_unresolvedReasons p))])"

definition workerExecutionProfile_valid :: "worker_execution_profile \<Rightarrow> bool" where
  "workerExecutionProfile_valid p \<longleftrightarrow>
     pa_id (wp_adapter p) \<noteq> [] \<and> pa_label (wp_adapter p) \<noteq> [] \<and> pa_executable (wp_adapter p) \<noteq> [] \<and>
     pa_safetyMode (wp_adapter p) \<noteq> [] \<and> is_hex64 (wp_adapterOptionsFingerprint p) \<and> is_hex64 (wp_invocationFingerprint p) \<and>
     opt_nonempty (wp_modelSelector p) \<and> list_all (\<lambda>f. wf_path f \<noteq> [] \<and> is_hex64 (wf_sha256 f)) (wp_files p) \<and>
     list_all (\<lambda>r. r \<noteq> []) (wp_unresolvedReasons p) \<and> is_hex64 (wp_profileFingerprint p)"

record profile_evidence =
  pe_files :: "(profile_file_role \<times> string) list"
  pe_attributes :: "(string \<times> string) list"
  pe_modelSelector :: "string option"
  pe_unresolvedReasons :: "string list"

text \<open>The optional \<open>profileEvidence\<close> of an adapter, applied to the contract and the invocation.\<close>

record worker_adapter =
  wa_description :: profile_adapter
  wa_profileEvidence :: "(err + profile_evidence) option"

definition declared_evidence :: "worker_adapter \<Rightarrow> profile_evidence" where
  "declared_evidence a = (case wa_profileEvidence a of
     Some (Inr e) \<Rightarrow> e
   | _ \<Rightarrow> \<lparr>pe_files = [], pe_attributes = [], pe_modelSelector = None, pe_unresolvedReasons = []\<rparr>)"

definition evidence_failure :: "worker_adapter \<Rightarrow> string list" where
  "evidence_failure a = (case wa_profileEvidence a of
     Some (Inl e) \<Rightarrow> [''Adapter profile evidence failed: '' @ errorMessage e] | _ \<Rightarrow> [])"

text \<open>\<open>options.model\<close> when it is a string with something but white space in it.\<close>

definition job_model :: "job_contract \<Rightarrow> string option" where
  "job_model contract = (case map_of (jc_adapterOptions contract) ''model'' of
     Some (JStr m) \<Rightarrow> if trim m = [] then None else Some m | _ \<Rightarrow> None)"

definition declared_model :: "profile_evidence \<Rightarrow> string option" where
  "declared_model e = (case pe_modelSelector e of
     None \<Rightarrow> None | Some m \<Rightarrow> if trim m = [] then None else Some (trim m))"

definition model_selector :: "string option \<Rightarrow> string option \<Rightarrow> string option" where
  "model_selector declared job = (case declared of Some m \<Rightarrow> Some m | None \<Rightarrow> job)"

definition model_reasons :: "model_identity \<Rightarrow> string option \<Rightarrow> string option \<Rightarrow> string list" where
  "model_reasons identity declared job =
     (if declared \<noteq> None \<and> job \<noteq> None \<and> declared \<noteq> job
      then [''The adapter model selector disagrees with the job model selector''] else [])
     @ (if identity = Model_Required \<and> model_selector declared job = None
        then [''Neither the job nor the sealed adapter profile bound an explicit model selector''] else [])"

text \<open>The map of candidate files: a later entry takes the role of an earlier one for the same path.\<close>

definition profile_candidates :: "review_env \<Rightarrow> process_invocation \<Rightarrow> profile_evidence \<Rightarrow> (string \<times> profile_file_role) list" where
  "profile_candidates env invocation declared =
     foldl (\<lambda>cs (role, p). AList.update (resolve_path env p) role cs)
       (foldl (\<lambda>cs a. if posix_isAbsolute a then AList.update (resolve_path env a) Role_Harness cs else cs)
          [(resolve_path env (pi_executable invocation), Role_Executable)] (pi_args invocation))
       (pe_files declared)"

definition unreadable_reason :: "profile_file_role \<Rightarrow> string \<Rightarrow> err \<Rightarrow> string" where
  "unreadable_reason role target e = role_name role @ '' evidence is unreadable at '' @ target @ '': '' @ errorMessage e"

fun capture_files ::
  "evidence_files \<Rightarrow> (string \<times> profile_file_role) list \<Rightarrow> worker_profile_file list \<times> string list" where
  "capture_files ef [] = ([], [])"
| "capture_files ef ((target, role) # rest) =
     (case capture_files ef rest of (files, reasons) \<Rightarrow>
        (case ef_stat ef target of
           Inl e \<Rightarrow> (files, unreadable_reason role target e # reasons)
         | Inr (isFile, n) \<Rightarrow>
             if \<not> isFile
             then (files, if role \<noteq> Role_Harness then (role_name role @ '' evidence is not a file: '' @ target) # reasons else reasons)
             else (case ef_sha256 ef target of
                Inl e \<Rightarrow> (files, unreadable_reason role target e # reasons)
              | Inr sha \<Rightarrow> (\<lparr>wf_role = role, wf_path = target, wf_size = n, wf_sha256 = sha\<rparr> # files, reasons))))"

definition unsealed_profile ::
  "review_env \<Rightarrow> worker_adapter \<Rightarrow> job_contract \<Rightarrow> process_invocation \<Rightarrow> timestamp \<Rightarrow> worker_profile_file list \<Rightarrow> string list \<Rightarrow>
   worker_execution_profile" where
  "unsealed_profile env adapter contract invocation now files reasons =
     \<lparr>wp_recordedAt = now, wp_status = (if reasons = [] then Profile_Complete else Profile_Unresolved),
      wp_adapter = wa_description adapter, wp_adapterOptionsFingerprint = fingerprint_of env (options_json contract),
      wp_invocationFingerprint = fingerprint_of env (invocation_json \<lparr>iv_executable = pi_executable invocation,
        iv_args = pi_args invocation, iv_cwd = pi_cwd invocation, iv_environmentKeys = js_sort (map fst (pi_env invocation))\<rparr>),
      wp_modelSelector = model_selector (declared_model (declared_evidence adapter)) (job_model contract),
      wp_attributes = Sorting_Algorithms.sort (key fst (cv_lc (rv_cond env))) (pe_attributes (declared_evidence adapter)),
      wp_files = files, wp_unresolvedReasons = reasons, wp_profileFingerprint = []\<rparr>"

definition captureWorkerExecutionProfile ::
  "review_env \<Rightarrow> evidence_files \<Rightarrow> worker_adapter \<Rightarrow> job_contract \<Rightarrow> process_invocation \<Rightarrow> timestamp \<Rightarrow>
   err + worker_execution_profile" where
  "captureWorkerExecutionProfile env ef adapter contract invocation now =
     (let declared = declared_evidence adapter;
          (files, fileReasons) = capture_files ef
            (Sorting_Algorithms.sort (key fst (cv_lc (rv_cond env))) (profile_candidates env invocation declared));
          reasons = js_sort (js_unique (evidence_failure adapter @ pe_unresolvedReasons declared
            @ model_reasons (pa_modelIdentity (wa_description adapter)) (declared_model declared) (job_model contract) @ fileReasons));
          unsealed = unsealed_profile env adapter contract invocation now files reasons;
          profile = unsealed\<lparr>wp_profileFingerprint := fingerprint_of env (profile_json env unsealed)\<rparr>
      in if workerExecutionProfile_valid profile then Inr profile else Inl ZodError)"

fun validate_profile_files :: "evidence_files \<Rightarrow> worker_profile_file list \<Rightarrow> err + unit" where
  "validate_profile_files ef [] = Inr ()"
| "validate_profile_files ef (f # fs) =
     (let changed = Error (''Worker profile evidence changed: '' @ wf_path f) in
      case ef_stat ef (wf_path f) of
        Inl _ \<Rightarrow> Inl (Error (''Worker profile evidence is missing: '' @ wf_path f))
      | Inr (isFile, n) \<Rightarrow>
          if \<not> isFile \<or> n \<noteq> wf_size f then Inl changed
          else (case ef_sha256 ef (wf_path f) of
              Inl e \<Rightarrow> Inl e
            | Inr sha \<Rightarrow> if sha \<noteq> wf_sha256 f then Inl changed else validate_profile_files ef fs))"

definition validateWorkerExecutionProfile ::
  "review_env \<Rightarrow> evidence_files \<Rightarrow> worker_execution_profile \<Rightarrow> err + unit" where
  "validateWorkerExecutionProfile env ef p =
     bindE (checkE (workerExecutionProfile_valid p) ZodError) (\<lambda>_.
     bindE (checkE (fingerprint_of env (profile_json env p) = wp_profileFingerprint p)
       (Error ''Worker execution profile fingerprint changed'')) (\<lambda>_.
     bindE (checkE (wp_status p = Profile_Complete)
       (Error (''Worker execution profile is unresolved: '' @ join ''; '' (wp_unresolvedReasons p)))) (\<lambda>_.
     validate_profile_files ef (wp_files p))))"

subsection \<open>Evidence of an attempt\<close>

definition corrupt :: "string \<Rightarrow> err" where
  "corrupt m = ReviewEvidenceError ''corrupt'' m"

definition unavailable :: "string \<Rightarrow> err" where
  "unavailable m = ReviewEvidenceError ''unavailable'' m"

record review_evidence_state =
  re_contract :: job_contract
  re_manifest :: attempt_manifest
  re_cleanup :: attempt_cleanup_record
  re_verification :: verification_record
  re_changedPaths :: "string list"
  re_attemptDirectory :: string
  re_jobPath :: string

text \<open>The expected places, in the order of the object the source writes them in.\<close>

definition expected_artifacts :: "review_env \<Rightarrow> string \<Rightarrow> string \<Rightarrow> attempt_artifacts \<Rightarrow> (string \<times> string \<times> string) list" where
  "expected_artifacts env attemptDir jobFile a =
     (let directory = resolve_path env attemptDir in
      [(''job'', ar_job a, resolve_path env jobFile),
       (''manifest'', ar_manifest a, path_join directory ''attempt.json''),
       (''stdout'', ar_stdout a, path_join directory ''stdout.log''),
       (''stderr'', ar_stderr a, path_join directory ''stderr.log''),
       (''proposalPatch'', ar_proposalPatch a, path_join directory ''proposal.patch''),
       (''repositoryStatus'', ar_repositoryStatus a, path_join directory ''repository-status.txt''),
       (''changedPaths'', ar_changedPaths a, path_join directory ''changed-paths.json''),
       (''verification'', ar_verification a, path_join directory ''verification.json''),
       (''cleanup'', (case ar_cleanup a of None \<Rightarrow> [] | Some p \<Rightarrow> p), path_join directory ''cleanup.json'')])"

definition assertReviewArtifactPaths :: "review_env \<Rightarrow> attempt_manifest \<Rightarrow> string \<Rightarrow> string \<Rightarrow> err + unit" where
  "assertReviewArtifactPaths env manifest attemptDir jobFile =
     (case List.find (\<lambda>(name, actual, target). resolve_path env actual \<noteq> target)
         (expected_artifacts env attemptDir jobFile (am_artifacts manifest)) of
        None \<Rightarrow> Inr ()
      | Some (name, _) \<Rightarrow> Inl (corrupt (''Attempt artifact path changed for '' @ name)))"

definition validateProjection :: "review_env \<Rightarrow> evidence_files \<Rightarrow> string \<Rightarrow> string \<Rightarrow> json \<Rightarrow> err + unit" where
  "validateProjection env ef name target expected =
     (case ef_json ef target of
        Inl e \<Rightarrow> Inl (corrupt (name @ '' projection is unreadable: '' @ errorMessage e))
      | Inr v \<Rightarrow> checkE (canonical env v = canonical env expected)
          (corrupt (name @ '' projection disagrees with authoritative state'')))"

definition profile_agrees :: "review_env \<Rightarrow> job_contract \<Rightarrow> attempt_invocation \<Rightarrow> worker_execution_profile \<Rightarrow> bool" where
  "profile_agrees env contract invocation p \<longleftrightarrow>
     pa_id (wp_adapter p) = jc_adapterId contract \<and>
     wp_adapterOptionsFingerprint p = fingerprint_of env (options_json contract) \<and>
     wp_invocationFingerprint p = fingerprint_of env (invocation_json invocation) \<and>
     \<not> (job_model contract \<noteq> None \<and> wp_modelSelector p \<noteq> job_model contract) \<and>
     \<not> (pa_modelIdentity (wp_adapter p) = Model_Required \<and> wp_modelSelector p = None)"

definition profile_evidence_ok :: "review_env \<Rightarrow> evidence_files \<Rightarrow> review_evidence_state \<Rightarrow> err + unit" where
  "profile_evidence_ok env ef st =
     (let m = re_manifest st; a = am_attemptId m in
      case am_workerProfile m of
        None \<Rightarrow> Inl (ReviewEvidenceError ''legacy-unsealed'' (''Attempt '' @ a @ '' has no launch-time worker profile''))
      | Some p \<Rightarrow>
          if wp_status p \<noteq> Profile_Complete
          then Inl (ReviewEvidenceError ''profile-unresolved'' (''Attempt '' @ a @ '' worker profile is unresolved: ''
            @ join ''; '' (wp_unresolvedReasons p)))
          else (case validateWorkerExecutionProfile env ef p of
              Inl e \<Rightarrow> Inl (corrupt (''Worker profile validation failed for '' @ a @ '': '' @ errorMessage e))
            | Inr _ \<Rightarrow>
                (case am_invocation m of
                   None \<Rightarrow> Inl (corrupt (''Attempt '' @ a @ '' has no persisted invocation''))
                 | Some invocation \<Rightarrow> checkE (profile_agrees env (re_contract st) invocation p)
                     (corrupt (''Worker profile disagrees with contract or invocation for '' @ a)))))"

definition projections_ok :: "review_env \<Rightarrow> evidence_files \<Rightarrow> review_evidence_state \<Rightarrow> err + unit" where
  "projections_ok env ef st =
     (let a = am_artifacts (re_manifest st) in
      bindE (validateProjection env ef ''job contract'' (re_jobPath st) (rv_contractJson env (re_contract st))) (\<lambda>_.
      bindE (validateProjection env ef ''attempt manifest'' (ar_manifest a) (rv_attemptJson env (re_manifest st))) (\<lambda>_.
      bindE (validateProjection env ef ''cleanup record'' (case ar_cleanup a of None \<Rightarrow> [] | Some p \<Rightarrow> p)
        (rv_cleanupJson env (re_cleanup st))) (\<lambda>_.
      bindE (validateProjection env ef ''verification record'' (ar_verification a) (rv_verificationJson env (re_verification st))) (\<lambda>_.
      validateProjection env ef ''changed paths'' (ar_changedPaths a) (jstrs (re_changedPaths st)))))))"

definition assertReviewEvidenceState :: "review_env \<Rightarrow> evidence_files \<Rightarrow> review_evidence_state \<Rightarrow> err + unit" where
  "assertReviewEvidenceState env ef st =
     (let m = re_manifest st; c = re_cleanup st; v = re_verification st; a = am_attemptId m in
      bindE (checkE (am_status m = ACompleted \<and> am_verificationStatus m = V_Eligible \<and> vr_eligibleForReview v)
        (unavailable (''Attempt '' @ a @ '' is not eligible for review''))) (\<lambda>_.
      bindE (checkE (cr_status c \<in> {C_NotRequired, C_Proven})
        (unavailable (''Attempt '' @ a @ '' cleanup is '' @ cleanup_status_name (cr_status c)))) (\<lambda>_.
      bindE (profile_evidence_ok env ef st) (\<lambda>_.
      bindE (checkE (jc_jobId (re_contract st) = am_jobId m \<and> cr_jobId c = am_jobId m \<and> cr_attemptId c = a \<and>
          vr_jobId v = am_jobId m \<and> vr_attemptId v = a)
        (corrupt (''Review evidence identity mismatch for '' @ a))) (\<lambda>_.
      bindE (checkE (canonical env (jstrs (re_changedPaths st)) = canonical env (jstrs (sc_changedPaths (vr_scope v))))
        (corrupt (''Changed-path and verification evidence disagree for '' @ a))) (\<lambda>_.
      bindE (assertReviewArtifactPaths env m (re_attemptDirectory st) (re_jobPath st)) (\<lambda>_.
      projections_ok env ef st)))))))"

subsection \<open>Bindings and inventory\<close>

datatype evidence_purpose =
    Ep_Job | Ep_Attempt | Ep_Cleanup | Ep_ProposalPatch | Ep_RepositoryStatus | Ep_ChangedPaths | Ep_Verification
  | Ep_WorkerStdout | Ep_WorkerStderr | Ep_CommandStdout | Ep_CommandStderr | Ep_LineagePatch | Ep_LineageVerification
  | Ep_WorkerExecutable | Ep_WorkerHarness | Ep_WorkerConfiguration

fun purpose_name :: "evidence_purpose \<Rightarrow> string" where
  "purpose_name Ep_Job = ''job''"
| "purpose_name Ep_Attempt = ''attempt''"
| "purpose_name Ep_Cleanup = ''cleanup''"
| "purpose_name Ep_ProposalPatch = ''proposal-patch''"
| "purpose_name Ep_RepositoryStatus = ''repository-status''"
| "purpose_name Ep_ChangedPaths = ''changed-paths''"
| "purpose_name Ep_Verification = ''verification''"
| "purpose_name Ep_WorkerStdout = ''worker-stdout''"
| "purpose_name Ep_WorkerStderr = ''worker-stderr''"
| "purpose_name Ep_CommandStdout = ''command-stdout''"
| "purpose_name Ep_CommandStderr = ''command-stderr''"
| "purpose_name Ep_LineagePatch = ''lineage-patch''"
| "purpose_name Ep_LineageVerification = ''lineage-verification''"
| "purpose_name Ep_WorkerExecutable = ''worker-executable''"
| "purpose_name Ep_WorkerHarness = ''worker-harness''"
| "purpose_name Ep_WorkerConfiguration = ''worker-configuration''"

record evidence_binding =
  eb_path :: string
  eb_purposes :: "evidence_purpose list"
  eb_size :: nat
  eb_sha256 :: string

datatype inventory_entry = Inv_Directory string | Inv_File string nat string

fun inv_path :: "inventory_entry \<Rightarrow> string" where
  "inv_path (Inv_Directory p) = p"
| "inv_path (Inv_File p _ _) = p"

text \<open>\<open>add\<close>: the set of purposes of the resolved path; an empty or missing path is skipped.\<close>

definition add_evidence ::
  "review_env \<Rightarrow> (string \<times> evidence_purpose list) list \<Rightarrow> string option \<times> evidence_purpose \<Rightarrow> (string \<times> evidence_purpose list) list" where
  "add_evidence env requested entry =
     (case entry of (target, purpose) \<Rightarrow>
        if \<not> truthy target then requested
        else
          let absolute = resolve_path env (the target);
              purposes = (case map_of requested absolute of None \<Rightarrow> [] | Some ps \<Rightarrow> ps)
          in AList.update absolute (List.insert purpose purposes) requested)"

definition ensureWithinAttempt :: "review_env \<Rightarrow> string \<Rightarrow> string option \<Rightarrow> err + unit" where
  "ensureWithinAttempt env dir target =
     (if \<not> truthy target then Inr ()
      else
        let rel = posix_relative (resolve_path env dir) (resolve_path env (the target)) in
        checkE (\<not> (rel = [] \<or> prefix ''../'' rel \<or> rel = ''..'' \<or> posix_isAbsolute rel))
          (corrupt (''Command evidence escaped its attempt directory: '' @ the target)))"

definition artifact_evidence :: "review_evidence_state \<Rightarrow> (string option \<times> evidence_purpose) list" where
  "artifact_evidence st =
     (let a = am_artifacts (re_manifest st) in
      [(Some (re_jobPath st), Ep_Job), (Some (ar_manifest a), Ep_Attempt), (ar_cleanup a, Ep_Cleanup),
       (Some (ar_proposalPatch a), Ep_ProposalPatch), (Some (ar_repositoryStatus a), Ep_RepositoryStatus),
       (Some (ar_changedPaths a), Ep_ChangedPaths), (Some (ar_verification a), Ep_Verification),
       (Some (ar_stdout a), Ep_WorkerStdout), (Some (ar_stderr a), Ep_WorkerStderr)])"

definition command_evidence_of :: "review_evidence_state \<Rightarrow> command_evidence list" where
  "command_evidence_of st = sr_commands (vr_setup (re_verification st)) @ ap_commands (vr_acceptance (re_verification st))"

fun ensure_commands :: "review_env \<Rightarrow> string \<Rightarrow> command_evidence list \<Rightarrow> err + unit" where
  "ensure_commands env dir [] = Inr ()"
| "ensure_commands env dir (c # cs) =
     bindE (ensureWithinAttempt env dir (ev_stdout c)) (\<lambda>_.
     bindE (ensureWithinAttempt env dir (ev_stderr c)) (\<lambda>_. ensure_commands env dir cs))"

fun profile_purpose :: "profile_file_role \<Rightarrow> evidence_purpose" where
  "profile_purpose Role_Executable = Ep_WorkerExecutable"
| "profile_purpose Role_Configuration = Ep_WorkerConfiguration"
| "profile_purpose Role_Harness = Ep_WorkerHarness"

definition requested_evidence :: "review_evidence_state \<Rightarrow> (string option \<times> evidence_purpose) list" where
  "requested_evidence st = artifact_evidence st
     @ concat (map (\<lambda>c. [(ev_stdout c, Ep_CommandStdout), (ev_stderr c, Ep_CommandStderr)]) (command_evidence_of st))
     @ concat (map (\<lambda>c. [(Some (pcn_patchPath c), Ep_LineagePatch), (Some (pcn_verificationPath c), Ep_LineageVerification)])
         (case am_lineage (re_manifest st) of None \<Rightarrow> [] | Some l \<Rightarrow> pl_contributions l))
     @ (case am_workerProfile (re_manifest st) of None \<Rightarrow> []
        | Some p \<Rightarrow> map (\<lambda>f. (Some (wf_path f), profile_purpose (wf_role f))) (wp_files p))"

definition bind_evidence :: "evidence_files \<Rightarrow> string \<times> evidence_purpose list \<Rightarrow> err + evidence_binding" where
  "bind_evidence ef entry =
     (case entry of (target, purposes) \<Rightarrow>
        (case ef_stat ef target of
           Inl _ \<Rightarrow> Inl (unavailable (''Required review evidence is missing: '' @ target))
         | Inr (isFile, n) \<Rightarrow>
             if \<not> isFile then Inl (corrupt (''Required review evidence is not a regular file: '' @ target))
             else map_sum id (\<lambda>sha. \<lparr>eb_path = target, eb_purposes = Sorting_Algorithms.sort (key purpose_name default) purposes,
                 eb_size = n, eb_sha256 = sha\<rparr>) (ef_sha256 ef target)))"

definition collectEvidenceBindings :: "review_env \<Rightarrow> evidence_files \<Rightarrow> review_evidence_state \<Rightarrow> err + evidence_binding list" where
  "collectEvidenceBindings env ef st =
     bindE (ensure_commands env (re_attemptDirectory st) (command_evidence_of st)) (\<lambda>_.
     read_all (bind_evidence ef)
       (Sorting_Algorithms.sort (key fst (cv_lc (rv_cond env))) (foldl (add_evidence env) [] (requested_evidence st))))"

fun validateBindings :: "evidence_files \<Rightarrow> evidence_binding list \<Rightarrow> err + unit" where
  "validateBindings ef [] = Inr ()"
| "validateBindings ef (b # bs) =
     (let changed = corrupt (''Sealed review evidence changed: '' @ eb_path b) in
      case ef_stat ef (eb_path b) of
        Inl _ \<Rightarrow> Inl (corrupt (''Sealed review evidence is missing: '' @ eb_path b))
      | Inr (isFile, n) \<Rightarrow>
          if \<not> isFile \<or> n \<noteq> eb_size b then Inl changed
          else (case ef_sha256 ef (eb_path b) of
              Inl e \<Rightarrow> Inl e
            | Inr sha \<Rightarrow> if sha \<noteq> eb_sha256 b then Inl changed else validateBindings ef bs))"

text \<open>
  \<open>visit\<close>: the children of a directory in the order of their names, each with everything below it. The
  rows of a child do not depend on its siblings, so they are computed first and put in order then; the
  first failure in that order is the one reported. \<open>rel\<close> is the path below the attempt directory.
\<close>

fun first_error :: "(string \<times> (err + 'a list)) list \<Rightarrow> err + 'a list" where
  "first_error [] = Inr []"
| "first_error ((_, r) # rest) = bindE r (\<lambda>xs. bindE (first_error rest) (\<lambda>ys. Inr (xs @ ys)))"

definition relative_name :: "string \<Rightarrow> string \<Rightarrow> string" where
  "relative_name rel n = (if rel = [] then n else path_join rel n)"

fun visit :: "evidence_files \<Rightarrow> string comparator \<Rightarrow> string \<Rightarrow> string \<Rightarrow> tree_entry \<Rightarrow> err + inventory_entry list" where
  "visit ef lc dir rel (Tree_Dir n children) =
     (let r = relative_name rel n; p = to_portable r in
      if p = ''review-packet.json'' then Inr []
      else bindE (first_error (Sorting_Algorithms.sort (key fst lc)
             (map (\<lambda>c. (tree_name c, visit ef lc (path_join dir n) r c)) children)))
           (\<lambda>rows. Inr (Inv_Directory p # rows)))"
| "visit ef lc dir rel (Tree_Broken_Dir n e) =
     (if to_portable (relative_name rel n) = ''review-packet.json'' then Inr [] else Inl e)"
| "visit ef lc dir rel (Tree_Link n) =
     (let p = to_portable (relative_name rel n) in
      if p = ''review-packet.json'' then Inr []
      else Inl (corrupt (''Symbolic links are prohibited in sealed attempt evidence: '' @ p)))"
| "visit ef lc dir rel (Tree_File n) =
     (let p = to_portable (relative_name rel n) in
      if p = ''review-packet.json'' then Inr []
      else bindE (ef_stat ef (path_join dir n)) (\<lambda>(_, size).
           bindE (ef_sha256 ef (path_join dir n)) (\<lambda>sha. Inr [Inv_File p size sha])))"
| "visit ef lc dir rel (Tree_Other n) =
     (let p = to_portable (relative_name rel n) in
      if p = ''review-packet.json'' then Inr []
      else Inl (corrupt (''Unsupported entry in sealed attempt evidence: '' @ p)))"

definition collectAttemptInventory :: "review_env \<Rightarrow> evidence_files \<Rightarrow> string \<Rightarrow> err + inventory_entry list" where
  "collectAttemptInventory env ef attemptDir =
     (let dir = resolve_path env attemptDir; lc = cv_lc (rv_cond env) in
      bindE (ef_tree ef dir) (\<lambda>children.
      bindE (first_error (Sorting_Algorithms.sort (key fst lc) (map (\<lambda>c. (tree_name c, visit ef lc dir [] c)) children)))
        (\<lambda>rows. Inr (Sorting_Algorithms.sort (key inv_path lc) rows))))"

subsection \<open>The sealed packet\<close>

record reviewer_contract =
  rc_allowedOutcomes :: "string list"
  rc_requiredFindingFields :: "string list"
  rc_instructions :: "string list"

definition createReviewerContract :: reviewer_contract where
  "createReviewerContract = \<lparr>rc_allowedOutcomes = [''pass'', ''fail'', ''needs-context''],
     rc_requiredFindingFields = [''severity'', ''path'', ''line'', ''claim'', ''evidence''],
     rc_instructions =
      [''Review the bound proposal patch against the frozen contract and repository evidence.'',
       ''Treat deterministic verification as evidence, not proof of semantic correctness.'',
       ''When proposal lineage is present, treat every contribution as unaccepted context and retrieve its hash-bound patch before judging the derived change.'',
       ''Return fail for any actionable defect and needs-context only when named evidence is missing.'',
       ''Do not accept, merge, execute, or mutate repository state.'']\<rparr>"

definition reviewer_json :: "reviewer_contract \<Rightarrow> json" where
  "reviewer_json r = JObj [(''allowedOutcomes'', jstrs (rc_allowedOutcomes r)), (''requiredFindingFields'', jstrs (rc_requiredFindingFields r)),
     (''instructions'', jstrs (rc_instructions r))]"

record review_body =
  rp_sealedAt :: timestamp
  rp_jobId :: string
  rp_attemptId :: string
  rp_contract :: job_contract
  rp_attempt :: attempt_manifest
  rp_cleanup :: attempt_cleanup_record
  rp_verification :: verification_record
  rp_changedPaths :: "string list"
  rp_bindings :: "evidence_binding list"
  rp_attemptInventory :: "inventory_entry list"
  rp_reviewerContract :: reviewer_contract

record review_packet = review_body +
  rp_sealSha256 :: string

definition binding_json :: "evidence_binding \<Rightarrow> json" where
  "binding_json b = JObj [(''path'', JStr (eb_path b)), (''purposes'', jstrs (map purpose_name (eb_purposes b))),
     (''size'', jnat (eb_size b)), (''sha256'', JStr (eb_sha256 b))]"

fun inventory_json :: "inventory_entry \<Rightarrow> json" where
  "inventory_json (Inv_Directory p) = JObj [(''path'', JStr p), (''kind'', JStr ''directory'')]"
| "inventory_json (Inv_File p n sha) = JObj [(''path'', JStr p), (''kind'', JStr ''file''), (''size'', jnat n), (''sha256'', JStr sha)]"

definition body_json :: "review_env \<Rightarrow> review_body \<Rightarrow> json" where
  "body_json env p = JObj
     [(''schema'', JStr ''conductor.review-packet/v2''), (''sealedAt'', JStr (rv_iso env (rp_sealedAt p))),
      (''jobId'', JStr (rp_jobId p)), (''attemptId'', JStr (rp_attemptId p)), (''authority'', JStr ''advisory-review-only''),
      (''contract'', rv_contractJson env (rp_contract p)), (''attempt'', rv_attemptJson env (rp_attempt p)),
      (''cleanup'', rv_cleanupJson env (rp_cleanup p)), (''verification'', rv_verificationJson env (rp_verification p)),
      (''changedPaths'', jstrs (rp_changedPaths p)), (''bindings'', JArr (map binding_json (rp_bindings p))),
      (''attemptInventory'', JArr (map inventory_json (rp_attemptInventory p))),
      (''reviewerContract'', reviewer_json (rp_reviewerContract p))]"

fun inventory_valid :: "inventory_entry \<Rightarrow> bool" where
  "inventory_valid (Inv_Directory p) \<longleftrightarrow> p \<noteq> []"
| "inventory_valid (Inv_File p n sha) \<longleftrightarrow> p \<noteq> [] \<and> is_hex64 sha"

definition reviewPacket_valid :: "review_packet \<Rightarrow> bool" where
  "reviewPacket_valid p \<longleftrightarrow> rp_jobId p \<noteq> [] \<and> rp_attemptId p \<noteq> [] \<and> jobContract_valid (rp_contract p) \<and>
     attemptManifest_valid (rp_attempt p) \<and> attemptCleanupRecord_valid (rp_cleanup p) \<and>
     rp_bindings p \<noteq> [] \<and> list_all (\<lambda>b. eb_path b \<noteq> [] \<and> eb_purposes b \<noteq> [] \<and> is_hex64 (eb_sha256 b)) (rp_bindings p) \<and>
     list_all inventory_valid (rp_attemptInventory p) \<and> is_hex64 (rp_sealSha256 p)"

definition seal :: "review_env \<Rightarrow> review_body \<Rightarrow> string" where
  "seal env body = fingerprint_of env (body_json env body)"

text \<open>\<open>new Date(undefined).toISOString()\<close> fails; the conductor passes no \<open>now\<close>.\<close>

definition buildReviewPacket ::
  "review_env \<Rightarrow> evidence_files \<Rightarrow> review_evidence_state \<Rightarrow> timestamp option \<Rightarrow> err + review_packet" where
  "buildReviewPacket env ef st now =
     bindE (assertReviewEvidenceState env ef st) (\<lambda>_.
     case (case now of Some t \<Rightarrow> Some t | None \<Rightarrow> am_finishedAt (re_manifest st)) of
       None \<Rightarrow> Inl (Error ''Invalid time value'')
     | Some sealedAt \<Rightarrow>
         bindE (collectEvidenceBindings env ef st) (\<lambda>bindings.
         bindE (collectAttemptInventory env ef (re_attemptDirectory st)) (\<lambda>inventory.
         let body = \<lparr>rp_sealedAt = sealedAt, rp_jobId = am_jobId (re_manifest st), rp_attemptId = am_attemptId (re_manifest st),
               rp_contract = re_contract st, rp_attempt = re_manifest st, rp_cleanup = re_cleanup st,
               rp_verification = re_verification st, rp_changedPaths = re_changedPaths st, rp_bindings = bindings,
               rp_attemptInventory = inventory, rp_reviewerContract = createReviewerContract\<rparr>;
             packet = review_body.extend body \<lparr>rp_sealSha256 = seal env body\<rparr>
         in if reviewPacket_valid packet then Inr packet else Inl ZodError)))"

text \<open>The sealed records against the current ones, by their canonical JSON and in the order of the source.\<close>

definition sealed_comparisons :: "review_env \<Rightarrow> review_packet \<Rightarrow> review_evidence_state \<Rightarrow> (string \<times> json \<times> json) list" where
  "sealed_comparisons env p st =
     [(''job contract'', rv_contractJson env (rp_contract p), rv_contractJson env (re_contract st)),
      (''terminal attempt'', rv_attemptJson env (rp_attempt p), rv_attemptJson env (re_manifest st)),
      (''cleanup'', rv_cleanupJson env (rp_cleanup p), rv_cleanupJson env (re_cleanup st)),
      (''verification'', rv_verificationJson env (rp_verification p), rv_verificationJson env (re_verification st)),
      (''changed paths'', jstrs (rp_changedPaths p), jstrs (re_changedPaths st)),
      (''reviewer contract'', reviewer_json (rp_reviewerContract p), reviewer_json createReviewerContract)]"

definition validateReviewPacket ::
  "review_env \<Rightarrow> evidence_files \<Rightarrow> review_packet \<Rightarrow> review_evidence_state \<Rightarrow> err + unit" where
  "validateReviewPacket env ef p st =
     (let a = rp_attemptId p in
      bindE (checkE (reviewPacket_valid p) ZodError) (\<lambda>_.
      bindE (checkE (seal env (review_body.truncate p) = rp_sealSha256 p) (corrupt (''Review packet seal changed for '' @ a))) (\<lambda>_.
      bindE (assertReviewEvidenceState env ef st) (\<lambda>_.
      bindE (case List.find (\<lambda>(name, sealed, current). canonical env sealed \<noteq> canonical env current) (sealed_comparisons env p st) of
          None \<Rightarrow> Inr ()
        | Some (name, _) \<Rightarrow> Inl (corrupt (''Sealed '' @ name @ '' changed for '' @ a))) (\<lambda>_.
      bindE (checkE (rp_jobId p = am_jobId (re_manifest st) \<and> a = am_attemptId (re_manifest st))
        (corrupt (''Review packet identity changed for '' @ a))) (\<lambda>_.
      bindE (validateBindings ef (rp_bindings p)) (\<lambda>_.
      bindE (collectAttemptInventory env ef (re_attemptDirectory st)) (\<lambda>inventory.
      checkE (canonical env (JArr (map inventory_json inventory)) = canonical env (JArr (map inventory_json (rp_attemptInventory p))))
        (corrupt (''Attempt evidence inventory changed for '' @ a))))))))))"

subsection \<open>Handlers of the conductor\<close>

text \<open>What \<open>review-packet.json\<close> holds: a packet, one of the first version, or something that does not parse.\<close>

datatype packet_file = Packet_Json review_packet | Packet_Legacy | Packet_Invalid err

record review_state =
  rw_cond :: conductor_state
  rw_packets :: "(string \<times> packet_file) list"

definition on_review_cond :: "(conductor_state, 'a) act \<Rightarrow> (review_state, 'a) act" where
  "on_review_cond m s = (case m (rw_cond s) of (r, c) \<Rightarrow> (r, s\<lparr>rw_cond := c\<rparr>))"

definition safe_attempt_directory :: "artifact_store \<Rightarrow> attempt_manifest \<Rightarrow> err + string" where
  "safe_attempt_directory st m =
     bindE (safeSegment (am_jobId m)) (\<lambda>j. bindE (safeSegment (am_attemptId m)) (\<lambda>a. Inr (attemptDirectory st j a)))"

fun string_array :: "json \<Rightarrow> string list option" where
  "string_array (JArr xs) = those (map (\<lambda>x. case x of JStr t \<Rightarrow> Some t | _ \<Rightarrow> None) xs)"
| "string_array _ = None"

text \<open>The three reads start together; of several failures the first in this order is reported here.\<close>

definition readReviewEvidenceState ::
  "review_env \<Rightarrow> evidence_files \<Rightarrow> job_contract \<Rightarrow> attempt_manifest \<Rightarrow> (review_state, review_evidence_state) act" where
  "readReviewEvidenceState env ef contract manifest =
     bindA getA (\<lambda>s.
     let store = cd_store (rw_cond s); jobFile = jobPath store (am_jobId manifest) in
     bindA (liftE (safe_attempt_directory store manifest)) (\<lambda>attemptDir.
     bindA (liftE (assertReviewArtifactPaths env manifest attemptDir jobFile)) (\<lambda>_.
     bindA (liftE (readAttemptCleanup store (am_jobId manifest) (am_attemptId manifest))) (\<lambda>cleanup.
     bindA (on_review_cond (getVerification (rv_cond env) (am_attemptId manifest))) (\<lambda>verification.
     bindA (liftE (ef_json ef (ar_changedPaths (am_artifacts manifest)))) (\<lambda>raw.
     case string_array raw of
       None \<Rightarrow> raise (corrupt (''Invalid changed-path evidence for '' @ am_attemptId manifest))
     | Some changedPaths \<Rightarrow> ret \<lparr>re_contract = contract, re_manifest = manifest, re_cleanup = cleanup,
         re_verification = verification, re_changedPaths = changedPaths, re_attemptDirectory = attemptDir,
         re_jobPath = jobFile\<rparr>))))))"

definition packet_path :: "attempt_manifest \<Rightarrow> string" where
  "packet_path m = path_join (dirname (ar_manifest (am_artifacts m))) ''review-packet.json''"

definition read_packet :: "string \<Rightarrow> (review_state, packet_file) act" where
  "read_packet target = readsA (\<lambda>s. case map_of (rw_packets s) target of None \<Rightarrow> Inl (NodeError ''ENOENT'') | Some f \<Rightarrow> Inr f)"

text \<open>The stored packet, validated; a failure with the code ENOENT, whatever it came from, counts as no packet.\<close>

definition existing_packet ::
  "review_env \<Rightarrow> evidence_files \<Rightarrow> string \<Rightarrow> review_evidence_state \<Rightarrow> string \<Rightarrow> (review_state, review_packet option) act" where
  "existing_packet env ef attemptId st target =
     catchA
       (bindA (read_packet target) (\<lambda>raw.
        case raw of
          Packet_Invalid e \<Rightarrow> raise e
        | Packet_Legacy \<Rightarrow> raise (ReviewEvidenceError ''legacy-unsealed''
            (''Attempt '' @ attemptId @ '' has a legacy packet that cannot be upgraded without historical evidence''))
        | Packet_Json p \<Rightarrow>
            bindA (guardA (reviewPacket_valid p) ZodError) (\<lambda>_.
            bindA (liftE (validateReviewPacket env ef p st)) (\<lambda>_. ret (Some p)))))
       (\<lambda>e. if e = NodeError ''ENOENT'' then ret None else raise e)"

definition write_packet :: "review_env \<Rightarrow> string \<Rightarrow> review_packet \<Rightarrow> (review_state, unit) act" where
  "write_packet env target p s =
     (case rv_writePacket env of
        Inl e \<Rightarrow> (Inl e, s)
      | Inr _ \<Rightarrow> (Inr (), s\<lparr>rw_packets := AList.update target (Packet_Json p) (rw_packets s)\<rparr>))"

text \<open>When the packet cannot be written, the packet another process wrote is returned if it validates.\<close>

definition winner_packet ::
  "review_env \<Rightarrow> evidence_files \<Rightarrow> review_evidence_state \<Rightarrow> string \<Rightarrow> err \<Rightarrow> (review_state, review_packet) act" where
  "winner_packet env ef st target e =
     catchA (bindA (read_packet target) (\<lambda>raw.
        case raw of
          Packet_Json p \<Rightarrow> bindA (guardA (reviewPacket_valid p) ZodError) (\<lambda>_.
            bindA (liftE (validateReviewPacket env ef p st)) (\<lambda>_. ret p))
        | Packet_Invalid e' \<Rightarrow> raise e'
        | Packet_Legacy \<Rightarrow> raise ZodError))
       (\<lambda>_. raise e)"

definition current_evidence ::
  "review_env \<Rightarrow> evidence_files \<Rightarrow> string \<Rightarrow> string \<Rightarrow> (review_state, review_evidence_state) act" where
  "current_evidence env ef jobId attemptId =
     bindA (on_review_cond (readJobA (rv_cond env) jobId)) (\<lambda>contract.
     bindA (on_review_cond (getAttempt attemptId)) (\<lambda>manifest.
     readReviewEvidenceState env ef contract manifest))"

definition create_packet ::
  "review_env \<Rightarrow> evidence_files \<Rightarrow> string \<Rightarrow> attempt_manifest \<Rightarrow> review_evidence_state \<Rightarrow> string \<Rightarrow> (review_state, review_packet) act" where
  "create_packet env ef attemptId manifest st target =
     bindA (liftE (buildReviewPacket env ef st None)) (\<lambda>packet.
     bindA (catchA (bindA (write_packet env target packet) (\<lambda>_. ret None))
       (\<lambda>e. bindA (winner_packet env ef st target e) (\<lambda>w. ret (Some w)))) (\<lambda>winner.
     case winner of
       Some w \<Rightarrow> ret w
     | None \<Rightarrow>
         bindA (current_evidence env ef (am_jobId manifest) attemptId) (\<lambda>st'.
         bindA (liftE (validateReviewPacket env ef packet st')) (\<lambda>_. ret packet))))"

text \<open>Calls of one process for the same attempt share one execution, so one call is described.\<close>

definition getReviewPacket :: "review_env \<Rightarrow> evidence_files \<Rightarrow> string \<Rightarrow> (review_state, review_packet) act" where
  "getReviewPacket env ef attemptId =
     bindA (on_review_cond (getAttempt attemptId)) (\<lambda>manifest.
     bindA (guardA (am_status manifest = ACompleted \<and> am_verificationStatus manifest = V_Eligible)
       (unavailable (''Attempt '' @ attemptId @ '' is not eligible for review''))) (\<lambda>_.
     bindA (on_review_cond (readJobA (rv_cond env) (am_jobId manifest))) (\<lambda>contract.
     bindA (case am_lineage manifest of
         Some l \<Rightarrow> if pl_status l = Lineage_Composed then on_review_cond (validateProposalLineage (rv_cond env) contract l) else ret ()
       | None \<Rightarrow> ret ()) (\<lambda>_.
     bindA (readReviewEvidenceState env ef contract manifest) (\<lambda>st.
     bindA (existing_packet env ef attemptId st (packet_path manifest)) (\<lambda>existing.
     case existing of Some p \<Rightarrow> ret p | None \<Rightarrow> create_packet env ef attemptId manifest st (packet_path manifest)))))))"

datatype artifact_name = An_Job | An_Manifest | An_Stdout | An_Stderr | An_ProposalPatch | An_RepositoryStatus
  | An_ChangedPaths | An_Verification | An_Cleanup

fun artifact_text_name :: "artifact_name \<Rightarrow> string" where
  "artifact_text_name An_Job = ''job''"
| "artifact_text_name An_Manifest = ''manifest''"
| "artifact_text_name An_Stdout = ''stdout''"
| "artifact_text_name An_Stderr = ''stderr''"
| "artifact_text_name An_ProposalPatch = ''proposalPatch''"
| "artifact_text_name An_RepositoryStatus = ''repositoryStatus''"
| "artifact_text_name An_ChangedPaths = ''changedPaths''"
| "artifact_text_name An_Verification = ''verification''"
| "artifact_text_name An_Cleanup = ''cleanup''"

fun artifact_of :: "artifact_name \<Rightarrow> attempt_artifacts \<Rightarrow> string option" where
  "artifact_of An_Job a = Some (ar_job a)"
| "artifact_of An_Manifest a = Some (ar_manifest a)"
| "artifact_of An_Stdout a = Some (ar_stdout a)"
| "artifact_of An_Stderr a = Some (ar_stderr a)"
| "artifact_of An_ProposalPatch a = Some (ar_proposalPatch a)"
| "artifact_of An_RepositoryStatus a = Some (ar_repositoryStatus a)"
| "artifact_of An_ChangedPaths a = Some (ar_changedPaths a)"
| "artifact_of An_Verification a = Some (ar_verification a)"
| "artifact_of An_Cleanup a = ar_cleanup a"

record artifact_text =
  at_attemptId :: string
  at_name :: artifact_name
  at_path :: string
  at_size :: nat
  at_truncated :: bool
  at_text :: string

definition readAttemptArtifact ::
  "evidence_files \<Rightarrow> string \<Rightarrow> artifact_name \<Rightarrow> int \<Rightarrow> (review_state, artifact_text) act" where
  "readAttemptArtifact ef attemptId name maxBytes =
     bindA (guardA (1 \<le> maxBytes \<and> maxBytes \<le> 1000000) (Error ''maxBytes must be an integer between 1 and 1000000'')) (\<lambda>_.
     bindA (on_review_cond (getAttempt attemptId)) (\<lambda>manifest.
     let artifact = artifact_of name (am_artifacts manifest) in
     if \<not> truthy artifact then raise (Error (''Artifact '' @ artifact_text_name name @ '' is unavailable for attempt '' @ attemptId))
     else
       bindA (liftE (ef_stat ef (the artifact))) (\<lambda>(_, size).
       bindA (liftE (ef_head ef (the artifact) (min size (nat maxBytes)))) (\<lambda>text.
       ret \<lparr>at_attemptId = attemptId, at_name = name, at_path = the artifact, at_size = size,
         at_truncated = (maxBytes < int size), at_text = text\<rparr>))))"

definition getReviewBundle ::
  "review_env \<Rightarrow> evidence_files \<Rightarrow> string \<Rightarrow> int \<Rightarrow> (review_state, review_packet \<times> artifact_text) act" where
  "getReviewBundle env ef attemptId maxPatchBytes =
     bindA (getReviewPacket env ef attemptId) (\<lambda>packet.
     bindA (readAttemptArtifact ef attemptId An_ProposalPatch maxPatchBytes) (\<lambda>patch.
     bindA (on_review_cond (getAttempt attemptId)) (\<lambda>manifest.
     bindA (on_review_cond (readJobA (rv_cond env) (am_jobId manifest))) (\<lambda>contract.
     bindA (readReviewEvidenceState env ef contract manifest) (\<lambda>st.
     bindA (liftE (validateReviewPacket env ef packet st)) (\<lambda>_. ret (packet, patch)))))))"

end
