(* ===== verification/Provider.thy ===== *)
theory Provider
  imports Review
begin

text \<open>
  The worker for the OpenAI Responses API (\<open>src/src/contracts/provider-profile.ts\<close>,
  \<open>workers/openai-responses.ts\<close> and \<open>workers/openai-responses-runner.ts\<close>): the owner's profiles with
  their budgets and integer cost accounting, the command line that the adapter builds and the runner
  parses, and the loop of requests and file tools.

  Parameters: what the provider answers to the \<open>n\<close>-th request (\<open>pv_fetch\<close>), \<open>JSON.parse\<close> of the text of
  tool arguments (\<open>pv_parse\<close>), and the answers of the file system (\<open>tool_fs\<close>), which may depend on
  everything that was done to it before: the log of operations is part of the state. Numbers of the
  provider are JSON tokens, so a safe integer is a string of digits. Paths are POSIX paths.
\<close>

subsection \<open>Profiles (contracts/provider-profile.ts)\<close>

record long_context =
  lx_thresholdInputTokens :: int
  lx_inputMultiplierNumerator :: int
  lx_inputMultiplierDenominator :: int
  lx_outputMultiplierNumerator :: int
  lx_outputMultiplierDenominator :: int

record rate_card =
  rk_id :: string
  rk_effectiveDate :: string
  rk_uncachedInputMicroUsdPerMillion :: int
  rk_cachedInputMicroUsdPerMillion :: int
  rk_cacheWriteMicroUsdPerMillion :: int
  rk_outputMicroUsdPerMillion :: int
  rk_longContext :: "long_context option"

record provider_budget =
  pb_requestTimeoutMs :: int
  pb_maxRequests :: nat
  pb_maxRetries :: nat
  pb_maxToolCalls :: nat
  pb_maxInputTokens :: int
  pb_maxOutputTokens :: int
  pb_maxToolOutputBytes :: nat
  pb_maxCostMicroUsd :: int

datatype reasoning_effort = Effort_None | Effort_Low | Effort_Medium | Effort_High | Effort_Xhigh | Effort_Max

fun effort_name :: "reasoning_effort \<Rightarrow> string" where
  "effort_name Effort_None = ''none''"
| "effort_name Effort_Low = ''low''"
| "effort_name Effort_Medium = ''medium''"
| "effort_name Effort_High = ''high''"
| "effort_name Effort_Xhigh = ''xhigh''"
| "effort_name Effort_Max = ''max''"

datatype service_tier = Tier_Default | Tier_Priority | Tier_Fast

fun tier_name :: "service_tier \<Rightarrow> string" where
  "tier_name Tier_Default = ''default''"
| "tier_name Tier_Priority = ''priority''"
| "tier_name Tier_Fast = ''fast''"

record provider_profile =
  pp_baseUrl :: string
  pp_model :: string
  pp_reasoningEffort :: reasoning_effort
  pp_serviceTier :: service_tier
  pp_apiKeyEnvName :: string
  pp_rateCard :: rate_card
  pp_budget :: provider_budget

definition is_identifier :: "string \<Rightarrow> bool" where
  "is_identifier s \<longleftrightarrow> s \<noteq> [] \<and> list_all (\<lambda>c. is_letter c \<or> is_digit c \<or> c \<in> {CHR ''_'', CHR ''.'', CHR ''-''}) s"

definition longContext_valid :: "long_context \<Rightarrow> bool" where
  "longContext_valid l \<longleftrightarrow> 0 < lx_thresholdInputTokens l \<and> 0 < lx_inputMultiplierNumerator l \<and> 0 < lx_inputMultiplierDenominator l \<and>
     0 < lx_outputMultiplierNumerator l \<and> 0 < lx_outputMultiplierDenominator l"

definition rateCard_valid :: "rate_card \<Rightarrow> bool" where
  "rateCard_valid r \<longleftrightarrow> is_identifier (rk_id r) \<and> 0 \<le> rk_uncachedInputMicroUsdPerMillion r \<and>
     0 \<le> rk_cachedInputMicroUsdPerMillion r \<and> 0 \<le> rk_cacheWriteMicroUsdPerMillion r \<and> 0 \<le> rk_outputMicroUsdPerMillion r \<and>
     (case rk_longContext r of None \<Rightarrow> True | Some l \<Rightarrow> longContext_valid l)"

definition providerBudget_valid :: "provider_budget \<Rightarrow> bool" where
  "providerBudget_valid b \<longleftrightarrow> in_range 1 3600000 (pb_requestTimeoutMs b) \<and> in_range 1 128 (int (pb_maxRequests b)) \<and>
     pb_maxRetries b \<le> 16 \<and> in_range 1 1024 (int (pb_maxToolCalls b)) \<and> in_range 1 1050000 (pb_maxInputTokens b) \<and>
     in_range 1 128000 (pb_maxOutputTokens b) \<and> in_range 1 16777216 (int (pb_maxToolOutputBytes b)) \<and>
     in_range 1 5000000 (pb_maxCostMicroUsd b)"

definition providerProfile_valid :: "provider_profile \<Rightarrow> bool" where
  "providerProfile_valid p \<longleftrightarrow> pp_model p \<noteq> [] \<and> is_environment_name (pp_apiKeyEnvName p) \<and> rateCard_valid (pp_rateCard p) \<and>
     providerBudget_valid (pp_budget p)"

definition resolveProviderProfile :: "(string \<times> provider_profile) list \<Rightarrow> string \<Rightarrow> err + provider_profile" where
  "resolveProviderProfile profiles profileId =
     (case map_of profiles profileId of None \<Rightarrow> Inl (Error (''Unknown provider profile: '' @ profileId)) | Some p \<Rightarrow> Inr p)"

subsection \<open>Usage and cost\<close>

definition max_safe_integer :: int where
  "max_safe_integer = 9007199254740991"

record token_usage =
  tu_inputTokens :: int
  tu_cachedInputTokens :: int
  tu_cacheWriteTokens :: int
  tu_outputTokens :: int
  tu_reasoningTokens :: int

definition usage_fields :: "token_usage \<Rightarrow> (string \<times> int) list" where
  "usage_fields u = [(''inputTokens'', tu_inputTokens u), (''cachedInputTokens'', tu_cachedInputTokens u),
     (''cacheWriteTokens'', tu_cacheWriteTokens u), (''outputTokens'', tu_outputTokens u), (''reasoningTokens'', tu_reasoningTokens u)]"

definition assertUsage :: "token_usage \<Rightarrow> err + unit" where
  "assertUsage u =
     (case List.find (\<lambda>(name, v). max_safe_integer < v \<or> v < 0) (usage_fields u) of
        Some (name, _) \<Rightarrow> Inl (Error (''Provider usage '' @ name @ '' must be a non-negative integer''))
      | None \<Rightarrow> if tu_inputTokens u < tu_cachedInputTokens u + tu_cacheWriteTokens u
          then Inl (Error ''Provider input usage categories exceed total input tokens'') else Inr ())"

definition divideRoundUp :: "int \<Rightarrow> int \<Rightarrow> int" where
  "divideRoundUp n d = (n + d - 1) div d"

definition input_numerator :: "token_usage \<Rightarrow> rate_card \<Rightarrow> int" where
  "input_numerator u r =
     (tu_inputTokens u - tu_cachedInputTokens u - tu_cacheWriteTokens u) * rk_uncachedInputMicroUsdPerMillion r
     + tu_cachedInputTokens u * rk_cachedInputMicroUsdPerMillion r + tu_cacheWriteTokens u * rk_cacheWriteMicroUsdPerMillion r"

definition output_numerator :: "token_usage \<Rightarrow> rate_card \<Rightarrow> int" where
  "output_numerator u r = tu_outputTokens u * rk_outputMicroUsdPerMillion r"

definition active_context :: "token_usage \<Rightarrow> rate_card \<Rightarrow> long_context" where
  "active_context u r =
     (case rk_longContext r of
        Some l \<Rightarrow> if lx_thresholdInputTokens l < tu_inputTokens u then l
          else l\<lparr>lx_inputMultiplierNumerator := 1, lx_inputMultiplierDenominator := 1, lx_outputMultiplierNumerator := 1,
            lx_outputMultiplierDenominator := 1\<rparr>
      | None \<Rightarrow> \<lparr>lx_thresholdInputTokens = 0, lx_inputMultiplierNumerator = 1, lx_inputMultiplierDenominator = 1,
          lx_outputMultiplierNumerator = 1, lx_outputMultiplierDenominator = 1\<rparr>)"

definition cost_numerator :: "token_usage \<Rightarrow> rate_card \<Rightarrow> int" where
  "cost_numerator u r = (let l = active_context u r in
     input_numerator u r * lx_inputMultiplierNumerator l * lx_outputMultiplierDenominator l
     + output_numerator u r * lx_outputMultiplierNumerator l * lx_inputMultiplierDenominator l)"

definition cost_denominator :: "token_usage \<Rightarrow> rate_card \<Rightarrow> int" where
  "cost_denominator u r = (let l = active_context u r in
     1000000 * lx_inputMultiplierDenominator l * lx_outputMultiplierDenominator l)"

definition calculateProviderCostMicroUsd :: "token_usage \<Rightarrow> rate_card \<Rightarrow> err + int" where
  "calculateProviderCostMicroUsd u r =
     bindE (assertUsage u) (\<lambda>_.
     let cost = divideRoundUp (cost_numerator u r) (cost_denominator u r) in
     if max_safe_integer < cost then Inl (Error ''Provider cost exceeds the safe integer range'') else Inr cost)"

definition estimateProviderRequestCostMicroUsd :: "int \<Rightarrow> int \<Rightarrow> rate_card \<Rightarrow> err + int" where
  "estimateProviderRequestCostMicroUsd inputUpperBound maxOutput r =
     calculateProviderCostMicroUsd \<lparr>tu_inputTokens = inputUpperBound, tu_cachedInputTokens = 0, tu_cacheWriteTokens = 0,
       tu_outputTokens = maxOutput, tu_reasoningTokens = 0\<rparr> r"

definition emptyUsage :: token_usage where
  "emptyUsage = \<lparr>tu_inputTokens = 0, tu_cachedInputTokens = 0, tu_cacheWriteTokens = 0, tu_outputTokens = 0, tu_reasoningTokens = 0\<rparr>"

definition addUsage :: "token_usage \<Rightarrow> token_usage \<Rightarrow> token_usage" where
  "addUsage l r = \<lparr>tu_inputTokens = tu_inputTokens l + tu_inputTokens r,
     tu_cachedInputTokens = tu_cachedInputTokens l + tu_cachedInputTokens r,
     tu_cacheWriteTokens = tu_cacheWriteTokens l + tu_cacheWriteTokens r,
     tu_outputTokens = tu_outputTokens l + tu_outputTokens r, tu_reasoningTokens = tu_reasoningTokens l + tu_reasoningTokens r\<rparr>"

subsection \<open>The command line (workers/openai-responses.ts and the end of the runner)\<close>

record attempt_context =
  ac_sourceBaseRevision :: string
  ac_workspaceBaseRevision :: string

record provider_adapter =
  va_executable :: "string option"
  va_runnerPath :: string
  va_runnerIsFile :: bool
  va_profilesFile :: "string option"
  va_profiles :: "(string \<times> provider_profile) list"
  va_environment :: "(string \<times> string) list"

text \<open>A worker is offered only when it could run: \<open>va_profiles\<close> is empty when no profile file was loaded.\<close>

definition provider_available :: "provider_adapter \<Rightarrow> bool" where
  "provider_available a \<longleftrightarrow> va_executable a \<noteq> None \<and> va_runnerIsFile a \<and>
     list_ex (\<lambda>(_, p). truthy (map_of (va_environment a) (pp_apiKeyEnvName p))) (va_profiles a)"

definition validateProfileSelection :: "(string \<times> json) list \<Rightarrow> err + string" where
  "validateProfileSelection options =
     (case options of
        [(k, JStr v)] \<Rightarrow> if k = ''profile'' \<and> trim v \<noteq> [] then Inr (trim v)
          else Inl (Error ''OpenAI Responses adapter only accepts the owner provider profile ID'')
      | _ \<Rightarrow> Inl (Error ''OpenAI Responses adapter only accepts the owner provider profile ID''))"

definition selectProfile :: "provider_adapter \<Rightarrow> string \<Rightarrow> err + provider_profile" where
  "selectProfile a profileId =
     (case map_of (va_profiles a) profileId of
        None \<Rightarrow> Inl (Error (''OpenAI Responses adapter only accepts the owner provider profile; unknown profile: '' @ profileId))
      | Some p \<Rightarrow> Inr p)"

definition repeatedArguments :: "string \<Rightarrow> string list \<Rightarrow> string list" where
  "repeatedArguments flag values = concat (map (\<lambda>v. [flag, v]) values)"

definition buildInvocation ::
  "provider_adapter \<Rightarrow> job_contract \<Rightarrow> string \<Rightarrow> attempt_context option \<Rightarrow> err + process_invocation" where
  "buildInvocation a contract wsPath context =
     bindE (validateProfileSelection (jc_adapterOptions contract)) (\<lambda>profileId.
     bindE (selectProfile a profileId) (\<lambda>profile.
     case va_executable a of
       None \<Rightarrow> Inl (Error ''OpenAI Responses runner is unavailable'')
     | Some executable \<Rightarrow>
         if \<not> va_runnerIsFile a then Inl (Error ''OpenAI Responses runner is unavailable'')
         else
           let secret = map_of (va_environment a) (pp_apiKeyEnvName profile) in
           if \<not> truthy secret then Inl (Error ''OpenAI Responses API key is not configured'')
           else Inr \<lparr>pi_executable = executable,
             pi_args = [va_runnerPath a, ''--profiles-file'', (case va_profilesFile a of None \<Rightarrow> [] | Some f \<Rightarrow> f),
               ''--profile-id'', profileId, ''--workspace'', wsPath, ''--objective'', jc_objective contract]
               @ repeatedArguments ''--allowed-path'' (ps_allowedPaths (jc_scope contract))
               @ repeatedArguments ''--context-ref'' (jc_contextRefs contract)
               @ repeatedArguments ''--constraint'' (jc_constraints contract)
               @ repeatedArguments ''--escalate-when'' (jc_escalateWhen contract)
               @ [''--source-base-revision'',
                  (case context of Some c \<Rightarrow> ac_sourceBaseRevision c | None \<Rightarrow> re_baseRevision (jc_repository contract)),
                  ''--workspace-base-revision'',
                  (case context of Some c \<Rightarrow> ac_workspaceBaseRevision c | None \<Rightarrow> re_baseRevision (jc_repository contract))],
             pi_cwd = wsPath, pi_env = [(pp_apiKeyEnvName profile, the secret)], pi_cleanup = None\<rparr>))"

definition provider_profileEvidence :: "provider_adapter \<Rightarrow> job_contract \<Rightarrow> err + profile_evidence" where
  "provider_profileEvidence a contract =
     bindE (validateProfileSelection (jc_adapterOptions contract)) (\<lambda>profileId.
     bindE (selectProfile a profileId) (\<lambda>profile.
     Inr \<lparr>pe_files = [(Role_Harness, va_runnerPath a),
         (Role_Configuration, (case va_profilesFile a of None \<Rightarrow> [] | Some f \<Rightarrow> f))],
       pe_attributes = [(''profileId'', (case map_of (jc_adapterOptions contract) ''profile'' of Some (JStr v) \<Rightarrow> v | _ \<Rightarrow> []))],
       pe_modelSelector = Some (pp_model profile), pe_unresolvedReasons = []\<rparr>))"

record cli_arguments =
  cx_profilesFile :: string
  cx_profileId :: string
  cx_workspacePath :: string
  cx_objective :: string
  cx_allowedPaths :: "string list"
  cx_contextRefs :: "string list"
  cx_constraints :: "string list"
  cx_escalateWhen :: "string list"
  cx_sourceBaseRevision :: string
  cx_workspaceBaseRevision :: string

definition repeatable_flags :: "string list" where
  "repeatable_flags = [''--allowed-path'', ''--context-ref'', ''--constraint'', ''--escalate-when'']"

fun read_arguments ::
  "string list \<Rightarrow> (string \<times> string) list \<Rightarrow> (string \<times> string list) list \<Rightarrow> err + (string \<times> string) list \<times> (string \<times> string list) list" where
  "read_arguments [] singles repeated = Inr (singles, repeated)"
| "read_arguments [flag] singles repeated = Inl (Error ''invalid args'')"
| "read_arguments (flag # v # rest) singles repeated =
     (if \<not> prefix ''--'' flag then Inl (Error ''invalid args'')
      else if flag \<in> set repeatable_flags
      then read_arguments rest singles
        (AList.update flag ((case map_of repeated flag of None \<Rightarrow> [] | Some vs \<Rightarrow> vs) @ [v]) repeated)
      else if map_of singles flag \<noteq> None then Inl (Error ''duplicate arg'')
      else read_arguments rest (singles @ [(flag, v)]) repeated)"

definition required_argument :: "(string \<times> string) list \<Rightarrow> string \<Rightarrow> err + string" where
  "required_argument singles name =
     (if truthy (map_of singles name) then Inr (the (map_of singles name)) else Inl (Error (''missing '' @ name)))"

definition repeated_argument :: "(string \<times> string list) list \<Rightarrow> string \<Rightarrow> string list" where
  "repeated_argument repeated name = (case map_of repeated name of None \<Rightarrow> [] | Some vs \<Rightarrow> vs)"

definition parseCliArguments :: "string list \<Rightarrow> err + cli_arguments" where
  "parseCliArguments args =
     bindE (read_arguments args [] []) (\<lambda>(singles, repeated).
     let allowedPaths = repeated_argument repeated ''--allowed-path'' in
     if allowedPaths = [] then Inl (Error ''missing allowed path'')
     else
       bindE (required_argument singles ''--profiles-file'') (\<lambda>profilesFile.
       bindE (required_argument singles ''--profile-id'') (\<lambda>profileId.
       bindE (required_argument singles ''--workspace'') (\<lambda>wsPath.
       bindE (required_argument singles ''--objective'') (\<lambda>objective.
       bindE (required_argument singles ''--source-base-revision'') (\<lambda>sourceBaseRevision.
       bindE (required_argument singles ''--workspace-base-revision'') (\<lambda>workspaceBaseRevision.
       Inr \<lparr>cx_profilesFile = profilesFile, cx_profileId = profileId, cx_workspacePath = wsPath, cx_objective = objective,
         cx_allowedPaths = allowedPaths, cx_contextRefs = repeated_argument repeated ''--context-ref'',
         cx_constraints = repeated_argument repeated ''--constraint'',
         cx_escalateWhen = repeated_argument repeated ''--escalate-when'',
         cx_sourceBaseRevision = sourceBaseRevision, cx_workspaceBaseRevision = workspaceBaseRevision\<rparr>)))))))"

end
