(* ===== verification/Provider_Runner.thy ===== *)
theory Provider_Runner
  imports Provider
begin

text \<open>
  The runner of the OpenAI Responses worker (\<open>src/src/workers/openai-responses-runner.ts\<close>): the loop
  that sends a request, reads the usage and the output items of the answer, executes the file tools the
  model called and sends everything back, under the ceilings of the owner's profile.

  \<open>pw_fetch\<close> gives the answer to the \<open>n\<close>-th request of the run, \<open>pw_parse\<close> is \<open>JSON.parse\<close> (whose objects
  have distinct keys), \<open>pw_utf8Length\<close> is \<open>Buffer.byteLength\<close>. Every answer of the file system takes the
  log of the operations done before it, so a file system that changes under the run is included.
  A number is the token \<open>JSON.stringify\<close> prints for it. What is not modelled is time: a request that is
  aborted by its timer is one whose \<open>fetch\<close> rejects.
\<close>

subsection \<open>The request and the evidence of a run\<close>

record worker_request =
  wr_profileId :: string
  wr_profileFingerprint :: string
  wr_profile :: provider_profile
  wr_workspacePath :: string
  wr_objective :: string
  wr_allowedPaths :: "string list"
  wr_contextRefs :: "string list"
  wr_constraints :: "string list"
  wr_escalateWhen :: "string list"
  wr_sourceBaseRevision :: string
  wr_workspaceBaseRevision :: string

datatype provider_failure_kind = Invalid_Request | Missing_Secret | Budget_Exceeded | Provider_Error | Malformed_Response | Tool_Error

type_synonym run_failure = "provider_failure_kind \<times> string"

record run_evidence =
  ro_failure :: "run_failure option"
  ro_profileId :: string
  ro_profileFingerprint :: string
  ro_requestedModel :: string
  ro_returnedModels :: "string list"
  ro_reasoningEffort :: reasoning_effort
  ro_requestedServiceTier :: service_tier
  ro_returnedServiceTiers :: "string list"
  ro_rateCardId :: string
  ro_requestIds :: "string list"
  ro_responseIds :: "string list"
  ro_requestCount :: nat
  ro_retryCount :: nat
  ro_toolCallCount :: nat
  ro_durationMs :: int
  ro_usage :: token_usage
  ro_costMicroUsd :: int
  ro_maxCostMicroUsd :: int
  ro_evidenceLimitations :: "string list"

text \<open>The operations of the file tools, oldest first.\<close>

datatype fs_op =
    Op_Read string
  | Op_Mkdir string
  | Op_Write string string
  | Op_Rename string string
  | Op_Remove string

type_synonym fs_log = "fs_op list"

record http_request =
  hr_url :: string
  hr_authorization :: string
  hr_body :: json
  hr_timeoutMs :: int

record http_response =
  hp_status :: nat
  hp_requestId :: "string option"
  hp_json :: "json option"

record provider_world =
  pw_fetch :: "nat \<Rightarrow> http_request \<Rightarrow> http_response option"
  pw_parse :: "string \<Rightarrow> json option"
  pw_utf8Length :: "string \<Rightarrow> nat"
  pw_environment :: "(string \<times> string) list"
  pw_pid :: string
  pw_startedAt :: int
  pw_endedAt :: int
  pw_realpath :: "fs_log \<Rightarrow> string \<Rightarrow> err + string"
  pw_isFile :: "fs_log \<Rightarrow> string \<Rightarrow> err + bool"
  pw_readFile :: "fs_log \<Rightarrow> string \<Rightarrow> err + nat \<times> string"
  pw_exists :: "fs_log \<Rightarrow> string \<Rightarrow> bool"
  pw_isSymbolicLink :: "fs_log \<Rightarrow> string \<Rightarrow> err + bool"
  pw_mutate :: "fs_log \<Rightarrow> fs_op \<Rightarrow> err + unit"

record run_state =
  rn_requestIds :: "string list"
  rn_responseIds :: "string list"
  rn_returnedModels :: "string list"
  rn_returnedServiceTiers :: "string list"
  rn_requestCount :: nat
  rn_retryCount :: nat
  rn_toolCallCount :: nat
  rn_usage :: token_usage
  rn_evidenceLimitations :: "string list"
  rn_input :: "json list"
  rn_sleeps :: "nat list"
  rn_log :: fs_log

definition initial_run :: run_state where
  "initial_run = \<lparr>rn_requestIds = [], rn_responseIds = [], rn_returnedModels = [], rn_returnedServiceTiers = [],
     rn_requestCount = 0, rn_retryCount = 0, rn_toolCallCount = 0, rn_usage = emptyUsage, rn_evidenceLimitations = [],
     rn_input = [], rn_sleeps = [], rn_log = []\<rparr>"

definition run_evidence_of ::
  "provider_world \<Rightarrow> worker_request \<Rightarrow> run_state \<Rightarrow> run_failure option \<Rightarrow> err + run_evidence" where
  "run_evidence_of w req st failure =
     bindE (calculateProviderCostMicroUsd (rn_usage st) (pp_rateCard (wr_profile req))) (\<lambda>cost.
     Inr \<lparr>ro_failure = failure, ro_profileId = wr_profileId req, ro_profileFingerprint = wr_profileFingerprint req,
       ro_requestedModel = pp_model (wr_profile req), ro_returnedModels = rn_returnedModels st,
       ro_reasoningEffort = pp_reasoningEffort (wr_profile req), ro_requestedServiceTier = pp_serviceTier (wr_profile req),
       ro_returnedServiceTiers = rn_returnedServiceTiers st, ro_rateCardId = rk_id (pp_rateCard (wr_profile req)),
       ro_requestIds = rn_requestIds st, ro_responseIds = rn_responseIds st, ro_requestCount = rn_requestCount st,
       ro_retryCount = rn_retryCount st, ro_toolCallCount = rn_toolCallCount st,
       ro_durationMs = max 0 (pw_endedAt w - pw_startedAt w), ro_usage = rn_usage st, ro_costMicroUsd = cost,
       ro_maxCostMicroUsd = pb_maxCostMicroUsd (pp_budget (wr_profile req)),
       ro_evidenceLimitations = rn_evidenceLimitations st\<rparr>)"

definition requestFitsBudget :: "worker_request \<Rightarrow> token_usage \<Rightarrow> err + bool" where
  "requestFitsBudget req usage =
     (let p = wr_profile req; b = pp_budget p in
      bindE (calculateProviderCostMicroUsd usage (pp_rateCard p)) (\<lambda>current.
      bindE (estimateProviderRequestCostMicroUsd (pb_maxInputTokens b) (pb_maxOutputTokens b) (pp_rateCard p)) (\<lambda>next_cost.
      Inr (current + next_cost \<le> pb_maxCostMicroUsd b))))"

definition newline :: string where
  "newline = [CHR 0x0A]"

definition buildInitialPrompt :: "worker_request \<Rightarrow> string" where
  "buildInitialPrompt req =
     (let items = join (newline @ ''- '') in
      ''Complete this bounded coding proposal:'' @ newline @ wr_objective req
      @ newline @ newline @ ''Allowed write paths:'' @ newline @ ''- '' @ items (wr_allowedPaths req)
      @ newline @ newline @ ''Selected context/read paths:'' @ newline @ ''- '' @ items (wr_contextRefs req)
      @ newline @ newline @ ''Constraints:'' @ newline @ ''- '' @ items (wr_constraints req)
      @ newline @ newline @ ''Stop when:'' @ newline @ ''- '' @ items (wr_escalateWhen req)
      @ newline @ newline @ ''Use only read_file and write_file. The frozen source revision is '' @ wr_sourceBaseRevision req
      @ ''; the workspace baseline is '' @ wr_workspaceBaseRevision req @ ''.'')"

definition string_parameters :: "string list \<Rightarrow> json" where
  "string_parameters names = JObj [(''type'', JStr ''object''),
     (''properties'', JObj (map (\<lambda>n. (n, JObj [(''type'', JStr ''string'')])) names)),
     (''required'', JArr (map JStr names)), (''additionalProperties'', JBool False)]"

definition function_tool :: "string \<Rightarrow> string list \<Rightarrow> json" where
  "function_tool name names = JObj [(''type'', JStr ''function''), (''name'', JStr name), (''strict'', JBool True),
     (''parameters'', string_parameters names)]"

definition toolDefinitions :: json where
  "toolDefinitions = JArr [function_tool ''read_file'' [''path''], function_tool ''write_file'' [''path'', ''content'']]"

subsection \<open>The file tools\<close>

definition normalizeRelativePath :: "string \<Rightarrow> err + string" where
  "normalizeRelativePath candidate =
     (if candidate = [] \<or> CHR 0x00 \<in> set candidate \<or> posix_isAbsolute candidate \<or> win32_isAbsolute candidate
      then Inl (Error ''invalid path'')
      else let portable = to_portable candidate in
        if list_ex (\<lambda>s. s = [] \<or> s = ''.'' \<or> s = ''..'') (split_on (CHR ''/'') portable)
        then Inl (Error ''invalid path'') else Inr portable)"

fun normalizeAll :: "string list \<Rightarrow> err + string list" where
  "normalizeAll [] = Inr []"
| "normalizeAll (p # ps) = bindE (normalizeRelativePath p) (\<lambda>x. bindE (normalizeAll ps) (\<lambda>xs. Inr (x # xs)))"

definition assertWithin :: "string \<Rightarrow> string \<Rightarrow> err + unit" where
  "assertWithin ws target =
     (let rel = posix_relative ws target in
      if prefix ''..'' rel \<or> posix_isAbsolute rel then Inl (Error ''path escapes workspace'') else Inr ())"

definition posix_dirname :: "string \<Rightarrow> string" where
  "posix_dirname p = ''/'' @ join ''/'' (butlast (path_segments p))"

definition perform :: "provider_world \<Rightarrow> fs_op \<Rightarrow> (fs_log, unit) act" where
  "perform w x ops = (pw_mutate w ops x, ops @ [x])"

definition read_file_op :: "provider_world \<Rightarrow> string \<Rightarrow> (fs_log, nat \<times> string) act" where
  "read_file_op w target ops = (pw_readFile w ops target, ops @ [Op_Read target])"

definition resolveExistingFile :: "provider_world \<Rightarrow> string \<Rightarrow> string \<Rightarrow> (fs_log, string) act" where
  "resolveExistingFile w ws relative =
     bindA (readsA (\<lambda>ops. pw_realpath w ops (posix_resolve ws relative))) (\<lambda>target.
     bindA (liftE (assertWithin ws target)) (\<lambda>_.
     bindA (readsA (\<lambda>ops. pw_isFile w ops target)) (\<lambda>isFile.
     bindA (guardA isFile (Error ''not a file'')) (\<lambda>_. ret target))))"

definition temporary_name :: "provider_world \<Rightarrow> string \<Rightarrow> string" where
  "temporary_name w target = target @ ''.conductor-openai-'' @ pw_pid w @ ''.tmp''"

definition check_existing_target :: "provider_world \<Rightarrow> string \<Rightarrow> string \<Rightarrow> (fs_log, unit) act" where
  "check_existing_target w ws target =
     bindA (readsA (\<lambda>ops. pw_isSymbolicLink w ops target)) (\<lambda>link.
     bindA (guardA (\<not> link) (Error ''symlink target'')) (\<lambda>_.
     bindA (readsA (\<lambda>ops. pw_realpath w ops target)) (\<lambda>r. liftE (assertWithin ws r))))"

definition atomicScopedWrite :: "provider_world \<Rightarrow> string \<Rightarrow> string \<Rightarrow> string \<Rightarrow> (fs_log, unit) act" where
  "atomicScopedWrite w ws relative content =
     (let target = posix_resolve ws relative; parent = posix_dirname target; temporary = temporary_name w target in
      bindA (liftE (assertWithin ws target)) (\<lambda>_.
      bindA (perform w (Op_Mkdir parent)) (\<lambda>_.
      bindA (readsA (\<lambda>ops. pw_realpath w ops parent)) (\<lambda>r.
      bindA (liftE (assertWithin ws r)) (\<lambda>_.
      bindA (readsA (\<lambda>ops. Inr (pw_exists w ops target))) (\<lambda>e.
      bindA (if e then check_existing_target w ws target else ret ()) (\<lambda>_.
      finallyA
        (bindA (perform w (Op_Write temporary content)) (\<lambda>_. perform w (Op_Rename temporary target)))
        (perform w (Op_Remove temporary))))))))) "

record function_call =
  fc_callId :: string
  fc_name :: string
  fc_arguments :: string

definition jstring :: "(string \<times> json) list \<Rightarrow> string \<Rightarrow> string option" where
  "jstring kvs k = (case map_of kvs k of Some (JStr v) \<Rightarrow> Some v | _ \<Rightarrow> None)"

definition functionCall :: "json \<Rightarrow> function_call option" where
  "functionCall v =
     (case v of
        JObj kvs \<Rightarrow>
          if jstring kvs ''type'' = Some ''function_call''
          then (case (jstring kvs ''call_id'', jstring kvs ''name'', jstring kvs ''arguments'') of
              (Some i, Some n, Some a) \<Rightarrow> Some \<lparr>fc_callId = i, fc_name = n, fc_arguments = a\<rparr>
            | _ \<Rightarrow> None)
          else None
      | _ \<Rightarrow> None)"

record tool_scope =
  tc_root :: string
  tc_readable :: "string list"
  tc_writable :: "string list"

definition read_tool :: "provider_world \<Rightarrow> tool_scope \<Rightarrow> nat \<Rightarrow> string \<Rightarrow> (fs_log, string) act" where
  "read_tool w sc maxBytes path =
     bindA (liftE (normalizeRelativePath path)) (\<lambda>relative.
     if relative \<notin> set (tc_readable sc) then ret (''tool error: path out of scope: '' @ relative)
     else
       bindA (resolveExistingFile w (tc_root sc) relative) (\<lambda>target.
       bindA (read_file_op w target) (\<lambda>(n, text).
       ret (if maxBytes < n then ''tool error: file exceeds tool byte ceiling'' else text))))"

definition write_tool :: "provider_world \<Rightarrow> tool_scope \<Rightarrow> nat \<Rightarrow> string \<Rightarrow> string \<Rightarrow> (fs_log, string) act" where
  "write_tool w sc maxBytes path content =
     bindA (liftE (normalizeRelativePath path)) (\<lambda>relative.
     if relative \<notin> set (tc_writable sc) then ret (''tool error: path out of scope: '' @ relative)
     else if maxBytes < pw_utf8Length w content then ret ''tool error: content exceeds tool byte ceiling''
     else bindA (atomicScopedWrite w (tc_root sc) relative content) (\<lambda>_. ret (''wrote '' @ relative)))"

definition dispatch_tool :: "provider_world \<Rightarrow> tool_scope \<Rightarrow> nat \<Rightarrow> string \<Rightarrow> (string \<times> json) list \<Rightarrow> (fs_log, string) act" where
  "dispatch_tool w sc maxBytes name args =
     (if name = ''read_file''
      then (case jstring args ''path'' of
          Some path \<Rightarrow> if length args \<noteq> 1 then ret ''tool error: read_file requires only a string path''
            else read_tool w sc maxBytes path
        | None \<Rightarrow> ret ''tool error: read_file requires only a string path'')
      else if name = ''write_file''
      then (case (jstring args ''path'', jstring args ''content'') of
          (Some path, Some content) \<Rightarrow>
            if length args \<noteq> 2 then ret ''tool error: write_file requires only string path and content''
            else write_tool w sc maxBytes path content
        | _ \<Rightarrow> ret ''tool error: write_file requires only string path and content'')
      else ret (''tool error: unknown tool '' @ name))"

text \<open>Every exception of a tool is caught and reported to the model.\<close>

definition executeToolCall :: "provider_world \<Rightarrow> tool_scope \<Rightarrow> nat \<Rightarrow> function_call \<Rightarrow> fs_log \<Rightarrow> string \<times> fs_log" where
  "executeToolCall w sc maxBytes call ops =
     (case pw_parse w (fc_arguments call) of
        Some (JObj args) \<Rightarrow>
          (case dispatch_tool w sc maxBytes (fc_name call) args ops of
             (Inr result, ops') \<Rightarrow> (result, ops')
           | (Inl _, ops') \<Rightarrow> (''tool error: '' @ fc_name call @ '' refused the requested path'', ops'))
      | _ \<Rightarrow> (''tool error: arguments must be a JSON object'', ops))"

subsection \<open>Requests and their retries\<close>

definition responses_url :: "string \<Rightarrow> string" where
  "responses_url base = (if suffix ''/'' base then butlast base else base) @ ''/responses''"

definition request_body :: "worker_request \<Rightarrow> json list \<Rightarrow> json" where
  "request_body req input = (let p = wr_profile req in
     JObj [(''model'', JStr (pp_model p)), (''input'', JArr input), (''store'', JBool False),
       (''parallel_tool_calls'', JBool False), (''reasoning'', JObj [(''effort'', JStr (effort_name (pp_reasoningEffort p)))]),
       (''service_tier'', JStr (tier_name (pp_serviceTier p))),
       (''max_output_tokens'', JNum (show_int (pb_maxOutputTokens (pp_budget p)))), (''tools'', toolDefinitions)])"

definition http_request_of :: "worker_request \<Rightarrow> string \<Rightarrow> json list \<Rightarrow> http_request" where
  "http_request_of req secret input = \<lparr>hr_url = responses_url (pp_baseUrl (wr_profile req)),
     hr_authorization = ''Bearer '' @ secret, hr_body = request_body req input,
     hr_timeoutMs = pb_requestTimeoutMs (pp_budget (wr_profile req))\<rparr>"

definition response_ok :: "http_response \<Rightarrow> bool" where
  "response_ok r \<longleftrightarrow> 200 \<le> hp_status r \<and> hp_status r \<le> 299"

definition transient_status :: "nat \<Rightarrow> bool" where
  "transient_status s \<longleftrightarrow> s \<in> {408, 409, 429} \<or> 500 \<le> s"

definition note_request_id :: "string option \<Rightarrow> run_state \<Rightarrow> run_state" where
  "note_request_id i st = (if truthy i then st\<lparr>rn_requestIds := rn_requestIds st @ [the i]\<rparr> else st)"

text \<open>
  One pass of the retry loop, with \<open>left\<close> retries still allowed: \<open>retry = maxRetries - left\<close>. The pass
  with none left always returns, so the loop never falls through.
\<close>

fun sendAttempts ::
  "provider_world \<Rightarrow> worker_request \<Rightarrow> http_request \<Rightarrow> nat \<Rightarrow> run_state \<Rightarrow> (run_failure + http_response) \<times> run_state" where
  "sendAttempts w req hr left st =
     (let b = pp_budget (wr_profile req) in
      if pb_maxRequests b \<le> rn_requestCount st
      then (Inl (Budget_Exceeded, ''Request count ceiling reached during retries''), st)
      else
        let counted = st\<lparr>rn_requestCount := rn_requestCount st + 1\<rparr>;
          again = (\<lambda>s. s\<lparr>rn_retryCount := rn_retryCount s + 1, rn_sleeps := rn_sleeps s @ [100 * (pb_maxRetries b - left + 1)]\<rparr>)
        in
        case pw_fetch w (rn_requestCount st) hr of
          None \<Rightarrow>
            (case left of
               0 \<Rightarrow> (Inl (Provider_Error, ''Provider request failed after bounded retries''), counted)
             | Suc rest \<Rightarrow> sendAttempts w req hr rest (again counted))
        | Some r \<Rightarrow>
            let noted = note_request_id (hp_requestId r) counted;
              refused = (Inl (Provider_Error, ''Provider returned HTTP '' @ show_nat (hp_status r) @ ''; body omitted''), noted)
            in
            if response_ok r then (Inr r, noted)
            else if transient_status (hp_status r)
            then (case left of 0 \<Rightarrow> refused | Suc rest \<Rightarrow> sendAttempts w req hr rest (again noted))
            else refused)"

declare sendAttempts.simps [simp del]

definition sendProviderRequest ::
  "provider_world \<Rightarrow> worker_request \<Rightarrow> string \<Rightarrow> run_state \<Rightarrow> (run_failure + http_response) \<times> run_state" where
  "sendProviderRequest w req secret st =
     sendAttempts w req (http_request_of req secret (rn_input st)) (pb_maxRetries (pp_budget (wr_profile req))) st"

subsection \<open>Reading an answer\<close>

definition addLimitation :: "string \<Rightarrow> run_state \<Rightarrow> run_state" where
  "addLimitation l st =
     (if l \<in> set (rn_evidenceLimitations st) then st else st\<lparr>rn_evidenceLimitations := rn_evidenceLimitations st @ [l]\<rparr>)"

definition tier_class :: "string \<Rightarrow> string" where
  "tier_class v = (if v = ''fast'' \<or> v = ''priority'' then ''priority'' else map lower_char v)"

definition serviceTiersMatch :: "string \<Rightarrow> string \<Rightarrow> bool" where
  "serviceTiersMatch requested returned \<longleftrightarrow> tier_class requested = tier_class returned"

definition nonnegativeInteger :: "json option \<Rightarrow> int option" where
  "nonnegativeInteger v =
     (case v of
        Some (JNum t) \<Rightarrow> if t \<noteq> [] \<and> list_all is_digit t \<and> int (parse_nat t) \<le> max_safe_integer then Some (int (parse_nat t)) else None
      | _ \<Rightarrow> None)"

definition objectRecord :: "json option \<Rightarrow> (string \<times> json) list option" where
  "objectRecord v = (case v of Some (JObj kvs) \<Rightarrow> Some kvs | _ \<Rightarrow> None)"

definition detail :: "(string \<times> json) list option \<Rightarrow> string \<Rightarrow> json option" where
  "detail d k = (case d of None \<Rightarrow> None | Some kvs \<Rightarrow> map_of kvs k)"

definition or_zero :: "int option \<Rightarrow> int" where
  "or_zero v = (case v of None \<Rightarrow> 0 | Some n \<Rightarrow> n)"

definition parseUsage :: "json option \<Rightarrow> run_state \<Rightarrow> token_usage option \<times> run_state" where
  "parseUsage v st =
     (case v of
        Some (JObj usage) \<Rightarrow>
          let inputDetails = objectRecord (map_of usage ''input_tokens_details'');
            outputDetails = objectRecord (map_of usage ''output_tokens_details'');
            cached = or_zero (nonnegativeInteger (detail inputDetails ''cached_tokens''));
            cacheWrite = or_zero (nonnegativeInteger (detail inputDetails ''cache_write_tokens''));
            reasoning = or_zero (nonnegativeInteger (detail outputDetails ''reasoning_tokens''))
          in
          (case (nonnegativeInteger (map_of usage ''input_tokens''), nonnegativeInteger (map_of usage ''output_tokens'')) of
             (Some inputTokens, Some outputTokens) \<Rightarrow>
               let st1 = (if detail inputDetails ''cache_write_tokens'' = None
                   then addLimitation ''Provider did not report cache-write tokens'' st else st);
                 st2 = (if detail outputDetails ''reasoning_tokens'' = None
                   then addLimitation ''Provider did not report reasoning tokens'' st1 else st1)
               in
               if inputTokens < cached + cacheWrite then (None, st2)
               else (Some \<lparr>tu_inputTokens = inputTokens, tu_cachedInputTokens = cached, tu_cacheWriteTokens = cacheWrite,
                 tu_outputTokens = outputTokens, tu_reasoningTokens = reasoning\<rparr>, st2)
           | _ \<Rightarrow> (None, st))
      | _ \<Rightarrow> (None, st))"

definition note_model :: "string option \<Rightarrow> run_state \<Rightarrow> run_state" where
  "note_model m st =
     (case m of
        Some v \<Rightarrow> if v \<in> set (rn_returnedModels st) then st else st\<lparr>rn_returnedModels := rn_returnedModels st @ [v]\<rparr>
      | None \<Rightarrow> st)"

definition note_service_tier :: "service_tier \<Rightarrow> string option \<Rightarrow> run_state \<Rightarrow> run_state" where
  "note_service_tier requested t st =
     (if truthy t
      then let v = the t;
          st1 = (if v \<in> set (rn_returnedServiceTiers st) then st else st\<lparr>rn_returnedServiceTiers := rn_returnedServiceTiers st @ [v]\<rparr>)
        in if serviceTiersMatch (tier_name requested) v then st1
           else addLimitation ''Provider response reported a different service tier than requested'' st1
      else addLimitation ''Provider did not report its service tier'' st)"

definition parseProviderResponse ::
  "http_response \<Rightarrow> service_tier \<Rightarrow> run_state \<Rightarrow> (run_failure + json list \<times> token_usage) \<times> run_state" where
  "parseProviderResponse r requested st =
     (case hp_json r of
        Some (JObj parsed) \<Rightarrow>
          (case (jstring parsed ''id'', map_of parsed ''output'') of
             (Some i, Some (JArr items)) \<Rightarrow>
               let st1 = note_model (jstring parsed ''model'') (st\<lparr>rn_responseIds := rn_responseIds st @ [i]\<rparr>);
                 st2 = note_service_tier requested (jstring parsed ''service_tier'') st1
               in
               (case parseUsage (map_of parsed ''usage'') st2 of
                  (None, st3) \<Rightarrow> (Inl (Malformed_Response, ''Provider response is missing valid usage''), st3)
                | (Some usage, st3) \<Rightarrow> (Inr (items, usage), st3))
           | _ \<Rightarrow> (Inl (Malformed_Response, ''Provider response is missing an id or output array''), st))
      | _ \<Rightarrow> (Inl (Malformed_Response, ''Provider response is not a JSON object''), st))"

subsection \<open>The run\<close>

text \<open>The calls of one answer, in order; the count goes up before the ceiling is checked.\<close>

fun runToolCalls :: "provider_world \<Rightarrow> worker_request \<Rightarrow> tool_scope \<Rightarrow> function_call list \<Rightarrow> run_state \<Rightarrow> run_failure option \<times> run_state" where
  "runToolCalls w req sc [] st = (None, st)"
| "runToolCalls w req sc (call # calls) st =
     (let st1 = st\<lparr>rn_toolCallCount := rn_toolCallCount st + 1\<rparr>; b = pp_budget (wr_profile req) in
      if pb_maxToolCalls b < rn_toolCallCount st1
      then (Some (Budget_Exceeded, ''Tool call ceiling reached before mutation''), st1)
      else (case executeToolCall w sc (pb_maxToolOutputBytes b) call (rn_log st1) of
          (result, ops) \<Rightarrow> runToolCalls w req sc calls
            (st1\<lparr>rn_log := ops, rn_input := rn_input st1 @ [JObj [(''type'', JStr ''function_call_output''),
               (''call_id'', JStr (fc_callId call)), (''output'', JStr result)]]\<rparr>)))"

text \<open>
  One turn of the loop: it ends the run (with a failure, with success, or with an error thrown by the
  cost computation) or goes on with a new state.
\<close>

datatype run_step =
    Run_Ended "err + run_failure option" run_state
  | Run_Goes_On run_state

definition exceeds_budget :: "provider_budget \<Rightarrow> token_usage \<Rightarrow> int \<Rightarrow> bool" where
  "exceeds_budget b usage cost \<longleftrightarrow>
     pb_maxInputTokens b < tu_inputTokens usage \<or> pb_maxOutputTokens b < tu_outputTokens usage \<or> pb_maxCostMicroUsd b < cost"

definition use_response ::
  "provider_world \<Rightarrow> worker_request \<Rightarrow> tool_scope \<Rightarrow> json list \<times> token_usage \<Rightarrow> run_state \<Rightarrow> run_step" where
  "use_response w req sc answer st =
     (let p = wr_profile req; items = fst answer;
        st1 = st\<lparr>rn_usage := addUsage (rn_usage st) (snd answer)\<rparr>
      in
      case calculateProviderCostMicroUsd (rn_usage st1) (pp_rateCard p) of
        Inl e \<Rightarrow> Run_Ended (Inl e) st1
      | Inr cost \<Rightarrow>
          if exceeds_budget (pp_budget p) (rn_usage st1) cost
          then Run_Ended (Inr (Some (Budget_Exceeded, ''Reported provider usage exceeds the owner budget''))) st1
          else
            let st2 = st1\<lparr>rn_input := rn_input st1 @ items\<rparr>; calls = List.map_filter functionCall items in
            if calls = [] then Run_Ended (Inr None) st2
            else (case runToolCalls w req sc calls st2 of
                (Some f, st3) \<Rightarrow> Run_Ended (Inr (Some f)) st3
              | (None, st3) \<Rightarrow> Run_Goes_On st3))"

definition runStep :: "provider_world \<Rightarrow> worker_request \<Rightarrow> string \<Rightarrow> tool_scope \<Rightarrow> run_state \<Rightarrow> run_step" where
  "runStep w req secret sc st =
     (let p = wr_profile req in
      if pb_maxRequests (pp_budget p) \<le> rn_requestCount st
      then Run_Ended (Inr (Some (Budget_Exceeded, ''Request count ceiling reached before completion''))) st
      else (case requestFitsBudget req (rn_usage st) of
          Inl e \<Rightarrow> Run_Ended (Inl e) st
        | Inr False \<Rightarrow> Run_Ended (Inr (Some (Budget_Exceeded, ''Continuation request would exceed the provider budget''))) st
        | Inr True \<Rightarrow>
            (case sendProviderRequest w req secret st of
               (Inl f, st1) \<Rightarrow> Run_Ended (Inr (Some f)) st1
             | (Inr response, st1) \<Rightarrow>
                 (case parseProviderResponse response (pp_serviceTier p) st1 of
                    (Inl f, st2) \<Rightarrow> Run_Ended (Inr (Some f)) st2
                  | (Inr answer, st2) \<Rightarrow> use_response w req sc answer st2))))"

lemma note_request_id_count [simp]: "rn_requestCount (note_request_id i st) = rn_requestCount st"
  by (simp add: note_request_id_def)

lemma addLimitation_count [simp]: "rn_requestCount (addLimitation l st) = rn_requestCount st"
  by (simp add: addLimitation_def)

lemma sendAttempts_count:
  "sendAttempts w req hr left st = (Inr r, st') \<Longrightarrow> rn_requestCount st < rn_requestCount st'"
proof (induction left arbitrary: st)
  case 0
  then show ?case by (subst (asm) sendAttempts.simps) (auto simp: Let_def split: if_splits option.splits)
next
  case (Suc n)
  show ?case using Suc.prems
    by (subst (asm) sendAttempts.simps) (auto simp: Let_def split: if_splits option.splits dest: Suc.IH)
qed

lemma parseUsage_count: "parseUsage v st = (r, st') \<Longrightarrow> rn_requestCount st' = rn_requestCount st"
  by (auto simp: parseUsage_def Let_def split: option.splits json.splits if_splits)

lemma parseProviderResponse_count:
  "parseProviderResponse r t st = (x, st') \<Longrightarrow> rn_requestCount st' = rn_requestCount st"
  by (auto simp: parseProviderResponse_def note_model_def note_service_tier_def Let_def dest!: parseUsage_count
      split: option.splits json.splits if_splits prod.splits)

lemma runToolCalls_count: "runToolCalls w req sc calls st = (f, st') \<Longrightarrow> rn_requestCount st' = rn_requestCount st"
  by (induction w req sc calls st rule: runToolCalls.induct)
     (auto simp: Let_def split: if_splits prod.splits sum.splits)

lemma runStep_progress:
  assumes "runStep w req secret sc st = Run_Goes_On st'"
  shows "rn_requestCount st < pb_maxRequests (pp_budget (wr_profile req)) \<and> rn_requestCount st < rn_requestCount st'"
  using assms
  by (fastforce simp: runStep_def use_response_def sendProviderRequest_def Let_def
      dest!: sendAttempts_count parseProviderResponse_count runToolCalls_count
      split: if_splits prod.splits sum.splits bool.splits option.splits)

function runLoop :: "provider_world \<Rightarrow> worker_request \<Rightarrow> string \<Rightarrow> tool_scope \<Rightarrow> run_state \<Rightarrow> (err + run_failure option) \<times> run_state" where
  "runLoop w req secret sc st =
     (case runStep w req secret sc st of
        Run_Ended outcome st' \<Rightarrow> (outcome, st')
      | Run_Goes_On st' \<Rightarrow> runLoop w req secret sc st')"
  by pat_completeness auto
termination
  by (relation "measure (\<lambda>(w, req, secret, sc, st). pb_maxRequests (pp_budget (wr_profile req)) - rn_requestCount st)")
     (auto dest: runStep_progress)

declare runLoop.simps [simp del]

definition tool_scope_of :: "provider_world \<Rightarrow> worker_request \<Rightarrow> err + tool_scope" where
  "tool_scope_of w req =
     bindE (pw_realpath w [] (wr_workspacePath req)) (\<lambda>ws.
     bindE (normalizeAll (wr_contextRefs req @ wr_allowedPaths req)) (\<lambda>readable.
     bindE (normalizeAll (wr_allowedPaths req)) (\<lambda>writable.
     Inr \<lparr>tc_root = ws, tc_readable = readable, tc_writable = writable\<rparr>)))"

definition runAttempt :: "provider_world \<Rightarrow> worker_request \<Rightarrow> (err + run_failure option) \<times> run_state" where
  "runAttempt w req =
     (let p = wr_profile req; secret = map_of (pw_environment w) (pp_apiKeyEnvName p) in
      if \<not> truthy secret then (Inr (Some (Missing_Secret, ''API key is not configured'')), initial_run)
      else (case tool_scope_of w req of
          Inl _ \<Rightarrow> (Inr (Some (Invalid_Request, ''Workspace or positive path scope is invalid'')), initial_run)
        | Inr sc \<Rightarrow>
            (case requestFitsBudget req emptyUsage of
               Inl e \<Rightarrow> (Inl e, initial_run)
             | Inr False \<Rightarrow> (Inr (Some (Budget_Exceeded, ''Conservative request estimate exceeds the provider budget'')), initial_run)
             | Inr True \<Rightarrow> runLoop w req (the secret) sc
                 (initial_run\<lparr>rn_input := [JObj [(''role'', JStr ''user''), (''content'', JStr (buildInitialPrompt req))]]\<rparr>))))"

definition runOpenAIResponsesWorker :: "provider_world \<Rightarrow> worker_request \<Rightarrow> err + run_evidence" where
  "runOpenAIResponsesWorker w req =
     (case runAttempt w req of
        (Inl e, st) \<Rightarrow> Inl e
      | (Inr failure, st) \<Rightarrow> run_evidence_of w req st failure)"

subsection \<open>The fingerprint of a profile and the entry point\<close>

definition long_context_json :: "long_context \<Rightarrow> json" where
  "long_context_json l = JObj [(''thresholdInputTokens'', JNum (show_int (lx_thresholdInputTokens l))),
     (''inputMultiplierNumerator'', JNum (show_int (lx_inputMultiplierNumerator l))),
     (''inputMultiplierDenominator'', JNum (show_int (lx_inputMultiplierDenominator l))),
     (''outputMultiplierNumerator'', JNum (show_int (lx_outputMultiplierNumerator l))),
     (''outputMultiplierDenominator'', JNum (show_int (lx_outputMultiplierDenominator l)))]"

definition rate_card_json :: "rate_card \<Rightarrow> json" where
  "rate_card_json r = JObj ([(''id'', JStr (rk_id r)), (''effectiveDate'', JStr (rk_effectiveDate r)), (''currency'', JStr ''USD''),
     (''uncachedInputMicroUsdPerMillion'', JNum (show_int (rk_uncachedInputMicroUsdPerMillion r))),
     (''cachedInputMicroUsdPerMillion'', JNum (show_int (rk_cachedInputMicroUsdPerMillion r))),
     (''cacheWriteMicroUsdPerMillion'', JNum (show_int (rk_cacheWriteMicroUsdPerMillion r))),
     (''outputMicroUsdPerMillion'', JNum (show_int (rk_outputMicroUsdPerMillion r)))]
     @ (case rk_longContext r of None \<Rightarrow> [] | Some l \<Rightarrow> [(''longContext'', long_context_json l)]))"

definition provider_budget_json :: "provider_budget \<Rightarrow> json" where
  "provider_budget_json b = JObj [(''requestTimeoutMs'', JNum (show_int (pb_requestTimeoutMs b))),
     (''maxRequests'', JNum (show_nat (pb_maxRequests b))), (''maxRetries'', JNum (show_nat (pb_maxRetries b))),
     (''maxToolCalls'', JNum (show_nat (pb_maxToolCalls b))), (''maxInputTokens'', JNum (show_int (pb_maxInputTokens b))),
     (''maxOutputTokens'', JNum (show_int (pb_maxOutputTokens b))),
     (''maxToolOutputBytes'', JNum (show_nat (pb_maxToolOutputBytes b))),
     (''maxCostMicroUsd'', JNum (show_int (pb_maxCostMicroUsd b)))]"

definition provider_profile_json :: "provider_profile \<Rightarrow> json" where
  "provider_profile_json p = JObj [(''provider'', JStr ''openai-responses''), (''baseUrl'', JStr (pp_baseUrl p)),
     (''model'', JStr (pp_model p)), (''reasoningEffort'', JStr (effort_name (pp_reasoningEffort p))),
     (''serviceTier'', JStr (tier_name (pp_serviceTier p))), (''apiKeyEnvName'', JStr (pp_apiKeyEnvName p)),
     (''rateCard'', rate_card_json (pp_rateCard p)), (''budget'', provider_budget_json (pp_budget p))]"

definition fingerprintProviderProfile :: "(string \<Rightarrow> string) \<Rightarrow> string comparator \<Rightarrow> provider_profile \<Rightarrow> string" where
  "fingerprintProviderProfile sha256 lc p = sha256 (canonicalJson lc (provider_profile_json p))"

definition request_of_cli :: "(string \<Rightarrow> string) \<Rightarrow> string comparator \<Rightarrow> cli_arguments \<Rightarrow> provider_profile \<Rightarrow> worker_request" where
  "request_of_cli sha256 lc cli p = \<lparr>wr_profileId = cx_profileId cli, wr_profileFingerprint = fingerprintProviderProfile sha256 lc p,
     wr_profile = p, wr_workspacePath = cx_workspacePath cli, wr_objective = cx_objective cli,
     wr_allowedPaths = cx_allowedPaths cli, wr_contextRefs = cx_contextRefs cli, wr_constraints = cx_constraints cli,
     wr_escalateWhen = cx_escalateWhen cli, wr_sourceBaseRevision = cx_sourceBaseRevision cli,
     wr_workspaceBaseRevision = cx_workspaceBaseRevision cli\<rparr>"

definition runnerMain ::
  "(string \<Rightarrow> string) \<Rightarrow> string comparator \<Rightarrow> provider_world \<Rightarrow> (string \<Rightarrow> err + (string \<times> provider_profile) list)
   \<Rightarrow> string list \<Rightarrow> run_evidence option \<times> nat" where
  "runnerMain sha256 lc w loadProviderProfileFile args =
     (case bindE (parseCliArguments args) (\<lambda>cli.
           bindE (loadProviderProfileFile (cx_profilesFile cli)) (\<lambda>profiles.
           bindE (resolveProviderProfile profiles (cx_profileId cli)) (\<lambda>p.
           runOpenAIResponsesWorker w (request_of_cli sha256 lc cli p)))) of
        Inl _ \<Rightarrow> (None, 1)
      | Inr result \<Rightarrow> (Some result, if ro_failure result = None then 0 else 1))"

end
