(* ===== verification/Provider_Properties.thy ===== *)
theory Provider_Properties
  imports Provider_Runner
begin

text \<open>
  What the runner of the OpenAI Responses worker keeps: its file operations stay inside the scope of the
  job, its requests and tool calls stay under the ceilings of the owner's profile, a provider that never
  answers ends the run after the allowed attempts, and the command line the adapter writes is the one the
  runner reads.
\<close>

declare guardA_apply [simp del] liftE_apply [simp del]

subsection \<open>The log of file operations\<close>

abbreviation target_of :: "tool_scope \<Rightarrow> string \<Rightarrow> string" where
  "target_of sc relative \<equiv> posix_resolve (tc_root sc) relative"

definition real_within :: "provider_world \<Rightarrow> tool_scope \<Rightarrow> fs_log \<Rightarrow> string \<Rightarrow> bool" where
  "real_within w sc before p = (case pw_realpath w before p of Inl _ \<Rightarrow> False | Inr r \<Rightarrow> assertWithin (tc_root sc) r = Inr ())"

text \<open>
  An operation is in scope when it is for an exactly selected path: a read of the regular file the path
  really leads to, which is inside the workspace; the directory of a writable path; a write of at most the
  ceiling into the temporary name beside it, in a directory that was really inside the workspace at
  that moment, its rename over the path, and its removal.
\<close>

fun op_in_scope :: "provider_world \<Rightarrow> nat \<Rightarrow> tool_scope \<Rightarrow> fs_log \<Rightarrow> fs_op \<Rightarrow> bool" where
  "op_in_scope w maxBytes sc before (Op_Read t) =
     (\<exists>r\<in>set (tc_readable sc). pw_realpath w before (target_of sc r) = Inr t \<and> assertWithin (tc_root sc) t = Inr ()
        \<and> pw_isFile w before t = Inr True)"
| "op_in_scope w maxBytes sc before (Op_Mkdir d) =
     (\<exists>r\<in>set (tc_writable sc). d = posix_dirname (target_of sc r) \<and> assertWithin (tc_root sc) (target_of sc r) = Inr ())"
| "op_in_scope w maxBytes sc before (Op_Write t content) =
     (\<exists>r\<in>set (tc_writable sc). t = temporary_name w (target_of sc r) \<and> pw_utf8Length w content \<le> maxBytes
        \<and> real_within w sc before (posix_dirname (target_of sc r)))"
| "op_in_scope w maxBytes sc before (Op_Rename t target) =
     (\<exists>r\<in>set (tc_writable sc). t = temporary_name w (target_of sc r) \<and> target = target_of sc r)"
| "op_in_scope w maxBytes sc before (Op_Remove t) = (\<exists>r\<in>set (tc_writable sc). t = temporary_name w (target_of sc r))"

declare op_in_scope.simps [simp del]

lemma op_scope_intros:
  "rel \<in> set (tc_readable sc) \<Longrightarrow> pw_realpath w before (target_of sc rel) = Inr t \<Longrightarrow> assertWithin (tc_root sc) t = Inr () \<Longrightarrow>
     pw_isFile w before t = Inr True \<Longrightarrow> op_in_scope w n sc before (Op_Read t)"
  "rel \<in> set (tc_writable sc) \<Longrightarrow> assertWithin (tc_root sc) (target_of sc rel) = Inr () \<Longrightarrow>
     op_in_scope w n sc before (Op_Mkdir (posix_dirname (target_of sc rel)))"
  "rel \<in> set (tc_writable sc) \<Longrightarrow> pw_utf8Length w content \<le> n \<Longrightarrow> real_within w sc before (posix_dirname (target_of sc rel)) \<Longrightarrow>
     op_in_scope w n sc before (Op_Write (temporary_name w (target_of sc rel)) content)"
  "rel \<in> set (tc_writable sc) \<Longrightarrow> op_in_scope w n sc before (Op_Rename (temporary_name w (target_of sc rel)) (target_of sc rel))"
  "rel \<in> set (tc_writable sc) \<Longrightarrow> op_in_scope w n sc before (Op_Remove (temporary_name w (target_of sc rel)))"
  by (auto simp: op_in_scope.simps)

primrec log_scope_from :: "provider_world \<Rightarrow> nat \<Rightarrow> tool_scope \<Rightarrow> fs_log \<Rightarrow> fs_log \<Rightarrow> bool" where
  "log_scope_from w n sc before [] = True"
| "log_scope_from w n sc before (x # xs) \<longleftrightarrow> op_in_scope w n sc before x \<and> log_scope_from w n sc (before @ [x]) xs"

definition log_in_scope :: "provider_world \<Rightarrow> nat \<Rightarrow> tool_scope \<Rightarrow> fs_log \<Rightarrow> bool" where
  "log_in_scope w n sc ops = log_scope_from w n sc [] ops"

lemma log_scope_from_append:
  "log_scope_from w n sc before (xs @ ys) \<longleftrightarrow> log_scope_from w n sc before xs \<and> log_scope_from w n sc (before @ xs) ys"
  by (induction xs arbitrary: before) auto

lemma log_in_scope_Nil [simp]: "log_in_scope w n sc []"
  by (simp add: log_in_scope_def)

lemma log_in_scope_append [simp]:
  "xs \<noteq> [] \<Longrightarrow> log_in_scope w n sc (ops @ xs) \<longleftrightarrow> log_in_scope w n sc ops \<and> log_scope_from w n sc ops xs"
  by (simp add: log_in_scope_def log_scope_from_append)

text \<open>
  What a tool does to the log: it stays in scope, and it grows by at most four operations. The two are
  kept as one predicate, with the room that is left.
\<close>

definition scoped_growth :: "provider_world \<Rightarrow> nat \<Rightarrow> tool_scope \<Rightarrow> nat \<Rightarrow> fs_log \<Rightarrow> fs_log \<Rightarrow> bool" where
  "scoped_growth w n sc k ops ops' \<longleftrightarrow> (log_in_scope w n sc ops \<longrightarrow> log_in_scope w n sc ops') \<and> length ops' \<le> length ops + k"

lemma scoped_growth_refl [simp]: "scoped_growth w n sc k ops ops"
  by (simp add: scoped_growth_def)

lemma resolveExistingFile_pure:
  "resolveExistingFile w ws rel ops = (r, ops') \<Longrightarrow> ops' = ops \<and>
   (\<forall>t. r = Inr t \<longrightarrow> pw_realpath w ops (posix_resolve ws rel) = Inr t \<and> assertWithin ws t = Inr () \<and> pw_isFile w ops t = Inr True)"
  by (auto simp: resolveExistingFile_def bindA_def act_simps split: sum.splits if_splits)

lemma read_tool_growth:
  assumes "read_tool w sc n path ops = (r, ops')"
  shows "scoped_growth w n sc 4 ops ops'"
  using assms
  by (auto simp: read_tool_def bindA_def act_simps read_file_op_def scoped_growth_def
      intro!: op_scope_intros dest!: resolveExistingFile_pure split: sum.splits if_splits prod.splits)

lemma check_existing_pure: "check_existing_target w ws target ops = (r, ops') \<Longrightarrow> ops' = ops"
  by (auto simp: check_existing_target_def bindA_def act_simps split: sum.splits if_splits)

lemma atomicScopedWrite_growth:
  assumes "atomicScopedWrite w (tc_root sc) rel content ops = (r, ops')"
    and "rel \<in> set (tc_writable sc)" "pw_utf8Length w content \<le> n"
  shows "scoped_growth w n sc 4 ops ops'"
  using assms
  by (auto simp: atomicScopedWrite_def Let_def bindA_def finallyA_def perform_def act_simps scoped_growth_def
      real_within_def intro!: op_scope_intros dest!: check_existing_pure split: sum.splits if_splits prod.splits)

lemma write_tool_growth:
  assumes "write_tool w sc n path content ops = (r, ops')"
  shows "scoped_growth w n sc 4 ops ops'"
  using assms
  by (auto simp: write_tool_def bindA_def act_simps not_less split: sum.splits if_splits prod.splits dest!: atomicScopedWrite_growth)

lemma executeToolCall_growth:
  "executeToolCall w sc n call ops = (text, ops') \<Longrightarrow> scoped_growth w n sc 4 ops ops'"
  by (auto simp: executeToolCall_def dispatch_tool_def act_simps
      split: option.splits json.splits if_splits prod.splits sum.splits dest!: read_tool_growth write_tool_growth)

subsection \<open>The invariant of a run\<close>

text \<open>
  The log is in scope and no longer than the executed calls allow, requests are counted up to their
  ceiling, and every retry waited longer than the one before.
\<close>

definition run_invariant :: "provider_world \<Rightarrow> worker_request \<Rightarrow> tool_scope \<Rightarrow> run_state \<Rightarrow> bool" where
  "run_invariant w req sc st \<longleftrightarrow> (let b = pp_budget (wr_profile req) in
     log_in_scope w (pb_maxToolOutputBytes b) sc (rn_log st) \<and>
     length (rn_log st) \<le> 4 * min (rn_toolCallCount st) (pb_maxToolCalls b) \<and>
     rn_toolCallCount st \<le> pb_maxToolCalls b + 1 \<and>
     rn_requestCount st \<le> pb_maxRequests b \<and>
     rn_retryCount st \<le> rn_requestCount st \<and>
     length (rn_sleeps st) = rn_retryCount st)"

lemma runToolCalls_invariant:
  assumes "runToolCalls w req sc calls st = (f, st')" "run_invariant w req sc st"
    "rn_toolCallCount st \<le> pb_maxToolCalls (pp_budget (wr_profile req))"
  shows "run_invariant w req sc st' \<and> (f = None \<longrightarrow> rn_toolCallCount st' \<le> pb_maxToolCalls (pp_budget (wr_profile req)))"
  using assms
proof (induction calls arbitrary: st)
  case Nil
  then show ?case by simp
next
  case (Cons call calls)
  let ?b = "pp_budget (wr_profile req)"
  let ?st1 = "st\<lparr>rn_toolCallCount := rn_toolCallCount st + 1\<rparr>"
  show ?case
  proof (cases "pb_maxToolCalls ?b < rn_toolCallCount ?st1")
    case True
    then show ?thesis using Cons.prems by (auto simp: Let_def run_invariant_def min_def)
  next
    case False
    obtain result ops where e: "executeToolCall w sc (pb_maxToolOutputBytes ?b) call (rn_log st) = (result, ops)" by fastforce
    let ?st2 = "?st1\<lparr>rn_log := ops, rn_input := rn_input ?st1 @ [JObj [(''type'', JStr ''function_call_output''),
               (''call_id'', JStr (fc_callId call)), (''output'', JStr result)]]\<rparr>"
    have r: "runToolCalls w req sc calls ?st2 = (f, st')" using Cons.prems(1) False e by (simp add: Let_def)
    have "run_invariant w req sc ?st2"
      using Cons.prems(2) False executeToolCall_growth [OF e] by (auto simp: run_invariant_def Let_def scoped_growth_def)
    then show ?thesis using Cons.IH [OF r] False by simp
  qed
qed

lemma sendAttempts_frame:
  assumes "sendAttempts w req hr left st = (r, st')"
  shows "rn_log st' = rn_log st \<and> rn_toolCallCount st' = rn_toolCallCount st \<and> rn_usage st' = rn_usage st
    \<and> (rn_requestCount st \<le> pb_maxRequests (pp_budget (wr_profile req)) \<longrightarrow> rn_requestCount st' \<le> pb_maxRequests (pp_budget (wr_profile req)))
    \<and> (rn_retryCount st \<le> rn_requestCount st \<longrightarrow> rn_retryCount st' \<le> rn_requestCount st')
    \<and> (length (rn_sleeps st) = rn_retryCount st \<longrightarrow> length (rn_sleeps st') = rn_retryCount st')"
  using assms
proof (induction left arbitrary: st)
  case 0
  then show ?case
    by (subst (asm) sendAttempts.simps) (auto simp: Let_def note_request_id_def split: if_splits option.splits)
next
  case (Suc n)
  show ?case using Suc.prems
    by (subst (asm) sendAttempts.simps)
       (auto simp: Let_def note_request_id_def split: if_splits option.splits dest!: Suc.IH)
qed

lemma addLimitation_frame [simp]:
  "run_invariant w req sc (addLimitation l st) = run_invariant w req sc st"
  "rn_toolCallCount (addLimitation l st) = rn_toolCallCount st"
  "rn_usage (addLimitation l st) = rn_usage st"
  by (simp_all add: addLimitation_def run_invariant_def)

lemma parseUsage_frame:
  "parseUsage v st = (r, st') \<Longrightarrow> run_invariant w req sc st' = run_invariant w req sc st \<and>
     rn_toolCallCount st' = rn_toolCallCount st \<and> rn_usage st' = rn_usage st"
  by (auto simp: parseUsage_def Let_def split: option.splits json.splits if_splits)

lemma note_model_frame [simp]:
  "run_invariant w req sc (note_model m st) = run_invariant w req sc st"
  "rn_toolCallCount (note_model m st) = rn_toolCallCount st"
  "rn_usage (note_model m st) = rn_usage st"
  by (simp_all add: note_model_def run_invariant_def split: option.split)

lemma note_service_tier_frame [simp]:
  "run_invariant w req sc (note_service_tier t m st) = run_invariant w req sc st"
  "rn_toolCallCount (note_service_tier t m st) = rn_toolCallCount st"
  "rn_usage (note_service_tier t m st) = rn_usage st"
  by (simp_all add: note_service_tier_def Let_def) (simp add: run_invariant_def)

lemma parseProviderResponse_frame:
  assumes "parseProviderResponse x t st = (r, st')"
  shows "run_invariant w req sc st' = run_invariant w req sc st \<and> rn_toolCallCount st' = rn_toolCallCount st \<and> rn_usage st' = rn_usage st"
proof -
  have "run_invariant w req sc (st\<lparr>rn_responseIds := ids\<rparr>) = run_invariant w req sc st" for ids
    by (simp add: run_invariant_def)
  then show ?thesis using assms
    by (auto simp: parseProviderResponse_def Let_def dest!: parseUsage_frame [of _ _ _ _ w req sc]
        split: option.splits json.splits prod.splits)
qed

lemma use_response_invariant:
  assumes "run_invariant w req sc st" "rn_toolCallCount st \<le> pb_maxToolCalls (pp_budget (wr_profile req))"
  shows "case use_response w req sc answer st of
      Run_Goes_On st' \<Rightarrow> run_invariant w req sc st' \<and> rn_toolCallCount st' \<le> pb_maxToolCalls (pp_budget (wr_profile req))
    | Run_Ended out st' \<Rightarrow> run_invariant w req sc st' \<and>
        (out = Inr None \<longrightarrow> rn_toolCallCount st' \<le> pb_maxToolCalls (pp_budget (wr_profile req)) \<and>
          (\<exists>cost. calculateProviderCostMicroUsd (rn_usage st') (pp_rateCard (wr_profile req)) = Inr cost \<and>
            \<not> exceeds_budget (pp_budget (wr_profile req)) (rn_usage st') cost))"
proof -
  have inv: "run_invariant w req sc (st\<lparr>rn_usage := u\<rparr>)" "run_invariant w req sc (st\<lparr>rn_usage := u, rn_input := i\<rparr>)" for u i
    using assms(1) by (simp_all add: run_invariant_def)
  show ?thesis using assms(2) inv
    by (auto simp: use_response_def Let_def dest!: runToolCalls_invariant split: sum.splits prod.splits option.splits)
qed

lemma runStep_invariant:
  assumes "run_invariant w req sc st" "rn_toolCallCount st \<le> pb_maxToolCalls (pp_budget (wr_profile req))"
  shows "case runStep w req secret sc st of
      Run_Goes_On st' \<Rightarrow> run_invariant w req sc st' \<and> rn_toolCallCount st' \<le> pb_maxToolCalls (pp_budget (wr_profile req))
    | Run_Ended out st' \<Rightarrow> run_invariant w req sc st' \<and>
        (out = Inr None \<longrightarrow> rn_toolCallCount st' \<le> pb_maxToolCalls (pp_budget (wr_profile req)) \<and>
          (\<exists>cost. calculateProviderCostMicroUsd (rn_usage st') (pp_rateCard (wr_profile req)) = Inr cost \<and>
            \<not> exceeds_budget (pp_budget (wr_profile req)) (rn_usage st') cost))"
proof -
  let ?send = "sendProviderRequest w req secret st"
  obtain r st1 where send: "?send = (r, st1)" by fastforce
  have f: "run_invariant w req sc st1 \<and> rn_toolCallCount st1 = rn_toolCallCount st"
    using sendAttempts_frame [OF send [unfolded sendProviderRequest_def]] assms(1) by (simp add: run_invariant_def Let_def)
  have p: "run_invariant w req sc st2 \<and> rn_toolCallCount st2 = rn_toolCallCount st"
    if "parseProviderResponse x t st1 = (y, st2)" for x t y st2
    using parseProviderResponse_frame [OF that] f by simp
  show ?thesis using assms f p send use_response_invariant [of w req sc]
    by (auto simp: runStep_def Let_def split: sum.split prod.split bool.split)
qed

lemma runLoop_invariant:
  assumes "run_invariant w req sc st" "rn_toolCallCount st \<le> pb_maxToolCalls (pp_budget (wr_profile req))"
    and "runLoop w req secret sc st = (out, st')"
  shows "run_invariant w req sc st' \<and>
     (out = Inr None \<longrightarrow> rn_toolCallCount st' \<le> pb_maxToolCalls (pp_budget (wr_profile req)) \<and>
       (\<exists>cost. calculateProviderCostMicroUsd (rn_usage st') (pp_rateCard (wr_profile req)) = Inr cost \<and>
         \<not> exceeds_budget (pp_budget (wr_profile req)) (rn_usage st') cost))"
  using assms
proof (induction w req secret sc st rule: runLoop.induct)
  case (1 w req secret sc st)
  show ?case
  proof (cases "runStep w req secret sc st")
    case (Run_Ended out1 st1)
    then show ?thesis using runStep_invariant [OF 1(2,3), of secret] 1(4) by (simp add: runLoop.simps)
  next
    case (Run_Goes_On st1)
    then show ?thesis using runStep_invariant [OF 1(2,3), of secret] 1(1) 1(4) by (simp add: runLoop.simps)
  qed
qed

lemma initial_run_invariant: "run_invariant w req sc (initial_run\<lparr>rn_input := i\<rparr>)" "run_invariant w req sc initial_run"
  by (simp_all add: run_invariant_def initial_run_def Let_def)

lemma runAttempt_invariant:
  assumes "runAttempt w req = (out, st)"
  shows "(tool_scope_of w req = Inr sc \<longrightarrow> run_invariant w req sc st) \<and>
     (out = Inr None \<longrightarrow> rn_toolCallCount st \<le> pb_maxToolCalls (pp_budget (wr_profile req)) \<and>
       (\<exists>cost. calculateProviderCostMicroUsd (rn_usage st) (pp_rateCard (wr_profile req)) = Inr cost \<and>
         \<not> exceeds_budget (pp_budget (wr_profile req)) (rn_usage st) cost))"
proof -
  have z: "rn_toolCallCount (initial_run\<lparr>rn_input := i\<rparr>) \<le> n" for i n by (simp add: initial_run_def)
  show ?thesis using assms
    by (auto simp: runAttempt_def Let_def initial_run_invariant dest!: runLoop_invariant [OF initial_run_invariant(1) z]
        split: if_splits sum.splits bool.splits)
qed

subsection \<open>The scope of the file tools\<close>

lemma path_segments_resolve:
  "path_segments (posix_resolve base p)
   = resolve_from (if prefix ''/'' p then [] else resolve_from [] (split_on (CHR ''/'') base)) (split_on (CHR ''/'') p)"
proof -
  let ?here = "if prefix ''/'' p then [] else resolve_from [] (split_on (CHR ''/'') base)"
  let ?segs = "resolve_from ?here (split_on (CHR ''/'') p)"
  let ?P = "\<lambda>x. x \<noteq> [] \<and> CHR ''/'' \<notin> set x"
  have here: "?P x" if "x \<in> set ?here" for x
    using that resolve_from_segments [of "[]" ?P "split_on (CHR ''/'') base" x] split_on_segments by (auto split: if_splits)
  have P: "?P x" if "x \<in> set ?segs" for x
    using that resolve_from_segments [of ?here ?P "split_on (CHR ''/'') p" x] here split_on_segments by blast
  have sp: "split_on (CHR ''/'') (CHR ''/'' # v) = [] # split_on (CHR ''/'') v" for v by simp
  have f: "filter (\<lambda>s. s \<noteq> []) ?segs = ?segs" using P by (simp add: filter_id_conv split del: if_split)
  show ?thesis
  proof (cases "?segs = []")
    case True
    then show ?thesis by (simp add: posix_resolve_def path_segments_def split del: if_split)
  next
    case False
    have "split_on (CHR ''/'') (join [CHR ''/''] ?segs) = ?segs"
      by (rule split_on_join [OF False]) (use P in blast)
    then show ?thesis using f by (simp add: posix_resolve_def path_segments_def sp split del: if_split)
  qed
qed

text \<open>The selected paths are those of the request, and each names a place strictly below the workspace.\<close>

definition selected_below :: "worker_request \<Rightarrow> tool_scope \<Rightarrow> bool" where
  "selected_below req sc \<longleftrightarrow>
     tc_writable sc = map to_portable (wr_allowedPaths req) \<and>
     tc_readable sc = map to_portable (wr_contextRefs req @ wr_allowedPaths req) \<and>
     list_all (\<lambda>r. strict_prefix (path_segments (posix_resolve (tc_root sc) ''.'')) (path_segments (target_of sc r))) (tc_readable sc)"

definition plain_segments :: "string \<Rightarrow> bool" where
  "plain_segments r \<longleftrightarrow> list_all (\<lambda>s. s \<noteq> [] \<and> s \<noteq> ''.'' \<and> s \<noteq> ''..'') (split_on (CHR ''/'') r)"

lemma normalizeRelativePath_plain: "normalizeRelativePath p = Inr r \<Longrightarrow> r = to_portable p \<and> plain_segments r"
  by (auto simp: normalizeRelativePath_def plain_segments_def Let_def list_all_iff list_ex_iff split: if_splits)

lemma normalizeAll_plain: "normalizeAll ps = Inr rs \<Longrightarrow> rs = map to_portable ps \<and> list_all plain_segments rs"
  by (induction ps arbitrary: rs) (auto simp: bindE_eq_Inr dest!: normalizeRelativePath_plain)

lemma target_below:
  assumes "plain_segments r"
  shows "strict_prefix (path_segments (posix_resolve ws ''.'')) (path_segments (posix_resolve ws r))"
proof -
  let ?segs = "split_on (CHR ''/'') r"
  have ne: "?segs \<noteq> []" by (cases r) (auto split: list.split)
  have rel: "\<not> prefix ''/'' r" using assms by (cases r) (auto simp: plain_segments_def)
  have "filter (\<lambda>s. s \<noteq> []) ?segs = ?segs"
    using assms by (auto simp: plain_segments_def list_all_iff filter_id_conv)
  then have "resolve_from here ?segs = here @ ?segs" for here
    using resolve_from_plain [of ?segs here] assms by (simp add: plain_segments_def list_all_iff)
  then show ?thesis using ne rel by (simp add: path_segments_resolve strict_prefix_def)
qed

lemma tool_scope_selected:
  assumes "tool_scope_of w req = Inr sc"
  shows "selected_below req sc"
proof -
  obtain readable where r: "normalizeAll (wr_contextRefs req @ wr_allowedPaths req) = Inr readable" "tc_readable sc = readable"
    and wr: "normalizeAll (wr_allowedPaths req) = Inr (tc_writable sc)"
    using assms by (auto simp: tool_scope_of_def bindE_eq_Inr)
  show ?thesis using normalizeAll_plain [OF r(1)] normalizeAll_plain [OF wr] r(2) target_below
    by (auto simp: selected_below_def list_all_iff)
qed


subsection \<open>The ceilings\<close>

text \<open>
  C17. A run that returns its evidence sent at most the allowed number of requests, retries included,
  never executed more tool calls than allowed (the log holds at most four operations for each of them,
  and only the call that is refused is counted beyond the ceiling), and when it reports success its
  cumulative usage and its cost are within the owner's budget.
\<close>

theorem run_within_ceilings:
  assumes "runOpenAIResponsesWorker w req = Inr ev"
  shows "let b = pp_budget (wr_profile req) in
     ro_requestCount ev \<le> pb_maxRequests b \<and> ro_retryCount ev \<le> ro_requestCount ev \<and>
     ro_toolCallCount ev \<le> pb_maxToolCalls b + 1 \<and>
     length (rn_log (snd (runAttempt w req))) \<le> 4 * pb_maxToolCalls b \<and>
     (ro_failure ev = None \<longrightarrow>
        ro_toolCallCount ev \<le> pb_maxToolCalls b \<and> tu_inputTokens (ro_usage ev) \<le> pb_maxInputTokens b \<and>
        tu_outputTokens (ro_usage ev) \<le> pb_maxOutputTokens b \<and> ro_costMicroUsd ev \<le> pb_maxCostMicroUsd b)"
proof -
  obtain failure st where r: "runAttempt w req = (Inr failure, st)" and e: "run_evidence_of w req st failure = Inr ev"
    using assms by (auto simp: runOpenAIResponsesWorker_def split: prod.splits sum.splits)
  have ev: "ro_failure ev = failure" "ro_requestCount ev = rn_requestCount st" "ro_retryCount ev = rn_retryCount st"
    "ro_toolCallCount ev = rn_toolCallCount st" "ro_usage ev = rn_usage st"
    "calculateProviderCostMicroUsd (rn_usage st) (pp_rateCard (wr_profile req)) = Inr (ro_costMicroUsd ev)"
    using e by (auto simp: run_evidence_of_def bindE_eq_Inr)
  have i: "\<exists>sc. run_invariant w req sc st"
  proof (cases "tool_scope_of w req")
    case (Inl x)
    then have "st = initial_run" using r by (auto simp: runAttempt_def Let_def split: if_splits)
    then show ?thesis using initial_run_invariant(2) by blast
  next
    case (Inr sc)
    then show ?thesis using runAttempt_invariant [OF r, of sc] by blast
  qed
  then obtain sc where sc: "run_invariant w req sc st" by blast
  show ?thesis using sc runAttempt_invariant [OF r, of sc] r ev by (auto simp: run_invariant_def exceeds_budget_def Let_def)
qed

subsection \<open>A sample run\<close>

definition pr_profile :: provider_profile where
  "pr_profile = \<lparr>pp_baseUrl = ''https://api/v1/'', pp_model = ''luna'', pp_reasoningEffort = Effort_Medium, pp_serviceTier = Tier_Fast,
     pp_apiKeyEnvName = ''KEY'',
     pp_rateCard = \<lparr>rk_id = ''card'', rk_effectiveDate = ''2026-08-10'', rk_uncachedInputMicroUsdPerMillion = 400000,
       rk_cachedInputMicroUsdPerMillion = 40000, rk_cacheWriteMicroUsdPerMillion = 400000, rk_outputMicroUsdPerMillion = 2400000,
       rk_longContext = None\<rparr>,
     pp_budget = \<lparr>pb_requestTimeoutMs = 1000, pb_maxRequests = 4, pb_maxRetries = 2, pb_maxToolCalls = 3, pb_maxInputTokens = 1000,
       pb_maxOutputTokens = 500, pb_maxToolOutputBytes = 100, pb_maxCostMicroUsd = 5000\<rparr>\<rparr>"

definition pr_request :: worker_request where
  "pr_request = \<lparr>wr_profileId = ''luna-medium'', wr_profileFingerprint = ''f'', wr_profile = pr_profile, wr_workspacePath = ''/w'',
     wr_objective = ''fix'', wr_allowedPaths = [''src/a.ts''], wr_contextRefs = [''README''], wr_constraints = [],
     wr_escalateWhen = [], wr_sourceBaseRevision = ''r'', wr_workspaceBaseRevision = ''r''\<rparr>"

definition pr_answer :: "json list \<Rightarrow> http_response" where
  "pr_answer items = \<lparr>hp_status = 200, hp_requestId = Some ''q'', hp_json = Some (JObj [(''id'', JStr ''resp''), (''output'', JArr items),
     (''model'', JStr ''luna''), (''service_tier'', JStr ''priority''),
     (''usage'', JObj [(''input_tokens'', JNum ''100''), (''output_tokens'', JNum ''50'')])])\<rparr>"

definition pr_world :: provider_world where
  "pr_world = \<lparr>pw_fetch = (\<lambda>n hr. if n = 0 then None
       else if n = 1 then Some (pr_answer [JObj [(''type'', JStr ''function_call''), (''call_id'', JStr ''c1''),
         (''name'', JStr ''write_file''), (''arguments'', JStr ''W'')]])
       else Some (pr_answer [JObj [(''type'', JStr ''message'')]])),
     pw_parse = (\<lambda>s. if s = ''W'' then Some (JObj [(''path'', JStr ''src/a.ts''), (''content'', JStr ''new'')]) else None),
     pw_utf8Length = (\<lambda>s. length s), pw_environment = [(''KEY'', ''k'')], pw_pid = ''7'', pw_startedAt = 10, pw_endedAt = 30,
     pw_realpath = (\<lambda>ops p. Inr p), pw_isFile = (\<lambda>ops p. Inr True), pw_readFile = (\<lambda>ops p. Inr (3, ''old'')),
     pw_exists = (\<lambda>ops p. True), pw_isSymbolicLink = (\<lambda>ops p. Inr False), pw_mutate = (\<lambda>ops x. Inr ())\<rparr>"

definition pr_scope :: tool_scope where
  "pr_scope = \<lparr>tc_root = ''/w'', tc_readable = [''README'', ''src/a.ts''], tc_writable = [''src/a.ts'']\<rparr>"

definition pr_usage :: "int \<Rightarrow> token_usage" where
  "pr_usage n = \<lparr>tu_inputTokens = 100 * n, tu_cachedInputTokens = 0, tu_cacheWriteTokens = 0, tu_outputTokens = 50 * n, tu_reasoningTokens = 0\<rparr>"

definition pr_after :: "json list \<Rightarrow> run_state" where
  "pr_after i = \<lparr>rn_requestIds = [''q''], rn_responseIds = [''resp''], rn_returnedModels = [''luna''], rn_returnedServiceTiers = [''priority''],
     rn_requestCount = 2, rn_retryCount = 1, rn_toolCallCount = 1, rn_usage = pr_usage 1,
     rn_evidenceLimitations = [''Provider did not report cache-write tokens'', ''Provider did not report reasoning tokens''],
     rn_input = i @ [JObj [(''type'', JStr ''function_call''), (''call_id'', JStr ''c1''),
         (''name'', JStr ''write_file''), (''arguments'', JStr ''W'')],
       JObj [(''type'', JStr ''function_call_output''), (''call_id'', JStr ''c1''), (''output'', JStr ''wrote src/a.ts'')]],
     rn_sleeps = [100],
     rn_log = [Op_Mkdir ''/w/src'', Op_Write ''/w/src/a.ts.conductor-openai-7.tmp'' ''new'',
       Op_Rename ''/w/src/a.ts.conductor-openai-7.tmp'' ''/w/src/a.ts'', Op_Remove ''/w/src/a.ts.conductor-openai-7.tmp'']\<rparr>"

lemma sample_scope: "tool_scope_of pr_world pr_request = Inr pr_scope"
  by (simp add: tool_scope_of_def pr_world_def pr_request_def pr_scope_def normalizeRelativePath_def posix_isAbsolute_def
      win32_isAbsolute_def has_drive_def is_letter_def to_portable_def)

lemma sample_cost:
  "calculateProviderCostMicroUsd (pr_usage 1) (pp_rateCard pr_profile) = Inr 160"
  "calculateProviderCostMicroUsd (pr_usage 2) (pp_rateCard pr_profile) = Inr 320"
  by (simp_all add: calculateProviderCostMicroUsd_def assertUsage_def usage_fields_def pr_usage_def pr_profile_def max_safe_integer_def
      cost_numerator_def cost_denominator_def active_context_def input_numerator_def output_numerator_def divideRoundUp_def Let_def)

lemma sample_fits: "requestFitsBudget pr_request emptyUsage = Inr True" "requestFitsBudget pr_request (pr_usage 1) = Inr True"
  by (simp_all add: requestFitsBudget_def estimateProviderRequestCostMicroUsd_def calculateProviderCostMicroUsd_def assertUsage_def
      usage_fields_def pr_usage_def pr_request_def pr_profile_def max_safe_integer_def emptyUsage_def
      cost_numerator_def cost_denominator_def active_context_def input_numerator_def output_numerator_def divideRoundUp_def Let_def)

lemma sample_tool: "executeToolCall pr_world pr_scope 100 \<lparr>fc_callId = ''c1'', fc_name = ''write_file'', fc_arguments = ''W''\<rparr> []
   = (''wrote src/a.ts'', rn_log (pr_after i))"
  by (simp add: executeToolCall_def dispatch_tool_def write_tool_def atomicScopedWrite_def check_existing_target_def jstring_def
      pr_world_def pr_scope_def pr_after_def normalizeRelativePath_def posix_isAbsolute_def win32_isAbsolute_def has_drive_def
      is_letter_def to_portable_def bindA_def finallyA_def perform_def act_simps liftE_apply guardA_apply assertWithin_def posix_relative_def
      path_segments_def posix_resolve_def posix_dirname_def temporary_name_def Let_def)

lemma sample_parse:
  "parseProviderResponse (pr_answer items) Tier_Fast st =
     (Inr (items, pr_usage 1),
      addLimitation ''Provider did not report reasoning tokens'' (addLimitation ''Provider did not report cache-write tokens''
        (note_service_tier Tier_Fast (Some ''priority'') (note_model (Some ''luna'') (st\<lparr>rn_responseIds := rn_responseIds st @ [''resp'']\<rparr>)))))"
  by (simp add: parseProviderResponse_def pr_answer_def jstring_def parseUsage_def objectRecord_def detail_def or_zero_def
      nonnegativeInteger_def is_digit_def parse_nat_def digit_val_def max_safe_integer_def pr_usage_def Let_def)

lemma sample_send_first:
  "sendProviderRequest pr_world pr_request k (initial_run\<lparr>rn_input := i\<rparr>) =
     (Inr (pr_answer [JObj [(''type'', JStr ''function_call''), (''call_id'', JStr ''c1''), (''name'', JStr ''write_file''), (''arguments'', JStr ''W'')]]),
      initial_run\<lparr>rn_input := i, rn_requestCount := 2, rn_retryCount := 1, rn_sleeps := [100], rn_requestIds := [''q'']\<rparr>)"
  by (simp add: sendProviderRequest_def sendAttempts.simps pr_world_def pr_request_def pr_profile_def initial_run_def Let_def
      numeral_2_eq_2 response_ok_def pr_answer_def note_request_id_def truthy_def)

lemma sample_send_second:
  "sendProviderRequest pr_world pr_request k (pr_after i) =
     (Inr (pr_answer [JObj [(''type'', JStr ''message'')]]), (pr_after i)\<lparr>rn_requestCount := 3, rn_requestIds := [''q'', ''q'']\<rparr>)"
  by (simp add: sendProviderRequest_def sendAttempts.simps pr_world_def pr_request_def pr_profile_def pr_after_def Let_def
      numeral_2_eq_2 response_ok_def pr_answer_def note_request_id_def truthy_def)

lemma addUsage_sample: "addUsage emptyUsage (pr_usage 1) = pr_usage 1" "addUsage (pr_usage 1) (pr_usage 1) = pr_usage 2"
  by (simp_all add: addUsage_def emptyUsage_def pr_usage_def)

lemma sample_profile [simp]: "wr_profile pr_request = pr_profile" "pp_serviceTier pr_profile = Tier_Fast"
  "pb_maxRequests (pp_budget pr_profile) = 4" "pb_maxToolCalls (pp_budget pr_profile) = 3"
  "pb_maxToolOutputBytes (pp_budget pr_profile) = 100" "pb_maxInputTokens (pp_budget pr_profile) = 1000"
  "pb_maxOutputTokens (pp_budget pr_profile) = 500" "pb_maxCostMicroUsd (pp_budget pr_profile) = 5000"
  by (simp_all add: pr_request_def pr_profile_def)

lemma sample_step_first:
  "runStep pr_world pr_request k pr_scope (initial_run\<lparr>rn_input := i\<rparr>) = Run_Goes_On (pr_after i)"
proof -
  have u: "rn_usage initial_run = emptyUsage" "rn_requestCount initial_run = 0" "rn_evidenceLimitations initial_run = []"
    "rn_returnedModels initial_run = []" "rn_returnedServiceTiers initial_run = []" "rn_responseIds initial_run = []"
    "rn_toolCallCount initial_run = 0" "rn_log initial_run = []" by (simp_all add: initial_run_def)
  have b: "tu_inputTokens (pr_usage 1) = 100" "tu_outputTokens (pr_usage 1) = 50" by (simp_all add: pr_usage_def)
  show ?thesis
    by (simp add: runStep_def u b sample_fits sample_send_first sample_parse use_response_def addLimitation_def note_model_def
        note_service_tier_def truthy_def serviceTiersMatch_def tier_class_def addUsage_sample sample_cost
        exceeds_budget_def functionCall_def jstring_def List.map_filter_def sample_tool [of i] Let_def del: One_nat_def)
       (simp add: pr_after_def pr_usage_def initial_run_def)
qed

lemma sample_step_second:
  "runStep pr_world pr_request k pr_scope (pr_after i) =
   Run_Ended (Inr None) ((pr_after i)\<lparr>rn_requestCount := 3, rn_requestIds := [''q'', ''q''], rn_responseIds := [''resp'', ''resp''],
     rn_usage := pr_usage 2, rn_input := rn_input (pr_after i) @ [JObj [(''type'', JStr ''message'')]]\<rparr>)"
proof -
  have u: "rn_usage (pr_after i) = pr_usage 1" "rn_requestCount (pr_after i) = 2" "rn_responseIds (pr_after i) = [''resp'']"
    "rn_returnedModels (pr_after i) = [''luna'']" "rn_returnedServiceTiers (pr_after i) = [''priority'']"
    "rn_evidenceLimitations (pr_after i) = [''Provider did not report cache-write tokens'', ''Provider did not report reasoning tokens'']"
    by (simp_all add: pr_after_def)
  have b: "tu_inputTokens (pr_usage 2) = 200" "tu_outputTokens (pr_usage 2) = 100" by (simp_all add: pr_usage_def)
  show ?thesis
    by (simp add: runStep_def u b sample_fits sample_send_second sample_parse use_response_def addLimitation_def note_model_def
        note_service_tier_def truthy_def serviceTiersMatch_def tier_class_def addUsage_sample sample_cost
        exceeds_budget_def functionCall_def jstring_def List.map_filter_def Let_def)
qed

lemma sample_run:
  "\<exists>ev. runOpenAIResponsesWorker pr_world pr_request = Inr ev \<and> ro_failure ev = None \<and> ro_requestCount ev = 3 \<and> ro_retryCount ev = 1 \<and>
     ro_toolCallCount ev = 1 \<and> ro_costMicroUsd ev = 320"
proof -
  have k: "map_of (pw_environment pr_world) (pp_apiKeyEnvName pr_profile) = Some ''k''" by (simp add: pr_world_def pr_profile_def)
  show ?thesis
    by (simp add: runOpenAIResponsesWorker_def runAttempt_def Let_def k truthy_def sample_scope sample_fits runLoop.simps
        sample_step_first sample_step_second run_evidence_of_def sample_cost)
       (simp add: pr_after_def)
qed

theorem run_within_ceilings_witness:
  "\<exists>ev. runOpenAIResponsesWorker pr_world pr_request = Inr ev \<and> ro_failure ev = None \<and> ro_requestCount ev \<le> 4 \<and>
     ro_toolCallCount ev \<le> 3 \<and> length (rn_log (snd (runAttempt pr_world pr_request))) \<le> 12 \<and> ro_costMicroUsd ev \<le> 5000"
  using sample_run run_within_ceilings [of pr_world pr_request] by (auto simp: Let_def)

subsection \<open>A provider that never answers\<close>

lemma sendAttempts_exhausted:
  assumes never: "\<And>n. case pw_fetch w n hr of None \<Rightarrow> True | Some r \<Rightarrow> transient_status (hp_status r)"
    and "rn_requestCount st \<le> M" "M = pb_maxRequests (pp_budget (wr_profile req))" "left \<le> pb_maxRetries (pp_budget (wr_profile req))"
    and "sendAttempts w req hr left st = (x, st')"
  shows "(\<exists>m. x = Inl (if M - rn_requestCount st \<le> left then Budget_Exceeded else Provider_Error, m)) \<and>
    rn_requestCount st' = rn_requestCount st + min (left + 1) (M - rn_requestCount st) \<and>
    rn_retryCount st' = rn_retryCount st + min left (M - rn_requestCount st) \<and>
    rn_sleeps st' = rn_sleeps st @ map (\<lambda>i. 100 * (pb_maxRetries (pp_budget (wr_profile req)) - left + 1 + i)) [0..<min left (M - rn_requestCount st)] \<and>
    rn_log st' = rn_log st \<and> rn_usage st' = rn_usage st"
  using assms(2-)
proof (induction left arbitrary: st)
  case 0
  have ok: "\<not> response_ok r" if "transient_status (hp_status r)" for r
    using that by (auto simp: response_ok_def transient_status_def)
  show ?case using 0 never [of "rn_requestCount st"] ok
    by (subst (asm) sendAttempts.simps) (auto simp: Let_def note_request_id_def split: if_splits option.splits)
next
  case (Suc left)
  let ?R = "pb_maxRetries (pp_budget (wr_profile req))"
  have ok: "\<not> response_ok r" if "transient_status (hp_status r)" for r
    using that by (auto simp: response_ok_def transient_status_def)
  show ?case
  proof (cases "M \<le> rn_requestCount st")
    case True
    then show ?thesis using Suc.prems by (subst (asm) sendAttempts.simps) (auto simp: Let_def)
  next
    case False
    let ?again = "\<lambda>s. s\<lparr>rn_retryCount := rn_retryCount s + 1, rn_sleeps := rn_sleeps s @ [100 * (?R - Suc left + 1)]\<rparr>"
    let ?counted = "st\<lparr>rn_requestCount := rn_requestCount st + 1\<rparr>"
    have "\<exists>i. sendAttempts w req hr left (?again (note_request_id i ?counted)) = (x, st')"
    proof (cases "pw_fetch w (rn_requestCount st) hr")
      case None
      then have "sendAttempts w req hr left (?again (note_request_id None ?counted)) = (x, st')"
        using Suc.prems(2,4) False by (subst (asm) sendAttempts.simps) (simp add: Let_def note_request_id_def truthy_def)
      then show ?thesis by blast
    next
      case (Some r)
      then have "transient_status (hp_status r)" using never [of "rn_requestCount st"] by simp
      then have "sendAttempts w req hr left (?again (note_request_id (hp_requestId r) ?counted)) = (x, st')"
        using Some Suc.prems(2,4) False ok by (subst (asm) sendAttempts.simps) (simp add: Let_def)
      then show ?thesis by blast
    qed
    then obtain st2 where st2: "sendAttempts w req hr left st2 = (x, st')" "rn_requestCount st2 = rn_requestCount st + 1"
      "rn_retryCount st2 = rn_retryCount st + 1" "rn_sleeps st2 = rn_sleeps st @ [100 * (?R - Suc left + 1)]"
      "rn_log st2 = rn_log st" "rn_usage st2 = rn_usage st"
      by (auto simp: note_request_id_def split: if_splits)
    have "M - rn_requestCount st = Suc (M - (rn_requestCount st + 1))" using False by simp
    moreover have "[0..<Suc k] = 0 # map Suc [0..<k]" for k by (simp add: map_Suc_upt upt_conv_Cons)
    ultimately show ?thesis using Suc.IH [OF _ Suc.prems(2) _ st2(1)] Suc.prems(3) False st2
      by (auto simp: o_def Suc_diff_le)
  qed
qed

text \<open>
  C18. When every request of a run is refused with a transient status or does not get through, the run
  still ends: it sends exactly \<open>maxRetries + 1\<close> requests, or \<open>maxRequests\<close> when that is less, waits
  100, 200, ... milliseconds between them, and reports a provider error or, when the request ceiling came
  first, an exhausted budget. It has used no tokens and touched no file.
\<close>

theorem unreachable_provider_ends:
  assumes never: "\<And>n hr. case pw_fetch w n hr of None \<Rightarrow> True | Some r \<Rightarrow> transient_status (hp_status r)"
    and secret: "truthy (map_of (pw_environment w) (pp_apiKeyEnvName (wr_profile req)))"
    and "tool_scope_of w req = Inr sc" "requestFitsBudget req emptyUsage = Inr True"
    and "0 < pb_maxRequests (pp_budget (wr_profile req))"
  shows "let b = pp_budget (wr_profile req); st = snd (runAttempt w req) in
     (\<exists>m ev. runOpenAIResponsesWorker w req = Inr ev \<and> ro_usage ev = emptyUsage \<and>
        ro_requestCount ev = min (pb_maxRetries b + 1) (pb_maxRequests b) \<and>
        ro_failure ev = Some (if pb_maxRequests b \<le> pb_maxRetries b then Budget_Exceeded else Provider_Error, m)) \<and>
     rn_sleeps st = map (\<lambda>i. 100 * (i + 1)) [0..<min (pb_maxRetries b) (pb_maxRequests b)] \<and> rn_log st = []"
proof -
  let ?b = "pp_budget (wr_profile req)"
  let ?k = "the (map_of (pw_environment w) (pp_apiKeyEnvName (wr_profile req)))"
  let ?i = "[JObj [(''role'', JStr ''user''), (''content'', JStr (buildInitialPrompt req))]]"
  let ?st = "initial_run\<lparr>rn_input := ?i\<rparr>"
  have z: "rn_requestCount ?st = 0" "rn_retryCount ?st = 0" "rn_sleeps ?st = []" "rn_log ?st = []" "rn_usage ?st = emptyUsage"
    by (simp_all add: initial_run_def)
  obtain x st' where s: "sendProviderRequest w req ?k ?st = (x, st')" by fastforce
  obtain m where m: "x = Inl (if pb_maxRequests ?b \<le> pb_maxRetries ?b then Budget_Exceeded else Provider_Error, m)"
    and st': "rn_requestCount st' = min (pb_maxRetries ?b + 1) (pb_maxRequests ?b)" "rn_log st' = []" "rn_usage st' = emptyUsage"
      "rn_sleeps st' = map (\<lambda>i. 100 * (i + 1)) [0..<min (pb_maxRetries ?b) (pb_maxRequests ?b)]"
    using sendAttempts_exhausted [OF never _ refl order.refl s [unfolded sendProviderRequest_def]] z by (auto simp: algebra_simps)
  have r: "runAttempt w req = (Inr (Some (if pb_maxRequests ?b \<le> pb_maxRetries ?b then Budget_Exceeded else Provider_Error, m)), st')"
    using assms(2-) s m z by (simp add: runAttempt_def Let_def runLoop.simps runStep_def)
  have "\<exists>cost. calculateProviderCostMicroUsd emptyUsage (pp_rateCard (wr_profile req)) = Inr cost"
    using assms(4) by (auto simp: requestFitsBudget_def Let_def bindE_eq_Inr)
  then show ?thesis using r st' by (auto simp: runOpenAIResponsesWorker_def run_evidence_of_def Let_def)
qed

theorem unreachable_provider_ends_witness:
  "let w = pr_world\<lparr>pw_fetch := \<lambda>n hr. if n = 1 then Some \<lparr>hp_status = 503, hp_requestId = None, hp_json = None\<rparr> else None\<rparr> in
     rn_sleeps (snd (runAttempt w pr_request)) = [100, 200] \<and>
     (\<exists>m ev. runOpenAIResponsesWorker w pr_request = Inr ev \<and> ro_requestCount ev = 3 \<and> ro_failure ev = Some (Provider_Error, m))"
proof -
  let ?w = "pr_world\<lparr>pw_fetch := \<lambda>n hr. if n = 1 then Some \<lparr>hp_status = 503, hp_requestId = None, hp_json = None\<rparr> else None\<rparr>"
  have sc: "tool_scope_of ?w pr_request = Inr pr_scope" using sample_scope by (simp add: tool_scope_of_def)
  have k: "truthy (map_of (pw_environment ?w) (pp_apiKeyEnvName (wr_profile pr_request)))"
    by (simp add: pr_world_def pr_profile_def truthy_def)
  have n: "case pw_fetch ?w n hr of None \<Rightarrow> True | Some r \<Rightarrow> transient_status (hp_status r)" for n hr
    by (simp add: transient_status_def)
  have b: "pb_maxRetries (pp_budget pr_profile) = 2" by (simp add: pr_profile_def)
  have "[0..<2] = [0, 1::nat]" by (simp add: upt_rec)
  then show ?thesis using unreachable_provider_ends [of ?w pr_request, OF n k sc sample_fits(1)] b by (auto simp: Let_def)
qed

subsection \<open>The command line\<close>

lemma read_repeated:
  assumes "flag \<in> set repeatable_flags"
  shows "read_arguments (repeatedArguments flag values @ rest) singles repeated =
    read_arguments rest singles (if values = [] then repeated else AList.update flag (repeated_argument repeated flag @ values) repeated)"
  using assms
proof (induction "values" arbitrary: repeated)
  case (Cons v vs)
  have p: "prefix ''--'' flag" using Cons.prems by (auto simp: repeatable_flags_def)
  have u: "AList.update flag y (AList.update flag x repeated) = AList.update flag y repeated" for x y
    by (induction repeated) auto
  have r: "repeated_argument (AList.update flag x repeated) flag = x" for x
    by (simp add: repeated_argument_def update_conv)
  show ?case using Cons.IH [OF Cons.prems] Cons.prems p u r
    by (auto simp: repeatedArguments_def repeated_argument_def)
qed (simp add: repeatedArguments_def)

lemma repeated_argument_update:
  "repeated_argument (AList.update k x repeated) k' = (if k' = k then x else repeated_argument repeated k')"
  by (simp add: repeated_argument_def update_conv)

lemma read_arguments_tail: "read_arguments [f1, v1, f2, v2] singles repeated =
   (if \<not> prefix ''--'' f1 then Inl (Error ''invalid args'')
    else if f1 \<in> set repeatable_flags
    then read_arguments [f2, v2] singles (AList.update f1 (repeated_argument repeated f1 @ [v1]) repeated)
    else if map_of singles f1 \<noteq> None then Inl (Error ''duplicate arg'')
    else read_arguments [f2, v2] (singles @ [(f1, v1)]) repeated)"
  by (simp add: repeated_argument_def)

text \<open>
  C19. What the adapter writes on the command line is what the runner reads back: when the invocation of
  a job that names at least one allowed path could be built, and the path of the profiles, the work tree,
  the objective and the revisions are not empty, the runner parses exactly the selected profile and the
  fields of the contract, whatever characters they contain. The secret is in the environment of the process.
\<close>

theorem command_line_round_trip:
  assumes b: "buildInvocation a contract wsPath context = Inr invocation"
    and "va_profilesFile a = Some file" "file \<noteq> []" "wsPath \<noteq> []" "jc_objective contract \<noteq> []"
    and "ps_allowedPaths (jc_scope contract) \<noteq> []"
    and "src = (case context of Some c \<Rightarrow> ac_sourceBaseRevision c | None \<Rightarrow> re_baseRevision (jc_repository contract))"
    and "base = (case context of Some c \<Rightarrow> ac_workspaceBaseRevision c | None \<Rightarrow> re_baseRevision (jc_repository contract))"
    and "src \<noteq> []" "base \<noteq> []"
  shows "\<exists>profileId profile. validateProfileSelection (jc_adapterOptions contract) = Inr profileId \<and>
     selectProfile a profileId = Inr profile \<and>
     map_of (pi_env invocation) (pp_apiKeyEnvName profile) = map_of (va_environment a) (pp_apiKeyEnvName profile) \<and>
     parseCliArguments (tl (pi_args invocation)) = Inr \<lparr>cx_profilesFile = file, cx_profileId = profileId, cx_workspacePath = wsPath,
       cx_objective = jc_objective contract, cx_allowedPaths = ps_allowedPaths (jc_scope contract), cx_contextRefs = jc_contextRefs contract,
       cx_constraints = jc_constraints contract, cx_escalateWhen = jc_escalateWhen contract,
       cx_sourceBaseRevision = src, cx_workspaceBaseRevision = base\<rparr>"
proof -
  let ?allowed = "ps_allowedPaths (jc_scope contract)"
  obtain profileId profile where v: "validateProfileSelection (jc_adapterOptions contract) = Inr profileId"
    and p: "selectProfile a profileId = Inr profile"
    and secret: "truthy (map_of (va_environment a) (pp_apiKeyEnvName profile))"
    and env: "pi_env invocation = [(pp_apiKeyEnvName profile, the (map_of (va_environment a) (pp_apiKeyEnvName profile)))]"
    and args: "tl (pi_args invocation) = [''--profiles-file'', file, ''--profile-id'', profileId, ''--workspace'', wsPath,
        ''--objective'', jc_objective contract]
      @ repeatedArguments ''--allowed-path'' ?allowed @ repeatedArguments ''--context-ref'' (jc_contextRefs contract)
      @ repeatedArguments ''--constraint'' (jc_constraints contract) @ repeatedArguments ''--escalate-when'' (jc_escalateWhen contract)
      @ [''--source-base-revision'', src, ''--workspace-base-revision'', base]"
    using b assms(2,7,8) by (auto simp: buildInvocation_def bindE_eq_Inr Let_def split: option.splits if_splits)
  have ne: "profileId \<noteq> []" using v by (auto simp: validateProfileSelection_def split: list.splits prod.splits json.splits if_splits)
  have flags: "''--allowed-path'' \<in> set repeatable_flags" "''--context-ref'' \<in> set repeatable_flags"
    "''--constraint'' \<in> set repeatable_flags" "''--escalate-when'' \<in> set repeatable_flags"
    by (simp_all add: repeatable_flags_def)
  have other: "''--profiles-file'' \<notin> set repeatable_flags" "''--profile-id'' \<notin> set repeatable_flags" "''--workspace'' \<notin> set repeatable_flags"
    "''--objective'' \<notin> set repeatable_flags" "''--source-base-revision'' \<notin> set repeatable_flags" "''--workspace-base-revision'' \<notin> set repeatable_flags"
    by (simp_all add: repeatable_flags_def)
  have "parseCliArguments (tl (pi_args invocation)) = Inr \<lparr>cx_profilesFile = file, cx_profileId = profileId, cx_workspacePath = wsPath,
       cx_objective = jc_objective contract, cx_allowedPaths = ?allowed, cx_contextRefs = jc_contextRefs contract,
       cx_constraints = jc_constraints contract, cx_escalateWhen = jc_escalateWhen contract,
       cx_sourceBaseRevision = src, cx_workspaceBaseRevision = base\<rparr>"
    using assms(3-6,9,10) ne
    by (simp add: args parseCliArguments_def other read_repeated flags required_argument_def truthy_def Let_def)
       (simp add: repeated_argument_update repeated_argument_def update_conv)
  moreover have "map_of (pi_env invocation) (pp_apiKeyEnvName profile) = map_of (va_environment a) (pp_apiKeyEnvName profile)"
    using env secret by (auto simp: truthy_def split: option.splits)
  ultimately show ?thesis using v p by blast
qed

theorem command_line_round_trip_witness:
  "let a = \<lparr>va_executable = Some ''/bin/bun'', va_runnerPath = ''/runner.ts'', va_runnerIsFile = True, va_profilesFile = Some ''/p.json'',
       va_profiles = [(''luna'', pr_profile)], va_environment = [(''KEY'', ''k'')]\<rparr>;
     contract = sample_contract\<lparr>jc_objective := ''--objective'', jc_adapterOptions := [(''profile'', JStr '' luna '')],
       jc_scope := \<lparr>ps_allowedPaths = [''src/a.ts'', ''--b''], ps_forbiddenPaths = [], ps_protectedPaths = []\<rparr>,
       jc_contextRefs := [], jc_constraints := [''c''], jc_escalateWhen := []\<rparr>
   in \<exists>invocation cli. buildInvocation a contract ''/w'' (Some \<lparr>ac_sourceBaseRevision = ''r1'', ac_workspaceBaseRevision = ''r2''\<rparr>) = Inr invocation \<and>
     parseCliArguments (tl (pi_args invocation)) = Inr cli \<and> cx_profileId cli = ''luna'' \<and> cx_objective cli = ''--objective'' \<and>
     cx_allowedPaths cli = [''src/a.ts'', ''--b''] \<and> cx_workspaceBaseRevision cli = ''r2''"
proof -
  let ?a = "\<lparr>va_executable = Some ''/bin/bun'', va_runnerPath = ''/runner.ts'', va_runnerIsFile = True, va_profilesFile = Some ''/p.json'',
       va_profiles = [(''luna'', pr_profile)], va_environment = [(''KEY'', ''k'')]\<rparr>"
  let ?c = "sample_contract\<lparr>jc_objective := ''--objective'', jc_adapterOptions := [(''profile'', JStr '' luna '')],
       jc_scope := \<lparr>ps_allowedPaths = [''src/a.ts'', ''--b''], ps_forbiddenPaths = [], ps_protectedPaths = []\<rparr>,
       jc_contextRefs := [], jc_constraints := [''c''], jc_escalateWhen := []\<rparr>"
  let ?x = "Some \<lparr>ac_sourceBaseRevision = ''r1'', ac_workspaceBaseRevision = ''r2''\<rparr>"
  have v: "validateProfileSelection (jc_adapterOptions ?c) = Inr ''luna''"
    by (simp add: validateProfileSelection_def trim_def is_space_def)
  have k: "pp_apiKeyEnvName pr_profile = ''KEY''" by (simp add: pr_profile_def)
  obtain i where i: "buildInvocation ?a ?c ''/w'' ?x = Inr i"
    using v k by (simp add: buildInvocation_def selectProfile_def truthy_def Let_def)
  show ?thesis
    using command_line_round_trip [OF i, of "''/p.json''" "''r1''" "''r2''"] i v by (auto simp: Let_def)
qed

end
