(* ===== verification/Source_Contracts.thy ===== *)
theory Source_Contracts
  imports Dispatcher "HOL-Library.Monad_Syntax"
begin

text \<open>
  Contracts written as comments in the source files of a repository: the schemas of
  \<open>src/src/contracts/source.ts\<close> and the extraction of the comment blocks in
  \<open>src/src/sources/compiler.ts\<close>. The schema parse starts from a JSON value; \<open>JSON.parse\<close> itself is a
  parameter. A string is a list of characters, so \<open>source.length\<close> and the positions of \<open>indexOf\<close> count
  characters.
\<close>

subsection \<open>Schemas (contracts/source.ts)\<close>

record source_command =
  so_profile :: string
  so_args :: "string list"
  so_cwd :: "string option"
  so_timeoutMs :: "int option"

record source_contract =
  sn_id :: string
  sn_objective :: string
  sn_taskClass :: task_class
  sn_adapterId :: string
  sn_adapterOptions :: "(string \<times> json) list"
  sn_scope :: path_scope
  sn_contextRefs :: "string list"
  sn_constraints :: "string list"
  sn_escalateWhen :: "string list"
  sn_setup :: "source_command list"
  sn_acceptance :: "source_command list"
  sn_timeoutMs :: int
  sn_retainWorkspace :: bool
  sn_executionBoundary :: boundary_request
  sn_dependsOn :: "string list"
  sn_priority :: int
  sn_enabled :: bool

record scan_request =
  sq_repositoryPath :: string
  sq_baseRef :: string
  sq_allowedAdapterIds :: "string list"
  sq_contractIds :: "string list option"
  sq_includeExtensions :: "string list"
  sq_maxFileBytes :: nat

definition is_extension :: "string \<Rightarrow> bool" where
  "is_extension s = (case s of [] \<Rightarrow> False
     | c # cs \<Rightarrow> c = CHR ''.'' \<and> cs \<noteq> [] \<and> list_all (\<lambda>d. is_letter d \<or> is_digit d) cs)"

definition scanRequest_valid :: "scan_request \<Rightarrow> bool" where
  "scanRequest_valid q \<longleftrightarrow> sq_repositoryPath q \<noteq> [] \<and> sq_baseRef q \<noteq> [] \<and>
     sq_allowedAdapterIds q \<noteq> [] \<and> list_all (\<lambda>a. a \<noteq> []) (sq_allowedAdapterIds q) \<and>
     (case sq_contractIds q of None \<Rightarrow> True | Some ids \<Rightarrow> ids \<noteq> [] \<and> list_all is_safe_segment ids \<and> distinct ids) \<and>
     list_all is_extension (sq_includeExtensions q) \<and> in_range 1 2000000 (int (sq_maxFileBytes q))"

record watch_request =
  wq_watchId :: "string option"
  wq_enabled :: bool
  wq_scan :: scan_request

definition watchRequest_valid :: "watch_request \<Rightarrow> bool" where
  "watchRequest_valid q \<longleftrightarrow> scanRequest_valid (wq_scan q) \<and>
     (case wq_watchId q of None \<Rightarrow> True | Some i \<Rightarrow> is_safe_segment i)"

record source_watch =
  wh_watchId :: string
  wh_enabled :: bool
  wh_scan :: scan_request
  wh_createdAt :: timestamp
  wh_updatedAt :: timestamp
  wh_lastScanAt :: "timestamp option"
  wh_lastRevision :: "string option"
  wh_lastRunId :: "string option"
  wh_lastError :: "string option"

definition opt_ok :: "('a \<Rightarrow> bool) \<Rightarrow> 'a option \<Rightarrow> bool" where
  "opt_ok ok v = (case v of None \<Rightarrow> True | Some x \<Rightarrow> ok x)"

definition sourceWatch_valid :: "source_watch \<Rightarrow> bool" where
  "sourceWatch_valid x \<longleftrightarrow> is_safe_segment (wh_watchId x) \<and> scanRequest_valid (wh_scan x) \<and>
     opt_ok is_git_revision (wh_lastRevision x) \<and> opt_ok (\<lambda>v. v \<noteq> []) (wh_lastRunId x) \<and> opt_ok (\<lambda>v. v \<noteq> []) (wh_lastError x)"

record compiled_contract =
  cc_id :: string
  cc_fingerprint :: string
  cc_repositoryRoot :: string
  cc_revision :: string
  cc_path :: string
  cc_line :: nat
  cc_contract :: source_contract

definition compiledContract_valid :: "compiled_contract \<Rightarrow> bool" where
  "compiledContract_valid c \<longleftrightarrow> cc_id c \<noteq> [] \<and> is_hex64 (cc_fingerprint c) \<and> cc_repositoryRoot c \<noteq> [] \<and>
     is_git_revision (cc_revision c) \<and> cc_path c \<noteq> [] \<and> 0 < cc_line c"

record command_profile =
  cq_executable :: string
  cq_argsPrefix :: "string list"
  cq_inheritEnv :: "string list"

definition isPortableAbsolute :: "string \<Rightarrow> bool" where
  "isPortableAbsolute v \<longleftrightarrow> posix_isAbsolute (to_portable v) \<or> win32_isAbsolute v"

definition commandProfile_valid :: "command_profile \<Rightarrow> bool" where
  "commandProfile_valid p \<longleftrightarrow> cq_executable p \<noteq> [] \<and> isPortableAbsolute (cq_executable p) \<and>
     list_all is_environment_name (cq_inheritEnv p)"

subsection \<open>Parsing a contract\<close>

text \<open>A schema is a partial function on JSON values; \<open>None\<close> is the error of the parse. Unknown properties are dropped.\<close>

definition z_string :: "(string \<Rightarrow> bool) \<Rightarrow> json \<Rightarrow> string option" where
  "z_string ok v = (case v of JStr s \<Rightarrow> if ok s then Some s else None | _ \<Rightarrow> None)"

definition z_bool :: "json \<Rightarrow> bool option" where
  "z_bool v = (case v of JBool b \<Rightarrow> Some b | _ \<Rightarrow> None)"

definition token_int :: "string \<Rightarrow> int option" where
  "token_int t =
     (let digits = (\<lambda>d. d \<noteq> [] \<and> list_all is_digit d) in
      case t of
        [] \<Rightarrow> None
      | c # cs \<Rightarrow> if c = CHR ''-'' then (if digits cs then Some (- int (parse_nat cs)) else None)
          else if digits t then Some (int (parse_nat t)) else None)"

definition z_int :: "int \<Rightarrow> int \<Rightarrow> json \<Rightarrow> int option" where
  "z_int lo hi v = (case v of
     JNum t \<Rightarrow> (case token_int t of Some n \<Rightarrow> if in_range lo hi n then Some n else None | None \<Rightarrow> None) | _ \<Rightarrow> None)"

fun z_all :: "(json \<Rightarrow> 'a option) \<Rightarrow> json list \<Rightarrow> 'a list option" where
  "z_all p [] = Some []"
| "z_all p (v # vs) = do { x \<leftarrow> p v; xs \<leftarrow> z_all p vs; Some (x # xs) }"

definition z_array :: "(json \<Rightarrow> 'a option) \<Rightarrow> json \<Rightarrow> 'a list option" where
  "z_array p v = (case v of JArr vs \<Rightarrow> z_all p vs | _ \<Rightarrow> None)"

definition z_object :: "((string \<times> json) list \<Rightarrow> 'a option) \<Rightarrow> json \<Rightarrow> 'a option" where
  "z_object p v = (case v of JObj kvs \<Rightarrow> p kvs | _ \<Rightarrow> None)"

definition z_field :: "(string \<times> json) list \<Rightarrow> string \<Rightarrow> (json \<Rightarrow> 'a option) \<Rightarrow> 'a option" where
  "z_field kvs k p = (case map_of kvs k of None \<Rightarrow> None | Some v \<Rightarrow> p v)"

definition z_default :: "(string \<times> json) list \<Rightarrow> string \<Rightarrow> 'a \<Rightarrow> (json \<Rightarrow> 'a option) \<Rightarrow> 'a option" where
  "z_default kvs k d p = (case map_of kvs k of None \<Rightarrow> Some d | Some v \<Rightarrow> p v)"

definition z_optional :: "(string \<times> json) list \<Rightarrow> string \<Rightarrow> (json \<Rightarrow> 'a option) \<Rightarrow> 'a option option" where
  "z_optional kvs k p = (case map_of kvs k of None \<Rightarrow> Some None | Some v \<Rightarrow> map_option Some (p v))"

definition nonempty :: "string \<Rightarrow> bool" where
  "nonempty s \<longleftrightarrow> s \<noteq> []"

definition z_strings :: "json \<Rightarrow> string list option" where
  "z_strings = z_array (z_string nonempty)"

definition z_taskClass :: "json \<Rightarrow> task_class option" where
  "z_taskClass v = (case z_string nonempty v of
     Some s \<Rightarrow> List.find (\<lambda>t. task_class_name t = s) [Implementation, Test, Documentation, Analysis, Review] | None \<Rightarrow> None)"

definition z_boundary :: "json \<Rightarrow> boundary_request option" where
  "z_boundary = z_object (\<lambda>kvs. do {
     kind \<leftarrow> z_field kvs ''kind'' (z_string nonempty);
     if kind = ''host-worktree'' then Some HostWorktreeRequest
     else if kind = ''external-sandbox'' then map_option ExternalSandboxRequest (z_field kvs ''profileId'' (z_string is_safe_segment))
     else None })"

definition z_sourceCommand :: "json \<Rightarrow> source_command option" where
  "z_sourceCommand = z_object (\<lambda>kvs. do {
     profile \<leftarrow> z_field kvs ''profile'' (z_string is_safe_segment);
     args \<leftarrow> z_default kvs ''args'' [] (z_array (z_string (\<lambda>_. True)));
     cwd \<leftarrow> z_optional kvs ''cwd'' (z_string nonempty);
     timeoutMs \<leftarrow> z_optional kvs ''timeoutMs'' (z_int 1 86400000);
     Some \<lparr>so_profile = profile, so_args = args, so_cwd = cwd, so_timeoutMs = timeoutMs\<rparr> })"

definition z_atLeastOne :: "'a list \<Rightarrow> 'a list option" where
  "z_atLeastOne xs = (if xs = [] then None else Some xs)"

definition z_sourceScope :: "json \<Rightarrow> path_scope option" where
  "z_sourceScope = z_object (\<lambda>kvs. do {
     allowed \<leftarrow> z_field kvs ''allowedPaths'' (z_array (z_string relativePath_valid));
     allowed \<leftarrow> z_atLeastOne allowed;
     forbidden \<leftarrow> z_default kvs ''forbiddenPaths'' [] (z_array (z_string relativePath_valid));
     protected \<leftarrow> z_default kvs ''protectedPaths'' [] (z_array (z_string relativePath_valid));
     Some \<lparr>ps_allowedPaths = allowed, ps_forbiddenPaths = forbidden, ps_protectedPaths = protected\<rparr> })"

definition default_escalateWhen :: "string list" where
  "default_escalateWhen = [''Required work exceeds declared scope or conflicts with repository authority.'']"

definition parseSourceContract :: "json \<Rightarrow> source_contract option" where
  "parseSourceContract = z_object (\<lambda>kvs. do {
     i \<leftarrow> z_field kvs ''id'' (z_string is_safe_segment);
     objective \<leftarrow> z_field kvs ''objective'' (z_string nonempty);
     taskClass \<leftarrow> z_default kvs ''taskClass'' Implementation z_taskClass;
     adapterId \<leftarrow> z_field kvs ''adapterId'' (z_string nonempty);
     adapterOptions \<leftarrow> z_default kvs ''adapterOptions'' [] (z_object Some);
     scope \<leftarrow> z_field kvs ''scope'' z_sourceScope;
     contextRefs \<leftarrow> z_default kvs ''contextRefs'' [] z_strings;
     constraints \<leftarrow> z_default kvs ''constraints'' [] z_strings;
     escalateWhen \<leftarrow> z_default kvs ''escalateWhen'' default_escalateWhen z_strings;
     setup \<leftarrow> z_default kvs ''setup'' [] (z_array z_sourceCommand);
     acceptance \<leftarrow> z_field kvs ''acceptance'' (z_array z_sourceCommand);
     acceptance \<leftarrow> z_atLeastOne acceptance;
     timeoutMs \<leftarrow> z_default kvs ''timeoutMs'' 3600000 (z_int 1 86400000);
     retainWorkspace \<leftarrow> z_default kvs ''retainWorkspace'' True z_bool;
     boundary \<leftarrow> z_default kvs ''executionBoundary'' HostWorktreeRequest z_boundary;
     dependsOn \<leftarrow> z_default kvs ''dependsOn'' [] (z_array (z_string is_safe_segment));
     priority \<leftarrow> z_default kvs ''priority'' 0 (z_int (-100) 100);
     enabled \<leftarrow> z_default kvs ''enabled'' True z_bool;
     Some \<lparr>sn_id = i, sn_objective = objective, sn_taskClass = taskClass, sn_adapterId = adapterId,
       sn_adapterOptions = adapterOptions, sn_scope = scope, sn_contextRefs = contextRefs, sn_constraints = constraints,
       sn_escalateWhen = escalateWhen, sn_setup = setup, sn_acceptance = acceptance, sn_timeoutMs = timeoutMs,
       sn_retainWorkspace = retainWorkspace, sn_executionBoundary = boundary, sn_dependsOn = dependsOn,
       sn_priority = priority, sn_enabled = enabled\<rparr> })"

subsection \<open>The parsed contract as the object \<open>fingerprint\<close> prints\<close>

definition sourceCommand_json :: "source_command \<Rightarrow> json" where
  "sourceCommand_json c = JObj ([(''profile'', JStr (so_profile c)), (''args'', jstrs (so_args c))]
     @ opt_entry ''cwd'' (map_option JStr (so_cwd c)) @ opt_entry ''timeoutMs'' (map_option jint (so_timeoutMs c)))"

definition sourceContract_json :: "source_contract \<Rightarrow> json" where
  "sourceContract_json c = JObj [(''id'', JStr (sn_id c)), (''objective'', JStr (sn_objective c)),
     (''taskClass'', JStr (task_class_name (sn_taskClass c))), (''adapterId'', JStr (sn_adapterId c)),
     (''adapterOptions'', JObj (sn_adapterOptions c)),
     (''scope'', JObj [(''allowedPaths'', jstrs (ps_allowedPaths (sn_scope c))),
        (''forbiddenPaths'', jstrs (ps_forbiddenPaths (sn_scope c))), (''protectedPaths'', jstrs (ps_protectedPaths (sn_scope c)))]),
     (''contextRefs'', jstrs (sn_contextRefs c)), (''constraints'', jstrs (sn_constraints c)),
     (''escalateWhen'', jstrs (sn_escalateWhen c)), (''setup'', JArr (map sourceCommand_json (sn_setup c))),
     (''acceptance'', JArr (map sourceCommand_json (sn_acceptance c))), (''timeoutMs'', jint (sn_timeoutMs c)),
     (''retainWorkspace'', JBool (sn_retainWorkspace c)), (''executionBoundary'', boundaryRequest_json (sn_executionBoundary c)),
     (''dependsOn'', jstrs (sn_dependsOn c)), (''priority'', jint (sn_priority c)), (''enabled'', JBool (sn_enabled c))]"

subsection \<open>Extraction of the comment blocks (sources/compiler.ts)\<close>

definition START_MARKER :: string where
  "START_MARKER = ''@conductor-contract''"

definition END_MARKER :: string where
  "END_MARKER = ''@end-conductor-contract''"

definition line_break :: char where
  "line_break = CHR 0x0A"

text \<open>\<open>indexOf(pattern)\<close> and \<open>indexOf(pattern, from)\<close>.\<close>

fun index_of :: "string \<Rightarrow> string \<Rightarrow> nat option" where
  "index_of pat [] = (if pat = [] then Some 0 else None)"
| "index_of pat (c # cs) = (if prefix pat (c # cs) then Some 0 else map_option Suc (index_of pat cs))"

definition index_from :: "string \<Rightarrow> string \<Rightarrow> nat \<Rightarrow> nat option" where
  "index_from pat s from = map_option (\<lambda>i. from + i) (index_of pat (drop from s))"

text \<open>What stands on the line of a marker before it and after it.\<close>

definition line_before :: "string \<Rightarrow> nat \<Rightarrow> string" where
  "line_before s marker = rev (takeWhile (\<lambda>c. c \<noteq> line_break) (rev (take marker s)))"

definition line_after :: "string \<Rightarrow> nat \<Rightarrow> string" where
  "line_after s from = takeWhile (\<lambda>c. c \<noteq> line_break) (drop from s)"

definition repeats :: "char \<Rightarrow> nat \<Rightarrow> string \<Rightarrow> bool" where
  "repeats c n t \<longleftrightarrow> n \<le> length t \<and> list_all (\<lambda>d. d = c) t"

text \<open>The comment leads \<open>//+\<close>, \<open>#+\<close>, \<open>--+\<close> and \<open>*\<close>, and the opening \<open>/*+\<close>.\<close>

definition line_lead :: "string \<Rightarrow> bool" where
  "line_lead t \<longleftrightarrow> repeats (CHR ''/'') 2 t \<or> repeats (CHR ''#'') 1 t \<or> repeats (CHR ''-'') 2 t \<or> t = ''*''"

definition block_lead :: "string \<Rightarrow> bool" where
  "block_lead t = (case t of [] \<Rightarrow> False | c # cs \<Rightarrow> c = CHR ''/'' \<and> repeats (CHR ''*'') 1 cs)"

definition isCommentStartMarker :: "string \<Rightarrow> nat \<Rightarrow> bool" where
  "isCommentStartMarker s marker \<longleftrightarrow>
     (let before = trim (line_before s marker) in line_lead before \<or> block_lead before) \<and>
     trim (line_after s (marker + length START_MARKER)) = []"

definition is_end_marker :: "string \<Rightarrow> nat \<Rightarrow> bool" where
  "is_end_marker s marker \<longleftrightarrow>
     (let before = trim (line_before s marker) in before = [] \<or> line_lead before) \<and>
     trim (line_after s (marker + length END_MARKER)) \<in> set [[], ''*/'', ''-->'']"

lemma index_of_bound: "index_of pat s = Some i \<Longrightarrow> i + length pat \<le> length s"
  by (induction s arbitrary: i) (auto split: if_splits simp: prefix_length_le dest: prefix_length_le)

lemma index_from_bounds: "index_from pat s from = Some i \<Longrightarrow> pat \<noteq> [] \<Longrightarrow> from \<le> i \<and> i + length pat \<le> length s"
proof -
  assume a: "index_from pat s from = Some i" "pat \<noteq> []"
  then obtain k where k: "index_of pat (drop from s) = Some k" "i = from + k" by (auto simp: index_from_def)
  have "k + length pat \<le> length s - from" using index_of_bound [OF k(1)] by simp
  moreover have "0 < length pat" using a(2) by simp
  ultimately show ?thesis using k(2) by linarith
qed

function findCommentEndMarker :: "string \<Rightarrow> nat \<Rightarrow> nat option" where
  "findCommentEndMarker s from =
     (if length s \<le> from then None
      else case index_from END_MARKER s from of
        None \<Rightarrow> None
      | Some marker \<Rightarrow> if is_end_marker s marker then Some marker else findCommentEndMarker s (marker + length END_MARKER))"
  by pat_completeness auto
termination
  by (relation "measure (\<lambda>(s, from). length s - from)")
     (auto dest!: index_from_bounds simp: END_MARKER_def)

declare findCommentEndMarker.simps [simp del]

text \<open>\<open>split(/\r?\n/)\<close>: a carriage return goes with the line break that follows it.\<close>

definition drop_cr :: "string \<Rightarrow> string" where
  "drop_cr l = (if suffix [CHR 0x0D] l then butlast l else l)"

definition split_lines :: "string \<Rightarrow> string list" where
  "split_lines s = (let ls = split_on line_break s in map drop_cr (butlast ls) @ [last ls])"

text \<open>\<open>entry.replace(/^\s*(?:\/\/|#|--|\*)?\s?/, "")\<close>.\<close>

definition drop_lead :: "string \<Rightarrow> string" where
  "drop_lead a =
     (if prefix ''//'' a then drop 2 a
      else if prefix ''#'' a then drop 1 a
      else if prefix ''--'' a then drop 2 a
      else if prefix ''*'' a then drop 1 a else a)"

definition strip_comment :: "string \<Rightarrow> string" where
  "strip_comment l =
     (let b = drop_lead (dropWhile is_space l) in case b of [] \<Rightarrow> [] | c # cs \<Rightarrow> if is_space c then cs else b)"

definition comment_text :: "string \<Rightarrow> string" where
  "comment_text body = trim (join [line_break] (map strip_comment (split_lines body)))"

function extractContracts :: "(string \<Rightarrow> err + json) \<Rightarrow> string \<Rightarrow> string \<Rightarrow> nat \<Rightarrow> err + (nat \<times> json) list" where
  "extractContracts parse s file cursor =
     (if length s \<le> cursor then Inr []
      else case index_from START_MARKER s cursor of
        None \<Rightarrow> Inr []
      | Some start \<Rightarrow>
          if \<not> isCommentStartMarker s start then extractContracts parse s file (start + length START_MARKER)
          else
            let bodyStart = start + length START_MARKER;
              line = length (split_lines (take start s));
              location = file @ '':'' @ show_nat line
            in
            case findCommentEndMarker s bodyStart of
              None \<Rightarrow> Inl (Error (location @ '' has no '' @ END_MARKER))
            | Some finish \<Rightarrow>
                (case parse (comment_text (drop bodyStart (take finish s))) of
                   Inl e \<Rightarrow> Inl (Error (location @ '' contains invalid Conductor JSON: '' @ errorMessage e))
                 | Inr value \<Rightarrow>
                     bindE (extractContracts parse s file (finish + length END_MARKER)) (\<lambda>rest. Inr ((line, value) # rest))))"
  by pat_completeness auto

lemma findCommentEndMarker_bounds:
  "findCommentEndMarker s from = Some i \<Longrightarrow> from \<le> i \<and> i + length END_MARKER \<le> length s \<and> is_end_marker s i"
proof (induction s "from" rule: findCommentEndMarker.induct)
  case (1 s "from")
  have "END_MARKER \<noteq> []" by (simp add: END_MARKER_def)
  then show ?case using 1
    by (subst (asm) findCommentEndMarker.simps) (fastforce split: if_splits option.splits dest: index_from_bounds)
qed

termination extractContracts
  by (relation "measure (\<lambda>(parse, s, file, cursor). length s - cursor)")
     (auto dest!: index_from_bounds findCommentEndMarker_bounds simp: START_MARKER_def)

declare extractContracts.simps [simp del]

end
