(* ===== verification/Sources.thy ===== *)
theory Sources
  imports Source_Contracts Workspaces
begin

text \<open>
  Compilation of the contracts of a repository into a batch, and its submission to the queue
  (\<open>src/src/sources/compiler.ts\<close>, \<open>command-profiles.ts\<close> and \<open>service.ts\<close>).

  \<open>sw_inspect\<close> is the repository inspection, \<open>sw_git\<close> the bounded git command (directory, arguments, output
  limit), \<open>sw_parse\<close> is \<open>JSON.parse\<close>. The manifests of earlier runs are part of the state; other
  processes may act on the dispatcher's state before every submission (\<open>sw_others\<close>).
\<close>

subsection \<open>Command profiles (sources/command-profiles.ts)\<close>

fun foldE :: "('s \<Rightarrow> 'a \<Rightarrow> err + 's) \<Rightarrow> 'a list \<Rightarrow> 's \<Rightarrow> err + 's" where
  "foldE f [] s = Inr s"
| "foldE f (x # xs) s = bindE (f s x) (foldE f xs)"

definition resolve_command :: "(string \<times> command_profile) list \<Rightarrow> source_command \<Rightarrow> err + command_spec" where
  "resolve_command profiles c =
     (case map_of profiles (so_profile c) of
        None \<Rightarrow> Inl (Error (''Unknown command profile: '' @ so_profile c))
      | Some p \<Rightarrow> Inr \<lparr>cs_executable = cq_executable p, cs_args = cq_argsPrefix p @ so_args c, cs_cwd = so_cwd c,
          cs_inheritEnv = cq_inheritEnv p, cs_timeoutMs = so_timeoutMs c\<rparr>)"

definition resolve_commands :: "(string \<times> command_profile) list \<Rightarrow> source_command list \<Rightarrow> err + command_spec list" where
  "resolve_commands profiles = read_all (resolve_command profiles)"

definition executablePaths :: "(string \<times> command_profile) list \<Rightarrow> string list" where
  "executablePaths profiles = js_unique (filter posix_isAbsolute (map (\<lambda>(_, p). cq_executable p) profiles))"

definition environmentNames :: "(string \<times> command_profile) list \<Rightarrow> string list" where
  "environmentNames profiles = js_unique (concat (map (\<lambda>(_, p). cq_inheritEnv p) profiles))"

subsection \<open>The graph of dependencies\<close>

definition dependencies :: "compiled_contract \<Rightarrow> string list" where
  "dependencies c = sn_dependsOn (cc_contract c)"

definition duplicate_message :: "compiled_contract \<Rightarrow> compiled_contract \<Rightarrow> string" where
  "duplicate_message existing c = ''Duplicate contract id '' @ cc_id c @ '' at '' @ cc_path existing @ '':'' @ show_nat (cc_line existing)
     @ '' and '' @ cc_path c @ '':'' @ show_nat (cc_line c)"

fun collect_ids :: "compiled_contract list \<Rightarrow> (string \<times> compiled_contract) list \<Rightarrow> err + (string \<times> compiled_contract) list" where
  "collect_ids [] byId = Inr byId"
| "collect_ids (c # cs) byId =
     (case map_of byId (cc_id c) of
        Some existing \<Rightarrow> Inl (Error (duplicate_message existing c))
      | None \<Rightarrow> collect_ids cs (byId @ [(cc_id c, c)]))"

definition check_dependencies :: "(string \<times> compiled_contract) list \<Rightarrow> compiled_contract \<Rightarrow> err + unit" where
  "check_dependencies byId c =
     (case List.find (\<lambda>d. map_of byId d = None) (dependencies c) of
        Some d \<Rightarrow> Inl (Error (''Contract '' @ cc_id c @ '' depends on missing '' @ d))
      | None \<Rightarrow> Inr ())"

definition undefined_contract :: err where
  "undefined_contract = Error ''undefined is not an object''"

text \<open>
  The depth first search: \<open>visiting\<close> holds the identifiers on the path from the start, \<open>visited\<close> those
  that are finished. A path cannot be longer than the number of known identifiers.
\<close>

function (sequential) graph_visit :: "(string \<times> compiled_contract) list \<Rightarrow> string list \<Rightarrow> string \<Rightarrow> string list \<Rightarrow> err + string list"
  and graph_visit_all :: "(string \<times> compiled_contract) list \<Rightarrow> string list \<Rightarrow> string list \<Rightarrow> string list \<Rightarrow> err + string list" where
  "graph_visit byId visiting i visited =
     (if i \<in> set visited then Inr visited
      else if i \<in> set visiting then Inl (Error (''Contract dependency cycle includes '' @ i))
      else case map_of byId i of
        None \<Rightarrow> Inl undefined_contract
      | Some c \<Rightarrow> bindE (graph_visit_all byId (i # visiting) (dependencies c) visited) (\<lambda>v. Inr (v @ [i])))"
| "graph_visit_all byId visiting [] visited = Inr visited"
| "graph_visit_all byId visiting (d # ds) visited =
     bindE (graph_visit byId visiting d visited) (\<lambda>v. graph_visit_all byId visiting ds v)"
  by pat_completeness auto

lemma unvisited_decreases:
  assumes "i \<notin> set visiting" "map_of byId i = Some c"
  shows "card (fst ` set byId - set (i # visiting)) < card (fst ` set byId - set visiting)"
proof (rule psubset_card_mono)
  have "i \<in> fst ` set byId" using assms(2) by (force dest: map_of_SomeD)
  then show "fst ` set byId - set (i # visiting) \<subset> fst ` set byId - set visiting" using assms(1) by auto
qed simp

termination graph_visit
  by (relation "measures [\<lambda>x. case x of Inl (byId, visiting, i, v) \<Rightarrow> card (fst ` set byId - set visiting)
        | Inr (byId, visiting, ds, v) \<Rightarrow> card (fst ` set byId - set visiting),
      \<lambda>x. case x of Inl (byId, visiting, i, v) \<Rightarrow> 0 | Inr (byId, visiting, ds, v) \<Rightarrow> Suc (length ds)]")
     (auto dest: unvisited_decreases)

declare graph_visit.simps [simp del]

definition validateGraph :: "compiled_contract list \<Rightarrow> err + unit" where
  "validateGraph contracts =
     bindE (collect_ids contracts []) (\<lambda>byId.
     bindE (read_all (check_dependencies byId) contracts) (\<lambda>_.
     bindE (graph_visit_all byId [] (map fst byId) []) (\<lambda>_. Inr ())))"

definition byId_last :: "compiled_contract list \<Rightarrow> string \<Rightarrow> compiled_contract option" where
  "byId_last contracts i = List.find (\<lambda>c. cc_id c = i) (rev contracts)"

definition selectContracts :: "compiled_contract list \<Rightarrow> string list \<Rightarrow> err + compiled_contract list" where
  "selectContracts contracts ids =
     (let missing = filter (\<lambda>i. byId_last contracts i = None) ids in
      if missing \<noteq> [] then Inl (Error (''Requested source contracts were not found: '' @ join '', '' missing))
      else Inr (map (\<lambda>i. the (byId_last contracts i)) ids))"

subsection \<open>Compilation\<close>

record source_world =
  sw_inspect :: "string \<Rightarrow> string \<Rightarrow> err + string \<times> string"
  sw_git :: "string \<Rightarrow> string list \<Rightarrow> nat \<Rightarrow> err + string"
  sw_parse :: "string \<Rightarrow> err + json"
  sw_sha256 :: "string \<Rightarrow> string"
  sw_lc :: "string comparator"
  sw_profiles :: "(string \<times> command_profile) list"
  sw_others :: "string \<Rightarrow> dispatcher_state \<Rightarrow> dispatcher_state"
  sw_bytes :: "job_request \<Rightarrow> queue_options \<Rightarrow> nat"

datatype capture = Captured string | Output_Limit | Capture_Failed err

definition capture_git :: "source_world \<Rightarrow> string \<Rightarrow> string list \<Rightarrow> nat \<Rightarrow> capture" where
  "capture_git w cwd args maxBytes =
     (case sw_git w cwd args maxBytes of
        Inr text \<Rightarrow> Captured text
      | Inl e \<Rightarrow> if sublist ''output exceeded'' (errorMessage e) then Output_Limit else Capture_Failed e)"

definition posix_extname :: "string \<Rightarrow> string" where
  "posix_extname p =
     (let b = last (split_on (CHR ''/'') p); ext = takeWhile (\<lambda>c. c \<noteq> CHR ''.'') (rev b) in
      if b = ''..'' \<or> length b \<le> length ext + 1 then [] else CHR ''.'' # rev ext)"

definition compile_block ::
  "source_world \<Rightarrow> scan_request \<Rightarrow> string \<Rightarrow> string \<Rightarrow> string \<Rightarrow> nat \<times> json \<Rightarrow> err + compiled_contract option" where
  "compile_block w request rootDir revision file block =
     (case parseSourceContract (snd block) of
        None \<Rightarrow> Inl ZodError
      | Some contract \<Rightarrow>
          if \<not> sn_enabled contract then Inr None
          else if sn_adapterId contract \<notin> set (sq_allowedAdapterIds request)
          then Inl (Error (file @ '':'' @ show_nat (fst block) @ '' requests adapter '' @ sn_adapterId contract
                 @ '', which is not allowed by scan policy''))
          else
            let compiled = \<lparr>cc_id = sn_id contract,
                cc_fingerprint = fingerprint (sw_sha256 w) (sw_lc w) (JObj [(''repositoryRoot'', JStr rootDir), (''revision'', JStr revision),
                  (''sourcePath'', JStr file), (''contract'', sourceContract_json contract)]),
                cc_repositoryRoot = rootDir, cc_revision = revision, cc_path = file, cc_line = fst block, cc_contract = contract\<rparr>
            in if compiledContract_valid compiled then Inr (Some compiled) else Inl ZodError)"

definition somes :: "'a option list \<Rightarrow> 'a list" where
  "somes xs = List.map_filter id xs"

definition compile_file ::
  "source_world \<Rightarrow> scan_request \<Rightarrow> string \<Rightarrow> string \<Rightarrow> string \<Rightarrow> err + compiled_contract list" where
  "compile_file w request rootDir revision file =
     (case capture_git w rootDir [''show'', revision @ '':'' @ file] (sq_maxFileBytes request) of
        Output_Limit \<Rightarrow> Inr []
      | Capture_Failed e \<Rightarrow> Inl e
      | Captured source \<Rightarrow>
          bindE (extractContracts (sw_parse w) source file 0) (\<lambda>blocks.
          bindE (read_all (compile_block w request rootDir revision file) blocks) (\<lambda>cs. Inr (somes cs))))"

record compiled_batch =
  cb_repositoryRoot :: string
  cb_revision :: string
  cb_contracts :: "compiled_contract list"

definition listed_files :: "scan_request \<Rightarrow> string \<Rightarrow> string list" where
  "listed_files request listed =
     (let extensions = map (map lower_char) (sq_includeExtensions request) in
      filter (\<lambda>f. map lower_char (posix_extname f) \<in> set extensions) (filter (\<lambda>f. f \<noteq> []) (split_on (CHR 0x00) listed)))"

definition compile_sources :: "source_world \<Rightarrow> scan_request \<Rightarrow> err + compiled_batch" where
  "compile_sources w request =
     (if \<not> scanRequest_valid request then Inl ZodError
      else
        bindE (sw_inspect w (sq_repositoryPath request) (sq_baseRef request)) (\<lambda>(rootDir, revision).
        bindE (case capture_git w rootDir [''ls-tree'', ''-r'', ''--name-only'', ''-z'', revision] 8000000 of
                 Captured listed \<Rightarrow> Inr listed
               | Output_Limit \<Rightarrow> Inl (Error ''Git output exceeded 8000000 bytes'')
               | Capture_Failed e \<Rightarrow> Inl e) (\<lambda>listed.
        bindE (read_all (compile_file w request rootDir revision) (listed_files request listed)) (\<lambda>css.
        let contracts = concat css in
        bindE (validateGraph contracts) (\<lambda>_.
        bindE (case sq_contractIds request of None \<Rightarrow> Inr contracts | Some ids \<Rightarrow> selectContracts contracts ids) (\<lambda>selected.
        bindE (validateGraph selected) (\<lambda>_.
        Inr \<lparr>cb_repositoryRoot = rootDir, cb_revision = revision,
          cb_contracts = Sorting_Algorithms.sort (key cc_id (sw_lc w)) selected\<rparr>)))))))"

definition toJobRequest :: "source_world \<Rightarrow> compiled_contract \<Rightarrow> err + job_request" where
  "toJobRequest w compiled =
     (let c = cc_contract compiled in
      bindE (resolve_commands (sw_profiles w) (sn_setup c)) (\<lambda>setup.
      bindE (resolve_commands (sw_profiles w) (sn_acceptance c)) (\<lambda>acceptance.
      Inr \<lparr>jr_objective = sn_objective c, jr_taskClass = sn_taskClass c, jr_repositoryPath = cc_repositoryRoot compiled,
        jr_baseRef = cc_revision compiled, jr_adapterId = sn_adapterId c, jr_adapterOptions = sn_adapterOptions c,
        jr_scope = sn_scope c, jr_contextRefs = js_unique (cc_path compiled # sn_contextRefs c), jr_constraints = sn_constraints c,
        jr_escalateWhen = sn_escalateWhen c, jr_setupCommands = setup, jr_acceptanceCommands = acceptance,
        jr_timeoutMs = sn_timeoutMs c, jr_retainWorkspace = sn_retainWorkspace c, jr_executionBoundary = sn_executionBoundary c,
        jr_idempotencyKey = Some (''source_'' @ cc_fingerprint compiled)\<rparr>)))"

subsection \<open>Submission (sources/service.ts)\<close>

text \<open>
  \<open>topologicalOrder\<close> recurses without remembering its path, so a cycle would exhaust the stack: the first
  argument is the depth that is left. The contracts already put in order are the visited ones.
\<close>

primrec topo_visit :: "nat \<Rightarrow> compiled_contract list \<Rightarrow> compiled_contract list \<Rightarrow> compiled_contract \<Rightarrow> err + compiled_contract list" where
  "topo_visit 0 contracts ordered c = Inl (Error ''Maximum call stack size exceeded.'')"
| "topo_visit (Suc depth) contracts ordered c =
     (if cc_id c \<in> cc_id ` set ordered then Inr ordered
      else bindE (foldE (\<lambda>acc d. case byId_last contracts d of None \<Rightarrow> Inl undefined_contract | Some x \<Rightarrow> topo_visit depth contracts acc x)
              (dependencies c) ordered)
           (\<lambda>acc. Inr (acc @ [c])))"

definition topologicalOrder :: "nat \<Rightarrow> compiled_contract list \<Rightarrow> err + compiled_contract list" where
  "topologicalOrder depth contracts = foldE (topo_visit depth contracts) contracts []"

record enqueue_record =
  er_contractId :: string
  er_jobId :: string
  er_queueStatus :: queue_status
  er_idempotentReplay :: bool
  er_dependsOnJobIds :: "string list"

record source_run =
  sr_schema :: string
  sr_runId :: string
  sr_createdAt :: timestamp
  sr_repositoryRoot :: string
  sr_revision :: string
  sr_contracts :: "(string \<times> string \<times> string \<times> nat) list"
  sr_enqueued :: "enqueue_record list"

text \<open>
  The file of a run, and that of a watch: absent, or what reading and parsing it gives. A watch directory
  that holds no readable watch is an entry with an error.
\<close>

record sources_state =
  ss_dispatcher :: dispatcher_state
  ss_runs :: "(string \<times> (err + source_run)) list"
  ss_watches :: "(string \<times> (err + source_watch)) list"

definition source_run_schema :: string where
  "source_run_schema = ''conductor.source-run/v1''"

definition run_id_of :: "source_world \<Rightarrow> compiled_batch \<Rightarrow> string" where
  "run_id_of w batch = ''source_'' @ take 20 (fingerprint (sw_sha256 w) (sw_lc w)
     (JObj [(''repositoryRoot'', JStr (cb_repositoryRoot batch)), (''revision'', JStr (cb_revision batch)),
       (''contracts'', jstrs (map cc_fingerprint (cb_contracts batch)))]))"

definition manifest_path :: "string \<Rightarrow> sources_state \<Rightarrow> string" where
  "manifest_path runId s =
     path_join (path_join (path_join (as_root (cd_store (ds_cond (ss_dispatcher s)))) ''source-runs'') runId) ''manifest.json''"

definition readExistingManifest :: "string \<Rightarrow> sources_state \<Rightarrow> err + source_run option" where
  "readExistingManifest runId s =
     (case map_of (ss_runs s) runId of
        None \<Rightarrow> Inr None
      | Some (Inl e) \<Rightarrow> Inl e
      | Some (Inr run) \<Rightarrow>
          if sr_schema run \<noteq> source_run_schema \<or> sr_runId run \<noteq> runId
          then Inl (Error (''Invalid existing source-run manifest: '' @ manifest_path runId s)) else Inr (Some run))"

fun job_of :: "enqueue_record list \<Rightarrow> string \<Rightarrow> string option" where
  "job_of records i = map_option er_jobId (List.find (\<lambda>r. er_contractId r = i) (rev records))"

definition dependency_jobs :: "enqueue_record list \<Rightarrow> compiled_contract \<Rightarrow> err + string list" where
  "dependency_jobs records c =
     read_all (\<lambda>d. case job_of records d of
         Some j \<Rightarrow> if j = [] then Inl (Error (''Dependency '' @ d @ '' for '' @ cc_id c @ '' was not compiled first'')) else Inr j
       | None \<Rightarrow> Inl (Error (''Dependency '' @ d @ '' for '' @ cc_id c @ '' was not compiled first''))) (dependencies c)"

definition on_dispatcher :: "(dispatcher_state, 'a) act \<Rightarrow> (sources_state, 'a) act" where
  "on_dispatcher m s = (case m (ss_dispatcher s) of (r, d) \<Rightarrow> (r, s\<lparr>ss_dispatcher := d\<rparr>))"

definition submit_contract ::
  "source_world \<Rightarrow> dispatcher_env \<Rightarrow> enqueue_record list \<Rightarrow> compiled_contract \<Rightarrow> (sources_state, enqueue_record list) act" where
  "submit_contract w env records c =
     bindA (liftE (dependency_jobs records c)) (\<lambda>dependsOnJobIds.
     bindA (liftE (toJobRequest w c)) (\<lambda>request.
     bindA (\<lambda>s. (Inr (), s\<lparr>ss_dispatcher := sw_others w (cc_id c) (ss_dispatcher s)\<rparr>)) (\<lambda>_.
     let options = \<lparr>qo_priority = sn_priority (cc_contract c), qo_dependsOnJobIds = dependsOnJobIds\<rparr> in
     bindA (on_dispatcher (dispatcher_enqueue env (sw_bytes w request options) request options)) (\<lambda>(item, replay).
     ret (records @ [\<lparr>er_contractId = cc_id c, er_jobId = qi_jobId item, er_queueStatus = qi_status item,
       er_idempotentReplay = replay, er_dependsOnJobIds = dependsOnJobIds\<rparr>])))))"

fun submit_all ::
  "source_world \<Rightarrow> dispatcher_env \<Rightarrow> compiled_contract list \<Rightarrow> enqueue_record list \<Rightarrow> (sources_state, enqueue_record list) act" where
  "submit_all w env [] records = ret records"
| "submit_all w env (c # cs) records = bindA (submit_contract w env records c) (submit_all w env cs)"

definition run_manifest ::
  "source_world \<Rightarrow> dispatcher_env \<Rightarrow> compiled_batch \<Rightarrow> enqueue_record list \<Rightarrow> source_run" where
  "run_manifest w env batch enqueued = \<lparr>sr_schema = source_run_schema, sr_runId = run_id_of w batch, sr_createdAt = dnow env,
     sr_repositoryRoot = cb_repositoryRoot batch, sr_revision = cb_revision batch,
     sr_contracts = map (\<lambda>c. (cc_id c, cc_fingerprint c, cc_path c, cc_line c)) (cb_contracts batch), sr_enqueued = enqueued\<rparr>"

definition write_run :: "source_run \<Rightarrow> (sources_state, unit) act" where
  "write_run run s = (Inr (), s\<lparr>ss_runs := AList.update (sr_runId run) (Inr run) (ss_runs s)\<rparr>)"

definition compileAndEnqueue :: "source_world \<Rightarrow> dispatcher_env \<Rightarrow> nat \<Rightarrow> scan_request \<Rightarrow> (sources_state, source_run) act" where
  "compileAndEnqueue w env depth request =
     bindA (liftE (compile_sources w request)) (\<lambda>batch.
     bindA (readsA (readExistingManifest (run_id_of w batch))) (\<lambda>existing.
     case existing of
       Some run \<Rightarrow> ret run
     | None \<Rightarrow>
         bindA (liftE (topologicalOrder depth (cb_contracts batch))) (\<lambda>ordered.
         bindA (submit_all w env ordered []) (\<lambda>enqueued.
         let run = run_manifest w env batch enqueued in
         bindA (write_run run) (\<lambda>_. ret run)))))"

end
