(* ===== verification/Source_Graph.thy ===== *)
theory Source_Graph
  imports Sources
begin

text \<open>
  The two searches over the dependencies of contracts: \<open>validateGraph\<close> accepts exactly the graphs without
  duplicates, missing contracts and cycles, and on such a graph \<open>topologicalOrder\<close> returns, with every
  contract once and after everything it depends on.
\<close>

declare guardA_apply [simp del] liftE_apply [simp del]

subsection \<open>The declarative reading\<close>

definition dep_edges :: "compiled_contract list \<Rightarrow> (string \<times> string) set" where
  "dep_edges cs = {(i, d). \<exists>c \<in> set cs. i = cc_id c \<and> d \<in> set (dependencies c)}"

definition graph_ok :: "compiled_contract list \<Rightarrow> bool" where
  "graph_ok cs \<longleftrightarrow> distinct (map cc_id cs) \<and> (\<forall>c \<in> set cs. set (dependencies c) \<subseteq> cc_id ` set cs) \<and> acyclic (dep_edges cs)"

text \<open>Every contract comes after everything it depends on.\<close>

fun deps_first :: "compiled_contract list \<Rightarrow> compiled_contract list \<Rightarrow> bool" where
  "deps_first before [] = True"
| "deps_first before (c # cs) \<longleftrightarrow> set (dependencies c) \<subseteq> cc_id ` set before \<and> deps_first (before @ [c]) cs"

lemma deps_first_snoc: "deps_first before (cs @ [c]) \<longleftrightarrow> deps_first before cs \<and> set (dependencies c) \<subseteq> cc_id ` set (before @ cs)"
  by (induction cs arbitrary: before) auto

subsection \<open>Collecting the identifiers\<close>

definition keyed :: "compiled_contract list \<Rightarrow> (string \<times> compiled_contract) list" where
  "keyed cs = map (\<lambda>c. (cc_id c, c)) cs"

lemma keyed_fst [simp]: "map fst (keyed cs) = map cc_id cs" "fst ` set (keyed cs) = cc_id ` set cs"
  by (simp_all add: keyed_def image_image)

lemma keyed_None: "map_of (keyed cs) i = None \<longleftrightarrow> i \<notin> cc_id ` set cs"
  by (simp add: map_of_eq_None_iff)

lemma keyed_Some: "map_of (keyed cs) i = Some c \<Longrightarrow> c \<in> set cs \<and> cc_id c = i"
  by (auto simp: keyed_def dest!: map_of_SomeD)

lemma keyed_lookup: "distinct (map cc_id cs) \<Longrightarrow> c \<in> set cs \<Longrightarrow> map_of (keyed cs) (cc_id c) = Some c"
  by (simp add: keyed_def comp_def)

lemma collect_ids_keyed:
  "distinct (map cc_id before) \<Longrightarrow>
   collect_ids cs (keyed before) = Inr byId \<longleftrightarrow> distinct (map cc_id (before @ cs)) \<and> byId = keyed (before @ cs)"
proof (induction cs arbitrary: before)
  case Nil
  then show ?case by auto
next
  case (Cons c cs)
  show ?case
  proof (cases "cc_id c \<in> cc_id ` set before")
    case True
    then obtain x where "map_of (keyed before) (cc_id c) = Some x" using keyed_None by (metis not_None_eq)
    then show ?thesis using True by auto
  next
    case False
    then have n: "map_of (keyed before) (cc_id c) = None" by (simp add: keyed_None)
    have k: "keyed before @ [(cc_id c, c)] = keyed (before @ [c])" by (simp add: keyed_def)
    have d: "distinct (map cc_id (before @ [c]))" using Cons.prems False by simp
    have "collect_ids (c # cs) (keyed before) = collect_ids cs (keyed (before @ [c]))" using n k by simp
    then show ?thesis using Cons.IH [OF d] by simp
  qed
qed

lemma collect_ids_iff: "collect_ids cs [] = Inr byId \<longleftrightarrow> distinct (map cc_id cs) \<and> byId = keyed cs"
  using collect_ids_keyed [of "[]" cs] by (simp add: keyed_def)

lemma read_all_unit: "(\<exists>us. read_all f xs = Inr us) \<longleftrightarrow> (\<forall>x \<in> set xs. \<exists>u. f x = Inr u)"
  by (induction xs) (auto split: sum.splits)

lemma check_dependencies_iff: "check_dependencies (keyed cs) c = Inr u \<longleftrightarrow> set (dependencies c) \<subseteq> cc_id ` set cs"
proof (cases "List.find (\<lambda>d. map_of (keyed cs) d = None) (dependencies c)")
  case None
  then have "\<forall>d \<in> set (dependencies c). d \<in> cc_id ` set cs" by (auto simp: find_None_iff keyed_None)
  then show ?thesis using None by (auto simp: check_dependencies_def)
next
  case (Some d)
  then have "d \<in> set (dependencies c)" "d \<notin> cc_id ` set cs" by (auto simp: find_Some_iff keyed_None)
  then show ?thesis using Some by (auto simp: check_dependencies_def)
qed

lemma takeWhile_first: "x \<notin> set xs \<Longrightarrow> takeWhile (\<lambda>y. y \<noteq> x) (xs @ x # ys) = xs"
  by (induction xs) auto

subsection \<open>The search finds every cycle\<close>

text \<open>A list of identifiers in which each comes after its dependencies.\<close>

fun finished :: "(string \<times> compiled_contract) list \<Rightarrow> string list \<Rightarrow> string list \<Rightarrow> bool" where
  "finished byId before [] = True"
| "finished byId before (i # is) \<longleftrightarrow>
     (case map_of byId i of None \<Rightarrow> False | Some c \<Rightarrow> set (dependencies c) \<subseteq> set before) \<and> finished byId (before @ [i]) is"

lemma finished_append: "finished byId before (xs @ ys) \<longleftrightarrow> finished byId before xs \<and> finished byId (before @ xs) ys"
  by (induction xs arbitrary: before) auto

lemma graph_visit_sound:
  "graph_visit byId visiting i visited = Inr v \<Longrightarrow> finished byId [] visited \<Longrightarrow> finished byId [] v \<and> set visited \<subseteq> set v \<and> i \<in> set v"
  "graph_visit_all byId visiting ds visited = Inr v \<Longrightarrow> finished byId [] visited \<Longrightarrow>
     finished byId [] v \<and> set visited \<subseteq> set v \<and> set ds \<subseteq> set v"
proof (induction byId visiting i visited and byId visiting ds visited arbitrary: v and v rule: graph_visit_graph_visit_all.induct)
  case (1 byId visiting i visited)
  show ?case
  proof (cases "i \<in> set visited")
    case True
    then show ?thesis using 1(2,3) by (simp add: graph_visit.simps)
  next
    case False
    then obtain c u where c: "i \<notin> set visiting" "map_of byId i = Some c"
        "graph_visit_all byId (i # visiting) (dependencies c) visited = Inr u" "v = u @ [i]"
      using 1(2) by (subst (asm) graph_visit.simps) (auto simp: bindE_eq_Inr split: if_splits option.splits)
    then have "finished byId [] u \<and> set visited \<subseteq> set u \<and> set (dependencies c) \<subseteq> set u" using 1(1) [OF False] 1(3) by blast
    then show ?thesis using c by (auto simp: finished_append)
  qed
next
  case (3 byId visiting d ds visited)
  then show ?case by (fastforce simp: bindE_eq_Inr)
qed simp

lemma finished_acyclic:
  assumes f: "finished (keyed cs) [] v" and all: "cc_id ` set cs \<subseteq> set v" and d: "distinct (map cc_id cs)"
  shows "acyclic (dep_edges cs)"
proof -
  let ?rank = "\<lambda>i. length (takeWhile (\<lambda>x. x \<noteq> i) v)"
  have less: "?rank d < ?rank i" if e: "(i, d) \<in> dep_edges cs" for i d
  proof -
    obtain c where c: "c \<in> set cs" "i = cc_id c" "d \<in> set (dependencies c)" using e by (auto simp: dep_edges_def)
    then have "i \<in> set v" using all by auto
    then obtain xs ys where v: "v = xs @ i # ys" "i \<notin> set xs" by (meson split_list_first)
    have m: "map_of (keyed cs) i = Some c" using keyed_lookup [OF d c(1)] c(2) by simp
    have "d \<in> set xs" using f v m c(3) by (auto simp: finished_append)
    moreover from this obtain as bs where xs: "xs = as @ d # bs" "d \<notin> set as" by (meson split_list_first)
    moreover have "takeWhile (\<lambda>x. x \<noteq> i) v = xs" using v takeWhile_first by metis
    moreover have "takeWhile (\<lambda>x. x \<noteq> d) v = as" using v xs takeWhile_first [of d as "bs @ i # ys"] by simp
    ultimately show ?thesis by simp
  qed
  have "dep_edges cs \<subseteq> (measure ?rank)\<inverse>" using less by auto
  moreover have "acyclic ((measure ?rank)\<inverse>)" by (simp add: wf_acyclic acyclic_converse)
  ultimately show ?thesis by (rule acyclic_subset [rotated])
qed

lemma graph_visit_complete:
  "byId = keyed cs \<Longrightarrow> graph_ok cs \<Longrightarrow> i \<in> cc_id ` set cs \<Longrightarrow> (\<forall>x \<in> set visiting. (x, i) \<in> (dep_edges cs)\<^sup>+) \<Longrightarrow>
     \<exists>v. graph_visit byId visiting i visited = Inr v"
  "byId = keyed cs \<Longrightarrow> graph_ok cs \<Longrightarrow> set ds \<subseteq> cc_id ` set cs \<Longrightarrow> (\<forall>x \<in> set visiting. \<forall>d \<in> set ds. (x, d) \<in> (dep_edges cs)\<^sup>+) \<Longrightarrow>
     \<exists>v. graph_visit_all byId visiting ds visited = Inr v"
proof (induction byId visiting i visited and byId visiting ds visited rule: graph_visit_graph_visit_all.induct)
  case (1 byId visiting i visited)
  obtain c where c: "c \<in> set cs" "cc_id c = i" using 1(4) by auto
  have m: "map_of byId i = Some c" using keyed_lookup c 1(2,3) by (auto simp: graph_ok_def)
  have nv: "i \<notin> set visiting" using 1(3,5) by (auto simp: graph_ok_def acyclic_def)
  have e: "(i, d) \<in> dep_edges cs" if "d \<in> set (dependencies c)" for d using c that by (auto simp: dep_edges_def)
  have deps: "set (dependencies c) \<subseteq> cc_id ` set cs" using c 1(3) by (auto simp: graph_ok_def)
  have reach: "\<forall>x \<in> set (i # visiting). \<forall>d \<in> set (dependencies c). (x, d) \<in> (dep_edges cs)\<^sup>+"
    using e 1(5) by (auto intro: trancl_into_trancl)
  show ?case
  proof (cases "i \<in> set visited")
    case True
    then show ?thesis by (simp add: graph_visit.simps)
  next
    case False
    then show ?thesis using 1(1) [OF False nv m 1(2,3) deps reach] nv m by (auto simp: graph_visit.simps)
  qed
next
  case (3 byId visiting d ds visited)
  then obtain v where "graph_visit byId visiting d visited = Inr v" by auto
  then show ?case using 3 by auto
qed simp

lemma accepted_graph_ok:
  assumes d: "distinct (map cc_id cs)" and us: "read_all (check_dependencies (keyed cs)) cs = Inr us"
    and vis: "graph_visit_all (keyed cs) [] (map fst (keyed cs)) [] = Inr vis"
  shows "graph_ok cs"
proof -
  have "\<forall>c \<in> set cs. set (dependencies c) \<subseteq> cc_id ` set cs"
    using us read_all_unit [of "check_dependencies (keyed cs)" cs] check_dependencies_iff by blast
  moreover have "acyclic (dep_edges cs)"
    using graph_visit_sound(2) [OF vis] finished_acyclic [OF _ _ d] by auto
  ultimately show ?thesis using d by (simp add: graph_ok_def)
qed

lemma validateGraph_ok: "validateGraph cs = Inr () \<Longrightarrow> graph_ok cs"
  using accepted_graph_ok by (auto simp: validateGraph_def bindE_eq_Inr collect_ids_iff)

text \<open>
  C21. The compiler accepts a set of contracts exactly when no identifier occurs twice, everything a contract
  depends on is there, and no contract depends on itself through any chain of dependencies.
\<close>

theorem graph_accepted_iff: "validateGraph cs = Inr () \<longleftrightarrow> graph_ok cs"
proof
  show "validateGraph cs = Inr () \<Longrightarrow> graph_ok cs" by (rule validateGraph_ok)
next
  assume ok: "graph_ok cs"
  then have d: "distinct (map cc_id cs)" and deps: "\<forall>c \<in> set cs. set (dependencies c) \<subseteq> cc_id ` set cs"
    by (simp_all add: graph_ok_def)
  obtain us where us: "read_all (check_dependencies (keyed cs)) cs = Inr us"
    using deps read_all_unit [of "check_dependencies (keyed cs)" cs] check_dependencies_iff by blast
  obtain vis where vis: "graph_visit_all (keyed cs) [] (map fst (keyed cs)) [] = Inr vis"
    using graph_visit_complete(2) [OF refl ok, of "map fst (keyed cs)" "[]" "[]"] by auto
  show "validateGraph cs = Inr ()"
    using us vis d collect_ids_iff [of cs "keyed cs"] by (simp add: validateGraph_def)
qed

subsection \<open>The order of submission\<close>

definition topo_inv :: "compiled_contract list \<Rightarrow> compiled_contract list \<Rightarrow> bool" where
  "topo_inv cs ordered \<longleftrightarrow> deps_first [] ordered \<and> set ordered \<subseteq> set cs \<and> distinct (map cc_id ordered)"

text \<open>What a visit of \<open>i\<close> adds to the order is reachable from \<open>i\<close>, and \<open>i\<close> is in it afterwards.\<close>

definition topo_grows :: "compiled_contract list \<Rightarrow> string \<Rightarrow> compiled_contract list \<Rightarrow> compiled_contract list \<Rightarrow> bool" where
  "topo_grows cs i ordered acc \<longleftrightarrow> topo_inv cs acc \<and> set ordered \<subseteq> set acc \<and> i \<in> cc_id ` set acc \<and>
     (\<forall>x \<in> cc_id ` set acc - cc_id ` set ordered. (i, x) \<in> (dep_edges cs)\<^sup>*)"

lemma byId_last_known: "d \<in> cc_id ` set cs \<Longrightarrow> \<exists>x \<in> set cs. byId_last cs d = Some x \<and> cc_id x = d"
proof -
  assume "d \<in> cc_id ` set cs"
  then have "List.find (\<lambda>c. cc_id c = d) (rev cs) \<noteq> None" by (auto simp: find_None_iff)
  then obtain x where x: "List.find (\<lambda>c. cc_id c = d) (rev cs) = Some x" by blast
  then obtain i where "i < length (rev cs)" "cc_id (rev cs ! i) = d" "x = rev cs ! i" unfolding find_Some_iff by blast
  then have "x \<in> set (rev cs)" "cc_id x = d" using nth_mem [of i "rev cs"] by simp_all
  then show ?thesis using x by (auto simp: byId_last_def)
qed

lemma topo_loop:
  assumes step: "\<And>d acc. d \<in> set ds \<Longrightarrow> topo_inv cs acc \<Longrightarrow> \<exists>acc'. f acc d = Inr acc' \<and> topo_grows cs d acc acc'"
    and "topo_inv cs ordered"
  shows "\<exists>acc. foldE f ds ordered = Inr acc \<and> topo_inv cs acc \<and> set ordered \<subseteq> set acc \<and> set ds \<subseteq> cc_id ` set acc \<and>
     (\<forall>x \<in> cc_id ` set acc - cc_id ` set ordered. \<exists>d \<in> set ds. (d, x) \<in> (dep_edges cs)\<^sup>*)"
  using assms
proof (induction ds arbitrary: ordered)
  case (Cons d ds)
  obtain acc1 where a1: "f ordered d = Inr acc1" "topo_grows cs d ordered acc1" using Cons.prems by (metis list.set_intros(1))
  obtain acc where a: "foldE f ds acc1 = Inr acc" "topo_inv cs acc" "set acc1 \<subseteq> set acc" "set ds \<subseteq> cc_id ` set acc"
    "\<forall>x \<in> cc_id ` set acc - cc_id ` set acc1. \<exists>d \<in> set ds. (d, x) \<in> (dep_edges cs)\<^sup>*"
    using Cons.IH [of acc1] Cons.prems(1) a1(2) by (auto simp: topo_grows_def)
  have "foldE f (d # ds) ordered = Inr acc" using a1(1) a(1) by simp
  moreover have "\<exists>e \<in> set (d # ds). (e, x) \<in> (dep_edges cs)\<^sup>*" if "x \<in> cc_id ` set acc - cc_id ` set ordered" for x
  proof (cases "x \<in> cc_id ` set acc1")
    case True
    then show ?thesis using that a1(2) by (auto simp: topo_grows_def)
  next
    case False
    then show ?thesis using that a(5) by auto
  qed
  moreover have "set ordered \<subseteq> set acc" "set (d # ds) \<subseteq> cc_id ` set acc" using a a1(2) by (auto simp: topo_grows_def)
  ultimately show ?case using a(2) by blast
qed simp

lemma topo_visit_ok:
  assumes ok: "graph_ok cs"
  shows "c \<in> set cs \<Longrightarrow> P \<subseteq> cc_id ` set cs \<Longrightarrow> (\<forall>x \<in> P. (x, cc_id c) \<in> (dep_edges cs)\<^sup>+) \<Longrightarrow> length cs \<le> depth + card P \<Longrightarrow>
    topo_inv cs ordered \<Longrightarrow> \<exists>acc. topo_visit depth cs ordered c = Inr acc \<and> topo_grows cs (cc_id c) ordered acc"
proof (induction depth arbitrary: c P ordered)
  case 0
  have "card (cc_id ` set cs) = length cs" using ok distinct_card [of "map cc_id cs"] by (simp add: graph_ok_def)
  then have "P = cc_id ` set cs" using 0(2,4) by (intro card_seteq) auto
  then have "(cc_id c, cc_id c) \<in> (dep_edges cs)\<^sup>+" using 0(1,3) by simp
  then show ?case using ok by (auto simp: graph_ok_def acyclic_def)
next
  case (Suc depth)
  let ?f = "\<lambda>acc d. case byId_last cs d of None \<Rightarrow> Inl undefined_contract | Some x \<Rightarrow> topo_visit depth cs acc x"
  have e: "(cc_id c, d) \<in> dep_edges cs" if "d \<in> set (dependencies c)" for d using Suc.prems(1) that by (auto simp: dep_edges_def)
  have ac: "(x, x) \<notin> (dep_edges cs)\<^sup>+" for x using ok by (auto simp: graph_ok_def acyclic_def)
  have notP: "cc_id c \<notin> P" using Suc.prems(3) ac by blast
  have finP: "finite P" using Suc.prems(2) finite_subset by blast
  show ?case
  proof (cases "cc_id c \<in> cc_id ` set ordered")
    case True
    then show ?thesis using Suc.prems(5) by (auto simp: topo_grows_def)
  next
    case False
    have step: "\<exists>acc'. ?f acc d = Inr acc' \<and> topo_grows cs d acc acc'" if "d \<in> set (dependencies c)" "topo_inv cs acc" for d acc
    proof -
      have "d \<in> cc_id ` set cs" using ok Suc.prems(1) that(1) by (auto simp: graph_ok_def)
      then obtain x where x: "x \<in> set cs" "byId_last cs d = Some x" "cc_id x = d" using byId_last_known by blast
      have all: "\<forall>y \<in> insert (cc_id c) P. (y, cc_id x) \<in> (dep_edges cs)\<^sup>+"
        using e [OF that(1)] Suc.prems(3) x(3) by (auto intro: trancl_into_trancl)
      have sub: "insert (cc_id c) P \<subseteq> cc_id ` set cs" using Suc.prems(1,2) by auto
      have len: "length cs \<le> depth + card (insert (cc_id c) P)" using Suc.prems(4) notP finP by simp
      show ?thesis using Suc.IH [OF x(1) sub all len that(2)] x(2,3) by simp
    qed
    obtain acc where a: "foldE ?f (dependencies c) ordered = Inr acc" "topo_inv cs acc" "set ordered \<subseteq> set acc"
      "set (dependencies c) \<subseteq> cc_id ` set acc"
      "\<forall>x \<in> cc_id ` set acc - cc_id ` set ordered. \<exists>d \<in> set (dependencies c). (d, x) \<in> (dep_edges cs)\<^sup>*"
      using topo_loop [OF step Suc.prems(5)] by blast
    have reach: "(cc_id c, x) \<in> (dep_edges cs)\<^sup>+" if "x \<in> cc_id ` set acc - cc_id ` set ordered" for x
      using a(5) that e by (meson rtrancl_into_trancl2)
    have "cc_id c \<notin> cc_id ` set acc" using reach ac False by blast
    then have "topo_inv cs (acc @ [c])" using a(2,4) Suc.prems(1) by (auto simp: topo_inv_def deps_first_snoc)
    moreover have "\<forall>x \<in> cc_id ` set (acc @ [c]) - cc_id ` set ordered. (cc_id c, x) \<in> (dep_edges cs)\<^sup>*"
      using reach by (auto intro: trancl_into_rtrancl)
    ultimately have "topo_grows cs (cc_id c) ordered (acc @ [c])" using a(3) by (auto simp: topo_grows_def)
    then show ?thesis using a(1) False by auto
  qed
qed

lemma topological_order_ok:
  assumes ok: "graph_ok cs" and "length cs \<le> depth"
  shows "\<exists>ordered. topologicalOrder depth cs = Inr ordered \<and> mset ordered = mset cs \<and> deps_first [] ordered"
proof -
  have loop: "\<exists>acc. foldE (topo_visit depth cs) xs ordered = Inr acc \<and> topo_inv cs acc \<and> set ordered \<subseteq> set acc \<and> cc_id ` set xs \<subseteq> cc_id ` set acc"
    if "set xs \<subseteq> set cs" "topo_inv cs ordered" for xs ordered
    using that
  proof (induction xs arbitrary: ordered)
    case (Cons c xs)
    obtain acc1 where "topo_visit depth cs ordered c = Inr acc1" "topo_grows cs (cc_id c) ordered acc1"
      using topo_visit_ok [OF ok, of c "{}" depth ordered] Cons.prems assms(2) by auto
    then show ?case using Cons.IH [of acc1] Cons.prems(1) by (fastforce simp: topo_grows_def)
  qed simp
  obtain ordered where o: "topologicalOrder depth cs = Inr ordered" "topo_inv cs ordered" "cc_id ` set cs \<subseteq> cc_id ` set ordered"
    using loop [of cs "[]"] by (auto simp: topologicalOrder_def topo_inv_def)
  have inj: "inj_on cc_id (set cs)" and d: "distinct cs" using ok by (auto simp: graph_ok_def distinct_map)
  have "set cs \<subseteq> set ordered"
  proof
    fix c
    assume c: "c \<in> set cs"
    then obtain x where "x \<in> set ordered" "cc_id x = cc_id c" using o(3) by (metis (no_types, opaque_lifting) image_iff subsetD)
    then show "c \<in> set ordered" using inj c o(2) by (metis inj_on_eq_iff subsetD topo_inv_def)
  qed
  then have "set ordered = set cs" using o(2) by (auto simp: topo_inv_def)
  moreover have "distinct ordered" using o(2) by (simp add: topo_inv_def distinct_map)
  ultimately have "mset ordered = mset cs" using d set_eq_iff_mset_eq_distinct by blast
  then show ?thesis using o by (auto simp: topo_inv_def)
qed

text \<open>A deeper stack gives the same order.\<close>

lemma foldE_mono: "(\<And>a x r. f a x = Inr r \<Longrightarrow> g a x = Inr r) \<Longrightarrow> foldE f xs a = Inr r \<Longrightarrow> foldE g xs a = Inr r"
  by (induction xs arbitrary: a) (auto simp: bindE_eq_Inr)

lemma topo_visit_mono: "topo_visit d cs ordered c = Inr acc \<Longrightarrow> d \<le> e \<Longrightarrow> topo_visit e cs ordered c = Inr acc"
proof (induction d arbitrary: ordered c acc e)
  case (Suc d)
  obtain k where k: "e = Suc k" "d \<le> k" using Suc.prems(2) by (cases e) auto
  let ?f = "\<lambda>d acc i. case byId_last cs i of None \<Rightarrow> Inl undefined_contract | Some x \<Rightarrow> topo_visit d cs acc x"
  have step: "?f d a x = Inr r \<Longrightarrow> ?f k a x = Inr r" for a x r
    using Suc.IH [OF _ k(2)] by (cases "byId_last cs x") simp_all
  show ?case
  proof (cases "cc_id c \<in> cc_id ` set ordered")
    case True
    then show ?thesis using Suc.prems(1) k(1) by simp
  next
    case False
    then obtain acc1 where a: "foldE (?f d) (dependencies c) ordered = Inr acc1" "acc = acc1 @ [c]"
      using Suc.prems(1) by (auto simp: bindE_eq_Inr)
    have "foldE (?f k) (dependencies c) ordered = Inr acc1" by (rule foldE_mono [OF step a(1)])
    then show ?thesis using False k(1) a(2) by simp
  qed
qed simp

lemma topologicalOrder_result:
  assumes "graph_ok cs" "topologicalOrder depth cs = Inr ordered"
  shows "mset ordered = mset cs \<and> deps_first [] ordered"
proof -
  have "foldE (topo_visit (max depth (length cs)) cs) cs [] = Inr ordered"
    by (rule foldE_mono [OF _ assms(2) [unfolded topologicalOrder_def]], erule topo_visit_mono, simp)
  then have "topologicalOrder (max depth (length cs)) cs = Inr ordered" by (simp add: topologicalOrder_def)
  then show ?thesis using topological_order_ok [OF assms(1), of "max depth (length cs)"] by auto
qed

text \<open>
  C22. On a batch the compiler accepts, the order of submission is found: the recursion, which does not
  remember its path, needs no more than one frame per contract, and the result lists every contract
  exactly once and after everything it depends on.
\<close>

theorem topological_order_found:
  assumes "validateGraph cs = Inr ()" and "length cs \<le> depth"
  shows "\<exists>ordered. topologicalOrder depth cs = Inr ordered \<and> mset ordered = mset cs \<and> deps_first [] ordered"
  by (rule topological_order_ok [OF validateGraph_ok [OF assms(1)] assms(2)])

definition graph_contract :: "string \<Rightarrow> string list \<Rightarrow> compiled_contract" where
  "graph_contract i ds = \<lparr>cc_id = i, cc_fingerprint = [], cc_repositoryRoot = ''/r'', cc_revision = ''v'', cc_path = ''a.ts'', cc_line = 1,
     cc_contract = \<lparr>sn_id = i, sn_objective = ''o'', sn_taskClass = Test, sn_adapterId = ''a'', sn_adapterOptions = [],
       sn_scope = \<lparr>ps_allowedPaths = [''src''], ps_forbiddenPaths = [], ps_protectedPaths = []\<rparr>, sn_contextRefs = [], sn_constraints = [],
       sn_escalateWhen = [], sn_setup = [], sn_acceptance = [], sn_timeoutMs = 1, sn_retainWorkspace = True,
       sn_executionBoundary = HostWorktreeRequest, sn_dependsOn = ds, sn_priority = 0, sn_enabled = True\<rparr>\<rparr>"

theorem topological_order_found_witness:
  "let cs = [graph_contract ''c'' [''a'', ''b''], graph_contract ''b'' [''a''], graph_contract ''a'' []] in
     validateGraph cs = Inr () \<and> (\<exists>ordered. topologicalOrder 3 cs = Inr ordered \<and> mset ordered = mset cs \<and> deps_first [] ordered)"
proof -
  let ?cs = "[graph_contract ''c'' [''a'', ''b''], graph_contract ''b'' [''a''], graph_contract ''a'' []]"
  have "validateGraph ?cs = Inr ()"
    by (simp add: validateGraph_def graph_contract_def check_dependencies_def dependencies_def graph_visit.simps)
  then show ?thesis using topological_order_found [of ?cs 3] by simp
qed

end
