(* ===== verification/Source_Watches.thy ===== *)
theory Source_Watches
  imports Sources
begin

text \<open>
  The watches on repositories (\<open>src/src/sources/watch-store.ts\<close>) and one pass of the poller over them
  (\<open>poller.ts\<close>). A watch is published by renaming a staging directory, which the file system refuses when
  the watch exists; \<open>renameError\<close> is the error it gives. The timer of the polling loop is not modelled.
\<close>

subsection \<open>The watch store\<close>

definition watch_scan_id :: "(string \<Rightarrow> string) \<Rightarrow> string comparator \<Rightarrow> string \<Rightarrow> scan_request \<Rightarrow> string" where
  "watch_scan_id sha256 lc cwd scan = ''watch_'' @ take 20 (fingerprint sha256 lc
     (JObj [(''repositoryPath'', JStr (posix_resolve cwd (sq_repositoryPath scan))), (''baseRef'', JStr (sq_baseRef scan))]))"

definition read_watch :: "string \<Rightarrow> sources_state \<Rightarrow> err + source_watch" where
  "read_watch watchId s =
     (if \<not> is_safe_segment watchId then Inl (Error (''Unsafe source watch id: '' @ watchId))
      else case map_of (ss_watches s) watchId of
        None \<Rightarrow> Inl (NodeError ''ENOENT'')
      | Some r \<Rightarrow> bindE r (\<lambda>x. if sourceWatch_valid x then Inr x else Inl ZodError))"

definition write_watch :: "source_watch \<Rightarrow> (sources_state, unit) act" where
  "write_watch x s = (Inr (), s\<lparr>ss_watches := AList.update (wh_watchId x) (Inr x) (ss_watches s)\<rparr>)"

definition watch_conflict :: "string \<Rightarrow> err" where
  "watch_conflict watchId = Error (''Watch '' @ watchId @ '' already exists with different scan policy'')"

definition existing_watch :: "err \<Rightarrow> string \<Rightarrow> scan_request \<Rightarrow> (sources_state, source_watch \<times> bool) act" where
  "existing_watch renameError watchId scan =
     catchA
       (bindA (readsA (read_watch watchId)) (\<lambda>existing.
        bindA (guardA (wh_scan existing = scan) (watch_conflict watchId)) (\<lambda>_. ret (existing, False))))
       (\<lambda>e. raise (if prefix ''Watch '' (errorMessage e) then e else renameError))"

definition register_watch ::
  "(string \<Rightarrow> string) \<Rightarrow> string comparator \<Rightarrow> string \<Rightarrow> timestamp \<Rightarrow> err \<Rightarrow> watch_request \<Rightarrow> (sources_state, source_watch \<times> bool) act" where
  "register_watch sha256 lc cwd now renameError request =
     (let scan = wq_scan request;
        watchId = (case wq_watchId request of Some i \<Rightarrow> i | None \<Rightarrow> watch_scan_id sha256 lc cwd scan);
        x = \<lparr>wh_watchId = watchId, wh_enabled = wq_enabled request, wh_scan = scan, wh_createdAt = now, wh_updatedAt = now,
          wh_lastScanAt = None, wh_lastRevision = None, wh_lastRunId = None, wh_lastError = None\<rparr>
      in
      bindA (guardA (watchRequest_valid request \<and> sourceWatch_valid x) ZodError) (\<lambda>_.
      bindA getA (\<lambda>s.
      if map_of (ss_watches s) watchId = None then bindA (write_watch x) (\<lambda>_. ret (x, True))
      else existing_watch renameError watchId scan)))"

definition list_watches :: "(sources_state, source_watch list) act" where
  "list_watches = readsA (\<lambda>s. read_all (\<lambda>n. read_watch n s) (filter (\<lambda>n. \<not> is_staging n) (map fst (ss_watches s))))"

definition update_watch :: "timestamp \<Rightarrow> source_watch \<Rightarrow> (source_watch \<Rightarrow> source_watch) \<Rightarrow> (sources_state, source_watch) act" where
  "update_watch now x patch =
     (let updated = (patch x)\<lparr>wh_watchId := wh_watchId x, wh_scan := wh_scan x, wh_updatedAt := now\<rparr> in
      bindA (guardA (sourceWatch_valid updated) ZodError) (\<lambda>_.
      bindA (write_watch updated) (\<lambda>_. ret updated)))"

subsection \<open>The poller\<close>

definition new_poller :: "int \<Rightarrow> err + int" where
  "new_poller pollIntervalMs =
     (if pollIntervalMs < 1000 \<or> 3600000 < pollIntervalMs
      then Inl (Error ''Source poll interval must be 1000..3600000 ms'') else Inr pollIntervalMs)"

definition poll_watch :: "source_world \<Rightarrow> dispatcher_env \<Rightarrow> nat \<Rightarrow> source_watch \<Rightarrow> (sources_state, unit) act" where
  "poll_watch w env depth x =
     (let now = dnow env in
      catchA
        (bindA (liftE (compile_sources w (wh_scan x))) (\<lambda>batch.
         if Some (cb_revision batch) = wh_lastRevision x
         then bindA (update_watch now x (\<lambda>v. v\<lparr>wh_lastScanAt := Some now, wh_lastError := None\<rparr>)) (\<lambda>_. ret ())
         else
           bindA (compileAndEnqueue w env depth ((wh_scan x)\<lparr>sq_baseRef := cb_revision batch\<rparr>)) (\<lambda>run.
           bindA (update_watch now x (\<lambda>v. v\<lparr>wh_lastScanAt := Some now, wh_lastRevision := Some (sr_revision run),
             wh_lastRunId := Some (sr_runId run), wh_lastError := None\<rparr>)) (\<lambda>_. ret ()))))
        (\<lambda>e. bindA (update_watch now x (\<lambda>v. v\<lparr>wh_lastScanAt := Some now, wh_lastError := Some (errorMessage e)\<rparr>)) (\<lambda>_. ret ())))"

definition pollAll :: "source_world \<Rightarrow> dispatcher_env \<Rightarrow> nat \<Rightarrow> (sources_state, unit) act" where
  "pollAll w env depth =
     bindA list_watches (\<lambda>xs. forA (poll_watch w env depth) (filter wh_enabled xs))"

end
