(* ===== verification/Source_Extraction.thy ===== *)
theory Source_Extraction
  imports Source_Contracts Sandbox_Properties
begin

text \<open>
  Reading contracts back out of comments: the extraction of the compiler recovers exactly the texts that were
  written as comment blocks, with the lines they start on, for every line comment the compiler knows.
\<close>

subsection \<open>Writing a contract as a comment\<close>

definition comment_leads :: "string list" where
  "comment_leads = [''//'', ''#'', ''--'', ''*'']"

definition comment_line :: "string \<Rightarrow> string \<Rightarrow> string" where
  "comment_line lead l = lead @ '' '' @ l"

definition contract_block :: "string \<Rightarrow> string list \<Rightarrow> string" where
  "contract_block lead ls = comment_line lead START_MARKER @ line_break # concat (map (\<lambda>l. comment_line lead l @ [line_break]) ls)
     @ comment_line lead END_MARKER @ [line_break]"

text \<open>Source text in pieces: other text, then a block of lines with its comment lead.\<close>

type_synonym source_piece = "string \<times> string \<times> string list"

fun render_pieces :: "source_piece list \<Rightarrow> string" where
  "render_pieces [] = []"
| "render_pieces ((pre, lead, ls) # ps) = pre @ contract_block lead ls @ render_pieces ps"

definition plain_line :: "string \<Rightarrow> bool" where
  "plain_line l \<longleftrightarrow> CHR ''@'' \<notin> set l \<and> line_break \<notin> set l \<and> CHR 0x0D \<notin> set l"

definition ends_line :: "string \<Rightarrow> bool" where
  "ends_line s \<longleftrightarrow> s = [] \<or> last s = line_break"

definition piece_ok :: "source_piece \<Rightarrow> bool" where
  "piece_ok p = (case p of (pre, lead, ls) \<Rightarrow> CHR ''@'' \<notin> set pre \<and> ends_line pre \<and> lead \<in> set comment_leads \<and> list_all plain_line ls)"

text \<open>What the pieces say: the line every block starts on, and its text as parsed.\<close>

fun contracts_of :: "(string \<Rightarrow> err + json) \<Rightarrow> string \<Rightarrow> nat \<Rightarrow> source_piece list \<Rightarrow> err + (nat \<times> json) list" where
  "contracts_of parse file n [] = Inr []"
| "contracts_of parse file n ((pre, lead, ls) # ps) =
     (let line = n + count_list pre line_break in
      case parse (trim (join [line_break] ls)) of
        Inl e \<Rightarrow> Inl (Error (file @ '':'' @ show_nat line @ '' contains invalid Conductor JSON: '' @ errorMessage e))
      | Inr v \<Rightarrow> bindE (contracts_of parse file (line + length ls + 2) ps) (\<lambda>rest. Inr ((line, v) # rest)))"

subsection \<open>Finding the markers\<close>

lemma index_of_first: "c \<notin> set pre \<Longrightarrow> index_of (c # pat) (pre @ c # pat @ rest) = Some (length pre)"
  by (induction pre) auto

lemma index_of_none: "c \<notin> set s \<Longrightarrow> index_of (c # pat) s = None"
  by (induction s) auto

lemma START_at: "START_MARKER = CHR ''@'' # ''conductor-contract''"
  by (simp add: START_MARKER_def)

lemma END_at: "END_MARKER = CHR ''@'' # ''end-conductor-contract''"
  by (simp add: END_MARKER_def)

lemma index_from_first:
  assumes "CHR ''@'' \<notin> set pre" "marker = CHR ''@'' # m"
  shows "index_from marker (before @ pre @ marker @ rest) (length before) = Some (length before + length pre)"
  using index_of_first [OF assms(1), of m rest] assms(2) by (simp add: index_from_def)

lemma lead_chars:
  assumes "lead \<in> set comment_leads"
  shows "CHR ''@'' \<notin> set lead" "line_break \<notin> set lead" "CHR 0x0D \<notin> set lead"
    "trim (lead @ '' '') = lead" "line_lead lead" "strip_comment (comment_line lead l) = l" "strip_comment (lead @ '' '') = []"
  using assms
  by (auto simp: comment_leads_def line_break_def trim_def is_space_def line_lead_def repeats_def strip_comment_def comment_line_def drop_lead_def)

lemma line_before_at:
  assumes "ends_line before" "line_break \<notin> set x"
  shows "line_before (before @ x @ rest) (length before + length x) = x"
proof -
  have t: "take (length before + length x) (before @ x @ rest) = before @ x" by simp
  have "takeWhile (\<lambda>c. c \<noteq> line_break) (rev x @ rev before) = rev x"
  proof (cases before rule: rev_cases)
    case Nil
    then show ?thesis using assms(2) by (simp add: takeWhile_eq_all_conv) (metis)
  next
    case (snoc ys y)
    then have "y = line_break" using assms(1) by (simp add: ends_line_def)
    then show ?thesis using snoc assms(2) by (subst takeWhile_append2) auto
  qed
  then show ?thesis by (simp add: line_before_def t)
qed

lemma line_after_break [simp]: "line_after (x @ line_break # rest) (length x) = []"
  by (simp add: line_after_def)

lemma split_on_length: "length (split_on c s) = Suc (count_list s c)"
proof (induction s)
  case (Cons d s)
  then show ?case by (cases "split_on c s") auto
qed simp

lemma split_lines_length: "length (split_lines s) = Suc (count_list s line_break)"
  using split_on_length [of line_break s] by (simp add: split_lines_def Let_def)

lemma split_comment_lines:
  assumes "line_break \<notin> set end_line" "\<forall>l \<in> set ls. line_break \<notin> set l"
  shows "split_on line_break (concat (map (\<lambda>l. l @ [line_break]) ls) @ end_line) = ls @ [end_line]"
  using assms(2)
proof (induction ls)
  case Nil
  then show ?case using split_on_none [OF assms(1)] by simp
next
  case (Cons l ls)
  then show ?case using split_on_append [of line_break l] by simp
qed

lemma drop_cr_plain: "CHR 0x0D \<notin> set l \<Longrightarrow> drop_cr l = l"
  by (auto simp: drop_cr_def suffix_def)

lemma dropWhile_all: "list_all is_space x \<Longrightarrow> dropWhile is_space x = []"
  by (induction x) auto

lemma dropWhile_break:
  "is_space b \<Longrightarrow> dropWhile is_space (x @ [b]) = (if list_all is_space x then [] else dropWhile is_space x @ [b])"
  by (induction x) auto

lemma trim_breaks: "trim (line_break # x @ [line_break]) = trim x" "trim [line_break] = []"
proof -
  have sp: "is_space line_break" by (simp add: is_space_def line_break_def)
  then show "trim (line_break # x @ [line_break]) = trim x"
    using dropWhile_break [OF sp, of x] by (cases "list_all is_space x") (simp_all add: trim_def dropWhile_all)
  show "trim [line_break] = []" using sp by (simp add: trim_def)
qed

lemma join_snoc: "xs \<noteq> [] \<Longrightarrow> join sep (xs @ [x]) = join sep xs @ sep @ x"
  by (induction sep xs rule: join.induct) auto

lemma comment_text_block:
  assumes "lead \<in> set comment_leads" "list_all plain_line ls"
  shows "comment_text (line_break # concat (map (\<lambda>l. comment_line lead l @ [line_break]) ls) @ lead @ '' '') = trim (join [line_break] ls)"
proof -
  let ?ls = "map (comment_line lead) ls"
  have nb: "line_break \<notin> set (lead @ '' '')" "\<forall>l \<in> set ?ls. line_break \<notin> set l"
    using lead_chars(2) [OF assms(1)] assms(2) by (auto simp: line_break_def comment_line_def plain_line_def list_all_iff)
  have "split_on line_break (concat (map (\<lambda>l. l @ [line_break]) ?ls) @ lead @ '' '') = ?ls @ [lead @ '' '']"
    by (rule split_comment_lines [OF nb])
  then have s: "split_on line_break (line_break # concat (map (\<lambda>l. comment_line lead l @ [line_break]) ls) @ lead @ '' '') = [] # ?ls @ [lead @ '' '']"
    by (simp add: comp_def)
  have "map drop_cr ?ls = ?ls"
    using lead_chars(3) [OF assms(1)] assms(2) by (intro map_idI drop_cr_plain) (auto simp: comment_line_def plain_line_def list_all_iff)
  then have sl: "split_lines (line_break # concat (map (\<lambda>l. comment_line lead l @ [line_break]) ls) @ lead @ '' '') = [] # ?ls @ [lead @ '' '']"
    unfolding split_lines_def Let_def s by (simp add: drop_cr_def butlast_append)
  have "map strip_comment ?ls = ls" using lead_chars(6) [OF assms(1)] by (simp add: comp_def)
  moreover have "strip_comment [] = []" by (simp add: strip_comment_def drop_lead_def)
  ultimately have m: "map strip_comment ([] # ?ls @ [lead @ '' '']) = [] # ls @ [[]]"
    using lead_chars(7) [OF assms(1)] by (simp only: list.map map_append)
  have t: "comment_text (line_break # concat (map (\<lambda>l. comment_line lead l @ [line_break]) ls) @ lead @ '' '')
      = trim (join [line_break] ([] # ls @ [[]]))"
    unfolding comment_text_def sl m ..
  have "trim (join [line_break] ([] # ls @ [[]])) = trim (join [line_break] ls)"
  proof (cases ls)
    case Nil
    have "trim [] = []" by (simp add: trim_def)
    then show ?thesis using Nil trim_breaks(2) by simp
  next
    case (Cons a as)
    then have "join [line_break] ([] # ls @ [[]]) = line_break # join [line_break] ls @ [line_break]"
      using join_snoc [of ls "[line_break]" "[]"] by simp
    then show ?thesis using trim_breaks(1) by simp
  qed
  then show ?thesis using t by (rule trans [rotated])
qed

subsection \<open>The round trip\<close>

definition block_body :: "string \<Rightarrow> string list \<Rightarrow> string" where
  "block_body lead ls = line_break # concat (map (\<lambda>l. comment_line lead l @ [line_break]) ls)"

lemma contract_block_parts:
  "contract_block lead ls = lead @ '' '' @ START_MARKER @ block_body lead ls @ lead @ '' '' @ END_MARKER @ [line_break]"
  by (simp add: contract_block_def comment_line_def block_body_def)

lemma block_body_ends: "ends_line (x @ block_body lead ls)"
  by (cases ls rule: rev_cases) (auto simp: ends_line_def block_body_def)

lemma block_body_at:
  assumes "lead \<in> set comment_leads" "list_all plain_line ls"
  shows "CHR ''@'' \<notin> set (block_body lead ls)"
  using lead_chars(1) [OF assms(1)] assms(2)
  by (auto simp: block_body_def comment_line_def plain_line_def list_all_iff line_break_def)

lemma count_concat: "\<forall>l \<in> set ls. count_list (f l) c = 1 \<Longrightarrow> count_list (concat (map f ls)) c = length ls"
  by (induction ls) (simp_all add: count_list_append)

lemma count_block:
  assumes "lead \<in> set comment_leads" "list_all plain_line ls"
  shows "count_list (contract_block lead ls) line_break = length ls + 2"
proof -
  have z: "count_list lead line_break = 0" using lead_chars(2) [OF assms(1)] by (simp add: count_list_0_iff)
  have "count_list (comment_line lead l @ [line_break]) line_break = 1" if "l \<in> set ls" for l
  proof -
    have "count_list l line_break = 0" using assms(2) that by (simp add: count_list_0_iff plain_line_def list_all_iff)
    then show ?thesis using z by (simp add: comment_line_def count_list_append line_break_def)
  qed
  then have "count_list (concat (map (\<lambda>l. comment_line lead l @ [line_break]) ls)) line_break = length ls"
    by (intro count_concat) simp
  moreover have "count_list START_MARKER line_break = 0" "count_list END_MARKER line_break = 0"
    by (simp_all add: START_MARKER_def END_MARKER_def line_break_def)
  ultimately show ?thesis using z by (simp add: contract_block_parts block_body_def count_list_append line_break_def)
qed

lemma extract_step:
  assumes "\<not> length s \<le> c" "index_from START_MARKER s c = Some start" "isCommentStartMarker s start"
    "findCommentEndMarker s (start + length START_MARKER) = Some finish"
    "comment_text (drop (start + length START_MARKER) (take finish s)) = body"
    "length (split_lines (take start s)) = line" "finish + length END_MARKER = next_cursor"
  shows "extractContracts parse s file c =
    (case parse body of
       Inl e \<Rightarrow> Inl (Error (file @ '':'' @ show_nat line @ '' contains invalid Conductor JSON: '' @ errorMessage e))
     | Inr v \<Rightarrow> bindE (extractContracts parse s file next_cursor) (\<lambda>r. Inr ((line, v) # r)))"
  using assms(1) by (subst extractContracts.simps) (simp add: assms(2-) Let_def split: sum.split del: show_nat.simps)

text \<open>One block: where the extraction finds it, what it reads, and where it goes on.\<close>

lemma extract_block:
  assumes p: "piece_ok (pre, lead, ls)" and b: "ends_line before" "c \<le> length before" "CHR ''@'' \<notin> set (drop c before)"
  shows "extractContracts parse (before @ pre @ contract_block lead ls @ rest) file c =
    (let line = Suc (count_list before line_break) + count_list pre line_break in
     case parse (trim (join [line_break] ls)) of
       Inl e \<Rightarrow> Inl (Error (file @ '':'' @ show_nat line @ '' contains invalid Conductor JSON: '' @ errorMessage e))
     | Inr v \<Rightarrow> bindE (extractContracts parse (before @ pre @ contract_block lead ls @ rest) file
           (length (before @ pre @ contract_block lead ls) - 1)) (\<lambda>r. Inr ((line, v) # r)))"
proof -
  let ?lead = "lead @ '' ''" and ?B = "block_body lead ls"
  let ?s = "before @ pre @ contract_block lead ls @ rest"
  let ?start = "length before + length pre + length ?lead"
  let ?finish = "?start + length START_MARKER + length ?B + length ?lead"
  have ld: "lead \<in> set comment_leads" and ls: "list_all plain_line ls" and pre: "CHR ''@'' \<notin> set pre" "ends_line pre"
    using p by (auto simp: piece_ok_def)
  note lc = lead_chars [OF ld]
  have nb: "line_break \<notin> set ?lead" using lc(2) by (simp add: line_break_def)
  have s: "?s = before @ pre @ ?lead @ START_MARKER @ ?B @ ?lead @ END_MARKER @ line_break # rest"
    by (simp add: contract_block_parts)
  have split: "?s = take c before @ (drop c before @ pre @ ?lead) @ START_MARKER @ ?B @ ?lead @ END_MARKER @ line_break # rest"
    using s by (metis append.assoc append_take_drop_id)
  have "CHR ''@'' \<notin> set (drop c before @ pre @ ?lead)" using b(3) pre(1) lc(1) by simp
  then have "index_from START_MARKER ?s (length (take c before)) = Some (length (take c before) + length (drop c before @ pre @ ?lead))"
    unfolding split by (rule index_from_first [OF _ START_at])
  then have i: "index_from START_MARKER ?s c = Some ?start" using b(2) by (simp add: min_absorb2)
  have long: "\<not> length ?s \<le> c" using b(2) by (simp add: contract_block_parts START_MARKER_def)
  have bp: "ends_line (before @ pre)" using b(1) pre(2) by (cases "pre = []") (auto simp: ends_line_def)
  have lb: "line_before ?s ?start = ?lead" using line_before_at [OF bp nb] s by (simp add: add.assoc)
  have B: "\<exists>x. ?B = line_break # x" by (simp add: block_body_def)
  have "line_after ?s (?start + length START_MARKER) = []"
  proof -
    obtain x where "?B = line_break # x" using B by blast
    then show ?thesis using line_after_break [of "before @ pre @ ?lead @ START_MARKER"] s by (simp add: add.assoc)
  qed
  then have start: "isCommentStartMarker ?s ?start" using lb lc(4,5) by (simp add: isCommentStartMarker_def trim_def)
  have "CHR ''@'' \<notin> set (?B @ ?lead)" using block_body_at [OF ld ls] lc(1) by simp
  then have j: "index_from END_MARKER ?s (?start + length START_MARKER) = Some ?finish"
    using index_from_first [OF _ END_at, of "?B @ ?lead" "before @ pre @ ?lead @ START_MARKER" "line_break # rest"] s by (simp add: add.assoc)
  have "line_before ?s ?finish = ?lead"
    using line_before_at [OF block_body_ends nb, of "before @ pre @ ?lead @ START_MARKER" lead ls] s by (simp add: add.assoc)
  moreover have "line_after ?s (?finish + length END_MARKER) = []"
    using line_after_break [of "before @ pre @ ?lead @ START_MARKER @ ?B @ ?lead @ END_MARKER"] s by (simp add: add.assoc)
  ultimately have "is_end_marker ?s ?finish" using lc(4,5) by (simp add: is_end_marker_def trim_def)
  then have fin: "findCommentEndMarker ?s (?start + length START_MARKER) = Some ?finish"
    using j by (subst findCommentEndMarker.simps) (simp add: s)
  have "drop (?start + length START_MARKER) (take ?finish ?s) = ?B @ ?lead" by (simp add: s)
  then have body_text: "comment_text (drop (?start + length START_MARKER) (take ?finish ?s)) = trim (join [line_break] ls)"
    using comment_text_block [OF ld ls] by (simp add: block_body_def)
  have "take ?start ?s = before @ pre @ ?lead" by (simp add: s)
  then have line: "length (split_lines (take ?start ?s)) = Suc (count_list before line_break) + count_list pre line_break"
    using lc(2) by (simp add: split_lines_length count_list_append line_break_def count_list_0_iff)
  have cur: "?finish + length END_MARKER = length (before @ pre @ contract_block lead ls) - 1" by (simp add: contract_block_parts)
  show ?thesis unfolding Let_def by (rule extract_step [OF long i start fin body_text line cur])
qed

lemma extract_pieces:
  assumes "list_all piece_ok ps" and "CHR ''@'' \<notin> set rest"
  shows "extractContracts parse (render_pieces ps @ rest) file 0 = contracts_of parse file 1 ps"
proof -
  have "extractContracts parse (before @ render_pieces ps @ rest) file c = contracts_of parse file (Suc (count_list before line_break)) ps"
    if "ends_line before" "c \<le> length before" "CHR ''@'' \<notin> set (drop c before)" for before c
    using that assms(1)
  proof (induction ps arbitrary: before c)
    case Nil
    have "CHR ''@'' \<notin> set (drop c (before @ rest))" using Nil(2,3) assms(2) by simp
    then have "index_from START_MARKER (before @ rest) c = None" using index_of_none by (simp add: index_from_def START_at)
    then show ?case by (subst extractContracts.simps) simp
  next
    case (Cons p ps)
    obtain pre lead ls where p: "p = (pre, lead, ls)" by (cases p) auto
    have ok: "piece_ok (pre, lead, ls)" "list_all piece_ok ps" using Cons.prems(4) p by simp_all
    let ?b = "before @ pre @ contract_block lead ls"
    have e: "ends_line ?b" by (simp add: ends_line_def contract_block_parts)
    have "drop (length ?b - 1) ?b = [line_break]" by (simp add: contract_block_parts)
    then have d: "CHR ''@'' \<notin> set (drop (length ?b - 1) ?b)" by (simp add: line_break_def)
    have n: "Suc (count_list ?b line_break) = Suc (count_list before line_break) + count_list pre line_break + length ls + 2"
      using count_block ok(1) by (simp add: piece_ok_def count_list_append)
    have r: "extractContracts parse (before @ pre @ contract_block lead ls @ render_pieces ps @ rest) file (length ?b - 1)
      = contracts_of parse file (Suc (count_list ?b line_break)) ps"
      using Cons.IH [OF e _ d ok(2)] by simp
    have s: "before @ render_pieces (p # ps) @ rest = before @ pre @ contract_block lead ls @ render_pieces ps @ rest" by (simp add: p)
    show ?case unfolding s unfolding extract_block [OF ok(1) Cons.prems(1-3)] r n by (simp only: p contracts_of.simps Let_def)
  qed
  from this [of "[]" 0] show ?thesis by (simp add: ends_line_def)
qed



end
