(* ===== verification/Store_Content.thy ===== *)
theory Store_Content
  imports Artifact_Store
begin

text \<open>
  What every record file of the artifact store says, whichever of its snapshots a read picks: the
  cleanup records are consistent and sit in the directory they name. Unlike the history invariant
  this needs no bound on revisions, so it passes through any sequence of calls, and the handlers of
  the conductor keep it.
\<close>

definition recorded :: "'v journaled \<Rightarrow> 'v \<Rightarrow> bool" where
  "recorded j v \<longleftrightarrow> jl_projection j = Some (Parsed v) \<or> (\<exists>n. (n, Some (Parsed v)) \<in> set (tentries j))"

lemma read_doc_Inr: "read_doc d = Inr v \<Longrightarrow> d = Some (Parsed v)"
  by (cases "d"; cases "the d") auto

lemma read_recorded:
  assumes "read_journaled k l i revisionOf j = Inr v"
  shows "recorded j v"
proof -
  have "jl_projection j = Some (Parsed v) \<or> readLatestTransition k i revisionOf (jl_transitions j) = Inr (Some v)"
    using assms by (auto simp: read_journaled_def split: sum.splits option.splits if_splits dest: read_doc_Inr)
  moreover have "\<exists>n. (n, Some (Parsed v)) \<in> set (tentries j)"
    if "readLatestTransition k i revisionOf (jl_transitions j) = Inr (Some v)"
    using that
    by (auto simp: readLatestTransition_def tentries_def Let_def
        split: option.splits sum.splits if_splits dest!: read_doc_Inr map_of_SomeD)
  ultimately show ?thesis unfolding recorded_def by blast
qed

lemma commit_recorded:
  assumes "commitTransition fp k i n v j = (r, j')" and "recorded j' w"
  shows "recorded j w \<or> w = v"
  using assms by (auto simp: commitTransition_def Let_def recorded_def tentries_def split: if_splits option.splits)

lemma recorded_fresh [simp]: "recorded (fresh_journaled v) w \<longleftrightarrow> w = v"
  by (auto simp: recorded_def fresh_journaled_def tentries_def)

lemma recorded_absent [simp]: "\<not> recorded absent_journal w"
  by (simp add: recorded_def absent_journal_def tentries_def)

definition content_ok :: "artifact_store \<Rightarrow> bool" where
  "content_ok s \<longleftrightarrow> (\<forall>j a d. get_attempt s j a = Some d \<longrightarrow>
     (\<forall>m. recorded (ad_manifest d) m \<longrightarrow> am_jobId m = j \<and> am_attemptId m = a) \<and>
     (\<forall>c. recorded (ad_cleanup d) c \<longrightarrow> cr_jobId c = j \<and> cr_attemptId c = a \<and> cleanup_ok c))"

lemma content_ok_empty: "content_ok (empty_store d)"
  by (simp add: content_ok_def empty_store_def get_attempt_def attempt_entries_def get_job_def empty_job_dir_def)

lemma content_ok_read:
  assumes "content_ok s"
  shows "readAttempt s j a = Inr m \<Longrightarrow> am_jobId m = j \<and> am_attemptId m = a"
    and "readAttemptCleanup s j a = Inr c \<Longrightarrow> cr_jobId c = j \<and> cr_attemptId c = a \<and> cleanup_ok c"
  using assms
  by (auto simp: content_ok_def readAttempt_conv readAttemptCleanup_conv dest!: read_recorded)

lemma content_ok_same: "content_ok s \<Longrightarrow> (\<And>j a. get_attempt t j a = get_attempt s j a) \<Longrightarrow> content_ok t"
  by (simp add: content_ok_def)

lemma content_ok_put:
  assumes "content_ok s" and "get_attempt s j a = Some d"
    and "\<And>m. recorded (ad_manifest d') m \<Longrightarrow> recorded (ad_manifest d) m \<or> am_jobId m = j \<and> am_attemptId m = a"
    and "\<And>c. recorded (ad_cleanup d') c \<Longrightarrow> recorded (ad_cleanup d) c \<or>
           cr_jobId c = j \<and> cr_attemptId c = a \<and> cleanup_ok c"
  shows "content_ok (put_attempt j a d' s)"
  using assms unfolding content_ok_def by (fastforce split: if_splits)

lemma keeps_transitionAttempt [keeps_rules]: "keeps content_ok (transitionAttempt fp x patch)"
proof (rule keepsI)
  fix s r t assume ok: "content_ok s" and tr: "transitionAttempt fp x patch s = (r, t)"
  from tr show "content_ok t"
  proof (cases rule: transitionAttempt_cases)
    case (committed d r0 j)
    show ?thesis unfolding committed(5)
      by (rule content_ok_put [OF ok committed(2)]) (use commit_recorded [OF committed(4)] in \<open>force+\<close>)
  qed (use ok in simp)
qed

lemma content_ok_transitionAttemptCleanup:
  assumes ok: "content_ok s" and tr: "transitionAttemptCleanup fp now x rs es s = (r, t)"
    and good: "cleanup_ok x \<Longrightarrow> cleanup_ok (patched_cleanup now rs es x)"
  shows "content_ok t"
  using tr
proof (cases rule: transitionAttemptCleanup_cases)
  case (committed d r0 j)
  have "cleanup_ok (patched_cleanup now rs es x)"
    using good content_ok_read(2) [OF ok committed(1)] by blast
  then show ?thesis unfolding committed(4)
    using commit_recorded [OF committed(3)] by (intro content_ok_put [OF ok committed(2)]) force+
qed (use ok in simp)

lemma keeps_registerAttemptCleanupRequirement [keeps_rules]:
  "keeps content_ok (registerAttemptCleanupRequirement fp now j a requirement)"
proof (rule keepsI)
  fix s r t assume ok: "content_ok s" and tr: "registerAttemptCleanupRequirement fp now j a requirement s = (r, t)"
  show "content_ok t"
  proof (cases "t = s")
    case False
    then obtain c where "transitionAttemptCleanup fp now c (Some (merge_requirement requirement (cr_requirements c))) None s = (r, t)"
      using tr by (auto simp: registerAttemptCleanupRequirement_def Let_def split: if_splits sum.splits)
    then show ?thesis using content_ok_transitionAttemptCleanup [OF ok] cleanup_ok_merge by blast
  qed (use ok in simp)
qed

lemma keeps_appendAttemptCleanupEvidence [keeps_rules]:
  "keeps content_ok (appendAttemptCleanupEvidence fp now j a e)"
proof (rule keepsI)
  fix s r t assume ok: "content_ok s" and tr: "appendAttemptCleanupEvidence fp now j a e s = (r, t)"
  show "content_ok t"
  proof (cases "t = s")
    case False
    then obtain c where "ce_subject e \<in> rq_subject ` set (cr_requirements c)"
        "ce_evidenceId e \<notin> ce_evidenceId ` set (cr_evidence c)"
        "transitionAttemptCleanup fp now c None (Some (cr_evidence c @ [e])) s = (r, t)"
      using tr by (auto simp: appendAttemptCleanupEvidence_def list_ex_eq_image split: if_splits sum.splits)
    then show ?thesis using content_ok_transitionAttemptCleanup [OF ok] cleanup_ok_append by blast
  qed (use ok in simp)
qed

lemma keeps_reserveAttemptAt [keeps_rules]: "keeps content_ok (reserveAttemptAt now stg contract n lin op)"
proof (rule keepsI)
  fix s r t assume ok: "content_ok s" and tr: "reserveAttemptAt now stg contract n lin op s = (r, t)"
  from tr show "content_ok t"
  proof (cases rule: reserveAttemptAt_cases)
    case (leftover e)
    then show ?thesis using ok by (auto simp: content_ok_def empty_attempt_dir_def)
  next
    case (created m c)
    note f = fresh_dir_ok [OF created(4,5)]
    show ?thesis using ok f
      by (auto simp: created(6) content_ok_def cleanup_ok_def deriveCleanupStatus_def)
  qed (use ok in auto)
qed

lemma keeps_make_attempts_root [keeps_rules]: "keeps content_ok (make_attempts_root j)"
  by (rule keepsI) (metis content_ok_same make_attempts_root_frame)

lemma keeps_reserve_from [keeps_rules]: "keeps content_ok (reserve_from now stg contract lin op n k)"
  by (induction k arbitrary: n) (simp_all only: reserve_from.simps, (intro keeps_rules | assumption)+)

lemma keeps_reserveAttempt [keeps_rules]: "keeps content_ok (reserveAttempt now stg contract lin op)"
  unfolding reserveAttempt_def by (intro keeps_rules)

lemma keeps_reserveJob [keeps_rules]: "keeps content_ok (reserveJob sha256 lc contract)"
proof (rule keepsI)
  fix s r t assume ok: "content_ok s" and tr: "reserveJob sha256 lc contract s = (r, t)"
  have "get_attempt t j a = get_attempt s j a" for j a
    using tr by (auto simp: reserveJob_def get_attempt_put_job safeSegment_def get_attempt_empty_job
        split: if_splits sum.splits)
  then show "content_ok t" using ok content_ok_same by blast
qed

lemma reachable_content_ok: "artifact_reachable s \<Longrightarrow> content_ok s"
proof -
  have one: "content_ok s \<Longrightarrow> artifact_step s t \<Longrightarrow> content_ok t" for s t
    by (erule artifact_step.cases) (metis keepsD keeps_reserveJob keeps_make_attempts_root keeps_reserveAttemptAt
        keeps_transitionAttempt keeps_registerAttemptCleanupRequirement keeps_appendAttemptCleanupEvidence)+
  have "artifact_step\<^sup>*\<^sup>* s t \<Longrightarrow> content_ok s \<Longrightarrow> content_ok t" for s t
    by (induction rule: rtranclp_induct) (use one in blast)+
  then show "artifact_reachable s \<Longrightarrow> content_ok s"
    unfolding artifact_reachable_def using content_ok_empty by blast
qed

end
