(* ===== verification/Artifact_Properties.thy ===== *)
theory Artifact_Properties
  imports Artifact_Store
begin

text \<open>
  What the artifact store promises its clients, over every sequence of its operations by any
  number of processes: terminal attempts are immutable, one writer wins a revision, cleanup records
  stay consistent and only grow, reservations are bounded and find the first free ordinal, and
  reserving a job is idempotent. The sample store at the start is the concrete input of the
  witnesses.
\<close>

subsection \<open>A sample store\<close>

definition sample_job :: job_contract where
  "sample_job = sample_contract\<lparr>jc_jobId := ''job_1'', jc_adapterId := ''local''\<rparr>"

definition sample_manifest :: attempt_manifest where
  "sample_manifest = projr (createReservedAttempt ''job_1'' ''job_1_a0001'' 1 ''local'' 5
     (attempt_artifacts_of (empty_store ''/r'') ''job_1'' ''job_1_a0001'') None None)"

definition sample_store :: artifact_store where
  "sample_store = snd (reserveAttemptAt 5 ''7-u'' sample_job 1 None None (empty_store ''/r''))"

lemma sample_job_simps [simp]: "jc_jobId sample_job = ''job_1''" "jc_adapterId sample_job = ''local''"
    "jc_resources sample_job = jc_resources sample_contract"
  by (simp_all add: sample_job_def)

lemma sample_attempt_id [simp]: "attempt_id ''job_1'' (Suc 0) = ''job_1_a0001''"
  by (simp add: attempt_id_def padStart_def show_nat.simps digit_char_def numeral_eq_Suc)

lemma get_attempt_empty [simp]: "get_attempt (empty_store d) j a = None"
  by (simp add: get_attempt_def attempt_entries_def get_job_def empty_store_def empty_job_dir_def)

lemma sample_segments [simp]: "is_safe_segment ''job_1''" "is_safe_segment ''job_1_a0001''"
  by (simp_all add: is_safe_segment_def safe_chars_def)

lemma sample_create [simp]:
  "createReservedAttempt ''job_1'' ''job_1_a0001'' (Suc 0) ''local'' 5
     (attempt_artifacts_of (empty_store ''/r'') ''job_1'' ''job_1_a0001'') None None = Inr sample_manifest"
  by (simp add: sample_manifest_def createReservedAttempt_def Let_def validity_defs attempt_artifacts_of_def
      path_join_def jobPath_def attemptManifestPath_def attemptDirectory_def attemptsRoot_def jobDirectory_def jobsRoot_def)

definition sample_cleanup_record :: attempt_cleanup_record where
  "sample_cleanup_record = \<lparr>cr_attemptId = ''job_1_a0001'', cr_jobId = ''job_1'', cr_revision = 0, cr_updatedAt = 5,
     cr_status = C_NotRequired, cr_requirements = [], cr_evidence = []\<rparr>"

lemma sample_cleanup_create [simp]:
  "createAttemptCleanupRecord ''job_1_a0001'' ''job_1'' 5 = Inr sample_cleanup_record"
  by (simp add: createAttemptCleanupRecord_def attemptCleanupRecord_valid_def sample_cleanup_record_def)

lemma sample_reserve:
  "reserveAttemptAt 5 ''7-u'' sample_job 1 None None (empty_store ''/r'') =
     (Inr \<lparr>rv_manifest = sample_manifest,
        rv_directory = attemptDirectory (empty_store ''/r'') ''job_1'' ''job_1_a0001'', rv_created = True\<rparr>, sample_store)"
  and sample_store_eq: "sample_store = put_attempt ''job_1'' ''job_1_a0001''
     \<lparr>ad_manifest = fresh_journaled sample_manifest, ad_cleanup = fresh_journaled sample_cleanup_record\<rparr>
     (empty_store ''/r'')"
  by (simp_all add: sample_store_def reserveAttemptAt_def Let_def safeSegment_def)

lemma sample_reachable: "artifact_reachable sample_store"
  unfolding artifact_reachable_def using artifact_step.reserve_attempt [OF sample_reserve] by blast

lemma sample_read: "readAttempt sample_store ''job_1'' ''job_1_a0001'' = Inr sample_manifest"
    "readAttemptCleanup sample_store ''job_1'' ''job_1_a0001'' = Inr sample_cleanup_record"
  by (simp_all add: readAttempt_conv readAttemptCleanup_conv sample_store_eq)

lemma sample_manifest_facts [simp]: "am_jobId sample_manifest = ''job_1''"
    "am_attemptId sample_manifest = ''job_1_a0001''" "am_revision sample_manifest = 0"
    "am_status sample_manifest = AReserved" "attemptManifest_valid sample_manifest"
  using fresh_dir_ok [OF sample_create sample_cleanup_create] by simp_all

definition cancel_patch :: "attempt_manifest \<Rightarrow> attempt_manifest" where
  "cancel_patch m = m\<lparr>am_status := ACancelled, am_finishedAt := Some 9\<rparr>"

definition cancelled_store :: artifact_store where
  "cancelled_store = snd (transitionAttempt no_failpoint sample_manifest cancel_patch sample_store)"

lemma sample_cancel:
  "transitionAttempt no_failpoint sample_manifest cancel_patch sample_store =
     (Inr (patched sample_manifest cancel_patch), cancelled_store)"
  "readAttempt cancelled_store ''job_1'' ''job_1_a0001'' = Inr (patched sample_manifest cancel_patch)"
proof -
  have ok: "store_ok sample_store" using reachable_inv [OF sample_reachable] by (simp add: store_inv_def)
  obtain r t where tr: "transitionAttempt no_failpoint sample_manifest cancel_patch sample_store = (r, t)"
    by fastforce
  have valid: "attemptManifest_valid (patched sample_manifest cancel_patch)"
    using sample_manifest_facts(5) by (simp add: attemptManifest_valid_def patched_def cancel_patch_def)
  have "r = Inr (patched sample_manifest cancel_patch)"
    using tr sample_read(1) valid
    by (auto simp: transitionAttempt_def assertAttemptTransition_def patched_def cancel_patch_def
        sample_store_eq on_manifest_def bindA_def commitTransition_def tentries_def fresh_journaled_def
        no_failpoint_def Let_def)
  moreover have "t = cancelled_store" using tr by (simp add: cancelled_store_def)
  ultimately show "transitionAttempt no_failpoint sample_manifest cancel_patch sample_store =
      (Inr (patched sample_manifest cancel_patch), cancelled_store)"
    and "readAttempt cancelled_store ''job_1'' ''job_1_a0001'' = Inr (patched sample_manifest cancel_patch)"
    using transitionAttempt_Inr [OF ok _ tr] tr by auto
qed

lemma cancelled_reachable: "artifact_reachable cancelled_store"
  using sample_reachable artifact_step.transition [OF _ sample_cancel(1)]
  unfolding artifact_reachable_def by (auto intro: rtranclp.rtrancl_into_rtrancl)

subsection \<open>Attempts\<close>

text \<open>
  C4. Once an attempt is completed, failed, waiting for input or cancelled, every later read returns
  exactly that manifest: no sequence of store operations by any processes, stale or racing or cut
  off by a failpoint, changes it or makes it unreadable.
\<close>

theorem terminal_attempt_immutable:
  assumes "artifact_reachable s" and "artifact_step\<^sup>*\<^sup>* s t"
    and "readAttempt s j a = Inr v" and "isAttemptTerminal (am_status v)"
  shows "readAttempt t j a = Inr v"
  using attempt_steps [OF assms(2) reachable_inv [OF assms(1)] assms(3)] attempt_moves_terminal assms(4) by blast

theorem terminal_attempt_immutable_witness:
  "readAttempt (snd (make_attempts_root ''job_1'' cancelled_store)) ''job_1'' ''job_1_a0001'' =
     Inr (patched sample_manifest cancel_patch)"
proof -
  have st: "artifact_step cancelled_store (snd (make_attempts_root ''job_1'' cancelled_store))"
    by (rule artifact_step.make_root [OF surjective_pairing])
  have "isAttemptTerminal (am_status (patched sample_manifest cancel_patch))"
    by (simp add: patched_def cancel_patch_def)
  then show ?thesis
    by (rule terminal_attempt_immutable [OF cancelled_reachable r_into_rtranclp [of artifact_step, OF st] sample_cancel(2)])
qed

text \<open>
  C9. An attempt that was once readable stays readable under its identifiers, its revision never
  goes back, and its status only moves along the table of allowed transitions.
\<close>

theorem attempt_status_follows_table:
  assumes "artifact_reachable s" and "artifact_step\<^sup>*\<^sup>* s t" and "readAttempt s j a = Inr v"
  shows "\<exists>v'. readAttempt t j a = Inr v' \<and> am_jobId v' = j \<and> am_attemptId v' = a \<and>
     am_revision v \<le> am_revision v' \<and> (am_revision v' = am_revision v \<longrightarrow> v' = v) \<and>
     (\<lambda>x y. y \<in> set (allowedAttemptTransitions x))\<^sup>*\<^sup>* (am_status v) (am_status v')"
proof -
  have inv: "store_inv s" using assms(1) by (rule reachable_inv)
  obtain v' where v': "readAttempt t j a = Inr v'" "attempt_moves\<^sup>*\<^sup>* v v'"
    using attempt_steps [OF assms(2) inv assms(3)] by blast
  have "am_revision v \<le> am_revision v' \<and> (am_revision v' = am_revision v \<longrightarrow> v' = v) \<and>
     (\<lambda>x y. y \<in> set (allowedAttemptTransitions x))\<^sup>*\<^sup>* (am_status v) (am_status v')"
    using v'(2)
  proof (induction rule: rtranclp_induct)
    case (step x y)
    then show ?case
      by (auto simp: attempt_moves_def intro: rtranclp.rtrancl_into_rtrancl)
  qed simp
  then show ?thesis using v'(1) artifact_steps_inv [OF assms(2) inv] by (auto simp: store_inv_def)
qed

theorem attempt_status_follows_table_witness:
  "\<exists>v'. readAttempt cancelled_store ''job_1'' ''job_1_a0001'' = Inr v' \<and> am_jobId v' = ''job_1'' \<and>
     am_revision sample_manifest \<le> am_revision v' \<and>
     (\<lambda>x y. y \<in> set (allowedAttemptTransitions x))\<^sup>*\<^sup>* AReserved (am_status v')"
proof -
  have st: "artifact_step sample_store cancelled_store"
    by (rule artifact_step.transition [OF _ sample_cancel(1)]) simp
  show ?thesis
    using attempt_status_follows_table [OF sample_reachable r_into_rtranclp [of artifact_step, OF st] sample_read(1)]
    by auto
qed

text \<open>
  Of two processes that hold the same manifest, one writes: after a successful transition the
  other's transition from that manifest fails and changes nothing that is read.
\<close>

theorem one_writer_per_attempt_revision:
  assumes "artifact_reachable s" and "Suc (am_revision v) < revision_limit"
    and "transitionAttempt no_failpoint v p s = (Inr v', t)"
  shows "\<exists>e u. transitionAttempt no_failpoint v q t = (Inl e, u) \<and> readAttempt u j a = readAttempt t j a"
proof -
  have ok: "store_ok s" using reachable_inv [OF assms(1)] by (simp add: store_inv_def)
  have okt: "store_ok t" using attempts.upd_invar [OF ok assms(2,3)] .
  obtain e u where eu: "transitionAttempt no_failpoint v q t = (Inl e, u)"
    using attempts.one_writer_per_revision [OF ok assms(2,3), of q]
    by (metis prod.exhaust_sel)
  then show ?thesis
    using transitionAttempt_Inr [OF okt assms(2) eu] by auto
qed

theorem one_writer_per_attempt_revision_witness:
  "\<exists>e u. transitionAttempt no_failpoint sample_manifest (\<lambda>m. m\<lparr>am_status := AClaimed\<rparr>) cancelled_store = (Inl e, u) \<and>
     readAttempt u ''job_1'' ''job_1_a0001'' = readAttempt cancelled_store ''job_1'' ''job_1_a0001''"
  by (rule one_writer_per_attempt_revision [OF sample_reachable _ sample_cancel(1)]) simp

subsection \<open>Cleanup records\<close>

text \<open>
  In every reachable store a readable cleanup record carries the status derived from its
  requirements and evidence, one requirement per subject, evidence only for registered subjects and
  no observation twice; and no later operation withdraws a requirement or an observation.
\<close>

theorem cleanup_record_consistent:
  assumes "artifact_reachable s" and "artifact_step\<^sup>*\<^sup>* s t" and "readAttemptCleanup s j a = Inr c"
  shows "cleanup_ok c \<and> (\<exists>c'. readAttemptCleanup t j a = Inr c' \<and> cleanup_ok c' \<and> cleanup_grows c c')"
proof -
  have inv: "store_inv s" using assms(1) by (rule reachable_inv)
  obtain c' where c': "readAttemptCleanup t j a = Inr c'" "cleanup_grows c c'"
    using cleanup_steps [OF assms(2) inv assms(3)] by blast
  then show ?thesis
    using assms(3) inv artifact_steps_inv [OF assms(2) inv] unfolding store_inv_def by blast
qed

theorem cleanup_record_consistent_witness:
  "\<exists>c'. readAttemptCleanup cancelled_store ''job_1'' ''job_1_a0001'' = Inr c' \<and> cleanup_ok c'"
proof -
  have st: "artifact_step sample_store cancelled_store"
    by (rule artifact_step.transition [OF _ sample_cancel(1)]) simp
  show ?thesis
    using cleanup_record_consistent [OF sample_reachable r_into_rtranclp [of artifact_step, OF st] sample_read(2)]
    by blast
qed

subsection \<open>Reservations\<close>

lemma make_attempts_root_Inr:
  assumes "is_safe_segment j"
  obtains t where "make_attempts_root j s = (Inr (), t)" and "as_root t = as_root s"
  using assms by (auto simp: make_attempts_root_def safeSegment_def put_job_def)

text \<open>
  A reservation that succeeds creates a new attempt in the reserved state at the first free
  ordinal, which is within the job's attempt budget, and leaves every other attempt directory as it
  was; its identifier is found again by \<open>findAttempt\<close>.
\<close>

theorem reserveAttempt_first_free:
  assumes "artifact_reachable s" and "reserveAttempt now stg contract lin op s = (Inr rv, t)"
    and "jc_jobId contract \<noteq> []"
  shows "\<exists>i. 1 \<le> i \<and> int i \<le> rl_maxAttemptsPerJob (jc_resources contract) \<and> rv_created rv \<and>
     (\<forall>i'. 1 \<le> i' \<and> i' < i \<longrightarrow> get_attempt s (jc_jobId contract) (attempt_id (jc_jobId contract) i') \<noteq> None) \<and>
     get_attempt s (jc_jobId contract) (attempt_id (jc_jobId contract) i) = None \<and>
     findAttempt t (attempt_id (jc_jobId contract) i) = Inr (rv_manifest rv) \<and>
     am_ordinal (rv_manifest rv) = i \<and> am_status (rv_manifest rv) = AReserved \<and>
     (\<forall>j a d. get_attempt s j a = Some d \<longrightarrow> get_attempt t j a = Some d)"
proof -
  let ?j = "jc_jobId contract"
  obtain s1 where s1: "make_attempts_root ?j s = (Inr (), s1)"
    and rf: "reserve_from now stg contract lin op 1 (nat (rl_maxAttemptsPerJob (jc_resources contract))) s1 = (Inr rv, t)"
    using assms(2) by (auto simp: reserveAttempt_def bindA_eq_Inr)
  note frame = make_attempts_root_frame [OF s1]
  from get_attempt_taken_after [OF rf] frame findAttempt_attempt_id [OF assms(3)]
  show ?thesis by (auto simp: le_nat_iff)
qed

lemma digit_facts: "is_digit c \<Longrightarrow> c \<in> set safe_chars" "is_digit c \<Longrightarrow> c \<noteq> CHR ''.''"
proof -
  have "set ''0123456789'' \<subseteq> set safe_chars - {CHR ''.''}" by (simp add: safe_chars_def)
  then show "is_digit c \<Longrightarrow> c \<in> set safe_chars" "is_digit c \<Longrightarrow> c \<noteq> CHR ''.''"
    unfolding is_digit_def by blast+
qed

lemma attempt_id_chars: "set (attempt_id j n) \<subseteq> set j \<union> {CHR ''_'', CHR ''a''} \<union> {c. is_digit c}"
  using ordinal_digits [of n] unfolding attempt_id_def list_all_iff set_append by auto

lemma attempt_id_safe:
  assumes "is_safe_segment j"
  shows "is_safe_segment (attempt_id j n)"
proof -
  have "{CHR ''_'', CHR ''a''} \<subseteq> set safe_chars" by (simp add: safe_chars_def)
  moreover have "set j \<subseteq> set safe_chars" using assms unfolding is_safe_segment_def list_all_iff by blast
  moreover have "{c. is_digit c} \<subseteq> set safe_chars" using digit_facts(1) by blast
  ultimately have "set (attempt_id j n) \<subseteq> set safe_chars"
    by (intro order_trans [OF attempt_id_chars] Un_least)
  moreover have "attempt_id j n \<noteq> []" by (simp add: attempt_id_def)
  ultimately show ?thesis unfolding is_safe_segment_def list_all_iff by blast
qed

lemma attempt_id_not_staging:
  assumes "CHR ''.'' \<notin> set j"
  shows "\<not> is_staging (attempt_id j n)"
proof -
  have "CHR ''.'' \<notin> set (attempt_id j n)"
    using assms attempt_id_chars [of j n] digit_facts(2) by auto
  then show ?thesis by (auto simp: is_staging_def sublist_def)
qed

lemma create_attempt_ok:
  assumes "j \<noteq> []" and "a \<noteq> []" and "0 < n" and "adapter \<noteq> []"
    and "case lin of None \<Rightarrow> True | Some l \<Rightarrow> proposalLineage_valid l"
  shows "\<exists>m. createReservedAttempt j a n adapter now (attempt_artifacts_of s j a) lin op = Inr m"
    and "\<exists>c. createAttemptCleanupRecord a j now = Inr c"
  using assms
  by (auto simp: createReservedAttempt_def createAttemptCleanupRecord_def Let_def attemptManifest_valid_def
      attemptCleanupRecord_valid_def artifacts_valid_def attempt_artifacts_of_def path_join_def opt_nonempty_def
      attemptManifestPath_def jobPath_def)

text \<open>What a reservation needs besides a free ordinal: usable names and a schema-valid manifest.\<close>

definition reservable :: "string \<Rightarrow> job_contract \<Rightarrow> proposal_lineage option \<Rightarrow> artifact_store \<Rightarrow> bool" where
  "reservable stg contract lin s \<longleftrightarrow>
     is_safe_segment (jc_jobId contract) \<and> CHR ''.'' \<notin> set (jc_jobId contract) \<and> jc_adapterId contract \<noteq> [] \<and>
     (case lin of None \<Rightarrow> True | Some l \<Rightarrow> proposalLineage_valid l) \<and>
     (\<forall>n. get_attempt s (jc_jobId contract) (staging_name (attempt_id (jc_jobId contract) n) stg) = None)"

lemma reserveAttemptAt_progress:
  assumes ok: "store_ok s" and rs: "reservable stg contract lin s" and n: "0 < n"
  shows "\<exists>rv t. reserveAttemptAt now stg contract n lin op s = (Inr rv, t) \<and>
     rv_created rv = (get_attempt s (jc_jobId contract) (attempt_id (jc_jobId contract) n) = None) \<and>
     (\<not> rv_created rv \<longrightarrow> t = s)"
proof -
  let ?j = "jc_jobId contract" and ?a = "attempt_id (jc_jobId contract) n"
  have safe: "is_safe_segment ?j" "is_safe_segment ?a" and ne: "?j \<noteq> []" "?a \<noteq> []"
    using rs attempt_id_safe [of ?j n] by (auto simp: reservable_def is_safe_segment_def)
  obtain m where m: "createReservedAttempt ?j ?a n (jc_adapterId contract) now (attempt_artifacts_of s ?j ?a) lin op = Inr m"
    using create_attempt_ok(1) [OF ne n, of "jc_adapterId contract" lin] rs unfolding reservable_def by blast
  obtain c where c: "createAttemptCleanupRecord ?a ?j now = Inr c"
    using create_attempt_ok(2) [OF ne n, of "jc_adapterId contract" lin] rs unfolding reservable_def by blast
  note D = reserveAttemptAt_def Let_def safeSegment_def safe m c
  show ?thesis
  proof (cases "get_attempt s ?j ?a")
    case None
    then show ?thesis using rs by (simp add: D reservable_def)
  next
    case (Some d)
    have "record_ok am_revision (ad_manifest d)"
      using store_okD(3) [OF ok Some] attempt_id_not_staging rs by (auto simp: dir_ok_def reservable_def)
    then obtain v where "readAttempt s ?j ?a = Inr v"
      using record_ok_read [of am_revision "ad_manifest d"] Some safe by (metis readAttempt_conv)
    then show ?thesis using rs Some by (simp add: D reservable_def)
  qed
qed

lemma reserve_from_progress:
  assumes "store_ok s" and "reservable stg contract lin s" and "0 < n" and "n \<le> i" and "i < n + k"
    and "get_attempt s (jc_jobId contract) (attempt_id (jc_jobId contract) i) = None"
  shows "\<exists>rv t. reserve_from now stg contract lin op n k s = (Inr rv, t)"
  using assms
proof (induction k arbitrary: n)
  case (Suc k)
  obtain rv t where one: "reserveAttemptAt now stg contract n lin op s = (Inr rv, t)"
    and cr: "rv_created rv = (get_attempt s (jc_jobId contract) (attempt_id (jc_jobId contract) n) = None)"
    and t: "\<not> rv_created rv \<longrightarrow> t = s"
    using reserveAttemptAt_progress [OF Suc.prems(1-3)] by blast
  show ?case
  proof (cases "rv_created rv")
    case True
    then show ?thesis using one by (simp add: bindA_def)
  next
    case False
    then have "n \<noteq> i" using cr Suc.prems(6) by auto
    then show ?thesis
      using one t False Suc.IH [of "Suc n"] Suc.prems by (simp add: bindA_def)
  qed
qed simp

lemma reservable_make_root:
  "make_attempts_root j s = (r, t) \<Longrightarrow> reservable stg contract lin t = reservable stg contract lin s"
  by (simp add: reservable_def make_attempts_root_frame)

lemma reserveAttempt_succeeds:
  assumes "artifact_reachable s" and "reservable stg contract lin s"
    and "1 \<le> i" and "int i \<le> rl_maxAttemptsPerJob (jc_resources contract)"
    and "get_attempt s (jc_jobId contract) (attempt_id (jc_jobId contract) i) = None"
  shows "\<exists>rv t. reserveAttempt now stg contract lin op s = (Inr rv, t)"
proof -
  have safe: "is_safe_segment (jc_jobId contract)" using assms(2) by (simp add: reservable_def)
  obtain s1 where s1: "make_attempts_root (jc_jobId contract) s = (Inr (), s1)"
    using make_attempts_root_Inr [OF safe] by blast
  have "artifact_reachable s1"
    using assms(1) artifact_step.make_root [OF s1] unfolding artifact_reachable_def
    by (meson rtranclp.rtrancl_into_rtrancl)
  then have ok: "store_ok s1" using reachable_inv by (simp add: store_inv_def)
  have "\<exists>rv t. reserve_from now stg contract lin op 1 (nat (rl_maxAttemptsPerJob (jc_resources contract))) s1 = (Inr rv, t)"
    by (rule reserve_from_progress [OF ok _ _ assms(3)])
      (use assms reservable_make_root [OF s1] make_attempts_root_frame [OF s1] in \<open>auto simp: le_nat_iff\<close>)
  then show ?thesis using s1 by (simp add: reserveAttempt_def bindA_def)
qed

text \<open>
  While one ordinal of the budget is free, a reservation succeeds: leftovers of crashed
  reservations and any number of earlier attempts, in whatever state, never block it.
\<close>

theorem reserveAttempt_progress:
  assumes "artifact_reachable s" and "reservable stg contract lin s"
    and "1 \<le> i" and "int i \<le> rl_maxAttemptsPerJob (jc_resources contract)"
    and "get_attempt s (jc_jobId contract) (attempt_id (jc_jobId contract) i) = None"
  shows "\<exists>rv t. reserveAttempt now stg contract lin op s = (Inr rv, t)"
  using assms by (rule reserveAttempt_succeeds)

lemma sample_resources: "resource_limits.truncate (jc_resources sample_contract) =
    (op_limits DEFAULT_OWNER_RESOURCE_PROFILE)\<lparr>rl_attemptTimeoutMs := ex_timeoutMs (jc_execution sample_contract)\<rparr>"
  using freezeResourceBudget_cases(3) [OF freezeJobRequest_Inr(4) [OF sample_freeze]]
    freezeJobRequest_Inr(5) [OF sample_freeze] by (simp add: min.commute)

lemma sample_budget: "rl_maxAttemptsPerJob (jc_resources sample_contract) = 16"
    "rl_maxLineageContributions (jc_resources sample_contract) = rl_maxLineageContributions (op_limits DEFAULT_OWNER_RESOURCE_PROFILE)"
    "rl_maxArtifactBytes (jc_resources sample_contract) = rl_maxArtifactBytes (op_limits DEFAULT_OWNER_RESOURCE_PROFILE)"
    "rl_maxAutomaticRetries (jc_resources sample_contract) = 1"
  using arg_cong [OF sample_resources, of rl_maxAttemptsPerJob] arg_cong [OF sample_resources, of rl_maxLineageContributions]
    arg_cong [OF sample_resources, of rl_maxArtifactBytes] arg_cong [OF sample_resources, of rl_maxAutomaticRetries]
  by (simp_all add: DEFAULT_OWNER_RESOURCE_PROFILE_def resource_limits.defs)

lemma sample_attempt_id2: "attempt_id ''job_1'' 2 = ''job_1_a0002''"
  by (simp add: attempt_id_def padStart_def show_nat.simps digit_char_def numeral_eq_Suc)

lemma sample_reservable: "reservable ''8-v'' sample_job None sample_store"
proof -
  have "staging_name (attempt_id ''job_1'' n) ''8-v'' \<noteq> ''job_1_a0001''" for n
  proof
    assume "staging_name (attempt_id ''job_1'' n) ''8-v'' = ''job_1_a0001''"
    then have "CHR ''.'' \<in> set ''job_1_a0001''" by (metis staging_name_def in_set_conv_decomp append_Cons)
    then show False by simp
  qed
  then show ?thesis by (simp add: reservable_def sample_store_eq)
qed

theorem reserveAttempt_progress_witness:
  "\<exists>rv t. reserveAttempt 6 ''8-v'' sample_job None None sample_store = (Inr rv, t)"
  by (rule reserveAttempt_progress [OF sample_reachable sample_reservable, of 2])
    (simp_all add: sample_budget sample_attempt_id2 sample_store_eq)

theorem reserveAttempt_first_free_witness:
  "\<exists>rv t i. reserveAttempt 6 ''8-v'' sample_job None None sample_store = (Inr rv, t) \<and> 1 \<le> i \<and> int i \<le> 16 \<and>
     get_attempt sample_store ''job_1'' (attempt_id ''job_1'' i) = None \<and>
     findAttempt t (attempt_id ''job_1'' i) = Inr (rv_manifest rv)"
proof -
  have "get_attempt sample_store ''job_1'' (attempt_id ''job_1'' 2) = None"
    by (simp add: sample_attempt_id2 sample_store_eq)
  then obtain rv t where r: "reserveAttempt 6 ''8-v'' sample_job None None sample_store = (Inr rv, t)"
    using reserveAttempt_succeeds [OF sample_reachable sample_reservable, of 2 6 None] by (auto simp: sample_budget)
  have "\<exists>i\<ge>1. int i \<le> 16 \<and> get_attempt sample_store ''job_1'' (attempt_id ''job_1'' i) = None \<and>
     findAttempt t (attempt_id ''job_1'' i) = Inr (rv_manifest rv)"
    using reserveAttempt_first_free [OF sample_reachable r] by (simp add: sample_budget) blast
  then show ?thesis using r by blast
qed

subsection \<open>Jobs\<close>

text \<open>
  Reserving a job is idempotent: once a contract is stored, reserving its job again returns the
  stored contract when the request fingerprint is the same and refuses it when it differs, and
  neither changes the store.
\<close>

theorem reserveJob_idempotent:
  assumes "reserveJob sha256 lc c s = (Inr (c', True), t)"
    and "assertResourceBudgetIntegrity sha256 lc (jc_resources c) = Inr ()"
    and "jobContract_valid d" and "jc_jobId d = jc_jobId c"
  shows "c' = c \<and> readJob sha256 lc t (jc_jobId c) = Inr c \<and>
     reserveJob sha256 lc d t =
       (if jc_requestFingerprint d = jc_requestFingerprint c then Inr (c, False)
        else Inl (IdempotencyConflictError (jc_jobId c)), t)"
proof -
  have t: "c' = c" "is_safe_segment (jc_jobId c)"
    "t = put_job (jc_jobId c) \<lparr>jd_contract = Some (Parsed c), jd_attempts = None\<rparr> s"
    using assms(1) by (auto simp: reserveJob_def safeSegment_def split: if_splits sum.splits)
  then have rd: "readJob sha256 lc t (jc_jobId c) = Inr c"
    using assms(2) by (simp add: readJob_def safeSegment_def)
  moreover have "get_job t (jc_jobId c) \<noteq> empty_job_dir" by (simp add: t(3) empty_job_dir_def)
  ultimately show ?thesis
    using assms(3,4) t by (auto simp: reserveJob_def safeSegment_def)
qed

lemma sample_contract_facts:
  "jobContract_valid sample_job" "assertResourceBudgetIntegrity sample_sha256 default (jc_resources sample_job) = Inr ()"
  using freezeJobRequest_Inr(2) [OF sample_freeze]
    freeze_passes_integrity [OF freezeJobRequest_Inr(4) [OF sample_freeze] separates_default]
  by (simp_all add: sample_job_def jobContract_valid_def)

theorem reserveJob_idempotent_witness:
  "reserveJob sample_sha256 default (sample_job\<lparr>jc_requestFingerprint := ''other''\<rparr>)
     (snd (reserveJob sample_sha256 default (sample_job\<lparr>jc_requestFingerprint := ''one''\<rparr>) (empty_store ''/r''))) =
   (Inl (IdempotencyConflictError ''job_1''),
     snd (reserveJob sample_sha256 default (sample_job\<lparr>jc_requestFingerprint := ''one''\<rparr>) (empty_store ''/r'')))"
proof -
  let ?c = "sample_job\<lparr>jc_requestFingerprint := ''one''\<rparr>" and ?d = "sample_job\<lparr>jc_requestFingerprint := ''other''\<rparr>"
  have v: "jobContract_valid ?c" "jobContract_valid ?d"
    using sample_contract_facts(1) by (simp_all add: jobContract_valid_def)
  have r: "reserveJob sample_sha256 default ?c (empty_store ''/r'') =
      (Inr (?c, True), snd (reserveJob sample_sha256 default ?c (empty_store ''/r'')))"
    using v(1) by (simp add: reserveJob_def safeSegment_def get_job_def empty_store_def)
  show ?thesis
    using reserveJob_idempotent [OF r _ v(2)] sample_contract_facts(2) by simp
qed

subsection \<open>The latest attempt\<close>

text \<open>The store after a reservation of the second attempt died between its manifest and its rename.\<close>

definition crashed_store :: artifact_store where
  "crashed_store = put_attempt ''job_1'' ''job_1_a0002.reserve-8-v''
     \<lparr>ad_manifest = fresh_journaled (sample_manifest\<lparr>am_attemptId := ''job_1_a0002'', am_ordinal := 2\<rparr>),
      ad_cleanup = absent_journal\<rparr> sample_store"

lemma crashed_entries: "attempt_entries crashed_store ''job_1'' =
    [(''job_1_a0001'', \<lparr>ad_manifest = fresh_journaled sample_manifest, ad_cleanup = fresh_journaled sample_cleanup_record\<rparr>),
     (''job_1_a0002.reserve-8-v'',
      \<lparr>ad_manifest = fresh_journaled (sample_manifest\<lparr>am_attemptId := ''job_1_a0002'', am_ordinal := 2\<rparr>),
       ad_cleanup = absent_journal\<rparr>)]"
  by (simp add: crashed_store_def sample_store_eq put_attempt_def attempt_entries_put_job attempt_entries_def get_job_def
        put_job_def empty_store_def empty_job_dir_def)


end
