(* ===== verification/Conductor_Samples.thy ===== *)
theory Conductor_Samples
  imports Conductor Store_Content Artifact_Properties
begin

text \<open>
  Concrete states on which the conductor's theorems are applied: one job with one attempt, an
  environment whose probes all answer, and the runs of the handlers on them.
\<close>

declare guardA_apply [simp del] liftE_apply [simp del]

definition witness_env :: conductor_env where
  "witness_env = \<lparr>cv_now = 9, cv_instanceId = ''i1'', cv_pid = 7, cv_alive = (\<lambda>_. False), cv_aliveAfterGrace = (\<lambda>_. False),
     cv_sha256 = sample_sha256, cv_lc = default, cv_fp = no_failpoint, cv_uuid = (\<lambda>n. ''u0''),
     cv_adapter = (\<lambda>_. Inr \<lparr>dc_available = True, dc_hostExecution = None\<rparr>),
     cv_resolveSandbox = (\<lambda>_. Inl ZodError), cv_verifySandbox = (\<lambda>_. Inl ZodError),
     cv_inspectRepository = (\<lambda>_ _. Inl ZodError), cv_freeDisk = (\<lambda>_. Inr 0), cv_profile = DEFAULT_OWNER_RESOURCE_PROFILE,
     cv_readVerification = (\<lambda>_. Inr ((createVerificationRecord ''job_1'' ''job_1_a0001'' False False 5)\<lparr>vr_eligibleForReview := True\<rparr>)),
     cv_fileSize = (\<lambda>_. Inr 12), cv_hashFile = (\<lambda>p. Inr (replicate 64 (CHR ''f''))), cv_samePath = (=),
     cv_run = (\<lambda>_. \<lparr>ro_guardian = None, ro_result = Inl ZodError, ro_stderr = Inl ZodError\<rparr>),
     cv_removeWorkspace = (\<lambda>_. Inr ())\<rparr>"

definition once_journaled :: "'v \<Rightarrow> 'v journaled" where
  "once_journaled v = \<lparr>jl_projection = Some (Parsed v), jl_transitions = Some [(revision_name 1, Some (Parsed v))]\<rparr>"

lemma commit_fresh [simp]: "commitTransition no_failpoint k i 0 v (fresh_journaled u) = (Inr (), once_journaled v)"
  by (simp add: commitTransition_def Let_def fresh_journaled_def tentries_def no_failpoint_def once_journaled_def)

lemma read_once [simp]: "revisionOf v = Suc 0 \<Longrightarrow> read_journaled k l i revisionOf (once_journaled v) = Inr v"
  by (simp add: read_journaled_def once_journaled_def readLatestTransition_def at_last_def js_sort_def
      is_revision_name_revision_name parse_nat_revision_name Let_def)

definition witness_store :: "attempt_manifest journaled \<Rightarrow> attempt_cleanup_record journaled \<Rightarrow> artifact_store" where
  "witness_store m c = put_attempt ''job_1'' ''job_1_a0001'' \<lparr>ad_manifest = m, ad_cleanup = c\<rparr>
     (put_job ''job_1'' \<lparr>jd_contract = Some (Parsed sample_job), jd_attempts = None\<rparr> (empty_store ''/r''))"

definition witness_state :: "attempt_manifest \<Rightarrow> attempt_cleanup_record \<Rightarrow> conductor_state" where
  "witness_state m c = \<lparr>cd_store = witness_store (fresh_journaled m) (fresh_journaled c), cd_active = [], cd_aborted = [], cd_executions = [],
     cd_removals = [], cd_drawn = 0\<rparr>"

lemma witness_state_store [simp]: "cd_store (witness_state m c) = witness_store (fresh_journaled m) (fresh_journaled c)"
  by (simp add: witness_state_def)

lemma put_attempt_twice [simp]: "put_attempt j a d (put_attempt j a d' s) = put_attempt j a d s"
  by (simp add: put_attempt_def put_job_def attempt_entries_def get_job_def update_conv')

lemma witness_job [simp]: "readJob sample_sha256 default (witness_store mj cj) ''job_1'' = Inr sample_job"
  using sample_contract_facts(2) by (simp add: witness_store_def readJob_def safeSegment_def put_attempt_def)

lemma witness_reads [simp]:
  "get_attempt (witness_store mj cj) ''job_1'' ''job_1_a0001'' = Some \<lparr>ad_manifest = mj, ad_cleanup = cj\<rparr>"
  "readAttempt (witness_store mj cj) ''job_1'' ''job_1_a0001'' = read_journaled Attempt_Kind ''Attempt'' ''job_1_a0001'' am_revision mj"
  "readAttemptCleanup (witness_store mj cj) ''job_1'' ''job_1_a0001'' =
     read_journaled Attempt_Cleanup_Kind ''Attempt cleanup'' ''job_1_a0001'' cr_revision cj"
  "findAttempt (witness_store mj cj) ''job_1_a0001'' = read_journaled Attempt_Kind ''Attempt'' ''job_1_a0001'' am_revision mj"
  by (simp_all add: witness_store_def readAttempt_def readAttemptCleanup_def attempt_path_def safeSegment_def findAttempt_def)

lemma witness_put [simp]: "put_attempt ''job_1'' ''job_1_a0001'' \<lparr>ad_manifest = mj, ad_cleanup = cj\<rparr> (witness_store mj' cj') = witness_store mj cj"
  by (simp add: witness_store_def)

lemma witness_transition [simp]:
  assumes "am_jobId m = ''job_1''" "am_attemptId m = ''job_1_a0001''" "am_revision m = 0"
    "attemptManifest_valid (patched m p)" "am_status (p m) \<in> set (allowedAttemptTransitions (am_status m))"
  shows "transitionAttempt no_failpoint m p (witness_store (fresh_journaled m) cj) =
     (Inr (patched m p), witness_store (once_journaled (patched m p)) cj)"
  using assms by (simp add: transitionAttempt_def assertAttemptTransition_def on_manifest_def bindA_def patched_def Let_def)

lemma witness_cleanup_transition [simp]:
  assumes "cr_jobId c = ''job_1''" "cr_attemptId c = ''job_1_a0001''" "cr_revision c = 0"
    "attemptCleanupRecord_valid (patched_cleanup now rs es c)"
  shows "transitionAttemptCleanup no_failpoint now c rs es (witness_store mj (fresh_journaled c)) =
     (Inr (patched_cleanup now rs es c), witness_store mj (once_journaled (patched_cleanup now rs es c)))"
  using assms by (simp add: transitionAttemptCleanup_def on_cleanup_def bindA_def Let_def)

lemma witness_content_ok:
  assumes "\<And>m. recorded mj m \<Longrightarrow> am_jobId m = ''job_1'' \<and> am_attemptId m = ''job_1_a0001''"
    "\<And>c. recorded cj c \<Longrightarrow> cr_jobId c = ''job_1'' \<and> cr_attemptId c = ''job_1_a0001'' \<and> cleanup_ok c"
  shows "content_ok (witness_store mj cj)"
  using assms by (auto simp: content_ok_def witness_store_def get_attempt_put_job split: if_splits)

lemma witness_state_ok:
  assumes "am_jobId m = ''job_1''" "am_attemptId m = ''job_1_a0001''" "cr_jobId c = ''job_1''" "cr_attemptId c = ''job_1_a0001''"
    "cleanup_ok c"
  shows "content_ok (cd_store (witness_state m c))"
  unfolding witness_state_store by (rule witness_content_ok) (use assms in auto)

definition dead_guardian :: process_guardian where
  "dead_guardian = GuardianV2 \<lparr>gb_nonce = ''n'', gb_guardianPid = 42, gb_parentPid = 7, gb_createdAt = 3, gb_workerPid = None\<rparr>
     \<lparr>ct_kind = Windows_Job, ct_ownerPid = 42, ct_kernelEnforced = True, ct_killOnOwnerClose = True\<rparr>"

lemma sample_manifest_more [simp]: "am_guardian sample_manifest = None" "am_externalResources sample_manifest = []"
    "am_workspace sample_manifest = None" "am_dispatchOperationId sample_manifest = None" "am_lineage sample_manifest = None"
    "am_reviewDisposition sample_manifest = Not_Requested"
  by (simp_all add: sample_manifest_def createReservedAttempt_def Let_def validity_defs attempt_artifacts_of_def
      path_join_def jobPath_def attemptManifestPath_def attemptDirectory_def attemptsRoot_def jobDirectory_def jobsRoot_def)

lemma sample_cleanup_facts [simp]: "cr_jobId sample_cleanup_record = ''job_1''" "cr_attemptId sample_cleanup_record = ''job_1_a0001''"
    "cr_revision sample_cleanup_record = 0" "cr_evidence sample_cleanup_record = []" "cr_requirements sample_cleanup_record = []"
    "cr_status sample_cleanup_record = C_NotRequired"
  by (simp_all add: sample_cleanup_record_def)

definition worker_requirement :: cleanup_requirement where
  "worker_requirement = \<lparr>rq_subject = \<lparr>su_kind = Process_Tree, su_id = ''worker''\<rparr>, rq_registeredAt = 3, rq_deadlineMs = 5000,
       rq_guardian = Some dead_guardian\<rparr>"

definition running_cleanup :: attempt_cleanup_record where
  "running_cleanup = sample_cleanup_record\<lparr>cr_status := C_Pending, cr_requirements :=
     [worker_requirement]\<rparr>"


definition running :: attempt_manifest where
  "running = sample_manifest\<lparr>am_status := ARunning\<rparr>"

definition closure_evidence :: cleanup_evidence where
  "closure_evidence = \<lparr>ce_evidenceId = ''u0'', ce_subject = rq_subject worker_requirement, ce_status = EProven,
     ce_cleanupMethod = CM_Windows_Job_Owner_Exit, ce_observedAt = 9,
     ce_detail = Some ''Verified Windows Job owner is absent; kill-on-close enforces descendant termination'',
     ce_termination = Some \<lparr>pt_status = EProven, pt_termMethod = Windows_Job_Owner_Exit, pt_observedAt = 9, pt_detail = None\<rparr>\<rparr>"

definition closed_cleanup :: attempt_cleanup_record where
  "closed_cleanup = patched_cleanup 9 None (Some [closure_evidence]) running_cleanup"

lemma running_facts [simp]: "am_jobId running = ''job_1''" "am_attemptId running = ''job_1_a0001''" "am_revision running = 0"
    "am_status running = ARunning" "am_guardian running = None" "am_externalResources running = []" "am_workspace running = None"
  by (simp_all add: running_def)

lemma running_cleanup_facts [simp]: "cr_jobId running_cleanup = ''job_1''" "cr_attemptId running_cleanup = ''job_1_a0001''"
    "cr_revision running_cleanup = 0" "cr_evidence running_cleanup = []" "cr_requirements running_cleanup = [worker_requirement]"
  by (simp_all add: running_cleanup_def)

lemma closed_cleanup_facts [simp]: "cr_revision closed_cleanup = Suc 0" "cr_requirements closed_cleanup = [worker_requirement]"
    "cr_evidence closed_cleanup = [closure_evidence]" "cr_status closed_cleanup = C_Proven"
    "attemptCleanupRecord_valid closed_cleanup" "cleanupEvidence_valid closure_evidence"
  by (simp_all add: closed_cleanup_def patched_cleanup_def Let_def deriveCleanupStatus_def closure_evidence_def
      worker_requirement_def validity_defs in_range_def)

lemma freeze_host_job:
  assumes "freezeJobRequest sha lc r d rv now g None prof = Inr c" and "jr_executionBoundary r = HostWorktreeRequest"
  shows "ex_retainWorkspace (jc_execution c) = jr_retainWorkspace r" and "ex_boundary (jc_execution c) = HostWorktree"
    and "re_baseRevision (jc_repository c) = rv"
  using assms by (auto simp: freezeJobRequest_def Let_def split: if_splits sum.splits)

lemma sample_job_execution [simp]: "ex_retainWorkspace (jc_execution sample_job)" "ex_boundary (jc_execution sample_job) = HostWorktree"
    "re_baseRevision (jc_repository sample_job) = replicate 40 (CHR ''a'')"
  using freeze_host_job [OF sample_freeze] by (simp_all add: sample_job_def sample_request_def)

lemma closure_run:
  "append_closure_evidence witness_env running worker_requirement (witness_state running running_cleanup) =
   (Inr (), (witness_state running running_cleanup)\<lparr>cd_drawn := 1,
      cd_store := witness_store (fresh_journaled running) (once_journaled closed_cleanup)\<rparr>)"
proof -
  have "kernelClosure (cv_aliveAfterGrace witness_env) (rq_guardian worker_requirement)"
    by (simp add: kernelClosure_def worker_requirement_def dead_guardian_def witness_env_def)
  moreover have "appendAttemptCleanupEvidence no_failpoint 9 ''job_1'' ''job_1_a0001'' closure_evidence
      (witness_store (fresh_journaled running) (fresh_journaled running_cleanup)) =
      (Inr closed_cleanup, witness_store (fresh_journaled running) (once_journaled closed_cleanup))"
    using closed_cleanup_facts(5) by (simp add: appendAttemptCleanupEvidence_def closed_cleanup_def) (simp add: closure_evidence_def)
  ultimately show ?thesis
    by (simp add: append_closure_evidence_def appendCleanupEvidence_def bindA_def draw_def on_store_def witness_state_def
      witness_env_def closure_evidence_def)
qed

lemma finish_run: "\<exists>m t. finish_recovery witness_env ''job_1_a0001'' running ((witness_state running running_cleanup)\<lparr>cd_drawn := 1,
      cd_store := witness_store (fresh_journaled running) (once_journaled closed_cleanup)\<rparr>) = (Inr (D_Safe_To_Retry, m), t) \<and>
   (\<exists>mj cj. cd_store t = witness_store mj cj)"
proof -
  have v: "attemptManifest_valid (patched running (\<lambda>m. m\<lparr>am_status := AFailed, am_finishedAt := Some 9,
         am_verificationStatus := V_Ineligible,
         am_failure := Some \<lparr>fl_kind = FK_Orphaned,
           fl_message = ''Recorded process guardian is no longer alive; its ownership pipe closed before retry''\<rparr>\<rparr>))"
    using sample_manifest_facts(5) by (simp add: attemptManifest_valid_def patched_def running_def)
  show ?thesis
    using v
    by (simp add: finish_recovery_def cleanupExternalResources_def bindA_def readJobA_def witness_state_def witness_env_def
      update_attempt_def on_store_def getAttemptCleanup_def getAttempt_def) blast
qed

lemma recovery_run: "\<exists>m t. recoverInterruptedAttempt witness_env ''job_1_a0001'' (witness_state running running_cleanup) =
    (Inr (D_Safe_To_Retry, m), t) \<and> (\<exists>mj cj. cd_store t = witness_store mj cj)"
proof -
  have pr: "process_requirements running_cleanup = [worker_requirement]" "unproven_processes running_cleanup = [worker_requirement]"
    "unproven_processes closed_cleanup = []"
    by (simp_all add: process_requirements_def unproven_processes_def evidence_proven_def latestCleanupEvidence_observed
      observed_def worker_requirement_def closure_evidence_def)
  have al: "\<not> guardian_alive (cv_alive witness_env) worker_requirement"
    by (simp add: guardian_alive_def witness_env_def split: option.split)
  obtain m t where f: "finish_recovery witness_env ''job_1_a0001'' running ((witness_state running running_cleanup)\<lparr>cd_drawn := 1,
      cd_store := witness_store (fresh_journaled running) (once_journaled closed_cleanup)\<rparr>) = (Inr (D_Safe_To_Retry, m), t)"
    and st: "\<exists>mj cj. cd_store t = witness_store mj cj"
    using finish_run by blast
  have "recoverInterruptedAttempt witness_env ''job_1_a0001'' (witness_state running running_cleanup) = (Inr (D_Safe_To_Retry, m), t)"
    using f by (simp add: recoverInterruptedAttempt_def recover_launched_def recover_processes_def bindA_def catchA_def
      getAttempt_def getAttemptCleanup_def closure_run pr al)
  then show ?thesis using st by blast
qed

text \<open>A finished attempt with a retained work tree.\<close>

definition retained :: attempt_manifest where
  "retained = sample_manifest\<lparr>am_status := ACompleted, am_verificationStatus := V_Eligible,
     am_workspace := Some \<lparr>ws_path = ''/w'', ws_baseRevision = ''b'', ws_retained = True\<rparr>\<rparr>"

lemma retained_facts [simp]: "am_jobId retained = ''job_1''" "am_attemptId retained = ''job_1_a0001''" "am_revision retained = 0"
    "am_status retained = ACompleted" "am_externalResources retained = []" "am_verificationStatus retained = V_Eligible"
    "am_workspace retained = Some \<lparr>ws_path = ''/w'', ws_baseRevision = ''b'', ws_retained = True\<rparr>"
    "am_artifacts retained = am_artifacts sample_manifest" "am_lineage retained = None" "am_reviewDisposition retained = Not_Requested"
  by (simp_all add: retained_def)

lemma witness_env_facts [simp]: "cv_sha256 witness_env = sample_sha256" "cv_lc witness_env = default"
    "cv_fp witness_env = no_failpoint" "cv_now witness_env = 9" "cv_instanceId witness_env = ''i1''" "cv_pid witness_env = 7"
    "cv_adapter witness_env x = Inr \<lparr>dc_available = True, dc_hostExecution = None\<rparr>"
    "cv_removeWorkspace witness_env p = Inr ()" "cv_samePath witness_env = (=)"
    "cv_fileSize witness_env p = Inr 12" "cv_hashFile witness_env p = Inr (replicate 64 (CHR ''f''))"
  by (simp_all add: witness_env_def)

lemma release_run: "\<exists>m t. releaseAttemptExternalResources witness_env ''job_1_a0001'' (witness_state retained sample_cleanup_record) =
    (Inr m, t)"
  by (simp add: releaseAttemptExternalResources_def cleanupExternalResources_def bindA_def getAttempt_def getAttemptCleanup_def
    readJobA_def guardA_def)

text \<open>Once the tree is gone the rest of the request only records evidence.\<close>

lemma keeps_removals [keeps_rules]:
  "keeps (\<lambda>s. cd_removals s = p) (on_store m)" "keeps (\<lambda>s. cd_removals s = p) (draw env)"
  by (auto simp: keeps_def on_store_def draw_def split: prod.splits)

lemma workspaces_remove_records:
  assumes "cv_removeWorkspace env p = Inr ()" and "\<And>P. (\<And>x. keeps (\<lambda>s. cd_removals s = P) (f x))"
    and "\<And>P. (\<And>e. keeps (\<lambda>s. cd_removals s = P) (h e))"
  shows "cd_removals (snd (catchA (bindA (workspaces_remove env p) f) h s)) = p # cd_removals s"
proof -
  let ?s = "s\<lparr>cd_removals := p # cd_removals s\<rparr>"
  have "catchA (bindA (workspaces_remove env p) f) h s = catchA (f ()) h ?s"
    using assms(1) by (simp add: catchA_def bindA_def workspaces_remove_def)
  moreover have "keeps (\<lambda>s'. cd_removals s' = cd_removals ?s) (catchA (f ()) h)"
    using assms(2,3) by (intro keeps_rules)
  ultimately show ?thesis unfolding keeps_def by simp
qed

lemma remove_run: "cd_removals (snd (removeAttemptWorkspace witness_env ''job_1_a0001'' (witness_state retained sample_cleanup_record))) =
    [''/w'']"
proof -
  let ?s = "witness_state retained sample_cleanup_record"
  let ?rq = "\<lparr>rq_subject = worktree_subject, rq_registeredAt = 9, rq_deadlineMs = 30000, rq_guardian = None\<rparr>"
  let ?c = "patched_cleanup 9 (Some [?rq]) None sample_cleanup_record"
  let ?t = "?s\<lparr>cd_store := witness_store (fresh_journaled retained) (once_journaled ?c)\<rparr>"
  have "attemptCleanupRecord_valid ?c" "cleanupRequirement_valid ?rq"
    by (simp_all add: patched_cleanup_def Let_def validity_defs in_range_def worktree_subject_def)
  then have reg: "registerCleanupRequirement witness_env retained worktree_subject None ?s = (Inr ?c, ?t)"
    by (simp add: registerCleanupRequirement_def registerAttemptCleanupRequirement_def merge_requirement_def on_store_def
        worktree_subject_def Let_def)
  have np: "\<not> evidence_proven sample_cleanup_record worktree_subject"
    by (simp add: evidence_proven_def latestCleanupEvidence_observed observed_def)
  have "removeAttemptWorkspace witness_env ''job_1_a0001'' ?s = remove_worktree witness_env ''job_1_a0001'' retained ''/w'' ?s"
    by (simp add: removeAttemptWorkspace_def bindA_def getAttempt_def getAttemptCleanup_def cleanupExternalResources_def
        readJobA_def guardA_def assertWorkspaceRemovalSafe_def unresolved_subjects_def)
  moreover have "cd_removals (snd (remove_worktree witness_env ''job_1_a0001'' retained ''/w'' ?s)) = ''/w'' # cd_removals ?t"
    by (simp add: remove_worktree_def bindA_def getAttemptCleanup_def getAttempt_def np reg readJobA_def)
      (subst workspaces_remove_records, simp, unfold appendCleanupEvidence_def, (intro keeps_rules)+, simp)
  ultimately show ?thesis by (simp add: witness_state_def)
qed

lemma witness_reachable: "artifact_reachable (witness_store (fresh_journaled sample_manifest) (fresh_journaled sample_cleanup_record))"
proof -
  let ?s = "put_job ''job_1'' \<lparr>jd_contract = Some (Parsed sample_job), jd_attempts = None\<rparr> (empty_store ''/r'')"
  have "reserveJob sample_sha256 default sample_job (empty_store ''/r'') = (Inr (sample_job, True), ?s)"
    using sample_contract_facts(1) by (simp add: reserveJob_def safeSegment_def get_job_def empty_store_def)
  then have one: "artifact_step (empty_store ''/r'') ?s" by (rule artifact_step.reserve_job)
  have "attempt_artifacts_of ?s ''job_1'' ''job_1_a0001'' = attempt_artifacts_of (empty_store ''/r'') ''job_1'' ''job_1_a0001''"
    by (simp add: attempt_artifacts_of_def jobPath_def attemptManifestPath_def attemptDirectory_def attemptsRoot_def
        jobDirectory_def jobsRoot_def put_job_def)
  moreover have "get_attempt ?s j a = None" for j a
    by (simp add: get_attempt_put_job)
  ultimately have "reserveAttemptAt 5 ''7-u'' sample_job 1 None None ?s =
      (Inr \<lparr>rv_manifest = sample_manifest, rv_directory = attemptDirectory ?s ''job_1'' ''job_1_a0001'', rv_created = True\<rparr>,
       witness_store (fresh_journaled sample_manifest) (fresh_journaled sample_cleanup_record))"
    by (simp add: reserveAttemptAt_def Let_def safeSegment_def witness_store_def)
  then have "artifact_step ?s (witness_store (fresh_journaled sample_manifest) (fresh_journaled sample_cleanup_record))"
    by (rule artifact_step.reserve_attempt)
  then show ?thesis using one unfolding artifact_reachable_def by (meson r_into_rtranclp rtranclp_trans)
qed

lemma claim_run: "\<exists>r t. claimReservedAttempt witness_env ''job_1_a0001'' ''op1'' (witness_state sample_manifest sample_cleanup_record) = (Inr r, t)"
proof -
  let ?p = "\<lambda>m. m\<lparr>am_status := AClaimed, am_dispatchOperationId := Some ''op1'',
      am_launchOwner := Some \<lparr>lo_instanceId = ''i1'', lo_processId = 7, lo_claimedAt = 9\<rparr>\<rparr>"
  have v: "attemptManifest_valid (patched sample_manifest ?p)"
    using sample_manifest_facts(5) by (simp add: attemptManifest_valid_def patched_def)
  show ?thesis
    using v by (simp add: claimReservedAttempt_def bindA_def getAttempt_def readJobA_def guardA_def truthy_def liftE_apply
        update_attempt_def on_store_def summarize_def Let_def)
qed

lemma witness_verification [simp]: "\<exists>v. cv_readVerification witness_env p = Inr v \<and> vr_eligibleForReview v"
  by (simp add: witness_env_def)

definition retained_contribution :: proposal_contribution where
  "retained_contribution = \<lparr>pcn_jobId = ''job_1'', pcn_attemptId = ''job_1_a0001'',
     pcn_jobRequestFingerprint = jc_requestFingerprint sample_job, pcn_sourceBaseRevision = replicate 40 (CHR ''a''),
     pcn_patchBaseRevision = ''b'', pcn_patchPath = ar_proposalPatch (am_artifacts sample_manifest),
     pcn_patchSha256 = replicate 64 (CHR ''f''), pcn_patchBytes = 12,
     pcn_verificationPath = ar_verification (am_artifacts sample_manifest), pcn_verificationSha256 = replicate 64 (CHR ''f'')\<rparr>"

lemma bind_run: "bindProposalContribution witness_env sample_job retained (witness_state retained sample_cleanup_record) =
    (Inr retained_contribution, witness_state retained sample_cleanup_record)"
proof -
  obtain v where "cv_readVerification witness_env (ar_verification (am_artifacts sample_manifest)) = Inr v" "vr_eligibleForReview v"
    using witness_verification by blast
  then show ?thesis
    by (simp add: bindProposalContribution_def getVerification_def bindA_def getAttempt_def readJobA_def guardA_def liftE_apply
        retained_contribution_def)
qed

lemma retained_contribution_facts [simp]: "pcn_attemptId retained_contribution = ''job_1_a0001''"
    "pcn_jobId retained_contribution = ''job_1''" "pcn_patchBytes retained_contribution = 12"
  by (simp_all add: retained_contribution_def)

lemma sample_lineage_budget: "1 \<le> rl_maxLineageContributions (jc_resources sample_contract)"
    "12 \<le> rl_maxArtifactBytes (jc_resources sample_contract)"
  by (simp_all add: sample_budget DEFAULT_OWNER_RESOURCE_PROFILE_def)

lemma lineage_run: "\<exists>l. buildProposalLineage witness_env sample_job [''job_1_a0001''] (witness_state retained sample_cleanup_record) =
    (Inr l, witness_state retained sample_cleanup_record)"
proof -
  have paths: "pcn_patchPath retained_contribution \<noteq> []" "pcn_verificationPath retained_contribution \<noteq> []"
    using sample_manifest_facts(5) by (simp_all add: retained_contribution_def attemptManifest_valid_def artifacts_valid_def)
  show ?thesis
    using paths sample_lineage_budget
    by (simp add: buildProposalLineage_def Let_def bindA_def getAttempt_def guardA_def liftE_apply js_unique_def bind_run
        inherited_contributions_def add_contribution_def validateProposalLineage_def
        proposalLineage_valid_def contribution_valid_def opt_nonempty_def)
qed

end
