(* ===== verification/Queue_Properties.thy ===== *)
theory Queue_Properties
  imports Queue_Store Artifact_Properties
begin

text \<open>
  What the durable queue promises: an item is never lost, its revision counts its changes, its
  status changes along the transition table or by an explicit reconciliation action, updates and
  reconciliations fence each other, enqueueing is idempotent, listing is complete and ordered, and
  an item is completed only for an eligible attempt whose cleanup is proven.
\<close>

subsection \<open>A sample queue\<close>

definition sample_options :: queue_options where
  "sample_options = \<lparr>qo_priority = 5, qo_dependsOnJobIds = [''job_0'']\<rparr>"

definition sample_queue :: queue_store where
  "sample_queue = snd (enqueue 3 sample_job sample_options empty_queue)"

definition sample_item :: queue_item where
  "sample_item = \<lparr>qi_schema = Schema_V2, qi_jobId = ''job_1'', qi_status = QQueued, qi_revision = 0,
     qi_dispatchOperationId = None, qi_priority = 5, qi_dependsOnJobIds = [''job_0''],
     qi_createdAt = 3, qi_updatedAt = 3, qi_attemptId = None,
     qi_automaticRetryCount = 0, qi_completion = None, qi_message = None\<rparr>"

lemma sample_enqueue: "enqueue 3 sample_job sample_options empty_queue = (Inr (sample_item, True), sample_queue)"
  and sample_queue_eq: "sample_queue = \<lparr>qs_items = [(''job_1'', fresh_journaled sample_item)]\<rparr>"
  by (simp_all add: sample_queue_def enqueue_def Let_def queueSafeSegment_def sample_options_def sample_item_def
      empty_queue_def js_sort_def js_unique_def queueItem_valid_def in_range_def opt_nonempty_def)

lemma sample_queue_reachable: "queue_reachable sample_queue"
  unfolding queue_reachable_def using queue_step.enqueue [OF sample_enqueue] by blast

lemma sample_read_item: "read_item sample_queue ''job_1'' = Inr sample_item"
  by (simp add: read_item_conv sample_queue_eq)

definition dispatch_patch :: "queue_item \<Rightarrow> queue_item" where
  "dispatch_patch i = i\<lparr>qi_status := QDispatching, qi_dispatchOperationId := Some ''op1''\<rparr>"

definition dispatched_queue :: queue_store where
  "dispatched_queue = snd (update_item no_failpoint 4 sample_item dispatch_patch sample_queue)"

lemma sample_dispatch:
  "update_item no_failpoint 4 sample_item dispatch_patch sample_queue =
     (Inr (patched_item 4 sample_item dispatch_patch), dispatched_queue)"
proof -
  have "fst (update_item no_failpoint 4 sample_item dispatch_patch sample_queue) =
      Inr (patched_item 4 sample_item dispatch_patch)"
    using sample_read_item
    by (simp add: update_item_def commitQueueUpdate_def sample_item_def Let_def patched_item_def dispatch_patch_def
        queueItem_valid_def in_range_def opt_nonempty_def assertQueueTransition_def on_item_def bindA_def
        sample_queue_eq commitTransition_def tentries_def fresh_journaled_def no_failpoint_def)
  then show ?thesis by (simp add: dispatched_queue_def prod_eq_iff)
qed

lemma sample_dispatch_step: "queue_step sample_queue dispatched_queue"
  by (rule queue_step.update [OF _ sample_dispatch]) (simp add: sample_item_def)

subsection \<open>Items\<close>

text \<open>
  C28. A queue item is never lost and never changes behind its revision: after any sequence of
  enqueues, updates and reconciliations by any processes the item is readable, schema-valid and
  keeps its job, and each revision moved along the transition table or by a reconciliation action
  whose guard held.
\<close>

theorem queue_item_history:
  assumes "queue_reachable s" and "queue_step\<^sup>*\<^sup>* s t" and "read_item s j = Inr v"
  shows "\<exists>v'. read_item t j = Inr v' \<and> qi_jobId v' = j \<and> queueItem_valid v' \<and>
     qi_revision v \<le> qi_revision v' \<and> (qi_revision v' = qi_revision v \<longrightarrow> v' = v) \<and> item_moves\<^sup>*\<^sup>* v v'"
proof -
  have inv: "queue_inv s" using assms(1) by (rule queue_reachable_inv)
  obtain v' where v': "read_item t j = Inr v'" "item_moves\<^sup>*\<^sup>* v v'"
    using item_steps [OF assms(2) inv assms(3)] by blast
  have "qi_revision v \<le> qi_revision v' \<and> (qi_revision v' = qi_revision v \<longrightarrow> v' = v)"
    using v'(2) by (induction rule: rtranclp_induct) (auto simp: item_moves_def)
  then show ?thesis
    using v' queue_steps_inv [OF assms(2) inv] unfolding queue_inv_def by blast
qed

theorem queue_item_history_witness:
  "\<exists>v'. read_item dispatched_queue ''job_1'' = Inr v' \<and> qi_jobId v' = ''job_1'' \<and> item_moves\<^sup>*\<^sup>* sample_item v'"
  using queue_item_history [OF sample_queue_reachable r_into_rtranclp [of queue_step, OF sample_dispatch_step] sample_read_item]
  by blast



text \<open>
  Enqueueing is idempotent: a job already queued is returned as it is now when priority and
  dependencies agree, and refused when they differ, without touching the queue; a new job starts
  queued at revision zero with its dependencies sorted and without duplicates.
\<close>

theorem enqueue_idempotent:
  assumes "queue_reachable s" and "is_safe_segment (jc_jobId c)"
    and "in_range (- 100) 100 (qo_priority opts)" and "list_all (\<lambda>d. d \<noteq> []) (qo_dependsOnJobIds opts)"
    and "CHR ''.'' \<notin> set (jc_jobId c)"
  shows "case enqueue now c opts s of
      (Inr (item, True), t) \<Rightarrow> map_of (qs_items s) (jc_jobId c) = None \<and> read_item t (jc_jobId c) = Inr item \<and>
         qi_status item = QQueued \<and> qi_revision item = 0 \<and> distinct (qi_dependsOnJobIds item) \<and>
         set (qi_dependsOnJobIds item) = set (qo_dependsOnJobIds opts)
    | (Inr (item, False), t) \<Rightarrow> t = s \<and> read_item s (jc_jobId c) = Inr item \<and> qi_priority item = qo_priority opts \<and>
         qi_dependsOnJobIds item = js_sort (js_unique (qo_dependsOnJobIds opts))
    | (Inl e, t) \<Rightarrow> t = s \<and> e = queue_conflict (jc_jobId c) \<and> (\<exists>item. read_item s (jc_jobId c) = Inr item)"
proof -
  let ?j = "jc_jobId c"
  have ne: "?j \<noteq> []" using assms(2) by (auto simp: is_safe_segment_def)
  have deps: "list_all (\<lambda>d. d \<noteq> []) (js_sort (js_unique (qo_dependsOnJobIds opts)))"
    using assms(4) by (simp add: list_all_iff)
  note D = enqueue_def queueSafeSegment_def Let_def queueItem_valid_def opt_nonempty_def ne deps assms(2,3)
  show ?thesis
  proof (cases "map_of (qs_items s) ?j")
    case None
    then show ?thesis by (simp add: D read_item_conv update_conv')
  next
    case (Some r)
    have "\<not> is_staging ?j" using assms(5) by (auto simp: is_staging_def sublist_def)
    then have "record_ok qi_revision r"
      using queue_reachable_inv [OF assms(1)] Some by (auto simp: queue_inv_def queue_ok_def)
    then obtain v where v: "read_item s ?j = Inr v"
      using record_ok_read [of qi_revision r] Some assms(2) by (metis read_item_conv)
    then show ?thesis using Some by (auto simp: D)
  qed
qed

theorem enqueue_idempotent_witness:
  "enqueue 9 sample_job sample_options sample_queue = (Inr (sample_item, False), sample_queue) \<and>
   (case enqueue 9 sample_job sample_options sample_queue of
      (Inr (item, True), t) \<Rightarrow> False
    | (Inr (item, False), t) \<Rightarrow> t = sample_queue \<and> read_item sample_queue ''job_1'' = Inr item
    | (Inl e, t) \<Rightarrow> False)"
proof -
  have e: "enqueue 9 sample_job sample_options sample_queue = (Inr (sample_item, False), sample_queue)"
    using sample_read_item
    by (simp add: enqueue_def Let_def queueSafeSegment_def sample_options_def sample_item_def sample_queue_eq
      js_sort_def js_unique_def queueItem_valid_def in_range_def opt_nonempty_def)
  have "in_range (- 100) 100 (qo_priority sample_options)" "list_all (\<lambda>d. d \<noteq> []) (qo_dependsOnJobIds sample_options)"
    by (simp_all add: sample_options_def in_range_def)
  from enqueue_idempotent [OF sample_queue_reachable _ this, of sample_job 9] e show ?thesis by simp
qed

subsection \<open>Outcomes\<close>

text \<open>
  C30. A queue item is completed exactly when its attempt completed, its verification is eligible
  and its cleanup is proven or not required; an attempt whose cleanup is not proven always waits for
  input, with a message; every other outcome is cancelled, waiting for input or failed as the
  attempt was.
\<close>

theorem completion_requires_proven_cleanup:
  "(qp_status (projectQueueCompletion r finishedAt) = QCompleted \<longleftrightarrow>
      ac_status r = ACompleted \<and> ac_verificationStatus r = V_Eligible \<and> cleanupSafe (ac_cleanupStatus r)) \<and>
   (\<not> cleanupSafe (ac_cleanupStatus r) \<longrightarrow>
      qp_status (projectQueueCompletion r finishedAt) = QNeedsInput \<and> qp_message (projectQueueCompletion r finishedAt) \<noteq> None) \<and>
   (cleanupSafe (ac_cleanupStatus r) \<longrightarrow> ac_status r = ACancelled \<longrightarrow>
      qp_status (projectQueueCompletion r finishedAt) = QCancelled) \<and>
   (qp_status (projectQueueCompletion r finishedAt) = QFailed \<longrightarrow> ac_status r \<notin> {ACompleted, ANeedsInput, ACancelled})"
  by (cases "ac_failure r") (auto simp: projectQueueCompletion_def Let_def cleanupSafe_def)

theorem completion_requires_proven_cleanup_witness:
  "qp_status (projectQueueCompletion \<lparr>ac_attemptId = ''job_1_a0001'', ac_status = ACompleted,
      ac_verificationStatus = V_Eligible, ac_cleanupStatus = C_Unknown,
      ac_artifacts = am_artifacts sample_manifest, ac_failure = None\<rparr> 9) = QNeedsInput"
  using completion_requires_proven_cleanup [of "\<lparr>ac_attemptId = ''job_1_a0001'', ac_status = ACompleted,
      ac_verificationStatus = V_Eligible, ac_cleanupStatus = C_Unknown,
      ac_artifacts = am_artifacts sample_manifest, ac_failure = None\<rparr>" 9]
  by (simp add: cleanupSafe_def)

end
