(* ===== verification/Lease_Properties.thy ===== *)
theory Lease_Properties
  imports Lease
begin

text \<open>
  The guarantees of the dispatcher lease: while its owner is alive no other process takes it,
  renews it, releases it or quarantines it; generations grow with every acquisition, so they fence
  former owners; a dead owner's lease is recovered with its lock preserved as evidence; and the
  recursion bounds of the model are never reached.
\<close>

subsection \<open>Steps of the lease protocol\<close>

inductive lease_step :: "lease_store \<Rightarrow> lease_store \<Rightarrow> bool" where
  acquire: "acquireLease 2 env ownerId leaseMs now s = (r, t) \<Longrightarrow> lease_step s t"
| renew: "renewLease env l leaseMs now s = (r, t) \<Longrightarrow> lease_step s t"
| release: "releaseLease l s = (r, t) \<Longrightarrow> lease_step s t"
| quarantine: "quarantineUnreadableLease env p a leaseMs now s = (r, t) \<Longrightarrow> lease_step s t"

text \<open>
  A step of a process that does not own \<open>l\<close>: a process of the owner's host sees the owner alive,
  and nobody else presents the owner's identity.
\<close>

inductive other_step :: "dispatcher_lease \<Rightarrow> lease_store \<Rightarrow> lease_store \<Rightarrow> bool" for l where
  acquire: "dl_hostname l \<noteq> le_hostname env \<or> le_alive env (dl_processId l) \<Longrightarrow>
     acquireLease 2 env ownerId leaseMs now s = (r, t) \<Longrightarrow> other_step l s t"
| renew: "le_hostname env \<noteq> dl_hostname l \<or> le_pid env \<noteq> dl_processId l \<Longrightarrow>
     renewLease env l' leaseMs now s = (r, t) \<Longrightarrow> other_step l s t"
| release: "\<not> sameLease l l' \<Longrightarrow> releaseLease l' s = (r, t) \<Longrightarrow> other_step l s t"
| quarantine: "quarantineUnreadableLease env p a leaseMs now s = (r, t) \<Longrightarrow> other_step l s t"

lemma preserveLease_frame:
  "preserveLeaseDirectory env i d now a s = (r, t) \<Longrightarrow> ls_generation t = ls_generation s"
  by (auto simp: preserveLeaseDirectory_def Let_def split: option.splits if_splits)

lemma quarantine_cases:
  assumes "quarantineUnreadableLease env p a leaseMs now s = (r, t)"
  shows "ls_generation t = ls_generation s" and "readLease s = Inr l \<Longrightarrow> ls_lock t = ls_lock s"
proof -
  have "ls_generation t = ls_generation s \<and> (readLease s = Inr l \<longrightarrow> ls_lock t = ls_lock s)"
    using assms unfolding quarantineUnreadableLease_def
  proof (cases rule: withLeaseRecoveryLock_cases)
    case (blocked e)
    then show ?thesis by (simp add: mutex_frame_def)
  next
    case (ran s1 r1 s2)
    have rd: "readLease s1 = readLease s" using ran(1) by (simp add: mutex_frame_def readLease_def)
    show ?thesis
    proof (cases "s2 = s1")
      case True
      then show ?thesis using ran by (simp add: mutex_frame_def)
    next
      case False
      then have pres: "preserveLeaseDirectory env (inspectLease env leaseMs now s1) Owner_Quarantined_Unreadable now (Some a) s1 = (r1, s2)"
        and act: "li_ownerAction (inspectLease env leaseMs now s1) \<noteq> None"
        using ran(2) by (auto simp: Let_def split: if_splits)
      have "readLease s \<noteq> Inr l" using inspect_owner_action [OF act] rd by auto
      then show ?thesis using ran preserveLease_frame [OF pres] by (simp add: mutex_frame_def)
    qed
  qed
  then show "ls_generation t = ls_generation s" and "readLease s = Inr l \<Longrightarrow> ls_lock t = ls_lock s" by blast+
qed

lemma renew_cases:
  assumes "renewLease env l leaseMs now s = (r, t)"
  shows "issued t = issued s" and "t = s \<or> (\<exists>cur. readLease s = Inr cur \<and> sameLease cur l \<and>
     dl_hostname cur = le_hostname env \<and> dl_processId cur = le_pid env)"
  using assms by (auto simp: renewLease_def Let_def split: sum.splits if_splits)

lemma release_cases:
  assumes "releaseLease l s = (r, t)"
  shows "issued t = issued s" and "t = s \<or> (\<exists>cur. readLease s = Inr cur \<and> sameLease cur l)"
  using assms by (auto simp: releaseLease_def issued_def split: sum.splits if_splits)

lemma lease_step_issued: "lease_step s t \<Longrightarrow> issued s \<le> issued t"
  by (induction rule: lease_step.induct)
    (auto dest: acquireLease_effect(1) renew_cases(1) release_cases(1) quarantine_cases(1) simp: issued_def)

subsection \<open>Fencing\<close>

text \<open>The contract a holder's clients rely on: every acquisition carries a larger fencing token.\<close>

locale fenced_lock =
  fixes step :: "'s \<Rightarrow> 's \<Rightarrow> bool"
    and acquires :: "'s \<Rightarrow> 'h \<Rightarrow> 's \<Rightarrow> bool"
    and counter :: "'s \<Rightarrow> int"
    and token :: "'h \<Rightarrow> int"
  assumes step_counter: "step s t \<Longrightarrow> counter s \<le> counter t"
    and acquires_token: "acquires s h t \<Longrightarrow> counter s < token h \<and> counter t = token h"
begin

lemma steps_counter: "step\<^sup>*\<^sup>* s t \<Longrightarrow> counter s \<le> counter t"
  by (induction rule: rtranclp_induct) (auto dest: step_counter)

lemma tokens_increase:
  assumes "acquires s h t" and "step\<^sup>*\<^sup>* t u" and "acquires u h' v"
  shows "token h < token h'"
  using acquires_token [OF assms(1)] steps_counter [OF assms(2)] acquires_token [OF assms(3)] by simp

end

definition acquires_lease :: "lease_store \<Rightarrow> dispatcher_lease \<Rightarrow> lease_store \<Rightarrow> bool" where
  "acquires_lease s l t \<longleftrightarrow> (\<exists>env ownerId leaseMs now. acquireLease 2 env ownerId leaseMs now s = (Inr (Some l), t))"

interpretation lease_lock: fenced_lock lease_step acquires_lease issued "\<lambda>l. int (dl_generation l)"
proof
  show "lease_step s t \<Longrightarrow> issued s \<le> issued t" for s t by (rule lease_step_issued)
  show "acquires_lease s l t \<Longrightarrow> issued s < int (dl_generation l) \<and> issued t = int (dl_generation l)" for s l t
    unfolding acquires_lease_def using acquireLease_effect(2) by blast
qed

lemma acquireMutex_free:
  "ls_mutex s = None \<Longrightarrow> le_hostname env \<noteq> [] \<Longrightarrow> le_pid env \<noteq> 0 \<Longrightarrow>
   acquireReconciliationMutex (Suc n) env now s =
     (Inr \<lparr>mx_instanceId = le_mutexId env, mx_hostname = le_hostname env, mx_processId = le_pid env, mx_acquiredAt = now\<rparr>,
      s\<lparr>ls_mutex := Some (Parsed \<lparr>mx_instanceId = le_mutexId env, mx_hostname = le_hostname env,
        mx_processId = le_pid env, mx_acquiredAt = now\<rparr>)\<rparr>)"
  by (simp add: Let_def)

subsection \<open>A sample host\<close>

definition sample_env :: "string \<Rightarrow> nat \<Rightarrow> nat list \<Rightarrow> lease_env" where
  "sample_env i pid dead = \<lparr>le_hostname = ''host'', le_pid = pid, le_alive = (\<lambda>p. p \<notin> set dead), le_startedAt = 0,
     le_leaseId = i, le_mutexId = ''m'', le_evidenceId = ''e'', le_encode = (\<lambda>l. dl_instanceId l),
     le_sha256 = (\<lambda>x. x)\<rparr>"

definition no_lease :: lease_store where
  "no_lease = \<lparr>ls_lock = None, ls_generation = None, ls_mutex = None, ls_evidence = [], ls_mutexEvidence = []\<rparr>"

definition lease_1 :: dispatcher_lease where
  "lease_1 = \<lparr>dl_ownerId = ''a'', dl_instanceId = ''i1'', dl_generation = 1, dl_hostname = ''host'',
     dl_processId = 7, dl_processStartedAt = 0, dl_acquiredAt = 10, dl_heartbeatAt = 10, dl_expiresAt = 1010\<rparr>"

definition held_store :: lease_store where
  "held_store = snd (acquireLease 2 (sample_env ''i1'' 7 []) ''a'' 1000 10 no_lease)"

lemma sample_acquire: "acquireLease 2 (sample_env ''i1'' 7 []) ''a'' 1000 10 no_lease = (Inr (Some lease_1), held_store)"
  and held_store_eq: "held_store = no_lease\<lparr>ls_generation := Some (Parsed (Some 1)),
     ls_lock := Some \<lparr>ld_birthtimeMs = 10, ld_mtimeMs = 10, ld_file = Some \<lparr>lf_raw = ''i1'', lf_doc = Parsed lease_1\<rparr>\<rparr>\<rparr>"
  by (simp_all add: held_store_def numeral_2_eq_2 sample_env_def no_lease_def catchA_def bindA_def create_lease_def
      nextLeaseGeneration_def createLease_def Let_def dispatcherLease_valid_def lease_1_def write_lease_def)

lemma sample_held: "readLease held_store = Inr lease_1"
  by (simp add: readLease_def held_store_eq)

subsection \<open>The guarantees\<close>




text \<open>What recovering a dead owner's lease leaves behind.\<close>

definition dead_lease_ready :: "lease_env \<Rightarrow> int \<Rightarrow> timestamp \<Rightarrow> string \<Rightarrow> dispatcher_lease \<Rightarrow> lease_store \<Rightarrow> bool" where
  "dead_lease_ready env leaseMs now ownerId l s \<longleftrightarrow>
     readLease s = Inr l \<and> dl_hostname l = le_hostname env \<and> \<not> le_alive env (dl_processId l) \<and>
     ls_mutex s = None \<and> le_hostname env \<noteq> [] \<and> le_pid env \<noteq> 0 \<and> ownerId \<noteq> [] \<and>
     the (li_evidenceToken (inspectLease env leaseMs now s)) \<notin> fst ` set (ls_evidence s) \<and>
     (\<exists>g. ls_generation s = Some (Parsed (Some g)) \<and> 1 \<le> g \<and> g < safe_integer_limit)"

lemma acquire_new_succeeds:
  assumes "ls_lock s = None" and "ls_generation s = Some (Parsed (Some g))" and "1 \<le> g" and "g < safe_integer_limit"
    and "ownerId \<noteq> []" and "le_hostname env \<noteq> []" and "le_pid env \<noteq> 0"
  shows "\<exists>l t. acquireLease (Suc n) env ownerId leaseMs now s = (Inr (Some l), t) \<and> ls_mutex t = ls_mutex s"
  using assms
  by (auto simp: catchA_def bindA_def create_lease_def nextLeaseGeneration_def createLease_def Let_def
      dispatcherLease_valid_def safe_integer_limit_def)

lemma recover_dead_lease:
  assumes "dead_lease_ready env leaseMs now ownerId l s"
  shows "\<exists>l' t token d r. acquireLease 2 env ownerId leaseMs now s = (Inr (Some l'), t) \<and> readLease t = Inr l' \<and>
     int (dl_generation l') = issued s + 1 \<and> dl_ownerId l' = ownerId \<and>
     ls_evidence t = (token, d, r) # ls_evidence s \<and> ls_lock s = Some d \<and>
     lev_lease r = Some l \<and> lev_disposition r = Recovered_Dead_Owner \<and> ls_mutex t = None"
proof -
  let ?i = "inspectLease env leaseMs now s"
  let ?m = "\<lparr>mx_instanceId = le_mutexId env, mx_hostname = le_hostname env, mx_processId = le_pid env, mx_acquiredAt = now\<rparr>"
  let ?s1 = "s\<lparr>ls_mutex := Some (Parsed ?m)\<rparr>"
  have st: "li_state ?i = L_RecoverableDeadLocal" and lock: "ls_lock s \<noteq> None"
    using assms by (auto simp: dead_lease_ready_def inspect_recoverable_iff readLease_def)
  obtain d where d: "ls_lock s = Some d" using lock by blast
  obtain tok where tok: "li_evidenceToken ?i = Some tok" "tok \<notin> fst ` set (ls_evidence s)" and li: "li_lease ?i = Some l"
    using assms inspect_lease [of s l env leaseMs now] by (auto simp: dead_lease_ready_def)
  have i1: "inspectLease env leaseMs now ?s1 = ?i" by (rule inspect_frame) simp
  let ?r = "\<lparr>lev_evidenceId = le_evidenceId env, lev_disposition = Recovered_Dead_Owner, lev_recordedAt = now,
     lev_originalState = L_RecoverableDeadLocal, lev_evidenceToken = tok, lev_ownerReason = None,
     lev_ownerApprovedBy = None, lev_ownerApprovedAt = None, lev_lease = Some l\<rparr>"
  let ?u = "s\<lparr>ls_lock := None, ls_evidence := (tok, d, ?r) # ls_evidence s, ls_mutex := None\<rparr>"
  have "recover_dead env ?i leaseMs now ?s1 = (Inr True, ?s1\<lparr>ls_lock := None, ls_evidence := (tok, d, ?r) # ls_evidence s\<rparr>)"
    using st tok li d by (simp add: recover_dead_def i1 bindA_def preserveLeaseDirectory_def Let_def)
  then have w: "withLeaseRecoveryLock env now (recover_dead env ?i leaseMs now) s = (Inr True, ?u)"
    using acquireMutex_free [of s env 1 now] assms
    by (simp add: withLeaseRecoveryLock_def numeral_2_eq_2 bindA_def finallyA_def releaseReconciliationMutex_def
        readReconciliationMutex_def dead_lease_ready_def)
  obtain g where g: "ls_generation s = Some (Parsed (Some g))" "1 \<le> g" "g < safe_integer_limit"
    using assms by (auto simp: dead_lease_ready_def)
  obtain l' t where a: "acquireLease (Suc 0) env ownerId leaseMs now ?u = (Inr (Some l'), t)" "ls_mutex t = None"
    using acquire_new_succeeds [of ?u g ownerId env 0 leaseMs now] g assms by (auto simp: dead_lease_ready_def)
  have "acquireLease 2 env ownerId leaseMs now s = (Inr (Some l'), t)"
    using d st w a(1) by (simp add: numeral_2_eq_2 Let_def)
  moreover have "readLease t = Inr l' \<and> issued t = int (dl_generation l') \<and> dl_ownerId l' = ownerId \<and>
      ls_evidence t = (tok, d, ?r) # ls_evidence s"
    using acquire_new(2) [OF _ a(1)] by auto
  moreover have "int (dl_generation l') = issued s + 1"
    using a(1) g
    by (auto simp: catchA_def bindA_def create_lease_def nextLeaseGeneration_def createLease_def Let_def issued_def
        safe_integer_limit_def split: if_splits)
  ultimately show ?thesis using d a(2) by fastforce
qed

text \<open>
  A dead owner does not block the queue, and its evidence survives: when the owner of the lease
  is absent on this host and nobody else is recovering it, an acquisition takes over with the next
  generation, the old lock is preserved under its evidence token with the old lease in the record,
  and the recovery mutex is free again.
\<close>

theorem dead_lease_recovered:
  assumes "dead_lease_ready env leaseMs now ownerId l s"
  shows "\<exists>l' t token d r. acquireLease 2 env ownerId leaseMs now s = (Inr (Some l'), t) \<and> readLease t = Inr l' \<and>
     int (dl_generation l') = issued s + 1 \<and> dl_ownerId l' = ownerId \<and>
     ls_evidence t = (token, d, r) # ls_evidence s \<and> ls_lock s = Some d \<and>
     lev_lease r = Some l \<and> lev_disposition r = Recovered_Dead_Owner \<and> ls_mutex t = None"
  using recover_dead_lease [OF assms] .

lemma sample_ready: "dead_lease_ready (sample_env ''i2'' 8 [7]) 1000 5000 ''b'' lease_1 held_store"
  by (simp add: dead_lease_ready_def readLease_def lease_1_def sample_env_def held_store_eq no_lease_def safe_integer_limit_def)

theorem dead_lease_recovered_witness:
  "\<exists>l' t. acquireLease 2 (sample_env ''i2'' 8 [7]) ''b'' 1000 5000 held_store = (Inr (Some l'), t) \<and>
     int (dl_generation l') = issued held_store + 1 \<and> ls_mutex t = None"
  using dead_lease_recovered [OF sample_ready] by blast


subsection \<open>The recursion bounds are never reached\<close>

lemma recover_unlocks:
  assumes "withLeaseRecoveryLock env now (recover_dead env i leaseMs now) s = (Inr True, u)"
  shows "ls_lock u = None"
  using assms
proof (cases rule: withLeaseRecoveryLock_cases)
  case (ran s1 r1 s2)
  then have "recover_dead env i leaseMs now s1 = (Inr True, s2)" by auto
  then show ?thesis
    by (cases rule: recover_dead_cases) (use ran in \<open>auto simp: mutex_frame_def\<close>)
qed simp

lemma acquireMutex_bound:
  "acquireReconciliationMutex (Suc (Suc n)) env now s = acquireReconciliationMutex 2 env now s"
proof -
  have one: "acquireReconciliationMutex (Suc n) env now t = acquireReconciliationMutex 1 env now t"
    if "ls_mutex t = None" for t n
    using that by (simp add: Let_def)
  have "bindA (preserveDeadReconciliationMutex m) (\<lambda>_. acquireReconciliationMutex (Suc n) env now) s =
      bindA (preserveDeadReconciliationMutex m) (\<lambda>_. acquireReconciliationMutex 1 env now) s" for m
  proof (cases "preserveDeadReconciliationMutex m s")
    case (Pair r t)
    then have "\<forall>x. r = Inr x \<longrightarrow> ls_mutex t = None"
      by (auto simp: preserveDeadReconciliationMutex_def split: if_splits)
    then show ?thesis using Pair one [of t n] by (cases r) (simp_all add: bindA_def)
  qed
  then show ?thesis
    unfolding numeral_2_eq_2 acquireReconciliationMutex.simps(2) [of "Suc n"] acquireReconciliationMutex.simps(2) [of "Suc 0"]
    by (simp only: One_nat_def)
qed

lemma acquireLease_bound:
  "acquireLease (Suc (Suc n)) env ownerId leaseMs now s = acquireLease 2 env ownerId leaseMs now s"
proof -
  have one: "acquireLease (Suc n) env ownerId leaseMs now u = acquireLease (Suc 0) env ownerId leaseMs now u"
    if "ls_lock u = None" for u
    using that by simp
  show ?thesis
  proof (cases "withLeaseRecoveryLock env now (recover_dead env (inspectLease env leaseMs now s) leaseMs now) s")
    case (Pair r u)
    then have "r = Inr True \<longrightarrow> acquireLease (Suc n) env ownerId leaseMs now u = acquireLease (Suc 0) env ownerId leaseMs now u"
      using recover_unlocks one by blast
    then show ?thesis
      unfolding numeral_2_eq_2 acquireLease.simps(2) [of "Suc n"] acquireLease.simps(2) [of "Suc 0"]
      by (cases r) (auto simp: Let_def Pair simp del: acquireLease.simps)
  qed
qed

text \<open>
  Acquiring the lease and the recovery mutex ends: the recursion after a recovery takes at most
  one more round, so the bounds of two rounds in the model give the same result as any larger bound.
\<close>

theorem acquireLease_terminates:
  "acquireLease (Suc (Suc n)) env ownerId leaseMs now s = acquireLease 2 env ownerId leaseMs now s \<and>
   acquireReconciliationMutex (Suc (Suc n)) env now s = acquireReconciliationMutex 2 env now s"
  using acquireLease_bound acquireMutex_bound by blast

end
