(* ===== verification/Dispatcher_Samples.thy ===== *)
theory Dispatcher_Samples
  imports Dispatcher Conductor_Samples Queue_Properties Lease_Properties
begin

text \<open>
  Concrete dispatcher states for the theorems about it: the conductor of the samples, a queue of one
  item, the sample lease, room for two executions, and no failpoint.
\<close>

declare guardA_apply [simp del] liftE_apply [simp del]

definition dispatch_env :: dispatcher_env where
  "dispatch_env = \<lparr>dv_cond = witness_env, dv_lease = sample_env ''i1'' 7 [], dv_queueFp = no_failpoint,
     dv_failpoint = (\<lambda>_ _. None), dv_options = \<lparr>do_maxConcurrent = 2, do_pollIntervalMs = 2000, do_leaseMs = 30000, do_ownerId = ''a''\<rparr>,
     dv_lc = default\<rparr>"

definition dispatch_state :: "conductor_state \<Rightarrow> queue_item \<Rightarrow> dispatcher_state" where
  "dispatch_state c item = \<lparr>ds_cond = c, ds_queue = \<lparr>qs_items = [(''job_1'', fresh_journaled item)]\<rparr>,
     ds_leases = held_store, ds_lease = Some lease_1, ds_active = []\<rparr>"

lemma dispatch_env_facts [simp]: "dv_cond dispatch_env = witness_env" "dv_queueFp dispatch_env = no_failpoint"
    "dv_failpoint dispatch_env p j = None" "do_maxConcurrent (dv_options dispatch_env) = 2" "dv_lc dispatch_env = default"
    "dnow dispatch_env = 9"
  by (simp_all add: dispatch_env_def dnow_def)

definition prepared_state :: conductor_state where
  "prepared_state = \<lparr>cd_store = put_job ''job_1'' \<lparr>jd_contract = Some (Parsed sample_job), jd_attempts = None\<rparr> (empty_store ''/r''),
     cd_active = [], cd_aborted = [], cd_executions = [], cd_removals = [], cd_drawn = 1\<rparr>"

lemma reserve_run: "\<exists>r t. reservePreparedAttempt witness_env ''job_1'' [] (Some ''u0'') prepared_state = (Inr r, t) \<and> rj_attemptId r = ''job_1_a0001''"
proof -
  let ?s = "put_job ''job_1'' \<lparr>jd_contract = Some (Parsed sample_job), jd_attempts = Some []\<rparr> (empty_store ''/r'')"
  have root: "make_attempts_root ''job_1'' (cd_store prepared_state) = (Inr (), ?s)"
    by (simp add: make_attempts_root_def safeSegment_def prepared_state_def get_job_def put_job_def attempt_entries_def empty_store_def)
  have m: "\<exists>m. createReservedAttempt ''job_1'' ''job_1_a0001'' (Suc 0) ''local'' 9
     (attempt_artifacts_of ?s ''job_1'' ''job_1_a0001'') None (Some ''u0'') = Inr m \<and> am_attemptId m = ''job_1_a0001''"
    by (simp add: createReservedAttempt_def Let_def validity_defs attempt_artifacts_of_def put_job_def
      path_join_def jobPath_def attemptManifestPath_def attemptDirectory_def attemptsRoot_def jobDirectory_def jobsRoot_def)
  have c: "\<exists>c. createAttemptCleanupRecord ''job_1_a0001'' ''job_1'' 9 = Inr c"
    by (simp add: createAttemptCleanupRecord_def attemptCleanupRecord_valid_def)
  have none: "get_attempt ?s j a = None" for j a by (simp add: get_attempt_put_job)
  have "\<exists>rv t. reserveAttempt 9 ''u0'' sample_job None (Some ''u0'') (cd_store prepared_state) = (Inr rv, t) \<and>
      am_attemptId (rv_manifest rv) = ''job_1_a0001''"
    using m c none
    by (auto simp: reserveAttempt_def bindA_def root sample_budget numeral_eq_Suc reserveAttemptAt_def Let_def safeSegment_def)
  moreover have "readJob sample_sha256 default (cd_store prepared_state) ''job_1'' = Inr sample_job"
    using sample_contract_facts(2) by (simp add: prepared_state_def readJob_def safeSegment_def)
  moreover have "cv_uuid witness_env n = ''u0''" for n by (simp add: witness_env_def)
  ultimately show ?thesis using sample_lineage_budget(1)
    by (auto simp: reservePreparedAttempt_def bindA_def readJobA_def guardA_def liftE_apply draw_def on_store_def summarize_def Let_def)
qed

definition ready_sample :: queue_item where
  "ready_sample = sample_item\<lparr>qi_dependsOnJobIds := []\<rparr>"

definition queue_patch_ok :: "queue_item \<Rightarrow> queue_item \<Rightarrow> bool" where
  "queue_patch_ok x y \<longleftrightarrow> queueItem_valid y \<and> qi_status y \<in> set (allowedQueueTransitions (qi_status x))"

lemma read_sample_queue:
  "read_item \<lparr>qs_items = [(''job_1'', r)]\<rparr> ''job_1'' = read_journaled Queue_Item_Kind ''Queue item'' ''job_1'' qi_revision r"
  by (simp add: read_item_def queueSafeSegment_def)

lemmas update_run_simps = queue_update_def on_queue_def update_item_def commitQueueUpdate_def read_sample_queue Let_def
  queue_patch_ok_def assertQueueTransition_def on_item_def bindA_def

lemma update_fresh:
  assumes "qi_jobId x = ''job_1''" "qi_revision x = 0" "queue_patch_ok x (patched_item 9 x p)"
    "ds_queue s = \<lparr>qs_items = [(''job_1'', fresh_journaled x)]\<rparr>"
  shows "queue_update dispatch_env x p s = (Inr (patched_item 9 x p),
     s\<lparr>ds_queue := \<lparr>qs_items = [(''job_1'', once_journaled (patched_item 9 x p))]\<rparr>\<rparr>)"
  using assms by (simp add: update_run_simps)

lemma update_once:
  assumes "qi_jobId x = ''job_1''" "qi_revision x = 1" "queue_patch_ok x (patched_item 9 x p)"
    "ds_queue s = \<lparr>qs_items = [(''job_1'', once_journaled x)]\<rparr>"
  shows "\<exists>q. queue_update dispatch_env x p s = (Inr (patched_item 9 x p), s\<lparr>ds_queue := q\<rparr>)"
proof -
  have "tentries (once_journaled x) = [(revision_name 1, Some (Parsed x))]" by (simp add: once_journaled_def tentries_def)
  moreover have "revision_name (Suc (Suc 0)) \<noteq> revision_name (Suc 0)"
    by (simp add: revision_name_def padStart_def show_nat.simps digit_char_def)
  ultimately show ?thesis using assms by (simp add: update_run_simps commitTransition_def no_failpoint_def) blast
qed

lemma dispatch_run: "ds_active (snd (dispatchAvailable dispatch_env (dispatch_state (prepared_state\<lparr>cd_drawn := 0\<rparr>) ready_sample))) = [''job_1'']"
proof -
  let ?s = "dispatch_state (prepared_state\<lparr>cd_drawn := 0\<rparr>) ready_sample"
  let ?s1 = "?s\<lparr>ds_cond := prepared_state\<rparr>"
  define p1 where "p1 = (\<lambda>i::queue_item. i\<lparr>qi_status := QDispatching, qi_dispatchOperationId := Some ''u0'', qi_attemptId := None, qi_message := None\<rparr>)"
  define x1 where "x1 = patched_item 9 ready_sample p1"
  have u1: "queue_update dispatch_env ready_sample p1 ?s1 = (Inr x1, ?s1\<lparr>ds_queue := \<lparr>qs_items = [(''job_1'', once_journaled x1)]\<rparr>\<rparr>)"
    unfolding x1_def by (rule update_fresh)
      (simp_all add: p1_def ready_sample_def sample_item_def dispatch_state_def queue_patch_ok_def patched_item_def queueItem_valid_def in_range_def opt_nonempty_def)
  obtain r c where rs: "reservePreparedAttempt witness_env ''job_1'' [] (Some ''u0'') prepared_state = (Inr r, c)" "rj_attemptId r = ''job_1_a0001''"
    using reserve_run by blast
  let ?s2 = "(?s1\<lparr>ds_queue := \<lparr>qs_items = [(''job_1'', once_journaled x1)]\<rparr>\<rparr>)\<lparr>ds_cond := c\<rparr>"
  define p2 where "p2 = (\<lambda>i::queue_item. i\<lparr>qi_status := QRunning, qi_attemptId := Some ''job_1_a0001''\<rparr>)"
  obtain q where u2: "queue_update dispatch_env x1 p2 ?s2 = (Inr (patched_item 9 x1 p2), ?s2\<lparr>ds_queue := q\<rparr>)"
    using update_once [of x1 p2 ?s2]
    by (auto simp: x1_def p1_def p2_def ready_sample_def sample_item_def queue_patch_ok_def patched_item_def queueItem_valid_def in_range_def opt_nonempty_def)
  have d: "on_cond (draw witness_env) ?s = (Inr ''u0'', ?s1)"
    by (simp add: on_cond_def draw_def dispatch_state_def prepared_state_def witness_env_def)
  have j: "qi_jobId ready_sample = ''job_1''" "qi_status ready_sample = QQueued" "qi_dependsOnJobIds ready_sample = []"
    "qi_revision ready_sample = 0" "ds_active ?s = []" "ds_lease ?s \<noteq> None"
    by (simp_all add: ready_sample_def sample_item_def dispatch_state_def)
  have rc: "on_cond (reservePreparedAttempt witness_env ''job_1'' [] (Some ''u0'')) (?s1\<lparr>ds_queue := qq\<rparr>) =
      (Inr r, ?s1\<lparr>ds_queue := qq, ds_cond := c\<rparr>)" for qq
    using rs(1) by (simp add: on_cond_def)
  have "start_item dispatch_env ready_sample [] ?s = (Inr Dispatched, ?s2\<lparr>ds_queue := q, ds_active := [''job_1'']\<rparr>)"
    using u1 [unfolded p1_def] u2 [unfolded p2_def]
    by (simp add: start_item_def bindA_def catchA_def d rc rs(2) j reachFailpoint_def activate_def)
  moreover have "queue_list dispatch_env ?s = (Inr [ready_sample], ?s)"
    using j by (simp add: queue_list_def list_items_def dispatch_state_def read_sample_queue is_staging_def sublist_def Cons_eq_append_conv sort_queue_def)
  ultimately show ?thesis
    by (simp add: dispatchAvailable_def bindA_def getA_def guardA_def dispatch_item_def failed_dependency_def liftE_apply j)
qed

text \<open>An item whose attempt finished, and one whose attempt was interrupted.\<close>

definition finished_sample :: queue_item where
  "finished_sample = ready_sample\<lparr>qi_status := QFailed, qi_attemptId := Some ''job_1_a0001''\<rparr>"

definition running_sample :: queue_item where
  "running_sample = ready_sample\<lparr>qi_status := QRunning, qi_dispatchOperationId := Some ''op1'', qi_attemptId := Some ''job_1_a0001''\<rparr>"

lemma item_sample_facts [simp]: "qi_jobId finished_sample = ''job_1''" "qi_revision finished_sample = 0" "qi_status finished_sample = QFailed"
    "qi_attemptId finished_sample = Some ''job_1_a0001''" "qi_jobId running_sample = ''job_1''" "qi_revision running_sample = 0"
    "qi_status running_sample = QRunning" "qi_attemptId running_sample = Some ''job_1_a0001''" "qi_automaticRetryCount running_sample = 0"
  by (simp_all add: finished_sample_def running_sample_def ready_sample_def sample_item_def)

lemma dispatch_state_facts [simp]: "ds_cond (dispatch_state c x) = c" "ds_active (dispatch_state c x) = []"
    "ds_queue (dispatch_state c x) = \<lparr>qs_items = [(''job_1'', fresh_journaled x)]\<rparr>"
  by (simp_all add: dispatch_state_def)

lemma dispatch_queue_ok: "qi_revision x = 0 \<Longrightarrow> queue_ok (ds_queue (dispatch_state c x))"
  by (simp add: queue_ok_def record_ok_fresh fresh_journal_ok)

lemma retry_run: "\<exists>i t. dispatcher_retry dispatch_env ''job_1'' (dispatch_state (witness_state retained sample_cleanup_record) finished_sample) = (Inr i, t)"
proof -
  let ?s = "dispatch_state (witness_state retained sample_cleanup_record) finished_sample"
  obtain m c where rel: "releaseAttemptExternalResources witness_env ''job_1_a0001'' (witness_state retained sample_cleanup_record) = (Inr m, c)"
    using release_run by blast
  have upd: "\<exists>i t. queue_update dispatch_env finished_sample (\<lambda>i. i\<lparr>qi_status := QQueued, qi_dispatchOperationId := None, qi_attemptId := None,
       qi_completion := None, qi_message := None\<rparr>) (?s\<lparr>ds_cond := c\<rparr>) = (Inr i, t)"
    by (subst update_fresh) (simp_all add: queue_patch_ok_def patched_item_def queueItem_valid_def in_range_def opt_nonempty_def
      finished_sample_def ready_sample_def sample_item_def)
  show ?thesis
    using rel upd by (simp add: dispatcher_retry_def bindA_def queue_read_def read_sample_queue guardA_def isTerminal_def truthy_def
      on_cond_def getAttempt_def)
qed

lemma recover_run: "\<exists>v. read_item (ds_queue (snd (recover_running dispatch_env running_sample
    (dispatch_state (witness_state running running_cleanup) running_sample)))) ''job_1'' = Inr v \<and> qi_status v = QQueued"
proof -
  let ?s = "dispatch_state (witness_state running running_cleanup) running_sample"
  obtain m c mj cj where rec: "recoverInterruptedAttempt witness_env ''job_1_a0001'' (witness_state running running_cleanup) =
      (Inr (D_Safe_To_Retry, m), c)" and c: "cd_store c = witness_store mj cj"
    using recovery_run by blast
  let ?p = "\<lambda>i. i\<lparr>qi_status := QQueued, qi_dispatchOperationId := None, qi_attemptId := None, qi_completion := None,
      qi_automaticRetryCount := Suc 0, qi_message := Some ''Recovered orphan job_1_a0001; a new attempt is safe''\<rparr>"
  have upd: "queue_update dispatch_env running_sample ?p (?s\<lparr>ds_cond := c\<rparr>) = (Inr (patched_item 9 running_sample ?p),
      ?s\<lparr>ds_cond := c, ds_queue := \<lparr>qs_items = [(''job_1'', once_journaled (patched_item 9 running_sample ?p))]\<rparr>\<rparr>)"
    by (rule update_fresh) (simp_all add: queue_patch_ok_def patched_item_def queueItem_valid_def in_range_def opt_nonempty_def
      running_sample_def ready_sample_def sample_item_def)
  have "getAttempt ''job_1_a0001'' (witness_state running running_cleanup) = (Inr running, witness_state running running_cleanup)"
    by (simp add: getAttempt_def)
  moreover have "readJobA witness_env ''job_1'' c = (Inr sample_job, c)" using c by (simp add: readJobA_def)
  ultimately have "recover_running dispatch_env running_sample ?s = (Inr (),
      ?s\<lparr>ds_cond := c, ds_queue := \<lparr>qs_items = [(''job_1'', once_journaled (patched_item 9 running_sample ?p))]\<rparr>\<rparr>)"
    using rec upd by (simp add: recover_running_def Let_def truthy_def bindA_def on_cond_def requeue_orphan_def sample_budget)
  then show ?thesis by (simp add: read_sample_queue patched_item_def)
qed

end
