(* ===== verification/Source_Samples.thy ===== *)
theory Source_Samples
  imports Source_Graph Source_Watches Source_Extraction Dispatcher_Samples
begin

text \<open>
  A repository with one contract in a comment, compiled and submitted to an empty queue.
\<close>

declare guardA_apply [simp del] liftE_apply [simp del]

definition src_revision :: string where
  "src_revision = replicate 40 (CHR ''a'')"

definition src_json :: json where
  "src_json = JObj [(''id'', JStr ''a''), (''objective'', JStr ''fix''), (''adapterId'', JStr ''local''),
     (''scope'', JObj [(''allowedPaths'', JArr [JStr ''src''])]), (''acceptance'', JArr [JObj [(''profile'', JStr ''bun'')]]),
     (''priority'', JNum ''3'')]"

definition src_world :: source_world where
  "src_world = \<lparr>sw_inspect = (\<lambda>_ _. Inr (''/repo'', src_revision)),
     sw_git = (\<lambda>cwd args n. if hd args = ''ls-tree'' then Inr ''a.ts'' else Inr (contract_block ''//'' [''A''])),
     sw_parse = (\<lambda>s. if s = ''A'' then Inr src_json else Inl ZodError),
     sw_sha256 = sample_sha256, sw_lc = default,
     sw_profiles = [(''bun'', \<lparr>cq_executable = ''/bin/bun'', cq_argsPrefix = [''test''], cq_inheritEnv = []\<rparr>)],
     sw_others = (\<lambda>_ d. d), sw_bytes = (\<lambda>_ _. 100)\<rparr>"

definition src_request :: scan_request where
  "src_request = \<lparr>sq_repositoryPath = ''repo'', sq_baseRef = ''HEAD'', sq_allowedAdapterIds = [''local''], sq_contractIds = None,
     sq_includeExtensions = [''.ts''], sq_maxFileBytes = 512000\<rparr>"

definition src_contract :: source_contract where
  "src_contract = \<lparr>sn_id = ''a'', sn_objective = ''fix'', sn_taskClass = Implementation, sn_adapterId = ''local'', sn_adapterOptions = [],
     sn_scope = \<lparr>ps_allowedPaths = [''src''], ps_forbiddenPaths = [], ps_protectedPaths = []\<rparr>, sn_contextRefs = [], sn_constraints = [],
     sn_escalateWhen = default_escalateWhen, sn_setup = [],
     sn_acceptance = [\<lparr>so_profile = ''bun'', so_args = [], so_cwd = None, so_timeoutMs = None\<rparr>], sn_timeoutMs = 3600000,
     sn_retainWorkspace = True, sn_executionBoundary = HostWorktreeRequest, sn_dependsOn = [], sn_priority = 3, sn_enabled = True\<rparr>"

definition src_compiled :: compiled_contract where
  "src_compiled = \<lparr>cc_id = ''a'', cc_fingerprint = fingerprint sample_sha256 default (JObj [(''repositoryRoot'', JStr ''/repo''),
       (''revision'', JStr src_revision), (''sourcePath'', JStr ''a.ts''), (''contract'', sourceContract_json src_contract)]),
     cc_repositoryRoot = ''/repo'', cc_revision = src_revision, cc_path = ''a.ts'', cc_line = 1, cc_contract = src_contract\<rparr>"

definition src_batch :: compiled_batch where
  "src_batch = \<lparr>cb_repositoryRoot = ''/repo'', cb_revision = src_revision, cb_contracts = [src_compiled]\<rparr>"

lemma src_parse: "parseSourceContract src_json = Some src_contract"
  by (simp add: parseSourceContract_def src_json_def z_object_def z_field_def z_default_def z_string_def z_sourceScope_def z_array_def
      z_atLeastOne_def z_sourceCommand_def z_optional_def z_int_def token_int_def z_bool_def is_digit_def parse_nat_def digit_val_def
      in_range_def nonempty_def src_contract_def is_safe_segment_def safe_chars_def relativePath_valid_def isSafeRelativePath_def
      to_portable_def posix_isAbsolute_def win32_isAbsolute_def has_drive_def is_letter_def Let_def)

lemma src_extract: "extractContracts (sw_parse src_world) (contract_block ''//'' [''A'']) ''a.ts'' 0 = Inr [(1, src_json)]"
proof -
  have "trim ''A'' = ''A''" by (simp add: trim_def is_space_def)
  then show ?thesis using extract_pieces [of "[([], ''//'', [''A''])]" "[]" "sw_parse src_world" "''a.ts''"]
    by (simp add: piece_ok_def ends_line_def comment_leads_def plain_line_def line_break_def src_world_def)
qed

lemma src_revision_ok: "is_git_revision src_revision"
  by (simp add: is_git_revision_def src_revision_def numeral_eq_Suc)

lemma src_block: "compile_block src_world src_request ''/repo'' src_revision ''a.ts'' (1, src_json) = Inr (Some src_compiled)"
  using src_revision_ok
  by (simp add: compile_block_def src_parse Let_def compiledContract_valid_def src_request_def src_compiled_def fingerprint_def src_world_def)
     (simp add: src_contract_def)

lemma src_file: "compile_file src_world src_request ''/repo'' src_revision ''a.ts'' = Inr [src_compiled]"
proof -
  have g: "sw_git src_world ''/repo'' [''show'', src_revision @ '':'' @ ''a.ts''] n = Inr (contract_block ''//'' [''A''])" for n
    by (simp add: src_world_def)
  show ?thesis by (simp add: compile_file_def capture_git_def g [simplified] src_extract src_block [simplified] somes_def List.map_filter_def)
qed

lemma src_compile: "compile_sources src_world src_request = Inr src_batch"
proof -
  have i: "sw_inspect src_world p r = Inr (''/repo'', src_revision)" for p r by (simp add: src_world_def)
  have l: "capture_git src_world ''/repo'' [''ls-tree'', ''-r'', ''--name-only'', ''-z'', src_revision] 8000000 = Captured ''a.ts''"
    by (simp add: capture_git_def src_world_def)
  have f: "listed_files src_request ''a.ts'' = [''a.ts'']"
    by (simp add: listed_files_def src_request_def posix_extname_def lower_char_def Let_def)
  have v: "scanRequest_valid src_request"
    by (simp add: scanRequest_valid_def src_request_def is_extension_def is_letter_def in_range_def)
  have d: "dependencies src_compiled = []" "cc_id src_compiled = ''a''" by (simp_all add: dependencies_def src_compiled_def src_contract_def)
  have g: "validateGraph [src_compiled] = Inr ()"
    by (simp add: validateGraph_def check_dependencies_def d graph_visit.simps)
  have n: "sq_contractIds src_request = None" "sq_repositoryPath src_request = ''repo''" by (simp_all add: src_request_def)
  have s: "Sorting_Algorithms.sort (key cc_id (sw_lc src_world)) [src_compiled] = [src_compiled]" by (simp add: sort_def)
  show ?thesis by (simp add: compile_sources_def v i l f src_file g n s src_batch_def Let_def)
qed

subsection \<open>Submission to an empty queue\<close>

definition src_cond :: conductor_env where
  "src_cond = witness_env\<lparr>cv_inspectRepository := \<lambda>_ _. Inr (''/repo'', src_revision), cv_freeDisk := \<lambda>_. Inr 1099511627776\<rparr>"

definition src_env :: dispatcher_env where
  "src_env = dispatch_env\<lparr>dv_cond := src_cond\<rparr>"

definition src_state :: sources_state where
  "src_state = \<lparr>ss_dispatcher = \<lparr>ds_cond = \<lparr>cd_store = empty_store ''/r'', cd_active = [], cd_aborted = [], cd_executions = [],
       cd_removals = [], cd_drawn = 0\<rparr>, ds_queue = \<lparr>qs_items = []\<rparr>, ds_leases = held_store, ds_lease = None, ds_active = []\<rparr>,
     ss_runs = [], ss_watches = []\<rparr>"

definition src_job_request :: job_request where
  "src_job_request = \<lparr>jr_objective = ''fix'', jr_taskClass = Implementation, jr_repositoryPath = ''/repo'', jr_baseRef = src_revision,
     jr_adapterId = ''local'', jr_adapterOptions = [], jr_scope = \<lparr>ps_allowedPaths = [''src''], ps_forbiddenPaths = [], ps_protectedPaths = []\<rparr>,
     jr_contextRefs = [''a.ts''], jr_constraints = [], jr_escalateWhen = default_escalateWhen, jr_setupCommands = [],
     jr_acceptanceCommands = [\<lparr>cs_executable = ''/bin/bun'', cs_args = [''test''], cs_cwd = None, cs_inheritEnv = [], cs_timeoutMs = None\<rparr>],
     jr_timeoutMs = 3600000, jr_retainWorkspace = True, jr_executionBoundary = HostWorktreeRequest,
     jr_idempotencyKey = Some (''source_'' @ cc_fingerprint src_compiled)\<rparr>"

lemma src_compiled_fields: "cc_contract src_compiled = src_contract" "cc_path src_compiled = ''a.ts''" "cc_id src_compiled = ''a''"
  "cc_repositoryRoot src_compiled = ''/repo''" "cc_revision src_compiled = src_revision" "dependencies src_compiled = []"
  by (simp_all add: src_compiled_def dependencies_def src_contract_def)

lemma src_job: "toJobRequest src_world src_compiled = Inr src_job_request"
  by (simp add: toJobRequest_def resolve_commands_def resolve_command_def src_job_request_def src_world_def js_unique_def
      src_compiled_fields src_contract_def)

lemma src_key: "length (''source_'' @ cc_fingerprint src_compiled) = 71"
  by (simp add: src_compiled_def fingerprint_def sample_sha256_def)

lemma src_request_valid: "jobRequest_valid src_job_request"
proof -
  have "src_revision \<noteq> []" by (simp add: src_revision_def)
  then show ?thesis using src_key
    by (simp add: src_job_request_def jobRequest_valid_def pathScope_valid_def relativePath_valid_def isSafeRelativePath_def to_portable_def
        posix_isAbsolute_def win32_isAbsolute_def has_drive_def is_letter_def in_range_def default_escalateWhen_def commandSpec_valid_def)
qed

lemma src_budget:
  "\<exists>b. freezeResourceBudget sample_sha256 default DEFAULT_OWNER_RESOURCE_PROFILE (Some 3600000) = Inr b \<and> resourceBudget_valid b \<and>
     rl_minimumFreeDiskBytes b \<le> 1099511627776"
  by (simp add: freezeResourceBudget_def Let_def DEFAULT_OWNER_RESOURCE_PROFILE_def request_validity_defs resource_limits.defs
      resource_budget.defs safe_chars_def del: canonicalProfileJson.simps)

lemma src_freeze:
  "\<exists>c. freezeJobRequest sample_sha256 default src_job_request ''/repo'' src_revision 9 ''u0'' None DEFAULT_OWNER_RESOURCE_PROFILE = Inr c \<and>
     jobContract_valid c \<and> is_safe_segment (jc_jobId c) \<and> rl_minimumFreeDiskBytes (jc_resources c) \<le> 1099511627776"
proof -
  obtain b where b: "freezeResourceBudget sample_sha256 default DEFAULT_OWNER_RESOURCE_PROFILE (Some 3600000) = Inr b" "resourceBudget_valid b"
    "rl_minimumFreeDiskBytes b \<le> 1099511627776" using src_budget by blast
  have rv: "src_revision \<noteq> []" by (simp add: src_revision_def)
  have v: "pathScope_valid (jr_scope src_job_request)" "list_all commandSpec_valid (jr_acceptanceCommands src_job_request)"
    using src_request_valid by (simp_all add: jobRequest_valid_def)
  have f: "jr_timeoutMs src_job_request = 3600000" "jr_executionBoundary src_job_request = HostWorktreeRequest"
    "jr_idempotencyKey src_job_request = Some (''source_'' @ cc_fingerprint src_compiled)" "jr_objective src_job_request = ''fix''"
    "jr_baseRef src_job_request = src_revision" "jr_adapterId src_job_request = ''local''" "jr_setupCommands src_job_request = []"
    "jr_escalateWhen src_job_request = default_escalateWhen"
    by (simp_all add: src_job_request_def)
  have j: "is_safe_segment (''job_'' @ shortHash sample_sha256 k)" for k
  proof -
    have "shortHash sample_sha256 k = replicate 20 (CHR ''0'')" by (simp add: shortHash_def sample_sha256_def)
    then show ?thesis by (simp add: is_safe_segment_def safe_chars_def list_all_iff)
  qed
  have c: "0 < rl_attemptTimeoutMs (op_limits DEFAULT_OWNER_RESOURCE_PROFILE)" by (simp add: DEFAULT_OWNER_RESOURCE_PROFILE_def)
  have key: "''source_'' @ cc_fingerprint src_compiled \<noteq> []" by simp
  show ?thesis
    by (simp only: freezeJobRequest_def src_request_valid f Let_def option.case boundary_request.case sum.case b(1) not_True_eq_False if_False)
       (simp add: jobContract_valid_def boundary_valid_def default_escalateWhen_def b v rv c j src_revision_ok del: append.simps)
qed

lemma src_submit:
  "\<exists>item t. dispatcher_enqueue src_env 100 src_job_request \<lparr>qo_priority = 3, qo_dependsOnJobIds = []\<rparr> (ss_dispatcher src_state)
     = (Inr (item, False), t)"
proof -
  obtain c where c: "freezeJobRequest sample_sha256 default src_job_request ''/repo'' src_revision 9 ''u0'' None DEFAULT_OWNER_RESOURCE_PROFILE = Inr c"
    "jobContract_valid c" "is_safe_segment (jc_jobId c)" "rl_minimumFreeDiskBytes (jc_resources c) \<le> 1099511627776"
    using src_freeze by blast
  have f: "jr_executionBoundary src_job_request = HostWorktreeRequest" "jr_setupCommands src_job_request = []"
    "length (jr_acceptanceCommands src_job_request) = 1" by (simp_all add: src_job_request_def)
  have l: "1 \<le> rl_maxCommands (op_limits DEFAULT_OWNER_RESOURCE_PROFILE)" "100 \<le> rl_maxArtifactBytes (op_limits DEFAULT_OWNER_RESOURCE_PROFILE)"
    by (simp_all add: DEFAULT_OWNER_RESOURCE_PROFILE_def)
  have e: "cv_profile src_cond = DEFAULT_OWNER_RESOURCE_PROFILE" "cv_adapter src_cond a = Inr \<lparr>dc_available = True, dc_hostExecution = None\<rparr>"
    "cv_inspectRepository src_cond p r = Inr (''/repo'', src_revision)" "cv_uuid src_cond n = ''u0''" "cv_sha256 src_cond = sample_sha256"
    "cv_lc src_cond = default" "cv_now src_cond = 9" "cv_freeDisk src_cond p = Inr 1099511627776" for a p r n
    by (simp_all add: src_cond_def witness_env_def)
  have j: "get_job (empty_store ''/r'') x = empty_job_dir" for x by (simp add: get_job_def empty_store_def)
  have p: "\<exists>t. prepareJob src_cond 100 src_job_request (ds_cond (ss_dispatcher src_state)) = (Inr c, t)"
    using l c(3,4)
    by (simp add: prepareJob_def Let_def bindA_def guardA_def act_simps liftE_apply src_request_valid f e draw_def c(1) on_store_def
        reserveJob_def c(2) safeSegment_def src_state_def j)
  have v: "queueItem_valid \<lparr>qi_schema = Schema_V2, qi_jobId = jc_jobId c, qi_status = QQueued, qi_revision = 0,
       qi_dispatchOperationId = None, qi_priority = 3, qi_dependsOnJobIds = [], qi_createdAt = 9, qi_updatedAt = 9, qi_attemptId = None,
       qi_automaticRetryCount = 0, qi_completion = None, qi_message = None\<rparr>"
    using c(3) by (simp add: queueItem_valid_def in_range_def is_safe_segment_def opt_nonempty_def)
  have d: "dv_cond src_env = src_cond" "dnow src_env = 9" by (simp_all add: src_env_def dnow_def src_cond_def witness_env_def)
  have n: "js_sort [] = []" by simp
  obtain t where t: "prepareJob src_cond 100 src_job_request (ds_cond (ss_dispatcher src_state)) = (Inr c, t)" using p by blast
  show ?thesis using v c(3) t
    by (simp add: dispatcher_enqueue_def bindA_def guardA_def act_simps on_cond_def on_queue_def d enqueue_def queueSafeSegment_def src_state_def Let_def n)
qed

lemma src_run: "\<exists>run t. compileAndEnqueue src_world src_env 1 src_request src_state = (Inr run, t)"
proof -
  obtain item t where e: "dispatcher_enqueue src_env 100 src_job_request \<lparr>qo_priority = 3, qo_dependsOnJobIds = []\<rparr> (ss_dispatcher src_state)
     = (Inr (item, False), t)" using src_submit by blast
  have o: "topologicalOrder 1 (cb_contracts src_batch) = Inr [src_compiled]"
    by (simp add: topologicalOrder_def src_batch_def src_compiled_fields)
  have w: "sw_others src_world i d = d" "sw_bytes src_world r opts = 100" for i d r opts by (simp_all add: src_world_def)
  have p: "sn_priority (cc_contract src_compiled) = 3" by (simp add: src_compiled_fields src_contract_def)
  have u: "src_state\<lparr>ss_dispatcher := ss_dispatcher src_state\<rparr> = src_state" by simp
  have m: "map_of (ss_runs src_state) i = None" for i by (simp add: src_state_def)
  show ?thesis
    by (simp add: compileAndEnqueue_def bindA_def act_simps src_compile liftE_apply readExistingManifest_def m o submit_contract_def
        dependency_jobs_def src_compiled_fields(6) src_job w p u on_dispatcher_def e write_run_def Let_def del: One_nat_def)
qed

end
