(* ===== verification/Source_Properties.thy ===== *)
theory Source_Properties
  imports Source_Samples
begin

text \<open>
  What a compiled batch of source contracts satisfies, how it is submitted, and what the watches record.
\<close>

declare guardA_apply [simp del] liftE_apply [simp del]

subsection \<open>The contracts of a batch\<close>

definition sourceCommand_valid :: "source_command \<Rightarrow> bool" where
  "sourceCommand_valid c \<longleftrightarrow> is_safe_segment (so_profile c) \<and> opt_ok nonempty (so_cwd c) \<and> opt_ok (in_range 1 86400000) (so_timeoutMs c)"

definition sourceContract_valid :: "source_contract \<Rightarrow> bool" where
  "sourceContract_valid c \<longleftrightarrow> is_safe_segment (sn_id c) \<and> nonempty (sn_objective c) \<and> nonempty (sn_adapterId c) \<and>
     ps_allowedPaths (sn_scope c) \<noteq> [] \<and> pathScope_valid (sn_scope c) \<and>
     list_all nonempty (sn_contextRefs c) \<and> list_all nonempty (sn_constraints c) \<and> list_all nonempty (sn_escalateWhen c) \<and>
     list_all sourceCommand_valid (sn_setup c) \<and> list_all sourceCommand_valid (sn_acceptance c) \<and> sn_acceptance c \<noteq> [] \<and>
     in_range 1 86400000 (sn_timeoutMs c) \<and>
     (case sn_executionBoundary c of HostWorktreeRequest \<Rightarrow> True | ExternalSandboxRequest p \<Rightarrow> is_safe_segment p) \<and>
     list_all is_safe_segment (sn_dependsOn c) \<and> in_range (-100) 100 (sn_priority c)"

text \<open>What a schema accepts satisfies \<open>Q\<close>.\<close>

definition accepts :: "(json \<Rightarrow> 'a option) \<Rightarrow> ('a \<Rightarrow> bool) \<Rightarrow> bool" where
  "accepts p Q \<longleftrightarrow> (\<forall>v x. p v = Some x \<longrightarrow> Q x)"

lemma acceptsD: "accepts p Q \<Longrightarrow> p v = Some x \<Longrightarrow> Q x"
  by (auto simp: accepts_def)

lemma z_field_ok: "z_field kvs k p = Some x \<Longrightarrow> accepts p Q \<Longrightarrow> Q x"
  by (auto simp: z_field_def accepts_def split: option.splits)

lemma z_default_ok: "z_default kvs k d p = Some x \<Longrightarrow> accepts p Q \<Longrightarrow> Q d \<longrightarrow> Q x"
  by (auto simp: z_default_def accepts_def split: option.splits)

lemma z_optional_ok: "z_optional kvs k p = Some x \<Longrightarrow> accepts p Q \<Longrightarrow> opt_ok Q x"
  by (auto simp: z_optional_def accepts_def opt_ok_def split: option.splits)

lemma z_all_ok: "accepts p Q \<Longrightarrow> z_all p vs = Some xs \<Longrightarrow> list_all Q xs"
  by (induction vs arbitrary: xs) (auto simp: accepts_def bind_eq_Some_conv)

lemma accepts_array: "accepts p Q \<Longrightarrow> accepts (z_array p) (list_all Q)"
  by (auto simp: accepts_def [of "z_array p"] z_array_def split: json.splits dest: z_all_ok)

lemma accepts_string: "accepts (z_string Q) Q"
  by (auto simp: accepts_def z_string_def split: json.splits if_splits)

lemma accepts_strings: "accepts z_strings (list_all nonempty)"
  unfolding z_strings_def by (intro accepts_array accepts_string)

lemma accepts_int: "accepts (z_int lo hi) (in_range lo hi)"
  by (auto simp: accepts_def z_int_def split: json.splits option.splits if_splits)

lemma accepts_object: "(\<And>kvs x. p kvs = Some x \<Longrightarrow> Q x) \<Longrightarrow> accepts (z_object p) Q"
  by (auto simp: accepts_def z_object_def split: json.splits)

lemma accepts_command: "accepts z_sourceCommand sourceCommand_valid"
  unfolding z_sourceCommand_def
  by (rule accepts_object)
     (auto simp: bind_eq_Some_conv sourceCommand_valid_def
      dest: z_field_ok [OF _ accepts_string] z_optional_ok [OF _ accepts_string] z_optional_ok [OF _ accepts_int])

lemma accepts_boundary: "accepts z_boundary (\<lambda>b. case b of HostWorktreeRequest \<Rightarrow> True | ExternalSandboxRequest p \<Rightarrow> is_safe_segment p)"
  unfolding z_boundary_def
  by (rule accepts_object) (auto simp: bind_eq_Some_conv split: if_splits dest: z_field_ok [OF _ accepts_string])

lemma accepts_scope: "accepts z_sourceScope (\<lambda>s. ps_allowedPaths s \<noteq> [] \<and> pathScope_valid s)"
  unfolding z_sourceScope_def
  by (rule accepts_object)
     (auto simp: z_atLeastOne_def bind_eq_Some_conv pathScope_valid_def split: if_splits
      dest: z_field_ok [OF _ accepts_array [OF accepts_string]] z_default_ok [OF _ accepts_array [OF accepts_string]])

lemmas accepted_fields = z_field_ok [OF _ accepts_string] z_field_ok [OF _ accepts_scope] z_field_ok [OF _ accepts_array [OF accepts_command]]

lemmas accepted_defaults = z_default_ok [OF _ accepts_array [OF accepts_command]] z_default_ok [OF _ accepts_array [OF accepts_string]]
  z_default_ok [OF _ accepts_strings] z_default_ok [OF _ accepts_int] z_default_ok [OF _ accepts_boundary]

lemma z_bindE: "Option.bind m f = Some y \<Longrightarrow> (\<And>x. m = Some x \<Longrightarrow> f x = Some y \<Longrightarrow> P) \<Longrightarrow> P"
  by (auto simp: bind_eq_Some_conv)

lemma z_atLeastOneD: "z_atLeastOne xs = Some ys \<Longrightarrow> xs = ys \<and> ys \<noteq> []"
  by (auto simp: z_atLeastOne_def split: if_splits)

lemma accepts_contract: "accepts parseSourceContract sourceContract_valid"
  unfolding parseSourceContract_def
  apply (rule accepts_object)
  apply (elim z_bindE)
  apply (drule accepted_fields accepted_defaults z_atLeastOneD)+
  apply (auto simp: sourceContract_valid_def in_range_def default_escalateWhen_def nonempty_def)
  done

text \<open>What a compiled contract is worth: it satisfies the schema, is enabled, allowed by the scan, and bound to its source.\<close>

definition contract_of_batch :: "source_world \<Rightarrow> scan_request \<Rightarrow> compiled_batch \<Rightarrow> compiled_contract \<Rightarrow> bool" where
  "contract_of_batch w request batch c \<longleftrightarrow>
     sourceContract_valid (cc_contract c) \<and> sn_enabled (cc_contract c) \<and>
     sn_adapterId (cc_contract c) \<in> set (sq_allowedAdapterIds request) \<and> cc_id c = sn_id (cc_contract c) \<and>
     cc_repositoryRoot c = cb_repositoryRoot batch \<and> cc_revision c = cb_revision batch \<and> is_git_revision (cc_revision c) \<and>
     cc_fingerprint c = fingerprint (sw_sha256 w) (sw_lc w) (JObj [(''repositoryRoot'', JStr (cb_repositoryRoot batch)),
       (''revision'', JStr (cb_revision batch)), (''sourcePath'', JStr (cc_path c)), (''contract'', sourceContract_json (cc_contract c))])"

lemma read_all_each: "read_all f xs = Inr ys \<Longrightarrow> y \<in> set ys \<Longrightarrow> \<exists>x \<in> set xs. f x = Inr y"
  by (induction xs arbitrary: ys) (auto split: sum.splits)

lemma compile_block_ok:
  assumes "compile_block w request rootDir revision file b = Inr (Some c)"
  shows "contract_of_batch w request \<lparr>cb_repositoryRoot = rootDir, cb_revision = revision, cb_contracts = cs\<rparr> c"
  using assms acceptsD [OF accepts_contract]
  by (auto simp: compile_block_def contract_of_batch_def compiledContract_valid_def Let_def split: option.splits if_splits)

lemma compile_file_ok:
  assumes "compile_file w request rootDir revision file = Inr xs" "c \<in> set xs"
  shows "contract_of_batch w request \<lparr>cb_repositoryRoot = rootDir, cb_revision = revision, cb_contracts = cs\<rparr> c"
proof -
  obtain blocks os where o: "read_all (compile_block w request rootDir revision file) blocks = Inr os" "xs = somes os"
    using assms by (auto simp: compile_file_def bindE_eq_Inr split: capture.splits)
  then have "Some c \<in> set os" using assms(2) by (auto simp: somes_def List.map_filter_def)
  then show ?thesis using read_all_each [OF o(1)] compile_block_ok by blast
qed

lemma graph_ok_mset: "mset cs = mset cs' \<Longrightarrow> graph_ok cs = graph_ok cs'"
proof -
  assume m: "mset cs = mset cs'"
  have "set cs = set cs'" by (rule mset_eq_setD [OF m])
  moreover have "mset (map cc_id cs) = mset (map cc_id cs')" using m by simp
  then have "distinct (map cc_id cs) = distinct (map cc_id cs')" by (rule mset_eq_imp_distinct_iff)
  ultimately show ?thesis by (simp add: graph_ok_def dep_edges_def)
qed

lemma selectContracts_ok:
  assumes "selectContracts cs ids = Inr sel"
  shows "set sel \<subseteq> set cs \<and> map cc_id sel = ids"
proof -
  have found: "\<exists>x \<in> set cs. byId_last cs i = Some x \<and> cc_id x = i" if i: "i \<in> set ids" for i
  proof -
    have "byId_last cs i \<noteq> None" using assms i by (auto simp: selectContracts_def Let_def filter_empty_conv split: if_splits)
    then have "i \<in> cc_id ` set cs" by (auto simp: byId_last_def find_None_iff)
    then show ?thesis by (rule byId_last_known)
  qed
  have "sel = map (\<lambda>i. the (byId_last cs i)) ids" using assms by (auto simp: selectContracts_def Let_def split: if_splits)
  then show ?thesis using found by (force intro: map_idI)
qed

lemma compiled_graph_ok:
  assumes "compile_sources w request = Inr batch"
  shows "graph_ok (cb_contracts batch)"
proof -
  obtain selected where "validateGraph selected = Inr ()" "cb_contracts batch = Sorting_Algorithms.sort (key cc_id (sw_lc w)) selected"
    using assms by (auto simp: compile_sources_def bindE_eq_Inr Let_def split: if_splits)
  then show ?thesis using graph_ok_mset [of "cb_contracts batch" selected] validateGraph_ok by simp
qed

text \<open>
  C23. A batch that was compiled is sound: no identifier occurs twice, every dependency is in the batch, no
  contract depends on itself, every contract satisfies the schema, is enabled, names an adapter the scan
  allows and carries the fingerprint of its text at this revision, and when the request asked for certain
  contracts the batch has exactly those.
\<close>

theorem compiled_batch_sound:
  assumes "compile_sources w request = Inr batch"
  shows "graph_ok (cb_contracts batch) \<and> list_all (contract_of_batch w request batch) (cb_contracts batch) \<and>
    (case sq_contractIds request of None \<Rightarrow> True | Some ids \<Rightarrow> mset (map cc_id (cb_contracts batch)) = mset ids)"
proof -
  obtain rootDir revision listed css selected where
    css: "read_all (compile_file w request rootDir revision) (listed_files request listed) = Inr css"
    and sel: "(case sq_contractIds request of None \<Rightarrow> Inr (concat css) | Some ids \<Rightarrow> selectContracts (concat css) ids) = Inr selected"
    and b: "batch = \<lparr>cb_repositoryRoot = rootDir, cb_revision = revision,
      cb_contracts = Sorting_Algorithms.sort (key cc_id (sw_lc w)) selected\<rparr>"
    using assms by (auto simp: compile_sources_def bindE_eq_Inr Let_def split: if_splits)
  have each: "contract_of_batch w request batch c" if c: "c \<in> set (concat css)" for c
    using c read_all_each [OF css] compile_file_ok [where cs = "cb_contracts batch"] b by fastforce
  have sub: "set selected \<subseteq> set (concat css)"
  proof (cases "sq_contractIds request")
    case (Some ids)
    then show ?thesis using sel selectContracts_ok [of "concat css" ids selected] by simp
  qed (use sel in simp)
  have m: "mset (cb_contracts batch) = mset selected" by (simp add: b)
  have "list_all (contract_of_batch w request batch) (cb_contracts batch)"
    using each subsetD [OF sub] mset_eq_setD [OF m] by (simp only: list_all_iff) blast
  moreover have "mset (map cc_id (cb_contracts batch)) = mset ids" if "sq_contractIds request = Some ids" for ids
  proof -
    have "map cc_id selected = ids" using sel that selectContracts_ok by auto
    moreover have "mset (map cc_id (cb_contracts batch)) = mset (map cc_id selected)" using m by simp
    ultimately show ?thesis by simp
  qed
  ultimately show ?thesis using compiled_graph_ok [OF assms] by (simp split: option.split)
qed

theorem compiled_batch_sound_witness:
  "\<exists>batch. compile_sources src_world src_request = Inr batch \<and> map cc_id (cb_contracts batch) = [''a''] \<and> graph_ok (cb_contracts batch)"
  using src_compile compiled_batch_sound [OF src_compile] by (auto simp: src_batch_def src_compiled_fields)

subsection \<open>Submission\<close>

text \<open>
  The records of a submission answer the ordered contracts one by one, and the jobs a record depends on are
  those of earlier records for the contracts it depends on.
\<close>

fun linked :: "enqueue_record list \<Rightarrow> compiled_contract list \<Rightarrow> enqueue_record list \<Rightarrow> bool" where
  "linked before [] [] = True"
| "linked before (c # cs) (r # rs) \<longleftrightarrow>
     er_contractId r = cc_id c \<and>
     list_all2 (\<lambda>d j. \<exists>x \<in> set before. er_contractId x = d \<and> er_jobId x = j) (dependencies c) (er_dependsOnJobIds r) \<and>
     linked (before @ [r]) cs rs"
| "linked before _ _ = False"

lemma dependency_jobs_linked:
  "dependency_jobs records c = Inr js \<Longrightarrow>
   list_all2 (\<lambda>d j. \<exists>x \<in> set records. er_contractId x = d \<and> er_jobId x = j) (dependencies c) js"
proof -
  let ?f = "\<lambda>d. case job_of records d of
         Some j \<Rightarrow> if j = [] then Inl (Error (''Dependency '' @ d @ '' for '' @ cc_id c @ '' was not compiled first'')) else Inr j
       | None \<Rightarrow> Inl (Error (''Dependency '' @ d @ '' for '' @ cc_id c @ '' was not compiled first''))"
  have all: "read_all ?f ds = Inr js \<Longrightarrow> list_all2 (\<lambda>d j. job_of records d = Some j) ds js" for ds js
    by (induction ds arbitrary: js) (auto split: sum.splits option.splits if_splits simp del: job_of.simps)
  have find: "\<exists>x \<in> set records. er_contractId x = d \<and> er_jobId x = j" if j: "job_of records d = Some j" for d j
  proof -
    obtain x where x: "List.find (\<lambda>r. er_contractId r = d) (rev records) = Some x" "er_jobId x = j" using j by auto
    then obtain i where i: "i < length (rev records)" "er_contractId (rev records ! i) = d" "x = rev records ! i"
      unfolding find_Some_iff by blast
    then have "x \<in> set (rev records)" using nth_mem by blast
    then show ?thesis using i x by auto
  qed
  assume "dependency_jobs records c = Inr js"
  then have "list_all2 (\<lambda>d j. job_of records d = Some j) (dependencies c) js"
    unfolding dependency_jobs_def by (rule all)
  then show ?thesis by (rule list.rel_mono_strong) (use find in blast)
qed

lemma submit_contract_ok:
  assumes "submit_contract w env records c s = (Inr records', t)"
  shows "ss_runs t = ss_runs s \<and> ss_watches t = ss_watches s \<and> (\<exists>r. records' = records @ [r] \<and> linked records [c] [r])"
  using assms
  by (auto simp: submit_contract_def bindA_def act_simps on_dispatcher_def Let_def dest!: dependency_jobs_linked
      split: sum.splits prod.splits)

lemma linked_Cons_single: "linked before [c] [r] \<Longrightarrow> linked (before @ [r]) cs rs \<Longrightarrow> linked before (c # cs) (r # rs)"
  by simp

lemma submit_all_ok:
  "submit_all w env cs records s = (Inr records', t) \<Longrightarrow>
   ss_runs t = ss_runs s \<and> ss_watches t = ss_watches s \<and> (\<exists>rs. records' = records @ rs \<and> linked records cs rs)"
proof (induction cs arbitrary: records s)
  case (Cons c cs)
  obtain records1 s1 where c: "submit_contract w env records c s = (Inr records1, s1)"
    and rest: "submit_all w env cs records1 s1 = (Inr records', t)"
    using Cons.prems by (auto simp: bindA_eq_Inr)
  obtain r where r: "records1 = records @ [r]" "linked records [c] [r]" "ss_runs s1 = ss_runs s" "ss_watches s1 = ss_watches s"
    using submit_contract_ok [OF c] by blast
  obtain rs where "records' = records1 @ rs" "linked records1 cs rs" "ss_runs t = ss_runs s1" "ss_watches t = ss_watches s1"
    using Cons.IH [OF rest] by blast
  then show ?case using r linked_Cons_single by auto
qed (simp add: act_simps)

lemma submit_frame:
  "submit_contract w env records c s = (r, t) \<Longrightarrow> ss_runs t = ss_runs s \<and> ss_watches t = ss_watches s"
  "submit_all w env cs records s = (r', t') \<Longrightarrow> ss_runs t' = ss_runs s \<and> ss_watches t' = ss_watches s"
proof -
  have one: "ss_runs t = ss_runs s \<and> ss_watches t = ss_watches s" if "submit_contract w env records c s = (r, t)" for records c s r t
    using that by (auto simp: submit_contract_def bindA_def act_simps on_dispatcher_def Let_def split: sum.splits prod.splits)
  show "submit_contract w env records c s = (r, t) \<Longrightarrow> ss_runs t = ss_runs s \<and> ss_watches t = ss_watches s" by (rule one)
  show "submit_all w env cs records s = (r', t') \<Longrightarrow> ss_runs t' = ss_runs s \<and> ss_watches t' = ss_watches s"
  proof (induction cs arbitrary: records s)
    case (Cons c cs)
    then show ?case by (cases "submit_contract w env records c s") (auto simp: bindA_def split: sum.splits dest: one)
  qed (simp add: act_simps)
qed

text \<open>A run that is returned is either the manifest that was there, or a fresh one that is there now.\<close>

lemma compileAndEnqueue_cases:
  assumes "compileAndEnqueue w env depth request s = (Inr run, t)"
  obtains (existing) batch where "compile_sources w request = Inr batch" "sr_runId run = run_id_of w batch" "t = s"
      "map_of (ss_runs s) (sr_runId run) = Some (Inr run)" "sr_schema run = source_run_schema"
  | (fresh) batch ordered records where "compile_sources w request = Inr batch" "sr_runId run = run_id_of w batch"
      "map_of (ss_runs s) (sr_runId run) = None" "topologicalOrder depth (cb_contracts batch) = Inr ordered"
      "linked [] ordered records" "run = run_manifest w env batch records" "ss_watches t = ss_watches s"
      "ss_runs t = AList.update (sr_runId run) (Inr run) (ss_runs s)"
proof -
  obtain batch where b: "compile_sources w request = Inr batch"
    using assms by (auto simp: compileAndEnqueue_def bindA_def act_simps split: sum.splits)
  let ?id = "run_id_of w batch"
  show ?thesis
  proof (cases "map_of (ss_runs s) ?id")
    case None
    then obtain ordered records s1 where o: "topologicalOrder depth (cb_contracts batch) = Inr ordered"
      and sub: "submit_all w env ordered [] s = (Inr records, s1)" and run: "run = run_manifest w env batch records"
      and t: "t = s1\<lparr>ss_runs := AList.update (sr_runId run) (Inr run) (ss_runs s1)\<rparr>"
      using assms b by (auto simp: compileAndEnqueue_def bindA_def act_simps readExistingManifest_def write_run_def Let_def
          split: sum.splits prod.splits)
    have "linked [] ordered records" "ss_runs s1 = ss_runs s" "ss_watches s1 = ss_watches s" using submit_all_ok [OF sub] by auto
    then show ?thesis using fresh [OF b, of ordered records] None o run t by (simp add: run_manifest_def)
  next
    case (Some x)
    then show ?thesis using assms b existing [OF b]
      by (auto simp: compileAndEnqueue_def bindA_def act_simps readExistingManifest_def split: sum.splits if_splits)
  qed
qed



text \<open>
  A scan is idempotent: once it has returned a manifest, every later scan that compiles the same
  contracts at the same revision returns that manifest and submits nothing, whoever runs it and whatever
  happened to the queue since.
\<close>

theorem submission_replay:
  assumes "compileAndEnqueue w env depth request s = (Inr run, t)"
    and "ss_runs t' = ss_runs t" and "compile_sources w' request' = compile_sources w request"
    and "sw_sha256 w' = sw_sha256 w" "sw_lc w' = sw_lc w"
  shows "compileAndEnqueue w' env' depth' request' t' = (Inr run, t')"
proof -
  obtain batch where b: "compile_sources w request = Inr batch" "sr_runId run = run_id_of w batch"
    "map_of (ss_runs t) (sr_runId run) = Some (Inr run)" "sr_schema run = source_run_schema"
    using assms(1) by (cases rule: compileAndEnqueue_cases) (auto simp: update_conv run_manifest_def)
  have "run_id_of w' batch = sr_runId run" using b(2) assms(4,5) by (simp add: run_id_of_def)
  then show ?thesis using assms(2,3) b by (simp add: compileAndEnqueue_def bindA_def act_simps readExistingManifest_def)
qed

theorem submission_replay_witness:
  "\<exists>run t. compileAndEnqueue src_world src_env 1 src_request src_state = (Inr run, t) \<and>
     compileAndEnqueue src_world dispatch_env 0 src_request t = (Inr run, t)"
proof -
  obtain run t where r: "compileAndEnqueue src_world src_env 1 src_request src_state = (Inr run, t)" using src_run by blast
  show ?thesis using r submission_replay [OF r refl refl refl refl] by blast
qed

subsection \<open>Watches\<close>

text \<open>What a watch says about its last run is backed by the stored manifest of that run.\<close>

definition watch_backed :: "(string \<times> (err + source_run)) list \<Rightarrow> source_watch \<Rightarrow> bool" where
  "watch_backed runs x \<longleftrightarrow> (case wh_lastRunId x of None \<Rightarrow> True
     | Some i \<Rightarrow> (case map_of runs i of Some (Inr run) \<Rightarrow> sr_runId run = i \<and> wh_lastRevision x = Some (sr_revision run) | _ \<Rightarrow> False))"

definition watches_backed :: "sources_state \<Rightarrow> bool" where
  "watches_backed s \<longleftrightarrow> (\<forall>n x. map_of (ss_watches s) n = Some (Inr x) \<longrightarrow> watch_backed (ss_runs s) x)"

definition runs_grow :: "sources_state \<Rightarrow> sources_state \<Rightarrow> bool" where
  "runs_grow s t \<longleftrightarrow> map_of (ss_runs s) \<subseteq>\<^sub>m map_of (ss_runs t)"

lemma runs_grow_refl [simp]: "runs_grow s s"
  by (simp add: runs_grow_def)

lemma runs_grow_trans: "runs_grow s t \<Longrightarrow> runs_grow t u \<Longrightarrow> runs_grow s u"
  unfolding runs_grow_def by (rule map_le_trans)

lemma watch_backed_grow: "runs_grow s t \<Longrightarrow> watch_backed (ss_runs s) x \<Longrightarrow> watch_backed (ss_runs t) x"
  by (auto simp: watch_backed_def runs_grow_def map_le_def dom_def split: option.splits sum.splits)

lemma compileAndEnqueue_frame:
  assumes "compileAndEnqueue w env depth request s = (r, t)"
  shows "runs_grow s t \<and> ss_watches t = ss_watches s"
proof -
  have g: "runs_grow s (s1\<lparr>ss_runs := AList.update i v (ss_runs s1)\<rparr>)" if "ss_runs s1 = ss_runs s" "map_of (ss_runs s) i = None" for s1 i v
    using that by (auto simp: runs_grow_def update_conv map_le_def dom_def)
  have u: "runs_grow s s1" if "ss_runs s1 = ss_runs s" for s1 using that by (simp add: runs_grow_def)
  show ?thesis using assms g u
    by (auto simp: compileAndEnqueue_def bindA_def act_simps liftE_apply readExistingManifest_def write_run_def run_manifest_def Let_def
        split: sum.splits option.splits prod.splits if_splits dest!: submit_frame(2))
qed

text \<open>Kept from a state \<open>s\<close> on: the watches are backed, and no run is lost.\<close>

definition backed_from :: "sources_state \<Rightarrow> sources_state \<Rightarrow> bool" where
  "backed_from s u \<longleftrightarrow> watches_backed u \<and> runs_grow s u"

lemma update_watch_backed:
  assumes "\<And>u. backed_from s u \<Longrightarrow> P u \<Longrightarrow> watch_backed (ss_runs u) ((patch x)\<lparr>wh_watchId := wh_watchId x, wh_scan := wh_scan x, wh_updatedAt := now\<rparr>)"
    and "update_watch now x patch u = (r, v)" "backed_from s u" "P u"
  shows "backed_from s v"
  using assms(1) [OF assms(3,4)] assms(2,3)
  by (auto simp: update_watch_def bindA_def act_simps guardA_apply write_watch_def backed_from_def watches_backed_def runs_grow_def
      update_conv Let_def split: if_splits)

lemma keeps_update:
  assumes "watch_backed (ss_runs s) x" "\<And>runs. watch_backed runs ((patch x)\<lparr>wh_watchId := wh_watchId x, wh_scan := wh_scan x, wh_updatedAt := now\<rparr>) = watch_backed runs x"
  shows "keeps (backed_from s) (update_watch now x patch)"
proof (rule keepsI)
  fix u r t
  assume b: "backed_from s u" and run: "update_watch now x patch u = (r, t)"
  have w: "watch_backed (ss_runs u') x" if "backed_from s u'" for u' using that assms(1) watch_backed_grow by (auto simp: backed_from_def)
  show "backed_from s t"
    by (rule update_watch_backed [where P = "\<lambda>_. True", OF _ run b TrueI]) (use assms(2) w in blast)
qed

lemma keeps_run:
  "keeps (backed_from s) (bindA (compileAndEnqueue w env depth request) (\<lambda>run.
     bindA (update_watch now x (\<lambda>v. v\<lparr>wh_lastScanAt := Some now, wh_lastRevision := Some (sr_revision run), wh_lastRunId := Some (sr_runId run),
       wh_lastError := None\<rparr>)) (\<lambda>_. ret ())))"
proof (rule keepsI)
  let ?p = "\<lambda>run v. v\<lparr>wh_lastScanAt := Some now, wh_lastRevision := Some (sr_revision run), wh_lastRunId := Some (sr_runId run), wh_lastError := None\<rparr>"
  fix u r t
  assume b: "backed_from s u" and run: "bindA (compileAndEnqueue w env depth request) (\<lambda>run. bindA (update_watch now x (?p run)) (\<lambda>_. ret ())) u = (r, t)"
  obtain q v where q: "compileAndEnqueue w env depth request u = (q, v)" by fastforce
  have v: "backed_from s v" using compileAndEnqueue_frame [OF q] b watch_backed_grow runs_grow_trans
    by (auto simp: backed_from_def watches_backed_def)
  show "backed_from s t"
  proof (cases q)
    case (Inl e)
    then show ?thesis using run q v by (simp add: bindA_def)
  next
    case (Inr x1)
    then have "map_of (ss_runs v) (sr_runId x1) = Some (Inr x1)" using q by (auto elim!: compileAndEnqueue_cases simp: update_conv)
    moreover obtain q1 where "update_watch now x (?p x1) v = (q1, t)"
      using run q Inr by (auto simp: bindA_def act_simps split: prod.splits sum.splits)
    ultimately show ?thesis using v
      by (rule_tac update_watch_backed [where P = "\<lambda>u. map_of (ss_runs u) (sr_runId x1) = Some (Inr x1)"]) (auto simp: watch_backed_def)
  qed
qed

lemma keeps_poll:
  assumes "watch_backed (ss_runs s) x"
  shows "keeps (backed_from s) (poll_watch w env depth x)"
proof -
  have same: "watch_backed runs (x\<lparr>wh_lastScanAt := a, wh_lastError := b, wh_watchId := wh_watchId x, wh_scan := wh_scan x, wh_updatedAt := c\<rparr>)
      = watch_backed runs x" for runs a b c by (simp add: watch_backed_def split: option.split sum.split)
  have l: "keeps P (liftE y)" for P :: "sources_state \<Rightarrow> bool" and y by (rule keepsI) (simp add: liftE_apply)
  have quiet: "keeps (backed_from s) (update_watch now x (\<lambda>v. v\<lparr>wh_lastScanAt := a, wh_lastError := b\<rparr>))" for now a b
    by (rule keeps_update [OF assms]) (simp only: same)
  show ?thesis unfolding poll_watch_def Let_def
    by (intro keeps_catchA keeps_bindA keeps_if keeps_ret keeps_run l quiet)
qed

lemma keeps_poll_all:
  assumes "\<forall>x \<in> set xs. watch_backed (ss_runs s) x"
  shows "keeps (backed_from s) (forA (poll_watch w env depth) xs)"
  using assms by (intro keeps_forA keeps_poll) blast

lemma read_watch_stored: "read_watch n s = Inr x \<Longrightarrow> map_of (ss_watches s) n = Some (Inr x)"
  by (auto simp: read_watch_def bindE_eq_Inr split: if_splits option.splits)

lemma existing_watch_frame: "snd (existing_watch renameError i scan s) = s"
  by (auto simp: existing_watch_def bindA_def act_simps guardA_apply catchA_def split: sum.splits)

lemma register_watch_backed:
  assumes "watches_backed s"
  shows "watches_backed (snd (register_watch sha256 lc cwd now renameError request s))"
proof -
  have new: "watch_backed runs \<lparr>wh_watchId = i, wh_enabled = b, wh_scan = scan, wh_createdAt = c, wh_updatedAt = d,
      wh_lastScanAt = None, wh_lastRevision = None, wh_lastRunId = None, wh_lastError = None\<rparr>" for runs i b scan c d
    by (simp add: watch_backed_def)
  have w: "watches_backed (snd (write_watch x s))" if "\<And>runs. watch_backed runs x" for x
    using assms that by (simp add: write_watch_def watches_backed_def update_conv)
  show ?thesis using assms w [OF new] existing_watch_frame
    by (simp add: register_watch_def bindA_def act_simps guardA_apply getA_def write_watch_def Let_def)
qed

text \<open>
  C25. The watches never claim more than was done: whatever a poll of all watches does, fails at or leaves
  unfinished, no manifest of an earlier run is lost or changed, and a watch that names a last run and a
  last revision is backed by the stored manifest of that run, which is at that revision. Registering a watch
  keeps this too.
\<close>

theorem watches_stay_backed:
  assumes "watches_backed s"
  shows "watches_backed (snd (pollAll w env depth s)) \<and> runs_grow s (snd (pollAll w env depth s)) \<and>
    watches_backed (snd (register_watch sha256 lc cwd now renameError request s))"
proof -
  have "backed_from s (snd (pollAll w env depth s))"
  proof (cases "list_watches s")
    case (Pair q u)
    then have u: "u = s" by (simp add: list_watches_def act_simps)
    have start: "backed_from s s" using assms by (simp add: backed_from_def)
    show ?thesis
    proof (cases q)
      case (Inl e)
      then show ?thesis using Pair u start by (simp add: pollAll_def bindA_def)
    next
      case (Inr xs)
      then have "read_all (\<lambda>n. read_watch n s) (filter (\<lambda>n. \<not> is_staging n) (map fst (ss_watches s))) = Inr xs"
        using Pair Inr by (auto simp: list_watches_def act_simps)
      then have "\<exists>n. read_watch n s = Inr x" if "x \<in> set xs" for x
        using read_all_each [OF _ that] by fastforce
      then have "\<forall>x \<in> set xs. watch_backed (ss_runs s) x" using assms read_watch_stored by (metis watches_backed_def)
      then have "keeps (backed_from s) (forA (poll_watch w env depth) (filter wh_enabled xs))" by (intro keeps_poll_all) simp
      moreover have "pollAll w env depth s = forA (poll_watch w env depth) (filter wh_enabled xs) s"
        using Pair Inr u by (simp add: pollAll_def bindA_def)
      ultimately show ?thesis using start by (metis keepsD prod.collapse)
    qed
  qed
  moreover have "watches_backed (snd (register_watch sha256 lc cwd now renameError request s))"
    using assms by (rule register_watch_backed)
  ultimately show ?thesis by (simp add: backed_from_def)
qed

text \<open>A watch on the sample repository, with the run of its first poll.\<close>

definition src_watch :: "source_run \<Rightarrow> source_watch" where
  "src_watch run = \<lparr>wh_watchId = ''w'', wh_enabled = True, wh_scan = src_request, wh_createdAt = 1, wh_updatedAt = 2,
     wh_lastScanAt = Some 2, wh_lastRevision = Some (sr_revision run), wh_lastRunId = Some (sr_runId run), wh_lastError = None\<rparr>"

theorem watches_stay_backed_witness:
  "\<exists>run t. compileAndEnqueue src_world src_env 1 src_request src_state = (Inr run, t) \<and>
     watches_backed (snd (pollAll src_world src_env 1 (t\<lparr>ss_watches := [(''w'', Inr (src_watch run))]\<rparr>)))"
proof -
  obtain run t where r: "compileAndEnqueue src_world src_env 1 src_request src_state = (Inr run, t)" using src_run by blast
  then have "map_of (ss_runs t) (sr_runId run) = Some (Inr run)" by (auto elim!: compileAndEnqueue_cases simp: update_conv)
  then have "watches_backed (t\<lparr>ss_watches := [(''w'', Inr (src_watch run))]\<rparr>)"
    by (simp add: watches_backed_def watch_backed_def src_watch_def)
  then show ?thesis using r watches_stay_backed by blast
qed

end
