(* ===== verification/Conductor_Properties.thy ===== *)
theory Conductor_Properties
  imports Conductor_Samples
begin

text \<open>
  What the conductor's handlers guarantee: a claim is exclusive, a lineage binds only proposals whose
  evidence checks out, an interrupted attempt is released for retry only once nothing it started can
  still run, and work trees and containers go only when their owners are proven gone.
\<close>

subsection \<open>The handlers keep the content of the store\<close>

abbreviation cd_ok :: "conductor_state \<Rightarrow> bool" where
  "cd_ok s \<equiv> content_ok (cd_store s)"

lemma keeps_on_store [keeps_rules]: "keeps P m \<Longrightarrow> keeps (\<lambda>s. P (cd_store s)) (on_store m)"
  by (auto simp: keeps_def on_store_def split: prod.splits)

lemma keeps_draw [keeps_rules]: "keeps (\<lambda>s. P (cd_store s)) (draw env)"
  by (simp add: keeps_def draw_def)

lemma keeps_getAttempt [keeps_rules]: "keeps P (getAttempt a)"
  unfolding getAttempt_def by (intro keeps_rules)

lemma keeps_getAttemptCleanup [keeps_rules]: "keeps P (getAttemptCleanup a)"
  unfolding getAttemptCleanup_def by (intro keeps_rules)

lemma keeps_readJobA [keeps_rules]: "keeps P (readJobA env j)"
  unfolding readJobA_def by (intro keeps_rules)

lemma keeps_update_attempt [keeps_rules]: "keeps cd_ok (update_attempt env m p)"
  unfolding update_attempt_def by (intro keeps_rules)

lemma keeps_registerCleanupRequirement [keeps_rules]: "keeps cd_ok (registerCleanupRequirement env m sub g)"
  unfolding registerCleanupRequirement_def by (intro keeps_rules)

lemma keeps_appendCleanupEvidence [keeps_rules]: "keeps cd_ok (appendCleanupEvidence env m sub st cm d t)"
  unfolding appendCleanupEvidence_def by (intro keeps_rules)

lemma keeps_registerProcessCleanup [keeps_rules]: "keeps cd_ok (registerProcessCleanup env m i g)"
  unfolding registerProcessCleanup_def by (intro keeps_rules)

lemma keeps_recordProcessCleanup [keeps_rules]: "keeps cd_ok (recordProcessCleanup env m i r)"
  unfolding recordProcessCleanup_def by (intro keeps_rules)

lemma keeps_releaseExternalResource [keeps_rules]: "keeps cd_ok (releaseExternalResource env m i r)"
  unfolding releaseExternalResource_def by (intro keeps_rules)

lemma keeps_release_one [keeps_rules]: "keeps cd_ok (release_one env contract m r)"
  unfolding release_one_def by (intro keeps_rules)

lemma keeps_cleanup_resources [keeps_rules]: "keeps cd_ok (cleanup_resources env contract rs m)"
  by (induction rs arbitrary: m) (simp_all only: cleanup_resources.simps, (intro keeps_rules | assumption)+)

lemma keeps_cleanupExternalResources [keeps_rules]: "keeps cd_ok (cleanupExternalResources env m)"
  unfolding cleanupExternalResources_def by (intro keeps_rules)

lemma keeps_assertWorkspaceRemovalSafe [keeps_rules]: "keeps P (assertWorkspaceRemovalSafe m)"
  unfolding assertWorkspaceRemovalSafe_def by (intro keeps_rules)

lemma keeps_workspaces_remove [keeps_rules]: "keeps cd_ok (workspaces_remove env p)"
  by (simp add: keeps_def workspaces_remove_def)

lemma keeps_remove_worktree [keeps_rules]: "keeps cd_ok (remove_worktree env a m p)"
  unfolding remove_worktree_def by (intro keeps_rules)

lemma keeps_removeAttemptWorkspace [keeps_rules]: "keeps cd_ok (removeAttemptWorkspace env a)"
  unfolding removeAttemptWorkspace_def by (intro keeps_rules)

lemma keeps_append_closure_evidence [keeps_rules]: "keeps cd_ok (append_closure_evidence env m r)"
  unfolding append_closure_evidence_def by (intro keeps_rules)

lemma keeps_finish_recovery [keeps_rules]: "keeps cd_ok (finish_recovery env a m)"
  unfolding finish_recovery_def by (intro keeps_rules)

lemma keeps_recover_processes [keeps_rules]: "keeps cd_ok (recover_processes env a m c)"
  unfolding recover_processes_def by (intro keeps_rules)

lemma keeps_recover_launched [keeps_rules]: "keeps cd_ok (recover_launched env a m)"
  unfolding recover_launched_def by (intro keeps_rules)

lemma keeps_recoverInterruptedAttempt [keeps_rules]: "keeps cd_ok (recoverInterruptedAttempt env a)"
  unfolding recoverInterruptedAttempt_def by (intro keeps_rules)

subsection \<open>What reads and updates return\<close>

lemma getAttempt_Inr: "getAttempt a s = (Inr m, t) \<longleftrightarrow> findAttempt (cd_store s) a = Inr m \<and> t = s"
  by (auto simp: getAttempt_def)

lemma getAttemptCleanup_Inr: "getAttemptCleanup a s = (Inr c, t) \<longleftrightarrow>
    (\<exists>m. findAttempt (cd_store s) a = Inr m \<and> readAttemptCleanup (cd_store s) (am_jobId m) (am_attemptId m) = Inr c \<and> t = s)"
  by (auto simp: getAttemptCleanup_def bindA_eq_Inr getAttempt_Inr)

lemma guardA_Inr: "guardA b e s = (Inr u, t) \<longleftrightarrow> b \<and> t = s"
  by (auto simp: guardA_apply)

lemma readJobA_Inr: "readJobA env j s = (Inr c, t) \<longleftrightarrow> readJob (cv_sha256 env) (cv_lc env) (cd_store s) j = Inr c \<and> t = s"
  by (auto simp: readJobA_def)

lemma liftE_Inr: "liftE r s = (Inr x, t) \<longleftrightarrow> r = Inr x \<and> t = s"
  by (auto simp: liftE_apply)

lemma summarize_Inr: "summarize m b s = (Inr r, t) \<Longrightarrow> t = s"
  by (simp add: summarize_def Let_def)

lemma boundary_check_Inr:
  "(case b of HostWorktree \<Rightarrow> ret () | ExternalSandbox x \<Rightarrow> liftE (f x)) s = (Inr (), t) \<Longrightarrow> t = s"
  by (auto simp: liftE_apply split: execution_boundary.splits)

lemma getA_Inr: "getA s = (Inr x, t) \<longleftrightarrow> x = s \<and> t = s"
  by (auto simp: getA_def)

lemmas act_inversion = getA_Inr bindA_eq_Inr getAttempt_Inr getAttemptCleanup_Inr guardA_Inr readJobA_Inr liftE_Inr

lemma update_attempt_Inr:
  assumes "update_attempt env m p s = (Inr m', t)"
  shows "m' = patched m p" and "readAttempt (cd_store s) (am_jobId m) (am_attemptId m) = Inr m"
    and "t = s\<lparr>cd_store := cd_store t\<rparr>" and "transitionAttempt (cv_fp env) m p (cd_store s) = (Inr m', cd_store t)"
proof -
  obtain r u where tr: "transitionAttempt (cv_fp env) m p (cd_store s) = (r, u)" by fastforce
  then have eq: "r = Inr m'" "t = s\<lparr>cd_store := u\<rparr>"
    using assms by (simp_all add: update_attempt_def on_store_def)
  have "m' = patched m p \<and> readAttempt (cd_store s) (am_jobId m) (am_attemptId m) = Inr m"
    using tr
  proof (cases rule: transitionAttempt_cases)
    case (committed d r0 j)
    then show ?thesis using eq(1) by (cases r0) auto
  qed (use eq in simp)
  then show "m' = patched m p" "readAttempt (cd_store s) (am_jobId m) (am_attemptId m) = Inr m" by simp_all
  show "t = s\<lparr>cd_store := cd_store t\<rparr>" "transitionAttempt (cv_fp env) m p (cd_store s) = (Inr m', cd_store t)"
    using eq tr by simp_all
qed

text \<open>A cleanup record the conductor reads is safe exactly when every obligation has been proven.\<close>

lemma cleanup_read_all_proven:
  assumes "cd_ok s" and "getAttemptCleanup a s = (Inr c, t)" and "cleanupSafe (cr_status c)"
  shows "\<forall>r\<in>set (cr_requirements c). evidence_proven c (rq_subject r)"
proof -
  have "cleanup_ok c" using assms(1,2) content_ok_read(2) by (auto simp: getAttemptCleanup_Inr)
  then have "cleanupSafe (deriveCleanupStatus (cr_requirements c) (cr_evidence c))"
    using assms(3) by (simp add: cleanup_ok_def)
  then show ?thesis
    by (auto simp: cleanupSafe_derive_iff evidence_proven_def latestCleanupEvidence_observed subject_status_def)
qed

subsection \<open>Recovery\<close>

definition retry_safe :: "string \<Rightarrow> attempt_manifest \<Rightarrow> conductor_state \<Rightarrow> bool" where
  "retry_safe a m t \<longleftrightarrow> am_status m = AFailed \<and>
     (\<exists>c. getAttemptCleanup a t = (Inr c, t) \<and> cleanupSafe (cr_status c) \<and>
         (\<forall>q\<in>set (cr_requirements c). evidence_proven c (rq_subject q)))"

lemma finish_recovery_safe:
  "yields cd_ok (finish_recovery env a m0) (\<lambda>(d, m) t. d = D_Safe_To_Retry \<longrightarrow> retry_safe a m t)"
proof (rule yieldsI, clarify)
  fix s m t assume ok: "cd_ok s" and r: "finish_recovery env a m0 s = (Inr (D_Safe_To_Retry, m), t)"
  have okt: "cd_ok t" using keepsD [OF keeps_finish_recovery ok r] .
  obtain c m1 s1 p s2 where up: "update_attempt env m1 p s1 = (Inr m, s2)" "am_status (p m1) = AFailed"
    and c: "getAttemptCleanup a t = (Inr c, t)" "cr_status c \<in> {C_NotRequired, C_Proven}"
    using r unfolding finish_recovery_def
    by (auto simp: bindA_eq_Inr getAttemptCleanup_Inr split: if_splits prod.splits)
  have "am_status m = AFailed" using update_attempt_Inr(1) [OF up(1)] up(2) by (simp add: patched_def)
  moreover have "cleanupSafe (cr_status c)" using c(2) by (auto simp: cleanupSafe_def)
  ultimately show "retry_safe a m t"
    using c(1) cleanup_read_all_proven [OF okt c(1)] by (auto simp: retry_safe_def)
qed

lemma recover_processes_safe:
  "yields cd_ok (recover_processes env a m0 c) (\<lambda>(d, m) t. d = D_Safe_To_Retry \<longrightarrow> retry_safe a m t)"
  unfolding recover_processes_def Let_def
  by (rule yields_if yields_bindA keeps_rules finish_recovery_safe yields_ret | simp)+

lemma recover_launched_safe:
  "yields cd_ok (recover_launched env a m0) (\<lambda>(d, m) t. d = D_Safe_To_Retry \<longrightarrow> retry_safe a m t)"
  unfolding recover_launched_def
  by (rule yields_case_option yields_bindA keeps_rules recover_processes_safe yields_ret | simp)+

text \<open>
  C33. Recovery says \<open>safe-to-retry\<close> only in two cases: the attempt had not been launched (it was
  reserved or claimed, and is now cancelled), or it is now failed and, in the state recovery leaves
  behind, every cleanup obligation of the attempt (process trees, containers, work tree) has a
  proof as its latest evidence.
\<close>

theorem recovery_safe_to_retry:
  assumes ok: "content_ok (cd_store s)"
    and r: "recoverInterruptedAttempt env a s = (Inr (D_Safe_To_Retry, m), t)"
  shows "am_status m = ACancelled \<and>
      (\<exists>m0. findAttempt (cd_store s) a = Inr m0 \<and> am_status m0 \<in> {AReserved, AClaimed}) \<or>
    am_status m = AFailed \<and>
      (\<exists>c. getAttemptCleanup a t = (Inr c, t) \<and> cleanupSafe (cr_status c) \<and>
           (\<forall>q\<in>set (cr_requirements c). evidence_proven c (rq_subject q)))"
proof -
  obtain m0 where m0: "findAttempt (cd_store s) a = Inr m0" "\<not> isAttemptTerminal (am_status m0)"
    using r unfolding recoverInterruptedAttempt_def by (auto simp: act_inversion split: if_splits)
  show ?thesis
  proof (cases "am_status m0 \<in> {AReserved, AClaimed}")
    case True
    then obtain p where "update_attempt env m0 p s = (Inr m, t)" "am_status (p m0) = ACancelled"
      using r m0 unfolding recoverInterruptedAttempt_def by (auto simp: act_inversion split: if_splits)
    then show ?thesis using update_attempt_Inr(1) [of env m0 p s m t] m0 True by (auto simp: patched_def)
  next
    case False
    then have run: "recover_launched env a m0 s = (Inr (D_Safe_To_Retry, m), t)"
      using r m0 unfolding recoverInterruptedAttempt_def by (auto simp: act_inversion split: if_splits)
    have "retry_safe a m t" using yieldsD [OF recover_launched_safe ok run] by simp
    then show ?thesis by (simp add: retry_safe_def)
  qed
qed

theorem recovery_safe_to_retry_witness:
  "\<exists>m t c. recoverInterruptedAttempt witness_env ''job_1_a0001'' (witness_state running running_cleanup) = (Inr (D_Safe_To_Retry, m), t) \<and>
     am_status m = AFailed \<and> getAttemptCleanup ''job_1_a0001'' t = (Inr c, t) \<and>
     (\<forall>q\<in>set (cr_requirements c). evidence_proven c (rq_subject q))"
proof -
  obtain m t where run: "recoverInterruptedAttempt witness_env ''job_1_a0001'' (witness_state running running_cleanup) =
      (Inr (D_Safe_To_Retry, m), t)"
    using recovery_run by blast
  have "cleanup_ok running_cleanup"
    by (simp add: running_cleanup_def cleanup_ok_def deriveCleanupStatus_def)
  then have "content_ok (cd_store (witness_state running running_cleanup))"
    by (intro witness_state_ok) simp_all
  from recovery_safe_to_retry [OF this run] show ?thesis using run by auto
qed


subsection \<open>Claims\<close>

lemma findAttempt_readAttempt: "findAttempt s a = Inr m \<Longrightarrow> \<exists>j. readAttempt s j a = Inr m \<and> (\<forall>t. findAttempt t a = readAttempt t j a)"
  by (auto simp: findAttempt_def split: option.splits if_splits)

lemma claim_Inr:
  assumes "claimReservedAttempt env a op s = (Inr res, t)"
  obtains m m' where "findAttempt (cd_store s) a = Inr m" "am_status m = AReserved"
    "\<not> truthy (am_dispatchOperationId m) \<or> am_dispatchOperationId m = Some op"
    "update_attempt env m (\<lambda>m. m\<lparr>am_status := AClaimed, am_dispatchOperationId := Some op,
         am_launchOwner := Some \<lparr>lo_instanceId = cv_instanceId env, lo_processId = cv_pid env, lo_claimedAt = cv_now env\<rparr>\<rparr>) s
       = (Inr m', t)"
  using assms unfolding claimReservedAttempt_def
  by (auto simp: act_inversion dest!: summarize_Inr boundary_check_Inr)

lemma transitionAttempt_no_failpoint:
  "transitionAttempt fp x p s = (Inr m, t) \<Longrightarrow> transitionAttempt no_failpoint x p s = (Inr m, t)"
  by (auto simp: transitionAttempt_def Let_def on_manifest_def bindA_def commitTransition_def no_failpoint_def
      split: sum.splits if_splits option.splits prod.splits)

lemma claim_reads_back:
  assumes inv: "store_inv (cd_store s)" and c: "claimReservedAttempt env a op s = (Inr res, t)"
    and lim: "\<And>m. findAttempt (cd_store s) a = Inr m \<Longrightarrow> Suc (am_revision m) < revision_limit"
  obtains m m' where "findAttempt (cd_store s) a = Inr m" "am_status m = AReserved"
    "\<not> truthy (am_dispatchOperationId m) \<or> am_dispatchOperationId m = Some op"
    "findAttempt (cd_store t) a = Inr m'" "am_status m' = AClaimed" "am_dispatchOperationId m' = Some op"
    "map_option lo_instanceId (am_launchOwner m') = Some (cv_instanceId env)"
proof -
  obtain m m' where m: "findAttempt (cd_store s) a = Inr m" "am_status m = AReserved"
      "\<not> truthy (am_dispatchOperationId m) \<or> am_dispatchOperationId m = Some op"
    and up: "update_attempt env m (\<lambda>m. m\<lparr>am_status := AClaimed, am_dispatchOperationId := Some op,
         am_launchOwner := Some \<lparr>lo_instanceId = cv_instanceId env, lo_processId = cv_pid env, lo_claimedAt = cv_now env\<rparr>\<rparr>) s
       = (Inr m', t)"
    using claim_Inr [OF c] by metis
  obtain j where j: "readAttempt (cd_store s) j a = Inr m" "findAttempt (cd_store t) a = readAttempt (cd_store t) j a"
    using findAttempt_readAttempt [OF m(1)] by blast
  have key: "am_jobId m = j" "am_attemptId m = a" using inv j(1) by (auto simp: store_inv_def)
  have ok: "store_ok (cd_store s)" using inv by (simp add: store_inv_def)
  note f = update_attempt_Inr [OF up]
  have "readAttempt (cd_store t) j a = Inr m'"
    using transitionAttempt_Inr [OF ok lim [OF m(1)] transitionAttempt_no_failpoint [OF f(4)]] key f(1) by auto
  then show ?thesis using that [OF m, of m'] j(2) f(1) by (simp add: patched_def)
qed




subsection \<open>Work trees and containers\<close>

lemma removals_release_one: "keeps (\<lambda>s. cd_removals s = p) (release_one env contract m r)"
  unfolding release_one_def registerProcessCleanup_def registerCleanupRequirement_def recordProcessCleanup_def
    appendCleanupEvidence_def releaseExternalResource_def update_attempt_def
  by (intro keeps_rules)

lemma removals_cleanup_resources: "keeps (\<lambda>s. cd_removals s = p) (cleanup_resources env contract rs m)"
  by (induction rs arbitrary: m)
    (simp_all only: cleanup_resources.simps registerCleanupRequirement_def,
     (intro keeps_rules removals_release_one | assumption)+)

lemma removals_cleanupExternalResources: "keeps (\<lambda>s. cd_removals s = p) (cleanupExternalResources env m)"
  unfolding cleanupExternalResources_def by (intro keeps_rules removals_cleanup_resources)

text \<open>The part of the request that touches the tree is reached only past these guards.\<close>

lemma remove_reached:
  assumes r: "removeAttemptWorkspace env a s = (r, t)" and d: "cd_removals t \<noteq> cd_removals s"
  obtains m0 m s' where "findAttempt (cd_store s) a = Inr m0"
    "am_status m0 \<notin> {AReserved, AClaimed, APreparing, ARunning, AVerifying}"
    "cleanupExternalResources env m0 s = (Inr (m, True), s')" "assertWorkspaceRemovalSafe m s' = (Inr (), s')"
proof (cases "findAttempt (cd_store s) a")
  case (Inl e)
  then show ?thesis using r d by (simp add: removeAttemptWorkspace_def bindA_def getAttempt_def)
next
  case (Inr m0)
  then have ga: "getAttempt a s = (Inr m0, s)" by (simp add: getAttempt_Inr)
  have idle: "am_status m0 \<notin> {AReserved, AClaimed, APreparing, ARunning, AVerifying}"
    using r d ga by (auto simp: removeAttemptWorkspace_def ga bindA_def guardA_apply)
  obtain x s' where ce: "cleanupExternalResources env m0 s = (x, s')" by fastforce
  note start = removeAttemptWorkspace_def ga ce bindA_def guardA_apply
  have same: "cd_removals s' = cd_removals s"
    using keepsD [OF removals_cleanupExternalResources _ ce, of "cd_removals s"] by simp
  show ?thesis
  proof (cases "\<exists>m. x = Inr (m, True)")
    case True
    then obtain m where x: "x = Inr (m, True)" by blast
    obtain y where y: "assertWorkspaceRemovalSafe m s' = (y, s')"
      using keepsD [OF keeps_assertWorkspaceRemovalSafe, of "\<lambda>u. u = s'" s' m] by (metis surj_pair)
    have read_only: "snd (bindA (getAttemptCleanup a) (\<lambda>c. ret (m, c)) s') = s'"
      using keepsD [of "\<lambda>u. u = s'" "bindA (getAttemptCleanup a) (\<lambda>c. ret (m, c))" s']
      by (metis keeps_bindA keeps_getAttemptCleanup keeps_ret prod.collapse)
    have "y = Inr ()"
    proof (cases y)
      case (Inl e)
      then have "t = s'"
        using r idle read_only x y
        by (auto simp: start split: option.splits if_splits)
      then show ?thesis using d same by simp
    qed simp
    then show ?thesis using that [OF Inr idle] ce x y by blast
  next
    case False
    then show ?thesis
      using r d same idle by (cases x) (auto simp: start)
  qed
qed

text \<open>
  C35. A work tree is removed on request only after everything that could still use it is proven
  gone: if a call asks git to remove a tree, the attempt was not active, its containers were
  released, and every process tree and container registered for it had a proof as its latest
  evidence at that moment.
\<close>

theorem worktree_removed_after_proof:
  assumes "removeAttemptWorkspace env a s = (r, t)" and "cd_removals t \<noteq> cd_removals s"
  shows "\<exists>m0 m s' c. findAttempt (cd_store s) a = Inr m0 \<and> am_status m0 \<notin> {AReserved, AClaimed, APreparing, ARunning, AVerifying} \<and>
     cleanupExternalResources env m0 s = (Inr (m, True), s') \<and> getAttemptCleanup (am_attemptId m) s' = (Inr c, s') \<and>
     (\<forall>q\<in>set (cr_requirements c). su_kind (rq_subject q) \<noteq> Workspace_Subject \<longrightarrow> evidence_proven c (rq_subject q))"
proof -
  obtain m0 m s' where g: "findAttempt (cd_store s) a = Inr m0"
    "am_status m0 \<notin> {AReserved, AClaimed, APreparing, ARunning, AVerifying}"
    "cleanupExternalResources env m0 s = (Inr (m, True), s')" "assertWorkspaceRemovalSafe m s' = (Inr (), s')"
    using remove_reached [OF assms] .
  then obtain c where "getAttemptCleanup (am_attemptId m) s' = (Inr c, s')" "unresolved_subjects c = []"
    unfolding assertWorkspaceRemovalSafe_def by (auto simp: act_inversion)
  then show ?thesis using g unfolding unresolved_subjects_def filter_empty_conv by blast
qed

theorem worktree_removed_after_proof_witness:
  "\<exists>m s' c. cleanupExternalResources witness_env retained (witness_state retained sample_cleanup_record) = (Inr (m, True), s') \<and>
     getAttemptCleanup (am_attemptId m) s' = (Inr c, s')"
proof -
  let ?s = "witness_state retained sample_cleanup_record"
  have "cd_removals (snd (removeAttemptWorkspace witness_env ''job_1_a0001'' ?s)) \<noteq> cd_removals ?s"
    by (simp add: remove_run) (simp add: witness_state_def)
  from worktree_removed_after_proof [OF surjective_pairing this] show ?thesis by auto
qed

lemma released_all_proven:
  assumes ok: "content_ok (cd_store s)"
    and r: "releaseAttemptExternalResources env a s = (Inr m, t)"
  shows "\<exists>m0 c. findAttempt (cd_store s) a = Inr m0 \<and> isAttemptTerminal (am_status m0) \<and>
     getAttemptCleanup a t = (Inr c, t) \<and> cleanupSafe (cr_status c) \<and>
     (\<forall>q\<in>set (cr_requirements c). evidence_proven c (rq_subject q))"
proof -
  obtain m0 s1 c where m0: "findAttempt (cd_store s) a = Inr m0" "isAttemptTerminal (am_status m0)"
    and run: "cleanupExternalResources env m0 s = (Inr (m, True), s1)"
    and c: "getAttemptCleanup a s1 = (Inr c, s1)" "cr_status c \<in> {C_NotRequired, C_Proven}" and t: "t = s1"
    using r unfolding releaseAttemptExternalResources_def by (auto simp: act_inversion split: prod.splits)
  have ok1: "cd_ok s1"
    using keepsD [OF keeps_cleanupExternalResources ok run] .
  have safe: "cleanupSafe (cr_status c)" using c(2) by (auto simp: cleanupSafe_def)
  show ?thesis using m0 c safe t cleanup_read_all_proven [OF ok1 c(1) safe] by blast
qed

text \<open>
  Releasing the containers of an attempt succeeds only for a finished attempt, and only when,
  in the state it leaves, every cleanup obligation of the attempt has a proof as its latest
  evidence.
\<close>

theorem release_requires_proof:
  assumes ok: "content_ok (cd_store s)"
    and r: "releaseAttemptExternalResources env a s = (Inr m, t)"
  shows "\<exists>m0 c. findAttempt (cd_store s) a = Inr m0 \<and> isAttemptTerminal (am_status m0) \<and>
     getAttemptCleanup a t = (Inr c, t) \<and> cleanupSafe (cr_status c) \<and>
     (\<forall>q\<in>set (cr_requirements c). evidence_proven c (rq_subject q))"
  using assms by (rule released_all_proven)

theorem release_requires_proof_witness:
  "\<exists>m t c. releaseAttemptExternalResources witness_env ''job_1_a0001'' (witness_state retained sample_cleanup_record) = (Inr m, t) \<and>
     getAttemptCleanup ''job_1_a0001'' t = (Inr c, t) \<and> cleanupSafe (cr_status c)"
proof -
  obtain m t where run: "releaseAttemptExternalResources witness_env ''job_1_a0001'' (witness_state retained sample_cleanup_record) =
      (Inr m, t)"
    using release_run by blast
  have "content_ok (cd_store (witness_state retained sample_cleanup_record))"
    by (intro witness_state_ok) (simp_all add: cleanup_ok_def deriveCleanupStatus_def)
  from release_requires_proof [OF this run] show ?thesis using run by auto
qed


subsection \<open>Proposal lineage\<close>

text \<open>What a bound contribution says about the attempt it came from.\<close>

lemma bindProposalContribution_Inr:
  assumes "bindProposalContribution env child parent s = (Inr pc, t)"
  shows "t = s" and "am_status parent = ACompleted" and "am_verificationStatus parent = V_Eligible"
    and "am_reviewDisposition parent \<notin> {Review_Rejected, Review_Superseded}"
    and "pcn_attemptId pc = am_attemptId parent"
    and "pcn_sourceBaseRevision pc = re_baseRevision (jc_repository child)"
    and "cv_hashFile env (pcn_patchPath pc) = Inr (pcn_patchSha256 pc)"
    and "cv_hashFile env (pcn_verificationPath pc) = Inr (pcn_verificationSha256 pc)"
    and "findAttempt (cd_store s) (am_attemptId parent) = Inr parent \<Longrightarrow>
      \<exists>v. cv_readVerification env (pcn_verificationPath pc) = Inr v \<and> vr_eligibleForReview v"
  using assms unfolding bindProposalContribution_def getVerification_def
  by (auto simp: act_inversion split: option.splits)

lemma bindProposalContribution_keeps [keeps_rules]: "keeps P (bindProposalContribution env child parent)"
  unfolding bindProposalContribution_def getVerification_def by (intro keeps_rules)

lemma forA_read_only:
  assumes "forA body xs s = (Inr (), t)" and "\<And>x P. keeps P (body x)"
  shows "t = s \<and> (\<forall>x\<in>set xs. body x s = (Inr (), s))"
  using assms(1)
proof (induction xs arbitrary: s)
  case (Cons x xs)
  then obtain u where u: "body x s = (Inr (), u)" "forA body xs u = (Inr (), t)" by (auto simp: bindA_eq_Inr)
  have "u = s" using keepsD [OF assms(2) [of "\<lambda>v. v = s" x] refl u(1)] .
  then show ?case using Cons.IH [OF u(2)] u(1) by auto
qed simp

lemma keeps_validateProposalLineage: "keeps P (validateProposalLineage env contract l)"
  unfolding validateProposalLineage_def by (intro keeps_rules)

lemma validateProposalLineage_Inr:
  assumes "validateProposalLineage env contract l s = (Inr (), t)" and "pc \<in> set (pl_contributions l)"
  shows "t = s" and "\<exists>parent. findAttempt (cd_store s) (pcn_attemptId pc) = Inr parent \<and>
     bindProposalContribution env contract parent s = (Inr pc, s)"
proof -
  let ?body = "\<lambda>expected. bindA (getAttempt (pcn_attemptId expected)) (\<lambda>parent.
       bindA (bindProposalContribution env contract parent) (\<lambda>actual.
       guardA (actual = expected) (Error (''Proposal evidence binding changed for '' @ pcn_attemptId expected))))"
  have loop: "forA ?body (pl_contributions l) s = (Inr (), t)"
    using assms(1) unfolding validateProposalLineage_def by (auto simp: act_inversion)
  have "keeps P (?body x)" for P x by (intro keeps_rules)
  from forA_read_only [OF loop this] have "t = s" "?body pc s = (Inr (), s)" using assms(2) by blast+
  then show "t = s" "\<exists>parent. findAttempt (cd_store s) (pcn_attemptId pc) = Inr parent \<and>
     bindProposalContribution env contract parent s = (Inr pc, s)"
    by (auto simp: act_inversion)
qed

text \<open>The bindings collected are one per attempt, and every parent is among them.\<close>

definition contribution_ids :: "proposal_contribution list \<Rightarrow> string list" where
  "contribution_ids cs = map pcn_attemptId cs"

lemma add_contribution_ids:
  assumes "add_contribution c cs = Inr cs'"
  shows "distinct (contribution_ids cs) \<Longrightarrow> distinct (contribution_ids cs')"
    and "set (contribution_ids cs') = insert (pcn_attemptId c) (set (contribution_ids cs))"
proof -
  have found: "List.find P xs = Some x \<Longrightarrow> x \<in> set xs" for P and xs :: "proposal_contribution list" and x
    by (auto simp: find_Some_iff)
  have "cs' = cs \<and> c \<in> set cs \<or> cs' = cs @ [c] \<and> pcn_attemptId c \<notin> set (contribution_ids cs)"
    using assms by (auto simp: add_contribution_def contribution_ids_def find_None_iff dest: found
        split: option.splits if_splits)
  then show "distinct (contribution_ids cs) \<Longrightarrow> distinct (contribution_ids cs')"
    and "set (contribution_ids cs') = insert (pcn_attemptId c) (set (contribution_ids cs))"
    by (auto simp: contribution_ids_def)
qed

lemma add_contributions_ids:
  assumes "add_contributions xs cs = Inr cs'" and "distinct (contribution_ids cs)"
  shows "distinct (contribution_ids cs') \<and> set (contribution_ids cs) \<subseteq> set (contribution_ids cs')"
  using assms
proof (induction xs arbitrary: cs)
  case (Cons x xs)
  then obtain cs1 where "add_contribution x cs = Inr cs1" "add_contributions xs cs1 = Inr cs'"
    by (auto split: sum.splits)
  then show ?case using Cons.IH [of cs1] Cons.prems(2) add_contribution_ids [of x cs cs1] by auto
qed simp

lemma inherited_contributions_ids:
  assumes "inherited_contributions a parent cs = Inr cs'" and "distinct (contribution_ids cs)"
  shows "distinct (contribution_ids cs') \<and> set (contribution_ids cs) \<subseteq> set (contribution_ids cs')"
  using assms add_contributions_ids
  by (fastforce simp: inherited_contributions_def split: option.splits if_splits)

lemma collect_contributions_ids:
  assumes "collect_contributions env contract ids cs s = (Inr cs', t)" and "distinct (contribution_ids cs)"
    and ok: "cd_ok s"
  shows "distinct (contribution_ids cs') \<and> set (contribution_ids cs) \<union> set ids \<subseteq> set (contribution_ids cs') \<and> t = s"
  using assms(1,2)
proof (induction ids arbitrary: cs)
  case (Cons a ids)
  obtain parent cs1 own cs2 where p: "findAttempt (cd_store s) a = Inr parent"
    and inh: "inherited_contributions a parent cs = Inr cs1"
    and own: "bindProposalContribution env contract parent s = (Inr own, s)"
    and c2: "add_contribution own cs1 = Inr cs2" and rest: "collect_contributions env contract ids cs2 s = (Inr cs', t)"
    using Cons.prems
    by (auto simp: act_inversion) (use bindProposalContribution_Inr(1) in blast)
  note c1 = inherited_contributions_ids [OF inh Cons.prems(2)]
  have "am_attemptId parent = a"
    using findAttempt_readAttempt [OF p] content_ok_read(1) [OF ok] by blast
  then have "pcn_attemptId own = a" using bindProposalContribution_Inr(5) [OF own] by simp
  then show ?case using add_contribution_ids [OF c2] c1 Cons.IH [OF rest] by auto
qed simp

text \<open>
  A lineage binds only proposals whose evidence holds. When a lineage is built, nothing in the
  store changes; its contributions are one per attempt, every requested parent is among them, and
  their number and patch bytes are within the job's budget. Every contribution, inherited ones
  included, is what binding its attempt again gives: the attempt is completed, eligible and neither
  rejected nor superseded, it starts from the job's base revision, and the patch and verification
  files hash to the recorded digests.
\<close>

theorem lineage_evidence_bound:
  assumes ok: "content_ok (cd_store s)"
    and b: "buildProposalLineage env contract ids s = (Inr l, t)"
  shows "t = s \<and> distinct (map pcn_attemptId (pl_contributions l)) \<and>
    set ids \<subseteq> pcn_attemptId ` set (pl_contributions l) \<and>
    int (length (pl_contributions l)) \<le> rl_maxLineageContributions (jc_resources contract) \<and>
    int (sum_list (map pcn_patchBytes (pl_contributions l))) \<le> rl_maxArtifactBytes (jc_resources contract) \<and>
    (\<forall>pc\<in>set (pl_contributions l). \<exists>parent v.
       findAttempt (cd_store s) (pcn_attemptId pc) = Inr parent \<and>
       am_status parent = ACompleted \<and> am_verificationStatus parent = V_Eligible \<and>
       am_reviewDisposition parent \<notin> {Review_Rejected, Review_Superseded} \<and>
       pcn_sourceBaseRevision pc = re_baseRevision (jc_repository contract) \<and>
       cv_hashFile env (pcn_patchPath pc) = Inr (pcn_patchSha256 pc) \<and>
       cv_hashFile env (pcn_verificationPath pc) = Inr (pcn_verificationSha256 pc) \<and>
       cv_readVerification env (pcn_verificationPath pc) = Inr v \<and> vr_eligibleForReview v)"
proof -
  obtain cs s1 where col: "collect_contributions env contract (js_unique ids) [] s = (Inr cs, s1)"
    and val: "validateProposalLineage env contract l s1 = (Inr (), t)" and cs: "pl_contributions l = cs"
    and bounds: "int (length cs) \<le> rl_maxLineageContributions (jc_resources contract)"
      "int (sum_list (map pcn_patchBytes cs)) \<le> rl_maxArtifactBytes (jc_resources contract)"
    using b unfolding buildProposalLineage_def Let_def by (auto simp: act_inversion)
  have ids: "distinct (contribution_ids cs) \<and> set ids \<subseteq> set (contribution_ids cs) \<and> s1 = s"
    using collect_contributions_ids [OF col _ ok] by (simp add: contribution_ids_def)
  have t: "t = s" using keepsD [OF keeps_validateProposalLineage [of "\<lambda>u. u = s1"] refl val] ids by simp
  have "\<exists>parent v. findAttempt (cd_store s) (pcn_attemptId pc) = Inr parent \<and>
       am_status parent = ACompleted \<and> am_verificationStatus parent = V_Eligible \<and>
       am_reviewDisposition parent \<notin> {Review_Rejected, Review_Superseded} \<and>
       pcn_sourceBaseRevision pc = re_baseRevision (jc_repository contract) \<and>
       cv_hashFile env (pcn_patchPath pc) = Inr (pcn_patchSha256 pc) \<and>
       cv_hashFile env (pcn_verificationPath pc) = Inr (pcn_verificationSha256 pc) \<and>
       cv_readVerification env (pcn_verificationPath pc) = Inr v \<and> vr_eligibleForReview v"
    if pc: "pc \<in> set cs" for pc
  proof -
    obtain parent where p: "findAttempt (cd_store s) (pcn_attemptId pc) = Inr parent"
        "bindProposalContribution env contract parent s = (Inr pc, s)"
      using validateProposalLineage_Inr(2) [OF val] pc cs ids by blast
    note f = bindProposalContribution_Inr [OF p(2)]
    have "findAttempt (cd_store s) (am_attemptId parent) = Inr parent" using p(1) f(5) by simp
    then show ?thesis using p(1) f by blast
  qed
  then show ?thesis using t ids bounds cs by (simp add: contribution_ids_def)
qed

theorem lineage_evidence_bound_witness:
  "\<exists>l. buildProposalLineage witness_env sample_job [''job_1_a0001''] (witness_state retained sample_cleanup_record) =
      (Inr l, witness_state retained sample_cleanup_record) \<and> ''job_1_a0001'' \<in> pcn_attemptId ` set (pl_contributions l)"
proof -
  obtain l where run: "buildProposalLineage witness_env sample_job [''job_1_a0001''] (witness_state retained sample_cleanup_record) =
      (Inr l, witness_state retained sample_cleanup_record)"
    using lineage_run by blast
  have "content_ok (cd_store (witness_state retained sample_cleanup_record))"
    by (intro witness_state_ok) (simp_all add: cleanup_ok_def deriveCleanupStatus_def)
  from lineage_evidence_bound [OF this run] show ?thesis using run by auto
qed


end
