(* ===== verification/Dispatcher_Properties.thy ===== *)
theory Dispatcher_Properties
  imports Dispatcher_Samples Conductor_Properties
begin

text \<open>
  What the dispatcher guarantees: it never runs more jobs than configured, starts an item only when
  everything it depends on completed with attempt evidence, retries only what is proven finished,
  and after a crash requeues an item only within its retry budget and only when the conductor says
  the interrupted attempt is safe to retry.
\<close>

declare guardA_apply [simp del] liftE_apply [simp del]

subsection \<open>Frames\<close>

text \<open>The state an action leaves, returned or thrown, from states in which \<open>P\<close> holds.\<close>

definition leads :: "('s \<Rightarrow> bool) \<Rightarrow> ('s, 'a) act \<Rightarrow> ('s \<Rightarrow> bool) \<Rightarrow> bool" where
  "leads P m Q \<longleftrightarrow> (\<forall>s r t. P s \<longrightarrow> m s = (r, t) \<longrightarrow> Q t)"

lemma leadsD: "leads P m Q \<Longrightarrow> P s \<Longrightarrow> m s = (r, t) \<Longrightarrow> Q t"
  by (simp add: leads_def)

lemma leads_keeps: "keeps P m \<Longrightarrow> (\<And>s. P s \<Longrightarrow> Q s) \<Longrightarrow> leads P m Q"
  by (metis leads_def keepsD)

lemma leads_bindA: "keeps P m \<Longrightarrow> (\<And>s. P s \<Longrightarrow> Q s) \<Longrightarrow> (\<And>x. leads P (f x) Q) \<Longrightarrow> leads P (bindA m f) Q"
  unfolding leads_def keeps_def bindA_def by (fastforce split: prod.splits sum.splits)

lemma leads_then_ret: "leads P m Q \<Longrightarrow> leads P (bindA m (\<lambda>x. ret (f x))) Q"
  unfolding leads_def bindA_def by (fastforce split: prod.splits sum.splits)

lemma leads_if: "(c \<Longrightarrow> leads P a Q) \<Longrightarrow> (\<not> c \<Longrightarrow> leads P b Q) \<Longrightarrow> leads P (if c then a else b) Q"
  by simp

lemma leads_case_option: "leads P n Q \<Longrightarrow> (\<And>x. leads P (f x) Q) \<Longrightarrow> leads P (case x of None \<Rightarrow> n | Some x \<Rightarrow> f x) Q"
  by (cases x) simp_all

lemma keeps_on_cond [keeps_rules]:
  "keeps (\<lambda>s. P (ds_active s)) (on_cond m)" "keeps (\<lambda>s. Q (ds_queue s)) (on_cond m)"
  by (auto simp: keeps_def on_cond_def split: prod.splits)

lemma keeps_on_queue [keeps_rules]: "keeps (\<lambda>s. P (ds_active s)) (on_queue m)"
  by (auto simp: keeps_def on_queue_def split: prod.splits)

lemma keeps_reachFailpoint [keeps_rules]: "keeps P (reachFailpoint env point j)"
  by (auto simp: keeps_def reachFailpoint_def split: option.splits)

lemma keeps_queue_update [keeps_rules]: "keeps (\<lambda>s. P (ds_active s)) (queue_update env item p)"
  unfolding queue_update_def by (intro keeps_rules)

lemma keeps_queue_reads [keeps_rules]: "keeps P (queue_read j)" "keeps P (queue_list env)"
  unfolding queue_read_def queue_list_def by (intro keeps_rules)+

lemma keeps_getA [keeps_rules]: "keeps P getA"
  by (simp add: keeps_def getA_def)

lemma keeps_case_err [keeps_rules]:
  "(\<And>m. keeps P (f m)) \<Longrightarrow> keeps P g \<Longrightarrow> keeps P (case e of ProposalLineageError m \<Rightarrow> f m | _ \<Rightarrow> g)"
  by (cases e) simp_all

subsection \<open>Dispatching\<close>

lemma start_item_active:
  assumes "start_item env item ps s = (r, t)"
  shows "ds_active t = ds_active s \<or> ds_active t = ds_active s @ [qi_jobId item]"
proof -
  let ?P = "\<lambda>u. ds_active u = ds_active s"
  let ?Q = "\<lambda>u. ds_active u = ds_active s \<or> ds_active u = ds_active s @ [qi_jobId item]"
  have act: "leads ?P (activate (qi_jobId item)) ?Q"
    by (simp add: leads_def activate_def)
  have "leads ?P (start_item env item ps) ?Q"
    unfolding start_item_def
    by (rule leads_then_ret [OF act] | (rule leads_bindA, intro keeps_rules, simp)
        | (rule leads_case_option, rule leads_keeps, intro keeps_rules, simp))+
  from leadsD [OF this refl assms] show ?thesis .
qed

definition ready_item :: "queue_item list \<Rightarrow> string \<Rightarrow> bool" where
  "ready_item items j \<longleftrightarrow> (\<exists>item\<in>set items. qi_jobId item = j \<and> qi_status item = QQueued \<and>
     (\<forall>d\<in>set (qi_dependsOnJobIds item). \<exists>i\<in>set items. qi_jobId i = d \<and> qi_status i = QCompleted \<and> qi_completion i \<noteq> None))"

lemma find_some: "List.find P xs = Some x \<Longrightarrow> x \<in> set xs \<and> P x"
  by (induction xs) (auto split: if_splits)

lemma dependency_readyD:
  assumes "list_all dependency_ready (map (by_id items) ds)" and "read_all parent_attempt (map (by_id items) ds) = Inr ps"
    and "d \<in> set ds"
  shows "\<exists>i\<in>set items. qi_jobId i = d \<and> qi_status i = QCompleted \<and> qi_completion i \<noteq> None"
proof -
  have "dependency_ready (by_id items d)" using assms(1,3) by (auto simp: list_all_iff)
  then obtain i where i: "by_id items d = Some i" "qi_status i = QCompleted"
    by (auto simp: dependency_ready_def split: option.splits)
  have "set (map parent_attempt (map (by_id items) ds)) = set (map Inr ps)"
    using iffD1 [OF read_all_Inr assms(2)] by (rule arg_cong)
  then have "parent_attempt (by_id items d) \<in> Inr ` set ps" using assms(3) by auto
  then obtain a where "parent_attempt (by_id items d) = Inr a" by blast
  then have "qi_completion i \<noteq> None" using i by (auto simp: parent_attempt_def split: option.splits)
  moreover have "i \<in> set items" "qi_jobId i = d"
    using find_some [OF i(1) [unfolded by_id_def]] by simp_all
  ultimately show ?thesis using i(2) by blast
qed

text \<open>One turn of the loop adds at most the item it looks at, and only when it is ready and there is room.\<close>

lemma dispatch_item_active:
  assumes r: "dispatch_item env items item s = (r, t)" and mem: "item \<in> set items"
  shows "ds_active t = ds_active s \<or>
    ds_active t = ds_active s @ [qi_jobId item] \<and> qi_jobId item \<notin> set (ds_active s) \<and>
    int (length (ds_active s)) < do_maxConcurrent (dv_options env) \<and> ready_item items (qi_jobId item)"
proof -
  let ?deps = "map (by_id items) (qi_dependsOnJobIds item)"
  let ?open = "qi_status item = QQueued \<and> qi_jobId item \<notin> set (ds_active s) \<and> failed_dependency ?deps = None \<and>
      list_all dependency_ready ?deps \<and> int (length (ds_active s)) < do_maxConcurrent (dv_options env)"
  show ?thesis
  proof (cases "?open \<and> (\<exists>ps. read_all parent_attempt ?deps = Inr ps)")
    case True
    then obtain ps where ps: "read_all parent_attempt ?deps = Inr ps" and o: ?open by blast
    have "start_item env item ps s = (r, t)"
      using r o ps by (simp add: dispatch_item_def bindA_def getA_def liftE_apply Let_def not_le)
    then have "ds_active t = ds_active s \<or> ds_active t = ds_active s @ [qi_jobId item]" by (rule start_item_active)
    moreover have "ready_item items (qi_jobId item)"
      using mem o dependency_readyD [OF _ ps] unfolding ready_item_def by blast
    ultimately show ?thesis using o by blast
  next
    case False
    have up: "ds_active (snd (queue_update env item p u)) = ds_active u" for p u
      by (simp add: queue_update_def on_queue_def split: prod.splits)
    have "ds_active t = ds_active s"
      using r False up [of _ s]
      by (auto simp: dispatch_item_def bindA_def getA_def liftE_apply Let_def not_le
          split: if_splits option.splits sum.splits prod.splits)
        (metis snd_conv)+
    then show ?thesis by blast
  qed
qed

lemma dispatch_items_active:
  assumes "dispatch_items env items rest n s = (r, t)" and "set rest \<subseteq> set items"
    and "distinct (ds_active s)" and "int (length (ds_active s)) \<le> do_maxConcurrent (dv_options env)"
  shows "distinct (ds_active t) \<and> int (length (ds_active t)) \<le> do_maxConcurrent (dv_options env) \<and>
    (\<exists>new. ds_active t = ds_active s @ new \<and> (\<forall>j\<in>set new. ready_item items j))"
  using assms
proof (induction rest arbitrary: n s)
  case Nil
  then show ?case by simp
next
  case (Cons item rest)
  obtain out s1 where one: "dispatch_item env items item s = (out, s1)" by fastforce
  have mem: "item \<in> set items" using Cons.prems(2) by simp
  note step = dispatch_item_active [OF one mem]
  have s1: "distinct (ds_active s1)" "int (length (ds_active s1)) \<le> do_maxConcurrent (dv_options env)"
    "\<exists>new. ds_active s1 = ds_active s @ new \<and> (\<forall>j\<in>set new. ready_item items j)"
    using step Cons.prems(3,4) by auto
  have "t = s1 \<or> (\<exists>n'. dispatch_items env items rest n' s1 = (r, t))"
    using Cons.prems(1) one by (cases out) (auto simp: bindA_def split: loop_outcome.splits)
  then show ?case
  proof
    assume "t = s1"
    then show ?thesis using s1 by blast
  next
    assume "\<exists>n'. dispatch_items env items rest n' s1 = (r, t)"
    then obtain n' where "dispatch_items env items rest n' s1 = (r, t)" by blast
    from Cons.IH [OF this _ s1(1,2)] Cons.prems(2) s1(3) show ?thesis by fastforce
  qed
qed

lemma dispatchAvailable_run:
  assumes "dispatchAvailable env s = (r, t)"
  shows "t = s \<or> (\<exists>items. list_items (dv_lc env) (ds_queue s) = Inr items \<and> dispatch_items env items items 0 s = (r, t))"
  using assms
  by (auto simp: dispatchAvailable_def bindA_def getA_def guardA_apply queue_list_def split: if_splits sum.splits)

text \<open>
  C36. The dispatcher never runs more jobs than it was configured for: from a state with distinct
  active jobs within the limit, a round of dispatching, whether it returns or is cut off by an
  error, leaves the jobs that were active and at most fills up to the limit, no job twice.
\<close>

theorem dispatch_within_limit:
  assumes "dispatchAvailable env s = (r, t)" and "distinct (ds_active s)"
    and "int (length (ds_active s)) \<le> do_maxConcurrent (dv_options env)"
  shows "distinct (ds_active t) \<and> int (length (ds_active t)) \<le> do_maxConcurrent (dv_options env) \<and>
     prefix (ds_active s) (ds_active t)"
  using dispatchAvailable_run [OF assms(1)] dispatch_items_active [OF _ subset_refl assms(2,3)] assms(2,3)
  by (metis prefixI prefix_order.order_refl)

theorem dispatch_within_limit_witness:
  "\<exists>t. snd (dispatchAvailable dispatch_env (dispatch_state (prepared_state\<lparr>cd_drawn := 0\<rparr>) ready_sample)) = t \<and>
     ds_active t = [''job_1''] \<and> distinct (ds_active t) \<and> length (ds_active t) \<le> 2"
proof -
  let ?s = "dispatch_state (prepared_state\<lparr>cd_drawn := 0\<rparr>) ready_sample"
  have "distinct (ds_active ?s)" "int (length (ds_active ?s)) \<le> do_maxConcurrent (dv_options dispatch_env)" by simp_all
  from dispatch_within_limit [OF surjective_pairing this] dispatch_run show ?thesis by auto
qed

text \<open>
  Only ready work is started: every job a round of dispatching newly activates was queued in the
  listing the round worked on, and each job it depends on was there too, completed and with the
  evidence of a completion.
\<close>

theorem dispatch_only_ready:
  assumes "dispatchAvailable env s = (r, t)" and "distinct (ds_active s)"
    and "int (length (ds_active s)) \<le> do_maxConcurrent (dv_options env)"
    and "j \<in> set (ds_active t)" and "j \<notin> set (ds_active s)"
  shows "\<exists>items. list_items (dv_lc env) (ds_queue s) = Inr items \<and>
     (\<exists>item\<in>set items. qi_jobId item = j \<and> qi_status item = QQueued \<and>
       (\<forall>d\<in>set (qi_dependsOnJobIds item).
          \<exists>i\<in>set items. qi_jobId i = d \<and> qi_status i = QCompleted \<and> qi_completion i \<noteq> None))"
proof -
  obtain items where it: "list_items (dv_lc env) (ds_queue s) = Inr items" "dispatch_items env items items 0 s = (r, t)"
    using dispatchAvailable_run [OF assms(1)] assms(4,5) by blast
  from dispatch_items_active [OF it(2) subset_refl assms(2,3)] assms(4,5) have "ready_item items j" by auto
  then show ?thesis using it(1) by (auto simp: ready_item_def)
qed

theorem dispatch_only_ready_witness:
  "\<exists>items item. list_items default \<lparr>qs_items = [(''job_1'', fresh_journaled ready_sample)]\<rparr> = Inr items \<and>
     item \<in> set items \<and> qi_jobId item = ''job_1'' \<and> qi_status item = QQueued"
proof -
  let ?s = "dispatch_state (prepared_state\<lparr>cd_drawn := 0\<rparr>) ready_sample"
  have "distinct (ds_active ?s)" "int (length (ds_active ?s)) \<le> do_maxConcurrent (dv_options dispatch_env)"
    "''job_1'' \<in> set (ds_active (snd (dispatchAvailable dispatch_env ?s)))" "''job_1'' \<notin> set (ds_active ?s)"
    by (simp_all add: dispatch_run)
  from dispatch_only_ready [OF surjective_pairing this] show ?thesis by auto
qed

subsection \<open>Retrying\<close>

lemma on_cond_Inr: "on_cond m s = (Inr x, t) \<longleftrightarrow> (\<exists>c. m (ds_cond s) = (Inr x, c) \<and> t = s\<lparr>ds_cond := c\<rparr>)"
  by (auto simp: on_cond_def split: prod.splits)

lemma queue_read_Inr: "queue_read j s = (Inr i, t) \<longleftrightarrow> read_item (ds_queue s) j = Inr i \<and> t = s"
  by (auto simp: queue_read_def)

lemma queue_update_Inr:
  assumes "queue_update env x p s = (Inr y, t)"
  shows "y = patched_item (dnow env) x p" and "ds_cond t = ds_cond s" and "read_item (ds_queue s) (qi_jobId x) = Inr x"
proof -
  obtain r q where tr: "commitQueueUpdate (dv_queueFp env) (dnow env) x p
      (\<lambda>cur upd. assertQueueTransition (qi_status cur) (qi_status upd)) (ds_queue s) = (r, q)" by fastforce
  then have eq: "r = Inr y" "t = s\<lparr>ds_queue := q\<rparr>"
    using assms by (simp_all add: queue_update_def on_queue_def update_item_def)
  have "y = patched_item (dnow env) x p \<and> read_item (ds_queue s) (qi_jobId x) = Inr x"
    using tr
  proof (cases rule: commitQueueUpdate_cases)
    case (committed d r0 j)
    then show ?thesis using eq(1) by (cases r0) auto
  qed (use eq in simp)
  then show "y = patched_item (dnow env) x p" "ds_cond t = ds_cond s" "read_item (ds_queue s) (qi_jobId x) = Inr x"
    using eq by simp_all
qed

text \<open>
  Retry never duplicates work: it succeeds only for a finished item, and if the item ran an
  attempt, that attempt is finished and, in the state retry leaves, every cleanup obligation of it
  has a proof as its latest evidence. The item returns to the queue without attempt or completion.
\<close>

theorem retry_requires_proof:
  assumes ok: "content_ok (cd_store (ds_cond s))" and r: "dispatcher_retry env j s = (Inr item', t)"
  shows "\<exists>item. read_item (ds_queue s) j = Inr item \<and> isTerminal item \<and>
     qi_status item' = QQueued \<and> qi_attemptId item' = None \<and> qi_completion item' = None \<and>
     (truthy (qi_attemptId item) \<longrightarrow>
       (\<exists>m c. findAttempt (cd_store (ds_cond s)) (the (qi_attemptId item)) = Inr m \<and> isAttemptTerminal (am_status m) \<and>
          getAttemptCleanup (the (qi_attemptId item)) (ds_cond t) = (Inr c, ds_cond t) \<and>
          (\<forall>q\<in>set (cr_requirements c). evidence_proven c (rq_subject q))))"
proof -
  obtain item where it: "read_item (ds_queue s) j = Inr item" "isTerminal item"
    using r unfolding dispatcher_retry_def by (auto simp: act_inversion queue_read_Inr)
  let ?p = "\<lambda>i. i\<lparr>qi_status := QQueued, qi_dispatchOperationId := None, qi_attemptId := None,
       qi_completion := None, qi_message := None\<rparr>"
  have "\<exists>c. (truthy (qi_attemptId item) \<longrightarrow>
       (\<exists>m. findAttempt (cd_store (ds_cond s)) (the (qi_attemptId item)) = Inr m \<and> isAttemptTerminal (am_status m)) \<and>
       (\<exists>m. releaseAttemptExternalResources (dv_cond env) (the (qi_attemptId item)) (ds_cond s) = (Inr m, c))) \<and>
     queue_update env item ?p (s\<lparr>ds_cond := c\<rparr>) = (Inr item', t)"
  proof (cases "truthy (qi_attemptId item)")
    case True
    then show ?thesis using r it unfolding dispatcher_retry_def
      by (auto simp: act_inversion on_cond_Inr queue_read_Inr)
  next
    case False
    then have "queue_update env item ?p s = (Inr item', t)" using r it unfolding dispatcher_retry_def
      by (auto simp: act_inversion queue_read_Inr)
    then show ?thesis using False by (intro exI [of _ "ds_cond s"]) simp
  qed
  then obtain c where mid: "truthy (qi_attemptId item) \<Longrightarrow>
       (\<exists>m. findAttempt (cd_store (ds_cond s)) (the (qi_attemptId item)) = Inr m \<and> isAttemptTerminal (am_status m)) \<and>
       (\<exists>m. releaseAttemptExternalResources (dv_cond env) (the (qi_attemptId item)) (ds_cond s) = (Inr m, c))"
    and up: "queue_update env item ?p (s\<lparr>ds_cond := c\<rparr>) = (Inr item', t)" by blast
  note u = queue_update_Inr [OF up]
  have tc: "ds_cond t = c" using u(2) by simp
  have "\<exists>c. getAttemptCleanup (the (qi_attemptId item)) (ds_cond t) = (Inr c, ds_cond t) \<and>
      (\<forall>q\<in>set (cr_requirements c). evidence_proven c (rq_subject q))" if "truthy (qi_attemptId item)"
    using mid [OF that] released_all_proven [OF ok] tc by blast
  then show ?thesis using it mid u(1) by (auto simp: patched_item_def)
qed

theorem retry_requires_proof_witness:
  "\<exists>i t c. dispatcher_retry dispatch_env ''job_1'' (dispatch_state (witness_state retained sample_cleanup_record) finished_sample) = (Inr i, t) \<and>
     qi_status i = QQueued \<and> getAttemptCleanup ''job_1_a0001'' (ds_cond t) = (Inr c, ds_cond t)"
proof -
  let ?s = "dispatch_state (witness_state retained sample_cleanup_record) finished_sample"
  obtain i t where r: "dispatcher_retry dispatch_env ''job_1'' ?s = (Inr i, t)" using retry_run by blast
  have "content_ok (cd_store (ds_cond ?s))"
    by (simp, rule witness_state_ok [unfolded witness_state_store]) (simp_all add: cleanup_ok_def deriveCleanupStatus_def)
  from retry_requires_proof [OF this r] r show ?thesis by (auto simp: read_sample_queue truthy_def)
qed

subsection \<open>Recovery of a running item\<close>

lemma after_on_cond:
  assumes "\<And>x c. m (ds_cond s) = (Inr x, c) \<Longrightarrow> leads ((=) (s\<lparr>ds_cond := c\<rparr>)) (f x) Q" and "\<And>c. Q (s\<lparr>ds_cond := c\<rparr>)"
  shows "leads ((=) s) (bindA (on_cond m) f) Q"
  using assms unfolding leads_def bindA_def on_cond_def by (auto split: prod.splits sum.splits)

lemma queue_update_read:
  assumes "queue_ok (ds_queue s)" and "Suc (qi_revision x) < revision_limit" and "queue_update env x p s = (r, t)"
  shows "read_item (ds_queue t) (qi_jobId x) \<in> {read_item (ds_queue s) (qi_jobId x), Inr (patched_item (dnow env) x p)}"
proof -
  obtain r' q where tr: "commitQueueUpdate (dv_queueFp env) (dnow env) x p
      (\<lambda>cur upd. assertQueueTransition (qi_status cur) (qi_status upd)) (ds_queue s) = (r', q)" by fastforce
  then have "ds_queue t = q" using assms(3) by (auto simp: queue_update_def on_queue_def update_item_def)
  then show ?thesis using commitQueueUpdate_effect [OF assms(1,2) tr] by auto
qed

text \<open>What the item reads as once an update was tried: unchanged, or the patch.\<close>

definition requeued_if :: "string \<Rightarrow> (queue_item \<Rightarrow> bool) \<Rightarrow> dispatcher_state \<Rightarrow> bool" where
  "requeued_if j G s \<longleftrightarrow> (\<forall>v. read_item (ds_queue s) j = Inr v \<longrightarrow> qi_status v = QQueued \<longrightarrow> G v)"

lemma after_queue_update:
  assumes "queue_ok q" and "Suc (qi_revision x) < revision_limit" and "read_item q (qi_jobId x) = Inr x"
    and "qi_status x \<noteq> QQueued" and "qi_status (p x) = QQueued \<Longrightarrow> G (patched_item (dnow env) x p)"
  shows "leads (\<lambda>u. ds_queue u = q) (bindA (queue_update env x p) (\<lambda>_. ret ())) (requeued_if (qi_jobId x) G)"
proof -
  have "leads (\<lambda>u. ds_queue u = q) (queue_update env x p) (requeued_if (qi_jobId x) G)"
    using queue_update_read [OF _ assms(2)] assms(1,3-5) unfolding leads_def requeued_if_def
    by (fastforce simp: patched_item_def)
  then show ?thesis by (rule leads_then_ret)
qed

lemma leads_from: "leads P m Q \<Longrightarrow> P s \<Longrightarrow> leads ((=) s) m Q"
  by (auto simp: leads_def)

lemma projected_not_queued: "qp_status (projectQueueCompletion r now) \<noteq> QQueued"
  by (auto simp: projectQueueCompletion_def Let_def)

text \<open>
  C37. After a crash work is repeated only within its budget: an item that was running or being
  cancelled and is queued again after its recovery had a recorded attempt that the conductor found
  safe to retry, was not being cancelled, and counts one automatic retry more, at most as many as
  its frozen contract allows.
\<close>

theorem requeue_within_budget:
  assumes "queue_ok (ds_queue s)" and "Suc (qi_revision item) < revision_limit"
    and "read_item (ds_queue s) (qi_jobId item) = Inr item" and "qi_status item \<noteq> QQueued"
    and "recover_running env item s = (r, t)"
    and "read_item (ds_queue t) (qi_jobId item) = Inr v" and "qi_status v = QQueued"
  shows "\<exists>m c contract. recoverInterruptedAttempt (dv_cond env) (the (qi_attemptId item)) (ds_cond s) = (Inr (D_Safe_To_Retry, m), c) \<and>
     qi_status item = QRunning \<and> qi_attemptId v = None \<and> qi_automaticRetryCount v = Suc (qi_automaticRetryCount item) \<and>
     readJobA (dv_cond env) (qi_jobId item) c = (Inr contract, c) \<and>
     int (qi_automaticRetryCount v) \<le> rl_maxAutomaticRetries (jc_resources contract)"
    (is "?G v")
proof -
  define G where "G = ?G"
  let ?Q = "requeued_if (qi_jobId item) G"
  let ?P = "\<lambda>u. ds_queue u = ds_queue s"
  have Q: "?P u \<Longrightarrow> ?Q u" for u using assms(3,4) by (simp add: requeued_if_def)
  note upd = after_queue_update [OF assms(1-4), of _ G env]
  have fin: "leads ?P (finishItem env item res) ?Q" for res
  proof -
    have rd: "leads ?P (bindA (queue_read (qi_jobId item)) f) ?Q" if "leads ?P (f item) ?Q" for f
      using that assms(3) by (simp add: leads_def bindA_def queue_read_def)
    show ?thesis unfolding finishItem_def Let_def by (rule rd, rule upd) (simp add: projected_not_queued)
  qed
  have hold: "leads ?P (hold_orphan env item a d m) ?Q" for a d m
    unfolding hold_orphan_def by (rule leads_bindA, intro keeps_rules, rule Q, assumption, rule upd, simp)
  have req: "leads ((=) (s\<lparr>ds_cond := c\<rparr>)) (requeue_orphan env item a) ?Q"
    if safe: "recoverInterruptedAttempt (dv_cond env) (the (qi_attemptId item)) (ds_cond s) = (Inr (D_Safe_To_Retry, m), c)"
      and st: "qi_status item \<in> {QRunning, QCancelling}" for c a m
    unfolding requeue_orphan_def
  proof (rule after_on_cond, goal_cases)
    case (1 contract c')
    then have rd: "readJobA (dv_cond env) (qi_jobId item) c = (Inr contract, c)"
      by (auto simp: readJobA_Inr)
    show ?case
      by (rule leads_from [of ?P], intro leads_if upd) (use safe st rd in \<open>auto simp: G_def patched_item_def\<close>)
  qed (simp add: Q)
  have "leads ((=) s) (recover_running env item) ?Q"
    unfolding recover_running_def Let_def
  proof (intro leads_if, goal_cases)
    case 3
    then have st: "qi_status item \<in> {QRunning, QCancelling}" by blast
    show ?case
    proof (rule after_on_cond, goal_cases)
      case (1 m0 c0)
      then have c0: "s\<lparr>ds_cond := c0\<rparr> = s" by (simp add: getAttempt_Inr)
      have "leads ((=) s) (bindA (on_cond (recoverInterruptedAttempt (dv_cond env) (the (qi_attemptId item)))) (\<lambda>(d, m).
          if d = D_Safe_To_Retry then requeue_orphan env item (the (qi_attemptId item))
          else hold_orphan env item (the (qi_attemptId item)) d m)) ?Q"
        by (rule after_on_cond) (use st in \<open>auto simp: Q split: prod.splits intro!: leads_from [OF hold] leads_if req\<close>)
      then show ?case
        unfolding c0 by (cases "isAttemptTerminal (am_status m0)") (auto intro!: after_on_cond leads_from [OF fin] simp: Q)
    qed (simp add: Q)
  qed (auto intro!: leads_keeps keeps_rules leads_from [OF upd] simp: Q)
  from leadsD [OF this refl assms(5)] assms(6,7) show ?thesis by (simp add: requeued_if_def G_def)
qed

theorem requeue_within_budget_witness:
  "\<exists>v m c. read_item (ds_queue (snd (recover_running dispatch_env running_sample
      (dispatch_state (witness_state running running_cleanup) running_sample)))) ''job_1'' = Inr v \<and> qi_automaticRetryCount v = 1 \<and>
     recoverInterruptedAttempt witness_env ''job_1_a0001'' (witness_state running running_cleanup) = (Inr (D_Safe_To_Retry, m), c)"
proof -
  let ?s = "dispatch_state (witness_state running running_cleanup) running_sample"
  obtain v where v: "read_item (ds_queue (snd (recover_running dispatch_env running_sample ?s))) ''job_1'' = Inr v" "qi_status v = QQueued"
    using recover_run by blast
  have q: "queue_ok (ds_queue ?s)" by (rule dispatch_queue_ok) simp
  have "Suc (qi_revision running_sample) < revision_limit" "read_item (ds_queue ?s) (qi_jobId running_sample) = Inr running_sample"
    "qi_status running_sample \<noteq> QQueued"
    by (simp_all add: read_sample_queue)
  from requeue_within_budget [OF q this surjective_pairing _ v(2), where env = dispatch_env] v show ?thesis by auto
qed

end
