(* ===== verification/Commands_Properties.thy ===== *)
theory Commands_Properties
  imports Commands Conductor_Properties
begin

text \<open>
  What the command executor guarantees: it never throws, it runs only what the owner's policy or the
  sandbox profile allows and only inside the work tree, and a phase passes only when every one of
  its commands ran and exited with success.
\<close>

declare guardA_apply [simp del] liftE_apply [simp del]

subsection \<open>The working directory\<close>

lemma prefix_join_parent: "join ''/'' (''..'' # xs) = ''..'' @ (if xs = [] then [] else ''/'' @ join ''/'' xs)"
  by (cases xs) simp_all

lemma relative_inside:
  assumes "\<not> prefix ''..'' (posix_relative a b)"
  shows "prefix (path_segments a) (path_segments b)"
proof -
  let ?c = "longest_common_prefix (path_segments a) (path_segments b)"
  have p: "prefix ?c (path_segments a)" "prefix ?c (path_segments b)"
    by (rule longest_common_prefix_prefix1, rule longest_common_prefix_prefix2)
  have "length (path_segments a) \<le> length ?c"
  proof (rule ccontr)
    assume "\<not> ?thesis"
    then obtain n where "length (path_segments a) - length ?c = Suc n" by (metis Suc_diff_Suc not_le)
    then show False using assms by (simp add: posix_relative_def Let_def prefix_join_parent split: if_splits)
  qed
  then have "?c = path_segments a" using p(1) by (metis prefix_length_le prefix_order.antisym prefix_length_prefix prefix_order.order_refl)
  then show ?thesis using p(2) by simp
qed

lemma resolved_inside:
  assumes "resolveInsideWorkspace h w rel s = (Inr cwd, t)"
  shows "\<exists>wsRoot s'. ch_realpath h (posix_resolve (ch_cwd h) w) s = (Inr wsRoot, s') \<and> prefix (path_segments wsRoot) (path_segments cwd)"
  using assms unfolding resolveInsideWorkspace_def
  by (auto simp: bindA_eq_Inr guardA_Inr Let_def intro!: relative_inside)

subsection \<open>One command\<close>

text \<open>The refusals and failures of a command are evidence, never exceptions.\<close>

lemma bindA_tryA: "bindA (tryA m) f s = (case m s of (r, t) \<Rightarrow> f r t)"
  by (simp add: bindA_def tryA_def split: prod.splits)

lemma bindA_getA [simp]: "bindA getA f s = f s s"
  by (simp add: bindA_def getA_def)

lemma executeCommand_total: "\<exists>ev t. executeCommand h cb p index command maxMs s = (Inr ev, t)"
  by (auto simp: executeCommand_def Let_def bindA_tryA split: prod.splits sum.splits)

definition command_allowed :: "'s command_host \<Rightarrow> execution_boundary \<Rightarrow> command_spec \<Rightarrow> bool" where
  "command_allowed h boundary command =
     (case boundary of
        HostWorktree \<Rightarrow> policy_validate (ch_win32 h) (ch_policy h) command = Inr ()
      | ExternalSandbox b \<Rightarrow> validateSandboxCommand b command = Inr ())"

lemma command_invocation_allowed:
  "command_invocation h cb p index command cwd s = (Inr i, t) \<Longrightarrow> command_allowed h (ph_boundary p) command"
proof (cases "ph_boundary p")
  case (ExternalSandbox b)
  assume "command_invocation h cb p index command cwd s = (Inr i, t)"
  then obtain now si where "buildSandboxedCommand (ch_sha256 h) (ch_showNumber h) (ch_win32 h) now b command (ph_workspacePath p)
      (ph_artifactDirectory p) (cs_cwd command) (ph_attemptId p @ ''-'' @ command_phase_name (ph_phase p) @ ''-'' @ show_nat index) = Inr si"
    using ExternalSandbox by (auto simp: command_invocation_def bindA_eq_Inr liftE_Inr)
  then show ?thesis
    using ExternalSandbox
    by (cases "validateSandboxCommand b command") (simp_all add: buildSandboxedCommand_def command_allowed_def)
qed (auto simp: command_invocation_def command_allowed_def bindA_eq_Inr liftE_Inr)

text \<open>A command that passed was allowed, ran inside the work tree and exited with success, and its result was accepted by the callback.\<close>

definition command_passed :: "'s command_host \<Rightarrow> 's command_callbacks \<Rightarrow> command_phase_input \<Rightarrow> nat \<Rightarrow> command_spec \<Rightarrow> command_evidence \<Rightarrow> bool" where
  "command_passed h cb p index command ev \<longleftrightarrow>
     command_allowed h (ph_boundary p) command \<and>
     (\<exists>wsRoot s s'. ch_realpath h (posix_resolve (ch_cwd h) (ph_workspacePath p)) s = (Inr wsRoot, s') \<and>
        prefix (path_segments wsRoot) (path_segments (ev_resolvedCwd ev))) \<and>
     (\<exists>pr s s'. ev_process ev = Some pr \<and> px_exitCode pr = Some 0 \<and> \<not> px_cancelled pr \<and> \<not> px_timedOut pr \<and>
        cc_result cb (command_prefix (ph_phase p) index) pr s = (Inr (), s'))"

lemma run_command_result:
  "run_command h cb p op iv bd ms s = (Inr pr, t) \<Longrightarrow> \<exists>s s'. cc_result cb op pr s = (Inr (), s')"
  by (cases bd) (auto simp: run_command_def bindA_eq_Inr split: option.splits, (metis liftE_Inr)+)

lemma process_status_passed: "process_status pr = Cmd_Passed \<longleftrightarrow> px_exitCode pr = Some 0 \<and> \<not> px_cancelled pr \<and> \<not> px_timedOut pr"
  by (simp add: process_status_def)

lemma executeCommand_result:
  assumes "executeCommand h cb p index command maxMs s = (Inr ev, t)"
  shows "ev_command ev = command \<and> ev_index ev = index \<and> (ev_status ev = Cmd_Passed \<longrightarrow> command_passed h cb p index command ev)"
proof (cases "\<exists>cwd s1 iv bd s2 pr. resolveInsideWorkspace h (ph_workspacePath p) (cs_cwd command) s = (Inr cwd, s1) \<and>
    command_invocation h cb p index command cwd s1 = (Inr (iv, bd), s2) \<and> \<not> ch_aborted h s2 \<and>
    run_command h cb p (command_prefix (ph_phase p) index) iv bd
      (min (case cs_timeoutMs command of None \<Rightarrow> ph_defaultTimeoutMs p | Some t \<Rightarrow> t) maxMs) s2 = (Inr pr, t)")
  case True
  then obtain cwd s1 iv bd s2 pr where r: "resolveInsideWorkspace h (ph_workspacePath p) (cs_cwd command) s = (Inr cwd, s1)"
      "command_invocation h cb p index command cwd s1 = (Inr (iv, bd), s2)" "\<not> ch_aborted h s2"
      "run_command h cb p (command_prefix (ph_phase p) index) iv bd
      (min (case cs_timeoutMs command of None \<Rightarrow> ph_defaultTimeoutMs p | Some t \<Rightarrow> t) maxMs) s2 = (Inr pr, t)" by blast
  note facts = resolved_inside [OF r(1)] command_invocation_allowed [OF r(2)] run_command_result [OF r(4)]
  have ev: "ev_command ev = command" "ev_index ev = index" "ev_resolvedCwd ev = cwd" "ev_process ev = Some pr"
    "ev_status ev = process_status pr"
    using assms r by (auto simp: executeCommand_def Let_def bindA_tryA)
  show ?thesis using facts unfolding command_passed_def ev process_status_passed by blast
next
  case False
  then show ?thesis
    using assms by (auto simp: executeCommand_def Let_def bindA_tryA split: prod.splits sum.splits if_splits)
qed

subsection \<open>A phase\<close>

lemma run_commands_result:
  assumes "run_commands h cb p index commands evidence s = (Inr evs, t)"
  shows "\<exists>new. evs = evidence @ new \<and> length new \<le> length commands \<and>
    (\<forall>i<length new. ev_command (new ! i) = commands ! i \<and> ev_index (new ! i) = index + i \<and> output_limit_of (new ! i) = None \<and>
       (ev_status (new ! i) = Cmd_Passed \<longrightarrow> command_passed h cb p (index + i) (commands ! i) (new ! i)) \<and>
       (Suc i < length new \<longrightarrow> ev_status (new ! i) = Cmd_Passed)) \<and>
    ((\<forall>ev\<in>set new. ev_status ev = Cmd_Passed) \<longrightarrow> length new = length commands)"
  using assms
proof (induction commands arbitrary: index evidence s)
  case Nil
  then show ?case by simp
next
  case (Cons command rest)
  obtain maxMs ev s1 where ex: "executeCommand h cb p index command maxMs s = (Inr ev, s1)" and lim: "output_limit_of ev = None"
    and go: "(if ev_status ev \<noteq> Cmd_Passed then ret (evidence @ [ev])
       else run_commands h cb p (Suc index) rest (evidence @ [ev])) s1 = (Inr evs, t)"
    using Cons.prems by (auto simp: bindA_eq_Inr liftE_Inr split: option.splits)
  note one = executeCommand_result [OF ex]
  show ?case
  proof (cases "ev_status ev = Cmd_Passed")
    case False
    then have "evs = evidence @ [ev]" using go by simp
    then show ?thesis using one lim False by (intro exI [of _ "[ev]"]) simp
  next
    case True
    then have "run_commands h cb p (Suc index) rest (evidence @ [ev]) s1 = (Inr evs, t)" using go by simp
    from Cons.IH [OF this] obtain new where new: "evs = (evidence @ [ev]) @ new" "length new \<le> length rest"
      and step: "\<And>i. i < length new \<Longrightarrow> ev_command (new ! i) = rest ! i \<and> ev_index (new ! i) = Suc index + i \<and> output_limit_of (new ! i) = None \<and>
       (ev_status (new ! i) = Cmd_Passed \<longrightarrow> command_passed h cb p (Suc index + i) (rest ! i) (new ! i)) \<and>
       (Suc i < length new \<longrightarrow> ev_status (new ! i) = Cmd_Passed)"
      and all: "(\<forall>ev\<in>set new. ev_status ev = Cmd_Passed) \<Longrightarrow> length new = length rest"
      by blast
    have "ev_command ((ev # new) ! i) = (command # rest) ! i \<and> ev_index ((ev # new) ! i) = index + i \<and> output_limit_of ((ev # new) ! i) = None \<and>
       (ev_status ((ev # new) ! i) = Cmd_Passed \<longrightarrow> command_passed h cb p (index + i) ((command # rest) ! i) ((ev # new) ! i)) \<and>
       (Suc i < length (ev # new) \<longrightarrow> ev_status ((ev # new) ! i) = Cmd_Passed)" if "i < length (ev # new)" for i
      using that one lim True step [of "i - 1"] by (cases i) auto
    then show ?thesis using new all by (intro exI [of _ "ev # new"]) auto
  qed
qed


subsection \<open>What the caller's callbacks keep and accept\<close>

lemma keeps_tryA [keeps_rules]: "keeps P m \<Longrightarrow> keeps P (tryA m)"
  by (auto simp: keeps_def tryA_def split: prod.splits)

lemma keeps_state [keeps_rules]: "keeps P getA"
  by (simp add: keeps_def getA_def)

lemma keeps_case_sum [keeps_rules]: "(\<And>a. keeps P (f a)) \<Longrightarrow> (\<And>b. keeps P (g b)) \<Longrightarrow> keeps P (case r of Inl a \<Rightarrow> f a | Inr b \<Rightarrow> g b)"
  by (cases r) simp_all

lemma keeps_case_boundary [keeps_rules]:
  "keeps P a \<Longrightarrow> (\<And>b. keeps P (f b)) \<Longrightarrow> keeps P (case r of HostWorktree \<Rightarrow> a | ExternalSandbox b \<Rightarrow> f b)"
  "keeps P a \<Longrightarrow> (\<And>b. keeps P (g b)) \<Longrightarrow> keeps P (case e of Evidence_HostWorktree \<Rightarrow> a | Evidence_Sandbox b \<Rightarrow> g b)"
  by (cases r, simp_all) (cases e, simp_all)

text \<open>A property of the caller's state that the host and every callback keep is kept by a whole phase.\<close>

locale command_frame =
  fixes P :: "'s \<Rightarrow> bool" and h :: "'s command_host" and cb :: "'s command_callbacks"
  assumes host: "keeps P (ch_realpath h path)" "keeps P (ch_run h invocation timeoutMs)"
    and calls: "keeps P (cc_guardian cb op g)" "keeps P (cc_result cb op pr)"
      "keeps P (cc_resource cb er)" "keeps P (cc_released cb i pe)"
begin

lemma keeps_rulesuteCommand: "keeps P (executeCommand h cb p index command ms)"
  unfolding executeCommand_def Let_def resolveInsideWorkspace_def command_invocation_def run_command_def
  by (intro keeps_rules host calls)

lemma keeps_run_commands: "keeps P (run_commands h cb p index commands evidence)"
  by (induction commands arbitrary: index evidence) (simp_all, intro keeps_rules keeps_rulesuteCommand)

lemma keeps_runCommandSequence: "keeps P (runCommandSequence h cb p commands)"
  unfolding runCommandSequence_def by (rule keeps_run_commands)

end

text \<open>A caller that accepts a result only when its process tree is proven gone: a passed phase leaves nothing running.\<close>

locale proven_commands =
  fixes h :: "'s command_host" and cb :: "'s command_callbacks"
  assumes accepts: "cc_result cb op pr s = (Inr (), t) \<Longrightarrow> pt_status (px_termination pr) = EProven"
begin

lemma passed_phase:
  assumes "runCommandSequence h cb p commands s = (Inr evs, t)" and "phaseStatus evs = P_Passed"
  shows "map ev_command evs = commands \<and> (\<forall>ev\<in>set evs. command_allowed h (ph_boundary p) (ev_command ev) \<and>
    (\<exists>pr. ev_process ev = Some pr \<and> px_exitCode pr = Some 0 \<and> \<not> px_cancelled pr \<and> \<not> px_timedOut pr \<and>
       pt_status (px_termination pr) = EProven))"
proof -
  obtain new where "evs = [] @ new" and new: "length new \<le> length commands"
    and step: "\<And>i. i < length new \<Longrightarrow> ev_command (new ! i) = commands ! i \<and>
       (ev_status (new ! i) = Cmd_Passed \<longrightarrow> command_passed h cb p i (commands ! i) (new ! i))"
    and all: "(\<forall>ev\<in>set new. ev_status ev = Cmd_Passed) \<Longrightarrow> length new = length commands"
    using run_commands_result [OF assms(1) [unfolded runCommandSequence_def]] by auto
  then have evs: "evs = new" by simp
  have ps: "\<forall>ev\<in>set new. ev_status ev = Cmd_Passed" using assms(2) by (simp add: phaseStatus_Passed_iff evs)
  have "map ev_command evs = commands"
    using step all [OF ps] by (intro nth_equalityI) (auto simp: evs)
  moreover have "command_allowed h (ph_boundary p) (ev_command ev) \<and>
    (\<exists>pr. ev_process ev = Some pr \<and> px_exitCode pr = Some 0 \<and> \<not> px_cancelled pr \<and> \<not> px_timedOut pr \<and>
       pt_status (px_termination pr) = EProven)" if "ev \<in> set evs" for ev
    using that ps step accepts unfolding evs in_set_conv_nth command_passed_def by (metis nth_mem)
  ultimately show ?thesis by blast
qed

end

subsection \<open>A sample phase\<close>

definition clean_exit :: process_result where
  "clean_exit = \<lparr>px_pid = Some 9, px_exitCode = Some 0, px_signal = None, px_timedOut = False, px_cancelled = False, px_outputLimit = None,
     px_durationMs = 5, px_containment = None,
     px_termination = \<lparr>pt_status = EProven, pt_termMethod = Windows_Job_Owner_Exit, pt_observedAt = 3, pt_detail = None\<rparr>, pr_cleanup = None\<rparr>"

definition sample_host :: "unit command_host" where
  "sample_host = \<lparr>ch_win32 = False, ch_cwd = ''/'', ch_penv = [], ch_policy = \<lparr>xp_executables = [''/bin/make''], xp_environmentNames = []\<rparr>,
     ch_sha256 = (\<lambda>x. x), ch_showNumber = (\<lambda>_. ''1''), ch_now = (\<lambda>_. 3), ch_realpath = ret, ch_aborted = (\<lambda>_. False),
     ch_run = (\<lambda>_ _. ret \<lparr>ro_guardian = None, ro_result = Inr clean_exit, ro_stderr = Inr []\<rparr>)\<rparr>"

definition sample_callbacks :: "unit command_callbacks" where
  "sample_callbacks = \<lparr>cc_guardian = (\<lambda>_ _. ret ()), cc_result = (\<lambda>op r. liftE (assertProcessCleanupProven op r)),
     cc_resource = (\<lambda>_. ret ()), cc_released = (\<lambda>_ _. ret ())\<rparr>"

definition sample_phase :: command_phase_input where
  "sample_phase = \<lparr>ph_phase = Phase_Setup, ph_workspacePath = ''/w'', ph_artifactDirectory = ''/r'', ph_defaultTimeoutMs = 1000, ph_deadlineAt = 99,
     ph_maxLogBytes = 100, ph_cleanupTimeoutMs = 5000, ph_boundary = HostWorktree, ph_attemptId = ''a''\<rparr>"

lemma sample_phase_run:
  "\<exists>evs. runCommandSequence sample_host sample_callbacks sample_phase [sample_command] () = (Inr evs, ()) \<and> phaseStatus evs = P_Passed"
proof -
  have cwd: "resolveInsideWorkspace sample_host (ph_workspacePath sample_phase) (cs_cwd sample_command) () = (Inr ''/w/pkg'', ())"
    by (simp add: resolveInsideWorkspace_def sample_host_def sample_phase_def sample_command_def Let_def posix_resolve_def posix_relative_def
        path_segments_def guardA_def posix_isAbsolute_def)
  obtain iv where iv: "command_invocation sample_host sample_callbacks sample_phase 0 sample_command ''/w/pkg'' () = (Inr (iv, Evidence_HostWorktree), ())"
    by (simp add: command_invocation_def sample_host_def sample_phase_def sample_command_def policy_validate_def host_isAbsolute_def
        posix_isAbsolute_def normalizePolicyValue_def liftE_apply bindA_def)
  have run: "run_command sample_host sample_callbacks sample_phase op iv Evidence_HostWorktree ms () = (Inr clean_exit, ())" for op ms
    by (simp add: run_command_def sample_host_def sample_callbacks_def clean_exit_def assertProcessCleanupProven_def liftE_apply bindA_def)
  have ex: "\<exists>ev. executeCommand sample_host sample_callbacks sample_phase 0 sample_command ms () = (Inr ev, ()) \<and>
      ev_status ev = Cmd_Passed \<and> ev_process ev = Some clean_exit" for ms
    using iv run cwd by (simp add: executeCommand_def Let_def bindA_tryA) (simp add: sample_host_def process_status_def clean_exit_def)
  obtain ev where ev: "executeCommand sample_host sample_callbacks sample_phase 0 sample_command 96 () = (Inr ev, ())"
      "ev_status ev = Cmd_Passed" "ev_process ev = Some clean_exit" using ex by blast
  have "remainingTimeout (ph_deadlineAt sample_phase) (ch_now sample_host ()) = Inr 96"
    by (simp add: remainingTimeout_def sample_phase_def sample_host_def)
  then have "runCommandSequence sample_host sample_callbacks sample_phase [sample_command] () = (Inr [ev], ())"
    using ev by (simp add: runCommandSequence_def liftE_apply bindA_def output_limit_of_def clean_exit_def getA_def)
  then show ?thesis using ev(2) by (auto simp: phaseStatus_def)
qed


end
