(* ===== verification/Execution_Samples.thy ===== *)
theory Execution_Samples
  imports Execution Commands_Properties
begin

text \<open>
  Concrete executions on which the theorems about executions are applied: the attempt of the sample
  job on a quiet host, once to an eligible proposal and once to a failure while its work tree is
  created.
\<close>

declare guardA_apply [simp del] liftE_apply [simp del]

subsection \<open>Runs that succeed\<close>

definition runs :: "('s \<Rightarrow> bool) \<Rightarrow> ('s, 'a) act \<Rightarrow> ('a \<Rightarrow> 's \<Rightarrow> bool) \<Rightarrow> bool" where
  "runs P m Q \<longleftrightarrow> (\<forall>s. P s \<longrightarrow> (\<exists>a t. m s = (Inr a, t) \<and> Q a t))"

lemma runs_bind: "runs P m R \<Longrightarrow> (\<And>a. runs (R a) (f a) Q) \<Longrightarrow> runs P (bindA m f) Q"
  unfolding runs_def bindA_def by fastforce

lemma runs_ret: "(\<And>s. P s \<Longrightarrow> Q a s) \<Longrightarrow> runs P (ret a) Q"
  by (simp add: runs_def)

lemma runs_getA: "(\<And>s. P s \<Longrightarrow> runs (\<lambda>t. t = s) (f s) Q) \<Longrightarrow> runs P (bindA getA f) Q"
  by (auto simp: runs_def bindA_def getA_def)

lemma runs_get: "(\<And>s. P s \<Longrightarrow> runs P (f s) Q) \<Longrightarrow> runs P (bindA getA f) Q"
  by (auto simp: runs_def bindA_def getA_def)

lemma runs_weaken: "runs P m R \<Longrightarrow> (\<And>s. P' s \<Longrightarrow> P s) \<Longrightarrow> (\<And>a s. R a s \<Longrightarrow> Q a s) \<Longrightarrow> runs P' m Q"
  unfolding runs_def by meson

lemma runs_finallyA: "runs P m R \<Longrightarrow> (\<And>a. runs (R a) f (\<lambda>_. Q a)) \<Longrightarrow> runs P (finallyA m f) Q"
  unfolding runs_def finallyA_def by fastforce

lemma runs_catchA: "runs P m Q \<Longrightarrow> runs P (catchA m h) Q"
  unfolding runs_def catchA_def by fastforce

lemma runs_tryA: "runs P m Q \<Longrightarrow> runs P (tryA m) (\<lambda>r t. \<exists>a. r = Inr a \<and> Q a t)"
  unfolding runs_def tryA_def by fastforce

lemma runs_liftE: "r = Inr a \<Longrightarrow> runs P (f a) Q \<Longrightarrow> runs P (bindA (liftE r) f) Q"
  by (simp add: runs_def bindA_def liftE_def)

lemma runs_guard: "b \<Longrightarrow> runs P (f ()) Q \<Longrightarrow> runs P (bindA (guardA b e) f) Q"
  by (simp add: runs_def bindA_def guardA_def)

subsection \<open>The quiet host\<close>

definition quiet :: "exec_env \<Rightarrow> bool" where
  "quiet x \<longleftrightarrow> xv_cond x = witness_env \<and> (\<forall>n c. xv_others x n c = c) \<and> (\<forall>n. xv_clock x n = 9 \<and> xv_timer x n = [] \<and>
     \<not> xv_deadline x n \<and> over_budget (jc_resources sample_job) (xv_sample x n) = Inr () \<and> (\<forall>p. xv_writeJson x n p = Inr ()))"

definition on_disk :: "attempt_manifest \<Rightarrow> attempt_cleanup_record \<Rightarrow> artifact_store \<Rightarrow> bool" where
  "on_disk m c s \<longleftrightarrow> (\<exists>mj cj. s = witness_store mj cj \<and> record_ok am_revision mj \<and> record_ok cr_revision cj \<and>
     read_journaled Attempt_Kind ''Attempt'' ''job_1_a0001'' am_revision mj = Inr m \<and>
     read_journaled Attempt_Cleanup_Kind ''Attempt cleanup'' ''job_1_a0001'' cr_revision cj = Inr c)"

definition fits :: "attempt_status \<Rightarrow> nat \<Rightarrow> attempt_manifest \<Rightarrow> bool" where
  "fits st k m \<longleftrightarrow> am_status m = st \<and> am_revision m = k \<and> am_jobId m = ''job_1'' \<and> am_attemptId m = ''job_1_a0001'' \<and>
     am_lineage m = None \<and> attemptManifest_valid m"

definition stage :: "(attempt_manifest \<Rightarrow> bool) \<Rightarrow> (verification_record \<Rightarrow> bool) \<Rightarrow> attempt_cleanup_record \<Rightarrow> exec_state \<Rightarrow> bool" where
  "stage M V c s \<longleftrightarrow> M (xs_manifest s) \<and> V (xs_verification s) \<and> on_disk (xs_manifest s) c (cd_store (xs_cond s)) \<and>
     xs_failure s = None \<and> cd_aborted (xs_cond s) = []"

lemma transition_on_disk:
  assumes d: "on_disk m c s" and m: "fits st k m" and k: "Suc k < revision_limit"
    and p: "fits st' (Suc k) (patched m p)" and al: "st' \<in> set (allowedAttemptTransitions st)"
  shows "\<exists>t. transitionAttempt no_failpoint m p s = (Inr (patched m p), t) \<and> on_disk (patched m p) c t"
proof -
  obtain mj cj where s: "s = witness_store mj cj" and ok: "record_ok am_revision mj" and cok: "record_ok cr_revision cj"
    and rd: "read_journaled Attempt_Kind ''Attempt'' ''job_1_a0001'' am_revision mj = Inr m"
    and rc: "read_journaled Attempt_Cleanup_Kind ''Attempt cleanup'' ''job_1_a0001'' cr_revision cj = Inr c"
    using d unfolding on_disk_def by blast
  obtain r mj' where c: "commitTransition no_failpoint Attempt_Kind ''job_1_a0001'' (am_revision m) (patched m p) mj = (r, mj')"
    by fastforce
  note cc = commit_current [OF ok rd _ _ c]
  have rev: "am_revision (patched m p) = Suc (am_revision m)" "Suc (am_revision m) < revision_limit"
    using m p k by (simp_all add: fits_def)
  have "transitionAttempt no_failpoint m p s = (Inr (patched m p), witness_store mj' cj)"
    using m p al rd s c cc(1) [OF rev]
    by (simp add: transitionAttempt_def assertAttemptTransition_def on_manifest_def bindA_def fits_def)
  moreover have "on_disk (patched m p) c (witness_store mj' cj)"
    unfolding on_disk_def using cc(2,3) [OF rev] cok rc by blast
  ultimately show ?thesis by blast
qed

lemma cleanup_transition_on_disk:
  assumes d: "on_disk m c s" and ids: "cr_jobId c = ''job_1''" "cr_attemptId c = ''job_1_a0001''" and k: "Suc (cr_revision c) < revision_limit"
    and v: "attemptCleanupRecord_valid (patched_cleanup now rs es c)"
  shows "\<exists>t. transitionAttemptCleanup no_failpoint now c rs es s = (Inr (patched_cleanup now rs es c), t) \<and>
    on_disk m (patched_cleanup now rs es c) t"
proof -
  obtain mj cj where s: "s = witness_store mj cj" and mok: "record_ok am_revision mj" and ok: "record_ok cr_revision cj"
    and rm: "read_journaled Attempt_Kind ''Attempt'' ''job_1_a0001'' am_revision mj = Inr m"
    and rd: "read_journaled Attempt_Cleanup_Kind ''Attempt cleanup'' ''job_1_a0001'' cr_revision cj = Inr c"
    using d unfolding on_disk_def by blast
  let ?c = "patched_cleanup now rs es c"
  obtain r cj' where c: "commitTransition no_failpoint Attempt_Cleanup_Kind ''job_1_a0001'' (cr_revision c) ?c cj = (r, cj')"
    by fastforce
  note cc = commit_current [OF ok rd _ k c]
  have rev: "cr_revision ?c = Suc (cr_revision c)" by (simp add: patched_cleanup_def Let_def)
  have "transitionAttemptCleanup no_failpoint now c rs es s = (Inr ?c, witness_store mj cj')"
    using ids rd s c cc(1) [OF rev] v
    by (simp add: transitionAttemptCleanup_def on_cleanup_def bindA_def)
  moreover have "on_disk m ?c (witness_store mj cj')"
    unfolding on_disk_def using cc(2,3) [OF rev] mok rm by blast
  ultimately show ?thesis by blast
qed

lemma read_on_disk: "on_disk m c s \<Longrightarrow> readAttemptCleanup s ''job_1'' ''job_1_a0001'' = Inr c"
  by (auto simp: on_disk_def)

subsection \<open>Steps on the quiet host\<close>

lemma stage_pass: "quiet x \<Longrightarrow> runs (stage M V c) (pass x sample_job) (\<lambda>_. stage M V c)"
  by (simp add: runs_def pass_def stage_def quiet_def Let_def)

lemma stage_ask: "quiet x \<Longrightarrow> (\<And>n. f n = Inr a) \<Longrightarrow> runs (stage M V c) (ask x sample_job f) (\<lambda>r s. r = a \<and> stage M V c s)"
  unfolding ask_def by (rule runs_bind [OF stage_pass]) (simp_all add: runs_def liftE_def)

lemma runs_ask:
  assumes "quiet x" "\<And>n. f n = Inr (projr (f 0))" "runs (stage M V c) (g (projr (f 0))) Q"
  shows "runs (stage M V c) (bindA (ask x sample_job f) g) Q"
  by (rule runs_bind [OF stage_ask [OF assms(1,2)]]) (use assms(3) in \<open>auto simp: runs_def\<close>)

lemma stage_on_conductor:
  assumes "quiet x" and "\<And>n s. on_disk m c (cd_store s) \<Longrightarrow>
    \<exists>a t. f (witness_env) s = (Inr a, t) \<and> on_disk m c' (cd_store t) \<and> cd_aborted t = cd_aborted s"
  shows "runs (\<lambda>s. xs_manifest s = m \<and> stage M V c s) (on_conductor x sample_job f) (\<lambda>_ s. xs_manifest s = m \<and> stage M V c' s)"
proof -
  have [simp]: "cond_env x n = witness_env" for n
    using assms(1) by (simp add: cond_env_def quiet_def witness_env_def)
  show ?thesis
    unfolding runs_def
  proof (intro allI impI)
    fix s
    assume s: "xs_manifest s = m \<and> stage M V c s"
    then obtain a t where "f witness_env (xs_cond s) = (Inr a, t)" "on_disk m c' (cd_store t)" "cd_aborted t = cd_aborted (xs_cond s)"
      using assms(2) by (fastforce simp: stage_def)
    then show "\<exists>a t. on_conductor x sample_job f s = (Inr a, t) \<and> xs_manifest t = m \<and> stage M V c' t"
      using s assms(1) by (auto simp: on_conductor_def bindA_def pass_def Let_def stage_def quiet_def)
  qed
qed

lemma stage_x_update:
  assumes "quiet x" "Suc k < revision_limit" "st' \<in> set (allowedAttemptTransitions st)"
    and "\<And>m. fits st k m \<Longrightarrow> M m \<Longrightarrow> fits st' (Suc k) (patched m (p 9)) \<and> M' (patched m (p 9))"
  shows "runs (stage (\<lambda>m. fits st k m \<and> M m) V c) (x_update x sample_job p) (\<lambda>_. stage (\<lambda>m. fits st' (Suc k) m \<and> M' m) V c)"
proof -
  have env [simp]: "cond_env x n = witness_env" for n
    using assms(1) by (simp add: cond_env_def quiet_def witness_env_def)
  show ?thesis
    unfolding runs_def
  proof (intro allI impI)
    fix s
    assume s: "stage (\<lambda>m. fits st k m \<and> M m) V c s"
    let ?m = "xs_manifest s"
    have f: "fits st k ?m" "M ?m" "on_disk ?m c (cd_store (xs_cond s))" using s by (auto simp: stage_def)
    obtain t where "transitionAttempt no_failpoint ?m (p 9) (cd_store (xs_cond s)) = (Inr (patched ?m (p 9)), t)"
        "on_disk (patched ?m (p 9)) c t"
      using transition_on_disk [OF f(3) f(1) assms(2) _ assms(3)] assms(4) [OF f(1,2)] by blast
    then show "\<exists>a t. x_update x sample_job p s = (Inr a, t) \<and> stage (\<lambda>m. fits st' (Suc k) m \<and> M' m) V c t"
      using s assms(1) assms(4) [OF f(1,2)]
      by (simp add: x_update_def on_conductor_def bindA_def getA_def pass_def Let_def stage_def quiet_def set_manifest_def
          update_attempt_def on_store_def)
  qed
qed

lemma stage_budget: "quiet x \<Longrightarrow> runs (stage M V c) (assertWithinBudget x sample_job) (\<lambda>_. stage M V c)"
  unfolding assertWithinBudget_def
  by (rule runs_bind [OF stage_pass]) (simp_all add: runs_def stage_def monitor_sample_def quiet_def)

lemma stage_writeVerification: "quiet x \<Longrightarrow> runs (stage M V c) (writeVerification x sample_job) (\<lambda>_. stage M V c)"
  unfolding writeVerification_def
  by (rule runs_bind [OF stage_pass], assumption) (simp add: runs_def bindA_def getA_def liftE_def stage_def quiet_def)

lemma stage_set_verification: "(\<And>v. V v \<Longrightarrow> V' (f v)) \<Longrightarrow> runs (stage M V c) (set_verification f) (\<lambda>_. stage M V' c)"
  by (simp add: runs_def set_verification_def stage_def)

lemma stage_sets: "runs (stage M V c) (set_workspace w) (\<lambda>_. stage M V c)" "runs (stage M V c) (set_monitoring b) (\<lambda>_. stage M V c)"
  by (simp_all add: runs_def set_workspace_def set_monitoring_def stage_def)

subsection \<open>An execution that ends eligible\<close>

definition sample_profile :: worker_execution_profile where
  "sample_profile = \<lparr>wp_recordedAt = 9, wp_status = Profile_Complete, wp_adapter = \<lparr>pa_id = ''local'', pa_label = ''Local'',
     pa_executable = ''/bin/w'', pa_outputFormat = Output_Text, pa_safetyMode = ''s'', pa_hostExecution = None, pa_modelIdentity = Model_Not_Applicable\<rparr>,
     wp_adapterOptionsFingerprint = ''o'', wp_invocationFingerprint = ''i'', wp_modelSelector = None, wp_attributes = [], wp_files = [],
     wp_unresolvedReasons = [], wp_profileFingerprint = ''p''\<rparr>"

definition sample_exec_env :: exec_env where
  "sample_exec_env = \<lparr>xv_cond = witness_env, xv_others = (\<lambda>_ c. c), xv_clock = (\<lambda>_. 9), xv_deadline = (\<lambda>_. False), xv_timer = (\<lambda>_. []),
     xv_sample = (\<lambda>_. \<lparr>bs_worktree = Inr [], bs_artifacts = Inr [], bs_freeBytes = Inr (10 ^ 15)\<rparr>), xv_workspaceRoot = ''/ws'',
     xv_hostCwd = ''/'', xv_win32 = False, xv_penv = [], xv_policy = \<lparr>xp_executables = [], xp_environmentNames = []\<rparr>,
     xv_showNumber = (\<lambda>_. ''1''), xv_git = (\<lambda>_ _ args. Inr (if args = [''rev-parse'', ''HEAD''] then replicate 40 (CHR ''a'') else [])),
     xv_cleanupGit = (\<lambda>_ _ _. Inr ()), xv_exists = (\<lambda>_ _. Inr False), xv_mkdir = (\<lambda>_ _. Inr ()), xv_size = (\<lambda>_ _. Inr 0),
     xv_read = (\<lambda>_ _. Inr []), xv_realpath = (\<lambda>_ p. Inr p), xv_write = (\<lambda>_ _ _. Inr ()), xv_writeJson = (\<lambda>_ _. Inr ()),
     xv_command = (\<lambda>_ _ _. \<lparr>ro_guardian = None, ro_result = Inl ZodError, ro_stderr = Inl ZodError\<rparr>),
     xv_build = (\<lambda>_ w _. Inr \<lparr>pi_executable = ''/bin/w'', pi_args = [], pi_cwd = gw_path w, pi_env = [], pi_cleanup = None\<rparr>),
     xv_profile = (\<lambda>_ _ _. Inr sample_profile), xv_validateProfile = (\<lambda>_ _. Inr ()),
     xv_worker = (\<lambda>_ _. \<lparr>ro_guardian = Some dead_guardian, ro_result = Inr clean_exit, ro_stderr = Inr [], wo_spawn = Some 43\<rparr>)\<rparr>"

definition claimed :: attempt_manifest where
  "claimed = sample_manifest\<lparr>am_status := AClaimed\<rparr>"

lemma sample_exec_env_simps [simp]:
  "xv_cond sample_exec_env = witness_env" "xv_workspaceRoot sample_exec_env = ''/ws''"
  "xv_git sample_exec_env n d args = Inr (if args = [''rev-parse'', ''HEAD''] then replicate 40 (CHR ''a'') else [])"
  "xv_exists sample_exec_env n p = Inr False" "xv_mkdir sample_exec_env n p = Inr ()" "xv_write sample_exec_env n p q = Inr ()"
  "xv_build sample_exec_env c w m = Inr \<lparr>pi_executable = ''/bin/w'', pi_args = [], pi_cwd = gw_path w, pi_env = [], pi_cleanup = None\<rparr>"
  "xv_profile sample_exec_env n c i = Inr sample_profile" "xv_validateProfile sample_exec_env n wp = Inr ()"
  "xv_worker sample_exec_env n i = \<lparr>ro_guardian = Some dead_guardian, ro_result = Inr clean_exit, ro_stderr = Inr [], wo_spawn = Some 43\<rparr>"
  "xv_clock sample_exec_env n = 9" "xv_deadline sample_exec_env n = False"
  by (simp_all add: sample_exec_env_def)

lemma sample_limits:
  "rl_maxWorktreeBytes (jc_resources sample_contract) = rl_maxWorktreeBytes (op_limits DEFAULT_OWNER_RESOURCE_PROFILE)"
  "rl_maxArtifactBytes (jc_resources sample_contract) = rl_maxArtifactBytes (op_limits DEFAULT_OWNER_RESOURCE_PROFILE)"
  "rl_maxPatchBytes (jc_resources sample_contract) = rl_maxPatchBytes (op_limits DEFAULT_OWNER_RESOURCE_PROFILE)"
  "rl_maxChangedPaths (jc_resources sample_contract) = rl_maxChangedPaths (op_limits DEFAULT_OWNER_RESOURCE_PROFILE)"
  "0 < rl_attemptTimeoutMs (jc_resources sample_contract)"
  "rl_minimumFreeDiskBytes (jc_resources sample_contract) = rl_minimumFreeDiskBytes (op_limits DEFAULT_OWNER_RESOURCE_PROFILE)"
  using arg_cong [OF sample_resources, of rl_maxWorktreeBytes] arg_cong [OF sample_resources, of rl_maxArtifactBytes]
    arg_cong [OF sample_resources, of rl_maxPatchBytes] arg_cong [OF sample_resources, of rl_maxChangedPaths]
    arg_cong [OF sample_resources, of rl_attemptTimeoutMs] arg_cong [OF sample_resources, of rl_minimumFreeDiskBytes]
    freezeJobRequest_Inr(5) [OF sample_freeze]
  by (simp_all add: DEFAULT_OWNER_RESOURCE_PROFILE_def resource_limits.defs sample_request_def)

lemma sample_quiet: "quiet sample_exec_env"
  by (simp add: quiet_def) (simp add: sample_exec_env_def over_budget_def boundedDirectorySize_def sample_limits DEFAULT_OWNER_RESOURCE_PROFILE_def)

definition started_cleanup :: attempt_cleanup_record where
  "started_cleanup = patched_cleanup 9 (Some [worker_requirement\<lparr>rq_registeredAt := 9\<rparr>]) None sample_cleanup_record"

definition exit_evidence :: cleanup_evidence where
  "exit_evidence = \<lparr>ce_evidenceId = ''u0'', ce_subject = rq_subject worker_requirement, ce_status = EProven,
     ce_cleanupMethod = CM_Process_Runner, ce_observedAt = 9, ce_detail = Some ''Process cleanup reported proven'',
     ce_termination = Some (px_termination clean_exit)\<rparr>"

definition ended_cleanup :: attempt_cleanup_record where
  "ended_cleanup = patched_cleanup 9 None (Some [exit_evidence]) started_cleanup"

lemma started_cleanup_facts [simp]: "cr_jobId started_cleanup = ''job_1''" "cr_attemptId started_cleanup = ''job_1_a0001''"
    "cr_revision started_cleanup = Suc 0" "cr_evidence started_cleanup = []"
    "cr_requirements started_cleanup = [worker_requirement\<lparr>rq_registeredAt := 9\<rparr>]"
  by (simp_all add: started_cleanup_def patched_cleanup_def Let_def)

lemma sample_cleanup_valid: "attemptCleanupRecord_valid started_cleanup" "attemptCleanupRecord_valid ended_cleanup"
    "cleanupRequirement_valid (worker_requirement\<lparr>rq_registeredAt := 9\<rparr>)" "cleanupEvidence_valid exit_evidence"
  by (simp_all add: started_cleanup_def ended_cleanup_def patched_cleanup_def Let_def validity_defs in_range_def worker_requirement_def
      exit_evidence_def clean_exit_def)

lemma register_worker:
  assumes "on_disk m sample_cleanup_record (cd_store s)" "fits st k m"
  shows "\<exists>a t. registerProcessCleanup witness_env m ''worker'' dead_guardian s = (Inr a, t) \<and> on_disk m started_cleanup (cd_store t) \<and>
    cd_aborted t = cd_aborted s"
proof -
  have "\<exists>t. transitionAttemptCleanup no_failpoint 9 sample_cleanup_record (Some [worker_requirement\<lparr>rq_registeredAt := 9\<rparr>]) None (cd_store s) =
      (Inr started_cleanup, t) \<and> on_disk m started_cleanup t"
    unfolding started_cleanup_def
    by (rule cleanup_transition_on_disk [OF assms(1)])
      (use sample_cleanup_valid in \<open>simp_all add: started_cleanup_def\<close>)
  then show ?thesis
    using assms read_on_disk [OF assms(1)] sample_cleanup_valid(3)
    by (auto simp: registerProcessCleanup_def registerCleanupRequirement_def registerAttemptCleanupRequirement_def on_store_def bindA_def
        fits_def merge_requirement_def Let_def worker_requirement_def)
qed

lemma record_worker:
  assumes "on_disk m started_cleanup (cd_store s)" "fits st k m"
  shows "\<exists>a t. recordProcessCleanup witness_env m ''worker'' clean_exit s = (Inr a, t) \<and> on_disk m ended_cleanup (cd_store t) \<and>
    cd_aborted t = cd_aborted s"
proof -
  have "\<exists>t. transitionAttemptCleanup no_failpoint 9 started_cleanup None (Some [exit_evidence]) (cd_store s) =
      (Inr ended_cleanup, t) \<and> on_disk m ended_cleanup t"
    unfolding ended_cleanup_def
    by (rule cleanup_transition_on_disk [OF assms(1)])
      (use sample_cleanup_valid in \<open>simp_all add: ended_cleanup_def\<close>)
  moreover have "appendAttemptCleanupEvidence no_failpoint 9 ''job_1'' ''job_1_a0001'' exit_evidence (cd_store s) =
      transitionAttemptCleanup no_failpoint 9 started_cleanup None (Some [exit_evidence]) (cd_store s)"
    using read_on_disk [OF assms(1)] sample_cleanup_valid(4)
    by (simp add: appendAttemptCleanupEvidence_def) (simp add: exit_evidence_def)
  ultimately show ?thesis
    using assms
    by (auto simp: recordProcessCleanup_def appendCleanupEvidence_def draw_def on_store_def bindA_def fits_def Let_def
        exit_evidence_def clean_exit_def worker_requirement_def witness_env_def)
qed

lemma stage_conductor_step:
  assumes "quiet x" and "\<And>m u. on_disk m c (cd_store u) \<Longrightarrow> fits st k m \<Longrightarrow>
    \<exists>a t. f m witness_env u = (Inr a, t) \<and> on_disk m c' (cd_store t) \<and> cd_aborted t = cd_aborted u"
  shows "runs (stage (\<lambda>m. fits st k m \<and> M m) V c) (bindA getA (\<lambda>s. on_conductor x sample_job (f (xs_manifest s))))
    (\<lambda>_. stage (\<lambda>m. fits st k m \<and> M m) V c')"
proof (rule runs_getA)
  fix s
  assume s: "stage (\<lambda>m. fits st k m \<and> M m) V c s"
  let ?P = "\<lambda>t. xs_manifest t = xs_manifest s \<and> stage (\<lambda>m. fits st k m \<and> M m) V c t"
  have "runs ?P (on_conductor x sample_job (f (xs_manifest s))) (\<lambda>_ t. xs_manifest t = xs_manifest s \<and> stage (\<lambda>m. fits st k m \<and> M m) V c' t)"
    by (rule stage_on_conductor [OF assms(1)], rule assms(2)) (use s in \<open>auto simp: stage_def\<close>)
  then show "runs (\<lambda>t. t = s) (on_conductor x sample_job (f (xs_manifest s))) (\<lambda>_. stage (\<lambda>m. fits st k m \<and> M m) V c')"
    by (rule runs_weaken) (use s in auto)
qed

lemma bindA_pure [simp]: "bindA (liftE (Inr a)) f = f a"
  by (simp add: fun_eq_iff bindA_def liftE_def)

lemma runs_known: "runs P (f a) Q \<Longrightarrow> runs (\<lambda>s. r = a \<and> P s) (f r) Q"
  by (auto simp: runs_def)

lemma runs_read: "runs P (bindA getA f) R \<Longrightarrow> (\<And>a. runs (R a) (g a) Q) \<Longrightarrow> runs P (bindA getA (\<lambda>s. bindA (f s) g)) Q"
  by (fastforce simp: runs_def bindA_def getA_def)

lemma bindA_assoc: "bindA (bindA m f) g = bindA m (\<lambda>x. bindA (f x) g)"
  by (rule ext) (simp add: bindA_def split: prod.splits sum.splits)

lemma fits_patch: "fits st k m \<Longrightarrow> am_status (p m) = st' \<Longrightarrow> am_lineage (p m) = None \<Longrightarrow> attemptManifest_valid (patched m p) \<Longrightarrow>
    fits st' (Suc k) (patched m p)"
  by (simp add: fits_def patched_def)

lemma sample_run_worker:
  "runs (stage (\<lambda>m. fits ARunning 3 m \<and> M m) V sample_cleanup_record) (run_worker sample_exec_env sample_job i)
     (\<lambda>r s. r = clean_exit \<and> stage (\<lambda>m. fits ARunning 5 m \<and> am_guardian m \<noteq> None) V started_cleanup s)"
proof -
  let ?x = "sample_exec_env"
  note q = sample_quiet
  have reg: "runs (stage (\<lambda>m. fits ARunning 3 m \<and> M m) V sample_cleanup_record) (cc_guardian (exec_callbacks ?x sample_job) ''worker'' dead_guardian)
      (\<lambda>_. stage (\<lambda>m. fits ARunning 4 m \<and> am_guardian m \<noteq> None) V started_cleanup)"
  proof -
    have up: "runs (stage (\<lambda>m. fits ARunning 3 m \<and> M m) V started_cleanup) (x_update ?x sample_job (\<lambda>_ m. m\<lparr>am_guardian := Some dead_guardian\<rparr>))
      (\<lambda>_. stage (\<lambda>m. fits ARunning 4 m \<and> am_guardian m \<noteq> None) V started_cleanup)"
      using stage_x_update [OF q, of 3 ARunning ARunning M "\<lambda>_ m. m\<lparr>am_guardian := Some dead_guardian\<rparr>" "\<lambda>m. am_guardian m \<noteq> None"]
      by (simp add: fits_def patched_def attemptManifest_valid_def)
    have r: "runs (stage (\<lambda>m. fits ARunning 3 m \<and> M m) V sample_cleanup_record)
      (bindA getA (\<lambda>s. on_conductor ?x sample_job (\<lambda>env. registerProcessCleanup env (xs_manifest s) ''worker'' dead_guardian)))
      (\<lambda>_. stage (\<lambda>m. fits ARunning 3 m \<and> M m) V started_cleanup)"
      by (rule stage_conductor_step [OF q]) (rule register_worker)
    show ?thesis using runs_bind [OF r up] by (simp add: exec_callbacks_def bindA_assoc)
  qed
  have spawn: "runs (stage (\<lambda>m. fits ARunning 4 m \<and> am_guardian m \<noteq> None) V started_cleanup)
     (bindA getA (\<lambda>s. case am_guardian (xs_manifest s) of None \<Rightarrow> ret ()
       | Some g \<Rightarrow> x_update ?x sample_job (\<lambda>_ m. m\<lparr>am_guardian := Some (with_workerPid g 43)\<rparr>)))
     (\<lambda>_. stage (\<lambda>m. fits ARunning 5 m \<and> am_guardian m \<noteq> None) V started_cleanup)"
  proof (rule runs_getA)
    fix s
    assume s: "stage (\<lambda>m. fits ARunning 4 m \<and> am_guardian m \<noteq> None) V started_cleanup s"
    then obtain g where g: "am_guardian (xs_manifest s) = Some g" by (auto simp: stage_def)
    have up: "runs (stage (\<lambda>m. fits ARunning 4 m \<and> am_guardian m \<noteq> None) V started_cleanup)
        (x_update ?x sample_job (\<lambda>_ m. m\<lparr>am_guardian := Some (with_workerPid g 43)\<rparr>))
        (\<lambda>_. stage (\<lambda>m. fits ARunning 5 m \<and> am_guardian m \<noteq> None) V started_cleanup)"
      using stage_x_update [OF q, of 4 ARunning ARunning "\<lambda>m. am_guardian m \<noteq> None" "\<lambda>_ m. m\<lparr>am_guardian := Some (with_workerPid g 43)\<rparr>" "\<lambda>m. am_guardian m \<noteq> None"]
      by (simp add: fits_def patched_def attemptManifest_valid_def)
    show "runs (\<lambda>t. t = s) (case am_guardian (xs_manifest s) of None \<Rightarrow> ret ()
       | Some g \<Rightarrow> x_update ?x sample_job (\<lambda>_ m. m\<lparr>am_guardian := Some (with_workerPid g 43)\<rparr>))
      (\<lambda>_. stage (\<lambda>m. fits ARunning 5 m \<and> am_guardian m \<noteq> None) V started_cleanup)"
      using runs_weaken [OF up, of "\<lambda>t. t = s"] s g by simp
  qed
  have "runs (stage (\<lambda>m. fits ARunning 5 m \<and> am_guardian m \<noteq> None) V started_cleanup) (liftE (Inr clean_exit))
      (\<lambda>r s. r = clean_exit \<and> stage (\<lambda>m. fits ARunning 5 m \<and> am_guardian m \<noteq> None) V started_cleanup s)"
    by (simp add: runs_def liftE_def)
  note tail = runs_bind [OF reg runs_bind [OF spawn this]]
  show ?thesis
    unfolding run_worker_def
    by (rule runs_ask [OF q]) (use tail in simp_all)
qed

lemma clean_exit_simps [simp]: "px_outputLimit clean_exit = None" "px_exitCode clean_exit = Some 0" "px_cancelled clean_exit = False"
    "px_timedOut clean_exit = False" "assertProcessCleanupProven op clean_exit = Inr ()"
  by (simp_all add: clean_exit_def assertProcessCleanupProven_def)

abbreviation sample_state :: "attempt_status \<Rightarrow> nat \<Rightarrow> (verification_record \<Rightarrow> bool) \<Rightarrow> attempt_cleanup_record \<Rightarrow> exec_state \<Rightarrow> bool" where
  "sample_state st k V c \<equiv> stage (\<lambda>m. fits st k m \<and> True) V c"

lemma sample_profile_complete: "wp_status sample_profile = Profile_Complete"
  by (simp add: sample_profile_def)

lemma sample_worker_phase:
  assumes "gw_path w \<noteq> []" "9 < d"
  shows "runs (sample_state APreparing 2 V sample_cleanup_record) (worker_phase sample_exec_env sample_job w d)
     (\<lambda>r s. r = (sample_profile, clean_exit) \<and> sample_state ARunning 5 V ended_cleanup s)"
proof -
  let ?x = "sample_exec_env"
  let ?iv = "\<lparr>pi_executable = ''/bin/w'', pi_args = [], pi_cwd = gw_path w, pi_env = [], pi_cleanup = None\<rparr>"
  note q = sample_quiet
  have run: "runs (sample_state ARunning 3 V sample_cleanup_record) (run_worker ?x sample_job ?iv)
     (\<lambda>r s. r = clean_exit \<and> sample_state ARunning 5 V started_cleanup s)"
    by (rule runs_weaken [OF sample_run_worker [where V = V and M = "\<lambda>_. True"]]) (auto simp: stage_def)
  have rec: "runs (sample_state ARunning 5 V started_cleanup)
      (bindA getA (\<lambda>s. on_conductor ?x sample_job (\<lambda>env. recordProcessCleanup env (xs_manifest s) ''worker'' clean_exit)))
      (\<lambda>_. sample_state ARunning 5 V ended_cleanup)"
    by (rule stage_conductor_step [OF q]) (rule record_worker)
  have tail: "runs (sample_state ARunning 3 V sample_cleanup_record)
      (bindA (run_worker ?x sample_job ?iv) (\<lambda>r. bindA (assertWithinBudget ?x sample_job) (\<lambda>_. bindA getA (\<lambda>s.
        bindA (on_conductor ?x sample_job (\<lambda>env. recordProcessCleanup env (xs_manifest s) ''worker'' r)) (\<lambda>_.
        bindA (liftE (assertProcessCleanupProven ''worker'' r)) (\<lambda>_.
        bindA (case px_outputLimit r of None \<Rightarrow> ret () | Some l \<Rightarrow> raise (e l)) (\<lambda>_. ret (sample_profile, r))))))))
      (\<lambda>r s. r = (sample_profile, clean_exit) \<and> sample_state ARunning 5 V ended_cleanup s)" for e
  proof (rule runs_bind [OF run], goal_cases)
    case (1 r)
    show ?case
      by (rule runs_known, rule runs_bind [OF stage_budget [OF q]], rule runs_read [OF rec]) (simp add: runs_def bindA_def)
  qed
  have up: "runs (sample_state APreparing 2 V sample_cleanup_record) (x_update ?x sample_job p) (\<lambda>_. sample_state ARunning 3 V sample_cleanup_record)"
    if "p = (\<lambda>_ m. m\<lparr>am_status := ARunning, am_invocation := Some \<lparr>iv_executable = ''/bin/w'', iv_args = [], iv_cwd = gw_path w,
         iv_environmentKeys = js_sort []\<rparr>, am_workerProfile := Some sample_profile\<rparr>)" for p
    using stage_x_update [OF q, of 2 ARunning APreparing "\<lambda>_. True" p "\<lambda>_. True"] assms(1) that
    by (simp add: fits_def patched_def attemptManifest_valid_def numeral_3_eq_3 numeral_2_eq_2)
  show ?thesis
    unfolding worker_phase_def
    by (simp only: sample_exec_env_simps witness_env_facts bindA_pure, rule runs_get, rule runs_ask [OF q], simp,
        simp only: sample_profile_complete sum.sel sample_exec_env_simps if_True refl process_invocation.simps list.map,
        rule runs_bind, rule up, rule refl, rule runs_ask [OF q], simp, rule runs_get,
        rule runs_liftE [where a = "d - 9"], use assms in \<open>simp add: remainingTimeout_def\<close>, rule tail)
qed

definition sample_workspace :: git_workspace where
  "sample_workspace = \<lparr>gw_path = ''/ws/job_1_a0001'', gw_repositoryRoot = re_root (jc_repository sample_job),
     gw_baseRevision = replicate 40 (CHR ''a''), gw_maxPatchBytes = Some (rl_maxPatchBytes (jc_resources sample_job))\<rparr>"

lemma sample_workspace_simps [simp]: "gw_path sample_workspace = ''/ws/job_1_a0001''"
  by (simp add: sample_workspace_def)

lemma sample_create_workspace:
  "runs (stage M V c) (createWorkspace (exec_git_host sample_exec_env sample_job) ''/ws'' (re_root (jc_repository sample_job))
      (re_baseRevision (jc_repository sample_job)) ''job_1_a0001'' (Some (rl_maxPatchBytes (jc_resources sample_job))))
    (\<lambda>w s. w = sample_workspace \<and> stage M V c s)"
proof -
  note q = sample_quiet
  have t: "targetPath ''/ws'' ''job_1_a0001'' = Inr ''/ws/job_1_a0001''"
    by (simp add: targetPath_def is_safe_segment_def posix_resolve_def safe_chars_def)
  show ?thesis
    unfolding createWorkspace_def exec_git_host_def
    by (rule runs_liftE [OF t], simp only: git_host.simps, rule runs_ask [OF q], simp, rule runs_ask [OF q], simp,
        rule runs_guard, simp, rule runs_ask [OF q], simp, rule runs_ask [OF q], simp, rule runs_guard, simp, rule runs_ret)
      (simp add: sample_workspace_def)
qed

lemma sample_prepare:
  "runs (sample_state AClaimed 0 V sample_cleanup_record) (prepare_phase sample_exec_env sample_job)
     (\<lambda>w s. w = sample_workspace \<and> sample_state APreparing 2 V sample_cleanup_record s)"
proof -
  let ?x = "sample_exec_env"
  note q = sample_quiet
  have u1: "runs (sample_state AClaimed 0 V c) (x_update ?x sample_job (\<lambda>_ m. m\<lparr>am_status := APreparing\<rparr>))
      (\<lambda>_. sample_state APreparing 1 V c)" for c
    using stage_x_update [OF q, of 0 APreparing AClaimed "\<lambda>_. True" "\<lambda>_ m. m\<lparr>am_status := APreparing\<rparr>" "\<lambda>_. True"]
    by (simp add: fits_def patched_def attemptManifest_valid_def)
  have u2: "runs (sample_state APreparing 1 V c) (x_update ?x sample_job (\<lambda>now m. m\<lparr>am_workspace := workspace_entry sample_workspace,
      am_startedAt := Some now, am_verificationStatus := V_Running\<rparr>)) (\<lambda>_. sample_state APreparing 2 V c)" for c
    using stage_x_update [OF q, of 1 APreparing APreparing "\<lambda>_. True" "\<lambda>now m. m\<lparr>am_workspace := workspace_entry sample_workspace,
      am_startedAt := Some now, am_verificationStatus := V_Running\<rparr>" "\<lambda>_. True"]
    by (simp add: fits_def patched_def attemptManifest_valid_def workspace_entry_def sample_workspace_def numeral_2_eq_2)
  have id: "am_attemptId (xs_manifest s) = ''job_1_a0001''" if "sample_state APreparing 1 V sample_cleanup_record s" for s
    using that by (simp add: stage_def fits_def)
  show ?thesis
    unfolding prepare_phase_def
    by (rule runs_bind [OF u1], rule runs_get, simp only: sample_job_execution(1) if_True bindA_ret id sample_exec_env_simps,
        rule runs_bind [OF sample_create_workspace], rule runs_known, rule runs_bind [OF stage_sets(1)], rule runs_bind [OF stage_sets(2)],
        rule runs_bind [OF stage_budget [OF q]], rule runs_bind [OF u2], rule runs_bind [OF stage_writeVerification [OF q]], rule runs_ret) simp
qed

lemma runs_capture:
  assumes "hd args \<noteq> ''rev-parse''" and "runs (stage M V c) (g []) Q"
  shows "runs (stage M V c) (bindA (captureGit sample_exec_env sample_job sample_workspace args) g) Q"
proof (rule runs_bind)
  show "runs (stage M V c) (captureGit sample_exec_env sample_job sample_workspace args) (\<lambda>r s. r = [] \<and> stage M V c s)"
    unfolding captureGit_def by (rule runs_catchA, rule stage_ask [OF sample_quiet]) (use assms(1) in auto)
  show "runs (\<lambda>s. r = [] \<and> stage M V c s) (g r) Q" for r
    using assms(2) by (rule runs_known)
qed

lemma sample_captureProposal:
  "runs (stage M V c) (captureProposal sample_exec_env sample_job sample_workspace)
     (\<lambda>r s. r = \<lparr>pc_patch = [], pc_changedPaths = []\<rparr> \<and> stage M V c s)"
proof -
  have lim: "int (length []) \<le> rl_maxPatchBytes (jc_resources sample_job)" "js_sort (filter (\<lambda>p. p \<noteq> []) (split_on (CHR 0x00) [])) = []"
    "int (length []) \<le> rl_maxChangedPaths (jc_resources sample_job)"
    by (simp_all add: sample_limits DEFAULT_OWNER_RESOURCE_PROFILE_def)
  note ask = runs_ask [OF sample_quiet]
  show ?thesis
    unfolding captureProposal_def Let_def diff_args_def
    apply (intro runs_capture)
        apply simp_all[4]
    apply (simp only: lim(2))
    apply (intro runs_guard lim runs_get ask runs_ret)
       apply (simp_all only: sample_exec_env_simps sum.sel simp_thms)
    done
qed

abbreviation scoped :: "verification_record \<Rightarrow> bool" where
  "scoped v \<equiv> sc_status (vr_scope v) \<noteq> Scope_Failed"

abbreviation accepted :: "verification_record \<Rightarrow> bool" where
  "accepted v \<equiv> ap_status (vr_acceptance v) = P_NotConfigured \<and> vr_eligibleForReview v"

lemma freeze_commands:
  assumes "freezeJobRequest sha lc r d rv now g sb prof = Inr c"
  shows "jc_setupCommands c = jr_setupCommands r" and "jc_acceptanceCommands c = jr_acceptanceCommands r"
  using assms by (auto simp: freezeJobRequest_def Let_def split: if_splits sum.splits)

lemma sample_no_commands: "jc_setupCommands sample_job = []" "jc_acceptanceCommands sample_job = []"
  using freeze_commands [OF sample_freeze] by (simp_all add: sample_job_def sample_request_def)

lemma sample_accept:
  "runs (stage M scoped c) (acceptance_phase sample_exec_env sample_job w d sample_profile p) (\<lambda>_. stage M accepted c)"
  unfolding acceptance_phase_def
proof (rule runs_getA)
  fix s
  assume s: "stage M scoped c s"
  then show "runs (\<lambda>t. t = s)
     (if sc_status (vr_scope (xs_verification s)) = Scope_Failed then set_verification not_run
      else if jc_acceptanceCommands sample_job \<noteq> [] then m
      else set_verification (\<lambda>v. v\<lparr>vr_acceptance := \<lparr>ap_status = P_NotConfigured, ap_commands = [], ap_proposalStable = Some True\<rparr>,
         vr_eligibleForReview := (wp_status sample_profile = Profile_Complete)\<rparr>)) (\<lambda>_. stage M accepted c)" for m
    by (auto simp: sample_no_commands runs_def set_verification_def stage_def sample_profile_complete)
qed

lemma sample_verify:
  "runs (sample_state ARunning 5 scoped c) (verify_phase sample_exec_env sample_job w d sample_profile clean_exit p)
     (\<lambda>_. stage (\<lambda>m. fits ACompleted 7 m \<and> am_verificationStatus m = V_Eligible) accepted c)"
proof -
  let ?x = "sample_exec_env"
  note q = sample_quiet
  have u1: "runs (sample_state ARunning 5 scoped c) (x_update ?x sample_job (\<lambda>_ m. m\<lparr>am_status := AVerifying, am_process := Some clean_exit\<rparr>))
      (\<lambda>_. sample_state AVerifying 6 scoped c)"
    using stage_x_update [OF q, of 5 AVerifying ARunning "\<lambda>_. True" "\<lambda>_ m. m\<lparr>am_status := AVerifying, am_process := Some clean_exit\<rparr>" "\<lambda>_. True"]
    by (simp add: fits_def patched_def attemptManifest_valid_def)
  let ?p = "\<lambda>now m. m\<lparr>am_status := ACompleted, am_finishedAt := Some now, am_process := Some clean_exit,
      am_verificationStatus := V_Eligible, am_failure := None\<rparr>"
  have u2: "runs (sample_state AVerifying 6 accepted c) (x_update ?x sample_job ?p)
      (\<lambda>_. stage (\<lambda>m. fits ACompleted 7 m \<and> am_verificationStatus m = V_Eligible) accepted c)"
    using stage_x_update [OF q, of 6 ACompleted AVerifying "\<lambda>_. True" ?p "\<lambda>m. am_verificationStatus m = V_Eligible"]
    by (simp add: fits_def patched_def attemptManifest_valid_def)
  have last: "runs (sample_state AVerifying 6 accepted c) (bindA getA (\<lambda>s. x_update ?x sample_job (g (ap_status (vr_acceptance (xs_verification s)))
        (deadline_aborted ?x s) (vr_eligibleForReview (xs_verification s)))))
     (\<lambda>_. stage (\<lambda>m. fits ACompleted 7 m \<and> am_verificationStatus m = V_Eligible) accepted c)"
    if "\<And>late. g P_NotConfigured late True = ?p" for g
  proof (rule runs_get)
    fix s
    assume "sample_state AVerifying 6 accepted c s"
    then have "ap_status (vr_acceptance (xs_verification s)) = P_NotConfigured" "vr_eligibleForReview (xs_verification s)"
      by (auto simp: stage_def)
    then show "runs (sample_state AVerifying 6 accepted c) (x_update ?x sample_job (g (ap_status (vr_acceptance (xs_verification s)))
        (deadline_aborted ?x s) (vr_eligibleForReview (xs_verification s))))
     (\<lambda>_. stage (\<lambda>m. fits ACompleted 7 m \<and> am_verificationStatus m = V_Eligible) accepted c)"
      using u2 that by simp
  qed
  show ?thesis
    unfolding verify_phase_def Let_def
    by (rule runs_bind [OF u1], rule runs_bind [OF sample_accept], rule runs_bind [OF stage_writeVerification [OF q]], rule last) simp
qed

lemma sample_result:
  "runs (sample_state ARunning 5 V c) (result_phase sample_exec_env sample_job w d sample_profile clean_exit \<lparr>pc_patch = [], pc_changedPaths = []\<rparr>)
     (\<lambda>_. stage (\<lambda>m. fits ACompleted 7 m \<and> am_verificationStatus m = V_Eligible) accepted c)"
proof -
  have "runs (sample_state ARunning 5 V c) (set_verification (\<lambda>v. v\<lparr>vr_scope := evaluatePathScope [] (jc_scope sample_job)\<rparr>))
      (\<lambda>_. sample_state ARunning 5 scoped c)"
    by (rule stage_set_verification) (simp add: evaluatePathScope_def Let_def js_unique_def js_sort_def)
  then show ?thesis
    unfolding result_phase_def proposal_capture.simps clean_exit_simps
    by (rule runs_bind [of _ _ "\<lambda>_. sample_state ARunning 5 scoped c"]) (use sample_verify in simp_all)
qed

lemma sample_body:
  assumes "9 < d"
  shows "runs (sample_state AClaimed 0 V sample_cleanup_record) (attempt_body sample_exec_env sample_job d)
     (\<lambda>out s. out = Go \<and> stage (\<lambda>m. fits ACompleted 7 m \<and> am_verificationStatus m = V_Eligible) accepted ended_cleanup s)"
proof -
  let ?x = "sample_exec_env"
  have lin: "runs (sample_state APreparing 2 V c) (lineage_phase ?x sample_job w)
      (\<lambda>r s. r = (Go, w) \<and> sample_state APreparing 2 V c s)" for c w
    unfolding lineage_phase_def by (rule runs_get) (auto simp: stage_def fits_def runs_def)
  have cap: "runs (sample_state ARunning 5 V c) (tryA (bindA (captureProposal ?x sample_job sample_workspace)
        (\<lambda>p. bindA (assertWithinBudget ?x sample_job) (\<lambda>_. ret p))))
      (\<lambda>r s. r = Inr \<lparr>pc_patch = [], pc_changedPaths = []\<rparr> \<and> sample_state ARunning 5 V c s)" for c
  proof -
    have "runs (sample_state ARunning 5 V c) (bindA (captureProposal ?x sample_job sample_workspace)
        (\<lambda>p. bindA (assertWithinBudget ?x sample_job) (\<lambda>_. ret p)))
      (\<lambda>r s. r = \<lparr>pc_patch = [], pc_changedPaths = []\<rparr> \<and> sample_state ARunning 5 V c s)"
      by (rule runs_bind [OF sample_captureProposal], rule runs_known, rule runs_bind [OF stage_budget [OF sample_quiet]], rule runs_ret) simp
    then show ?thesis by (rule runs_weaken [OF runs_tryA]) auto
  qed
  have res: "runs (sample_state ARunning 5 V c) (bindA (result_phase ?x sample_job w d sample_profile clean_exit \<lparr>pc_patch = [], pc_changedPaths = []\<rparr>) (\<lambda>_. ret Go))
    (\<lambda>out s. out = Go \<and> stage (\<lambda>m. fits ACompleted 7 m \<and> am_verificationStatus m = V_Eligible) accepted c s)" for w c
    by (rule runs_bind [OF sample_result], rule runs_ret) simp
  have wrk: "runs (sample_state APreparing 2 V sample_cleanup_record) (worker_phase ?x sample_job sample_workspace d)
     (\<lambda>r s. r = (sample_profile, clean_exit) \<and> sample_state ARunning 5 V ended_cleanup s)"
    by (rule sample_worker_phase) (use assms in simp_all)
  show ?thesis
    unfolding attempt_body_def
    apply (rule runs_bind [OF sample_prepare], rule runs_known)
    apply (rule runs_bind [OF lin], rule runs_known)
    apply (simp only: prod.case outcome.case setup_phase_def sample_no_commands refl if_True bindA_ret)
    apply (rule runs_bind [OF wrk], rule runs_known, simp only: prod.case)
    apply (rule runs_bind [OF cap], rule runs_known, simp only: sum.case)
    apply (rule res)
    done
qed

lemma sample_start:
  "sample_state AClaimed 0 (\<lambda>_. True) sample_cleanup_record
     (initial_exec_state sample_exec_env sample_job (witness_state claimed sample_cleanup_record) claimed 0)"
proof -
  have "attemptManifest_valid claimed"
    using sample_manifest_facts(5) by (simp add: claimed_def attemptManifest_valid_def)
  then have "fits AClaimed 0 claimed" by (simp add: fits_def claimed_def)
  moreover have "on_disk claimed sample_cleanup_record (witness_store (fresh_journaled claimed) (fresh_journaled sample_cleanup_record))"
    unfolding on_disk_def by (intro exI conjI, rule refl) (simp_all add: record_ok_fresh claimed_def)
  ultimately show ?thesis by (simp add: stage_def initial_exec_state_def) (simp add: witness_state_def)
qed

lemma sample_execution:
  "\<exists>m t. executeAttempt sample_exec_env sample_job
      (initial_exec_state sample_exec_env sample_job (witness_state claimed sample_cleanup_record) claimed 0) = (Inr m, t) \<and>
    am_verificationStatus m = V_Eligible"
proof -
  let ?x = "sample_exec_env"
  let ?s = "initial_exec_state ?x sample_job (witness_state claimed sample_cleanup_record) claimed 0"
  let ?E = "stage (\<lambda>m. fits ACompleted 7 m \<and> am_verificationStatus m = V_Eligible) accepted ended_cleanup"
  have fin: "runs ?E (attempt_finally ?x sample_job) (\<lambda>_. ?E)"
    unfolding attempt_finally_def
    by (rule runs_bind [OF stage_sets(2)], rule runs_get, simp add: runs_ret split: option.split)
  have body: "runs (sample_state AClaimed 0 (\<lambda>_. True) sample_cleanup_record)
      (bindA (attempt_body ?x sample_job d) (\<lambda>out. case out of Go \<Rightarrow> ret () | Stop m \<Rightarrow> set_manifest m)) (\<lambda>_. ?E)" if "9 < d" for d
    by (rule runs_bind [OF sample_body [OF that]], rule runs_known, simp only: outcome.case, rule runs_ret)
  have "runs (sample_state AClaimed 0 (\<lambda>_. True) sample_cleanup_record) (executeAttempt ?x sample_job)
      (\<lambda>m s. am_verificationStatus m = V_Eligible)"
    unfolding executeAttempt_def Let_def
    by (rule runs_get, rule runs_bind [OF runs_finallyA [OF runs_catchA [OF body] fin]], use sample_limits(5) in simp, rule runs_get, rule runs_ret)
      (simp add: stage_def)
  then show ?thesis using sample_start unfolding runs_def by blast
qed

text \<open>The same attempt on a host that has no room for its work tree.\<close>

definition full_exec_env :: exec_env where
  "full_exec_env = sample_exec_env\<lparr>xv_mkdir := (\<lambda>_ _. Inl (NodeError ''ENOSPC''))\<rparr>"

definition fails :: "('s \<Rightarrow> bool) \<Rightarrow> ('s, 'a) act \<Rightarrow> (err \<Rightarrow> 's \<Rightarrow> bool) \<Rightarrow> bool" where
  "fails P m Q \<longleftrightarrow> (\<forall>s. P s \<longrightarrow> (\<exists>e t. m s = (Inl e, t) \<and> Q e t))"

lemma fails_bind: "fails P m Q \<Longrightarrow> fails P (bindA m f) Q"
  unfolding fails_def bindA_def by fastforce

lemma fails_later: "runs P m R \<Longrightarrow> (\<And>a. fails (R a) (f a) Q) \<Longrightarrow> fails P (bindA m f) Q"
  unfolding runs_def fails_def bindA_def by fastforce

lemma fails_get: "(\<And>s. P s \<Longrightarrow> fails P (f s) Q) \<Longrightarrow> fails P (bindA getA f) Q"
  by (auto simp: fails_def bindA_def getA_def)

lemma runs_catch_failure: "fails P m R \<Longrightarrow> (\<And>e. runs (R e) (h e) Q) \<Longrightarrow> runs P (catchA m h) Q"
  unfolding runs_def fails_def catchA_def by fastforce

lemma full_quiet: "quiet full_exec_env"
  using sample_quiet by (simp add: quiet_def full_exec_env_def)

lemma full_prepare:
  "fails (sample_state AClaimed 0 V c) (prepare_phase full_exec_env sample_job)
    (\<lambda>e s. e = NodeError ''ENOSPC'' \<and> sample_state APreparing 1 V c s)"
proof -
  note q = full_quiet
  have u1: "runs (sample_state AClaimed 0 V c) (x_update full_exec_env sample_job (\<lambda>_ m. m\<lparr>am_status := APreparing\<rparr>))
      (\<lambda>_. sample_state APreparing 1 V c)"
    using stage_x_update [OF q, of 0 APreparing AClaimed "\<lambda>_. True" "\<lambda>_ m. m\<lparr>am_status := APreparing\<rparr>" "\<lambda>_. True"]
    by (simp add: fits_def patched_def attemptManifest_valid_def)
  have t: "targetPath ''/ws'' ''job_1_a0001'' = Inr ''/ws/job_1_a0001''"
    by (simp add: targetPath_def is_safe_segment_def posix_resolve_def safe_chars_def)
  have mk: "fails (stage M V c) (ask full_exec_env sample_job (\<lambda>n. xv_mkdir full_exec_env n p))
      (\<lambda>e s. e = NodeError ''ENOSPC'' \<and> stage M V c s)" for M p
    unfolding ask_def by (rule fails_later [OF stage_pass [OF q]]) (simp add: fails_def liftE_def full_exec_env_def)
  have cw: "fails (sample_state APreparing 1 V c) (createWorkspace (exec_git_host full_exec_env sample_job) ''/ws'' r b ''job_1_a0001'' m)
      (\<lambda>e s. e = NodeError ''ENOSPC'' \<and> sample_state APreparing 1 V c s)" for r b m
    unfolding createWorkspace_def exec_git_host_def t bindA_pure git_host.simps by (rule fails_bind, rule mk)
  have id: "am_attemptId (xs_manifest s) = ''job_1_a0001''" if "sample_state APreparing 1 V c s" for s
    using that by (simp add: stage_def fits_def)
  have root: "xv_workspaceRoot full_exec_env = ''/ws''" by (simp add: full_exec_env_def)
  show ?thesis
    unfolding prepare_phase_def
    by (rule fails_later [OF u1], rule fails_get, simp only: sample_job_execution(1) if_True bindA_ret id root, rule fails_bind, rule cw)
qed

lemma full_execution:
  "\<exists>m t. executeAttempt full_exec_env sample_job
      (initial_exec_state full_exec_env sample_job (witness_state claimed sample_cleanup_record) claimed 0) = (Inr m, t) \<and>
    am_status m = AFailed"
proof -
  let ?x = "full_exec_env"
  let ?E = "stage (\<lambda>m. fits AFailed 2 m \<and> True) (\<lambda>_. True) sample_cleanup_record"
  note q = full_quiet
  have up: "runs (sample_state APreparing 1 V c) (x_update ?x sample_job (\<lambda>now m. m\<lparr>am_status := AFailed, am_finishedAt := Some now,
       am_failure := Some (classifyFailure (NodeError ''ENOSPC'') APreparing False), am_verificationStatus := V_Ineligible\<rparr>)) (\<lambda>_. sample_state AFailed 2 V c)" for V c
    using stage_x_update [OF q, of 1 AFailed APreparing "\<lambda>_. True" "\<lambda>now m. m\<lparr>am_status := AFailed, am_finishedAt := Some now,
       am_failure := Some (classifyFailure (NodeError ''ENOSPC'') APreparing False), am_verificationStatus := V_Ineligible\<rparr>" "\<lambda>_. True"]
    by (simp add: fits_def patched_def attemptManifest_valid_def numeral_2_eq_2 classifyFailure_def)
  have "runs (sample_state APreparing 1 V c) (attempt_failed ?x sample_job (NodeError ''ENOSPC'')) (\<lambda>_. sample_state AFailed 2 V c)" for V c
    unfolding attempt_failed_def Let_def
  proof (rule runs_get)
    fix s
    assume "sample_state APreparing 1 V c s"
    then have s: "am_status (xs_manifest s) = APreparing" "attempt_aborted s = False"
      by (simp_all add: stage_def fits_def attempt_aborted_def)
    show "runs (sample_state APreparing 1 V c) (x_update ?x sample_job (\<lambda>now m. m\<lparr>am_status := (if attempt_aborted s \<and> \<not> deadline_aborted ?x s then ACancelled else AFailed), am_finishedAt := Some now,
       am_failure := Some (classifyFailure (NodeError ''ENOSPC'') (am_status (xs_manifest s)) (attempt_aborted s \<and> \<not> deadline_aborted ?x s)), am_verificationStatus := V_Ineligible\<rparr>)) (\<lambda>_. sample_state AFailed 2 V c)"
      using up by (simp add: s)
  qed
  note failed = this
  have body: "runs (sample_state AClaimed 0 (\<lambda>_. True) sample_cleanup_record)
      (catchA (bindA (attempt_body ?x sample_job d) (\<lambda>out. case out of Go \<Rightarrow> ret () | Stop m \<Rightarrow> set_manifest m)) (attempt_failed ?x sample_job)) (\<lambda>_. ?E)" for d
    unfolding attempt_body_def by (rule runs_catch_failure [OF fails_bind [OF fails_bind [OF full_prepare]]], rule runs_known, rule failed)
  have fin: "runs ?E (attempt_finally ?x sample_job) (\<lambda>_. ?E)"
    unfolding attempt_finally_def
    by (rule runs_bind [OF stage_sets(2)], rule runs_get, simp add: runs_ret split: option.split)
  have "runs (sample_state AClaimed 0 (\<lambda>_. True) sample_cleanup_record) (executeAttempt ?x sample_job) (\<lambda>m s. am_status m = AFailed)"
    unfolding executeAttempt_def Let_def
    by (rule runs_get, rule runs_bind [OF runs_finallyA [OF body fin]], rule runs_get, rule runs_ret) (simp add: stage_def fits_def)
  moreover have "initial_exec_state ?x sample_job = initial_exec_state sample_exec_env sample_job"
    by (simp add: fun_eq_iff initial_exec_state_def full_exec_env_def)
  ultimately show ?thesis using sample_start unfolding runs_def by (metis (no_types, lifting))
qed

end
