(* ===== verification/Execution_Properties.thy ===== *)
theory Execution_Properties
  imports Execution_Samples
begin

text \<open>
  What an execution guarantees, whatever other handlers and processes do between its steps: when it
  returns, the attempt is finished; it is marked eligible only on complete evidence; its work tree is
  removed only after everything that ran in it is proven gone.
\<close>

declare guardA_apply [simp del] liftE_apply [simp del]

subsection \<open>Assertions\<close>

lemma yields_bind: "yields P m R \<Longrightarrow> (\<And>a. yields (R a) (f a) Q) \<Longrightarrow> yields P (bindA m f) Q"
  unfolding yields_def bindA_eq_Inr by blast

lemma yields_keeps: "keeps P m \<Longrightarrow> yields P m (\<lambda>_. P)"
  unfolding yields_def by (meson keepsD)

lemma yields_weaken: "yields P m R \<Longrightarrow> (\<And>s. P' s \<Longrightarrow> P s) \<Longrightarrow> (\<And>a s. R a s \<Longrightarrow> Q a s) \<Longrightarrow> yields P' m Q"
  unfolding yields_def by blast

lemma yields_getA: "(\<And>s. yields (\<lambda>t. t = s \<and> P t) (f s) Q) \<Longrightarrow> yields P (bindA getA f) Q"
  by (auto simp: yields_def)

lemma yields_liftE: "(\<And>a. r = Inr a \<Longrightarrow> yields P (f a) Q) \<Longrightarrow> yields P (bindA (liftE r) f) Q"
  by (auto simp: yields_def bindA_eq_Inr liftE_Inr)

lemma yields_guard: "(b \<Longrightarrow> yields P (f ()) Q) \<Longrightarrow> yields P (bindA (guardA b e) f) Q"
  by (auto simp: yields_def bindA_eq_Inr guardA_Inr)

subsection \<open>Frames\<close>

text \<open>What every step but the assignments to it leaves alone: the verification record, the one written last, and the worker's profile.\<close>

definition frame :: "(verification_record \<Rightarrow> verification_record option \<Rightarrow> worker_execution_profile option \<Rightarrow> bool) \<Rightarrow> exec_state \<Rightarrow> bool" where
  "frame F s = F (xs_verification s) (xs_written s) (am_workerProfile (xs_manifest s))"

lemma frame_pass [keeps_rules]: "keeps (frame F) (pass x c)"
  by (simp add: keeps_def pass_def frame_def Let_def)

lemma frame_ask [keeps_rules]: "keeps (frame F) (ask x c f)"
  unfolding ask_def by (intro keeps_rules)

lemma frame_on_conductor [keeps_rules]: "keeps (frame F) (on_conductor x c m)"
  unfolding on_conductor_def
  by (rule keeps_bindA [OF frame_pass]) (simp add: keeps_def frame_def split: prod.splits)

lemma frame_sets [keeps_rules]: "keeps (frame F) (set_workspace w)" "keeps (frame F) (set_monitoring b)"
  by (simp_all add: keeps_def frame_def set_workspace_def set_monitoring_def)

lemma frame_budget [keeps_rules]: "keeps (frame F) (assertWithinBudget x c)"
  unfolding assertWithinBudget_def
  by (rule keeps_bindA [OF frame_pass]) (simp add: keeps_def frame_def Let_def split: option.splits)

lemma on_conductor_Inr:
  assumes "on_conductor x c m s = (Inr a, t)"
  shows "\<exists>env u v. m env u = (Inr a, v)" and "xs_manifest t = xs_manifest s"
    and "xs_verification t = xs_verification s" and "xs_written t = xs_written s"
  using assms by (auto simp: on_conductor_def bindA_def pass_def Let_def split: prod.splits)

lemma x_update_Inr:
  assumes "x_update x c p s = (Inr (), t)"
  shows "\<exists>now. xs_manifest t = patched (xs_manifest s) (p now)" and "xs_verification t = xs_verification s"
    and "xs_written t = xs_written s"
proof -
  obtain m u where u: "on_conductor x c (\<lambda>env. update_attempt env (xs_manifest s) (p (cv_now env))) s = (Inr m, u)"
      and t: "t = u\<lparr>xs_manifest := m\<rparr>"
    using assms by (auto simp: x_update_def bindA_eq_Inr set_manifest_def)
  from on_conductor_Inr [OF u] update_attempt_Inr(1) t
  show "\<exists>now. xs_manifest t = patched (xs_manifest s) (p now)" "xs_verification t = xs_verification s" "xs_written t = xs_written s"
    by (auto, blast)
qed

lemma patched_workerProfile: "am_workerProfile (patched m p) = am_workerProfile (p m)"
  by (simp add: patched_def)

text \<open>Assigning a manifest that came from the current one.\<close>

lemma frame_assign:
  assumes "\<And>env m u m' v. f m env u = (Inr m', v) \<Longrightarrow> am_workerProfile m' = am_workerProfile m"
  shows "keeps (frame F) (bindA getA (\<lambda>s. bindA (on_conductor x c (f (xs_manifest s))) set_manifest))"
proof (rule keepsI)
  fix s r t
  assume P: "frame F s" and run: "bindA getA (\<lambda>s. bindA (on_conductor x c (f (xs_manifest s))) set_manifest) s = (r, t)"
  obtain r1 u where u: "on_conductor x c (f (xs_manifest s)) s = (r1, u)" by fastforce
  have run': "bindA (on_conductor x c (f (xs_manifest s))) set_manifest s = (r, t)" using run by simp
  have fu: "frame F u" using keepsD [OF frame_on_conductor P u] .
  show "frame F t"
  proof (cases r1)
    case (Inl e)
    then show ?thesis using run' u fu by (simp add: bindA_def)
  next
    case (Inr m)
    then have "am_workerProfile m = am_workerProfile (xs_manifest u)"
      using on_conductor_Inr [OF u [unfolded Inr]] assms by fastforce
    then show ?thesis using run' u fu Inr by (auto simp: bindA_def set_manifest_def frame_def)
  qed
qed

lemma frame_x_update [keeps_rules]:
  assumes "\<And>now m. am_workerProfile (p now m) = am_workerProfile m"
  shows "keeps (frame F) (x_update x c p)"
  unfolding x_update_def
  by (rule frame_assign [of "\<lambda>m env. update_attempt env m (p (cv_now env))"])
    (auto dest!: update_attempt_Inr(1) simp: patched_workerProfile assms)

lemma registerExternalResource_profile:
  "registerExternalResource env m r n u = (Inr m', v) \<Longrightarrow> am_workerProfile m' = am_workerProfile m"
  by (auto simp: registerExternalResource_def Let_def bindA_eq_Inr patched_workerProfile dest!: update_attempt_Inr(1))

lemma releaseExternalResource_profile:
  "releaseExternalResource env m i r u = (Inr m', v) \<Longrightarrow> am_workerProfile m' = am_workerProfile m"
  by (auto simp: releaseExternalResource_def bindA_eq_Inr patched_workerProfile split: if_splits dest!: update_attempt_Inr(1))

lemma frame_callbacks [keeps_rules]:
  "keeps (frame F) (cc_guardian (exec_callbacks x c) op g)" "keeps (frame F) (cc_result (exec_callbacks x c) op pr)"
  "keeps (frame F) (cc_resource (exec_callbacks x c) er)" "keeps (frame F) (cc_released (exec_callbacks x c) i pe)"
proof -
  show "keeps (frame F) (cc_guardian (exec_callbacks x c) op g)" "keeps (frame F) (cc_result (exec_callbacks x c) op pr)"
    by (simp_all add: exec_callbacks_def) (intro keeps_rules; simp)+
  show "keeps (frame F) (cc_resource (exec_callbacks x c) er)"
    by (simp add: exec_callbacks_def, rule frame_assign) (rule registerExternalResource_profile)
  show "keeps (frame F) (cc_released (exec_callbacks x c) i pe)"
    by (simp add: exec_callbacks_def, rule frame_assign) (rule releaseExternalResource_profile)
qed

interpretation exec_frame: command_frame "frame F" "exec_command_host x c" "exec_callbacks x c" for F x c
  by unfold_locales (simp_all add: exec_command_host_def keeps_rules)

lemma keeps_git_host [keeps_rules]:
  "keeps (frame F) (gh_git (exec_git_host x c) d a i e)" "keeps (frame F) (gh_cleanupGit (exec_git_host x c) d a)"
  "keeps (frame F) (gh_exists (exec_git_host x c) p)" "keeps (frame F) (gh_mkdir (exec_git_host x c) p)"
  "keeps (frame F) (gh_size (exec_git_host x c) p)" "keeps (frame F) (gh_read (exec_git_host x c) p)"
  by (simp_all add: exec_git_host_def keeps_rules)

lemma frame_git [keeps_rules]:
  "keeps (frame F) (createWorkspace (exec_git_host x c) d r b a m)"
  "keeps (frame F) (composeProposalBaseline (exec_git_host x c) w cs)"
  "keeps (frame F) (removeWorkspace (exec_git_host x c) d e w)"
  unfolding createWorkspace_def composeProposalBaseline_def compose_body_def apply_contribution_def removeWorkspace_def
  by (intro keeps_rules)+

lemma frame_captureGit [keeps_rules]: "keeps (frame F) (captureGit x c w args)"
  unfolding captureGit_def by (intro keeps_rules)

lemma frame_captures [keeps_rules]: "keeps (frame F) (captureProposal x c w)" "keeps (frame F) (captureCurrentPatch x c w)"
  unfolding captureProposal_def captureCurrentPatch_def Let_def by (intro keeps_rules)+

subsection \<open>Evidence\<close>

definition proven_evidence :: "command_evidence \<Rightarrow> bool" where
  "proven_evidence ev \<longleftrightarrow> (\<exists>pr. ev_process ev = Some pr \<and> px_exitCode pr = Some 0 \<and> \<not> px_cancelled pr \<and> \<not> px_timedOut pr \<and>
     pt_status (px_termination pr) = EProven)"

definition setup_evidence :: "job_contract \<Rightarrow> verification_record \<Rightarrow> bool" where
  "setup_evidence c v \<longleftrightarrow> map ev_command (sr_commands (vr_setup v)) = jc_setupCommands c \<and>
     (\<forall>ev\<in>set (sr_commands (vr_setup v)). proven_evidence ev) \<and>
     (jc_setupCommands c \<noteq> [] \<longrightarrow> sr_repositoryClean (vr_setup v) = Some True)"

definition acceptance_evidence :: "job_contract \<Rightarrow> verification_record \<Rightarrow> bool" where
  "acceptance_evidence c v \<longleftrightarrow> map ev_command (ap_commands (vr_acceptance v)) = jc_acceptanceCommands c \<and>
     (\<forall>ev\<in>set (ap_commands (vr_acceptance v)). proven_evidence ev) \<and> ap_proposalStable (vr_acceptance v) = Some True"

definition scope_evidence :: "job_contract \<Rightarrow> verification_record \<Rightarrow> bool" where
  "scope_evidence c v \<longleftrightarrow> (\<exists>paths. vr_scope v = evaluatePathScope paths (jc_scope c) \<and> int (length paths) \<le> rl_maxChangedPaths (jc_resources c))"

definition worker_evidence :: "process_result \<Rightarrow> bool" where
  "worker_evidence pr \<longleftrightarrow> pt_status (px_termination pr) = EProven \<and> px_outputLimit pr = None"

definition eligible_evidence :: "job_contract \<Rightarrow> attempt_manifest \<Rightarrow> verification_record \<Rightarrow> bool" where
  "eligible_evidence c m v \<longleftrightarrow> am_status m = ACompleted \<and> vr_eligibleForReview v \<and> setup_evidence c v \<and> acceptance_evidence c v \<and>
     scope_evidence c v \<and> sc_status (vr_scope v) \<noteq> Scope_Failed \<and>
     (\<exists>wp. am_workerProfile m = Some wp \<and> wp_status wp = Profile_Complete) \<and>
     (\<exists>pr. am_process m = Some pr \<and> worker_evidence pr \<and> px_exitCode pr = Some 0 \<and> \<not> px_cancelled pr \<and> \<not> px_timedOut pr)"

definition stopped :: "attempt_manifest \<Rightarrow> bool" where
  "stopped m \<longleftrightarrow> isAttemptTerminal (am_status m) \<and> am_verificationStatus m = V_Ineligible"

definition finished :: "job_contract \<Rightarrow> exec_state \<Rightarrow> bool" where
  "finished c s \<longleftrightarrow> isAttemptTerminal (am_status (xs_manifest s)) \<and>
     (am_verificationStatus (xs_manifest s) = V_Eligible \<longrightarrow>
       (\<exists>v. xs_written s = Some v \<and> eligible_evidence c (xs_manifest s) v))"

interpretation exec_proven: proven_commands "exec_command_host x c" "exec_callbacks x c" for x c
proof
  fix op pr s t
  assume "cc_result (exec_callbacks x c) op pr s = (Inr (), t)"
  then show "pt_status (px_termination pr) = EProven"
    by (auto simp: exec_callbacks_def bindA_eq_Inr liftE_Inr assertProcessCleanupProven_def split: if_splits)
qed

subsection \<open>The phases\<close>

lemma frame_writeVerification [keeps_rules]: "keeps (frame (\<lambda>v w. G v)) (writeVerification x c)"
  unfolding writeVerification_def by (intro keeps_rules) (simp add: keeps_def frame_def)

lemma yields_x_update:
  assumes "\<And>now m. R (patched m (p now))"
  shows "yields P (x_update x c p) (\<lambda>_ s. R (xs_manifest s))"
proof (rule yieldsI)
  fix s u t
  assume "x_update x c p s = (Inr u, t)"
  then have "x_update x c p s = (Inr (), t)" by (cases u) simp
  from x_update_Inr(1) [OF this] assms show "R (xs_manifest t)" by auto
qed

lemma yields_stop:
  assumes "\<And>now m. stopped (patched m (p now))"
  shows "yields P (bindA (x_update x c p) (\<lambda>_. bindA getA (\<lambda>s. ret (Stop (xs_manifest s))))) (\<lambda>out s. \<exists>m. out = Stop m \<and> stopped m)"
  by (rule yields_bind [OF yields_x_update [of stopped, OF assms]]) (rule yields_getA, rule yields_ret, simp)

lemma frame_prepare: "keeps (frame (\<lambda>v w. G v)) (prepare_phase x c)"
  unfolding prepare_phase_def by (intro keeps_rules; simp)

lemma frame_compose: "keeps (frame (\<lambda>v w. G v)) (compose_lineage x c w l)"
  unfolding compose_lineage_def by (intro keeps_rules; simp)

lemma yields_anything: "yields P m (\<lambda>_ _. True)"
  by (simp add: yields_def)

lemma yields_true: "(\<And>a. yields (\<lambda>_. True) (f a) Q) \<Longrightarrow> yields P (bindA m f) Q"
  by (rule yields_bind [OF yields_anything]) simp

lemma reject_lineage_stops: "yields P (reject_lineage x c l e) (\<lambda>out s. \<exists>m. out = Stop m \<and> stopped m)"
  unfolding reject_lineage_def by (intro yields_true yields_stop) (simp add: stopped_def patched_def)

lemma setup_failed_stops: "yields P (setup_failed x c st b) (\<lambda>out s. \<exists>m. out = Stop m \<and> stopped m)"
  unfolding setup_failed_def Let_def by (intro yields_true yields_stop) (simp add: stopped_def patched_def)

lemma capture_failed_stops: "yields P (capture_failed x c pr e) (\<lambda>out s. \<exists>m. out = Stop m \<and> stopped m)"
  unfolding capture_failed_def by (intro yields_true yields_stop) (simp add: stopped_def patched_def)

definition ends :: "(exec_state \<Rightarrow> bool) \<Rightarrow> outcome \<Rightarrow> exec_state \<Rightarrow> bool" where
  "ends Q out s = (case out of Go \<Rightarrow> Q s | Stop m \<Rightarrow> stopped m)"

lemma ends_simps [simp]: "ends Q Go = Q" "ends Q (Stop m) s = stopped m"
  by (simp_all add: ends_def [abs_def])

lemma yields_ends: "yields P m (\<lambda>out s. \<exists>k. out = Stop k \<and> stopped k) \<Longrightarrow> yields P m (ends Q)"
  by (erule yields_weaken) auto

lemma yields_tryA:
  assumes "keeps P m" and "\<And>e. yields P (f (Inl e)) Q" and "\<And>a. yields P (f (Inr a)) Q"
  shows "yields P (bindA (tryA m) f) Q"
  by (rule yields_bindA [OF keeps_tryA [OF assms(1)]]) (metis assms(2,3) sum.exhaust)

lemma lineage_phase_ends:
  "yields (frame (\<lambda>v w. G v)) (lineage_phase x c w) (\<lambda>(out, w) s. ends (frame (\<lambda>v w. G v)) out s)"
proof -
  have "yields (frame (\<lambda>v w. G v)) (bindA (reject_lineage x c l e) (\<lambda>out. ret (out, w))) (\<lambda>(out, w) s. ends (frame (\<lambda>v w. G v)) out s)" for l e
    by (rule yields_bind [OF yields_ends [OF reject_lineage_stops]], rule yields_ret) simp
  then show ?thesis
    unfolding lineage_phase_def
    by (intro yields_bindA keeps_state yields_case_option yields_ret yields_tryA frame_compose) (simp_all add: yields_ret)
qed

definition phase_ok :: "command_spec list \<Rightarrow> command_evidence list \<Rightarrow> bool" where
  "phase_ok commands evs \<longleftrightarrow> (phaseStatus evs = P_Passed \<longrightarrow> map ev_command evs = commands \<and> (\<forall>ev\<in>set evs. proven_evidence ev))"

lemma yields_run_phase:
  assumes "\<And>evs. phase_ok commands evs \<Longrightarrow> yields (frame F) (f evs) Q"
  shows "yields (frame F) (bindA (runCommandSequence (exec_command_host x c) (exec_callbacks x c) p commands) f) Q"
proof (rule yields_bindA_value [where R = "phase_ok commands"])
  show "phase_ok commands evs" if "runCommandSequence (exec_command_host x c) (exec_callbacks x c) p commands s = (Inr evs, t)" for evs s t
    using exec_proven.passed_phase [OF that] unfolding phase_ok_def proven_evidence_def by blast
qed (rule exec_frame.keeps_runCommandSequence, rule assms)

lemma setup_phase_ends:
  assumes "jc_setupCommands c = [] \<Longrightarrow> sr_commands (vr_setup v0) = []"
  shows "yields (frame (\<lambda>v w p. v = v0)) (setup_phase x c w d) (ends (frame (\<lambda>v w p. setup_evidence c v)))"
proof (cases "jc_setupCommands c = []")
  case True
  then show ?thesis using assms by (auto simp: setup_phase_def yields_def frame_def setup_evidence_def)
next
  case False
  let ?run = "\<lambda>m. runCommandSequence (exec_command_host x c) (exec_callbacks x c) (phase_input c m w d Phase_Setup) (jc_setupCommands c)"
  have rest: "yields (frame (\<lambda>v w p. v = v0))
      (bindA (set_verification (\<lambda>v. v\<lparr>vr_setup := \<lparr>sr_status = status, sr_commands = commands, sr_repositoryClean = Some clean\<rparr>\<rparr>)) (\<lambda>_.
       bindA (writeVerification x c) (\<lambda>_. if status = P_Passed then ret Go else setup_failed x c status clean)))
      (ends (frame (\<lambda>v w p. setup_evidence c v)))"
    if st: "status = (if clean then phaseStatus commands else P_Failed)"
      and ev: "phase_ok (jc_setupCommands c) commands"
    for status commands clean
  proof (rule yields_bind)
    let ?F = "frame (\<lambda>v w p. status = P_Passed \<longrightarrow> setup_evidence c v)"
    show "yields (frame (\<lambda>v w p. v = v0)) (set_verification (\<lambda>v. v\<lparr>vr_setup := \<lparr>sr_status = status, sr_commands = commands,
        sr_repositoryClean = Some clean\<rparr>\<rparr>)) (\<lambda>_. ?F)"
      using st ev by (auto simp: yields_def set_verification_def frame_def setup_evidence_def phase_ok_def split: if_splits)
    show "yields ?F (bindA (writeVerification x c) (\<lambda>_. if status = P_Passed then ret Go else setup_failed x c status clean))
        (ends (frame (\<lambda>v w p. setup_evidence c v)))" for a
      by (rule yields_bindA [OF frame_writeVerification]) (auto intro!: yields_if yields_ends setup_failed_stops yields_ret simp: frame_def)
  qed
  show ?thesis
    unfolding setup_phase_def Let_def using False
    by (simp, intro yields_bindA [OF keeps_state] yields_run_phase)
      (rule yields_bindA, intro keeps_rules, rule yields_bindA, intro keeps_rules, rule rest, simp_all)
qed

subsection \<open>The worker and the verdict\<close>

lemma frame_run_worker: "keeps (frame F) (run_worker x c i)"
  unfolding run_worker_def by (intro keeps_rules; simp)

lemma yields_set_profile:
  assumes "\<And>now m. am_workerProfile (p now m) = Some wp"
  shows "yields (frame (\<lambda>v w p. G v)) (x_update x c p) (\<lambda>_. frame (\<lambda>v w p. G v \<and> p = Some wp))"
proof (rule yieldsI)
  fix s u t
  assume P: "frame (\<lambda>v w p. G v) s" and "x_update x c p s = (Inr u, t)"
  then have "x_update x c p s = (Inr (), t)" by (cases u) simp
  from x_update_Inr [OF this] P show "frame (\<lambda>v w p. G v \<and> p = Some wp) t"
    by (auto simp: frame_def patched_workerProfile assms)
qed

lemma worker_phase_yields:
  "yields (frame (\<lambda>v w p. G v)) (worker_phase x c w d) (\<lambda>(wp, pr) s. frame (\<lambda>v w p. G v \<and> p = Some wp) s \<and> worker_evidence pr)"
proof -
  let ?Q = "\<lambda>(wp, pr) s. frame (\<lambda>v w p. G v \<and> p = Some wp) s \<and> worker_evidence pr"
  have tail: "yields (frame (\<lambda>v w p. G v \<and> p = Some wp)) (bindA (liftE (assertProcessCleanupProven ''worker'' pr)) (\<lambda>_.
     bindA (case px_outputLimit pr of None \<Rightarrow> ret () | Some l \<Rightarrow> raise (e l)) (\<lambda>_. ret (wp, pr)))) ?Q" for wp pr e
    by (rule yields_liftE, cases "px_outputLimit pr")
      (auto simp: yields_def worker_evidence_def assertProcessCleanupProven_def split: if_splits)
  show ?thesis
    unfolding worker_phase_def
    by (rule yields_bindA [OF keeps_liftE], rule yields_bindA [OF keeps_state], rule yields_bindA [OF keeps_liftE],
        rule yields_bindA [OF frame_ask], rule yields_bind [OF yields_set_profile], simp, rule yields_bindA, intro keeps_rules,
        rule yields_bindA [OF keeps_state], rule yields_bindA [OF keeps_liftE], rule yields_bindA [OF frame_run_worker],
        rule yields_bindA [OF frame_budget], rule yields_bindA [OF keeps_state], rule yields_bindA [OF frame_on_conductor], rule tail)
qed

text \<open>The record the acceptance phase leaves, and what an eligible one rests on.\<close>

definition verdict :: "job_contract \<Rightarrow> verification_record \<Rightarrow> worker_execution_profile option \<Rightarrow> bool" where
  "verdict c v p \<longleftrightarrow> (vr_eligibleForReview v \<longrightarrow> setup_evidence c v \<and> acceptance_evidence c v \<and> scope_evidence c v \<and>
     sc_status (vr_scope v) \<noteq> Scope_Failed \<and> ap_status (vr_acceptance v) \<noteq> P_Cancelled \<and>
     (\<exists>wp. p = Some wp \<and> wp_status wp = Profile_Complete))"

lemma verdict_updatedAt [simp]: "verdict c (v\<lparr>vr_updatedAt := t\<rparr>) p = verdict c v p"
  by (simp add: verdict_def setup_evidence_def acceptance_evidence_def scope_evidence_def)

lemma yields_set_verification:
  assumes "\<And>v w p. F v w p \<Longrightarrow> H (f v) w p"
  shows "yields (frame F) (set_verification f) (\<lambda>_. frame H)"
  using assms by (auto simp: yields_def set_verification_def frame_def)

lemma acceptance_phase_yields:
  "yields (frame (\<lambda>v w p. setup_evidence c v \<and> scope_evidence c v \<and> p = Some wp)) (acceptance_phase x c w d wp proposal)
     (\<lambda>_. frame (\<lambda>v w p. verdict c v p))"
  unfolding acceptance_phase_def
proof (rule yields_getA, goal_cases)
  case (1 s)
  let ?F = "\<lambda>v w p. setup_evidence c v \<and> scope_evidence c v \<and> p = Some wp"
  let ?H = "frame (\<lambda>v w p. verdict c v p)"
  define v0 where "v0 = xs_verification s"
  let ?S = "frame (\<lambda>v w p. ?F v w p \<and> v = v0)"
  have at: "yields (\<lambda>t. t = s \<and> frame ?F t) m Q" if "yields ?S m Q" for m :: "(exec_state, unit) act" and Q
    using that by (rule yields_weaken) (auto simp: frame_def v0_def)
  have none: "yields ?S (set_verification not_run) (\<lambda>_. ?H)"
    by (rule yields_set_verification) (simp add: verdict_def not_run_def)
  have run: "yields ?S (set_verification (\<lambda>v. v\<lparr>vr_acceptance := \<lparr>ap_status = phaseStatus commands, ap_commands = commands,
           ap_proposalStable = Some stable\<rparr>,
         vr_eligibleForReview := (phaseStatus commands = P_Passed \<and> stable \<and> wp_status wp = Profile_Complete)\<rparr>)) (\<lambda>_. ?H)"
    if "phase_ok (jc_acceptanceCommands c) commands" "sc_status (vr_scope v0) \<noteq> Scope_Failed" for commands stable
    by (rule yields_set_verification)
      (use that in \<open>auto simp: verdict_def setup_evidence_def scope_evidence_def acceptance_evidence_def phase_ok_def\<close>)
  have skip: "yields ?S (set_verification (\<lambda>v. v\<lparr>vr_acceptance := \<lparr>ap_status = P_NotConfigured, ap_commands = [], ap_proposalStable = Some True\<rparr>,
         vr_eligibleForReview := (wp_status wp = Profile_Complete)\<rparr>)) (\<lambda>_. ?H)"
    if "jc_acceptanceCommands c = []" "sc_status (vr_scope v0) \<noteq> Scope_Failed"
    by (rule yields_set_verification)
      (use that in \<open>auto simp: verdict_def setup_evidence_def scope_evidence_def acceptance_evidence_def\<close>)
  show ?case
    unfolding Let_def
    by (rule at, intro yields_if none yields_run_phase yields_bindA frame_budget frame_captures run skip) (simp_all add: v0_def)
qed

definition written_verdict :: "job_contract \<Rightarrow> verification_record \<Rightarrow> verification_record option \<Rightarrow> worker_execution_profile option \<Rightarrow> bool" where
  "written_verdict c v w p \<longleftrightarrow> verdict c v p \<and> (\<exists>t. w = Some (v\<lparr>vr_updatedAt := t\<rparr>))"

lemma writeVerification_yields: "yields (frame (\<lambda>v w p. verdict c v p)) (writeVerification x k) (\<lambda>_. frame (written_verdict c))"
  unfolding writeVerification_def
  by (rule yields_bindA [OF frame_pass], rule yields_bindA [OF keeps_state], rule yields_liftE)
    (auto simp: yields_def frame_def written_verdict_def)

lemma verify_phase_finishes:
  assumes "worker_evidence pr" "px_exitCode pr = Some 0" "\<not> px_cancelled pr" "\<not> px_timedOut pr"
  shows "yields (frame (\<lambda>v w p. setup_evidence c v \<and> scope_evidence c v \<and> p = Some wp)) (verify_phase x c w d wp pr proposal)
     (\<lambda>_. finished c)"
proof -
  have final: "finished c t"
    if fr: "frame (written_verdict c) s" and up: "x_update x c p s = (Inr (), t)"
      and st: "\<And>now m. am_status (p now m) = (if late then AFailed else if ap_status (vr_acceptance (xs_verification s)) = P_Cancelled then ACancelled else ACompleted)"
        "late \<Longrightarrow> ap_status (vr_acceptance (xs_verification s)) = P_Cancelled"
      and pt: "\<And>now m. am_process (p now m) = Some pr" "\<And>now m. am_workerProfile (p now m) = am_workerProfile m"
        "\<And>now m. am_verificationStatus (p now m) = (if vr_eligibleForReview (xs_verification s) then V_Eligible else V_Ineligible)"
    for s t p late
  proof -
    obtain now where m: "xs_manifest t = patched (xs_manifest s) (p now)" using x_update_Inr(1) [OF up] by blast
    have f: "am_status (xs_manifest t) = am_status (p now (xs_manifest s))" "am_process (xs_manifest t) = Some pr"
      "am_workerProfile (xs_manifest t) = am_workerProfile (xs_manifest s)"
      "am_verificationStatus (xs_manifest t) = (if vr_eligibleForReview (xs_verification s) then V_Eligible else V_Ineligible)"
      using m pt by (simp_all add: patched_def)
    obtain u where w: "xs_written t = Some ((xs_verification s)\<lparr>vr_updatedAt := u\<rparr>)" and v: "verdict c (xs_verification s) (am_workerProfile (xs_manifest s))"
      using fr x_update_Inr(3) [OF up] by (auto simp: frame_def written_verdict_def)
    have "isAttemptTerminal (am_status (xs_manifest t))" using f(1) st(1) by simp
    moreover have "eligible_evidence c (xs_manifest t) ((xs_verification s)\<lparr>vr_updatedAt := u\<rparr>)"
      if "vr_eligibleForReview (xs_verification s)"
      using that v f st assms
      by (auto simp: verdict_def eligible_evidence_def setup_evidence_def acceptance_evidence_def scope_evidence_def)
    ultimately show ?thesis using f(4) w by (auto simp: finished_def)
  qed
  have last: "yields (frame (written_verdict c)) (bindA getA (\<lambda>s.
     let cancelled = (ap_status (vr_acceptance (xs_verification s)) = P_Cancelled);
         late = (cancelled \<and> deadline_aborted x s);
         eligible = vr_eligibleForReview (xs_verification s) in
     x_update x c (\<lambda>now m. m\<lparr>am_status := (if late then AFailed else if cancelled then ACancelled else ACompleted),
       am_finishedAt := Some now, am_process := Some pr,
       am_verificationStatus := (if eligible then V_Eligible else V_Ineligible),
       am_failure := (if late then Some (k1 late) else if cancelled then Some (k2 late) else None)\<rparr>))) (\<lambda>_. finished c)" for k1 k2
    unfolding Let_def yields_def
    by (auto elim!: final [where late = "ap_status (vr_acceptance (xs_verification s)) = P_Cancelled \<and> deadline_aborted x s" for s])
  show ?thesis
    unfolding verify_phase_def
    by (rule yields_bindA, intro keeps_rules, simp, rule yields_bind [OF acceptance_phase_yields],
        rule yields_bind [OF writeVerification_yields], rule last)
qed

lemma yields_finish:
  assumes "\<And>now m. stopped (patched m (p now))"
  shows "yields P (x_update x c p) (\<lambda>_. finished k)"
  by (rule yields_weaken [OF yields_x_update [of stopped, OF assms]]) (auto simp: stopped_def finished_def)

lemma worker_failed_finishes: "yields P (worker_failed x c pr) (\<lambda>_. finished c)"
  unfolding worker_failed_def Let_def
  by (intro yields_true yields_if yields_finish) (simp_all add: stopped_def patched_def)

lemma result_phase_finishes:
  assumes "worker_evidence pr" and "int (length (pc_changedPaths proposal)) \<le> rl_maxChangedPaths (jc_resources c)"
  shows "yields (frame (\<lambda>v w p. setup_evidence c v \<and> p = Some wp)) (result_phase x c w d wp pr proposal) (\<lambda>_. finished c)"
proof -
  have scope: "yields (frame (\<lambda>v w p. setup_evidence c v \<and> p = Some wp))
      (set_verification (\<lambda>v. v\<lparr>vr_scope := evaluatePathScope (pc_changedPaths proposal) (jc_scope c)\<rparr>))
      (\<lambda>_. frame (\<lambda>v w p. setup_evidence c v \<and> scope_evidence c v \<and> p = Some wp))"
    by (rule yields_set_verification) (use assms(2) in \<open>auto simp: setup_evidence_def scope_evidence_def\<close>)
  show ?thesis
    unfolding result_phase_def
    by (rule yields_bind [OF scope], rule yields_if)
      (intro yields_true worker_failed_finishes, rule verify_phase_finishes [OF assms(1)], auto)
qed

lemma captureProposal_bounds:
  "captureProposal x c w s = (Inr proposal, t) \<Longrightarrow> int (length (pc_changedPaths proposal)) \<le> rl_maxChangedPaths (jc_resources c) \<and>
     int (length (pc_patch proposal)) \<le> rl_maxPatchBytes (jc_resources c)"
  by (auto simp: captureProposal_def Let_def bindA_eq_Inr guardA_Inr)

lemma attempt_body_ends:
  assumes "jc_setupCommands c = [] \<Longrightarrow> sr_commands (vr_setup v0) = []"
  shows "yields (frame (\<lambda>v w p. v = v0)) (attempt_body x c d) (ends (finished c))"
proof -
  let ?F = "\<lambda>wp. frame (\<lambda>v w p. setup_evidence c v \<and> p = Some wp)"
  have capture: "yields (?F wp) (bindA (tryA (bindA (captureProposal x c w) (\<lambda>p. bindA (assertWithinBudget x c) (\<lambda>_. ret p)))) (\<lambda>captured.
       case captured of Inl e \<Rightarrow> capture_failed x c pr e
       | Inr proposal \<Rightarrow> bindA (result_phase x c w d wp pr proposal) (\<lambda>_. ret Go))) (ends (finished c))"
    if "worker_evidence pr" for wp w pr
  proof (rule yields_bindA_value [where R = "\<lambda>r. \<forall>proposal. r = Inr proposal \<longrightarrow>
      int (length (pc_changedPaths proposal)) \<le> rl_maxChangedPaths (jc_resources c)"])
    show "keeps (?F wp) (tryA (bindA (captureProposal x c w) (\<lambda>p. bindA (assertWithinBudget x c) (\<lambda>_. ret p))))"
      by (intro keeps_rules)
    show "\<forall>proposal. r = Inr proposal \<longrightarrow> int (length (pc_changedPaths proposal)) \<le> rl_maxChangedPaths (jc_resources c)"
      if "tryA (bindA (captureProposal x c w) (\<lambda>p. bindA (assertWithinBudget x c) (\<lambda>_. ret p))) s = (Inr r, t)" for r s t
      using that captureProposal_bounds by (fastforce simp: tryA_def bindA_eq_Inr split: prod.splits)
    show "yields (?F wp) (case r of Inl e \<Rightarrow> capture_failed x c pr e
        | Inr proposal \<Rightarrow> bindA (result_phase x c w d wp pr proposal) (\<lambda>_. ret Go)) (ends (finished c))"
      if "\<forall>proposal. r = Inr proposal \<longrightarrow> int (length (pc_changedPaths proposal)) \<le> rl_maxChangedPaths (jc_resources c)" for r
    proof (cases r)
      case (Inl e)
      then show ?thesis by (simp add: yields_ends capture_failed_stops)
    next
      case (Inr proposal)
      then show ?thesis using that \<open>worker_evidence pr\<close>
        by (simp, intro yields_bind [OF result_phase_finishes]) (simp_all add: yields_ret)
    qed
  qed
  have worker: "yields (frame (\<lambda>v w p. setup_evidence c v)) (bindA (worker_phase x c w d) (\<lambda>(wp, pr).
      bindA (tryA (bindA (captureProposal x c w) (\<lambda>p. bindA (assertWithinBudget x c) (\<lambda>_. ret p)))) (\<lambda>captured.
       case captured of Inl e \<Rightarrow> capture_failed x c pr e
       | Inr proposal \<Rightarrow> bindA (result_phase x c w d wp pr proposal) (\<lambda>_. ret Go)))) (ends (finished c))" for w
  proof (rule yields_bind [OF worker_phase_yields], goal_cases)
    case (1 a)
    obtain wp pr where a: "a = (wp, pr)" by fastforce
    show ?case using capture [of pr wp w] unfolding a by (cases "worker_evidence pr") (auto simp: yields_def)
  qed
  have stop: "yields (ends P (Stop m)) (ret (Stop m)) (ends (finished c))" for P m
    by (rule yields_ret) simp
  show ?thesis
    unfolding attempt_body_def
  proof (rule yields_bindA [OF frame_prepare], rule yields_bind [OF lineage_phase_ends], goal_cases)
    case (1 w0 a)
    obtain out w where a: "a = (out, w)" by fastforce
    show ?case
    proof (cases out)
      case Go
      show ?thesis unfolding a Go
      proof (simp, rule yields_bind [OF setup_phase_ends [OF assms]], goal_cases)
        case (2 out')
        show ?case using worker [of w] stop by (cases out') (simp_all add: yields_def)
      qed
    next
      case (Stop m)
      then show ?thesis unfolding a by (simp add: yields_def)
    qed
  qed
qed

subsection \<open>The end of an execution\<close>

lemma attempt_failed_finishes: "yields P (attempt_failed x c e) (\<lambda>_. finished c)"
  unfolding attempt_failed_def Let_def
  by (intro yields_true yields_finish) (simp add: stopped_def patched_def)

lemma release_one_terminal:
  assumes "release_one env c m r u = (Inr (m', b), v)" and "isAttemptTerminal (am_status m)"
  shows "m' = m"
  using assms
  by (auto simp: release_one_def releaseExternalResource_def catchA_def bindA_def Let_def
      split: prod.splits sum.splits if_splits)

lemma cleanup_resources_terminal:
  "cleanup_resources env c rs m u = (Inr (m', b), v) \<Longrightarrow> isAttemptTerminal (am_status m) \<Longrightarrow> m' = m"
proof (induction rs arbitrary: u)
  case (Cons r rs)
  show ?case
  proof (cases "er_status r \<noteq> Resource_Active")
    case True
    then show ?thesis using Cons by simp
  next
    case False
    then show ?thesis
      using Cons by (auto simp: bindA_eq_Inr split: if_splits dest!: release_one_terminal)
  qed
qed simp

lemma finished_cong: "xs_manifest t = xs_manifest s \<Longrightarrow> xs_written t = xs_written s \<Longrightarrow> finished c s \<Longrightarrow> finished c t"
  by (simp add: finished_def)

lemma finished_pass [keeps_rules]: "keeps (finished c) (pass x k)"
  by (auto simp: keeps_def pass_def Let_def elim!: finished_cong [rotated 2])

lemma finished_ask [keeps_rules]: "keeps (finished c) (ask x k f)"
  unfolding ask_def by (intro keeps_rules)

lemma finished_on_conductor [keeps_rules]: "keeps (finished c) (on_conductor x k m)"
  unfolding on_conductor_def
  by (rule keeps_bindA [OF finished_pass]) (auto simp: keeps_def elim!: finished_cong [rotated 2] split: prod.splits)

lemma finished_sets [keeps_rules]: "keeps (finished c) (set_monitoring b)"
  by (auto simp: keeps_def set_monitoring_def elim!: finished_cong [rotated 2])

lemma finished_removeWorkspace [keeps_rules]: "keeps (finished c) (removeWorkspace (exec_git_host x k) d e w)"
proof -
  have [keeps_rules]: "keeps (finished c) (gh_exists (exec_git_host x k) p)" "keeps (finished c) (gh_cleanupGit (exec_git_host x k) q a)" for p q a
    by (simp_all add: exec_git_host_def finished_ask)
  show ?thesis unfolding removeWorkspace_def by (intro keeps_rules)
qed

lemma finished_remove_after [keeps_rules]: "keeps (finished c) (remove_after_cleanup x k w m safe)"
  unfolding remove_after_cleanup_def by (intro keeps_rules)

lemma finished_remove_worktree [keeps_rules]: "keeps (finished c) (remove_finished_worktree x k w)"
proof (rule keepsI)
  fix s r t
  assume fin: "finished c s" and run: "remove_finished_worktree x k w s = (r, t)"
  let ?clean = "on_conductor x k (\<lambda>env. cleanupExternalResources env (xs_manifest s)) s"
  obtain r1 u where u: "?clean = (r1, u)" by fastforce
  have fu: "finished c u" using keepsD [OF finished_on_conductor fin u] .
  show "finished c t"
  proof (cases r1)
    case (Inl e)
    then show ?thesis using run u fu by (auto simp: remove_finished_worktree_def bindA_Inl)
  next
    case (Inr ms)
    obtain m safe where ms: "ms = (m, safe)" by fastforce
    have "m = xs_manifest s"
      using on_conductor_Inr(1) [OF u [unfolded Inr ms]] fin cleanup_resources_terminal
      by (auto simp: cleanupExternalResources_def bindA_eq_Inr finished_def)
    then have "set_manifest m u = (Inr (), u)" using on_conductor_Inr(2) [OF u [unfolded Inr ms]] by (simp add: set_manifest_def)
    then have "remove_after_cleanup x k w m safe u = (r, t)"
      using run u Inr ms by (simp add: remove_finished_worktree_def bindA_def getA_def)
    then show ?thesis using keepsD [OF finished_remove_after fu] by blast
  qed
qed

lemma finished_finally: "keeps (finished c) (attempt_finally x k)"
  unfolding attempt_finally_def by (intro keeps_rules)

lemma yields_catchA: "yields P m Q \<Longrightarrow> (\<And>e. yields (\<lambda>_. True) (h e) Q) \<Longrightarrow> yields P (catchA m h) Q"
  unfolding yields_def catchA_def by (fastforce split: prod.splits sum.splits)

lemma executeAttempt_finishes:
  assumes "executeAttempt x c (initial_exec_state x c k m0 n) = (Inr m, t)"
  shows "finished c t \<and> m = xs_manifest t"
proof -
  let ?s = "initial_exec_state x c k m0 n"
  let ?F = "frame (\<lambda>v w p. v = xs_verification ?s)"
  have v0: "jc_setupCommands c = [] \<Longrightarrow> sr_commands (vr_setup (xs_verification ?s)) = []"
    by (simp add: initial_exec_state_def createVerificationRecord_def)
  have "yields ?F (finallyA (catchA (bindA (attempt_body x c d) (\<lambda>out. case out of Go \<Rightarrow> ret () | Stop m \<Rightarrow> set_manifest m))
         (attempt_failed x c)) (attempt_finally x c)) (\<lambda>_. finished c)" for d
  proof (intro yields_finallyA yields_catchA finished_finally attempt_failed_finishes, rule yields_bind [OF attempt_body_ends [OF v0]])
    show "yields (ends (finished c) out) (case out of Go \<Rightarrow> ret () | Stop m \<Rightarrow> set_manifest m) (\<lambda>_. finished c)" for out
      by (cases out) (auto simp: yields_def set_manifest_def stopped_def finished_def)
  qed simp_all
  then show ?thesis
    using assms unfolding executeAttempt_def Let_def
    by (auto simp: bindA_eq_Inr getA_def yields_def frame_def)
qed





end
