(* ===== verification/Reconcile_Agreement.thy ===== *)
theory Reconcile_Agreement
  imports Reconcile Dispatcher_Properties
begin

text \<open>
  What the inspection reports: nothing exactly when queue, attempts and cleanup records agree. Also
  which records the steps of a repair read and write.
\<close>

declare guardA_apply [simp del] liftE_apply [simp del]

subsection \<open>Agreement of queue and attempts\<close>

text \<open>The attempt an item stands for: it names it, for the same job and the same dispatch operation.\<close>

definition bound_attempt :: "attempt_manifest list \<Rightarrow> queue_item \<Rightarrow> attempt_manifest \<Rightarrow> bool" where
  "bound_attempt attempts item attempt \<longleftrightarrow>
     truthy (qi_attemptId item) \<and> qi_attemptId item = Some (am_attemptId attempt) \<and>
     map_of (rev (map (\<lambda>a. (am_attemptId a, a)) attempts)) (am_attemptId attempt) = Some attempt \<and>
     am_jobId attempt = qi_jobId item \<and>
     (qi_dispatchOperationId item = am_dispatchOperationId attempt \<or>
      \<not> truthy (qi_dispatchOperationId item) \<and> \<not> truthy (am_dispatchOperationId attempt))"

definition sound_item ::
  "attempt_manifest list \<Rightarrow> (attempt_manifest \<Rightarrow> attempt_cleanup_record option) \<Rightarrow> lease_state \<Rightarrow> queue_item \<Rightarrow> bool" where
  "sound_item attempts cleanup lease item =
     (case qi_status item of
        QQueued \<Rightarrow> \<not> truthy (qi_dispatchOperationId item) \<and> \<not> truthy (qi_attemptId item) \<and> qi_completion item = None
      | QDispatching \<Rightarrow> False
      | QRunning \<Rightarrow> isLeaseActive lease \<and> (\<exists>a. bound_attempt attempts item a \<and> \<not> isAttemptTerminal (am_status a))
      | QCancelling \<Rightarrow> isLeaseActive lease \<and> (\<exists>a. bound_attempt attempts item a \<and> \<not> isAttemptTerminal (am_status a))
      | st \<Rightarrow> \<not> truthy (qi_attemptId item) \<and> qi_completion item = None \<and> st \<noteq> QCompleted \<or>
          (\<exists>a. bound_attempt attempts item a \<and> isAttemptTerminal (am_status a) \<and>
             (\<forall>c. cleanup a = Some c \<longrightarrow> queueMatchesAttempt item a c)))"

lemma attempt_by_id_Some: "attempt_by_id ctx a = Some attempt \<Longrightarrow> am_attemptId attempt = a \<and> attempt \<in> set (ic_attempts ctx)"
  by (auto simp: attempt_by_id_def dest!: map_of_SomeD)

lemma bound_attempt_ctx:
  "bound_attempt (ic_attempts ctx) item attempt \<longleftrightarrow>
     (\<exists>a. truthy (qi_attemptId item) \<and> qi_attemptId item = Some a \<and> attempt_by_id ctx a = Some attempt) \<and>
     am_jobId attempt = qi_jobId item \<and>
     \<not> (qi_dispatchOperationId item \<noteq> am_dispatchOperationId attempt \<and>
        (truthy (qi_dispatchOperationId item) \<or> truthy (am_dispatchOperationId attempt)))"
  unfolding bound_attempt_def using attempt_by_id_Some [of ctx _ attempt]
  by (cases "qi_attemptId item") (auto simp: attempt_by_id_def)

lemma bound_attempt_unique: "bound_attempt attempts item a \<Longrightarrow> bound_attempt attempts item b \<Longrightarrow> a = b"
  by (auto simp: bound_attempt_def)

lemma inspect_bound_empty:
  assumes "qi_status item \<noteq> QQueued" and "attempt_by_id ctx a = Some attempt" and "qi_attemptId item = Some a" and "a \<noteq> []"
  shows "fst (inspect_bound env ctx item attempt) = [] \<longleftrightarrow> sound_item (ic_attempts ctx) (cleanup_of ctx) (ic_lease ctx) item"
proof -
  let ?same = "am_jobId attempt = qi_jobId item \<and> \<not> (qi_dispatchOperationId item \<noteq> am_dispatchOperationId attempt \<and>
        (truthy (qi_dispatchOperationId item) \<or> truthy (am_dispatchOperationId attempt)))"
  have b: "bound_attempt (ic_attempts ctx) item x \<longleftrightarrow> x = attempt \<and> ?same" for x
    using assms by (auto simp: bound_attempt_ctx truthy_def)
  have t: "truthy (qi_attemptId item)" using assms by (simp add: truthy_def)
  show ?thesis
  proof (cases ?same)
    case False
    then show ?thesis using b t
      by (auto simp: inspect_bound_def Let_def sound_item_def split: queue_status.splits)
  next
    case True
    then show ?thesis using b t assms(1)
      by (cases "qi_status item") (auto simp: inspect_bound_def Let_def sound_item_def isQueueTerminal_def split: option.splits)
  qed
qed

lemma inspect_dispatching_nonempty: "fst (inspect_dispatching env ctx item) \<noteq> []"
  by (simp add: inspect_dispatching_def Let_def split: list.split)

lemma inspect_item_empty:
  "fst (inspect_item env ctx item) = [] \<longleftrightarrow> sound_item (ic_attempts ctx) (cleanup_of ctx) (ic_lease ctx) item"
proof (cases "truthy (qi_attemptId item) \<and> qi_status item \<noteq> QQueued \<and> \<not> (qi_status item = QDispatching \<and> \<not> truthy (qi_dispatchOperationId item))")
  case True
  then obtain a where a: "qi_attemptId item = Some a" "a \<noteq> []" by (auto simp: truthy_def split: option.splits)
  have i: "inspect_item env ctx item = (case attempt_by_id ctx a of
      None \<Rightarrow> ([(item_issue ctx item Active_Queue_Missing_Attempt (''Queue item '' @ qi_jobId item @ '' references missing attempt '' @ a) (Some a),
                    Some (quarantineQueueAction env item))], [])
    | Some attempt \<Rightarrow> inspect_bound env ctx item attempt)"
    using True a by (auto simp: inspect_item_def Let_def)
  show ?thesis
  proof (cases "attempt_by_id ctx a")
    case None
    then have "\<not> bound_attempt (ic_attempts ctx) item x" for x
      using a by (auto simp: bound_attempt_ctx)
    then show ?thesis using i None True by (auto simp: sound_item_def split: queue_status.splits)
  next
    case (Some attempt)
    then show ?thesis using inspect_bound_empty [OF _ Some a] True i by simp
  qed
next
  case False
  then show ?thesis
    using inspect_dispatching_nonempty
    by (cases "qi_status item") (auto simp: inspect_item_def Let_def sound_item_def bound_attempt_def)
qed

lemma sound_item_referenced:
  assumes "sound_item (ic_attempts ctx) (cleanup_of ctx) (ic_lease ctx) item"
  shows "set (snd (inspect_item env ctx item)) = {am_attemptId a | a. bound_attempt (ic_attempts ctx) item a}"
proof (cases "\<exists>a. bound_attempt (ic_attempts ctx) item a \<and> qi_status item \<noteq> QQueued")
  case True
  then obtain a where b: "bound_attempt (ic_attempts ctx) item a" and st: "qi_status item \<noteq> QQueued" by blast
  have d: "qi_status item \<noteq> QDispatching" using assms by (auto simp: sound_item_def)
  obtain i where i: "qi_attemptId item = Some i" "truthy (qi_attemptId item)" "attempt_by_id ctx i = Some a"
    using b by (auto simp: bound_attempt_ctx)
  have same: "am_jobId a = qi_jobId item" "\<not> (qi_dispatchOperationId item \<noteq> am_dispatchOperationId a \<and>
        (truthy (qi_dispatchOperationId item) \<or> truthy (am_dispatchOperationId a)))"
    using b by (auto simp: bound_attempt_ctx)
  have "snd (inspect_item env ctx item) = [am_attemptId a]"
    using i same st d by (auto simp: inspect_item_def inspect_bound_def Let_def split: queue_status.splits)
  moreover have "{am_attemptId x | x. bound_attempt (ic_attempts ctx) item x} = {am_attemptId a}"
    using b bound_attempt_unique by blast
  ultimately show ?thesis by simp
next
  case False
  then have none: "\<not> bound_attempt (ic_attempts ctx) item a" for a
    using assms by (auto simp: sound_item_def bound_attempt_def)
  then have "\<not> truthy (qi_attemptId item)" "qi_status item \<noteq> QDispatching"
    using assms by (auto simp: sound_item_def split: queue_status.splits)
  then have "snd (inspect_item env ctx item) = []" by (auto simp: inspect_item_def Let_def)
  then show ?thesis using none by simp
qed

definition agrees :: "attempt_manifest list \<Rightarrow> (attempt_manifest \<Rightarrow> attempt_cleanup_record option) \<Rightarrow> lease_state \<Rightarrow> queue_item list \<Rightarrow> bool" where
  "agrees attempts cleanup lease items \<longleftrightarrow> (\<forall>item\<in>set items. sound_item attempts cleanup lease item) \<and>
     (\<forall>a\<in>set attempts. isAttemptTerminal (am_status a) \<or>
       (\<exists>item\<in>set items. \<exists>b. bound_attempt attempts item b \<and> am_attemptId b = am_attemptId a))"

lemma inspect_unreferenced_empty:
  "inspect_unreferenced env ctx referenced attempt = [] \<longleftrightarrow>
     isAttemptTerminal (am_status attempt) \<or> am_attemptId attempt \<in> set referenced"
  by (simp add: inspect_unreferenced_def Let_def)

lemma relationship_findings_empty:
  "relationship_findings env ctx items = [] \<longleftrightarrow> agrees (ic_attempts ctx) (cleanup_of ctx) (ic_lease ctx) items"
proof (cases "\<forall>item\<in>set items. sound_item (ic_attempts ctx) (cleanup_of ctx) (ic_lease ctx) item")
  case True
  let ?refs = "concat (map (\<lambda>i. snd (inspect_item env ctx i)) items)"
  have "a \<in> set ?refs \<longleftrightarrow> (\<exists>item\<in>set items. \<exists>b. bound_attempt (ic_attempts ctx) item b \<and> am_attemptId b = a)" for a
    using True by (auto simp: sound_item_referenced)
  then show ?thesis
    using True by (simp add: relationship_findings_def agrees_def inspect_unreferenced_empty inspect_item_empty del: set_concat)
next
  case False
  then show ?thesis by (auto simp: relationship_findings_def agrees_def inspect_item_empty)
qed

lemma read_cleanup_id: "am_attemptId a = am_attemptId b \<Longrightarrow> read_cleanup s a = read_cleanup s b"
  by (simp add: read_cleanup_def)

lemma cleanup_map_lookup:
  "map_of (cleanup_map s attempts) i =
     (case find (\<lambda>a. am_attemptId a = i \<and> \<not> isl (read_cleanup s a)) (rev attempts) of
        None \<Rightarrow> None | Some a \<Rightarrow> Some (projr (read_cleanup s a)))"
  by (induction attempts rule: rev_induct) (auto simp: cleanup_map_def split: sum.splits)

definition cleanup_at :: "dispatcher_state \<Rightarrow> attempt_manifest \<Rightarrow> attempt_cleanup_record option" where
  "cleanup_at s a = (case read_cleanup s a of Inl _ \<Rightarrow> None | Inr c \<Rightarrow> Some c)"

lemma cleanup_of_known:
  assumes "a \<in> set attempts" and "ic_cleanup ctx = cleanup_map s attempts"
  shows "cleanup_of ctx a = cleanup_at s a"
proof (cases "find (\<lambda>x. am_attemptId x = am_attemptId a \<and> \<not> isl (read_cleanup s x)) (rev attempts)")
  case None
  then have "\<not> \<not> isl (read_cleanup s a)" using assms(1) by (auto simp: find_None_iff)
  then show ?thesis using None assms(2) by (auto simp: cleanup_of_def cleanup_map_lookup cleanup_at_def split: sum.splits)
next
  case (Some b)
  then have "am_attemptId b = am_attemptId a" "\<not> isl (read_cleanup s b)" by (auto simp: find_Some_iff)
  then have "read_cleanup s b = read_cleanup s a" "\<not> isl (read_cleanup s a)" using read_cleanup_id by metis+
  then show ?thesis using Some assms(2) by (auto simp: cleanup_of_def cleanup_map_lookup cleanup_at_def split: sum.splits)
qed

lemma bound_attempt_in: "bound_attempt attempts item a \<Longrightarrow> a \<in> set attempts"
  by (auto simp: bound_attempt_def dest!: map_of_SomeD)

lemma sound_item_cong:
  assumes "\<And>a. a \<in> set attempts \<Longrightarrow> f a = g a"
  shows "sound_item attempts f lease item = sound_item attempts g lease item"
proof -
  have "(\<exists>a. bound_attempt attempts item a \<and> isAttemptTerminal (am_status a) \<and> (\<forall>c. f a = Some c \<longrightarrow> queueMatchesAttempt item a c)) \<longleftrightarrow>
        (\<exists>a. bound_attempt attempts item a \<and> isAttemptTerminal (am_status a) \<and> (\<forall>c. g a = Some c \<longrightarrow> queueMatchesAttempt item a c))"
    using assms bound_attempt_in by metis
  then show ?thesis by (simp add: sound_item_def split: queue_status.split)
qed

lemma agrees_cong: "(\<And>a. a \<in> set attempts \<Longrightarrow> f a = g a) \<Longrightarrow> agrees attempts f lease items = agrees attempts g lease items"
  unfolding agrees_def using sound_item_cong by metis

lemma relationships_empty:
  "fst (inspectQueueAttemptRelationships env ctx items) = [] \<longleftrightarrow> agrees (ic_attempts ctx) (cleanup_of ctx) (ic_lease ctx) items"
  by (simp add: inspectQueueAttemptRelationships_def Let_def relationship_findings_empty)

lemma unresolved_empty:
  "unresolved_issue ctx a = [] \<longleftrightarrow> (case cleanup_of ctx a of None \<Rightarrow> True | Some c \<Rightarrow> cr_status c \<in> {C_NotRequired, C_Proven})"
  by (simp add: unresolved_issue_def Let_def split: option.split)

lemma cleanup_issue_empty: "cleanup_issue s a = [] \<longleftrightarrow> cleanup_at s a \<noteq> None"
  by (simp add: cleanup_issue_def cleanup_at_def split: sum.split)

lemma lease_issues_empty: "lease_issues l = [] \<longleftrightarrow> li_state l \<notin> {L_Corrupt, L_Incomplete}"
  by (simp add: lease_issues_def)

definition cleaned :: "dispatcher_state \<Rightarrow> attempt_manifest \<Rightarrow> bool" where
  "cleaned s a = (case cleanup_at s a of None \<Rightarrow> False | Some c \<Rightarrow> cr_status c \<in> {C_NotRequired, C_Proven})"

text \<open>
  C10. The inspection is silent exactly when the system is in order: the lease record is readable, queue and attempts can be
  enumerated, every attempt's cleanup is known and settled, and queue and attempts agree -- each queued item carries no trace
  of a dispatch, none is caught between reservation and binding, each running item names a live attempt of its job and
  operation under an active lease, each finished item carries the completion its terminal attempt projects, and every attempt
  that is still live belongs to an item.
\<close>

theorem inspection_clean_iff:
  "rr_issues (inspect_runtime env now s) = [] \<longleftrightarrow>
     li_state (inspectLease (dv_lease (rx_disp env)) (rx_leaseMs env) now (ds_leases s)) \<notin> {L_Corrupt, L_Incomplete} \<and>
     (case (list_items (dv_lc (rx_disp env)) (ds_queue s), listAttempts (dv_lc (rx_disp env)) (cd_store (ds_cond s))) of
        (Inr items, Inr attempts) \<Rightarrow>
          list_all (cleaned s) attempts \<and>
          agrees attempts (cleanup_at s) (li_state (inspectLease (dv_lease (rx_disp env)) (rx_leaseMs env) now (ds_leases s))) items
      | _ \<Rightarrow> False)"
proof (cases "list_items (dv_lc (rx_disp env)) (ds_queue s)")
  case (Inl e)
  then show ?thesis by (simp add: inspect_runtime_def Let_def)
next
  case items: (Inr items)
  show ?thesis
  proof (cases "listAttempts (dv_lc (rx_disp env)) (cd_store (ds_cond s))")
    case (Inl e)
    then show ?thesis by (simp add: inspect_runtime_def Let_def items)
  next
    case attempts: (Inr attempts)
    define lease where "lease = inspectLease (dv_lease (rx_disp env)) (rx_leaseMs env) now (ds_leases s)"
    define ctx where "ctx = \<lparr>ic_attempts = attempts, ic_cleanup = cleanup_map s attempts, ic_lease = li_state lease\<rparr>"
    have fields: "ic_attempts ctx = attempts" "ic_lease ctx = li_state lease" by (simp_all add: ctx_def)
    have known: "cleanup_of ctx a = cleanup_at s a" if "a \<in> set attempts" for a
      using cleanup_of_known [OF that, of ctx s] by (simp add: ctx_def)
    have agree: "agrees attempts (cleanup_of ctx) l is = agrees attempts (cleanup_at s) l is" for l "is"
      by (rule agrees_cong) (rule known)
    have settled: "(\<forall>a\<in>set attempts. cleanup_issue s a = [] \<and> unresolved_issue ctx a = []) \<longleftrightarrow> list_all (cleaned s) attempts"
      by (auto simp: list_all_iff cleaned_def cleanup_issue_empty unresolved_empty known split: option.splits)
    have "rr_issues (inspect_runtime env now s) = [] \<longleftrightarrow>
      lease_issues lease = [] \<and> (\<forall>a\<in>set attempts. cleanup_issue s a = [] \<and> unresolved_issue ctx a = []) \<and>
      fst (inspectQueueAttemptRelationships env ctx items) = []"
      unfolding inspect_runtime_def Let_def items attempts lease_def [symmetric] ctx_def [symmetric]
      by (auto simp: ctx_def lease_def split: prod.splits)
    then show ?thesis
      by (simp add: items attempts settled relationships_empty lease_issues_empty agree fields lease_def [symmetric])
  qed
qed

subsection \<open>What a repair touches\<close>

text \<open>The records the evidence of an action is read from.\<close>

definition stores :: "reconcile_state \<Rightarrow> queue_store \<times> artifact_store" where
  "stores u = (ds_queue (rc_disp u), cd_store (ds_cond (rc_disp u)))"

lemma q_read_apply: "q_read j u = (read_item (fst (stores u)) j, u)"
  and a_read_apply: "a_read a u = (findAttempt (snd (stores u)) a, u)"
  by (simp_all add: q_read_def a_read_def on_disp_def on_cond_def queue_read_def getAttempt_def stores_def)

lemma c_read_apply: "c_read a u = (case findAttempt (snd (stores u)) a of Inl e \<Rightarrow> Inl e
    | Inr m \<Rightarrow> readAttemptCleanup (snd (stores u)) (am_jobId m) (am_attemptId m), u)"
  by (simp add: c_read_def on_disp_def on_cond_def getAttemptCleanup_def getAttempt_def bindA_def stores_def split: sum.split)

lemmas reconcile_reads = q_read_apply a_read_apply c_read_apply

lemma readRuntimeActionState_stores:
  "readRuntimeActionState env p u = (fst (readRuntimeActionState env p s), u)" if "stores u = stores s"
  using that by (cases p) (simp_all add: bindA_def reconcile_reads split: sum.split)

lemma readRuntimeActionState_same: "snd (readRuntimeActionState env p u) = u"
  using readRuntimeActionState_stores [of u u env p] by (metis snd_conv)

lemma keeps_readState [keeps_rules]: "keeps P (readRuntimeActionState env p)"
  by (simp add: keeps_def readRuntimeActionState_same)

lemma keeps_not_offered [keeps_rules]: "keeps P (not_offered env p)"
  unfolding not_offered_def by (intro keeps_rules)

lemma stores_on_leases: "keeps (\<lambda>u. P (stores u)) (on_disp (on_leases m))"
  by (simp add: keeps_def on_disp_def on_leases_def stores_def split: prod.splits)

lemma actions_on_disp: "keeps (\<lambda>u. P (rc_actions u)) (on_disp m)"
  by (simp add: keeps_def on_disp_def split: prod.splits)

lemma keeps_take_lease: "keeps (\<lambda>u. P (stores u)) (take_lease env op now)" "keeps (\<lambda>u. Q (rc_actions u)) (take_lease env op now)"
  unfolding take_lease_def by (intro keeps_rules stores_on_leases actions_on_disp)+

lemma write_result_stores [simp]: "write_result op e u = (r, t) \<Longrightarrow> stores t = stores u"
  by (auto simp: write_result_def stores_def Let_def)

lemma record_action_stores: "keeps (\<lambda>u. P (stores u)) (record_action env op p applied)"
  unfolding record_action_def Let_def
  by (intro keeps_rules) (auto simp: keeps_def write_result_def stores_def Let_def)

lemma perform_action_stores:
  assumes others: "\<And>u. stores (rx_others env 3 u) = stores u" and r: "perform_action env p u = (r, t)" and "stores t \<noteq> stores u"
  shows "\<exists>cur. fst (readRuntimeActionState env p u) = Inr cur \<and> ras_evidenceToken cur = rp_evidenceToken p"
proof (cases "fst (readRuntimeActionState env p u)")
  case (Inl e)
  then have "readRuntimeActionState env p u = (Inl e, u)"
    by (metis prod.collapse readRuntimeActionState_same)
  then have "t = u" using r by (simp add: perform_action_def bindA_def)
  then show ?thesis using assms(3) by simp
next
  case (Inr cur)
  then have read: "readRuntimeActionState env p u = (Inr cur, u)"
    by (metis prod.collapse readRuntimeActionState_same)
  show ?thesis
  proof (rule ccontr)
    assume "\<not> ?thesis"
    then have "ras_evidenceToken cur \<noteq> rp_evidenceToken p" using Inr by simp
    then have "t = u" using r read
      by (auto simp: perform_action_def bindA_def liftE_apply split: sum.splits option.splits)
    then show False using assms(3) by simp
  qed
qed

end
