(* ===== verification/Store_Types.thy ===== *)
theory Store_Types
  imports Queue_Properties Store_Content
begin

text \<open>
  The types of the records on disk: whatever snapshot of whatever record a read of the artifact store
  picks satisfies its schema, and the directory it was read from is the one its identifier leads to.
  No bound on revisions is needed.
\<close>

definition manifest_typed :: "string \<Rightarrow> string \<Rightarrow> attempt_manifest \<Rightarrow> bool" where
  "manifest_typed j a m \<longleftrightarrow> attemptManifest_valid m \<and> am_jobId m = j \<and> am_attemptId m = a \<and> (\<exists>n. a = attempt_id j n)"

definition cleanup_typed :: "string \<Rightarrow> string \<Rightarrow> attempt_cleanup_record \<Rightarrow> bool" where
  "cleanup_typed j a c \<longleftrightarrow> attemptCleanupRecord_valid c \<and> cr_jobId c = j \<and> cr_attemptId c = a \<and> (\<exists>n. a = attempt_id j n)"

definition typed_store :: "artifact_store \<Rightarrow> bool" where
  "typed_store s \<longleftrightarrow> (\<forall>j a d. get_attempt s j a = Some d \<longrightarrow>
     (\<forall>m. recorded (ad_manifest d) m \<longrightarrow> manifest_typed j a m) \<and> (\<forall>c. recorded (ad_cleanup d) c \<longrightarrow> cleanup_typed j a c))"

lemma typed_empty: "typed_store (empty_store d)"
  by (simp add: typed_store_def empty_store_def get_attempt_def attempt_entries_def get_job_def empty_job_dir_def)

lemma typed_read:
  assumes "typed_store s"
  shows "readAttempt s j a = Inr m \<Longrightarrow> manifest_typed j a m"
    and "readAttemptCleanup s j a = Inr c \<Longrightarrow> cleanup_typed j a c"
  using assms by (auto simp: typed_store_def readAttempt_conv readAttemptCleanup_conv dest!: read_recorded)

lemma typed_same: "typed_store s \<Longrightarrow> (\<And>j a. get_attempt t j a = get_attempt s j a) \<Longrightarrow> typed_store t"
  by (simp add: typed_store_def)

lemma typed_put:
  assumes "typed_store s" and "get_attempt s j a = Some d"
    and "\<And>m. recorded (ad_manifest d') m \<Longrightarrow> recorded (ad_manifest d) m \<or> manifest_typed j a m"
    and "\<And>c. recorded (ad_cleanup d') c \<Longrightarrow> recorded (ad_cleanup d) c \<or> cleanup_typed j a c"
  shows "typed_store (put_attempt j a d' s)"
  using assms unfolding typed_store_def by (fastforce split: if_splits)

lemma transitionAttempt_valid:
  "transitionAttempt fp x patch s = (r, t) \<Longrightarrow> t = s \<or> attemptManifest_valid (patched x patch)"
  by (auto simp: transitionAttempt_def Let_def split: sum.splits if_splits)

lemma transitionAttemptCleanup_valid:
  "transitionAttemptCleanup fp now x rs es s = (r, t) \<Longrightarrow> t = s \<or> attemptCleanupRecord_valid (patched_cleanup now rs es x)"
  by (auto simp: transitionAttemptCleanup_def Let_def split: sum.splits if_splits)

lemma typed_transitionAttempt: "keeps typed_store (transitionAttempt fp x patch)"
proof (rule keepsI)
  fix s r t assume ok: "typed_store s" and tr: "transitionAttempt fp x patch s = (r, t)"
  show "typed_store t"
  proof (cases "t = s")
    case False
    from tr show ?thesis
    proof (cases rule: transitionAttempt_cases)
      case (committed d r0 j)
      have "manifest_typed (am_jobId x) (am_attemptId x) (patched x patch)"
        using transitionAttempt_valid [OF tr] False typed_read(1) [OF ok committed(1)]
        by (simp add: manifest_typed_def patched_def)
      then show ?thesis unfolding committed(5)
        using commit_recorded [OF committed(4)] by (intro typed_put [OF ok committed(2)]) force+
    qed (use ok in simp)
  qed (use ok in simp)
qed

lemma typed_transitionAttemptCleanup: "keeps typed_store (transitionAttemptCleanup fp now x rs es)"
proof (rule keepsI)
  fix s r t assume ok: "typed_store s" and tr: "transitionAttemptCleanup fp now x rs es s = (r, t)"
  show "typed_store t"
  proof (cases "t = s")
    case False
    from tr show ?thesis
    proof (cases rule: transitionAttemptCleanup_cases)
      case (committed d r0 j)
      have "cleanup_typed (cr_jobId x) (cr_attemptId x) (patched_cleanup now rs es x)"
        using transitionAttemptCleanup_valid [OF tr] False typed_read(2) [OF ok committed(1)]
        by (simp add: cleanup_typed_def patched_cleanup_def Let_def)
      then show ?thesis unfolding committed(4)
        using commit_recorded [OF committed(3)] by (intro typed_put [OF ok committed(2)]) force+
    qed (use ok in simp)
  qed (use ok in simp)
qed

lemma typed_cleanup_writers:
  "keeps typed_store (registerAttemptCleanupRequirement fp now j a requirement)"
  "keeps typed_store (appendAttemptCleanupEvidence fp now j a e)"
  using typed_transitionAttemptCleanup
  by (auto simp: keeps_def registerAttemptCleanupRequirement_def appendAttemptCleanupEvidence_def Let_def split: sum.splits)

lemma typed_reserveAttemptAt: "keeps typed_store (reserveAttemptAt now stg contract n lin op)"
proof (rule keepsI)
  fix s r t assume ok: "typed_store s" and tr: "reserveAttemptAt now stg contract n lin op s = (r, t)"
  from tr show "typed_store t"
  proof (cases rule: reserveAttemptAt_cases)
    case (leftover e)
    then show ?thesis using ok by (auto simp: typed_store_def empty_attempt_dir_def)
  next
    case (created m c)
    note f = fresh_dir_ok [OF created(4,5)]
    have "attemptCleanupRecord_valid c"
      using created(5) by (auto simp: createAttemptCleanupRecord_def Let_def split: if_splits)
    then show ?thesis using ok f
      by (auto simp: created(6) typed_store_def manifest_typed_def cleanup_typed_def)
  qed (use ok in auto)
qed

lemma typed_roots: "keeps typed_store (make_attempts_root j)" "keeps typed_store (reserveJob sha256 lc contract)"
proof -
  show "keeps typed_store (make_attempts_root j)"
    by (rule keepsI) (metis typed_same make_attempts_root_frame)
  have "get_attempt t j a = get_attempt s j a" if "reserveJob sha256 lc contract s = (r, t)" for s r t j a
    using that by (auto simp: reserveJob_def get_attempt_put_job safeSegment_def get_attempt_empty_job
        split: if_splits sum.splits)
  then show "keeps typed_store (reserveJob sha256 lc contract)"
    by (intro keepsI) (metis typed_same)
qed

lemma reachable_typed: "artifact_reachable s \<Longrightarrow> typed_store s"
proof -
  have one: "typed_store s \<Longrightarrow> artifact_step s t \<Longrightarrow> typed_store t" for s t
    by (erule artifact_step.cases) (metis keepsD typed_roots typed_reserveAttemptAt typed_transitionAttempt typed_cleanup_writers)+
  have "artifact_step\<^sup>*\<^sup>* s t \<Longrightarrow> typed_store s \<Longrightarrow> typed_store t" for s t
    by (induction rule: rtranclp_induct) (use one in blast)+
  then show "artifact_reachable s \<Longrightarrow> typed_store s"
    unfolding artifact_reachable_def using typed_empty by blast
qed

lemma typed_found:
  assumes "typed_store s" and "readAttempt s j a = Inr m"
  shows "findAttempt s a = Inr m"
proof -
  obtain n where "a = attempt_id j n" using typed_read(1) [OF assms] by (auto simp: manifest_typed_def)
  moreover have "j \<noteq> []" using assms(2) by (auto simp: readAttempt_conv is_safe_segment_def)
  ultimately show ?thesis using assms(2) findAttempt_attempt_id by simp
qed

text \<open>What is listed is found.\<close>

lemma listed_read:
  assumes "listAttempts lc s = Inr attempts" and "m \<in> set attempts"
  obtains j a where "readAttempt s j a = Inr m"
proof -
  have inner: "\<exists>j a. readAttempt s j a = Inr x" if "read_all (readAttempt s job) as = Inr ys" "x \<in> set ys" for x job as ys
  proof -
    have "Inr x \<in> set (map (readAttempt s job) as)"
      using iffD1 [OF read_all_Inr that(1)] that(2) by auto
    then show ?thesis by (metis ex_map_conv)
  qed
  have outer: "\<exists>j a. readAttempt s j a = Inr x"
    if r: "read_all (\<lambda>job. case safeSegment job of Inl e \<Rightarrow> Inl e | Inr _ \<Rightarrow> read_all (readAttempt s job) (as job)) js = Inr yss"
      and x: "x \<in> set (concat yss)" for x as js yss
  proof -
    obtain ys where ys: "ys \<in> set yss" "x \<in> set ys" using x by auto
    have "Inr ys \<in> set (map (\<lambda>job. case safeSegment job of Inl e \<Rightarrow> Inl e | Inr _ \<Rightarrow> read_all (readAttempt s job) (as job)) js)"
      using iffD1 [OF read_all_Inr r] ys(1) by auto
    then obtain job where "read_all (readAttempt s job) (as job) = Inr ys" by (auto split: sum.splits)
    then show ?thesis using inner ys(2) by blast
  qed
  let ?list = "read_all (\<lambda>job. case safeSegment job of Inl e \<Rightarrow> Inl e
      | Inr _ \<Rightarrow> read_all (readAttempt s job) (filter (\<lambda>a. \<not> is_staging a) (map fst (attempt_entries s job))))
    (filter (\<lambda>job. \<not> is_staging job) (map fst (as_jobs s)))"
  obtain yss where r: "?list = Inr yss"
    using assms(1) unfolding listAttempts_def by (cases ?list) simp_all
  then have "m \<in> set (concat yss)" using assms unfolding listAttempts_def r by (auto simp: set_sort)
  from outer [OF r this] show ?thesis using that by blast
qed

lemma listed_found:
  assumes "typed_store s" and "listAttempts lc s = Inr attempts" and "m \<in> set attempts"
  shows "findAttempt s (am_attemptId m) = Inr m \<and> attemptManifest_valid m"
proof -
  obtain j a where r: "readAttempt s j a = Inr m" using listed_read [OF assms(2,3)] .
  have "manifest_typed j a m" by (rule typed_read(1) [OF assms(1) r])
  then show ?thesis using typed_found [OF assms(1) r] by (simp add: manifest_typed_def)
qed



end
