(* ===== verification/Reconcile_Progress.thy ===== *)
theory Reconcile_Progress
  imports Reconcile_Agreement Store_Types
begin

text \<open>
  Every repair of a queue item the inspection offers goes through: the evidence read under the lease
  is the evidence it was offered on, the reconciliation transition is allowed, the repaired item
  satisfies its schema, and it agrees with the attempts.
\<close>

declare guardA_apply [simp del] liftE_apply [simp del]

subsection \<open>What is offered\<close>

lemma offer_values: "snd ` set (offer lease acts f) \<subseteq> snd ` set acts \<union> set_option (offered lease f)"
proof (cases "offered lease f")
  case (Some q)
  have "snd ` set (AList.update k q acts) \<subseteq> snd ` set acts \<union> {q}" for k
    by (induction acts) auto
  then show ?thesis using Some by (simp add: offer_def)
qed (simp add: offer_def)

lemma offered_values: "p \<in> snd ` set (foldl (offer lease) acts fs) \<Longrightarrow> p \<in> snd ` set acts \<or> (\<exists>f\<in>set fs. offered lease f = Some p)"
proof (induction fs arbitrary: acts)
  case (Cons f fs)
  show ?case using Cons.IH [of "offer lease acts f"] Cons.prems offer_values [of lease acts f] by auto
qed simp

definition same_dispatch :: "queue_item \<Rightarrow> attempt_manifest \<Rightarrow> bool" where
  "same_dispatch item a \<longleftrightarrow> am_jobId a = qi_jobId item \<and>
     (qi_dispatchOperationId item = am_dispatchOperationId a \<or>
      \<not> truthy (qi_dispatchOperationId item) \<and> \<not> truthy (am_dispatchOperationId a))"

definition repair_of :: "reconcile_env \<Rightarrow> inspection_context \<Rightarrow> queue_item \<Rightarrow> runtime_proposal \<Rightarrow> bool" where
  "repair_of env ctx item p \<longleftrightarrow>
     p = resetQueueAction env item \<and> qi_status item \<in> {QQueued, QDispatching} \<or>
     p = quarantineQueueAction env item \<or>
     (\<exists>a\<in>set (ic_attempts ctx). same_dispatch item a \<and>
        (p = bindQueueAction env item a \<and> qi_status item = QDispatching \<and> truthy (qi_dispatchOperationId item) \<and>
           \<not> isAttemptTerminal (am_status a) \<or>
         (\<exists>c. p = synchronizeQueueAction env item a c \<and> isAttemptTerminal (am_status a) \<and> cleanup_of ctx a = Some c))) \<or>
     rp_kind p = RK_Recover"

lemma Some_eq_map_option: "Some p = map_option g x \<longleftrightarrow> (\<exists>c. x = Some c \<and> p = g c)"
  by (cases x) auto

lemma split_at_char: "c \<notin> set j \<Longrightarrow> c \<notin> set j' \<Longrightarrow> j @ c # d = j' @ c # d' \<Longrightarrow> j = j' \<and> d = d'"
proof (induction j arbitrary: j')
  case Nil
  then show ?case by (cases j') auto
next
  case (Cons x j)
  then show ?case by (cases j') auto
qed

lemma dispatchKey_inj:
  assumes "is_safe_segment j" and "is_safe_segment j'" and "dispatchKey j d = dispatchKey j' d'"
  shows "j = j' \<and> d = d'"
proof -
  have "CHR 0x00 \<notin> set safe_chars" by (simp add: safe_chars_def)
  then have "CHR 0x00 \<notin> set j" "CHR 0x00 \<notin> set j'"
    using assms(1,2) unfolding is_safe_segment_def list_all_iff by blast+
  then show ?thesis using assms(3) split_at_char by (simp add: dispatchKey_def)
qed

lemma matching_attempts:
  assumes "a \<in> set (attempts_by_operation ctx (qi_jobId item) (qi_dispatchOperationId item))"
    and "is_safe_segment (qi_jobId item)" and "\<And>a. a \<in> set (ic_attempts ctx) \<Longrightarrow> is_safe_segment (am_jobId a)"
  shows "a \<in> set (ic_attempts ctx) \<and> same_dispatch item a"
proof -
  obtain d d' where "qi_dispatchOperationId item = Some d" "am_dispatchOperationId a = Some d'"
    "dispatchKey (am_jobId a) d' = dispatchKey (qi_jobId item) d" "a \<in> set (ic_attempts ctx)"
    using assms(1) by (cases "qi_dispatchOperationId item") (auto simp: attempts_by_operation_def split: option.splits)
  then show ?thesis using dispatchKey_inj [of "am_jobId a" "qi_jobId item" d' d] assms(2,3) by (auto simp: same_dispatch_def)
qed

lemma rebind_repair:
  assumes "rebind_action env ctx item a = Some p" and "a \<in> set (ic_attempts ctx)" and "same_dispatch item a"
    and "qi_status item = QDispatching" and "truthy (qi_dispatchOperationId item)"
  shows "repair_of env ctx item p"
  using assms unfolding rebind_action_def repair_of_def by (auto split: if_splits)

lemma dispatching_repair:
  assumes "(f, Some p) \<in> set (fst (inspect_dispatching env ctx item))" and "qi_status item = QDispatching" and "truthy (qi_dispatchOperationId item)"
    and "is_safe_segment (qi_jobId item)" and "\<And>a. a \<in> set (ic_attempts ctx) \<Longrightarrow> is_safe_segment (am_jobId a)"
  shows "repair_of env ctx item p"
proof -
  let ?m = "attempts_by_operation ctx (qi_jobId item) (qi_dispatchOperationId item)"
  consider "p = resetQueueAction env item" | "p = quarantineQueueAction env item" | a where "?m = [a]" "rebind_action env ctx item a = Some p"
    using assms(1) by (auto simp: inspect_dispatching_def Let_def split: list.splits)
  then show ?thesis
  proof cases
    case (3 a)
    then show ?thesis using matching_attempts [of a ctx item, OF _ assms(4,5)] rebind_repair [OF 3(2)] assms(2,3) by simp
  qed (use assms(2) in \<open>simp_all add: repair_of_def\<close>)
qed

lemma bound_repair:
  assumes "(f, Some p) \<in> set (fst (inspect_bound env ctx item a))" and "a \<in> set (ic_attempts ctx)"
    and "qi_status item = QDispatching \<Longrightarrow> truthy (qi_dispatchOperationId item)"
  shows "repair_of env ctx item p"
proof -
  have rec: "rp_kind (recoverAttemptAction env a c) = RK_Recover" for c by (simp add: recoverAttemptAction_def)
  have "p = quarantineQueueAction env item \<or> rp_kind p = RK_Recover \<or>
      same_dispatch item a \<and> qi_status item = QDispatching \<and> rebind_action env ctx item a = Some p \<or>
      same_dispatch item a \<and> isAttemptTerminal (am_status a) \<and> (\<exists>c. cleanup_of ctx a = Some c \<and> p = synchronizeQueueAction env item a c)"
    using assms(1) rec
    by (cases "cleanup_of ctx a")
      (auto simp: inspect_bound_def Let_def same_dispatch_def nonterminal_under_terminal_def split: if_splits)
  then show ?thesis
    using assms(2,3) rebind_repair [of env ctx item a p] unfolding repair_of_def by blast
qed

lemma item_repair:
  assumes "(f, Some p) \<in> set (fst (inspect_item env ctx item))"
    and "is_safe_segment (qi_jobId item)" and "\<And>a. a \<in> set (ic_attempts ctx) \<Longrightarrow> is_safe_segment (am_jobId a)"
  shows "repair_of env ctx item p"
proof -
  consider "p = resetQueueAction env item" "qi_status item \<in> {QQueued, QDispatching}" | "p = quarantineQueueAction env item"
    | "(f, Some p) \<in> set (fst (inspect_dispatching env ctx item))" "qi_status item = QDispatching" "truthy (qi_dispatchOperationId item)"
    | a where "a \<in> set (ic_attempts ctx)" "(f, Some p) \<in> set (fst (inspect_bound env ctx item a))"
        "qi_status item = QDispatching \<Longrightarrow> truthy (qi_dispatchOperationId item)"
    using assms(1) attempt_by_id_Some
    by (auto simp: inspect_item_def Let_def split: if_splits option.splits)
  then show ?thesis
  proof cases
    case 3
    then show ?thesis using dispatching_repair assms(2,3) by blast
  next
    case (4 a)
    then show ?thesis using bound_repair by blast
  qed (simp_all add: repair_of_def)
qed

lemma finding_repair:
  assumes "(f, Some p) \<in> set (relationship_findings env ctx items)"
    and "\<And>item. item \<in> set items \<Longrightarrow> is_safe_segment (qi_jobId item)" and "\<And>a. a \<in> set (ic_attempts ctx) \<Longrightarrow> is_safe_segment (am_jobId a)"
  shows "rp_kind p = RK_Recover \<or> (\<exists>item\<in>set items. repair_of env ctx item p)"
proof -
  have "rp_kind p = RK_Recover" if "(f, Some p) \<in> set (inspect_unreferenced env ctx refs a)" for refs a
    using that by (auto simp: inspect_unreferenced_def Let_def recoverAttemptAction_def Some_eq_map_option split: if_splits)
  then show ?thesis using assms(1) item_repair [of f p env ctx, OF _ assms(2,3)] by (auto simp: relationship_findings_def)
qed

lemma listed_item:
  assumes "list_items lc q = Inr items" and "queue_inv q" and "item \<in> set items"
  shows "read_item q (qi_jobId item) = Inr item \<and> is_safe_segment (qi_jobId item) \<and> queueItem_valid item"
proof -
  have "Inr item \<in># mset (map Inr items)" using assms(3) by simp
  then have "Inr item \<in> set (map (read_item q) (filter (\<lambda>n. \<not> is_staging n) (map fst (qs_items q))))"
    using list_items_Inr [OF assms(1)] by (metis set_mset_mset)
  then obtain n where n: "read_item q n = Inr item" by auto
  moreover have "qi_jobId item = n" "queueItem_valid item" using n assms(2) by (auto simp: queue_inv_def)
  ultimately show ?thesis by (auto simp: read_item_conv)
qed

lemma listed_job:
  assumes "listAttempts lc s = Inr attempts" and "typed_store s" and "a \<in> set attempts"
  shows "is_safe_segment (am_jobId a)"
proof -
  obtain j i where r: "readAttempt s j i = Inr a" using listed_read [OF assms(1,3)] .
  then show ?thesis using typed_read(1) [OF assms(2) r] by (simp add: manifest_typed_def readAttempt_conv)
qed

definition inspected :: "reconcile_env \<Rightarrow> timestamp \<Rightarrow> dispatcher_state \<Rightarrow> attempt_manifest list \<Rightarrow> inspection_context" where
  "inspected env now d attempts = \<lparr>ic_attempts = attempts, ic_cleanup = cleanup_map d attempts,
     ic_lease = li_state (inspectLease (dv_lease (rx_disp env)) (rx_leaseMs env) now (ds_leases d))\<rparr>"

lemma related_offers:
  assumes "p \<in> set (snd (inspectQueueAttemptRelationships env ctx items))"
  shows "ownerCanAct (ic_lease ctx) \<and> (\<exists>f. (f, Some p) \<in> set (relationship_findings env ctx items))"
proof -
  have "p \<in> snd ` set (foldl (offer (ic_lease ctx)) [] (relationship_findings env ctx items))"
    using assms by (simp add: inspectQueueAttemptRelationships_def Let_def set_sort)
  then have "\<exists>f\<in>set (relationship_findings env ctx items). offered (ic_lease ctx) f = Some p"
    using offered_values [of p "ic_lease ctx" "[]" "relationship_findings env ctx items"] by simp
  then show ?thesis by (auto simp: offered_def split: if_splits)
qed

lemma offered_repair:
  assumes offer: "Runtime_Action p \<in> set (rr_availableActions (inspect_runtime env now d))" and "rp_kind p \<noteq> RK_Recover"
    and q: "queue_inv (ds_queue d)" and ty: "typed_store (cd_store (ds_cond d))"
  obtains attempts item where "listAttempts (dv_lc (rx_disp env)) (cd_store (ds_cond d)) = Inr attempts"
    "ownerCanAct (ic_lease (inspected env now d attempts))"
    "read_item (ds_queue d) (qi_jobId item) = Inr item" "queueItem_valid item" "repair_of env (inspected env now d attempts) item p"
proof -
  obtain items where items: "list_items (dv_lc (rx_disp env)) (ds_queue d) = Inr items"
    using offer by (cases "list_items (dv_lc (rx_disp env)) (ds_queue d)") (auto simp: inspect_runtime_def Let_def split: option.splits)
  obtain attempts where attempts: "listAttempts (dv_lc (rx_disp env)) (cd_store (ds_cond d)) = Inr attempts"
    using offer items by (cases "listAttempts (dv_lc (rx_disp env)) (cd_store (ds_cond d))") (auto simp: inspect_runtime_def Let_def split: option.splits)
  have "p \<in> set (snd (inspectQueueAttemptRelationships env (inspected env now d attempts) items))"
    using offer items attempts by (auto simp: inspect_runtime_def Let_def inspected_def split: option.splits prod.splits)
  then obtain f where f: "ownerCanAct (ic_lease (inspected env now d attempts))"
      "(f, Some p) \<in> set (relationship_findings env (inspected env now d attempts) items)"
    using related_offers by blast
  have "\<exists>item\<in>set items. repair_of env (inspected env now d attempts) item p"
    using finding_repair [OF f(2)] listed_item [OF items q] listed_job [OF attempts ty] assms(2) by (auto simp: inspected_def)
  then show ?thesis using that [OF attempts f(1)] listed_item [OF items q] by blast
qed

subsection \<open>Repairs go through\<close>

lemma reconcile_succeeds:
  assumes "queue_ok q" and "read_item q (qi_jobId x) = Inr x" and "Suc (qi_revision x) < revision_limit"
    and "queueItem_valid (patched_item now x patch)" and "reconciliation_allowed action x (patched_item now x patch)"
  shows "\<exists>q'. reconcile_item no_failpoint now x patch action q = (Inr (patched_item now x patch), q') \<and>
     read_item q' (qi_jobId x) = Inr (patched_item now x patch)"
proof -
  have chk: "assertQueueReconciliationTransition action x (patched_item now x patch) = Inr ()"
    using assms(5) by (simp add: assertQueueReconciliationTransition_def)
  obtain d where d: "map_of (qs_items q) (qi_jobId x) = Some d" "journal_ok qi_revision d"
      "read_journaled Queue_Item_Kind ''Queue item'' (qi_jobId x) qi_revision d = Inr x"
    using assms(1,2) by (auto simp: read_item_conv queue_ok_def)
  obtain r0 j where c: "commitTransition no_failpoint Queue_Item_Kind (qi_jobId x) (qi_revision x) (patched_item now x patch) d = (r0, j)"
    by fastforce
  have "r0 = Inr ()" using commit_current(1) [OF journal_ok_read [OF d(2,3)] d(3) _ assms(3) c] by simp
  then have "fst (reconcile_item no_failpoint now x patch action q) = Inr (patched_item now x patch)"
    using assms(2,4) chk c d(1) by (simp add: reconcile_item_def commitQueueUpdate_def Let_def on_item_def bindA_def)
  then show ?thesis
    using commitQueueUpdate_Inr [OF assms(1,3), of now patch "assertQueueReconciliationTransition action"]
    by (metis Inl_Inr_False eq_fst_iff reconcile_item_def)
qed

text \<open>The repaired items satisfy the schema and the reconciliation table.\<close>

lemma reset_ok:
  assumes "queueItem_valid i" and "qi_status i \<in> {QQueued, QDispatching}"
  shows "queueItem_valid (patched_item now i reset_patch) \<and> reconciliation_allowed Reset_Abandoned i (patched_item now i reset_patch)"
  using assms by (auto simp: patched_item_def reset_patch_def queueItem_valid_def opt_nonempty_def truthy_def)

lemma quarantine_ok:
  assumes "queueItem_valid i"
  shows "queueItem_valid (patched_item now i quarantine_patch) \<and> reconciliation_allowed Quarantine_Item i (patched_item now i quarantine_patch)"
  using assms by (auto simp: patched_item_def quarantine_patch_def queueItem_valid_def opt_nonempty_def truthy_def)

lemma bind_ok:
  assumes "queueItem_valid i" and "qi_status i = QDispatching" and "d \<noteq> []" and "a \<noteq> []"
  shows "queueItem_valid (patched_item now i (bind_patch d a)) \<and> reconciliation_allowed Bind_To_Attempt i (patched_item now i (bind_patch d a))"
  using assms by (auto simp: patched_item_def bind_patch_def queueItem_valid_def opt_nonempty_def truthy_def)

lemma projection_facts:
  "qp_status (projectQueueCompletion e t) \<in> {QCompleted, QFailed, QNeedsInput, QCancelled}"
  "qp_attemptId (projectQueueCompletion e t) = ac_attemptId e" "qc_attemptId (qp_completion (projectQueueCompletion e t)) = ac_attemptId e"
  by (simp_all add: projectQueueCompletion_def Let_def)

lemma synchronize_ok:
  assumes "queueItem_valid i" and "attemptManifest_valid a"
  shows "queueItem_valid (patched_item now i (completion_patch (projectQueueCompletion (attempt_evidence a c) t))) \<and>
    reconciliation_allowed Synchronize_Terminal i (patched_item now i (completion_patch (projectQueueCompletion (attempt_evidence a c) t)))"
proof -
  let ?p = "projectQueueCompletion (attempt_evidence a c) t"
  have "queueCompletion_valid (qp_completion ?p)" "qp_attemptId ?p \<noteq> []" "opt_nonempty (qp_message ?p)"
    using assms(2) by (auto simp: projectQueueCompletion_def Let_def attempt_evidence_def queueCompletion_valid_def attemptManifest_valid_def
        artifacts_valid_def opt_nonempty_def split: option.splits)
  then show ?thesis using assms(1) projection_facts [of "attempt_evidence a c" t]
    by (auto simp: patched_item_def completion_patch_def queueItem_valid_def opt_nonempty_def truthy_def)
qed

text \<open>The repaired items agree with the attempts.\<close>

lemma listed_unique:
  assumes "typed_store s" and "listAttempts lc s = Inr attempts" and "a \<in> set attempts"
  shows "map_of (rev (map (\<lambda>a. (am_attemptId a, a)) attempts)) (am_attemptId a) = Some a"
proof -
  let ?m = "map_of (rev (map (\<lambda>a. (am_attemptId a, a)) attempts))"
  have "?m (am_attemptId a) \<noteq> None" using assms(3) by (simp add: map_of_eq_None_iff image_image)
  then obtain b where b: "?m (am_attemptId a) = Some b" by blast
  then have "b \<in> set attempts" "am_attemptId b = am_attemptId a" by (auto dest!: map_of_SomeD)
  then have "findAttempt s (am_attemptId a) = Inr b" "findAttempt s (am_attemptId a) = Inr a"
    using listed_found [OF assms(1,2)] assms(3) by metis+
  then show ?thesis using b by simp
qed

lemma bound_after:
  assumes "typed_store s" and "listAttempts lc s = Inr attempts" and "a \<in> set attempts" and "same_dispatch i a"
    and "qi_jobId i' = qi_jobId i" "qi_dispatchOperationId i' = qi_dispatchOperationId i" "qi_attemptId i' = Some (am_attemptId a)"
  shows "bound_attempt attempts i' a"
proof -
  have "am_attemptId a \<noteq> []" using listed_found [OF assms(1-3)] by (simp add: attemptManifest_valid_def)
  then show ?thesis using assms(4-7) listed_unique [OF assms(1-3)] by (simp add: bound_attempt_def same_dispatch_def truthy_def)
qed

lemma cleared_sound: "sound_item attempts cleanup lease (patched_item now i reset_patch)"
  "sound_item attempts cleanup lease (patched_item now i quarantine_patch)"
  by (simp_all add: sound_item_def patched_item_def reset_patch_def quarantine_patch_def truthy_def)

lemma bind_sound:
  assumes "bound_attempt attempts (patched_item now i (bind_patch d n)) a" and "\<not> isAttemptTerminal (am_status a)"
  shows "sound_item attempts cleanup L_ActiveLocal (patched_item now i (bind_patch d n))"
proof -
  have "qi_status (patched_item now i (bind_patch d n)) = QRunning" by (simp add: patched_item_def bind_patch_def)
  then show ?thesis using assms by (auto simp: sound_item_def isLeaseActive_def)
qed

lemma synchronize_matches:
  assumes "qi_status i = qp_status (projectQueueCompletion (attempt_evidence a c) t)" "qi_attemptId i = Some (am_attemptId a)"
    "qi_completion i = Some (qp_completion (projectQueueCompletion (attempt_evidence a c) t))"
  shows "queueMatchesAttempt i a c"
  using assms by (simp add: queueMatchesAttempt_def Let_def projectQueueCompletion_def attempt_evidence_def)

lemma synchronize_sound:
  fixes i a c now t
  defines "i' \<equiv> patched_item now i (completion_patch (projectQueueCompletion (attempt_evidence a c) t))"
  assumes "bound_attempt attempts i' a" and "isAttemptTerminal (am_status a)" and "cleanup a = Some c"
  shows "sound_item attempts cleanup lease i'"
proof -
  have m: "queueMatchesAttempt i' a c"
    by (rule synchronize_matches [of _ _ _ t]) (simp_all add: i'_def patched_item_def completion_patch_def projection_facts attempt_evidence_def)
  have "qi_status i' \<in> {QCompleted, QFailed, QNeedsInput, QCancelled}"
    using projection_facts(1) [of "attempt_evidence a c" t] by (simp add: i'_def patched_item_def completion_patch_def)
  then show ?thesis using assms(2-4) m unfolding sound_item_def by (auto split: queue_status.split)
qed

text \<open>Reading the evidence again and executing the repair.\<close>

definition with_queue :: "queue_store \<Rightarrow> reconcile_state \<Rightarrow> reconcile_state" where
  "with_queue q s = s\<lparr>rc_disp := (rc_disp s)\<lparr>ds_queue := q\<rparr>\<rparr>"

definition repairs ::
  "reconcile_env \<Rightarrow> attempt_manifest list \<Rightarrow> runtime_proposal \<Rightarrow> reconcile_state \<Rightarrow> queue_store \<Rightarrow> bool" where
  "repairs env attempts p s q \<longleftrightarrow> (\<exists>st detail item.
     readRuntimeActionState env p s = (Inr st, s) \<and> ras_evidenceToken st = rp_evidenceToken p \<and>
     executeRuntimeAction env p st s = (Inr (Disposition_Applied, detail), with_queue q s) \<and>
     read_item q (pb_jobId (rp_base p)) = Inr item \<and> sound_item attempts (cleanup_at (rc_disp s)) L_ActiveLocal item)"

lemma q_reconcile_succeeds:
  assumes "queue_ok (ds_queue (rc_disp s))" and "read_item (ds_queue (rc_disp s)) (qi_jobId i) = Inr i"
    and "Suc (qi_revision i) < revision_limit" and "dv_queueFp (rx_disp env) = no_failpoint"
    and "queueItem_valid (patched_item (dnow (rx_disp env)) i patch) \<and> reconciliation_allowed action i (patched_item (dnow (rx_disp env)) i patch)"
  obtains q where "q_reconcile env i patch action s = (Inr (patched_item (dnow (rx_disp env)) i patch), with_queue q s)"
    "read_item q (qi_jobId i) = Inr (patched_item (dnow (rx_disp env)) i patch)"
  using reconcile_succeeds [OF assms(1-3) conjunct1 [OF assms(5)] conjunct2 [OF assms(5)]] assms(4) that
  by (auto simp: q_reconcile_def on_disp_def on_queue_def with_queue_def)

lemma execute_repair:
  assumes q: "queue_ok (ds_queue (rc_disp s))" and ty: "typed_store (cd_store (ds_cond (rc_disp s)))"
    and attempts: "listAttempts lc (cd_store (ds_cond (rc_disp s))) = Inr attempts"
    and item: "read_item (ds_queue (rc_disp s)) (qi_jobId i) = Inr i" "queueItem_valid i" "Suc (qi_revision i) < revision_limit"
    and fp: "dv_queueFp (rx_disp env) = no_failpoint"
    and p: "repair_of env (inspected env now (rc_disp s) attempts) i p" "rp_kind p \<noteq> RK_Recover"
  shows "\<exists>q. repairs env attempts p s q"
proof -
  let ?now = "dnow (rx_disp env)"
  note step = q_reconcile_succeeds [OF q item(1,3) fp]
  have ri: "q_read (qi_jobId i) s = (Inr i, s)" using item(1) by (simp add: q_read_apply stores_def)
  have ra: "a_read (am_attemptId a) s = (Inr a, s)" if "a \<in> set attempts" for a
    using listed_found [OF ty attempts that] by (simp add: a_read_apply stores_def)
  have valid: "attemptManifest_valid a" if "a \<in> set attempts" for a
    using listed_found [OF ty attempts that] by simp
  consider (reset) "p = resetQueueAction env i" "qi_status i \<in> {QQueued, QDispatching}" | (quarantine) "p = quarantineQueueAction env i"
    | (bind) a where "a \<in> set attempts" "same_dispatch i a" "p = bindQueueAction env i a" "qi_status i = QDispatching"
        "truthy (qi_dispatchOperationId i)" "\<not> isAttemptTerminal (am_status a)"
    | (sync) a c where "a \<in> set attempts" "same_dispatch i a" "p = synchronizeQueueAction env i a c" "isAttemptTerminal (am_status a)"
        "cleanup_of (inspected env now (rc_disp s) attempts) a = Some c"
    using p unfolding repair_of_def by (auto simp: inspected_def)
  then show ?thesis
  proof cases
    case reset
    obtain q' where "q_reconcile env i reset_patch Reset_Abandoned s = (Inr (patched_item ?now i reset_patch), with_queue q' s)"
        "read_item q' (qi_jobId i) = Inr (patched_item ?now i reset_patch)"
      using step [OF reset_ok [OF item(2) reset(2)]] .
    then show ?thesis using reset(1) ri cleared_sound(1) unfolding repairs_def
      by (intro exI [of _ q']) (simp add: resetQueueAction_def bindA_Inr action_state_def requiredItem_def liftE_apply)
  next
    case quarantine
    obtain q' where "q_reconcile env i quarantine_patch Quarantine_Item s = (Inr (patched_item ?now i quarantine_patch), with_queue q' s)"
        "read_item q' (qi_jobId i) = Inr (patched_item ?now i quarantine_patch)"
      using step [OF quarantine_ok [OF item(2)]] .
    then show ?thesis using quarantine ri cleared_sound(2) unfolding repairs_def
      by (intro exI [of _ q']) (simp add: quarantineQueueAction_def bindA_Inr action_state_def requiredItem_def liftE_apply)
  next
    case (bind a)
    obtain d where d: "qi_dispatchOperationId i = Some d" "d \<noteq> []" using bind(5) by (auto simp: truthy_def split: option.splits)
    let ?patch = "bind_patch d (am_attemptId a)"
    have ne: "am_attemptId a \<noteq> []" using valid [OF bind(1)] by (simp add: attemptManifest_valid_def)
    obtain q' where "q_reconcile env i ?patch Bind_To_Attempt s = (Inr (patched_item ?now i ?patch), with_queue q' s)"
        "read_item q' (qi_jobId i) = Inr (patched_item ?now i ?patch)"
      using step [OF bind_ok [OF item(2) bind(4) d(2) ne]] .
    moreover have "sound_item attempts (cleanup_at (rc_disp s)) L_ActiveLocal (patched_item ?now i ?patch)"
      by (rule bind_sound [OF bound_after [OF ty attempts bind(1,2)] bind(6)]) (simp_all add: patched_item_def bind_patch_def d)
    ultimately show ?thesis using bind(3) ri ra [OF bind(1)] d(1) unfolding repairs_def
      by (intro exI [of _ q']) (simp add: bindQueueAction_def bindA_Inr action_state_def requiredItem_def liftE_apply)
  next
    case (sync a c)
    let ?patch = "completion_patch (projectQueueCompletion (attempt_evidence a c) ?now)"
    have at: "cleanup_at (rc_disp s) a = Some c"
      using cleanup_of_known [OF sync(1), of "inspected env now (rc_disp s) attempts" "rc_disp s"] sync(5) by (simp add: inspected_def)
    then have rc: "c_read (am_attemptId a) s = (Inr c, s)"
      by (auto simp: cleanup_at_def read_cleanup_def c_read_apply stores_def getAttemptCleanup_def getAttempt_def bindA_def split: sum.splits)
    obtain q' where "q_reconcile env i ?patch Synchronize_Terminal s = (Inr (patched_item ?now i ?patch), with_queue q' s)"
        "read_item q' (qi_jobId i) = Inr (patched_item ?now i ?patch)"
      using step [OF synchronize_ok [OF item(2) valid [OF sync(1)]]] .
    moreover have "sound_item attempts (cleanup_at (rc_disp s)) L_ActiveLocal (patched_item ?now i ?patch)"
      by (rule synchronize_sound, rule bound_after [OF ty attempts sync(1,2)], simp_all only: sync(4) at)
        (simp_all add: patched_item_def completion_patch_def projection_facts attempt_evidence_def)
    ultimately show ?thesis using sync(3,4) ri ra [OF sync(1)] rc unfolding repairs_def
      by (intro exI [of _ q']) (simp add: synchronizeQueueAction_def bindA_Inr action_state_def requiredItem_def requiredAttempt_def
          requiredCleanup_def guardA_def liftE_apply)
  qed
qed

end
