(* ===== verification/Reconcile_Properties.thy ===== *)
theory Reconcile_Properties
  imports Reconcile_Progress
begin

text \<open>
  What reconciliation guarantees: an approved repair takes effect only on the evidence it was proposed
  for and under the dispatcher's lease; an offered repair of a queue item works; and a repair that was
  recorded is never performed again.
\<close>

declare guardA_apply [simp del] liftE_apply [simp del]

subsection \<open>Evidence\<close>

lemma perform_repair:
  assumes "repairs env attempts p s q" and "rx_others env 3 s = s" and "rx_actionFailpoint env p = None"
  shows "\<exists>detail. perform_action env p s = (Inr (Disposition_Applied, detail), with_queue q s)"
  using assms unfolding repairs_def
  by (auto simp: perform_action_def bindA_Inr others_act_def)

lemma read_after_repair:
  assumes "readRuntimeActionState env p s = (Inr st, s)" and "rp_kind p \<noteq> RK_Recover" and "read_item q (pb_jobId (rp_base p)) = Inr item"
  shows "\<exists>st. readRuntimeActionState env p (with_queue q s) = (Inr st, with_queue q s)"
  using assms by (cases p) (auto simp: bindA_def reconcile_reads stores_def with_queue_def split: sum.splits)

lemma record_repair:
  assumes "repairs env attempts p s q" and "rp_kind p \<noteq> RK_Recover"
  shows "\<exists>e t. record_action env op p (Disposition_Applied, detail) (with_queue q s) = (Inr e, t) \<and>
    ve_disposition e = Disposition_Applied \<and> rc_disp t = rc_disp (with_queue q s)"
proof -
  obtain st where "readRuntimeActionState env p (with_queue q s) = (Inr st, with_queue q s)"
    using assms read_after_repair unfolding repairs_def by blast
  then show ?thesis by (simp add: record_action_def bindA_Inr Let_def write_result_def)
qed

lemma release_runs: "\<exists>ls. on_disp (on_leases (releaseLease l)) u = (Inr (), u\<lparr>rc_disp := (rc_disp u)\<lparr>ds_leases := ls\<rparr>\<rparr>)"
proof -
  have "\<exists>ls. releaseLease l (ds_leases (rc_disp u)) = (Inr (), ls)"
    by (simp add: releaseLease_def split: sum.split)
  then show ?thesis by (auto simp: on_disp_def on_leases_def)
qed

lemma repair_of_cong:
  "repair_of env ctx i p \<Longrightarrow> ic_attempts ctx' = ic_attempts ctx \<Longrightarrow> ic_cleanup ctx' = ic_cleanup ctx \<Longrightarrow> repair_of env ctx' i p"
  by (simp add: repair_of_def cleanup_of_def)

lemma repair_job: "repair_of env ctx i p \<Longrightarrow> rp_kind p \<noteq> RK_Recover \<Longrightarrow> pb_jobId (rp_base p) = qi_jobId i"
  by (auto simp: repair_of_def resetQueueAction_def quarantineQueueAction_def bindQueueAction_def synchronizeQueueAction_def)

lemma cleanup_at_cond: "ds_cond d' = ds_cond d \<Longrightarrow> cleanup_at d' = cleanup_at d"
  by (simp add: cleanup_at_def read_cleanup_def fun_eq_iff)

lemma cleanup_map_cond: "ds_cond d' = ds_cond d \<Longrightarrow> cleanup_map d' = cleanup_map d"
  by (simp add: cleanup_map_def read_cleanup_def fun_eq_iff)

lemma repairs_sound:
  assumes "repairs env attempts p u q"
  shows "\<exists>item. read_item q (pb_jobId (rp_base p)) = Inr item \<and> sound_item attempts (cleanup_at (rc_disp u)) L_ActiveLocal item"
  using assms unfolding repairs_def by blast

text \<open>One application by a process that is alone, up to the record of its outcome.\<close>

lemma apply_repairs:
  assumes offer: "Runtime_Action p \<in> set (rr_availableActions (inspect_runtime env now (rc_disp s)))" "rp_kind p \<noteq> RK_Recover"
    and fresh: "map_of (rc_actions s) op = None" and op: "rsha env (rx_actionJson env action) = op"
    and alone: "\<And>n u. rx_others env n u = u" and fp: "rx_actionFailpoint env p = None"
    and lease: "\<And>u. ds_leases (rc_disp u) = ds_leases (rc_disp s) \<Longrightarrow>
        take_lease env op now u = (Inr l, u\<lparr>rc_disp := (rc_disp u)\<lparr>ds_leases := ls\<rparr>\<rparr>)"
    and repair: "\<And>u. rc_disp u = (rc_disp s)\<lparr>ds_leases := ls\<rparr> \<Longrightarrow> \<exists>q. repairs env attempts p u q"
  shows "\<exists>e t item. applyRuntimeAction env action p now s = (Inr e, t) \<and> ve_disposition e = Disposition_Applied \<and>
     ds_cond (rc_disp t) = ds_cond (rc_disp s) \<and>
     read_item (ds_queue (rc_disp t)) (pb_jobId (rp_base p)) = Inr item \<and>
     sound_item attempts (cleanup_at (rc_disp s)) L_ActiveLocal item"
proof -
  obtain s1 where s1: "persistActionIntent op action now s = (Inr (), s1)" "rc_disp s1 = rc_disp s" "read_result op s1 = Inr None"
    using fresh by (simp add: persistActionIntent_def read_result_def)
  let ?u = "s1\<lparr>rc_disp := (rc_disp s)\<lparr>ds_leases := ls\<rparr>\<rparr>"
  obtain q where rep: "repairs env attempts p ?u q" using repair [of ?u] by auto
  obtain item where item: "read_item q (pb_jobId (rp_base p)) = Inr item" "sound_item attempts (cleanup_at (rc_disp ?u)) L_ActiveLocal item"
    using repairs_sound [OF rep] by blast
  obtain detail where perform: "perform_action env p ?u = (Inr (Disposition_Applied, detail), with_queue q ?u)"
    using perform_repair [OF rep alone fp] by blast
  obtain e t where rec: "record_action env op p (Disposition_Applied, detail) (with_queue q ?u) = (Inr e, t)"
      "ve_disposition e = Disposition_Applied" "rc_disp t = rc_disp (with_queue q ?u)"
    using record_repair [OF rep offer(2)] by blast
  obtain ls' where rel: "on_disp (on_leases (releaseLease l)) t = (Inr (), t\<lparr>rc_disp := (rc_disp t)\<lparr>ds_leases := ls'\<rparr>\<rparr>)"
    using release_runs by blast
  have tl: "take_lease env op now s1 = (Inr l, ?u)" using lease [of s1] s1(2) by simp
  have "applyRuntimeAction env action p now s = (Inr e, t\<lparr>rc_disp := (rc_disp t)\<lparr>ds_leases := ls'\<rparr>\<rparr>)"
    using offer(1) by (simp add: applyRuntimeAction_def Let_def op bindA_Inr s1 others_act_def alone getA_def tl finallyA_def perform rec(1) rel)
  moreover have "rc_disp (t\<lparr>rc_disp := (rc_disp t)\<lparr>ds_leases := ls'\<rparr>\<rparr>) = (rc_disp s)\<lparr>ds_queue := q, ds_leases := ls'\<rparr>"
    using rec(3) by (simp add: with_queue_def)
  moreover have "cleanup_at (rc_disp ?u) = cleanup_at (rc_disp s)" by (rule cleanup_at_cond) simp
  ultimately show ?thesis using rec(2) item
    by (intro exI [of _ e] exI [of _ "t\<lparr>rc_disp := (rc_disp t)\<lparr>ds_leases := ls'\<rparr>\<rparr>"] exI [of _ item]) simp
qed

lemma take_lease_granted:
  assumes "ownerCanAct (li_state (inspectLease (dv_lease (rx_disp env)) (rx_leaseMs env) now (ds_leases (rc_disp u))))"
    and "acquireLease 2 (dv_lease (rx_disp env)) (''reconciliation-'' @ take 16 op) (rx_leaseMs env) now (ds_leases (rc_disp u)) = (Inr (Some l), ls)"
  shows "take_lease env op now u = (Inr l, u\<lparr>rc_disp := (rc_disp u)\<lparr>ds_leases := ls\<rparr>\<rparr>)"
  using assms by (auto simp: take_lease_def bindA_def getA_def guardA_def Let_def ownerCanAct_def on_disp_def on_leases_def)

lemma offered_repairs:
  assumes offer: "Runtime_Action p \<in> set (rr_availableActions (inspect_runtime env now (rc_disp s)))" "rp_kind p \<noteq> RK_Recover"
    and reach: "queue_reachable (ds_queue (rc_disp s))" "artifact_reachable (cd_store (ds_cond (rc_disp s)))"
    and room: "\<And>i. read_item (ds_queue (rc_disp s)) (pb_jobId (rp_base p)) = Inr i \<Longrightarrow> Suc (qi_revision i) < revision_limit"
    and lease: "acquireLease 2 (dv_lease (rx_disp env)) (''reconciliation-'' @ take 16 (rsha env (rx_actionJson env action))) (rx_leaseMs env) now
      (ds_leases (rc_disp s)) = (Inr (Some l), ls)"
    and fresh: "map_of (rc_actions s) (rsha env (rx_actionJson env action)) = None"
    and alone: "\<And>n u. rx_others env n u = u" and fp: "dv_queueFp (rx_disp env) = no_failpoint" "rx_actionFailpoint env p = None"
  shows "\<exists>e t attempts item. applyRuntimeAction env action p now s = (Inr e, t) \<and> ve_disposition e = Disposition_Applied \<and>
    listAttempts (dv_lc (rx_disp env)) (cd_store (ds_cond (rc_disp t))) = Inr attempts \<and>
    read_item (ds_queue (rc_disp t)) (pb_jobId (rp_base p)) = Inr item \<and> sound_item attempts (cleanup_at (rc_disp t)) L_ActiveLocal item"
proof -
  have q: "queue_inv (ds_queue (rc_disp s))" using queue_reachable_inv [OF reach(1)] .
  have ok: "queue_ok (ds_queue (rc_disp s))" using q by (simp add: queue_inv_def)
  note ty = reachable_typed [OF reach(2)]
  obtain attempts i where at: "listAttempts (dv_lc (rx_disp env)) (cd_store (ds_cond (rc_disp s))) = Inr attempts"
    and own: "ownerCanAct (ic_lease (inspected env now (rc_disp s) attempts))"
    and i: "read_item (ds_queue (rc_disp s)) (qi_jobId i) = Inr i" "queueItem_valid i"
    and r: "repair_of env (inspected env now (rc_disp s) attempts) i p"
    using offered_repair [OF offer q ty] by blast
  have lim: "Suc (qi_revision i) < revision_limit" using room i(1) repair_job [OF r offer(2)] by simp
  have rep: "\<exists>q'. repairs env attempts p u q'" if u: "rc_disp u = (rc_disp s)\<lparr>ds_leases := ls\<rparr>" for u
    by (rule execute_repair [where now = now and i = i and lc = "dv_lc (rx_disp env)"])
      (use ok ty at i lim fp(1) offer(2) repair_of_cong [OF r] cleanup_map_cond [of "rc_disp u" "rc_disp s"] in
        \<open>simp_all add: u inspected_def\<close>)
  have grant: "take_lease env (rsha env (rx_actionJson env action)) now u = (Inr l, u\<lparr>rc_disp := (rc_disp u)\<lparr>ds_leases := ls\<rparr>\<rparr>)"
    if "ds_leases (rc_disp u) = ds_leases (rc_disp s)" for u
    by (rule take_lease_granted) (use own lease that in \<open>simp_all add: inspected_def\<close>)
  obtain e t item where t: "applyRuntimeAction env action p now s = (Inr e, t)" "ve_disposition e = Disposition_Applied"
      "ds_cond (rc_disp t) = ds_cond (rc_disp s)" "read_item (ds_queue (rc_disp t)) (pb_jobId (rp_base p)) = Inr item"
      "sound_item attempts (cleanup_at (rc_disp s)) L_ActiveLocal item"
    using apply_repairs [OF offer fresh refl alone fp(2) grant rep] by blast
  then show ?thesis using at cleanup_at_cond [OF t(3)] by auto
qed

text \<open>A dispatcher died after it wrote its intent to dispatch and before it reserved an attempt.\<close>

definition reconcile_sample_env :: reconcile_env where
  "reconcile_sample_env = \<lparr>rx_disp = dispatch_env, rx_leaseMs = 30000, rx_root = ''/r'', rx_evidenceId = ''e1'',
     rx_stateJson = (\<lambda>_ _ _ _. ''s''), rx_actionJson = (\<lambda>_. ''a''), rx_actionFailpoint = (\<lambda>_. None), rx_others = (\<lambda>_ u. u)\<rparr>"

definition stranded_state :: reconcile_state where
  "stranded_state = \<lparr>rc_disp = \<lparr>ds_cond = prepared_state\<lparr>cd_store := empty_store ''/r''\<rparr>, ds_queue = dispatched_queue,
     ds_leases = no_lease, ds_lease = None, ds_active = []\<rparr>, rc_actions = []\<rparr>"

definition stranded_item :: queue_item where
  "stranded_item = patched_item 4 sample_item dispatch_patch"

definition sample_repair :: runtime_proposal where
  "sample_repair = resetQueueAction reconcile_sample_env stranded_item"

definition sample_action :: reconciliation_action where
  "sample_action = \<lparr>ra_proposal = Runtime_Action sample_repair, ra_approval = \<lparr>lp_approvedBy = ''owner'', lp_approvedAt = 9, lp_reason = ''crash''\<rparr>\<rparr>"

lemma stranded_item_facts [simp]: "qi_jobId stranded_item = ''job_1''" "qi_status stranded_item = QDispatching"
    "qi_dispatchOperationId stranded_item = Some ''op1''" "qi_attemptId stranded_item = None" "qi_revision stranded_item = 1"
  by (simp_all add: stranded_item_def patched_item_def dispatch_patch_def sample_item_def)

lemma stranded_reachable: "queue_reachable dispatched_queue" "artifact_reachable (empty_store ''/r'')"
  using sample_queue_reachable sample_dispatch_step unfolding queue_reachable_def artifact_reachable_def
  by (meson rtranclp.rtrancl_into_rtrancl rtranclp.rtrancl_refl)+

lemma stranded_read: "read_item dispatched_queue ''job_1'' = Inr stranded_item"
  using queue_items.upd_ok [of sample_queue sample_item "(4, dispatch_patch)" stranded_item dispatched_queue]
    queue_reachable_inv [OF sample_queue_reachable] sample_dispatch
  by (simp add: stranded_item_def queue_inv_def sample_item_def)

lemma stranded_offer:
  "Runtime_Action sample_repair \<in> set (rr_availableActions (inspect_runtime reconcile_sample_env 9 (rc_disp stranded_state)))"
proof -
  have names: "map fst (qs_items dispatched_queue) = [''job_1'']"
    using sample_dispatch [unfolded update_item_def]
  proof (cases rule: commitQueueUpdate_cases)
    case (committed d r0 j)
    then show ?thesis by (simp only: committed(6)) (simp add: sample_queue_eq sample_item_def)
  qed simp
  have "\<not> is_staging ''job_1''" by (auto simp: is_staging_def sublist_def)
  then have items: "list_items default dispatched_queue = Inr [stranded_item]"
    using names stranded_read by (simp add: list_items_def sort_queue_def)
  have attempts: "listAttempts default (empty_store ''/r'') = Inr []"
    by (simp add: listAttempts_def empty_store_def)
  show ?thesis
    by (simp add: inspect_runtime_def Let_def stranded_state_def reconcile_sample_env_def items attempts
        inspectQueueAttemptRelationships_def relationship_findings_def inspect_item_def inspect_dispatching_def
        attempts_by_operation_def truthy_def inspectLease_def no_lease_def cleanup_map_def offer_def offered_def ownerCanAct_def
        sample_repair_def)
qed

lemma sample_repair_facts [simp]: "rp_kind sample_repair = RK_Reset" "pb_jobId (rp_base sample_repair) = ''job_1''"
    "rx_others reconcile_sample_env n u = u" "rx_actionFailpoint reconcile_sample_env p = None"
    "rx_disp reconcile_sample_env = dispatch_env" "rx_actionJson reconcile_sample_env x = ''a''"
  by (simp_all add: sample_repair_def resetQueueAction_def reconcile_sample_env_def)

lemma stranded_facts [simp]: "ds_queue (rc_disp stranded_state) = dispatched_queue" "rc_actions stranded_state = []"
    "cd_store (ds_cond (rc_disp stranded_state)) = empty_store ''/r''" "ds_leases (rc_disp stranded_state) = no_lease"
  by (simp_all add: stranded_state_def)

lemma stranded_lease: "\<exists>l ls. acquireLease 2 (dv_lease (rx_disp reconcile_sample_env)) (''reconciliation-'' @ take 16 op)
    (rx_leaseMs reconcile_sample_env) 9 (ds_leases (rc_disp stranded_state)) = (Inr (Some l), ls)"
  by (simp add: dispatch_env_def reconcile_sample_env_def sample_env_def no_lease_def numeral_2_eq_2 catchA_def bindA_def create_lease_def
      liftE_apply nextLeaseGeneration_def createLease_def Let_def dispatcherLease_valid_def)

lemma stranded_limit: "Suc (Suc 0) < revision_limit"
  by simp

lemma stranded_run: "\<exists>e t. applyRuntimeAction reconcile_sample_env sample_action sample_repair 9 stranded_state = (Inr e, t) \<and>
    stores t \<noteq> stores stranded_state"
proof -
  obtain l ls where l: "acquireLease 2 (dv_lease (rx_disp reconcile_sample_env))
      (''reconciliation-'' @ take 16 (rsha reconcile_sample_env (rx_actionJson reconcile_sample_env sample_action)))
      (rx_leaseMs reconcile_sample_env) 9 (ds_leases (rc_disp stranded_state)) = (Inr (Some l), ls)"
    using stranded_lease by blast
  obtain e t attempts item where t: "applyRuntimeAction reconcile_sample_env sample_action sample_repair 9 stranded_state = (Inr e, t)"
      "read_item (ds_queue (rc_disp t)) ''job_1'' = Inr item" "sound_item attempts (cleanup_at (rc_disp t)) L_ActiveLocal item"
    using offered_repairs [OF stranded_offer _ _ _ _ l] stranded_reachable stranded_read stranded_limit by auto
  have "item \<noteq> stranded_item" using t(3) by (auto simp: sound_item_def)
  then have "ds_queue (rc_disp t) \<noteq> dispatched_queue" using t(2) stranded_read by auto
  then show ?thesis using t(1) by (auto simp: stores_def)
qed



lemma keeps_persistActionIntent: "keeps (\<lambda>u. P (rc_disp u)) (persistActionIntent op action now)"
  by (auto simp: keeps_def persistActionIntent_def split: option.splits doc.splits)

text \<open>A run of \<open>applyRuntimeAction\<close> up to the point where it takes the dispatcher's lease.\<close>

abbreviation leased_repair :: "reconcile_env \<Rightarrow> string \<Rightarrow> runtime_proposal \<Rightarrow> timestamp \<Rightarrow> (reconcile_state, runtime_evidence) act" where
  "leased_repair env op p now \<equiv> bindA (take_lease env op now) (\<lambda>lease.
     finallyA (bindA (others_act env 2) (\<lambda>_. bindA (perform_action env p) (\<lambda>applied. record_action env op p applied)))
       (on_disp (on_leases (releaseLease lease))))"

lemma apply_leads:
  assumes others: "\<And>n. keeps P (others_act env n)"
    and persist: "keeps P (persistActionIntent (rsha env (rx_actionJson env action)) action now)"
    and Q: "\<And>u. P u \<Longrightarrow> Q u"
    and tail: "leads P (leased_repair env (rsha env (rx_actionJson env action)) p now) Q"
  shows "leads P (applyRuntimeAction env action p now) Q"
proof -
  let ?op = "rsha env (rx_actionJson env action)"
  have offer: "keeps P (if c then ret () else not_offered env p)" for c by (intro keeps_rules)
  have "leads P (bindA (others_act env 0) (\<lambda>_. bindA getA (\<lambda>s.
      bindA (if Runtime_Action p \<in> set (rr_availableActions (inspect_runtime env now (rc_disp s))) then ret () else not_offered env p) (\<lambda>_.
      bindA (others_act env 1) (\<lambda>_. leased_repair env ?op p now))))) Q"
    by (intro leads_bindA others keeps_getA offer tail Q)
  then show ?thesis
    unfolding applyRuntimeAction_def Let_def
    by - (rule leads_bindA [OF persist Q], assumption, rule leads_bindA [OF keeps_readsA Q], assumption,
      rule leads_case_option, assumption, rule leads_keeps [OF keeps_ret Q])
qed

lemma finallyA_keeps: "keeps P m \<Longrightarrow> (\<And>x. keeps P (f x)) \<Longrightarrow> (\<And>x. keeps P (g x)) \<Longrightarrow> keeps P (bindA m (\<lambda>x. finallyA (f x) (g x)))"
  by (intro keeps_bindA keeps_finallyA)

lemma take_lease_refused:
  assumes "li_state (inspectLease (dv_lease (rx_disp env)) (rx_leaseMs env) now (ds_leases (rc_disp u))) \<notin> {L_Absent, L_RecoverableDeadLocal}"
  shows "\<exists>e. take_lease env op now u = (Inl e, u)"
  using assms by (simp add: take_lease_def bindA_def getA_def guardA_def Let_def)

lemma read_result_persist:
  assumes "persistActionIntent op action now s = (Inr (), t)"
  shows "read_result op t = read_result op s"
  using assms by (auto simp: persistActionIntent_def read_result_def split: option.splits doc.splits if_splits)

lemma others_keep_stores:
  assumes "\<And>n u. stores (rx_others env n u) = stores u"
  shows "keeps (\<lambda>u. P (stores u)) (others_act env n)"
  using assms by (simp add: keeps_def others_act_def)

lemma persist_keeps_stores: "keeps (\<lambda>u. stores u = S) (persistActionIntent op action now)"
  using keeps_persistActionIntent [of "\<lambda>d. (ds_queue d, cd_store (ds_cond d)) = S"] by (simp add: stores_def)

lemma changed_token:
  assumes run: "applyRuntimeAction env action p now s = (r, t)" and others: "\<And>n u. stores (rx_others env n u) = stores u"
    and changed: "stores t \<noteq> stores s"
  shows "\<exists>cur. fst (readRuntimeActionState env p s) = Inr cur \<and> ras_evidenceToken cur = rp_evidenceToken p"
proof (rule ccontr)
  let ?P = "\<lambda>u. stores u = stores s"
  assume no: "\<not> ?thesis"
  have "keeps ?P (perform_action env p)"
  proof (rule keepsI)
    fix u r' t' assume u: "stores u = stores s" and r': "perform_action env p u = (r', t')"
    have "fst (readRuntimeActionState env p u) = fst (readRuntimeActionState env p s)"
      by (subst readRuntimeActionState_stores [OF u]) simp
    then show "stores t' = stores s" using perform_action_stores [OF others r'] no u by auto
  qed
  then have "keeps ?P (leased_repair env op p now)" for op
    by (intro keeps_bindA keeps_finallyA keeps_take_lease others_keep_stores [OF others] record_action_stores stores_on_leases)
  then have "leads ?P (applyRuntimeAction env action p now) ?P"
    by (intro apply_leads others_keep_stores [OF others] persist_keeps_stores leads_keeps)
  from leadsD [OF this refl run] changed show False by simp
qed

lemma changed_unrecorded:
  assumes run: "applyRuntimeAction env action p now s = (r, t)" and changed: "stores t \<noteq> stores s"
  shows "read_result (rsha env (rx_actionJson env action)) s = Inr None"
proof (rule ccontr)
  let ?op = "rsha env (rx_actionJson env action)"
  assume no: "\<not> ?thesis"
  obtain r1 s1 where p1: "persistActionIntent ?op action now s = (r1, s1)" by fastforce
  have "stores s1 = stores s" using keepsD [OF persist_keeps_stores refl p1] .
  moreover have "t = s1"
    using run p1 no read_result_persist [of ?op action now s s1]
    by (cases r1) (auto simp: applyRuntimeAction_def Let_def bindA_def split: sum.splits option.splits)
  ultimately show False using changed by simp
qed

lemma changed_lease:
  assumes run: "applyRuntimeAction env action p now s = (r, t)" and others: "\<And>n u. stores (rx_others env n u) = stores u"
    and leases: "\<forall>n u. ds_leases (rc_disp (rx_others env n u)) = ds_leases (rc_disp u)" and changed: "stores t \<noteq> stores s"
  shows "li_state (inspectLease (dv_lease (rx_disp env)) (rx_leaseMs env) now (ds_leases (rc_disp s))) \<in> {L_Absent, L_RecoverableDeadLocal}"
proof (rule ccontr)
  let ?op = "rsha env (rx_actionJson env action)"
  let ?P = "\<lambda>u. stores u = stores s"
  let ?R = "\<lambda>u. stores u = stores s \<and> ds_leases (rc_disp u) = ds_leases (rc_disp s)"
  assume busy: "\<not> ?thesis"
  have "leads ?R (leased_repair env ?op p now) ?P"
    unfolding leads_def
  proof (intro allI impI)
    fix u r' t' assume u: "?R u" and r': "leased_repair env ?op p now u = (r', t')"
    obtain e where "take_lease env ?op now u = (Inl e, u)"
      using take_lease_refused [of env now u ?op] busy u by auto
    then show "stores t' = stores s" using r' u by (simp add: bindA_def)
  qed
  moreover have "keeps ?R (others_act env n)" for n
    using others leases by (simp add: keeps_def others_act_def)
  moreover have "keeps ?R (persistActionIntent ?op action now)"
    using keeps_persistActionIntent [of "\<lambda>d. (ds_queue d, cd_store (ds_cond d)) = stores s \<and> ds_leases d = ds_leases (rc_disp s)"]
    by (simp add: stores_def)
  ultimately have "leads ?R (applyRuntimeAction env action p now) ?P" by (intro apply_leads) auto
  from leadsD [OF this _ run] changed show False by simp
qed

text \<open>
  C11. A repair acts only on the evidence the owner approved: whatever other processes do to the lease and to the
  records of repairs meanwhile, an application that changes a queue item or an attempt found the records it is about
  exactly as they were when the repair was proposed, and this repair had no recorded outcome yet; and if nobody else
  touches the lease, the lease was free or its owner proven dead.
\<close>

theorem repair_only_on_evidence:
  assumes run: "applyRuntimeAction env action p now s = (r, t)"
    and others: "\<And>n u. stores (rx_others env n u) = stores u"
    and changed: "stores t \<noteq> stores s"
  shows "(\<exists>cur. readRuntimeActionState env p s = (Inr cur, s) \<and> ras_evidenceToken cur = rp_evidenceToken p) \<and>
    read_result (rsha env (rx_actionJson env action)) s = Inr None \<and>
    ((\<forall>n u. ds_leases (rc_disp (rx_others env n u)) = ds_leases (rc_disp u)) \<longrightarrow>
       li_state (inspectLease (dv_lease (rx_disp env)) (rx_leaseMs env) now (ds_leases (rc_disp s))) \<in> {L_Absent, L_RecoverableDeadLocal})"
  using changed_token [OF run others changed] changed_unrecorded [OF run changed] changed_lease [OF run others _ changed]
    readRuntimeActionState_same [of env p s]
  by (metis prod.collapse)

theorem repair_only_on_evidence_witness:
  "\<exists>cur. readRuntimeActionState reconcile_sample_env sample_repair stranded_state = (Inr cur, stranded_state) \<and>
     ras_evidenceToken cur = rp_evidenceToken sample_repair"
proof -
  obtain e t where "applyRuntimeAction reconcile_sample_env sample_action sample_repair 9 stranded_state = (Inr e, t)"
      "stores t \<noteq> stores stranded_state" using stranded_run by blast
  from repair_only_on_evidence [OF this(1) _ this(2)] show ?thesis by simp
qed

subsection \<open>Replay\<close>

definition intended :: "string \<Rightarrow> reconciliation_action \<Rightarrow> reconcile_state \<Rightarrow> bool" where
  "intended op action u \<longleftrightarrow> (\<exists>d i. map_of (rc_actions u) op = Some d \<and> xd_intent d = Some (Parsed i) \<and>
     ai_operationId i = op \<and> ai_action i = action)"

lemma intended_persist: "persistActionIntent op action now s = (Inr (), t) \<Longrightarrow> intended op action t"
  by (auto simp: persistActionIntent_def intended_def split: option.splits doc.splits if_splits)

lemma persist_intended: "intended op action u \<Longrightarrow> persistActionIntent op action now u = (Inr (), u)"
  by (auto simp: persistActionIntent_def intended_def)

lemma actions_disp_reads:
  "keeps (\<lambda>u. P (rc_actions u)) (q_reconcile env item patch a)" "keeps (\<lambda>u. P (rc_actions u)) (c_read i)"
  unfolding q_reconcile_def c_read_def by (rule actions_on_disp)+

lemma actions_execute: "keeps (\<lambda>u. P (rc_actions u)) (executeRuntimeAction env p st)"
  by (cases p) (simp_all, (intro keeps_rules actions_disp_reads actions_on_disp)+)

lemma intended_actions: "keeps (intended op action) m" if "\<And>P. keeps (\<lambda>u. P (rc_actions u)) m" for m
  using that [of "\<lambda>as. \<exists>d i. map_of as op = Some d \<and> xd_intent d = Some (Parsed i) \<and> ai_operationId i = op \<and> ai_action i = action"]
  by (simp add: intended_def [abs_def])

lemma intended_perform:
  assumes "\<And>n. keeps (intended op action) (others_act env n)"
  shows "keeps (intended op action) (perform_action env p)"
  unfolding perform_action_def
  by (intro keeps_rules assms intended_actions actions_execute)

lemma map_of_write_result:
  "write_result op e u = (r, t) \<Longrightarrow> map_of (rc_actions t) op =
     Some ((case map_of (rc_actions u) op of None \<Rightarrow> \<lparr>xd_intent = None, xd_result = None\<rparr> | Some d \<Rightarrow> d)\<lparr>xd_result := Some (Parsed e)\<rparr>)"
  by (auto simp: write_result_def Let_def update_conv')

lemma intended_write: "intended op action u \<Longrightarrow> write_result op e u = (r, t) \<Longrightarrow> intended op action t \<and> read_result op t = Inr (Some e)"
  using map_of_write_result [of op e u r t] by (auto simp: intended_def read_result_def)

lemma record_action_recorded:
  "yields (intended op action) (record_action env op p applied) (\<lambda>e u. intended op action u \<and> read_result op u = Inr (Some e))"
proof -
  have "yields (intended op action) (bindA (write_result op e) (\<lambda>_. ret e)) (\<lambda>e u. intended op action u \<and> read_result op u = Inr (Some e))" for e
    using intended_write by (fastforce simp: yields_def bindA_def split: prod.splits sum.splits)
  then show ?thesis unfolding record_action_def Let_def
    by - (rule yields_bindA [OF keeps_readState])
qed

text \<open>
  A repair is never performed twice: once an application of an approved action returned its evidence, every later
  application of the same action, by any process at any time, returns the very same evidence and changes nothing.
\<close>

theorem reconciliation_replay:
  assumes run: "applyRuntimeAction env action p now s = (Inr e, t)"
    and op: "rsha env (rx_actionJson env action) = op" and op': "rsha env' (rx_actionJson env' action) = op"
    and others: "\<And>n u. map_of (rc_actions (rx_others env n u)) op = map_of (rc_actions u) op"
  shows "applyRuntimeAction env' action p now' t = (Inr e, t)"
proof -
  let ?I = "intended op action"
  let ?Q = "\<lambda>e u. ?I u \<and> read_result op u = Inr (Some e)"
  have o: "keeps ?I (others_act env n)" for n
    using others by (simp add: keeps_def others_act_def intended_def)
  have release: "keeps (?Q x) (on_disp (on_leases (releaseLease l)))" for x l
    by (simp add: keeps_def intended_def read_result_def on_disp_def split: prod.split)
  have leased: "yields ?I (leased_repair env op p now) ?Q"
    by (intro yields_bindA yields_finallyA release o intended_perform record_action_recorded intended_actions keeps_take_lease(2))
  have offer: "keeps ?I (if c then ret () else not_offered env p)" for c by (intro keeps_rules)
  have body: "yields ?I (bindA (others_act env 0) (\<lambda>_. bindA getA (\<lambda>s.
      bindA (if Runtime_Action p \<in> set (rr_availableActions (inspect_runtime env now (rc_disp s))) then ret () else not_offered env p) (\<lambda>_.
      bindA (others_act env 1) (\<lambda>_. leased_repair env op p now))))) ?Q"
    by (intro yields_bindA o keeps_getA offer leased)
  obtain s1 where s1: "persistActionIntent op action now s = (Inr (), s1)"
    using run by (auto simp: applyRuntimeAction_def Let_def op bindA_eq_Inr)
  note i1 = intended_persist [OF s1]
  have "?Q e t"
  proof (cases "read_result op s1")
    case (Inl x)
    then show ?thesis using run s1 by (simp add: applyRuntimeAction_def Let_def op bindA_def)
  next
    case (Inr res)
    show ?thesis
    proof (cases res)
      case (Some x)
      then show ?thesis using run s1 Inr i1 by (simp add: applyRuntimeAction_def Let_def op bindA_def)
    next
      case None
      show ?thesis
        by (rule yieldsD [OF body i1]) (use run s1 Inr None in \<open>simp add: applyRuntimeAction_def Let_def op bindA_Inr\<close>)
    qed
  qed
  then show ?thesis by (simp add: applyRuntimeAction_def Let_def op' bindA_Inr persist_intended)
qed

theorem reconciliation_replay_witness:
  "\<exists>e t. applyRuntimeAction reconcile_sample_env sample_action sample_repair 9 stranded_state = (Inr e, t) \<and>
     applyRuntimeAction (reconcile_sample_env\<lparr>rx_evidenceId := ''e2''\<rparr>) sample_action sample_repair 20 t = (Inr e, t)"
proof -
  obtain e t where run: "applyRuntimeAction reconcile_sample_env sample_action sample_repair 9 stranded_state = (Inr e, t)"
    using stranded_run by blast
  have "applyRuntimeAction (reconcile_sample_env\<lparr>rx_evidenceId := ''e2''\<rparr>) sample_action sample_repair 20 t = (Inr e, t)"
    by (rule reconciliation_replay [OF run refl]) (simp_all add: rsha_def reconcile_sample_env_def)
  then show ?thesis using run by blast
qed

end
