(* ===== verification/Retention.thy ===== *)
theory Retention
  imports Reconcile Commands Budget
begin

text \<open>
  Retention (\<open>src/src/retention/gc.ts\<close>): attempts are classified by status, cleanup, review disposition
  and age; a dry run binds what may be removed to revisions and digests; an approved plan is checked
  against both again and removes exactly the files it lists.

  \<open>gs_fs\<close> holds the bytes on disk by absolute path; the records of the stores keep their own component,
  and the digests of their files are those of the bytes in \<open>gs_fs\<close>. What the operating system says of a
  work tree is \<open>gv_exists\<close> and \<open>gv_worktree\<close>; \<open>gv_bodyJson\<close> is the canonical JSON text of a plan
  without its fingerprint; \<open>gv_iso\<close> prints a time stamp. Paths are POSIX paths. One call runs alone.
\<close>

subsection \<open>Plans and approvals\<close>

datatype retention_class = Class_Active | Class_Reviewable | Class_Retained | Class_Quarantine | Class_Expired

record gc_file =
  gf_relativePath :: string
  gf_bytes :: nat
  gf_sha256 :: string

definition gcFile_valid :: "gc_file \<Rightarrow> bool" where
  "gcFile_valid f \<longleftrightarrow> gf_relativePath f \<noteq> [] \<and> is_hex64 (gf_sha256 f)"

datatype candidate_kind = Workspace_Candidate | Artifacts_Candidate

record gc_candidate =
  gc_kind :: candidate_kind
  gc_jobId :: string
  gc_attemptId :: string
  gc_reason :: string
  gc_estimatedBytes :: nat
  gc_manifestRevision :: nat
  gc_manifestSha256 :: string
  gc_cleanupRevision :: nat
  gc_cleanupSha256 :: string
  gc_files :: "gc_file list"

definition gcCandidate_valid :: "gc_candidate \<Rightarrow> bool" where
  "gcCandidate_valid c \<longleftrightarrow> gc_jobId c \<noteq> [] \<and> gc_attemptId c \<noteq> [] \<and> gc_reason c \<noteq> [] \<and>
     is_hex64 (gc_manifestSha256 c) \<and> is_hex64 (gc_cleanupSha256 c) \<and> list_all gcFile_valid (gc_files c)"

record gc_observation =
  go_jobId :: string
  go_attemptId :: string
  go_retentionClass :: retention_class
  go_detail :: string

definition gcObservation_valid :: "gc_observation \<Rightarrow> bool" where
  "gcObservation_valid b \<longleftrightarrow> go_jobId b \<noteq> [] \<and> go_attemptId b \<noteq> [] \<and> go_detail b \<noteq> []"

record gc_body =
  gp_planId :: string
  gp_generatedAt :: timestamp
  gp_expiresAt :: timestamp
  gp_dataRoot :: string
  gp_observations :: "gc_observation list"
  gp_candidates :: "gc_candidate list"
  gp_totalEstimatedBytes :: nat

record gc_plan = gc_body +
  gp_planFingerprint :: string

definition gcPlan_valid :: "gc_plan \<Rightarrow> bool" where
  "gcPlan_valid p \<longleftrightarrow> gp_dataRoot p \<noteq> [] \<and> list_all gcObservation_valid (gp_observations p) \<and>
     list_all gcCandidate_valid (gp_candidates p) \<and> is_hex64 (gp_planFingerprint p)"

record gc_approval =
  ga_approvedBy :: string
  ga_approvedAt :: timestamp
  ga_reason :: string

definition gcApproval_valid :: "gc_approval \<Rightarrow> bool" where
  "gcApproval_valid a \<longleftrightarrow> ga_approvedBy a \<noteq> [] \<and> ga_reason a \<noteq> []"

subsection \<open>State and environment\<close>

datatype fs_node = File_Node string | Dir_Node | Other_Node

record removed_entry =
  rm_kind :: candidate_kind
  rm_attemptId :: string
  rm_bytes :: nat

record gc_result =
  gr_planId :: string
  gr_removed :: "removed_entry list"
  gr_totalRemovedBytes :: nat
  gr_completedAt :: timestamp

datatype action_status = Gc_Approved | Gc_Failed "removed_entry list" string | Gc_Completed gc_result

record gc_action =
  gx_plan :: gc_plan
  gx_approval :: gc_approval
  gx_status :: action_status
  gx_recordedAt :: timestamp

record gc_tombstone =
  gt_planId :: string
  gt_planFingerprint :: string
  gt_removedAt :: timestamp
  gt_removedFiles :: "gc_file list"

text \<open>The files of \<open>gc/actions\<close> (None when the directory is missing); None for what is not a regular file.\<close>

record gc_state =
  gs_cond :: conductor_state
  gs_fs :: "(string \<times> fs_node) list"
  gs_actions :: "(string \<times> gc_action doc option) list option"
  gs_tombstones :: "(string \<times> gc_tombstone) list"

record gc_env =
  gv_cond :: conductor_env
  gv_planId :: string
  gv_bodyJson :: "gc_body \<Rightarrow> string"
  gv_iso :: "timestamp \<Rightarrow> string"
  gv_exists :: "string \<Rightarrow> err + bool"
  gv_worktree :: "string \<Rightarrow> listing"
  gv_cwd :: string

abbreviation gs_store :: "gc_state \<Rightarrow> artifact_store" where
  "gs_store s \<equiv> cd_store (gs_cond s)"

subsection \<open>Files\<close>

definition sha256File :: "gc_env \<Rightarrow> (string \<times> fs_node) list \<Rightarrow> string \<Rightarrow> err + string" where
  "sha256File env fs p =
     (case map_of fs p of
        None \<Rightarrow> Inl (NodeError ''ENOENT'')
      | Some (File_Node content) \<Rightarrow> Inr (cv_sha256 (gv_cond env) content)
      | Some Dir_Node \<Rightarrow> Inl (NodeError ''EISDIR'')
      | Some Other_Node \<Rightarrow> Inl (NodeError ''EINVAL''))"

definition stat_size :: "(string \<times> fs_node) list \<Rightarrow> string \<Rightarrow> err + nat" where
  "stat_size fs p =
     (case map_of fs p of
        None \<Rightarrow> Inl (NodeError ''ENOENT'')
      | Some (File_Node content) \<Rightarrow> Inr (length content)
      | Some _ \<Rightarrow> Inr 0)"

definition child_name :: "string \<Rightarrow> string \<Rightarrow> string option" where
  "child_name dir p =
     (let name = drop (Suc (length dir)) p in
      if prefix (dir @ ''/'') p \<and> name \<noteq> [] \<and> CHR ''/'' \<notin> set name then Some name else None)"

definition readdir :: "(string \<times> fs_node) list \<Rightarrow> string \<Rightarrow> err + (string \<times> fs_node) list" where
  "readdir fs dir =
     (if map_of fs dir \<noteq> Some Dir_Node then Inl (NodeError ''ENOENT'')
      else Inr (List.map_filter (\<lambda>p. case child_name dir p of
          None \<Rightarrow> None
        | Some name \<Rightarrow> map_option (\<lambda>node. (name, node)) (map_of fs p)) (remdups (map fst fs))))"

text \<open>\<open>directoryBytes\<close>: the stack has its top first; any failing \<open>readdir\<close> or \<open>stat\<close> ends the walk.\<close>

fun scan_bytes :: "dir_entry list \<Rightarrow> nat \<Rightarrow> listing list \<Rightarrow> err + (nat \<times> listing list)" where
  "scan_bytes [] tot pending = Inr (tot, pending)"
| "scan_bytes (entry # entries) tot pending =
     (case entry of
        Dir_Entry d \<Rightarrow> scan_bytes entries tot (d # pending)
      | File_Entry (Inl e) \<Rightarrow> Inl e
      | File_Entry (Inr n) \<Rightarrow> scan_bytes entries (tot + n) pending
      | Other_Entry \<Rightarrow> scan_bytes entries tot pending)"

lemma scan_bytes_weight:
  "scan_bytes entries tot pending = Inr (t, p) \<Longrightarrow> pending_weight p \<le> pending_weight pending + sum_list (map weight entries)"
  by (induction entries tot pending rule: scan_bytes.induct)
    (fastforce simp: pending_weight_def split: dir_entry.splits sum.splits)+

function walk_bytes :: "listing list \<Rightarrow> nat \<Rightarrow> err + nat" where
  "walk_bytes [] tot = Inr tot"
| "walk_bytes (current # pending) tot =
     (case current of
        Inl e \<Rightarrow> Inl e
      | Inr entries \<Rightarrow>
          (case scan_bytes entries tot pending of
             Inl e \<Rightarrow> Inl e
           | Inr (tot', pending') \<Rightarrow> walk_bytes pending' tot'))"
  by pat_completeness auto
termination
proof (relation "measure (\<lambda>(pending, t). pending_weight pending)", goal_cases)
  case (2 current pending tot entries p tot' pending')
  then show ?case using scan_bytes_weight [of entries tot pending tot' pending']
    by (simp add: pending_weight_def)
qed auto

definition directoryBytes :: "listing \<Rightarrow> err + nat" where
  "directoryBytes d = walk_bytes [d] 0"

definition resolveBoundFile :: "string \<Rightarrow> string \<Rightarrow> err + string" where
  "resolveBoundFile dir relativePath =
     (let target = posix_resolve dir relativePath; rel = posix_relative dir target in
      if rel = [] \<or> prefix ''..'' rel \<or> posix_isAbsolute rel
      then Inl (Error (''Unsafe GC artifact path: '' @ relativePath)) else Inr target)"

definition retainedFiles :: "string list" where
  "retainedFiles = [''attempt.json'', ''cleanup.json'', ''verification.json'', ''gc-tombstone.json'']"

fun prunable :: "(string \<times> fs_node) \<Rightarrow> bool" where
  "prunable (name, File_Node _) = (name \<notin> set retainedFiles)"
| "prunable (name, _) = False"

fun bind_files :: "gc_env \<Rightarrow> (string \<times> fs_node) list \<Rightarrow> string \<Rightarrow> (string \<times> fs_node) list \<Rightarrow> err + gc_file list" where
  "bind_files env fs dir [] = Inr []"
| "bind_files env fs dir ((name, node) # rest) =
     (if \<not> prunable (name, node) then bind_files env fs dir rest
      else case (stat_size fs (path_join dir name), sha256File env fs (path_join dir name)) of
        (Inl e, _) \<Rightarrow> Inl e
      | (_, Inl e) \<Rightarrow> Inl e
      | (Inr n, Inr sha) \<Rightarrow>
          (case bind_files env fs dir rest of
             Inl e \<Rightarrow> Inl e
           | Inr files \<Rightarrow> Inr (\<lparr>gf_relativePath = name, gf_bytes = n, gf_sha256 = sha\<rparr> # files)))"

definition collectPrunableFiles :: "gc_env \<Rightarrow> (string \<times> fs_node) list \<Rightarrow> string \<Rightarrow> err + gc_file list" where
  "collectPrunableFiles env fs dir =
     (case readdir fs dir of
        Inl e \<Rightarrow> Inl e
      | Inr entries \<Rightarrow>
          (case bind_files env fs dir entries of
             Inl e \<Rightarrow> Inl e
           | Inr files \<Rightarrow> Inr (Sorting_Algorithms.sort (key gf_relativePath (cv_lc (gv_cond env))) files)))"

subsection \<open>Classification\<close>

text \<open>\<open>new Date(ms).toISOString()\<close> fails outside the range of dates.\<close>

definition iso_text :: "gc_env \<Rightarrow> timestamp \<Rightarrow> err + string" where
  "iso_text env t = (if \<bar>t\<bar> \<le> 8640000000000000 then Inr (gv_iso env t) else Inl (Error ''Invalid time value''))"

definition reviewed :: "review_disposition \<Rightarrow> bool" where
  "reviewed d = (d \<in> set [Review_Accepted, Review_Rejected, Review_Superseded])"

text \<open>A missing \<open>finishedAt\<close> is an infinite time: never expired, but not printable either.\<close>

definition classifyRetention ::
  "gc_env \<Rightarrow> attempt_manifest \<Rightarrow> cleanup_status \<Rightarrow> job_contract \<Rightarrow> timestamp \<Rightarrow> err + (retention_class \<times> string)" where
  "classifyRetention env manifest cleanupStatus contract now =
     (if \<not> isAttemptTerminal (am_status manifest)
      then Inr (Class_Active, ''Attempt is '' @ attempt_status_name (am_status manifest))
      else if cleanupStatus \<notin> {C_NotRequired, C_Proven}
      then Inr (Class_Quarantine, ''Cleanup evidence is '' @ cleanup_status_name cleanupStatus)
      else if am_status manifest = ACompleted \<and> am_verificationStatus manifest = V_Eligible \<and> \<not> reviewed (am_reviewDisposition manifest)
      then Inr (Class_Reviewable, ''Eligible proposal has no authoritative review disposition'')
      else
        let retentionMs = (if reviewed (am_reviewDisposition manifest) then rl_reviewedRetentionMs (jc_resources contract)
              else rl_terminalRetentionMs (jc_resources contract)) in
        (case am_finishedAt manifest of
           None \<Rightarrow> Inl (Error ''Invalid time value'')
         | Some finishedAt \<Rightarrow>
             let expiresAt = finishedAt + retentionMs in
             (case iso_text env expiresAt of
                Inl e \<Rightarrow> Inl e
              | Inr t \<Rightarrow> if expiresAt \<le> now then Inr (Class_Expired, ''Terminal evidence expired at '' @ t)
                  else Inr (Class_Retained, ''Terminal evidence retained until '' @ t))))"

subsection \<open>The dry run\<close>

definition attempt_root :: "artifact_store \<Rightarrow> string \<Rightarrow> string \<Rightarrow> err + string" where
  "attempt_root s jobId attemptId =
     (case safeSegment jobId of
        Inl e \<Rightarrow> Inl e
      | Inr j \<Rightarrow> (case safeSegment attemptId of Inl e \<Rightarrow> Inl e | Inr a \<Rightarrow> Inr (attemptDirectory s j a)))"

definition attemptCleanupPath :: "artifact_store \<Rightarrow> string \<Rightarrow> string \<Rightarrow> err + string" where
  "attemptCleanupPath s jobId attemptId = map_sum id (\<lambda>d. path_join d ''cleanup.json'') (attempt_root s jobId attemptId)"

definition cleanup_sha256 :: "gc_env \<Rightarrow> gc_state \<Rightarrow> attempt_manifest \<Rightarrow> err + string" where
  "cleanup_sha256 env s m =
     (case (case ar_cleanup (am_artifacts m) of Some p \<Rightarrow> Inr p | None \<Rightarrow> attemptCleanupPath (gs_store s) (am_jobId m) (am_attemptId m)) of
        Inl e \<Rightarrow> Inl e | Inr p \<Rightarrow> sha256File env (gs_fs s) p)"

definition workspace_open :: "attempt_manifest \<Rightarrow> attempt_cleanup_record \<Rightarrow> bool" where
  "workspace_open m c \<longleftrightarrow> (case am_workspace m of None \<Rightarrow> False | Some w \<Rightarrow> ws_retained w) \<and>
     map_option ce_status (latestCleanupEvidence c worktree_subject) \<noteq> Some EProven"

definition ws_path_of :: "attempt_manifest \<Rightarrow> string" where
  "ws_path_of m = (case am_workspace m of None \<Rightarrow> [] | Some w \<Rightarrow> ws_path w)"

text \<open>An expired attempt: its work tree first, then its files; what stays is quarantined or left alone.\<close>

definition expired_candidate ::
  "gc_env \<Rightarrow> gc_state \<Rightarrow> attempt_manifest \<Rightarrow> attempt_cleanup_record \<Rightarrow> string \<Rightarrow> err + (gc_observation option \<times> gc_candidate option)" where
  "expired_candidate env s m c detail =
     (case sha256File env (gs_fs s) (ar_manifest (am_artifacts m)) of
        Inl e \<Rightarrow> Inl e
      | Inr msha \<Rightarrow>
     (case cleanup_sha256 env s m of
        Inl e \<Rightarrow> Inl e
      | Inr csha \<Rightarrow>
          let candidate = (\<lambda>kind reason bytes files. \<lparr>gc_kind = kind, gc_jobId = am_jobId m, gc_attemptId = am_attemptId m,
                gc_reason = reason, gc_estimatedBytes = bytes, gc_manifestRevision = am_revision m, gc_manifestSha256 = msha,
                gc_cleanupRevision = cr_revision c, gc_cleanupSha256 = csha, gc_files = files\<rparr>) in
          case (if workspace_open m c then gv_exists env (ws_path_of m) else Inr False) of
            Inl e \<Rightarrow> Inl e
          | Inr True \<Rightarrow>
              (case directoryBytes (gv_worktree env (ws_path_of m)) of
                 Inl e \<Rightarrow> Inl e
               | Inr n \<Rightarrow> Inr (None, Some (candidate Workspace_Candidate
                   (detail @ ''; retained worktree must be removed before artifacts'') n [])))
          | Inr False \<Rightarrow>
              if workspace_open m c
              then Inr (Some \<lparr>go_jobId = am_jobId m, go_attemptId = am_attemptId m, go_retentionClass = Class_Quarantine,
                go_detail = ''Workspace is absent without positive cleanup evidence''\<rparr>, None)
              else
                (case bindE (attempt_root (gs_store s) (am_jobId m) (am_attemptId m)) (collectPrunableFiles env (gs_fs s)) of
                   Inl e \<Rightarrow> Inl e
                 | Inr files \<Rightarrow> Inr (None, if files = [] then None
                     else Some (candidate Artifacts_Candidate detail (sum_list (map gf_bytes files)) files)))))"

definition read_retention ::
  "gc_env \<Rightarrow> gc_state \<Rightarrow> attempt_manifest \<Rightarrow> err + (job_contract \<times> attempt_cleanup_record)" where
  "read_retention env s m =
     (case readJob (cv_sha256 (gv_cond env)) (cv_lc (gv_cond env)) (gs_store s) (am_jobId m) of
        Inl e \<Rightarrow> Inl e
      | Inr contract \<Rightarrow>
          (case fst (getAttemptCleanup (am_attemptId m) (gs_cond s)) of Inl e \<Rightarrow> Inl e | Inr c \<Rightarrow> Inr (contract, c)))"

definition observe_attempt ::
  "gc_env \<Rightarrow> gc_state \<Rightarrow> timestamp \<Rightarrow> attempt_manifest \<Rightarrow> err + (gc_observation \<times> gc_candidate option)" where
  "observe_attempt env s now m =
     (let observation = (\<lambda>cls detail. \<lparr>go_jobId = am_jobId m, go_attemptId = am_attemptId m, go_retentionClass = cls, go_detail = detail\<rparr>) in
      case read_retention env s m of
        Inl e \<Rightarrow> Inr (observation Class_Quarantine (''Retention evidence is unreadable: '' @ errorMessage e), None)
      | Inr (contract, c) \<Rightarrow>
          (case classifyRetention env m (cr_status c) contract now of
             Inl e \<Rightarrow> Inl e
           | Inr (cls, detail) \<Rightarrow>
               if cls \<noteq> Class_Expired then Inr (observation cls detail, None)
               else (case expired_candidate env s m c detail of
                   Inl e \<Rightarrow> Inl e
                 | Inr (replaced, candidate) \<Rightarrow>
                     Inr (case replaced of None \<Rightarrow> observation cls detail | Some ob \<Rightarrow> ob, candidate))))"

definition default_ttl :: int where
  "default_ttl = 15 * 60 * 1000"

definition attempt_ttl :: "gc_env \<Rightarrow> gc_state \<Rightarrow> attempt_manifest \<Rightarrow> int" where
  "attempt_ttl env s m =
     (case readJob (cv_sha256 (gv_cond env)) (cv_lc (gv_cond env)) (gs_store s) (am_jobId m) of
        Inl _ \<Rightarrow> default_ttl | Inr contract \<Rightarrow> rl_gcProposalTtlMs (jc_resources contract))"

definition minimumGcTtl :: "gc_env \<Rightarrow> gc_state \<Rightarrow> attempt_manifest list \<Rightarrow> int" where
  "minimumGcTtl env s attempts =
     (case attempts of [] \<Rightarrow> default_ttl | m # ms \<Rightarrow> foldl (\<lambda>ttl a. min ttl (attempt_ttl env s a)) (attempt_ttl env s m) ms)"

definition planFingerprint :: "gc_env \<Rightarrow> gc_body \<Rightarrow> string" where
  "planFingerprint env body = cv_sha256 (gv_cond env) (gv_bodyJson env body)"

definition gc_plan_of :: "gc_env \<Rightarrow> timestamp \<Rightarrow> gc_state \<Rightarrow> attempt_manifest list \<Rightarrow> (gc_observation \<times> gc_candidate option) list \<Rightarrow> gc_plan" where
  "gc_plan_of env now s attempts seen =
     (let body = \<lparr>gp_planId = gv_planId env, gp_generatedAt = now, gp_expiresAt = now + minimumGcTtl env s attempts,
        gp_dataRoot = as_root (gs_store s), gp_observations = map fst seen, gp_candidates = List.map_filter snd seen,
        gp_totalEstimatedBytes = sum_list (map gc_estimatedBytes (List.map_filter snd seen))\<rparr>
      in gc_body.extend body \<lparr>gp_planFingerprint = planFingerprint env body\<rparr>)"

definition dryRun :: "gc_env \<Rightarrow> timestamp \<Rightarrow> gc_state \<Rightarrow> err + gc_plan" where
  "dryRun env now s =
     (case listAttempts (cv_lc (gv_cond env)) (gs_store s) of
        Inl e \<Rightarrow> Inl e
      | Inr attempts \<Rightarrow>
          (case read_all (observe_attempt env s now) attempts of
             Inl e \<Rightarrow> Inl e
           | Inr seen \<Rightarrow>
               let plan = gc_plan_of env now s attempts seen in
               case iso_text env (gp_expiresAt plan) of
                 Inl e \<Rightarrow> Inl e
               | Inr _ \<Rightarrow> if gcPlan_valid plan then Inr plan else Inl ZodError))"

subsection \<open>Applying a plan\<close>

definition assertPlanIntegrity :: "gc_env \<Rightarrow> gc_plan \<Rightarrow> string \<Rightarrow> timestamp \<Rightarrow> err + unit" where
  "assertPlanIntegrity env plan dataRoot now =
     (if planFingerprint env (gc_body.truncate plan) \<noteq> gp_planFingerprint plan
      then Inl (Error ''GC plan fingerprint is invalid'')
      else if posix_resolve (gv_cwd env) (gp_dataRoot plan) \<noteq> posix_resolve (gv_cwd env) dataRoot
      then Inl (Error ''GC plan belongs to another data root'')
      else if gp_expiresAt plan < now then Inl (Error ''GC plan has expired; run a new dry-run'')
      else Inr ())"

definition assertApproval :: "gc_plan \<Rightarrow> gc_approval \<Rightarrow> timestamp \<Rightarrow> err + unit" where
  "assertApproval plan approval now =
     (if ga_approvedAt approval < gp_generatedAt plan \<or> gp_expiresAt plan < ga_approvedAt approval \<or> now + 5000 < ga_approvedAt approval
      then Inl (Error ''GC approval is outside the plan's validity window'') else Inr ())"

fun revalidate_files :: "gc_env \<Rightarrow> gc_state \<Rightarrow> gc_candidate \<Rightarrow> string \<Rightarrow> gc_file list \<Rightarrow> err + unit" where
  "revalidate_files env s c dir [] = Inr ()"
| "revalidate_files env s c dir (f # fs) =
     (case resolveBoundFile dir (gf_relativePath f) of
        Inl e \<Rightarrow> Inl e
      | Inr target \<Rightarrow>
     (case stat_size (gs_fs s) target of
        Inl e \<Rightarrow> Inl e
      | Inr n \<Rightarrow>
          let changed = Inl (Error (''GC artifact binding changed: '' @ gc_attemptId c @ ''/'' @ gf_relativePath f)) in
          if n \<noteq> gf_bytes f then changed
          else (case sha256File env (gs_fs s) target of
              Inl e \<Rightarrow> Inl e
            | Inr sha \<Rightarrow> if sha \<noteq> gf_sha256 f then changed else revalidate_files env s c dir fs)))"

definition revalidate_candidate :: "gc_env \<Rightarrow> gc_state \<Rightarrow> gc_candidate \<Rightarrow> err + unit" where
  "revalidate_candidate env s c =
     (let stale = Inl (Error (''GC plan is stale for '' @ gc_attemptId c)) in
      case findAttempt (gs_store s) (gc_attemptId c) of
        Inl e \<Rightarrow> Inl e
      | Inr m \<Rightarrow>
     (case fst (getAttemptCleanup (gc_attemptId c) (gs_cond s)) of
        Inl e \<Rightarrow> Inl e
      | Inr cleanup \<Rightarrow>
          if am_revision m \<noteq> gc_manifestRevision c \<or> cr_revision cleanup \<noteq> gc_cleanupRevision c then stale
          else (case sha256File env (gs_fs s) (ar_manifest (am_artifacts m)) of
              Inl e \<Rightarrow> Inl e
            | Inr msha \<Rightarrow>
                if msha \<noteq> gc_manifestSha256 c then stale
                else (case cleanup_sha256 env s m of
                    Inl e \<Rightarrow> Inl e
                  | Inr csha \<Rightarrow>
                      if csha \<noteq> gc_cleanupSha256 c then stale
                      else if gc_kind c = Workspace_Candidate then
                        (case (case am_workspace m of None \<Rightarrow> Inr False | Some w \<Rightarrow> gv_exists env (ws_path w)) of
                           Inl e \<Rightarrow> Inl e
                         | Inr b \<Rightarrow> if \<not> b then Inl (Error (''GC workspace target changed for '' @ gc_attemptId c)) else Inr ())
                      else bindE (attempt_root (gs_store s) (gc_jobId c) (gc_attemptId c))
                        (\<lambda>dir. revalidate_files env s c dir (gc_files c))))))"

fun revalidate :: "gc_env \<Rightarrow> gc_state \<Rightarrow> gc_candidate list \<Rightarrow> err + unit" where
  "revalidate env s [] = Inr ()"
| "revalidate env s (c # cs) = (case revalidate_candidate env s c of Inl e \<Rightarrow> Inl e | Inr _ \<Rightarrow> revalidate env s cs)"

definition write_action :: "string \<Rightarrow> gc_action \<Rightarrow> (gc_state, unit) act" where
  "write_action planId a s =
     (Inr (), s\<lparr>gs_actions := Some (AList.update (planId @ ''.json'') (Some (Parsed a))
       (case gs_actions s of None \<Rightarrow> [] | Some as \<Rightarrow> as))\<rparr>)"

text \<open>\<open>rm(target)\<close> without \<open>recursive\<close> or \<open>force\<close>.\<close>

definition rm_file :: "string \<Rightarrow> (gc_state, unit) act" where
  "rm_file target s =
     (case map_of (gs_fs s) target of
        None \<Rightarrow> (Inl (NodeError ''ENOENT''), s)
      | Some Dir_Node \<Rightarrow> (Inl (NodeError ''ERR_FS_EISDIR''), s)
      | Some _ \<Rightarrow> (Inr (), s\<lparr>gs_fs := filter (\<lambda>e. fst e \<noteq> target) (gs_fs s)\<rparr>))"

definition remove_files :: "string \<Rightarrow> gc_file list \<Rightarrow> (gc_state, unit) act" where
  "remove_files dir = forA (\<lambda>f. bindA (liftE (resolveBoundFile dir (gf_relativePath f))) rm_file)"

definition on_gc_cond :: "(conductor_state, 'a) act \<Rightarrow> (gc_state, 'a) act" where
  "on_gc_cond m s = (case m (gs_cond s) of (r, c) \<Rightarrow> (r, s\<lparr>gs_cond := c\<rparr>))"

definition write_tombstone :: "gc_plan \<Rightarrow> timestamp \<Rightarrow> string \<Rightarrow> gc_candidate \<Rightarrow> (gc_state, unit) act" where
  "write_tombstone plan now dir c s =
     (Inr (), s\<lparr>gs_tombstones := AList.update (path_join dir ''gc-tombstone.json'')
        \<lparr>gt_planId = gp_planId plan, gt_planFingerprint = gp_planFingerprint plan, gt_removedAt = now, gt_removedFiles = gc_files c\<rparr>
        (gs_tombstones s)\<rparr>)"

text \<open>\<open>st\<close> is the store the manager was made with: its root is read-only.\<close>

definition remove_candidate ::
  "gc_env \<Rightarrow> artifact_store \<Rightarrow> gc_plan \<Rightarrow> timestamp \<Rightarrow> gc_candidate \<Rightarrow> (gc_state, unit) act" where
  "remove_candidate env st plan now c =
     (if gc_kind c = Workspace_Candidate
      then bindA (on_gc_cond (removeAttemptWorkspace (gv_cond env) (gc_attemptId c))) (\<lambda>_. ret ())
      else
        bindA (liftE (attempt_root st (gc_jobId c) (gc_attemptId c))) (\<lambda>dir.
        bindA (remove_files dir (gc_files c)) (\<lambda>_.
        write_tombstone plan now dir c)))"

definition entry_of :: "gc_candidate \<Rightarrow> removed_entry" where
  "entry_of c = \<lparr>rm_kind = gc_kind c, rm_attemptId = gc_attemptId c, rm_bytes = gc_estimatedBytes c\<rparr>"

text \<open>The loop with what it removed so far, which the catch needs.\<close>

fun remove_candidates ::
  "gc_env \<Rightarrow> artifact_store \<Rightarrow> gc_plan \<Rightarrow> timestamp \<Rightarrow> gc_candidate list \<Rightarrow> removed_entry list \<Rightarrow> gc_state \<Rightarrow>
   (err option \<times> removed_entry list) \<times> gc_state" where
  "remove_candidates env st plan now [] removed s = ((None, removed), s)"
| "remove_candidates env st plan now (c # cs) removed s =
     (case remove_candidate env st plan now c s of
        (Inl e, t) \<Rightarrow> ((Some e, removed), t)
      | (Inr _, t) \<Rightarrow> remove_candidates env st plan now cs (removed @ [entry_of c]) t)"

definition gc_apply :: "gc_env \<Rightarrow> gc_plan \<Rightarrow> gc_approval \<Rightarrow> timestamp \<Rightarrow> (gc_state, gc_result) act" where
  "gc_apply env plan approval now =
     (let record_status = (\<lambda>st. write_action (gp_planId plan) \<lparr>gx_plan = plan, gx_approval = approval, gx_status = st, gx_recordedAt = now\<rparr>) in
      bindA (guardA (gcPlan_valid plan \<and> gcApproval_valid approval) ZodError) (\<lambda>_.
      bindA (readsA (\<lambda>s. assertPlanIntegrity env plan (as_root (gs_store s)) now)) (\<lambda>_.
      bindA (liftE (assertApproval plan approval now)) (\<lambda>_.
      bindA (readsA (\<lambda>s. revalidate env s (gp_candidates plan))) (\<lambda>_.
      bindA (record_status Gc_Approved) (\<lambda>_ s.
      case remove_candidates env (gs_store s) plan now (gp_candidates plan) [] s of
        ((Some e, removed), t) \<Rightarrow> bindA (record_status (Gc_Failed removed (errorMessage e))) (\<lambda>_. raise e) t
      | ((None, removed), t) \<Rightarrow>
          let result = \<lparr>gr_planId = gp_planId plan, gr_removed = removed, gr_totalRemovedBytes = sum_list (map rm_bytes removed),
                gr_completedAt = now\<rparr> in
          bindA (record_status (Gc_Completed result)) (\<lambda>_. ret result) t))))))"

subsection \<open>What was done\<close>

record gc_actions_report =
  gar_pending :: "string list"
  gar_failed :: "string list"
  gar_completed :: "string list"

definition json_stem :: "string \<Rightarrow> string" where
  "json_stem name = take (length name - 5) name"

fun action_row :: "string \<times> gc_action doc option \<Rightarrow> (string \<times> action_status option) option" where
  "action_row (name, None) = None"
| "action_row (name, Some d) =
     (if \<not> suffix ''.json'' name then None
      else case d of
        Parsed a \<Rightarrow> Some (gp_planId (gx_plan a), Some (gx_status a))
      | Unparsable \<Rightarrow> Some (json_stem name, None))"

fun is_failed :: "action_status option \<Rightarrow> bool" where
  "is_failed None = True" | "is_failed (Some (Gc_Failed _ _)) = True" | "is_failed _ = False"

fun is_completed :: "action_status option \<Rightarrow> bool" where
  "is_completed (Some (Gc_Completed _)) = True" | "is_completed _ = False"

definition inspectActions :: "gc_state \<Rightarrow> gc_actions_report" where
  "inspectActions s =
     (let rows = List.map_filter action_row (case gs_actions s of None \<Rightarrow> [] | Some as \<Rightarrow> as);
          ids = (\<lambda>P. js_sort (map fst (filter (\<lambda>r. P (snd r)) rows))) in
      \<lparr>gar_pending = ids (\<lambda>st. \<not> is_failed st \<and> \<not> is_completed st), gar_failed = ids is_failed, gar_completed = ids is_completed\<rparr>)"

end
