(* ===== verification/Retention_Properties.thy ===== *)
theory Retention_Properties
  imports Retention Store_Types Conductor_Samples
begin

text \<open>
  Retention: what garbage collection removes from disk is bound to expired attempts, however the stores change between
  the dry run and the application of its plan; a plan is applied only inside its approval window and against the state
  it was made from.
\<close>

declare guardA_apply [simp del] liftE_apply [simp del]

subsection \<open>What a dry run proposes\<close>

text \<open>The reference criterion: a terminal attempt that nobody has to look at any more.\<close>

definition retention_ms :: "job_contract \<Rightarrow> attempt_manifest \<Rightarrow> int" where
  "retention_ms contract m = (if reviewed (am_reviewDisposition m) then rl_reviewedRetentionMs (jc_resources contract)
     else rl_terminalRetentionMs (jc_resources contract))"

definition expired_attempt :: "timestamp \<Rightarrow> job_contract \<Rightarrow> attempt_manifest \<Rightarrow> attempt_cleanup_record \<Rightarrow> bool" where
  "expired_attempt now contract m c \<longleftrightarrow>
     isAttemptTerminal (am_status m) \<and> cr_status c \<in> {C_NotRequired, C_Proven} \<and>
     (am_status m = ACompleted \<and> am_verificationStatus m = V_Eligible \<longrightarrow> reviewed (am_reviewDisposition m)) \<and>
     (case am_finishedAt m of None \<Rightarrow> False | Some finished \<Rightarrow> finished + retention_ms contract m \<le> now)"

lemma classify_expired:
  "classifyRetention env m (cr_status c) contract now = Inr (Class_Expired, d) \<Longrightarrow> expired_attempt now contract m c"
  by (auto simp: classifyRetention_def expired_attempt_def retention_ms_def Let_def split: if_splits option.splits sum.splits)

lemma bind_files_pruned: "bind_files env fs dir es = Inr files \<Longrightarrow> f \<in> set files \<Longrightarrow> gf_relativePath f \<notin> set retainedFiles"
proof (induction es arbitrary: files)
  case (Cons e es)
  obtain name node where e: "e = (name, node)" by fastforce
  show ?case
  proof (cases "prunable (name, node)")
    case True
    then have "name \<notin> set retainedFiles" by (cases node) auto
    then show ?thesis using Cons True e by (auto split: sum.splits)
  next
    case False
    then show ?thesis using Cons e by simp
  qed
qed simp

lemma collected_pruned:
  "collectPrunableFiles env fs dir = Inr files \<Longrightarrow> f \<in> set files \<Longrightarrow> gf_relativePath f \<notin> set retainedFiles"
  unfolding collectPrunableFiles_def by (auto split: sum.splits dest: bind_files_pruned)

lemma read_retention_Inr:
  "read_retention env s m = Inr (contract, c) \<longleftrightarrow>
     readJob (cv_sha256 (gv_cond env)) (cv_lc (gv_cond env)) (gs_store s) (am_jobId m) = Inr contract \<and>
     fst (getAttemptCleanup (am_attemptId m) (gs_cond s)) = Inr c"
  by (auto simp: read_retention_def split: sum.splits)

lemma expired_candidate_binds:
  assumes "expired_candidate env s m c d = Inr (ob, Some cand)"
  shows "gc_jobId cand = am_jobId m" "gc_attemptId cand = am_attemptId m" "gc_manifestRevision cand = am_revision m"
    "gc_cleanupRevision cand = cr_revision c" "f \<in> set (gc_files cand) \<Longrightarrow> gf_relativePath f \<notin> set retainedFiles"
proof -
  have *: "gc_jobId cand = am_jobId m \<and> gc_attemptId cand = am_attemptId m \<and> gc_manifestRevision cand = am_revision m \<and>
    gc_cleanupRevision cand = cr_revision c \<and> (\<forall>f \<in> set (gc_files cand). gf_relativePath f \<notin> set retainedFiles)"
    using assms unfolding expired_candidate_def Let_def
    by (auto split: sum.splits bool.splits if_splits simp: bindE_eq_Inr dest: collected_pruned)
  show "gc_jobId cand = am_jobId m" "gc_attemptId cand = am_attemptId m" "gc_manifestRevision cand = am_revision m"
    "gc_cleanupRevision cand = cr_revision c" "f \<in> set (gc_files cand) \<Longrightarrow> gf_relativePath f \<notin> set retainedFiles"
    using * by auto
qed

lemma observed_candidate:
  assumes "observe_attempt env s now m = Inr (ob, Some cand)"
  obtains contract c d ob' where "read_retention env s m = Inr (contract, c)"
    "classifyRetention env m (cr_status c) contract now = Inr (Class_Expired, d)"
    "expired_candidate env s m c d = Inr (ob', Some cand)"
  using assms unfolding observe_attempt_def Let_def by (auto split: sum.splits if_splits)

lemma gc_plan_of_simps [simp]:
  "gp_generatedAt (gc_plan_of env now s attempts seen) = now"
  "gp_expiresAt (gc_plan_of env now s attempts seen) = now + minimumGcTtl env s attempts"
  "gp_dataRoot (gc_plan_of env now s attempts seen) = as_root (gs_store s)"
  "gp_observations (gc_plan_of env now s attempts seen) = map fst seen"
  "gp_candidates (gc_plan_of env now s attempts seen) = List.map_filter snd seen"
  "gp_planFingerprint (gc_plan_of env now s attempts seen) = planFingerprint env (gc_body.truncate (gc_plan_of env now s attempts seen))"
  by (simp_all only: gc_plan_of_def Let_def gc_body.defs gc_plan.defs gc_body.simps gc_plan.simps gc_body.ext_inject)

lemma dryRun_Inr:
  assumes "dryRun env now s = Inr plan"
  obtains attempts seen where "listAttempts (cv_lc (gv_cond env)) (gs_store s) = Inr attempts"
    "read_all (observe_attempt env s now) attempts = Inr seen" "gp_candidates plan = List.map_filter snd seen"
    "gp_observations plan = map fst seen" "gp_generatedAt plan = now" "gp_expiresAt plan = now + minimumGcTtl env s attempts"
    "gp_dataRoot plan = as_root (gs_store s)" "gp_planFingerprint plan = planFingerprint env (gc_body.truncate plan)"
    "gcPlan_valid plan"
proof -
  obtain attempts where l: "listAttempts (cv_lc (gv_cond env)) (gs_store s) = Inr attempts"
    using assms by (cases "listAttempts (cv_lc (gv_cond env)) (gs_store s)") (simp_all add: dryRun_def)
  obtain seen where r: "read_all (observe_attempt env s now) attempts = Inr seen"
    using assms l by (cases "read_all (observe_attempt env s now) attempts") (simp_all add: dryRun_def)
  have plan: "plan = gc_plan_of env now s attempts seen" "gcPlan_valid plan"
    using assms l r by (simp_all add: dryRun_def Let_def split: if_splits sum.splits)
  show ?thesis by (rule that [OF l r]) (use plan in simp_all)
qed

lemma read_all_mem:
  assumes "read_all f xs = Inr ys" and "y \<in> set ys"
  obtains x where "x \<in> set xs" "f x = Inr y"
proof -
  have "map f xs = map Inr ys" by (rule iffD1 [OF read_all_Inr assms(1)])
  then have "Inr y \<in> f ` set xs" using assms(2) by (metis imageI list.set_map)
  then show ?thesis using that by force
qed

lemma planned_candidate:
  assumes "artifact_reachable (gs_store s)" and "dryRun env now s = Inr plan" and "cand \<in> set (gp_candidates plan)"
  obtains m contract c where "readAttempt (gs_store s) (am_jobId m) (am_attemptId m) = Inr m"
    "readJob (cv_sha256 (gv_cond env)) (cv_lc (gv_cond env)) (gs_store s) (am_jobId m) = Inr contract"
    "readAttemptCleanup (gs_store s) (am_jobId m) (am_attemptId m) = Inr c" "expired_attempt now contract m c"
    "gc_jobId cand = am_jobId m" "gc_attemptId cand = am_attemptId m" "gc_manifestRevision cand = am_revision m"
    "gc_cleanupRevision cand = cr_revision c" "\<forall>f \<in> set (gc_files cand). gf_relativePath f \<notin> set retainedFiles"
proof -
  note typed = reachable_typed [OF assms(1)]
  obtain attempts seen where l: "listAttempts (cv_lc (gv_cond env)) (gs_store s) = Inr attempts"
    and seen: "read_all (observe_attempt env s now) attempts = Inr seen" "gp_candidates plan = List.map_filter snd seen"
    using dryRun_Inr [OF assms(2)] by metis
  obtain ob where "(ob, Some cand) \<in> set seen"
    using assms(3) seen(2) by (auto simp: List.map_filter_def)
  then obtain m where m: "m \<in> set attempts" "observe_attempt env s now m = Inr (ob, Some cand)"
    using read_all_mem [OF seen(1)] by metis
  obtain j a where r: "readAttempt (gs_store s) j a = Inr m" using listed_read [OF l m(1)] .
  have ids: "j = am_jobId m" "a = am_attemptId m" using typed_read(1) [OF typed r] by (simp_all add: manifest_typed_def)
  obtain contract c d ob' where x: "read_retention env s m = Inr (contract, c)"
    "classifyRetention env m (cr_status c) contract now = Inr (Class_Expired, d)"
    "expired_candidate env s m c d = Inr (ob', Some cand)"
    using observed_candidate [OF m(2)] .
  have "fst (getAttemptCleanup (am_attemptId m) (gs_cond s)) = Inr c" using x(1) by (simp add: read_retention_Inr)
  then have "readAttemptCleanup (gs_store s) (am_jobId m) (am_attemptId m) = Inr c"
    using typed_found [OF typed r] ids by (simp add: getAttemptCleanup_def getAttempt_def bindA_def)
  with that [of m contract c] r ids x expired_candidate_binds [OF x(3)] classify_expired [OF x(2)]
  show ?thesis by (auto simp: read_retention_Inr)
qed

subsection \<open>What applying a plan checks\<close>

lemma revalidate_Inr: "revalidate env s cs = Inr u \<Longrightarrow> c \<in> set cs \<Longrightarrow> revalidate_candidate env s c = Inr ()"
  by (induction cs) (auto split: sum.splits)

lemma revalidate_files_Inr:
  "revalidate_files env s c dir fs = Inr u \<Longrightarrow> f \<in> set fs \<Longrightarrow>
   \<exists>target content. resolveBoundFile dir (gf_relativePath f) = Inr target \<and> map_of (gs_fs s) target = Some (File_Node content) \<and>
     length content = gf_bytes f \<and> cv_sha256 (gv_cond env) content = gf_sha256 f"
  by (induction fs)
    (auto simp: Let_def stat_size_def sha256File_def split: sum.splits if_splits option.splits fs_node.splits)

lemma revalidated:
  assumes "revalidate_candidate env s c = Inr u"
  obtains m cl where "findAttempt (gs_store s) (gc_attemptId c) = Inr m" "am_revision m = gc_manifestRevision c"
    "fst (getAttemptCleanup (gc_attemptId c) (gs_cond s)) = Inr cl" "cr_revision cl = gc_cleanupRevision c"
    "gc_kind c = Artifacts_Candidate \<Longrightarrow> \<exists>dir. attempt_root (gs_store s) (gc_jobId c) (gc_attemptId c) = Inr dir \<and>
       revalidate_files env s c dir (gc_files c) = Inr ()"
proof -
  obtain m cl where m: "findAttempt (gs_store s) (gc_attemptId c) = Inr m"
    and cl: "fst (getAttemptCleanup (gc_attemptId c) (gs_cond s)) = Inr cl"
    using assms by (auto simp: revalidate_candidate_def Let_def split: sum.splits)
  have "am_revision m = gc_manifestRevision c" "cr_revision cl = gc_cleanupRevision c"
    using assms m cl by (auto simp: revalidate_candidate_def Let_def split: if_splits)
  moreover have "\<exists>dir. attempt_root (gs_store s) (gc_jobId c) (gc_attemptId c) = Inr dir \<and>
       revalidate_files env s c dir (gc_files c) = Inr ()" if "gc_kind c = Artifacts_Candidate"
    using assms m cl that by (auto simp: revalidate_candidate_def Let_def bindE_eq_Inr split: if_splits sum.splits)
  ultimately show ?thesis using that m cl by blast
qed

lemma gc_apply_checked:
  assumes "gc_apply env plan approval now s = (r, t)" and "t \<noteq> s \<or> \<not> isl r"
  shows "gcPlan_valid plan" "gcApproval_valid approval" "assertPlanIntegrity env plan (as_root (gs_store s)) now = Inr ()"
    "assertApproval plan approval now = Inr ()" "revalidate env s (gp_candidates plan) = Inr ()"
proof -
  have "gcPlan_valid plan \<and> gcApproval_valid approval \<and> assertPlanIntegrity env plan (as_root (gs_store s)) now = Inr () \<and>
    assertApproval plan approval now = Inr () \<and> revalidate env s (gp_candidates plan) = Inr ()"
    using assms unfolding gc_apply_def Let_def
    by (auto simp: bindA_def guardA_apply liftE_apply split: sum.splits if_splits)
  then show "gcPlan_valid plan" "gcApproval_valid approval" "assertPlanIntegrity env plan (as_root (gs_store s)) now = Inr ()"
    "assertApproval plan approval now = Inr ()" "revalidate env s (gp_candidates plan) = Inr ()" by auto
qed

subsection \<open>What applying a plan removes\<close>

definition bound_file :: "artifact_store \<Rightarrow> gc_candidate \<Rightarrow> gc_file \<Rightarrow> string \<Rightarrow> bool" where
  "bound_file st c f p \<longleftrightarrow> gc_kind c = Artifacts_Candidate \<and> f \<in> set (gc_files c) \<and>
     (\<exists>dir. attempt_root st (gc_jobId c) (gc_attemptId c) = Inr dir \<and> resolveBoundFile dir (gf_relativePath f) = Inr p)"

lemma gs_fs_frame [simp]:
  "gs_fs (snd (on_gc_cond m s)) = gs_fs s" "gs_fs (snd (write_tombstone plan now dir c s)) = gs_fs s"
  "gs_fs (snd (write_action planId a s)) = gs_fs s"
  by (simp_all add: on_gc_cond_def write_tombstone_def write_action_def split: prod.split)

lemma fs_frame:
  "on_gc_cond m s = (r1, t1) \<Longrightarrow> gs_fs t1 = gs_fs s"
  "write_tombstone plan now dir c s = (r2, t2) \<Longrightarrow> gs_fs t2 = gs_fs s"
  "write_action planId a s = (r3, t3) \<Longrightarrow> gs_fs t3 = gs_fs s"
  by (metis gs_fs_frame snd_conv)+

lemma map_of_filter_other: "q \<noteq> p \<Longrightarrow> map_of (filter (\<lambda>e. fst e \<noteq> q) xs) p = map_of xs p"
  by (induction xs) auto

lemma rm_file_removes:
  "rm_file target s = (r, t) \<Longrightarrow> map_of (gs_fs s) p \<noteq> None \<Longrightarrow> map_of (gs_fs t) p = None \<Longrightarrow> p = target"
  by (rule ccontr) (auto simp: rm_file_def map_of_filter_other split: option.splits fs_node.splits)

lemma remove_files_simps [simp]:
  "remove_files dir [] = ret ()"
  "remove_files dir (f # fs) = bindA (liftE (resolveBoundFile dir (gf_relativePath f))) (\<lambda>p. bindA (rm_file p) (\<lambda>_. remove_files dir fs))"
  by (simp_all add: remove_files_def fun_eq_iff bindA_def liftE_apply split: sum.split)

lemma forA_removes:
  "remove_files dir fs s = (r, t) \<Longrightarrow>
   map_of (gs_fs s) p \<noteq> None \<Longrightarrow> map_of (gs_fs t) p = None \<Longrightarrow>
   \<exists>f \<in> set fs. resolveBoundFile dir (gf_relativePath f) = Inr p"
proof (induction fs arbitrary: s)
  case (Cons f fs)
  show ?case
  proof (cases "resolveBoundFile dir (gf_relativePath f)")
    case (Inr target)
    obtain r1 s1 where rm: "rm_file target s = (r1, s1)" by fastforce
    show ?thesis
    proof (cases "target = p")
      case False
      then have "map_of (gs_fs s1) p \<noteq> None" using rm_file_removes [OF rm Cons.prems(2)] by blast
      then show ?thesis using Cons Inr rm by (auto simp: bindA_def liftE_apply split: sum.splits)
    qed (use Inr in auto)
  qed (use Cons.prems in \<open>auto simp: bindA_def liftE_apply\<close>)
qed simp

lemma remove_candidate_removes:
  assumes "remove_candidate env st plan now c s = (r, t)" and "map_of (gs_fs s) p \<noteq> None" and "map_of (gs_fs t) p = None"
  shows "\<exists>f. bound_file st c f p"
proof (cases "gc_kind c")
  case Workspace_Candidate
  have "gs_fs t = gs_fs s"
    using assms(1) Workspace_Candidate unfolding remove_candidate_def
    by (auto simp: bindA_def split: prod.splits sum.splits dest: fs_frame)
  then show ?thesis using assms by simp
next
  case Artifacts_Candidate
  then obtain dir where dir: "attempt_root st (gc_jobId c) (gc_attemptId c) = Inr dir"
    using assms by (cases "attempt_root st (gc_jobId c) (gc_attemptId c)") (auto simp: remove_candidate_def bindA_def liftE_apply)
  obtain r1 s1 where f: "remove_files dir (gc_files c) s = (r1, s1)"
    by fastforce
  have "gs_fs t = gs_fs s1"
    using assms(1) Artifacts_Candidate dir f unfolding remove_candidate_def
    by (auto simp: bindA_def liftE_apply split: sum.splits dest: fs_frame)
  then show ?thesis
    using forA_removes [OF f assms(2)] assms(3) Artifacts_Candidate dir by (auto simp: bound_file_def)
qed

lemma remove_candidates_removes:
  "remove_candidates env st plan now cs removed s = (r, t) \<Longrightarrow> map_of (gs_fs s) p \<noteq> None \<Longrightarrow> map_of (gs_fs t) p = None \<Longrightarrow>
   \<exists>c \<in> set cs. \<exists>f. bound_file st c f p"
proof (induction cs arbitrary: removed s)
  case (Cons c cs)
  obtain r1 s1 where one: "remove_candidate env st plan now c s = (r1, s1)" by fastforce
  show ?case
  proof (cases "map_of (gs_fs s1) p")
    case None
    then show ?thesis using remove_candidate_removes [OF one Cons.prems(2)] by auto
  next
    case (Some x)
    then show ?thesis using Cons one by (auto split: sum.splits)
  qed
qed simp

lemma gc_apply_removes:
  assumes "gc_apply env plan approval now s = (r, t)" and "map_of (gs_fs s) p \<noteq> None" and "map_of (gs_fs t) p = None"
  obtains c f where "c \<in> set (gp_candidates plan)" "bound_file (gs_store s) c f p"
    "revalidate_candidate env s c = Inr ()"
proof -
  have fs: "t \<noteq> s" using assms(2,3) by metis
  note ok = gc_apply_checked [OF assms(1)] fs
  let ?w = "\<lambda>st. write_action (gp_planId plan) \<lparr>gx_plan = plan, gx_approval = approval, gx_status = st, gx_recordedAt = now\<rparr>"
  obtain u s1 where w: "?w Gc_Approved s = (Inr u, s1)" by (simp add: write_action_def)
  have s1: "gs_fs s1 = gs_fs s" "gs_store s1 = gs_store s"
    using fs_frame(3) [OF w] w by (simp, auto simp: write_action_def)
  obtain res s2 where rc: "remove_candidates env (gs_store s1) plan now (gp_candidates plan) [] s1 = (res, s2)" by fastforce
  have "gs_fs t = gs_fs s2"
    using assms(1) ok w rc fs unfolding gc_apply_def Let_def
    by (cases res) (auto simp: bindA_def guardA_apply liftE_apply write_action_def split: if_splits option.splits)
  then obtain c f where "c \<in> set (gp_candidates plan)" "bound_file (gs_store s) c f p"
    using remove_candidates_removes [OF rc, of p] assms(2,3) s1 by (metis (no_types))
  then show ?thesis using that revalidate_Inr ok fs by blast
qed

subsection \<open>A sample\<close>

text \<open>A cancelled attempt with one log, its store, and the disk with the bytes of its directory.\<close>

definition old_manifest :: attempt_manifest where
  "old_manifest = patched sample_manifest cancel_patch"

definition old_root :: string where
  "old_root = attemptDirectory (empty_store ''/r'') ''job_1'' ''job_1_a0001''"

definition old_store :: artifact_store where
  "old_store = witness_store (once_journaled old_manifest) (fresh_journaled sample_cleanup_record)"

definition old_state :: gc_state where
  "old_state = \<lparr>gs_cond = \<lparr>cd_store = old_store, cd_active = [], cd_aborted = [], cd_executions = [], cd_removals = [], cd_drawn = 0\<rparr>,
     gs_fs = [(old_root, Dir_Node), (path_join old_root ''attempt.json'', File_Node ''m''),
       (path_join old_root ''cleanup.json'', File_Node ''c''), (path_join old_root ''stdout.log'', File_Node ''log'')],
     gs_actions = None, gs_tombstones = []\<rparr>"

definition old_env :: gc_env where
  "old_env = \<lparr>gv_cond = witness_env, gv_planId = ''p1'', gv_bodyJson = (\<lambda>_. ''{}''), gv_iso = (\<lambda>_. ''then''),
     gv_exists = (\<lambda>_. Inr False), gv_worktree = (\<lambda>_. Inr []), gv_cwd = ''/''\<rparr>"

definition late :: timestamp where
  "late = 1000000000"

lemma old_env_simps [simp]: "gv_cond old_env = witness_env" "gv_planId old_env = ''p1''" "gv_bodyJson old_env b = ''{}''"
    "gv_iso old_env x = ''then''" "gv_cwd old_env = ''/''"
  by (simp_all add: old_env_def)

lemma old_manifest_simps [simp]: "am_jobId old_manifest = ''job_1''" "am_attemptId old_manifest = ''job_1_a0001''"
    "am_revision old_manifest = 1" "am_status old_manifest = ACancelled" "am_finishedAt old_manifest = Some 9"
    "am_reviewDisposition old_manifest = Not_Requested" "am_workspace old_manifest = None"
    "am_artifacts old_manifest = am_artifacts sample_manifest" "attemptManifest_valid old_manifest"
  using sample_manifest_facts(5) by (simp_all add: old_manifest_def patched_def cancel_patch_def attemptManifest_valid_def)

lemma old_reachable: "artifact_reachable (gs_store old_state)"
proof -
  let ?s = "witness_store (fresh_journaled sample_manifest) (fresh_journaled sample_cleanup_record)"
  have "transitionAttempt no_failpoint sample_manifest cancel_patch ?s = (Inr old_manifest, old_store)"
    unfolding old_store_def old_manifest_def
    by (rule witness_transition) (use old_manifest_simps(9) in \<open>simp_all add: old_manifest_def cancel_patch_def\<close>)
  then have "artifact_step ?s old_store" by (rule artifact_step.transition [rotated]) simp
  then show ?thesis
    using witness_reachable unfolding artifact_reachable_def old_state_def by (auto intro: rtranclp.rtrancl_into_rtrancl)
qed

lemma witness_names: "map fst (as_jobs (witness_store mj cj)) = [''job_1'']"
    "map fst (attempt_entries (witness_store mj cj) ''job_1'') = [''job_1_a0001'']"
  by (simp_all add: witness_store_def put_attempt_def put_job_def attempt_entries_def get_job_def empty_store_def)

lemma not_staging: "CHR ''.'' \<notin> set x \<Longrightarrow> \<not> is_staging x"
  by (auto simp: is_staging_def sublist_def)

lemma old_listed: "listAttempts default (gs_store old_state) = Inr [old_manifest]"
proof -
  have "readAttempt old_store ''job_1'' ''job_1_a0001'' = Inr old_manifest" by (simp add: old_store_def)
  then show ?thesis
    by (simp add: old_state_def listAttempts_def safeSegment_def not_staging witness_names old_store_def)
qed

definition old_files :: "gc_file list" where
  "old_files = [\<lparr>gf_relativePath = ''stdout.log'', gf_bytes = 3, gf_sha256 = sample_sha256 ''log''\<rparr>]"

lemma old_root_value: "old_root = ''/r/jobs/job_1/attempts/job_1_a0001''"
  by (simp add: old_root_def attemptDirectory_def attemptsRoot_def jobDirectory_def jobsRoot_def path_join_def empty_store_def)

lemma old_attempt_root: "attempt_root (gs_store old_state) ''job_1'' ''job_1_a0001'' = Inr old_root"
  by (simp add: attempt_root_def safeSegment_def old_state_def old_store_def witness_store_def old_root_def attemptDirectory_def
    attemptsRoot_def jobDirectory_def jobsRoot_def put_attempt_def put_job_def)

lemma old_fs: "gs_fs old_state = [(old_root, Dir_Node), (path_join old_root ''attempt.json'', File_Node ''m''),
       (path_join old_root ''cleanup.json'', File_Node ''c''), (path_join old_root ''stdout.log'', File_Node ''log'')]"
  by (simp add: old_state_def)

lemma old_collected: "collectPrunableFiles old_env (gs_fs old_state) old_root = Inr old_files"
  by (simp add: collectPrunableFiles_def old_fs readdir_def child_name_def path_join_def old_root_value retainedFiles_def
    stat_size_def sha256File_def old_files_def List.map_filter_def)

lemma sample_artifact_paths: "ar_manifest (am_artifacts sample_manifest) = path_join old_root ''attempt.json''"
    "ar_cleanup (am_artifacts sample_manifest) = Some (path_join old_root ''cleanup.json'')"
  by (simp_all add: sample_manifest_def createReservedAttempt_def Let_def validity_defs attempt_artifacts_of_def old_root_def
      path_join_def jobPath_def attemptManifestPath_def attemptDirectory_def attemptsRoot_def jobDirectory_def jobsRoot_def)

lemma old_digests: "sha256File old_env (gs_fs old_state) (path_join old_root ''attempt.json'') = Inr (sample_sha256 ''m'')"
    "sha256File old_env (gs_fs old_state) (path_join old_root ''cleanup.json'') = Inr (sample_sha256 ''c'')"
    "sha256File old_env (gs_fs old_state) (path_join old_root ''stdout.log'') = Inr (sample_sha256 ''log'')"
    "stat_size (gs_fs old_state) (path_join old_root ''stdout.log'') = Inr 3"
  by (simp_all add: sha256File_def stat_size_def old_fs path_join_def old_root_value)

lemma old_reads: "readJob sample_sha256 default (gs_store old_state) ''job_1'' = Inr sample_job"
    "findAttempt (gs_store old_state) ''job_1_a0001'' = Inr old_manifest"
    "fst (getAttemptCleanup ''job_1_a0001'' (gs_cond old_state)) = Inr sample_cleanup_record"
  by (simp_all add: old_state_def old_store_def getAttemptCleanup_def getAttempt_def bindA_def)

lemma sample_retention: "rl_terminalRetentionMs (jc_resources sample_contract) = 604800000"
    "rl_gcProposalTtlMs (jc_resources sample_contract) = 900000"
  using arg_cong [OF sample_resources, of rl_terminalRetentionMs] arg_cong [OF sample_resources, of rl_gcProposalTtlMs]
  by (simp_all add: DEFAULT_OWNER_RESOURCE_PROFILE_def resource_limits.defs)

lemma old_class: "classifyRetention old_env old_manifest C_NotRequired sample_job late = Inr (Class_Expired, ''Terminal evidence expired at then'')"
  by (simp add: classifyRetention_def iso_text_def sample_retention late_def reviewed_def)

definition old_candidate :: gc_candidate where
  "old_candidate = \<lparr>gc_kind = Artifacts_Candidate, gc_jobId = ''job_1'', gc_attemptId = ''job_1_a0001'',
     gc_reason = ''Terminal evidence expired at then'', gc_estimatedBytes = 3, gc_manifestRevision = 1,
     gc_manifestSha256 = sample_sha256 ''m'', gc_cleanupRevision = 0, gc_cleanupSha256 = sample_sha256 ''c'', gc_files = old_files\<rparr>"

definition old_observation :: gc_observation where
  "old_observation = \<lparr>go_jobId = ''job_1'', go_attemptId = ''job_1_a0001'', go_retentionClass = Class_Expired,
     go_detail = ''Terminal evidence expired at then''\<rparr>"

lemma old_observed: "observe_attempt old_env old_state late old_manifest = Inr (old_observation, Some old_candidate)"
  by (simp add: observe_attempt_def read_retention_def old_reads old_class expired_candidate_def sample_artifact_paths
    cleanup_sha256_def old_digests workspace_open_def old_attempt_root old_collected old_candidate_def old_observation_def)
    (simp add: old_files_def)

definition old_plan :: gc_plan where
  "old_plan = gc_plan_of old_env late old_state [old_manifest] [(old_observation, Some old_candidate)]"

lemma old_candidates: "gp_candidates old_plan = [old_candidate]"
  by (simp add: old_plan_def List.map_filter_def)

lemma old_root_store: "as_root (gs_store old_state) = ''/r''"
  by (simp add: old_state_def old_store_def witness_store_def put_attempt_def put_job_def empty_store_def)

lemma old_plan_valid: "gcPlan_valid old_plan"
proof -
  have "gp_planFingerprint old_plan = sample_sha256 ''{}''" by (simp add: old_plan_def planFingerprint_def)
  moreover have "gp_observations old_plan = [old_observation]" "gp_dataRoot old_plan = ''/r''"
    by (simp_all add: old_plan_def old_root_store)
  ultimately show ?thesis
    by (simp add: gcPlan_valid_def old_candidates gcObservation_valid_def old_observation_def gcCandidate_valid_def
      old_candidate_def sample_hex gcFile_valid_def old_files_def)
qed

lemma old_ttl: "minimumGcTtl old_env old_state [old_manifest] = 900000"
  by (simp add: minimumGcTtl_def attempt_ttl_def old_reads sample_retention)

lemma old_dry_run: "dryRun old_env late old_state = Inr old_plan"
  using old_plan_valid
  by (simp add: dryRun_def old_listed old_observed old_plan_def [symmetric] iso_text_def)
    (simp add: old_plan_def old_ttl late_def)

definition old_approval :: gc_approval where
  "old_approval = \<lparr>ga_approvedBy = ''owner'', ga_approvedAt = late, ga_reason = ''disk''\<rparr>"

definition old_after :: gc_state where
  "old_after = snd (gc_apply old_env old_plan old_approval late old_state)"

lemma old_target: "resolveBoundFile old_root ''stdout.log'' = Inr (path_join old_root ''stdout.log'')"
  by (simp add: resolveBoundFile_def old_root_value posix_resolve_def posix_relative_def path_segments_def path_join_def
    posix_isAbsolute_def)

lemma old_revalidated: "revalidate old_env old_state (gp_candidates old_plan) = Inr ()"
  by (simp add: old_candidates revalidate_candidate_def old_candidate_def old_reads sample_artifact_paths cleanup_sha256_def
    old_digests old_attempt_root old_files_def old_target)

lemma old_integrity: "assertPlanIntegrity old_env old_plan ''/r'' late = Inr ()"
    "assertApproval old_plan old_approval late = Inr ()"
  by (simp_all add: assertPlanIntegrity_def assertApproval_def old_plan_def planFingerprint_def old_root_store old_ttl
    late_def old_approval_def)

lemma old_run: "\<exists>result. gc_apply old_env old_plan old_approval late old_state = (Inr result, old_after)"
  and old_gone: "map_of (gs_fs old_after) (path_join old_root ''stdout.log'') = None"
proof -
  have log: "map_of (gs_fs old_state) (path_join old_root ''stdout.log'') = Some (File_Node ''log'')"
    by (simp add: old_fs path_join_def old_root_value)
  have ok: "gcApproval_valid old_approval" "gc_files old_candidate = old_files" "gc_kind old_candidate = Artifacts_Candidate"
    "attempt_root (gs_store old_state) (gc_jobId old_candidate) (gc_attemptId old_candidate) = Inr old_root"
    by (simp_all add: gcApproval_valid_def old_approval_def old_candidate_def old_attempt_root)
  have run: "\<exists>result. gc_apply old_env old_plan old_approval late old_state = (Inr result, old_after) \<and>
      map_of (gs_fs old_after) (path_join old_root ''stdout.log'') = None"
    unfolding old_after_def
    using log ok old_plan_valid old_integrity old_revalidated old_root_store
    by (simp add: gc_apply_def Let_def bindA_def guardA_apply liftE_apply write_action_def remove_candidate_def write_tombstone_def
      rm_file_def old_target old_candidates map_of_eq_None_iff old_files_def) auto
  then show "\<exists>result. gc_apply old_env old_plan old_approval late old_state = (Inr result, old_after)"
    "map_of (gs_fs old_after) (path_join old_root ''stdout.log'') = None" by blast+
qed


subsection \<open>What garbage collection promises\<close>

text \<open>
  C13. Garbage collection removes expired evidence only. Take any plan a dry run made, let any processes work on the
  stores with any operations before the plan is applied, and let applying it succeed or fail half way: each file that
  is gone belongs to an attempt that is still, unchanged, terminal with settled cleanup, reviewed if it was eligible,
  and past its retention time when the plan was made; it is not one of the files that are kept for ever, and its bytes
  are those whose size and digest the plan lists.
\<close>

theorem gc_removes_only_expired:
  assumes "artifact_reachable (gs_store s0)" and "artifact_step\<^sup>*\<^sup>* (gs_store s0) (gs_store s)"
    and "dryRun env0 now0 s0 = Inr plan" and "gc_apply env plan approval now s = (r, t)"
    and "map_of (gs_fs s) p \<noteq> None" and "map_of (gs_fs t) p = None"
  shows "\<exists>m contract c cand file content. cand \<in> set (gp_candidates plan) \<and> file \<in> set (gc_files cand) \<and>
    findAttempt (gs_store s) (am_attemptId m) = Inr m \<and>
    readJob (cv_sha256 (gv_cond env0)) (cv_lc (gv_cond env0)) (gs_store s0) (am_jobId m) = Inr contract \<and>
    readAttemptCleanup (gs_store s) (am_jobId m) (am_attemptId m) = Inr c \<and> expired_attempt now0 contract m c \<and>
    gf_relativePath file \<notin> set retainedFiles \<and>
    resolveBoundFile (attemptDirectory (gs_store s) (am_jobId m) (am_attemptId m)) (gf_relativePath file) = Inr p \<and>
    map_of (gs_fs s) p = Some (File_Node content) \<and> length content = gf_bytes file \<and>
    cv_sha256 (gv_cond env) content = gf_sha256 file"
proof -
  obtain cand f where cand: "cand \<in> set (gp_candidates plan)" "bound_file (gs_store s) cand f p"
    and rv: "revalidate_candidate env s cand = Inr ()" using gc_apply_removes [OF assms(4-6)] .
  obtain m contract c where plan: "readAttempt (gs_store s0) (am_jobId m) (am_attemptId m) = Inr m"
    "readJob (cv_sha256 (gv_cond env0)) (cv_lc (gv_cond env0)) (gs_store s0) (am_jobId m) = Inr contract"
    "readAttemptCleanup (gs_store s0) (am_jobId m) (am_attemptId m) = Inr c" "expired_attempt now0 contract m c"
    "gc_jobId cand = am_jobId m" "gc_attemptId cand = am_attemptId m" "gc_cleanupRevision cand = cr_revision c"
    "\<forall>f \<in> set (gc_files cand). gf_relativePath f \<notin> set retainedFiles"
    using planned_candidate [OF assms(1,3) cand(1)] .
  note inv = reachable_inv [OF assms(1)]
  have reach: "artifact_reachable (gs_store s)"
    using assms(1,2) unfolding artifact_reachable_def by (meson rtranclp_trans)
  have "readAttempt (gs_store s) (am_jobId m) (am_attemptId m) = Inr m"
    using attempt_steps [OF assms(2) inv plan(1)] attempt_moves_terminal plan(4) unfolding expired_attempt_def by blast
  then have now: "findAttempt (gs_store s) (am_attemptId m) = Inr m"
    by (rule typed_found [OF reachable_typed [OF reach]])
  obtain c' where c': "readAttemptCleanup (gs_store s) (am_jobId m) (am_attemptId m) = Inr c'" "cleanup_grows c c'"
    using cleanup_steps [OF assms(2) inv plan(3)] by blast
  obtain m' cl where m': "findAttempt (gs_store s) (gc_attemptId cand) = Inr m'"
    "fst (getAttemptCleanup (gc_attemptId cand) (gs_cond s)) = Inr cl" "cr_revision cl = gc_cleanupRevision cand"
    "gc_kind cand = Artifacts_Candidate \<Longrightarrow> \<exists>dir. attempt_root (gs_store s) (gc_jobId cand) (gc_attemptId cand) = Inr dir \<and>
       revalidate_files env s cand dir (gc_files cand) = Inr ()"
    using revalidated [OF rv] by metis
  have "cl = c'" using m'(1,2) now c'(1) plan(6) by (simp add: getAttemptCleanup_def getAttempt_def bindA_def)
  then have c: "c' = c" using m'(3) plan(7) c'(2) by (simp add: cleanup_grows_def)
  obtain dir where dir: "attempt_root (gs_store s) (gc_jobId cand) (gc_attemptId cand) = Inr dir"
    "resolveBoundFile dir (gf_relativePath f) = Inr p" "f \<in> set (gc_files cand)" "gc_kind cand = Artifacts_Candidate"
    using cand(2) by (auto simp: bound_file_def)
  have ad: "dir = attemptDirectory (gs_store s) (am_jobId m) (am_attemptId m)"
    using dir(1) plan(5,6) by (auto simp: attempt_root_def safeSegment_def split: if_splits)
  obtain content where "map_of (gs_fs s) p = Some (File_Node content)" "length content = gf_bytes f"
    "cv_sha256 (gv_cond env) content = gf_sha256 f"
    using m'(4) [OF dir(4)] dir revalidate_files_Inr by (metis Inr_inject)
  moreover have "gf_relativePath f \<notin> set retainedFiles" using plan(8) dir(3) by blast
  ultimately show ?thesis using now plan(2,4) c'(1) c cand(1) dir(2,3) unfolding ad
    by (intro exI [of _ m] exI [of _ contract] exI [of _ c] exI [of _ cand] exI [of _ f] exI [of _ content]) simp
qed

theorem gc_removes_only_expired_witness:
  "\<exists>m c. findAttempt (gs_store old_state) (am_attemptId m) = Inr m \<and> isAttemptTerminal (am_status m) \<and>
     readAttemptCleanup (gs_store old_state) (am_jobId m) (am_attemptId m) = Inr c \<and> cr_status c \<in> {C_NotRequired, C_Proven}"
proof -
  obtain result where run: "gc_apply old_env old_plan old_approval late old_state = (Inr result, old_after)" using old_run by blast
  have log: "map_of (gs_fs old_state) (path_join old_root ''stdout.log'') \<noteq> None"
    by (simp add: old_fs path_join_def old_root_value)
  from gc_removes_only_expired [OF old_reachable rtranclp.rtrancl_refl old_dry_run run log old_gone]
  show ?thesis unfolding expired_attempt_def by blast
qed

text \<open>
  A plan is applied inside its window only. If applying a plan changes anything at all, then the plan is unaltered
  since its fingerprint was taken, belongs to this data root and has not expired, its approval was given after the plan
  was made, before it expires and at most five seconds ahead of the clock, and every attempt it names is found at the
  revisions of the manifest and the cleanup record that the plan lists.
\<close>

theorem gc_apply_within_window:
  assumes "gc_apply env plan approval now s = (r, t)" and "t \<noteq> s"
  shows "planFingerprint env (gc_body.truncate plan) = gp_planFingerprint plan \<and>
    posix_resolve (gv_cwd env) (gp_dataRoot plan) = posix_resolve (gv_cwd env) (as_root (gs_store s)) \<and>
    now \<le> gp_expiresAt plan \<and> gp_generatedAt plan \<le> ga_approvedAt approval \<and>
    ga_approvedAt approval \<le> min (gp_expiresAt plan) (now + 5000) \<and>
    (\<forall>c \<in> set (gp_candidates plan). \<exists>m cl. findAttempt (gs_store s) (gc_attemptId c) = Inr m \<and>
       readAttemptCleanup (gs_store s) (am_jobId m) (am_attemptId m) = Inr cl \<and>
       am_revision m = gc_manifestRevision c \<and> cr_revision cl = gc_cleanupRevision c)"
proof -
  note ok = gc_apply_checked [OF assms(1)] assms(2)
  have "\<exists>m cl. findAttempt (gs_store s) (gc_attemptId c) = Inr m \<and>
       readAttemptCleanup (gs_store s) (am_jobId m) (am_attemptId m) = Inr cl \<and>
       am_revision m = gc_manifestRevision c \<and> cr_revision cl = gc_cleanupRevision c" if "c \<in> set (gp_candidates plan)" for c
  proof -
    have "revalidate_candidate env s c = Inr ()" using revalidate_Inr that ok assms(2) by blast
    then obtain m cl where "findAttempt (gs_store s) (gc_attemptId c) = Inr m" "am_revision m = gc_manifestRevision c"
      "fst (getAttemptCleanup (gc_attemptId c) (gs_cond s)) = Inr cl" "cr_revision cl = gc_cleanupRevision c"
      using revalidated by metis
    then show ?thesis by (auto simp: getAttemptCleanup_def getAttempt_def bindA_def)
  qed
  then show ?thesis
    using ok by (auto simp: assertPlanIntegrity_def assertApproval_def split: if_splits)
qed

theorem gc_apply_within_window_witness: "late \<le> gp_expiresAt old_plan \<and> gp_generatedAt old_plan \<le> late"
proof -
  obtain result where run: "gc_apply old_env old_plan old_approval late old_state = (Inr result, old_after)" using old_run by blast
  have "map_of (gs_fs old_state) (path_join old_root ''stdout.log'') \<noteq> None" by (simp add: old_fs path_join_def old_root_value)
  then have "old_after \<noteq> old_state" using old_gone by metis
  from gc_apply_within_window [OF run this] show ?thesis by (simp add: old_approval_def)
qed

subsection \<open>What a completed application did\<close>

lemma rm_file_gone: "rm_file target s = (Inr u, t) \<Longrightarrow> map_of (gs_fs t) target = None"
  by (auto simp: rm_file_def map_of_eq_None_iff split: option.splits fs_node.splits)

lemma rm_file_keeps_None: "rm_file target s = (r, t) \<Longrightarrow> map_of (gs_fs s) p = None \<Longrightarrow> map_of (gs_fs t) p = None"
  by (auto simp: rm_file_def map_of_eq_None_iff split: option.splits fs_node.splits)

lemma keeps_gone [keeps_rules]:
  "keeps (\<lambda>s. map_of (gs_fs s) p = None) (rm_file target)"
  "keeps (\<lambda>s. map_of (gs_fs s) p = None) (on_gc_cond m)"
  "keeps (\<lambda>s. map_of (gs_fs s) p = None) (write_tombstone plan now dir c)"
  "keeps (\<lambda>s. map_of (gs_fs s) p = None) (write_action planId a)"
  by (auto simp: keeps_def intro: rm_file_keeps_None [OF surjective_pairing])

lemma keeps_gone_loop: "keeps (\<lambda>s. map_of (gs_fs s) p = None) (remove_files dir fs)"
  unfolding remove_files_def by (intro keeps_rules)

lemma keeps_gone_candidate: "keeps (\<lambda>s. map_of (gs_fs s) p = None) (remove_candidate env st plan now c)"
  unfolding remove_candidate_def remove_files_def by (intro keeps_rules)

definition tombstoned :: "gc_plan \<Rightarrow> string \<Rightarrow> gc_state \<Rightarrow> bool" where
  "tombstoned plan p s \<longleftrightarrow> (\<exists>tb. map_of (gs_tombstones s) p = Some tb \<and> gt_planId tb = gp_planId plan \<and>
     gt_planFingerprint tb = gp_planFingerprint plan)"

lemma keeps_tombstoned [keeps_rules]:
  "keeps (tombstoned plan p) (rm_file target)"
  "keeps (tombstoned plan p) (on_gc_cond m)"
  "keeps (tombstoned plan p) (write_tombstone plan now dir c)"
  "keeps (tombstoned plan p) (write_action planId a)"
  by (auto simp: keeps_def tombstoned_def rm_file_def on_gc_cond_def write_tombstone_def write_action_def update_conv'
      split: option.splits fs_node.splits prod.splits)

lemma keeps_tombstoned_candidate: "keeps (tombstoned plan p) (remove_candidate env st plan now c)"
  unfolding remove_candidate_def remove_files_def by (intro keeps_rules)

lemma forA_gone:
  "remove_files dir fs s = (Inr u, t) \<Longrightarrow> f \<in> set fs \<Longrightarrow>
   \<exists>p. resolveBoundFile dir (gf_relativePath f) = Inr p \<and> map_of (gs_fs t) p = None"
proof (induction fs arbitrary: s)
  case (Cons g fs)
  obtain target s1 where g: "resolveBoundFile dir (gf_relativePath g) = Inr target" "rm_file target s = (Inr (), s1)"
    "remove_files dir fs s1 = (Inr u, t)"
    using Cons.prems(1) by (auto simp: bindA_eq_Inr liftE_apply)
  show ?case
  proof (cases "f = g")
    case True
    then show ?thesis using g keepsD [OF keeps_gone_loop rm_file_gone [OF g(2)] g(3)] by blast
  qed (use Cons.IH [OF g(3)] Cons.prems(2) in auto)
qed simp

definition removal_done :: "artifact_store \<Rightarrow> gc_plan \<Rightarrow> gc_candidate \<Rightarrow> gc_state \<Rightarrow> bool" where
  "removal_done st plan c s \<longleftrightarrow> (gc_kind c = Artifacts_Candidate \<longrightarrow>
     (\<exists>dir. attempt_root st (gc_jobId c) (gc_attemptId c) = Inr dir \<and> tombstoned plan (path_join dir ''gc-tombstone.json'') s \<and>
       (\<forall>f \<in> set (gc_files c). \<exists>p. resolveBoundFile dir (gf_relativePath f) = Inr p \<and> map_of (gs_fs s) p = None)))"

lemma removal_done_kept:
  assumes "removal_done st plan c s" and "\<And>p. keeps (\<lambda>s. map_of (gs_fs s) p = None) m" and "\<And>p. keeps (tombstoned plan p) m"
    and "m s = (r, t)"
  shows "removal_done st plan c t"
  using assms(1) keepsD [OF assms(2) _ assms(4)] keepsD [OF assms(3) _ assms(4)] unfolding removal_done_def by metis

lemma remove_candidate_done:
  assumes "remove_candidate env st plan now c s = (Inr u, t)"
  shows "removal_done st plan c t"
  unfolding removal_done_def
proof
  assume k: "gc_kind c = Artifacts_Candidate"
  then obtain dir s1 where d: "attempt_root st (gc_jobId c) (gc_attemptId c) = Inr dir"
    "remove_files dir (gc_files c) s = (Inr (), s1)"
    "write_tombstone plan now dir c s1 = (Inr u, t)"
    using assms by (auto simp: remove_candidate_def bindA_eq_Inr liftE_apply)
  have "tombstoned plan (path_join dir ''gc-tombstone.json'') t"
    using d(3) by (auto simp: write_tombstone_def tombstoned_def update_conv')
  then show "\<exists>dir. attempt_root st (gc_jobId c) (gc_attemptId c) = Inr dir \<and> tombstoned plan (path_join dir ''gc-tombstone.json'') t \<and>
       (\<forall>f \<in> set (gc_files c). \<exists>p. resolveBoundFile dir (gf_relativePath f) = Inr p \<and> map_of (gs_fs t) p = None)"
    using d(1) forA_gone [OF d(2)] fs_frame(2) [OF d(3)] by auto
qed

lemma remove_candidates_done:
  "remove_candidates env st plan now cs removed s = ((None, rs), t) \<Longrightarrow>
   rs = removed @ map entry_of cs \<and> (\<forall>c \<in> set cs. removal_done st plan c t) \<and>
   (\<forall>c. removal_done st plan c s \<longrightarrow> removal_done st plan c t)"
proof (induction cs arbitrary: removed s)
  case (Cons c cs)
  obtain s1 where one: "remove_candidate env st plan now c s = (Inr (), s1)"
    "remove_candidates env st plan now cs (removed @ [entry_of c]) s1 = ((None, rs), t)"
    using Cons.prems by (auto split: prod.splits sum.splits)
  show ?case
    using Cons.IH [OF one(2)] remove_candidate_done [OF one(1)]
      removal_done_kept [OF _ keeps_gone_candidate keeps_tombstoned_candidate one(1)] by auto
qed simp

text \<open>
  A completed application did what its plan says. When applying a plan returns a result, every file that the plan
  lists is gone, every attempt that lost files carries a tombstone with the identity and the fingerprint of the plan,
  the result accounts for exactly the candidates of the plan and their bytes, and the recorded action says completed
  with that result.
\<close>

theorem gc_apply_completes_plan:
  assumes "gc_apply env plan approval now s = (Inr result, t)"
  shows "(\<forall>c \<in> set (gp_candidates plan). removal_done (gs_store s) plan c t) \<and>
    gr_removed result = map entry_of (gp_candidates plan) \<and>
    gr_totalRemovedBytes result = sum_list (map gc_estimatedBytes (gp_candidates plan)) \<and>
    (\<exists>as a. gs_actions t = Some as \<and> map_of as (gp_planId plan @ ''.json'') = Some (Some (Parsed a)) \<and>
       gx_plan a = plan \<and> gx_approval a = approval \<and> gx_status a = Gc_Completed result)"
proof -
  let ?w = "\<lambda>st. write_action (gp_planId plan) \<lparr>gx_plan = plan, gx_approval = approval, gx_status = st, gx_recordedAt = now\<rparr>"
  have "\<not> isl (Inr result :: err + gc_result)" by simp
  note ok = gc_apply_checked [OF assms disjI2 [OF this]]
  obtain u s1 where w: "?w Gc_Approved s = (Inr u, s1)" by (simp add: write_action_def)
  have s1: "gs_store s1 = gs_store s" using w by (auto simp: write_action_def)
  obtain e rs s2 where rc: "remove_candidates env (gs_store s1) plan now (gp_candidates plan) [] s1 = ((e, rs), s2)"
    by (metis prod.exhaust)
  have e: "e = None" and fin: "?w (Gc_Completed result) s2 = (Inr (), t)"
    and res: "gr_removed result = rs" "gr_totalRemovedBytes result = sum_list (map rm_bytes rs)"
    using assms ok w rc unfolding gc_apply_def Let_def
    by (auto simp: bindA_eq_Inr guardA_apply liftE_apply split: if_splits option.splits)
  note d = remove_candidates_done [OF rc [unfolded e]]
  have "removal_done (gs_store s) plan c t" if "c \<in> set (gp_candidates plan)" for c
    using removal_done_kept [OF _ keeps_gone(4) keeps_tombstoned(4) fin] d that s1 by auto
  moreover have "rm_bytes \<circ> entry_of = gc_estimatedBytes" by (simp add: fun_eq_iff entry_of_def)
  moreover have "\<exists>as a. gs_actions t = Some as \<and> map_of as (gp_planId plan @ ''.json'') = Some (Some (Parsed a)) \<and>
       gx_plan a = plan \<and> gx_approval a = approval \<and> gx_status a = Gc_Completed result"
    using fin by (auto simp: write_action_def update_conv')
  ultimately show ?thesis using res d by simp
qed

theorem gc_apply_completes_plan_witness:
  "removal_done (gs_store old_state) old_plan old_candidate old_after \<and> (\<exists>as. gs_actions old_after = Some as)"
proof -
  obtain result where run: "gc_apply old_env old_plan old_approval late old_state = (Inr result, old_after)" using old_run by blast
  from gc_apply_completes_plan [OF run] show ?thesis by (auto simp: old_candidates)
qed

end
