(* ===== verification/Review_Properties.thy ===== *)
theory Review_Properties
  imports Review Store_Types Conductor_Properties
begin

text \<open>
  What a review packet promises: a packet that is returned agrees with the stored records and with every
  file it binds, a fresh packet binds all the evidence of its attempt, and a packet that was returned once
  is returned unchanged as long as the evidence is what it was.
\<close>

declare guardA_apply [simp del] liftE_apply [simp del]

subsection \<open>Validation\<close>

lemma validateBindings_Inr:
  "validateBindings ef bs = Inr u \<longleftrightarrow>
     (\<forall>b \<in> set bs. ef_stat ef (eb_path b) = Inr (True, eb_size b) \<and> ef_sha256 ef (eb_path b) = Inr (eb_sha256 b))"
  by (induction bs) (auto simp: Let_def split: sum.splits)

lemma validate_profile_files_Inr:
  "validate_profile_files ef fs = Inr u \<longleftrightarrow>
     (\<forall>f \<in> set fs. ef_stat ef (wf_path f) = Inr (True, wf_size f) \<and> ef_sha256 ef (wf_path f) = Inr (wf_sha256 f))"
  by (induction fs) (auto simp: Let_def split: sum.splits)

lemma validateProfile_Inr:
  "validateWorkerExecutionProfile env ef p = Inr u \<longleftrightarrow> workerExecutionProfile_valid p \<and>
     fingerprint_of env (profile_json env p) = wp_profileFingerprint p \<and> wp_status p = Profile_Complete \<and>
     validate_profile_files ef (wp_files p) = Inr ()"
  by (auto simp: validateWorkerExecutionProfile_def bindE_eq_Inr)

lemma profile_evidence_ok_Inr:
  assumes "profile_evidence_ok env ef st = Inr u"
  obtains p i where "am_workerProfile (re_manifest st) = Some p" "am_invocation (re_manifest st) = Some i"
    "validateWorkerExecutionProfile env ef p = Inr ()" "profile_agrees env (re_contract st) i p"
  using assms by (auto simp: profile_evidence_ok_def Let_def split: option.splits if_splits sum.splits)

lemma assertReviewEvidenceState_Inr:
  "assertReviewEvidenceState env ef st = Inr u \<longleftrightarrow>
     am_status (re_manifest st) = ACompleted \<and> am_verificationStatus (re_manifest st) = V_Eligible \<and>
     vr_eligibleForReview (re_verification st) \<and> cr_status (re_cleanup st) \<in> {C_NotRequired, C_Proven} \<and>
     profile_evidence_ok env ef st = Inr () \<and>
     jc_jobId (re_contract st) = am_jobId (re_manifest st) \<and> cr_jobId (re_cleanup st) = am_jobId (re_manifest st) \<and>
     cr_attemptId (re_cleanup st) = am_attemptId (re_manifest st) \<and> vr_jobId (re_verification st) = am_jobId (re_manifest st) \<and>
     vr_attemptId (re_verification st) = am_attemptId (re_manifest st) \<and>
     canonical env (jstrs (re_changedPaths st)) = canonical env (jstrs (sc_changedPaths (vr_scope (re_verification st)))) \<and>
     assertReviewArtifactPaths env (re_manifest st) (re_attemptDirectory st) (re_jobPath st) = Inr () \<and>
     projections_ok env ef st = Inr ()"
  by (auto simp: assertReviewEvidenceState_def Let_def bindE_eq_Inr)

definition sealed_current :: "review_env \<Rightarrow> review_packet \<Rightarrow> review_evidence_state \<Rightarrow> bool" where
  "sealed_current env p st \<longleftrightarrow> (\<forall>(name, sealed, current) \<in> set (sealed_comparisons env p st). canonical env sealed = canonical env current)"

lemma find_checks:
  "(case List.find P xs of None \<Rightarrow> Inr () | Some (n, x) \<Rightarrow> Inl (f n)) = Inr () \<longleftrightarrow> (\<forall>x \<in> set xs. \<not> P x)"
  by (induction xs) (auto split: prod.splits)

lemma validateReviewPacket_Inr:
  "validateReviewPacket env ef p st = Inr u \<longleftrightarrow>
     reviewPacket_valid p \<and> seal env (review_body.truncate p) = rp_sealSha256 p \<and>
     assertReviewEvidenceState env ef st = Inr () \<and> sealed_current env p st \<and>
     rp_jobId p = am_jobId (re_manifest st) \<and> rp_attemptId p = am_attemptId (re_manifest st) \<and>
     validateBindings ef (rp_bindings p) = Inr () \<and>
     (\<exists>inventory. collectAttemptInventory env ef (re_attemptDirectory st) = Inr inventory \<and>
        canonical env (JArr (map inventory_json inventory)) = canonical env (JArr (map inventory_json (rp_attemptInventory p))))"
proof -
  have find: "(case List.find (\<lambda>(name, sealed, current). canonical env sealed \<noteq> canonical env current) (sealed_comparisons env p st) of
       None \<Rightarrow> Inr () | Some (name, x) \<Rightarrow> Inl (corrupt (''Sealed '' @ name @ '' changed for '' @ rp_attemptId p))) = Inr () \<longleftrightarrow>
     sealed_current env p st"
    by (simp only: find_checks) (auto simp: sealed_current_def)
  show ?thesis
    unfolding validateReviewPacket_def Let_def bindE_eq_Inr checkE_Inr
    using find by (auto simp: validateBindings_Inr)
qed

subsection \<open>Evidence that did not change\<close>

text \<open>The files agree except for one path, and the attempt directory except for the packet in it.\<close>

definition agree_off :: "string \<Rightarrow> evidence_files \<Rightarrow> evidence_files \<Rightarrow> bool" where
  "agree_off q ef ef' \<longleftrightarrow> (\<forall>x. x \<noteq> q \<longrightarrow> ef_stat ef' x = ef_stat ef x \<and> ef_sha256 ef' x = ef_sha256 ef x \<and> ef_json ef' x = ef_json ef x)"

definition packet_file_of :: "review_env \<Rightarrow> string \<Rightarrow> string" where
  "packet_file_of env attemptDir = path_join (resolve_path env attemptDir) ''review-packet.json''"

definition without_packet :: "tree_entry list \<Rightarrow> tree_entry list" where
  "without_packet cs = filter (\<lambda>c. tree_name c \<noteq> ''review-packet.json'') cs"

definition same_evidence :: "review_env \<Rightarrow> string \<Rightarrow> evidence_files \<Rightarrow> evidence_files \<Rightarrow> bool" where
  "same_evidence env attemptDir ef ef' \<longleftrightarrow> agree_off (packet_file_of env attemptDir) ef ef' \<and>
     map_sum id without_packet (ef_tree ef' (resolve_path env attemptDir)) = map_sum id without_packet (ef_tree ef (resolve_path env attemptDir))"

lemma path_join_no_slash: "path_join (path_join a w) x = path_join a y \<Longrightarrow> CHR ''/'' \<in> set y"
  by (auto simp: path_join_def)

lemma visit_agree:
  assumes "agree_off (path_join dir ''review-packet.json'') ef ef'"
  shows "d = dir \<and> rel = [] \<or> (\<exists>w. d = path_join dir w) \<Longrightarrow> visit ef' lc d rel c = visit ef lc d rel c"
proof (induction c arbitrary: d rel)
  case (Tree_Dir n cs)
  have "\<exists>w. path_join d n = path_join dir w" using Tree_Dir.prems by (auto simp: path_join_def)
  then have eq: "visit ef' lc (path_join d n) r c = visit ef lc (path_join d n) r c" if "c \<in> set cs" for c r
    using Tree_Dir.IH [OF that] by blast
  have rows: "map (\<lambda>c. (tree_name c, visit ef' lc (path_join d n) r c)) cs = map (\<lambda>c. (tree_name c, visit ef lc (path_join d n) r c)) cs" for r
    using eq by simp
  show ?case by (simp only: visit.simps Let_def rows)
next
  case (Tree_File n)
  have "path_join d n \<noteq> path_join dir ''review-packet.json''" if "to_portable (relative_name rel n) \<noteq> ''review-packet.json''"
    using Tree_File.prems
  proof
    assume "d = dir \<and> rel = []"
    then show ?thesis using that by (auto simp: relative_name_def path_join_def to_portable_def)
  next
    assume "\<exists>w. d = path_join dir w"
    then show ?thesis using path_join_no_slash [of dir _ n "''review-packet.json''"] by auto
  qed
  then show ?case using assms by (simp add: agree_off_def Let_def)
qed simp_all

lemma first_error_skip: "(\<forall>x \<in> set xs. \<not> P x \<longrightarrow> snd x = Inr []) \<Longrightarrow> first_error (filter P xs) = first_error xs"
proof (induction xs)
  case (Cons x xs)
  then show ?case by (cases x) (auto simp: bindE_def split: sum.splits)
qed simp

lemma inventory_agree:
  assumes "same_evidence env attemptDir ef ef'"
  shows "collectAttemptInventory env ef' attemptDir = collectAttemptInventory env ef attemptDir"
proof -
  let ?d = "resolve_path env attemptDir" and ?lc = "cv_lc (rv_cond env)"
  have ag: "agree_off (path_join ?d ''review-packet.json'') ef ef'"
    and tr: "map_sum id without_packet (ef_tree ef' ?d) = map_sum id without_packet (ef_tree ef ?d)"
    using assms by (simp_all add: same_evidence_def packet_file_of_def)
  let ?P = "\<lambda>x. fst x \<noteq> ''review-packet.json''"
  define rows where "rows f cs = Sorting_Algorithms.sort (key fst ?lc) (map (\<lambda>c. (tree_name c, visit f ?lc ?d [] c)) cs)" for f cs
  have skip: "first_error (rows f (without_packet cs)) = first_error (rows f cs)" for f cs
  proof -
    have "visit f ?lc ?d [] c = Inr []" if "tree_name c = ''review-packet.json''" for c
      using that by (cases c) (simp_all add: relative_name_def to_portable_def)
    then have "first_error (filter ?P (rows f cs)) = first_error (rows f cs)"
      by (intro first_error_skip) (auto simp: rows_def)
    moreover have "filter ?P (rows f cs) = rows f (without_packet cs)"
      by (simp add: rows_def filter_sort filter_map without_packet_def comp_def)
    ultimately show ?thesis by simp
  qed
  have same: "rows ef' cs = rows ef cs" for cs
    using visit_agree [OF ag, of ?d "[]"] by (simp add: rows_def)
  have "collectAttemptInventory env f attemptDir = bindE (ef_tree f ?d) (\<lambda>cs. bindE (first_error (rows f cs))
      (\<lambda>rs. Inr (Sorting_Algorithms.sort (key inv_path ?lc) rs)))" for f
    by (simp add: collectAttemptInventory_def Let_def rows_def)
  moreover have "bindE (ef_tree ef' ?d) (\<lambda>cs. F (first_error (rows ef cs))) = bindE (ef_tree ef ?d) (\<lambda>cs. F (first_error (rows ef cs)))"
    for F :: "(err + inventory_entry list) \<Rightarrow> (err + inventory_entry list)"
    using tr skip by (cases "ef_tree ef' ?d"; cases "ef_tree ef ?d") (auto, metis)
  ultimately show ?thesis by (simp add: same)
qed

definition review_paths :: "string \<Rightarrow> attempt_manifest \<Rightarrow> string list" where
  "review_paths jobFile m = [jobFile, ar_manifest (am_artifacts m), (case ar_cleanup (am_artifacts m) of None \<Rightarrow> [] | Some p \<Rightarrow> p),
     ar_verification (am_artifacts m), ar_changedPaths (am_artifacts m)]
     @ (case am_workerProfile m of None \<Rightarrow> [] | Some p \<Rightarrow> map wf_path (wp_files p))"

lemma projection_agree:
  "agree_off q ef ef' \<Longrightarrow> target \<noteq> q \<Longrightarrow> validateProjection env ef' name target e = validateProjection env ef name target e"
  by (simp add: validateProjection_def agree_off_def)

lemma projections_agree:
  assumes "agree_off q ef ef'" and "q \<notin> set (review_paths (re_jobPath st) (re_manifest st))"
  shows "projections_ok env ef' st = projections_ok env ef st"
proof -
  have "validateProjection env ef' name x e = validateProjection env ef name x e"
    if "x \<in> set (review_paths (re_jobPath st) (re_manifest st))" for name x e
    using projection_agree [OF assms(1)] assms(2) that by metis
  then show ?thesis by (simp add: projections_ok_def review_paths_def)
qed

lemma profile_files_agree:
  "agree_off q ef ef' \<Longrightarrow> q \<notin> set (map wf_path fs) \<Longrightarrow> validate_profile_files ef' fs = validate_profile_files ef fs"
proof (induction fs)
  case (Cons f fs)
  then have "ef_stat ef' (wf_path f) = ef_stat ef (wf_path f)" "ef_sha256 ef' (wf_path f) = ef_sha256 ef (wf_path f)"
    by (auto simp: agree_off_def)
  moreover have "validate_profile_files ef' fs = validate_profile_files ef fs" using Cons by simp
  ultimately show ?case by (simp only: validate_profile_files.simps)
qed simp

lemma profile_agree:
  assumes "agree_off q ef ef'" and "q \<notin> set (review_paths (re_jobPath st) (re_manifest st))"
  shows "profile_evidence_ok env ef' st = profile_evidence_ok env ef st"
proof (cases "am_workerProfile (re_manifest st)")
  case (Some p)
  then have "validate_profile_files ef' (wp_files p) = validate_profile_files ef (wp_files p)"
    using profile_files_agree [OF assms(1)] assms(2) by (simp add: review_paths_def)
  then have "validateWorkerExecutionProfile env ef' p = validateWorkerExecutionProfile env ef p"
    by (simp add: validateWorkerExecutionProfile_def)
  then show ?thesis using Some by (simp add: profile_evidence_ok_def Let_def)
qed (simp add: profile_evidence_ok_def Let_def)

lemma validate_agree:
  assumes "same_evidence env (re_attemptDirectory st) ef ef'" and "q = packet_file_of env (re_attemptDirectory st)"
    and "q \<notin> set (review_paths (re_jobPath st) (re_manifest st))" and "\<forall>b \<in> set (rp_bindings p). eb_path b \<noteq> q"
    and "validateReviewPacket env ef p st = Inr ()"
  shows "validateReviewPacket env ef' p st = Inr ()"
proof -
  have ag: "agree_off q ef ef'" using assms(1,2) by (simp add: same_evidence_def)
  have "validateBindings ef' (rp_bindings p) = Inr ()"
    using assms(4,5) ag by (auto simp: validateReviewPacket_Inr validateBindings_Inr agree_off_def)
  moreover have "assertReviewEvidenceState env ef' st = Inr ()"
    using assms(5) projections_agree [OF ag assms(3)] profile_agree [OF ag assms(3)]
    by (auto simp: validateReviewPacket_Inr assertReviewEvidenceState_Inr)
  ultimately show ?thesis
    using assms(5) inventory_agree [OF assms(1)] by (auto simp: validateReviewPacket_Inr)
qed

subsection \<open>The handlers\<close>

text \<open>What only reads the records gives the same answer wherever they are the same.\<close>

definition reads_cond :: "(conductor_state, 'a) act \<Rightarrow> bool" where
  "reads_cond m \<longleftrightarrow> (\<forall>c. snd (m c) = c)"

lemma reads_condI: "(\<And>P. keeps P m) \<Longrightarrow> reads_cond m"
proof -
  assume k: "\<And>P. keeps P m"
  have "snd (m c) = c" for c using k [of "\<lambda>x. x = c"] by (simp add: keeps_def)
  then show "reads_cond m" by (simp add: reads_cond_def)
qed

lemma keeps_getVerification: "keeps P (getVerification env a)"
  unfolding getVerification_def by (intro keeps_rules)

lemma reads_conductor: "reads_cond (getAttempt a)" "reads_cond (readJobA env j)" "reads_cond (getVerification env a)"
    "reads_cond (validateProposalLineage env c l)"
  by (rule reads_condI, rule keeps_getAttempt keeps_readJobA keeps_getVerification keeps_validateProposalLineage)+

lemma on_review_cond_reads: "reads_cond m \<Longrightarrow> on_review_cond m s = (fst (m (rw_cond s)), s)"
  unfolding on_review_cond_def reads_cond_def by (simp add: case_prod_unfold)

lemma review_reads [simp]:
  "on_review_cond (getAttempt a) s = (findAttempt (cd_store (rw_cond s)) a, s)"
  "on_review_cond (readJobA env j) s = (readJob (cv_sha256 env) (cv_lc env) (cd_store (rw_cond s)) j, s)"
  "on_review_cond (getVerification env a) s = (fst (getVerification env a (rw_cond s)), s)"
  "on_review_cond (validateProposalLineage env c l) s = (fst (validateProposalLineage env c l (rw_cond s)), s)"
  using reads_conductor [THEN on_review_cond_reads] by (simp_all add: getAttempt_def readJobA_def)

definition evidence_of ::
  "review_env \<Rightarrow> evidence_files \<Rightarrow> job_contract \<Rightarrow> attempt_manifest \<Rightarrow> conductor_state \<Rightarrow> err + review_evidence_state" where
  "evidence_of env ef contract manifest c = fst (readReviewEvidenceState env ef contract manifest \<lparr>rw_cond = c, rw_packets = []\<rparr>)"

lemma readReviewEvidenceState_eq:
  "readReviewEvidenceState env ef contract manifest s = (evidence_of env ef contract manifest (rw_cond s), s)"
  by (simp add: evidence_of_def readReviewEvidenceState_def getA_def bindA_def liftE_apply Let_def split: sum.split option.split)

lemma evidence_of_Inr:
  assumes "evidence_of env ef contract m c = Inr st"
  shows "re_contract st = contract" "re_manifest st = m" "re_jobPath st = jobPath (cd_store c) (am_jobId m)"
    "re_attemptDirectory st = attemptDirectory (cd_store c) (am_jobId m) (am_attemptId m)"
    "readAttemptCleanup (cd_store c) (am_jobId m) (am_attemptId m) = Inr (re_cleanup st)"
    "fst (getVerification (rv_cond env) (am_attemptId m) c) = Inr (re_verification st)"
  using assms
  by (auto simp: evidence_of_def readReviewEvidenceState_def getA_def bindA_def liftE_apply Let_def safe_attempt_directory_def
      safeSegment_def bindE_eq_Inr split: sum.splits option.splits if_splits)

lemma evidence_of_agree:
  assumes "agree_off q ef ef'" and "q \<notin> set (review_paths jobFile m)"
  shows "evidence_of env ef' contract m c = evidence_of env ef contract m c"
proof -
  have "ef_json ef' (ar_changedPaths (am_artifacts m)) = ef_json ef (ar_changedPaths (am_artifacts m))"
    using assms by (auto simp: agree_off_def review_paths_def)
  then show ?thesis by (simp add: evidence_of_def readReviewEvidenceState_def)
qed

lemma validated_packet_valid: "validateReviewPacket env ef p st = Inr u \<Longrightarrow> reviewPacket_valid p"
  by (simp add: validateReviewPacket_Inr)

lemma stored_packet_Inr:
  "existing_packet env ef a st target s = (Inr (Some p), t) \<longleftrightarrow>
     t = s \<and> map_of (rw_packets s) target = Some (Packet_Json p) \<and> validateReviewPacket env ef p st = Inr ()"
  by (auto simp: existing_packet_def catchA_def bindA_def read_packet_def guardA_apply liftE_apply
      split: option.splits packet_file.splits sum.splits if_splits dest: validated_packet_valid)

lemma existing_packet_state: "existing_packet env ef a st target s = (r, t) \<Longrightarrow> t = s"
  by (auto simp: existing_packet_def catchA_def bindA_def read_packet_def guardA_apply liftE_apply
      split: option.splits packet_file.splits sum.splits if_splits)

lemma winner_packet_Inr:
  "winner_packet env ef st target e s = (Inr p, t) \<Longrightarrow>
     t = s \<and> map_of (rw_packets s) target = Some (Packet_Json p) \<and> validateReviewPacket env ef p st = Inr ()"
  by (auto simp: winner_packet_def catchA_def bindA_def read_packet_def guardA_apply liftE_apply
      split: option.splits packet_file.splits sum.splits if_splits)

text \<open>The evidence that the conductor holds of an attempt, when it may be reviewed.\<close>

definition reviewable ::
  "review_env \<Rightarrow> evidence_files \<Rightarrow> string \<Rightarrow> conductor_state \<Rightarrow> attempt_manifest \<Rightarrow> review_evidence_state \<Rightarrow> bool" where
  "reviewable env ef a c m st \<longleftrightarrow>
     findAttempt (cd_store c) a = Inr m \<and> am_status m = ACompleted \<and> am_verificationStatus m = V_Eligible \<and>
     (\<exists>contract. readJob (cv_sha256 (rv_cond env)) (cv_lc (rv_cond env)) (cd_store c) (am_jobId m) = Inr contract \<and>
        (case am_lineage m of None \<Rightarrow> True | Some l \<Rightarrow> pl_status l = Lineage_Composed \<longrightarrow>
           fst (validateProposalLineage (rv_cond env) contract l c) = Inr ()) \<and>
        evidence_of env ef contract m c = Inr st)"

lemma getReviewPacket_eq:
  assumes "reviewable env ef a (rw_cond s) m st"
  shows "getReviewPacket env ef a s =
    bindA (existing_packet env ef a st (packet_path m)) (\<lambda>existing.
     case existing of Some p \<Rightarrow> ret p | None \<Rightarrow> create_packet env ef a m st (packet_path m)) s"
proof -
  have lineage: "(case am_lineage m of Some l \<Rightarrow> if pl_status l = Lineage_Composed
      then on_review_cond (validateProposalLineage (rv_cond env) contract l) else ret () | None \<Rightarrow> ret ()) s = (Inr (), s)"
    if "case am_lineage m of None \<Rightarrow> True | Some l \<Rightarrow> pl_status l = Lineage_Composed \<longrightarrow>
           fst (validateProposalLineage (rv_cond env) contract l (rw_cond s)) = Inr ()" for contract
    using that by (simp split: option.splits)
  show ?thesis
    using assms lineage unfolding reviewable_def getReviewPacket_def
    by (auto simp: bindA_def guardA_apply readReviewEvidenceState_eq)
qed

lemma getReviewPacket_Inr:
  assumes "getReviewPacket env ef a s = (Inr p, t)"
  obtains m st where "reviewable env ef a (rw_cond s) m st"
  using assms unfolding getReviewPacket_def reviewable_def
  by (auto simp: bindA_def guardA_apply readReviewEvidenceState_eq
      split: sum.splits if_splits option.splits prod.splits)

lemma reviewable_unique: "reviewable env ef a c m st \<Longrightarrow> reviewable env ef a c m' st' \<Longrightarrow> m' = m \<and> st' = st"
  by (auto simp: reviewable_def)

text \<open>What a returned packet rests on, and where it is stored then.\<close>

lemma returned_packet:
  assumes "getReviewPacket env ef a s = (Inr p, t)"
  obtains m st where "reviewable env ef a (rw_cond s) m st" "rw_cond t = rw_cond s"
    "validateReviewPacket env ef p st = Inr ()" "map_of (rw_packets t) (packet_path m) = Some (Packet_Json p)"
    "t = s \<or> (\<exists>now. buildReviewPacket env ef st now = Inr p)"
proof -
  obtain m st where rv: "reviewable env ef a (rw_cond s) m st" using getReviewPacket_Inr [OF assms] .
  note run = assms [unfolded getReviewPacket_eq [OF rv]]
  obtain ex where ex: "existing_packet env ef a st (packet_path m) s = (Inr ex, s)"
    using run existing_packet_state by (auto simp: bindA_eq_Inr)
  show ?thesis
  proof (cases ex)
    case (Some q)
    then have "q = p" "t = s" using run ex by (auto simp: bindA_def)
    then show ?thesis using that [OF rv] ex Some by (simp add: stored_packet_Inr)
  next
    case None
    then have "create_packet env ef a m st (packet_path m) s = (Inr p, t)" using run ex by (simp add: bindA_def)
    then obtain packet where b: "buildReviewPacket env ef st None = Inr packet"
      and rest: "bindA (catchA (bindA (write_packet env (packet_path m) packet) (\<lambda>_. ret None))
         (\<lambda>e. bindA (winner_packet env ef st (packet_path m) e) (\<lambda>w. ret (Some w)))) (\<lambda>winner.
       case winner of Some w \<Rightarrow> ret w
       | None \<Rightarrow> bindA (current_evidence env ef (am_jobId m) a) (\<lambda>st'.
           bindA (liftE (validateReviewPacket env ef packet st')) (\<lambda>_. ret packet))) s = (Inr p, t)"
      by (auto simp: create_packet_def bindA_eq_Inr liftE_apply)
    show ?thesis
    proof (cases "rv_writePacket env")
      case (Inl e)
      then have "winner_packet env ef st (packet_path m) e s = (Inr p, t)"
        using rest by (auto simp: write_packet_def bindA_def catchA_def split: sum.splits prod.splits)
      then show ?thesis using that [OF rv] winner_packet_Inr by metis
    next
      case (Inr u)
      let ?t = "s\<lparr>rw_packets := AList.update (packet_path m) (Packet_Json packet) (rw_packets s)\<rparr>"
      have fin: "bindA (current_evidence env ef (am_jobId m) a) (\<lambda>st'. bindA (liftE (validateReviewPacket env ef packet st')) (\<lambda>_. ret packet)) ?t
          = (Inr p, t)"
        using rest Inr by (simp add: write_packet_def bindA_def catchA_def)
      obtain contract where c: "readJob (cv_sha256 (rv_cond env)) (cv_lc (rv_cond env)) (cd_store (rw_cond s)) (am_jobId m) = Inr contract"
        "evidence_of env ef contract m (rw_cond s) = Inr st" "findAttempt (cd_store (rw_cond s)) a = Inr m"
        using rv by (auto simp: reviewable_def)
      have "current_evidence env ef (am_jobId m) a ?t = (Inr st, ?t)"
        using c by (simp add: current_evidence_def bindA_def readReviewEvidenceState_eq)
      then have v: "validateReviewPacket env ef packet st = Inr ()" "packet = p" "t = ?t"
        using fin by (auto simp: bindA_def liftE_apply split: sum.splits)
      show ?thesis by (rule that [OF rv]) (use v b in \<open>auto simp: update_conv'\<close>)
    qed
  qed
qed

subsection \<open>A fresh packet\<close>

lemma add_evidence_grows:
  "map_of r x = Some ps \<Longrightarrow> \<exists>ps'. map_of (add_evidence env r e) x = Some ps' \<and> set ps \<subseteq> set ps'"
  by (cases e) (auto simp: add_evidence_def Let_def update_conv' split: option.splits)

lemma add_evidence_adds:
  "truthy target \<Longrightarrow> \<exists>ps. map_of (add_evidence env r (target, purpose)) (resolve_path env (the target)) = Some ps \<and> purpose \<in> set ps"
  by (auto simp: add_evidence_def Let_def update_conv')

lemma requested_bound:
  "(target, purpose) \<in> set es \<Longrightarrow> truthy target \<Longrightarrow>
   \<exists>ps. map_of (foldl (add_evidence env) r es) (resolve_path env (the target)) = Some ps \<and> purpose \<in> set ps"
proof (induction es rule: rev_induct)
  case (snoc e es)
  show ?case
  proof (cases "e = (target, purpose)")
    case True
    then show ?thesis using add_evidence_adds [OF snoc.prems(2)] by simp
  next
    case False
    then obtain ps where "map_of (foldl (add_evidence env) r es) (resolve_path env (the target)) = Some ps" "purpose \<in> set ps"
      using snoc by auto
    then show ?thesis using add_evidence_grows by fastforce
  qed
qed simp

lemma bind_evidence_Inr:
  "bind_evidence ef (x, ps) = Inr b \<Longrightarrow> eb_path b = x \<and> set (eb_purposes b) = set ps \<and>
     ef_stat ef x = Inr (True, eb_size b) \<and> ef_sha256 ef x = Inr (eb_sha256 b)"
  by (cases "ef_sha256 ef x") (auto simp: bind_evidence_def split: sum.splits if_splits)

lemma read_all_member:
  assumes "read_all f xs = Inr ys"
  shows "x \<in> set xs \<Longrightarrow> \<exists>y \<in> set ys. f x = Inr y" and "y \<in> set ys \<Longrightarrow> \<exists>x \<in> set xs. f x = Inr y"
proof -
  have m: "map f xs = map Inr ys" by (rule iffD1 [OF read_all_Inr assms])
  then have "f ` set xs = Inr ` set ys" by (metis list.set_map)
  then show "x \<in> set xs \<Longrightarrow> \<exists>y \<in> set ys. f x = Inr y" and "y \<in> set ys \<Longrightarrow> \<exists>x \<in> set xs. f x = Inr y"
    by (blast, metis imageE imageI)
qed

lemma collected_bindings:
  assumes "collectEvidenceBindings env ef st = Inr bs"
  shows "b \<in> set bs \<Longrightarrow> ef_stat ef (eb_path b) = Inr (True, eb_size b) \<and> ef_sha256 ef (eb_path b) = Inr (eb_sha256 b)"
    and "(target, purpose) \<in> set (requested_evidence st) \<Longrightarrow> truthy target \<Longrightarrow>
      \<exists>b \<in> set bs. eb_path b = resolve_path env (the target) \<and> purpose \<in> set (eb_purposes b)"
proof -
  let ?req = "foldl (add_evidence env) [] (requested_evidence st)"
  obtain rs where r: "read_all (bind_evidence ef) (Sorting_Algorithms.sort (key fst (cv_lc (rv_cond env))) ?req) = Inr bs"
    using assms by (auto simp: collectEvidenceBindings_def bindE_eq_Inr)
  show "b \<in> set bs \<Longrightarrow> ef_stat ef (eb_path b) = Inr (True, eb_size b) \<and> ef_sha256 ef (eb_path b) = Inr (eb_sha256 b)"
    using read_all_member(2) [OF r] bind_evidence_Inr by (metis surj_pair)
  assume t: "(target, purpose) \<in> set (requested_evidence st)" "truthy target"
  obtain ps where "map_of ?req (resolve_path env (the target)) = Some ps" "purpose \<in> set ps"
    using requested_bound [OF t] by blast
  then show "\<exists>b \<in> set bs. eb_path b = resolve_path env (the target) \<and> purpose \<in> set (eb_purposes b)"
    using read_all_member(1) [OF r, of "(resolve_path env (the target), ps)"] bind_evidence_Inr map_of_SomeD
    by (metis (no_types, lifting) set_sort)
qed

lemma built_packet:
  assumes "buildReviewPacket env ef st now = Inr p"
  shows "validateReviewPacket env ef p st = Inr ()" "collectEvidenceBindings env ef st = Inr (rp_bindings p)"
proof -
  obtain sealedAt inventory bindings where b: "assertReviewEvidenceState env ef st = Inr ()"
    "collectEvidenceBindings env ef st = Inr bindings"
    "collectAttemptInventory env ef (re_attemptDirectory st) = Inr inventory"
    and p: "p = review_body.extend \<lparr>rp_sealedAt = sealedAt, rp_jobId = am_jobId (re_manifest st), rp_attemptId = am_attemptId (re_manifest st),
               rp_contract = re_contract st, rp_attempt = re_manifest st, rp_cleanup = re_cleanup st,
               rp_verification = re_verification st, rp_changedPaths = re_changedPaths st, rp_bindings = bindings,
               rp_attemptInventory = inventory, rp_reviewerContract = createReviewerContract\<rparr> \<lparr>rp_sealSha256 =
             seal env \<lparr>rp_sealedAt = sealedAt, rp_jobId = am_jobId (re_manifest st), rp_attemptId = am_attemptId (re_manifest st),
               rp_contract = re_contract st, rp_attempt = re_manifest st, rp_cleanup = re_cleanup st,
               rp_verification = re_verification st, rp_changedPaths = re_changedPaths st, rp_bindings = bindings,
               rp_attemptInventory = inventory, rp_reviewerContract = createReviewerContract\<rparr>\<rparr>" "reviewPacket_valid p"
    using assms by (auto simp: buildReviewPacket_def bindE_eq_Inr Let_def split: option.splits if_splits)
  have f: "rp_contract p = re_contract st" "rp_attempt p = re_manifest st" "rp_cleanup p = re_cleanup st"
    "rp_verification p = re_verification st" "rp_changedPaths p = re_changedPaths st" "rp_bindings p = bindings"
    "rp_attemptInventory p = inventory" "rp_reviewerContract p = createReviewerContract" "rp_jobId p = am_jobId (re_manifest st)"
    "rp_attemptId p = am_attemptId (re_manifest st)" "seal env (review_body.truncate p) = rp_sealSha256 p"
    unfolding p(1) by (simp_all add: review_body.defs)
  show "collectEvidenceBindings env ef st = Inr (rp_bindings p)" using b(2) f by simp
  have "validateBindings ef bindings = Inr ()"
    using collected_bindings(1) [OF b(2)] by (simp add: validateBindings_Inr)
  moreover have "sealed_current env p st" by (simp add: sealed_current_def sealed_comparisons_def f)
  ultimately show "validateReviewPacket env ef p st = Inr ()"
    using b p(2) f by (simp add: validateReviewPacket_Inr)
qed

lemma profile_json_sealed [simp]: "profile_json env (p\<lparr>wp_profileFingerprint := x\<rparr>) = profile_json env p"
  by (simp add: profile_json_def)

lemma capture_files_bound: "f \<in> set (fst (capture_files ef cs)) \<Longrightarrow>
    ef_stat ef (wf_path f) = Inr (True, wf_size f) \<and> ef_sha256 ef (wf_path f) = Inr (wf_sha256 f)"
  by (induction cs) (auto split: sum.splits prod.splits if_splits)

lemma captured_fields:
  assumes "captureWorkerExecutionProfile env ef adapter contract invocation now = Inr p"
  shows "wp_adapter p = wa_description adapter" "wp_adapterOptionsFingerprint p = fingerprint_of env (options_json contract)"
    "wp_invocationFingerprint p = fingerprint_of env (invocation_json \<lparr>iv_executable = pi_executable invocation,
        iv_args = pi_args invocation, iv_cwd = pi_cwd invocation, iv_environmentKeys = js_sort (map fst (pi_env invocation))\<rparr>)"
  using assms by (auto simp: captureWorkerExecutionProfile_def Let_def split: prod.splits if_splits) (simp_all add: unsealed_profile_def)

text \<open>A complete profile that was just captured passes the validation.\<close>

lemma captured_profile_validates:
  assumes "captureWorkerExecutionProfile env ef adapter contract invocation now = Inr p" and "wp_status p = Profile_Complete"
  shows "validateWorkerExecutionProfile env ef p = Inr ()"
proof -
  let ?cs = "Sorting_Algorithms.sort (key fst (cv_lc (rv_cond env))) (profile_candidates env invocation (declared_evidence adapter))"
  have "wp_files p = fst (capture_files ef ?cs)" "workerExecutionProfile_valid p"
    "fingerprint_of env (profile_json env p) = wp_profileFingerprint p"
    using assms(1)
    by (auto simp: captureWorkerExecutionProfile_def Let_def split: prod.splits if_splits) (simp_all add: unsealed_profile_def)
  then show ?thesis
    using assms(2) capture_files_bound by (auto simp: validateProfile_Inr validate_profile_files_Inr)
qed

subsection \<open>A sample\<close>

definition rev_env :: review_env where
  "rev_env = \<lparr>rv_cond = witness_env, rv_cwd = ''/'', rv_iso = (\<lambda>_. ''then''), rv_contractJson = (\<lambda>_. JNull), rv_attemptJson = (\<lambda>_. JNull),
     rv_cleanupJson = (\<lambda>_. JNull), rv_verificationJson = (\<lambda>_. JNull), rv_writePacket = Inr ()\<rparr>"

definition rev_dir :: string where
  "rev_dir = ''/r/jobs/job_1/attempts/job_1_a0001''"

definition rev_files :: evidence_files where
  "rev_files = \<lparr>ef_stat = (\<lambda>_. Inr (True, 1)), ef_sha256 = (\<lambda>_. Inr (replicate 64 (CHR ''f''))),
     ef_json = (\<lambda>p. Inr (if p = path_join rev_dir ''changed-paths.json'' then JArr [] else JNull)), ef_head = (\<lambda>_ _. Inr []),
     ef_tree = (\<lambda>_. Inr [])\<rparr>"

definition rev_adapter :: worker_adapter where
  "rev_adapter = \<lparr>wa_description = \<lparr>pa_id = ''local'', pa_label = ''l'', pa_executable = ''w'', pa_outputFormat = Output_Text,
     pa_safetyMode = ''s'', pa_hostExecution = None, pa_modelIdentity = Model_Not_Applicable\<rparr>, wa_profileEvidence = None\<rparr>"

definition rev_invocation :: process_invocation where
  "rev_invocation = \<lparr>pi_executable = ''/w'', pi_args = [], pi_cwd = ''/x'', pi_env = [], pi_cleanup = None\<rparr>"

definition rev_profile :: worker_execution_profile where
  "rev_profile = projr (captureWorkerExecutionProfile rev_env rev_files rev_adapter sample_job rev_invocation 3)"

lemma rev_env_simps [simp]: "rv_cond rev_env = witness_env" "rv_cwd rev_env = ''/''" "rv_contractJson rev_env c = JNull"
    "rv_attemptJson rev_env m = JNull" "rv_cleanupJson rev_env cl = JNull" "rv_verificationJson rev_env v = JNull"
    "rv_writePacket rev_env = Inr ()"
  by (simp_all add: rev_env_def)

lemma rev_files_simps [simp]: "ef_stat rev_files p = Inr (True, 1)" "ef_sha256 rev_files p = Inr (replicate 64 (CHR ''f''))"
    "ef_tree rev_files p = Inr []"
    "ef_json rev_files p = Inr (if p = path_join rev_dir ''changed-paths.json'' then JArr [] else JNull)"
  by (simp_all add: rev_files_def)

lemma hex_f [simp]: "is_hex64 (replicate 64 (CHR ''f''))"
  by (simp add: is_hex64_def list_all_iff)

lemma freeze_options: "freezeJobRequest sha256 lc r rroot brev now gid sb prof = Inr c \<Longrightarrow> jc_adapterOptions c = jr_adapterOptions r"
  by (auto simp: freezeJobRequest_def Let_def split: if_splits sum.splits)

lemma sample_no_model: "job_model sample_job = None" "jc_adapterOptions sample_job = []"
  using freeze_options [OF sample_freeze] by (simp_all add: job_model_def sample_job_def sample_request_def)

lemma rev_captured: "captureWorkerExecutionProfile rev_env rev_files rev_adapter sample_job rev_invocation 3 = Inr rev_profile"
    "wp_status rev_profile = Profile_Complete" "map wf_path (wp_files rev_profile) = [''/w'']"
  by (simp_all add: rev_profile_def captureWorkerExecutionProfile_def Let_def unsealed_profile_def rev_adapter_def rev_invocation_def declared_evidence_def
    declared_model_def sample_no_model model_selector_def model_reasons_def evidence_failure_def profile_candidates_def
    posix_resolve_def workerExecutionProfile_valid_def fingerprint_def opt_nonempty_def js_sort_def)

definition rev_manifest :: attempt_manifest where
  "rev_manifest = sample_manifest\<lparr>am_status := ACompleted, am_verificationStatus := V_Eligible, am_finishedAt := Some 9,
     am_workerProfile := Some rev_profile, am_invocation := Some \<lparr>iv_executable = ''/w'', iv_args = [], iv_cwd = ''/x'', iv_environmentKeys = []\<rparr>\<rparr>"

lemma rev_manifest_simps [simp]: "am_jobId rev_manifest = ''job_1''" "am_attemptId rev_manifest = ''job_1_a0001''"
    "am_revision rev_manifest = 0" "am_status rev_manifest = ACompleted" "am_verificationStatus rev_manifest = V_Eligible"
    "am_finishedAt rev_manifest = Some 9" "am_workerProfile rev_manifest = Some rev_profile"
    "am_invocation rev_manifest = Some \<lparr>iv_executable = ''/w'', iv_args = [], iv_cwd = ''/x'', iv_environmentKeys = []\<rparr>"
    "am_artifacts rev_manifest = am_artifacts sample_manifest" "am_lineage rev_manifest = None" "attemptManifest_valid rev_manifest"
  using sample_manifest_facts(5) by (simp_all add: rev_manifest_def attemptManifest_valid_def)

definition rev_cond :: conductor_state where
  "rev_cond = witness_state rev_manifest sample_cleanup_record"

definition rev_state :: review_state where
  "rev_state = \<lparr>rw_cond = rev_cond, rw_packets = []\<rparr>"

definition rev_evidence :: review_evidence_state where
  "rev_evidence = \<lparr>re_contract = sample_job, re_manifest = rev_manifest, re_cleanup = sample_cleanup_record,
     re_verification = (createVerificationRecord ''job_1'' ''job_1_a0001'' False False 5)\<lparr>vr_eligibleForReview := True\<rparr>,
     re_changedPaths = [], re_attemptDirectory = rev_dir, re_jobPath = ''/r/jobs/job_1/job.json''\<rparr>"

lemma rev_artifacts: "am_artifacts sample_manifest = \<lparr>ar_job = ''/r/jobs/job_1/job.json'', ar_manifest = path_join rev_dir ''attempt.json'',
     ar_stdout = path_join rev_dir ''stdout.log'', ar_stderr = path_join rev_dir ''stderr.log'',
     ar_proposalPatch = path_join rev_dir ''proposal.patch'', ar_repositoryStatus = path_join rev_dir ''repository-status.txt'',
     ar_changedPaths = path_join rev_dir ''changed-paths.json'', ar_verification = path_join rev_dir ''verification.json'',
     ar_cleanup = Some (path_join rev_dir ''cleanup.json'')\<rparr>"
  by (simp add: sample_manifest_def createReservedAttempt_def Let_def validity_defs attempt_artifacts_of_def rev_dir_def
      path_join_def jobPath_def attemptManifestPath_def attemptDirectory_def attemptsRoot_def jobDirectory_def jobsRoot_def empty_store_def)

lemma rev_store_paths: "attemptDirectory (cd_store rev_cond) ''job_1'' ''job_1_a0001'' = rev_dir"
    "jobPath (cd_store rev_cond) ''job_1'' = ''/r/jobs/job_1/job.json''"
  by (simp_all add: rev_cond_def witness_store_def put_attempt_def put_job_def empty_store_def rev_dir_def
      path_join_def jobPath_def attemptDirectory_def attemptsRoot_def jobDirectory_def jobsRoot_def)

lemma rev_paths_ok: "assertReviewArtifactPaths rev_env rev_manifest rev_dir ''/r/jobs/job_1/job.json'' = Inr ()"
  by (simp add: assertReviewArtifactPaths_def expected_artifacts_def rev_artifacts rev_dir_def path_join_def posix_resolve_def)

lemma rev_reads: "readAttemptCleanup (cd_store rev_cond) ''job_1'' ''job_1_a0001'' = Inr sample_cleanup_record"
  by (simp add: rev_cond_def)

lemma rev_reviewable: "reviewable rev_env rev_files ''job_1_a0001'' rev_cond rev_manifest rev_evidence"
proof -
  have "cv_readVerification witness_env p =
      Inr ((createVerificationRecord ''job_1'' ''job_1_a0001'' False False 5)\<lparr>vr_eligibleForReview := True\<rparr>)" for p
    by (simp add: witness_env_def)
  then have "fst (getVerification witness_env ''job_1_a0001'' rev_cond) =
      Inr ((createVerificationRecord ''job_1'' ''job_1_a0001'' False False 5)\<lparr>vr_eligibleForReview := True\<rparr>)"
    by (simp add: rev_cond_def getVerification_def bindA_def getAttempt_def liftE_apply)
  then have "evidence_of rev_env rev_files sample_job rev_manifest rev_cond = Inr rev_evidence"
    using rev_store_paths rev_paths_ok rev_reads
    by (simp add: evidence_of_def readReviewEvidenceState_def Let_def getA_def bindA_def liftE_apply safe_attempt_directory_def
        safeSegment_def rev_artifacts rev_evidence_def)
  then show ?thesis by (simp add: reviewable_def rev_cond_def)
qed

text \<open>Which paths the bindings have, and that each has a purpose.\<close>

lemma set_AList_update: "set (AList.update k v al) \<subseteq> insert (k, v) (set al)"
  by (induction al) auto

lemma add_evidence_eq:
  "truthy target \<Longrightarrow> add_evidence env r (target, purpose) =
     AList.update (resolve_path env (the target)) (List.insert purpose
       (case map_of r (resolve_path env (the target)) of None \<Rightarrow> [] | Some ps \<Rightarrow> ps)) r"
  by (simp add: add_evidence_def Let_def)

lemma add_evidence_skip: "\<not> truthy target \<Longrightarrow> add_evidence env r (target, purpose) = r"
  by (simp add: add_evidence_def)

lemma requested_entries:
  "e \<in> set (foldl (add_evidence env) [] es) \<Longrightarrow>
   snd e \<noteq> [] \<and> (\<exists>target purpose. (target, purpose) \<in> set es \<and> truthy target \<and> fst e = resolve_path env (the target))"
proof (induction es arbitrary: e rule: rev_induct)
  case (snoc x es)
  obtain target purpose where x: "x = (target, purpose)" by fastforce
  let ?r = "foldl (add_evidence env) [] es" and ?a = "resolve_path env (the target)"
  show ?case
  proof (cases "truthy target \<and> e \<notin> set ?r")
    case True
    have "e \<in> set (AList.update ?a (List.insert purpose (case map_of ?r ?a of None \<Rightarrow> [] | Some ps \<Rightarrow> ps)) ?r)"
      using snoc.prems x True add_evidence_eq [of target env ?r purpose] by simp
    then have "e = (?a, List.insert purpose (case map_of ?r ?a of None \<Rightarrow> [] | Some ps \<Rightarrow> ps))"
      using set_AList_update True by fastforce
    moreover have "List.insert purpose ps \<noteq> []" for ps by (auto simp: List.insert_def)
    ultimately show ?thesis using True x by auto
  next
    case False
    then have "e \<in> set ?r" using snoc.prems x by (cases "truthy target") (auto simp: add_evidence_skip)
    then show ?thesis using snoc.IH by fastforce
  qed
qed simp

lemma read_all_total: "(\<forall>x \<in> set xs. \<exists>y. f x = Inr y) \<Longrightarrow> \<exists>ys. read_all f xs = Inr ys"
  by (induction xs) auto

lemma rev_bindings: "\<exists>bs. collectEvidenceBindings rev_env rev_files rev_evidence = Inr bs \<and> bs \<noteq> [] \<and>
    (\<forall>b \<in> set bs. eb_purposes b \<noteq> [] \<and> eb_sha256 b = replicate 64 (CHR ''f'') \<and>
       (\<exists>target purpose. (target, purpose) \<in> set (requested_evidence rev_evidence) \<and> truthy target \<and>
          eb_path b = resolve_path rev_env (the target)))"
proof -
  let ?req = "foldl (add_evidence rev_env) [] (requested_evidence rev_evidence)"
  let ?xs = "Sorting_Algorithms.sort (key fst default) ?req"
  have cmds: "command_evidence_of rev_evidence = []"
    by (simp add: command_evidence_of_def rev_evidence_def createVerificationRecord_def)
  have "\<exists>b. bind_evidence rev_files e = Inr b" for e by (cases e) (simp add: bind_evidence_def)
  then obtain bs where bs: "read_all (bind_evidence rev_files) ?xs = Inr bs" using read_all_total by metis
  then have c: "collectEvidenceBindings rev_env rev_files rev_evidence = Inr bs"
    by (simp add: collectEvidenceBindings_def cmds)
  have "(Some ''/r/jobs/job_1/job.json'', Ep_Job) \<in> set (requested_evidence rev_evidence)"
    by (simp add: requested_evidence_def artifact_evidence_def rev_evidence_def Let_def)
  from collected_bindings(2) [OF c this] have "bs \<noteq> []" by (auto simp: truthy_def)
  moreover have "eb_purposes b \<noteq> [] \<and> eb_sha256 b = replicate 64 (CHR ''f'') \<and>
       (\<exists>target purpose. (target, purpose) \<in> set (requested_evidence rev_evidence) \<and> truthy target \<and>
          eb_path b = resolve_path rev_env (the target))" if b: "b \<in> set bs" for b
  proof -
    obtain x ps where e: "(x, ps) \<in> set ?req" "bind_evidence rev_files (x, ps) = Inr b"
      using read_all_member(2) [OF bs b] by auto
    note f = bind_evidence_Inr [OF e(2)] and r = requested_entries [OF e(1)]
    have "eb_purposes b \<noteq> []" using f r by auto
    then show ?thesis using f r by auto
  qed
  ultimately show ?thesis using c by blast
qed

lemma rev_requested: "requested_evidence rev_evidence =
    [(Some ''/r/jobs/job_1/job.json'', Ep_Job), (Some (path_join rev_dir ''attempt.json''), Ep_Attempt),
     (Some (path_join rev_dir ''cleanup.json''), Ep_Cleanup), (Some (path_join rev_dir ''proposal.patch''), Ep_ProposalPatch),
     (Some (path_join rev_dir ''repository-status.txt''), Ep_RepositoryStatus), (Some (path_join rev_dir ''changed-paths.json''), Ep_ChangedPaths),
     (Some (path_join rev_dir ''verification.json''), Ep_Verification), (Some (path_join rev_dir ''stdout.log''), Ep_WorkerStdout),
     (Some (path_join rev_dir ''stderr.log''), Ep_WorkerStderr), (Some ''/w'', profile_purpose (wf_role (hd (wp_files rev_profile))))]"
proof -
  obtain f where "wp_files rev_profile = [f]" "wf_path f = ''/w''" using rev_captured(3) by (auto simp: map_eq_Cons_conv)
  then show ?thesis
    by (simp add: requested_evidence_def artifact_evidence_def command_evidence_of_def rev_evidence_def rev_artifacts Let_def
        createVerificationRecord_def)
qed

definition rev_packet_file :: string where
  "rev_packet_file = path_join rev_dir ''review-packet.json''"

lemma rev_apart: "(target, purpose) \<in> set (requested_evidence rev_evidence) \<Longrightarrow> truthy target \<Longrightarrow>
    resolve_path rev_env (the target) \<noteq> rev_packet_file \<and> resolve_path rev_env (the target) \<noteq> []"
  unfolding rev_requested by (auto simp: rev_packet_file_def rev_dir_def path_join_def posix_resolve_def)

lemma rev_state_ok: "assertReviewEvidenceState rev_env rev_files rev_evidence = Inr ()"
proof -
  have "profile_agrees rev_env sample_job \<lparr>iv_executable = ''/w'', iv_args = [], iv_cwd = ''/x'', iv_environmentKeys = []\<rparr> rev_profile"
    using captured_fields [OF rev_captured(1)] sample_no_model
    by (simp add: profile_agrees_def rev_adapter_def rev_invocation_def js_sort_def)
  then have "profile_evidence_ok rev_env rev_files rev_evidence = Inr ()"
    using captured_profile_validates [OF rev_captured(1,2)] rev_captured(2)
    by (simp add: profile_evidence_ok_def rev_evidence_def Let_def checkE_def)
  moreover have "projections_ok rev_env rev_files rev_evidence = Inr ()"
    by (simp add: projections_ok_def validateProjection_def checkE_def rev_evidence_def rev_artifacts Let_def jstrs_def rev_dir_def path_join_def)
  ultimately show ?thesis
    using rev_paths_ok
    by (simp add: assertReviewEvidenceState_Inr rev_evidence_def createVerificationRecord_def)
qed

lemma rev_built: "\<exists>p. buildReviewPacket rev_env rev_files rev_evidence None = Inr p"
proof -
  obtain bs where bs: "collectEvidenceBindings rev_env rev_files rev_evidence = Inr bs" "bs \<noteq> []"
    "\<forall>b \<in> set bs. eb_purposes b \<noteq> [] \<and> eb_sha256 b = replicate 64 (CHR ''f'') \<and>
       (\<exists>target purpose. (target, purpose) \<in> set (requested_evidence rev_evidence) \<and> truthy target \<and>
          eb_path b = resolve_path rev_env (the target))" using rev_bindings by blast
  have v: "list_all (\<lambda>b. eb_path b \<noteq> [] \<and> eb_purposes b \<noteq> [] \<and> is_hex64 (eb_sha256 b)) bs"
    using bs(3) rev_apart hex_f unfolding list_all_iff by metis
  have ev: "re_contract rev_evidence = sample_job" "re_manifest rev_evidence = rev_manifest"
    "re_cleanup rev_evidence = sample_cleanup_record" by (simp_all add: rev_evidence_def)
  have inv: "collectAttemptInventory rev_env rev_files (re_attemptDirectory rev_evidence) = Inr []"
    by (simp add: collectAttemptInventory_def Let_def)
  have cv: "attemptCleanupRecord_valid sample_cleanup_record"
    by (simp add: sample_cleanup_record_def attemptCleanupRecord_valid_def)
  have hex: "is_hex64 (seal rev_env b)" for b by (simp add: seal_def fingerprint_def)
  show ?thesis
    using rev_state_ok bs(1,2) v inv cv hex sample_contract_facts(1)
    by (simp add: buildReviewPacket_def Let_def reviewPacket_valid_def review_body.defs ev)
qed

lemma rev_run: "\<exists>p t. getReviewPacket rev_env rev_files ''job_1_a0001'' rev_state = (Inr p, t) \<and>
    (\<forall>b \<in> set (rp_bindings p). eb_path b \<noteq> rev_packet_file)"
proof -
  obtain p where p: "buildReviewPacket rev_env rev_files rev_evidence None = Inr p" using rev_built by blast
  have rv: "reviewable rev_env rev_files ''job_1_a0001'' (rw_cond rev_state) rev_manifest rev_evidence"
    using rev_reviewable by (simp add: rev_state_def)
  let ?t = "rev_state\<lparr>rw_packets := AList.update (packet_path rev_manifest) (Packet_Json p) (rw_packets rev_state)\<rparr>"
  have none: "existing_packet rev_env rev_files ''job_1_a0001'' rev_evidence (packet_path rev_manifest) rev_state = (Inr None, rev_state)"
    by (simp add: existing_packet_def catchA_def bindA_def read_packet_def rev_state_def)
  have cur: "current_evidence rev_env rev_files ''job_1'' ''job_1_a0001'' ?t = (Inr rev_evidence, ?t)"
    using rv by (auto simp: current_evidence_def bindA_def readReviewEvidenceState_eq reviewable_def)
  have "getReviewPacket rev_env rev_files ''job_1_a0001'' rev_state = (Inr p, ?t)"
    unfolding getReviewPacket_eq [OF rv] using none p cur built_packet(1) [OF p]
    by (simp add: bindA_def create_packet_def catchA_def write_packet_def liftE_apply)
  moreover have "eb_path b \<noteq> rev_packet_file" if "b \<in> set (rp_bindings p)" for b
    using built_packet(2) [OF p] rev_bindings rev_apart that by (metis Inr_inject)
  ultimately show ?thesis by blast
qed

subsection \<open>What a packet promises\<close>

text \<open>
  C14. A review packet is never handed out against the evidence. Whatever stood in the packet file, when a packet is
  returned its attempt is completed and eligible with settled cleanup, the worker that ran it was profiled completely
  and each file of that profile is unchanged, the sealed contract, attempt, cleanup, verification and changed paths are
  those that the stores hold now, each bound file is a regular file with the sealed size and digest, and the attempt
  directory holds exactly the sealed inventory.
\<close>

theorem returned_packet_matches_evidence:
  assumes "getReviewPacket env ef a s = (Inr p, t)"
  shows "\<exists>m st profile inventory. reviewable env ef a (rw_cond t) m st \<and> rp_attemptId p = am_attemptId m \<and>
    cr_status (re_cleanup st) \<in> {C_NotRequired, C_Proven} \<and> vr_eligibleForReview (re_verification st) \<and>
    am_workerProfile m = Some profile \<and> wp_status profile = Profile_Complete \<and>
    (\<forall>f \<in> set (wp_files profile). ef_stat ef (wf_path f) = Inr (True, wf_size f) \<and> ef_sha256 ef (wf_path f) = Inr (wf_sha256 f)) \<and>
    seal env (review_body.truncate p) = rp_sealSha256 p \<and> sealed_current env p st \<and>
    (\<forall>b \<in> set (rp_bindings p). ef_stat ef (eb_path b) = Inr (True, eb_size b) \<and> ef_sha256 ef (eb_path b) = Inr (eb_sha256 b)) \<and>
    collectAttemptInventory env ef (re_attemptDirectory st) = Inr inventory \<and>
    canonical env (JArr (map inventory_json inventory)) = canonical env (JArr (map inventory_json (rp_attemptInventory p)))"
proof -
  obtain m st where rv: "reviewable env ef a (rw_cond s) m st" "rw_cond t = rw_cond s"
    and v: "validateReviewPacket env ef p st = Inr ()"
    using returned_packet [OF assms] by metis
  have m: "re_manifest st = m" using rv(1) by (auto simp: reviewable_def dest: evidence_of_Inr)
  have ok: "assertReviewEvidenceState env ef st = Inr ()" using v by (simp add: validateReviewPacket_Inr)
  then have "profile_evidence_ok env ef st = Inr ()" by (simp add: assertReviewEvidenceState_Inr)
  then obtain profile where "am_workerProfile m = Some profile" "validateWorkerExecutionProfile env ef profile = Inr ()"
    using profile_evidence_ok_Inr m by metis
  then show ?thesis
    using rv v ok m by (auto simp: validateReviewPacket_Inr assertReviewEvidenceState_Inr validateProfile_Inr
        validate_profile_files_Inr validateBindings_Inr)
qed

theorem returned_packet_matches_evidence_witness:
  "\<exists>p t m st. getReviewPacket rev_env rev_files ''job_1_a0001'' rev_state = (Inr p, t) \<and>
     reviewable rev_env rev_files ''job_1_a0001'' (rw_cond t) m st \<and> sealed_current rev_env p st"
proof -
  obtain p t where run: "getReviewPacket rev_env rev_files ''job_1_a0001'' rev_state = (Inr p, t)" using rev_run by blast
  from returned_packet_matches_evidence [OF run] run show ?thesis by blast
qed

text \<open>
  C15. A packet that was returned is returned again. After a call returned a packet, every later call on the same
  records returns the same packet and leaves the stores alone, also once the packet file appears in the attempt
  directory it seals: as long as every other file and the rest of the directory are as they were, storing the packet
  does not break its own seal.
\<close>

theorem review_packet_stable:
  assumes "getReviewPacket env ef a s = (Inr p, t)" and "reviewable env ef a (rw_cond s) m st"
    and "same_evidence env (re_attemptDirectory st) ef ef'"
    and "packet_file_of env (re_attemptDirectory st) \<notin> set (review_paths (re_jobPath st) m @ map eb_path (rp_bindings p))"
  shows "getReviewPacket env ef' a t = (Inr p, t)"
proof -
  let ?q = "packet_file_of env (re_attemptDirectory st)"
  obtain m' st' where r: "reviewable env ef a (rw_cond s) m' st'" "rw_cond t = rw_cond s" "validateReviewPacket env ef p st' = Inr ()"
    "map_of (rw_packets t) (packet_path m') = Some (Packet_Json p)"
    using returned_packet [OF assms(1)] by metis
  have eq: "m' = m" "st' = st" using reviewable_unique [OF assms(2) r(1)] by simp_all
  have m: "re_manifest st = m" using assms(2) by (auto simp: reviewable_def dest: evidence_of_Inr)
  have ag: "agree_off ?q ef ef'" using assms(3) by (simp add: same_evidence_def)
  have q: "?q \<notin> set (review_paths (re_jobPath st) m)" "\<forall>b \<in> set (rp_bindings p). eb_path b \<noteq> ?q"
    using assms(4) by (simp, metis imageI list.set_map set_append Un_iff)
  have rv: "reviewable env ef' a (rw_cond t) m st"
    using assms(2) r(2) evidence_of_agree [OF ag q(1)] by (auto simp: reviewable_def)
  have "validateReviewPacket env ef' p st = Inr ()"
    using validate_agree [OF assms(3) refl _ q(2)] q(1) m r(3) eq by simp
  then have "existing_packet env ef' a st (packet_path m) t = (Inr (Some p), t)"
    using r(4) eq by (simp add: stored_packet_Inr)
  then show ?thesis unfolding getReviewPacket_eq [OF rv] by (simp add: bindA_def)
qed

definition rev_files_after :: evidence_files where
  "rev_files_after = rev_files\<lparr>ef_stat := (\<lambda>p. if p = rev_packet_file then Inr (True, 4096) else Inr (True, 1)),
     ef_tree := (\<lambda>_. Inr [Tree_File ''review-packet.json''])\<rparr>"

theorem review_packet_stable_witness:
  "\<exists>p t. getReviewPacket rev_env rev_files ''job_1_a0001'' rev_state = (Inr p, t) \<and>
     getReviewPacket rev_env rev_files_after ''job_1_a0001'' t = (Inr p, t)"
proof -
  obtain p t where run: "getReviewPacket rev_env rev_files ''job_1_a0001'' rev_state = (Inr p, t)"
    and b: "\<forall>b \<in> set (rp_bindings p). eb_path b \<noteq> rev_packet_file" using rev_run by blast
  have rv: "reviewable rev_env rev_files ''job_1_a0001'' (rw_cond rev_state) rev_manifest rev_evidence"
    using rev_reviewable by (simp add: rev_state_def)
  have q: "packet_file_of rev_env (re_attemptDirectory rev_evidence) = rev_packet_file"
    by (simp add: packet_file_of_def rev_packet_file_def rev_evidence_def rev_dir_def posix_resolve_def)
  have same: "same_evidence rev_env (re_attemptDirectory rev_evidence) rev_files rev_files_after"
    unfolding same_evidence_def q by (simp add: agree_off_def rev_files_after_def without_packet_def)
  have "rev_packet_file \<notin> set (review_paths (re_jobPath rev_evidence) rev_manifest)"
    using rev_captured(3)
    by (simp add: review_paths_def rev_evidence_def rev_artifacts rev_packet_file_def rev_dir_def path_join_def)
  then have "packet_file_of rev_env (re_attemptDirectory rev_evidence) \<notin>
      set (review_paths (re_jobPath rev_evidence) rev_manifest @ map eb_path (rp_bindings p))"
    unfolding q using b by auto
  from review_packet_stable [OF run rv same this] run show ?thesis by blast
qed

text \<open>
  A fresh packet seals all the evidence. Every file that belongs to the evidence of the attempt (its records, its
  artifacts, the output of each setup and acceptance command, the patches of its lineage and the files of the worker's
  profile) is bound under its purpose with its current size and digest, and the packet passes the validation.
\<close>

theorem built_packet_complete:
  assumes "buildReviewPacket env ef st now = Inr p"
  shows "validateReviewPacket env ef p st = Inr () \<and>
    (\<forall>(target, purpose) \<in> set (requested_evidence st). truthy target \<longrightarrow>
       (\<exists>b \<in> set (rp_bindings p). eb_path b = resolve_path env (the target) \<and> purpose \<in> set (eb_purposes b) \<and>
          ef_stat ef (eb_path b) = Inr (True, eb_size b) \<and> ef_sha256 ef (eb_path b) = Inr (eb_sha256 b)))"
proof -
  note b = built_packet(2) [OF assms]
  have "\<exists>b \<in> set (rp_bindings p). eb_path b = resolve_path env (the target) \<and> purpose \<in> set (eb_purposes b) \<and>
          ef_stat ef (eb_path b) = Inr (True, eb_size b) \<and> ef_sha256 ef (eb_path b) = Inr (eb_sha256 b)"
    if t: "(target, purpose) \<in> set (requested_evidence st)" "truthy target" for target purpose
  proof -
    obtain e where "e \<in> set (rp_bindings p)" "eb_path e = resolve_path env (the target)" "purpose \<in> set (eb_purposes e)"
      using collected_bindings(2) [OF b t] by blast
    then show ?thesis using collected_bindings(1) [OF b] by blast
  qed
  then show ?thesis using built_packet(1) [OF assms] by blast
qed

theorem built_packet_complete_witness:
  "\<exists>p b. buildReviewPacket rev_env rev_files rev_evidence None = Inr p \<and> b \<in> set (rp_bindings p) \<and>
     eb_path b = ''/r/jobs/job_1/attempts/job_1_a0001/proposal.patch'' \<and> Ep_ProposalPatch \<in> set (eb_purposes b)"
proof -
  obtain p where p: "buildReviewPacket rev_env rev_files rev_evidence None = Inr p" using rev_built by blast
  have r: "(Some (path_join rev_dir ''proposal.patch''), Ep_ProposalPatch) \<in> set (requested_evidence rev_evidence)"
    by (simp add: rev_requested)
  have "resolve_path rev_env (path_join rev_dir ''proposal.patch'') = ''/r/jobs/job_1/attempts/job_1_a0001/proposal.patch''"
    by (simp add: rev_dir_def path_join_def posix_resolve_def)
  moreover have "truthy (Some (path_join rev_dir ''proposal.patch''))" by (simp add: truthy_def path_join_def)
  ultimately show ?thesis using built_packet_complete [OF p] r p by fastforce
qed

end
